(* ===== verification/Runir_Prelude.thy ===== *)
theory Runir_Prelude
  imports Complex_Main "HOL-Library.Sublist"
begin

text \<open>
  The prelude of the development: the JavaScript string operations the service uses, the
  first-occurrence deduplication of a JavaScript set, and the canonical-order filter idiom.

  A string is a list of characters and a character stands for one UTF-16 code unit in the range
  U+0000 to U+00FF. On that range \<open>length\<close> counts what \<open>String.prototype.length\<close> counts, and
  trimming, lower-casing and the UTF-8 length below are the ECMAScript ones. Code units above
  U+00FF are outside the model.
\<close>

section \<open>Collections of facts\<close>

named_theorems model_simps \<open>defining equations the component proofs unfold\<close>
named_theorems inv_intros \<open>preservation lemmas of the state invariants\<close>

section \<open>JavaScript strings\<close>

type_synonym jstr = string

definition code_unit :: "char \<Rightarrow> nat" where
  "code_unit c = of_char c"

text \<open>White space and line terminators, as \<open>trim\<close> and the class \<open>\s\<close> of a regular expression.\<close>

definition js_ws :: "char \<Rightarrow> bool" where
  "js_ws c = (let n = code_unit c in (9 \<le> n \<and> n \<le> 13) \<or> n = 32 \<or> n = 160)"

definition js_trim :: "jstr \<Rightarrow> jstr" where
  "js_trim s = rev (dropWhile js_ws (rev (dropWhile js_ws s)))"

definition js_lower_char :: "char \<Rightarrow> char" where
  "js_lower_char c =
     (let n = code_unit c in
      if (65 \<le> n \<and> n \<le> 90) \<or> (192 \<le> n \<and> n \<le> 222 \<and> n \<noteq> 215) then char_of (n + 32) else c)"

definition js_lower :: "jstr \<Rightarrow> jstr" where
  "js_lower = map js_lower_char"

text \<open>\<open>new TextEncoder().encode(s).length\<close>.\<close>

definition utf8_length :: "jstr \<Rightarrow> nat" where
  "utf8_length s = sum_list (map (\<lambda>c. if code_unit c < 128 then 1 else 2) s)"

text \<open>\<open>hay.includes(needle)\<close> and \<open>hay.indexOf(needle)\<close> (None for \<open>-1\<close>).\<close>

definition js_includes :: "jstr \<Rightarrow> jstr \<Rightarrow> bool" where
  "js_includes hay needle = sublist needle hay"

fun js_index_of :: "jstr \<Rightarrow> jstr \<Rightarrow> nat option" where
  "js_index_of hay needle =
     (if prefix needle hay then Some 0
      else (case hay of [] \<Rightarrow> None | _ # cs \<Rightarrow> map_option Suc (js_index_of cs needle)))"

declare js_index_of.simps [simp del]

text \<open>\<open>/\s+/g\<close> replaced by one blank.\<close>

function collapse_ws :: "jstr \<Rightarrow> jstr" where
  "collapse_ws [] = []"
| "collapse_ws (c # cs) =
     (if js_ws c then CHR '' '' # collapse_ws (dropWhile js_ws cs) else c # collapse_ws cs)"
  by pat_completeness auto
termination
  by (relation "measure length") (auto simp: le_imp_less_Suc length_dropWhile_le)

text \<open>Pieces of a string between single separator characters (\<open>s.split("x")\<close>).\<close>

fun split_char :: "char \<Rightarrow> jstr \<Rightarrow> jstr list" where
  "split_char d [] = [[]]"
| "split_char d (c # cs) =
     (if c = d then [] # split_char d cs
      else (case split_char d cs of [] \<Rightarrow> [[c]] | p # ps \<Rightarrow> (c # p) # ps))"

text \<open>\<open>parts.join(sep)\<close>.\<close>

fun js_join :: "jstr \<Rightarrow> jstr list \<Rightarrow> jstr" where
  "js_join sep [] = []"
| "js_join sep [p] = p"
| "js_join sep (p # q # ps) = p @ sep @ js_join sep (q # ps)"

text \<open>A string in a boolean context: only the empty string is false.\<close>

abbreviation truthy :: "jstr \<Rightarrow> bool" where
  "truthy s \<equiv> s \<noteq> []"

fun opt_truthy :: "jstr option \<Rightarrow> bool" where
  "opt_truthy None = False"
| "opt_truthy (Some s) = truthy s"

subsection \<open>Evaluation of character tests\<close>

text \<open>
  A test of a code unit is evaluated on the bits of the character, from the highest one on, and
  not on the number; the following are the equations for the tests above.
\<close>

definition char_le :: "char \<Rightarrow> char \<Rightarrow> bool" where
  "char_le c d = (code_unit c \<le> code_unit d)"

lemma bit_less: "(of_bool a + 2 * m < of_bool b + 2 * (n :: nat)) \<longleftrightarrow> m < n \<or> m = n \<and> \<not> a \<and> b"
  by (cases a; cases b; auto)

lemma bit_eq: "(of_bool a + 2 * m = of_bool b + 2 * (n :: nat)) \<longleftrightarrow> m = n \<and> a = b"
  by (cases a; cases b; simp; presburger)

lemma char_le_code [code]:
  "char_le (Char a0 a1 a2 a3 a4 a5 a6 a7) (Char b0 b1 b2 b3 b4 b5 b6 b7) =
     (if a7 \<noteq> b7 then b7 else if a6 \<noteq> b6 then b6 else if a5 \<noteq> b5 then b5 else if a4 \<noteq> b4 then b4
      else if a3 \<noteq> b3 then b3 else if a2 \<noteq> b2 then b2 else if a1 \<noteq> b1 then b1 else a0 \<longrightarrow> b0)"
  unfolding char_le_def code_unit_def not_less [symmetric]
  by (simp only: of_char_Char horner_sum_simps bit_less bit_eq mult_0_right add_0_right)
    (auto simp: of_bool_def split: if_splits)

lemma code_unit_eq [code_unfold]: "(code_unit c = code_unit d) = (c = d)"
  by (simp add: code_unit_def)

lemma code_unit_less [code_unfold]: "(code_unit c < code_unit d) = (\<not> char_le d c)"
  by (auto simp: char_le_def)

lemma code_unit_const:
  "code_unit c = 10 \<longleftrightarrow> c = CHR 0x0A" "code_unit c = 13 \<longleftrightarrow> c = CHR 0x0D"
  "code_unit c < 32 \<longleftrightarrow> \<not> char_le (CHR '' '') c" "code_unit c < 128 \<longleftrightarrow> \<not> char_le (CHR 0x80) c"
  by (auto simp: char_le_def code_unit_def of_char_eq_iff [symmetric, where ?'a = nat])

lemmas code_unit_tests [code_unfold] = code_unit_const

lemma js_ws_code [code]:
  "js_ws c = (char_le (CHR 0x09) c \<and> char_le c (CHR 0x0D) \<or> c = CHR '' '' \<or> c = CHR 0xA0)"
  by (auto simp: js_ws_def char_le_def code_unit_def Let_def of_char_eq_iff [symmetric, where ?'a = nat])

fun raised :: "char \<Rightarrow> char" where
  "raised (Char b0 b1 b2 b3 b4 b5 b6 b7) = Char b0 b1 b2 b3 b4 True b6 b7"

lemma js_lower_char_code [code]:
  "js_lower_char c =
     (if char_le (CHR ''A'') c \<and> char_le c (CHR ''Z'')
         \<or> char_le (CHR 0xC0) c \<and> char_le c (CHR 0xDE) \<and> c \<noteq> CHR 0xD7 then raised c else c)"
proof -
  have "char_of (code_unit c + 32) = raised c"
    if "char_le (CHR ''A'') c \<and> char_le c (CHR ''Z'') \<or> char_le (CHR 0xC0) c \<and> char_le c (CHR 0xDE)"
  proof (cases c)
    case (Char b0 b1 b2 b3 b4 b5 b6 b7)
    have "\<not> b5" using that unfolding Char char_le_code by (auto split: if_splits)
    then have "code_unit c + 32 = code_unit (raised c)" by (simp add: Char code_unit_def)
    then show ?thesis by (simp add: code_unit_def)
  qed
  moreover have "code_unit c = 215 \<longleftrightarrow> c = CHR 0xD7"
    by (simp add: code_unit_def of_char_eq_iff [symmetric, where ?'a = nat])
  ultimately show ?thesis
    by (auto simp: js_lower_char_def Let_def char_le_def) (simp_all add: char_le_def code_unit_def)
qed

subsection \<open>Facts about the string operations\<close>

lemma dropWhile_ws_idem: "dropWhile P (dropWhile P xs) = dropWhile P xs"
  by (induction xs) auto

lemma hd_dropWhile_not: "dropWhile P xs \<noteq> [] \<Longrightarrow> \<not> P (hd (dropWhile P xs))"
  by (induction xs) auto

lemma dropWhile_no_hd: "xs = [] \<or> \<not> P (hd xs) \<Longrightarrow> dropWhile P xs = xs"
  by (cases xs) auto

lemma js_trim_ends:
  assumes "js_trim s \<noteq> []"
  shows "\<not> js_ws (hd (js_trim s))" and "\<not> js_ws (last (js_trim s))"
proof -
  let ?t = "dropWhile js_ws s"
  let ?r = "dropWhile js_ws (rev ?t)"
  have trim: "js_trim s = rev ?r" by (simp add: js_trim_def)
  with assms have ne: "?r \<noteq> []" by simp
  have last: "last (js_trim s) = hd ?r" by (simp add: trim last_rev)
  show "\<not> js_ws (last (js_trim s))"
    unfolding last using ne by (rule hd_dropWhile_not)
  obtain ys where split: "rev ?t = ys @ ?r"
    by (metis takeWhile_dropWhile_id)
  then have "?t = rev ?r @ rev ys"
    by (metis rev_append rev_rev_ident)
  moreover from this ne have "?t \<noteq> []" by (metis append_is_Nil_conv rev_is_Nil_conv)
  ultimately have "hd (js_trim s) = hd ?t"
    using ne trim by (metis hd_append2 rev_is_Nil_conv)
  then show "\<not> js_ws (hd (js_trim s))"
    using \<open>?t \<noteq> []\<close> hd_dropWhile_not by metis
qed

lemma js_trim_id: "s = [] \<or> (\<not> js_ws (hd s) \<and> \<not> js_ws (last s)) \<Longrightarrow> js_trim s = s"
  by (cases "s = []") (auto simp: js_trim_def dropWhile_no_hd hd_rev)

lemma js_trim_idem [simp]: "js_trim (js_trim s) = js_trim s"
  by (cases "js_trim s = []") (simp_all add: js_trim_id js_trim_ends)

lemma js_trim_Nil [simp]: "js_trim [] = []"
  by (simp add: js_trim_def)

lemma length_js_trim: "length (js_trim s) \<le> length s"
  by (simp add: js_trim_def) (metis length_dropWhile_le length_rev order_trans)

lemma set_js_trim: "set (js_trim s) \<subseteq> set s"
  by (simp add: js_trim_def) (metis set_dropWhileD set_rev subsetI)

lemma length_js_lower [simp]: "length (js_lower s) = length s"
  by (simp add: js_lower_def)

lemma length_le_utf8: "length s \<le> utf8_length s"
  unfolding utf8_length_def by (induction s) auto

lemma utf8_length_le: "utf8_length s \<le> 2 * length s"
  unfolding utf8_length_def by (induction s) auto

lemma js_includes_refl [simp]: "js_includes s s"
  by (simp add: js_includes_def)

lemma js_includes_antisym: "js_includes a b \<Longrightarrow> js_includes b a \<Longrightarrow> a = b"
  unfolding js_includes_def by (rule sublist_order.order_antisym)

lemma js_index_of_Some:
  "js_index_of hay needle = Some i \<Longrightarrow>
     i + length needle \<le> length hay \<and> take (length needle) (drop i hay) = needle"
proof (induction hay arbitrary: i)
  case Nil
  then show ?case by (auto simp: js_index_of.simps split: if_splits)
next
  case (Cons c cs)
  show ?case
  proof (cases "prefix needle (c # cs)")
    case True
    with Cons.prems have "i = 0" by (simp add: js_index_of.simps)
    moreover have "length needle \<le> length (c # cs)"
      using True by (rule prefix_length_le)
    ultimately show ?thesis using True by (auto simp: prefix_def)
  next
    case False
    with Cons.prems obtain k where "js_index_of cs needle = Some k" "i = Suc k"
      by (auto simp: js_index_of.simps [of "c # cs"])
    with Cons.IH show ?thesis by auto
  qed
qed

lemma js_index_of_None: "js_index_of hay needle = None \<longleftrightarrow> \<not> js_includes hay needle"
  by (induction hay) (auto simp: js_index_of.simps js_includes_def sublist_Cons_right)

section \<open>First-occurrence deduplication: \<open>[...new Set(xs)]\<close>\<close>

definition js_uniq :: "'a list \<Rightarrow> 'a list" where
  "js_uniq xs = rev (remdups (rev xs))"

lemma set_js_uniq [simp]: "set (js_uniq xs) = set xs"
  by (simp add: js_uniq_def)

lemma distinct_js_uniq [simp]: "distinct (js_uniq xs)"
  by (simp add: js_uniq_def)

lemma js_uniq_distinct: "distinct xs \<Longrightarrow> js_uniq xs = xs"
  by (simp add: js_uniq_def distinct_remdups_id)

lemma length_js_uniq_eq: "length (js_uniq xs) = length xs \<longleftrightarrow> distinct xs"
  by (metis distinct_js_uniq js_uniq_distinct set_js_uniq card_distinct distinct_card)

lemma js_uniq_Nil_iff [simp]: "js_uniq xs = [] \<longleftrightarrow> xs = []"
  by (simp add: js_uniq_def)

section \<open>Canonical-order filters\<close>

text \<open>
  The code canonicalises a set of enumeration values by filtering the enumeration's own list:
  \<open>ALL.filter((x) => set.has(x))\<close>. The interface is the list of all values without repetition;
  every fact a client needs about the result is proved here once.
\<close>

locale canonical_enum =
  fixes universe :: "'a list"
  assumes distinct_universe: "distinct universe"
begin

lemma canon_distinct: "distinct (filter P universe)"
  using distinct_universe by simp

lemma canon_set: "S \<subseteq> set universe \<Longrightarrow> set (filter (\<lambda>x. x \<in> S) universe) = S"
  by auto

lemma canon_idem:
  "filter (\<lambda>x. x \<in> set (filter P universe)) universe = filter P universe"
  by (rule filter_cong) auto

lemma canon_ext:
  "S \<inter> set universe = T \<inter> set universe \<Longrightarrow>
     filter (\<lambda>x. x \<in> S) universe = filter (\<lambda>x. x \<in> T) universe"
  by (rule filter_cong) auto

lemma canon_length: "length (filter P universe) \<le> length universe"
  by (rule length_filter_le)

end

section \<open>Scans that keep the best element\<close>

text \<open>
  A loop that keeps the best qualifying element of a list, the earliest among equals. The
  interface is the law of one step on the kept element; the facts about the whole loop are
  proved from it.
\<close>

locale best_scan =
  fixes step :: "'s \<Rightarrow> 'c \<Rightarrow> 's"
    and best :: "'s \<Rightarrow> 't option"
    and qualifies :: "'c \<Rightarrow> 't option"
    and score :: "'t \<Rightarrow> real"
  assumes step_best:
    "best (step s c) =
       (case qualifies c of
          None \<Rightarrow> best s
        | Some t \<Rightarrow> if best s = None \<or> score t > score (the (best s)) then Some t else best s)"
begin

lemma scan_from:
  "best (foldl step s cs) = Some t \<Longrightarrow> best s = Some t \<or> (\<exists>c\<in>set cs. qualifies c = Some t)"
  by (induction cs arbitrary: s) (fastforce simp: step_best split: option.splits if_splits)+

lemma step_keeps: "best s = Some t \<Longrightarrow> \<exists>t'. best (step s c) = Some t' \<and> score t \<le> score t'"
  by (cases "qualifies c") (auto simp: step_best)

lemma step_qualifies:
  "qualifies c = Some t \<Longrightarrow> \<exists>t'. best (step s c) = Some t' \<and> score t \<le> score t'"
  by (cases "best s") (auto simp: step_best)

lemma scan_keeps:
  "best s = Some t \<Longrightarrow> \<exists>t'. best (foldl step s cs) = Some t' \<and> score t \<le> score t'"
proof (induction cs arbitrary: s t)
  case (Cons c cs)
  obtain t1 where t1: "best (step s c) = Some t1" "score t \<le> score t1"
    using step_keeps [OF Cons.prems] by blast
  from Cons.IH [OF t1(1)] t1(2) show ?case by fastforce
qed simp

lemma scan_max:
  "c \<in> set cs \<Longrightarrow> qualifies c = Some t \<Longrightarrow>
     \<exists>t'. best (foldl step s cs) = Some t' \<and> score t \<le> score t'"
proof (induction cs arbitrary: s)
  case (Cons d ds)
  show ?case
  proof (cases "c = d")
    case True
    with Cons.prems obtain t1 where t1: "best (step s d) = Some t1" "score t \<le> score t1"
      using step_qualifies by blast
    from scan_keeps [OF t1(1), of ds] t1(2) show ?thesis by fastforce
  next
    case False
    with Cons show ?thesis by simp
  qed
qed simp

lemma scan_none: "best s = None \<Longrightarrow> (best (foldl step s cs) = None) = (\<forall>c\<in>set cs. qualifies c = None)"
proof
  assume none: "best (foldl step s cs) = None"
  show "\<forall>c\<in>set cs. qualifies c = None"
  proof (rule ballI, rule ccontr)
    fix c assume "c \<in> set cs" and "qualifies c \<noteq> None"
    with scan_max [of c cs _ s] none show False by auto
  qed
next
  assume "best s = None" and "\<forall>c\<in>set cs. qualifies c = None"
  then show "best (foldl step s cs) = None"
    by (induction cs arbitrary: s) (auto simp: step_best)
qed

end

section \<open>Sorting with a comparator\<close>

text \<open>\<open>xs.sort(cmp)\<close>: a stable sort, the comparator's sign deciding the order.\<close>

fun insort_cmp :: "('a \<Rightarrow> 'a \<Rightarrow> int) \<Rightarrow> 'a \<Rightarrow> 'a list \<Rightarrow> 'a list" where
  "insort_cmp cmp x [] = [x]"
| "insort_cmp cmp x (y # ys) = (if cmp x y \<le> 0 then x # y # ys else y # insort_cmp cmp x ys)"

definition js_sort :: "('a \<Rightarrow> 'a \<Rightarrow> int) \<Rightarrow> 'a list \<Rightarrow> 'a list" where
  "js_sort cmp xs = foldr (insort_cmp cmp) xs []"

lemma set_insort_cmp [simp]: "set (insort_cmp cmp x ys) = insert x (set ys)"
  by (induction ys) auto

lemma set_js_sort [simp]: "set (js_sort cmp xs) = set xs"
  unfolding js_sort_def by (induction xs) auto

lemma length_insort_cmp [simp]: "length (insort_cmp cmp x ys) = Suc (length ys)"
  by (induction ys) auto

lemma length_js_sort [simp]: "length (js_sort cmp xs) = length xs"
  unfolding js_sort_def by (induction xs) auto

section \<open>Normalised text\<close>

text \<open>\<open>normalizeText\<close> of \<open>text-normalize.ts\<close>: white space collapsed, trimmed, lower-cased.\<close>

definition normalizeText :: "jstr \<Rightarrow> jstr" where
  "normalizeText text = js_lower (js_trim (collapse_ws text))"

lemma js_ws_space [simp]: "js_ws (CHR '' '')"
  by code_simp

lemma js_lower_ws: "js_ws c \<Longrightarrow> js_lower_char c = c"
  by (auto simp: js_ws_def js_lower_char_def Let_def)

end
