(* ===== verification/Js_Regex.thy ===== *)
theory Js_Regex
  imports Runir_Prelude
begin

text \<open>
  The regular expressions of ECMAScript, as far as the service uses them: a syntax tree and a
  backtracking matcher that returns every way a pattern can match from a position, in the order
  in which the engine tries them. The first element of the list is the match the engine reports,
  so greedy quantifiers, ordered alternatives, look-around and captures mean what they mean in
  the source. The operations \<open>test\<close>, \<open>exec\<close>, \<open>match\<close> with the global flag, \<open>replace\<close> and
  \<open>split\<close> are built on it.
\<close>

section \<open>Syntax\<close>

datatype re =
    Chr "char \<Rightarrow> bool"
  | Eps
  | Seq re re
  | Alt re re
  | Star re
  | WordB
  | LineStart
  | TextEnd
  | Ahead re
  | NotAhead re
  | Behind "char \<Rightarrow> bool"
  | NotBehind "char \<Rightarrow> bool"
  | Group nat re

section \<open>The matcher\<close>

text \<open>
  A matcher state is the text to the left of the position (reversed), the text to the right of
  it, and the captures, the latest first.
\<close>

type_synonym caps = "(nat \<times> jstr) list"
type_synonym mstate = "jstr \<times> jstr \<times> caps"

abbreviation rest_of :: "mstate \<Rightarrow> jstr" where
  "rest_of m \<equiv> fst (snd m)"

definition digit_char :: "char \<Rightarrow> bool" where
  "digit_char c = (let n = code_unit c in 48 \<le> n \<and> n \<le> 57)"

definition lower_char :: "char \<Rightarrow> bool" where
  "lower_char c = (let n = code_unit c in 97 \<le> n \<and> n \<le> 122)"

definition upper_char :: "char \<Rightarrow> bool" where
  "upper_char c = (let n = code_unit c in 65 \<le> n \<and> n \<le> 90)"

lemma char_class_code [code]:
  "digit_char c = (char_le (CHR ''0'') c \<and> char_le c (CHR ''9''))"
  "lower_char c = (char_le (CHR ''a'') c \<and> char_le c (CHR ''z''))"
  "upper_char c = (char_le (CHR ''A'') c \<and> char_le c (CHR ''Z''))"
  by (simp_all add: digit_char_def lower_char_def upper_char_def char_le_def code_unit_def Let_def)

text \<open>\<open>\w\<close>\<close>

definition word_char :: "char \<Rightarrow> bool" where
  "word_char c = (digit_char c \<or> lower_char c \<or> upper_char c \<or> c = CHR ''_'')"

definition word_at :: "jstr \<Rightarrow> bool" where
  "word_at s = (case s of [] \<Rightarrow> False | c # _ \<Rightarrow> word_char c)"

text \<open>
  A greedy star. An iteration that consumes nothing is refused, as the specification refuses
  it, so the length of the rest bounds the number of iterations and serves as fuel.
\<close>

fun star_ends :: "nat \<Rightarrow> (mstate \<Rightarrow> mstate list) \<Rightarrow> mstate \<Rightarrow> mstate list" where
  "star_ends 0 f m = []"
| "star_ends (Suc n) f m =
     concat (map (\<lambda>m'. if length (rest_of m') < length (rest_of m) then star_ends n f m' else [])
                 (f m)) @ [m]"

primrec ends :: "re \<Rightarrow> mstate \<Rightarrow> mstate list" where
  "ends (Chr P) = (\<lambda>(l, s, c). case s of [] \<Rightarrow> [] | x # xs \<Rightarrow> if P x then [(x # l, xs, c)] else [])"
| "ends Eps = (\<lambda>m. [m])"
| "ends (Seq a b) = (\<lambda>m. concat (map (ends b) (ends a m)))"
| "ends (Alt a b) = (\<lambda>m. ends a m @ ends b m)"
| "ends (Star a) = (\<lambda>m. star_ends (Suc (length (rest_of m))) (ends a) m)"
| "ends WordB = (\<lambda>(l, s, c). if word_at l \<noteq> word_at s then [(l, s, c)] else [])"
| "ends LineStart =
     (\<lambda>(l, s, c). case l of [] \<Rightarrow> [(l, s, c)]
        | x # _ \<Rightarrow> if code_unit x = 10 \<or> code_unit x = 13 then [(l, s, c)] else [])"
| "ends TextEnd = (\<lambda>(l, s, c). if s = [] then [(l, s, c)] else [])"
| "ends (Ahead a) =
     (\<lambda>(l, s, c). case ends a (l, s, c) of [] \<Rightarrow> [] | (_, _, c') # _ \<Rightarrow> [(l, s, c')])"
| "ends (NotAhead a) = (\<lambda>m. if ends a m = [] then [m] else [])"
| "ends (Behind P) = (\<lambda>(l, s, c). case l of [] \<Rightarrow> [] | x # _ \<Rightarrow> if P x then [(l, s, c)] else [])"
| "ends (NotBehind P) =
     (\<lambda>(l, s, c). case l of [] \<Rightarrow> [(l, s, c)] | x # _ \<Rightarrow> if P x then [] else [(l, s, c)])"
| "ends (Group n a) =
     (\<lambda>(l, s, c). map (\<lambda>(l', s', c'). (l', s', (n, take (length s - length s') s) # c'))
                      (ends a (l, s, c)))"

subsection \<open>Derived patterns\<close>

definition ch :: "char \<Rightarrow> re" where
  "ch d = Chr ((=) d)"

fun lit :: "jstr \<Rightarrow> re" where
  "lit [] = Eps"
| "lit (d # ds) = Seq (ch d) (lit ds)"

text \<open>A literal under the flag \<open>i\<close>.\<close>

definition same_letter :: "char \<Rightarrow> char \<Rightarrow> bool" where
  "same_letter d x = (js_lower_char x = js_lower_char d)"

fun lit_ci :: "jstr \<Rightarrow> re" where
  "lit_ci [] = Eps"
| "lit_ci (d # ds) = Seq (Chr (same_letter d)) (lit_ci ds)"

fun alts :: "re list \<Rightarrow> re" where
  "alts [] = Chr (\<lambda>_. False)"
| "alts [r] = r"
| "alts (r # q # rs) = Alt r (alts (q # rs))"

fun seqs :: "re list \<Rightarrow> re" where
  "seqs [] = Eps"
| "seqs (r # rs) = Seq r (seqs rs)"

definition opt :: "re \<Rightarrow> re" where
  "opt r = Alt r Eps"

definition plus :: "re \<Rightarrow> re" where
  "plus r = Seq r (Star r)"

primrec times_re :: "nat \<Rightarrow> re \<Rightarrow> re" where
  "times_re 0 r = Eps"
| "times_re (Suc n) r = Seq r (times_re n r)"

primrec upto_re :: "nat \<Rightarrow> re \<Rightarrow> re" where
  "upto_re 0 r = Eps"
| "upto_re (Suc n) r = Alt (Seq r (upto_re n r)) Eps"

text \<open>\<open>r{m,n}\<close>\<close>

definition between_re :: "nat \<Rightarrow> nat \<Rightarrow> re \<Rightarrow> re" where
  "between_re m n r = Seq (times_re m r) (upto_re (n - m) r)"

text \<open>\<open>^\<close> without the flag \<open>m\<close>: the start of the text.\<close>

definition text_start :: re where
  "text_start = NotBehind (\<lambda>_. True)"

abbreviation digit_re :: re where "digit_re \<equiv> Chr digit_char"
abbreviation word_re :: re where "word_re \<equiv> Chr word_char"
abbreviation ws_re :: re where "ws_re \<equiv> Chr js_ws"

section \<open>Operations\<close>

text \<open>The leftmost match at or after a position: where it starts, and the state it ends in.\<close>

fun find_from :: "re \<Rightarrow> jstr \<Rightarrow> jstr \<Rightarrow> ((jstr \<times> jstr) \<times> mstate) option" where
  "find_from r l [] = (case ends r (l, [], []) of [] \<Rightarrow> None | m # _ \<Rightarrow> Some ((l, []), m))"
| "find_from r l (x # xs) =
     (case ends r (l, x # xs, []) of
        [] \<Rightarrow> find_from r (x # l) xs
      | m # _ \<Rightarrow> Some ((l, x # xs), m))"

text \<open>\<open>re.test(s)\<close>\<close>

definition re_test :: "re \<Rightarrow> jstr \<Rightarrow> bool" where
  "re_test r s = (find_from r [] s \<noteq> None)"

text \<open>\<open>re.exec(s)\<close>: the matched text and the captures.\<close>

definition re_exec :: "re \<Rightarrow> jstr \<Rightarrow> (jstr \<times> caps) option" where
  "re_exec r s =
     map_option (\<lambda>((l, s0), (l', s1, c)). (take (length s0 - length s1) s0, c)) (find_from r [] s)"

definition cap :: "caps \<Rightarrow> nat \<Rightarrow> jstr option" where
  "cap c n = map_of c n"

text \<open>All matches of a global pattern; an empty match advances by one character.\<close>

fun match_all_from :: "nat \<Rightarrow> re \<Rightarrow> jstr \<Rightarrow> jstr \<Rightarrow> (jstr \<times> caps) list" where
  "match_all_from 0 r l s = []"
| "match_all_from (Suc n) r l s =
     (case find_from r l s of
        None \<Rightarrow> []
      | Some ((l0, s0), (l1, s1, c)) \<Rightarrow>
          (take (length s0 - length s1) s0, c) #
          (if length s1 < length s0 then match_all_from n r l1 s1
           else (case s1 of [] \<Rightarrow> [] | x # xs \<Rightarrow> match_all_from n r (x # l1) xs)))"

definition match_all :: "re \<Rightarrow> jstr \<Rightarrow> (jstr \<times> caps) list" where
  "match_all r s = match_all_from (Suc (length s)) r [] s"

text \<open>\<open>s.replace(re, text)\<close> without and with the global flag.\<close>

definition replace_first :: "re \<Rightarrow> (caps \<Rightarrow> jstr) \<Rightarrow> jstr \<Rightarrow> jstr" where
  "replace_first r f s =
     (case find_from r [] s of
        None \<Rightarrow> s
      | Some ((l0, s0), (l1, s1, c)) \<Rightarrow> rev l0 @ f c @ s1)"

fun replace_all_from :: "nat \<Rightarrow> re \<Rightarrow> jstr \<Rightarrow> jstr \<Rightarrow> jstr \<Rightarrow> jstr" where
  "replace_all_from 0 r w l s = s"
| "replace_all_from (Suc n) r w l s =
     (case find_from r l s of
        None \<Rightarrow> s
      | Some ((l0, s0), (l1, s1, c)) \<Rightarrow>
          take (length s - length s0) s @ w @
          (if length s1 < length s0 then replace_all_from n r w l1 s1
           else (case s1 of [] \<Rightarrow> [] | x # xs \<Rightarrow> x # replace_all_from n r w (x # l1) xs)))"

definition replace_all :: "re \<Rightarrow> jstr \<Rightarrow> jstr \<Rightarrow> jstr" where
  "replace_all r w s = replace_all_from (Suc (length s)) r w [] s"

text \<open>\<open>s.split(re)\<close> for a pattern without captures, following the specification's loop.\<close>

fun split_from :: "nat \<Rightarrow> re \<Rightarrow> jstr \<Rightarrow> jstr \<Rightarrow> jstr \<Rightarrow> jstr list" where
  "split_from 0 r l acc s = [rev acc @ s]"
| "split_from (Suc n) r l acc [] = [rev acc]"
| "split_from (Suc n) r l acc (x # xs) =
     (case ends r (l, x # xs, []) of
        [] \<Rightarrow> split_from n r (x # l) (x # acc) xs
      | (l1, s1, _) # _ \<Rightarrow>
          (if acc = [] \<and> length s1 = Suc (length xs) then split_from n r (x # l) (x # acc) xs
           else rev acc # split_from n r l1 [] s1))"

definition re_split :: "re \<Rightarrow> jstr \<Rightarrow> jstr list" where
  "re_split r s =
     (if s = [] then (if ends r ([], [], []) = [] then [[]] else [])
      else split_from (Suc (2 * length s)) r [] [] s)"

section \<open>Facts\<close>

text \<open>Soundness: a match consumes a prefix of the rest and moves it to the left.\<close>

definition consumes :: "mstate \<Rightarrow> mstate \<Rightarrow> bool" where
  "consumes m m' = (\<exists>u. rest_of m = u @ rest_of m' \<and> fst m' = rev u @ fst m)"

lemma consumes_refl [simp, intro]: "consumes m m"
  by (simp add: consumes_def)

lemma consumes_trans: "consumes a b \<Longrightarrow> consumes b c \<Longrightarrow> consumes a c"
proof -
  assume "consumes a b" and "consumes b c"
  then obtain u v where "rest_of a = u @ rest_of b" "fst b = rev u @ fst a"
    and "rest_of b = v @ rest_of c" "fst c = rev v @ fst b"
    by (auto simp: consumes_def)
  then have "rest_of a = (u @ v) @ rest_of c \<and> fst c = rev (u @ v) @ fst a" by simp
  then show "consumes a c" unfolding consumes_def by blast
qed

lemma consumes_length: "consumes m m' \<Longrightarrow> length (rest_of m') \<le> length (rest_of m)"
  by (auto simp: consumes_def)

lemma consumes_text: "consumes m m' \<Longrightarrow> rev (fst m') @ rest_of m' = rev (fst m) @ rest_of m"
  by (auto simp: consumes_def)

lemma star_ends_sound:
  assumes "\<And>m m'. m' \<in> set (f m) \<Longrightarrow> consumes m m'"
  shows "m' \<in> set (star_ends n f m) \<Longrightarrow> consumes m m'"
proof (induction n arbitrary: m)
  case 0
  then show ?case by simp
next
  case (Suc n)
  then consider "m' = m" | m1 where "m1 \<in> set (f m)" "m' \<in> set (star_ends n f m1)"
    by (auto split: if_splits)
  then show ?case
  proof cases
    case 1
    then show ?thesis by simp
  next
    case 2
    then show ?thesis using assms Suc.IH consumes_trans by blast
  qed
qed

lemma consumes_captures [simp]: "consumes (l, s, c) (l', s', c') = consumes (l, s, d) (l', s', d')"
  by (simp add: consumes_def)

lemma ends_sound: "m' \<in> set (ends r m) \<Longrightarrow> consumes m m'"
proof (induction r arbitrary: m m')
  case (Chr P)
  then show ?case
    by (cases m) (auto simp: consumes_def split: list.splits if_splits)
next
  case (Seq a b)
  then obtain m1 where "m1 \<in> set (ends a m)" "m' \<in> set (ends b m1)" by auto
  then show ?case using Seq.IH consumes_trans by blast
next
  case (Star a)
  have "consumes m m'" if "m' \<in> set (ends a m)" for m m' using Star.IH that by blast
  moreover have "m' \<in> set (star_ends (Suc (length (rest_of m))) (ends a) m)"
    using Star.prems by (simp del: star_ends.simps)
  ultimately show ?case by (rule star_ends_sound)
next
  case LineStart
  obtain l s c where "m = (l, s, c)" by (cases m)
  with LineStart show ?case by (cases l) (auto split: if_splits)
next
  case (Behind P)
  obtain l s c where "m = (l, s, c)" by (cases m)
  with Behind show ?case by (cases l) (auto split: if_splits)
next
  case (NotBehind P)
  obtain l s c where "m = (l, s, c)" by (cases m)
  with NotBehind show ?case by (cases l) (auto split: if_splits)
next
  case (Ahead a)
  then show ?case
    by (cases m) (auto simp: consumes_def split: list.splits)
next
  case (Group n a)
  obtain l s c where m: "m = (l, s, c)" by (cases m)
  with Group.prems obtain l' s' c' d
    where "(l', s', c') \<in> set (ends a m)" and m': "m' = (l', s', d)"
    by auto
  with Group.IH have "consumes m (l', s', c')" by blast
  then show ?case by (simp add: m m' consumes_def)
qed (auto split: if_splits)

text \<open>The fuel of a star is enough: any larger amount gives the same matches.\<close>

lemma star_ends_enough:
  "length (rest_of m) < n \<Longrightarrow> length (rest_of m) < k \<Longrightarrow> star_ends n f m = star_ends k f m"
proof (induction n arbitrary: m k)
  case 0
  then show ?case by simp
next
  case (Suc n)
  then obtain j where k: "k = Suc j" by (cases k) auto
  have "star_ends n f m' = star_ends j f m'" if "length (rest_of m') < length (rest_of m)" for m'
    using Suc that k by (intro Suc.IH) auto
  then show ?case by (simp add: k) (auto intro!: arg_cong [where f = concat] map_cong)
qed

lemma ends_Star: "ends (Star a) m = star_ends (Suc (length (rest_of m))) (ends a) m"
  by (simp del: star_ends.simps)

lemma ends_Star_unfold:
  "ends (Star a) m =
     concat (map (\<lambda>m'. if length (rest_of m') < length (rest_of m) then ends (Star a) m' else [])
                 (ends a m)) @ [m]"
proof -
  have "(if length (rest_of m') < length (rest_of m)
           then star_ends (length (rest_of m)) (ends a) m' else [])
      = (if length (rest_of m') < length (rest_of m) then ends (Star a) m' else [])" for m'
    unfolding ends_Star by (auto intro: star_ends_enough simp del: star_ends.simps)
  then show ?thesis
    unfolding ends_Star [of a m] star_ends.simps(2) by presburger
qed

lemma ends_lit:
  "ends (lit w) (l, s, c) = (if prefix w s then [(rev w @ l, drop (length w) s, c)] else [])"
proof (induction w arbitrary: l s)
  case Nil
  then show ?case by simp
next
  case (Cons d ds)
  then show ?case by (cases s) (auto simp: ch_def)
qed

text \<open>A test succeeds exactly when the pattern matches at some position.\<close>

lemma find_from_None:
  "find_from r l s = None \<longleftrightarrow> (\<forall>u v. s = u @ v \<longrightarrow> ends r (rev u @ l, v, []) = [])"
proof (induction s arbitrary: l)
  case Nil
  then show ?case by (auto split: list.splits)
next
  case (Cons x xs)
  show ?case (is "?L = ?R")
  proof
    assume L: ?L
    then have here: "ends r (l, x # xs, []) = []" and later: "find_from r (x # l) xs = None"
      by (auto split: list.splits)
    show ?R
    proof (intro allI impI)
      fix u v assume "x # xs = u @ v"
      then show "ends r (rev u @ l, v, []) = []"
        using here later Cons.IH by (cases u) (auto simp del: find_from.simps)
    qed
  next
    assume R: ?R
    then have "ends r (l, x # xs, []) = []" by (metis append_Nil rev.simps(1))
    moreover have "find_from r (x # l) xs = None"
      unfolding Cons.IH
    proof (intro allI impI)
      fix u v assume "xs = u @ v"
      then have "x # xs = (x # u) @ v" by simp
      with R have "ends r (rev (x # u) @ l, v, []) = []" by blast
      then show "ends r (rev u @ x # l, v, []) = []" by simp
    qed
    ultimately show ?L by simp
  qed
qed

lemma re_test_iff: "re_test r s \<longleftrightarrow> (\<exists>u v. s = u @ v \<and> ends r (rev u, v, []) \<noteq> [])"
  unfolding re_test_def find_from_None by simp

lemma re_test_lit: "re_test (lit w) s \<longleftrightarrow> js_includes s w"
  by (auto simp: re_test_iff ends_lit js_includes_def sublist_def prefix_def split: if_splits)

text \<open>A word pattern between boundaries never matches a text that does not contain the word.\<close>

lemma re_test_word_includes:
  "re_test (Seq WordB (Seq (lit w) WordB)) s \<Longrightarrow> js_includes s w"
  by (auto simp: re_test_iff ends_lit js_includes_def sublist_def prefix_def split: if_splits)

lemma find_from_sound:
  "find_from r l s = Some ((l0, s0), m) \<Longrightarrow>
     (\<exists>u. s = u @ s0 \<and> l0 = rev u @ l) \<and> m \<in> set (ends r (l0, s0, []))"
proof (induction s arbitrary: l)
  case Nil
  then show ?case by (auto split: list.splits)
next
  case (Cons x xs)
  show ?case
  proof (cases "ends r (l, x # xs, [])")
    case Nil
    with Cons have "(\<exists>u. xs = u @ s0 \<and> l0 = rev u @ x # l) \<and> m \<in> set (ends r (l0, s0, []))"
      by auto
    then show ?thesis by (metis append_Cons append_assoc rev.simps(2) append_Nil)
  next
    case (Cons m' ms)
    with \<open>find_from r l (x # xs) = Some ((l0, s0), m)\<close> show ?thesis by auto
  qed
qed

text \<open>The matches of a global pattern are texts of the subject.\<close>

lemma match_all_from_includes:
  "(t, c) \<in> set (match_all_from n r l s) \<Longrightarrow> js_includes s t"
proof (induction n arbitrary: l s)
  case 0
  then show ?case by simp
next
  case (Suc n)
  show ?case
  proof (cases "find_from r l s")
    case None
    with Suc.prems show ?thesis by simp
  next
    case (Some res)
    obtain l0 s0 l1 s1 d where res: "res = ((l0, s0), (l1, s1, d))" by (metis prod.collapse)
    from find_from_sound [of r l s l0 s0 "(l1, s1, d)"] Some res
    obtain u where s: "s = u @ s0" and "(l1, s1, d) \<in> set (ends r (l0, s0, []))" by auto
    then have "consumes (l0, s0, []) (l1, s1, d)" by (auto dest: ends_sound)
    then obtain w where s0: "s0 = w @ s1" by (auto simp: consumes_def)
    have head: "js_includes s (take (length s0 - length s1) s0)"
      by (auto simp: s s0 js_includes_def sublist_def)
    have tail: "js_includes s t" if "js_includes s1 t" for t
      using that by (auto simp: s s0 js_includes_def sublist_def) (metis append_assoc)
    have tail': "js_includes s t" if "s1 = x # xs" "js_includes xs t" for x xs t
      using that by (intro tail) (auto simp: js_includes_def sublist_Cons_right)
    from Suc.prems Some res head show ?thesis
      by (auto split: if_splits list.splits dest!: Suc.IH intro: tail tail')
  qed
qed

lemma match_all_includes: "(t, c) \<in> set (match_all r s) \<Longrightarrow> js_includes s t"
  unfolding match_all_def by (rule match_all_from_includes)

end
