(* ===== verification/Js_Value.thy ===== *)
theory Js_Value
  imports Js_Regex
begin

text \<open>
  Values of unknown shape, as the validators receive them: JSON data, and the JavaScript values
  that are no JSON (undefined, other objects, non-finite numbers). An object is the list of its
  own data properties, with a flag that says whether its prototype is \<open>Object.prototype\<close> or null;
  getters with side effects and sparse arrays are outside the model. A number is a real number,
  \<open>NaN\<close> or an infinity; rounding is outside the model.
\<close>

datatype jnum = Fin real | NaN | Infinite bool

datatype pkey = KStr jstr | KSym nat

datatype jval =
    JUndef
  | JNull
  | JBool bool
  | JNum jnum
  | JStr jstr
  | JArr "jval list"
  | JObj bool "(pkey \<times> jval) list"
  | JDate "int option"
  | JOther nat

text \<open>The value of a property, \<open>undefined\<close> when it is absent.\<close>

definition jget :: "jval \<Rightarrow> jstr \<Rightarrow> jval" where
  "jget v k = (case v of
     JObj _ fs \<Rightarrow> (case map_of fs (KStr k) of Some x \<Rightarrow> x | None \<Rightarrow> JUndef)
   | _ \<Rightarrow> JUndef)"

definition jhas :: "jval \<Rightarrow> jstr \<Rightarrow> bool" where
  "jhas v k = (case v of JObj _ fs \<Rightarrow> KStr k \<in> fst ` set fs | _ \<Rightarrow> False)"

definition jkeys :: "jval \<Rightarrow> pkey list" where
  "jkeys v = (case v of JObj _ fs \<Rightarrow> map fst fs | _ \<Rightarrow> [])"

definition is_str :: "jval \<Rightarrow> bool" where
  "is_str v = (case v of JStr _ \<Rightarrow> True | _ \<Rightarrow> False)"

text \<open>\<open>value !== null && typeof value === "object"\<close>\<close>

definition is_object :: "jval \<Rightarrow> bool" where
  "is_object v = (case v of JArr _ \<Rightarrow> True | JObj _ _ \<Rightarrow> True | JDate _ \<Rightarrow> True | _ \<Rightarrow> False)"

definition nullish :: "jval \<Rightarrow> bool" where
  "nullish v = (v = JUndef \<or> v = JNull)"

text \<open>\<open>a ?? b\<close>\<close>

definition coalesce :: "jval \<Rightarrow> jval \<Rightarrow> jval" where
  "coalesce a b = (if nullish a then b else a)"

definition str_of :: "jval \<Rightarrow> jstr option" where
  "str_of v = (case v of JStr s \<Rightarrow> Some s | _ \<Rightarrow> None)"

definition obj :: "(jstr \<times> jval) list \<Rightarrow> jval" where
  "obj fs = JObj True (map (\<lambda>(k, v). (KStr k, v)) fs)"

lemma map_of_obj: "map_of (map (\<lambda>(k, v). (KStr k, v)) fs) (KStr k) = map_of fs k"
  by (induction fs) auto

lemma jget_obj [simp]: "jget (obj fs) k = (case map_of fs k of Some x \<Rightarrow> x | None \<Rightarrow> JUndef)"
  by (simp add: jget_def obj_def map_of_obj)

lemma jkeys_obj [simp]: "jkeys (obj fs) = map (\<lambda>f. KStr (fst f)) fs"
  by (simp add: jkeys_def obj_def split_def comp_def)

lemma jhas_obj [simp]: "jhas (obj fs) k = (k \<in> fst ` set fs)"
  by (force simp: jhas_def obj_def)

lemma is_str_iff: "is_str v \<longleftrightarrow> (\<exists>s. v = JStr s)"
  by (cases v) (auto simp: is_str_def)

lemma str_of_Some [simp]: "str_of v = Some s \<longleftrightarrow> v = JStr s"
  by (cases v) (auto simp: str_of_def)

lemma jget_not_undef_has: "jget v k \<noteq> JUndef \<Longrightarrow> jhas v k"
  by (cases v) (auto simp: jget_def jhas_def split: option.splits dest: map_of_SomeD intro: rev_image_eqI)

text \<open>\<open>Number.isSafeInteger(x) && x >= 0\<close> and \<open>Number.isFinite(x)\<close> on numbers.\<close>

definition safe_count :: "jval \<Rightarrow> bool" where
  "safe_count v = (case v of
     JNum (Fin x) \<Rightarrow> of_int \<lfloor>x\<rfloor> = x \<and> 0 \<le> x \<and> x \<le> 9007199254740991
   | _ \<Rightarrow> False)"

definition finite_number :: "jval \<Rightarrow> bool" where
  "finite_number v = (case v of JNum (Fin _) \<Rightarrow> True | _ \<Rightarrow> False)"

definition num_of :: "jval \<Rightarrow> real" where
  "num_of v = (case v of JNum (Fin x) \<Rightarrow> x | _ \<Rightarrow> 0)"

lemma safe_countD:
  assumes "safe_count v"
  shows "\<exists>n::nat. v = JNum (Fin (real n)) \<and> num_of v = real n \<and> n \<le> 9007199254740991"
proof -
  from assms obtain x where v: "v = JNum (Fin x)" and x: "of_int \<lfloor>x\<rfloor> = x" "0 \<le> x"
      "x \<le> 9007199254740991"
    by (auto simp: safe_count_def split: jval.splits jnum.splits)
  from x have "x = real (nat \<lfloor>x\<rfloor>)"
    by (metis of_nat_nat of_int_of_nat_eq zero_le_floor)
  then obtain n :: nat where "x = real n" by blast
  moreover from this x have "n \<le> 9007199254740991" by simp
  ultimately show ?thesis using v by (auto simp: num_of_def)
qed

section \<open>The platform: clock, dates, collation, digest\<close>

text \<open>
  What the code takes from its platform: \<open>Date.now()\<close>, and \<open>Date.parse\<close>. The latter is
  computed below for the ISO form that \<open>Date.prototype.toISOString\<close> prints; what an engine
  does with every other string, and with the text of a value that is no string, is
  implementation-defined, so it is the second field (None stands for \<open>NaN\<close>). The other two are
  the engine's collation (\<open>String.prototype.localeCompare\<close>) and the hexadecimal SHA-256 digest of
  \<open>node:crypto\<close>.
\<close>

record js_env =
  now_ms :: int
  parse_other :: "jval \<Rightarrow> int option"
  locale_compare :: "jstr \<Rightarrow> jstr \<Rightarrow> int"
  sha256_hex :: "jstr \<Rightarrow> jstr"

definition digit_value :: "char \<Rightarrow> int option" where
  "digit_value c =
     (let n = code_unit c in if 48 \<le> n \<and> n \<le> 57 then Some (int n - 48) else None)"

fun digits_value :: "int \<Rightarrow> jstr \<Rightarrow> int option" where
  "digits_value acc [] = Some acc"
| "digits_value acc (c # cs) =
     (case digit_value c of None \<Rightarrow> None | Some d \<Rightarrow> digits_value (10 * acc + d) cs)"

text \<open>Days from 1970-01-01 of a proleptic Gregorian date, and the length of a month.\<close>

definition days_in_month :: "int \<Rightarrow> int \<Rightarrow> int" where
  "days_in_month year month =
     (if month = 2
      then (if year mod 4 = 0 \<and> (year mod 100 \<noteq> 0 \<or> year mod 400 = 0) then 29 else 28)
      else if month \<in> {4, 6, 9, 11} then 30 else 31)"

definition days_from_civil :: "int \<Rightarrow> int \<Rightarrow> int \<Rightarrow> int" where
  "days_from_civil year month day =
     (let adjusted = year - (if month \<le> 2 then 1 else 0);
          era = adjusted div 400;
          year_of_era = adjusted - era * 400;
          month_prime = month + (if month > 2 then - 3 else 9);
          day_of_year = (153 * month_prime + 2) div 5 + day - 1;
          day_of_era = year_of_era * 365 + year_of_era div 4 - year_of_era div 100 + day_of_year
      in era * 146097 + day_of_era - 719468)"

definition iso_instant :: "jstr \<Rightarrow> int option" where
  "iso_instant s =
     (if length s = 24 \<and> s ! 4 = CHR ''-'' \<and> s ! 7 = CHR ''-'' \<and> s ! 10 = CHR ''T''
         \<and> s ! 13 = CHR '':'' \<and> s ! 16 = CHR '':'' \<and> s ! 19 = CHR ''.'' \<and> s ! 23 = CHR ''Z''
      then (case (digits_value 0 (take 4 s), digits_value 0 (take 2 (drop 5 s)),
                  digits_value 0 (take 2 (drop 8 s)), digits_value 0 (take 2 (drop 11 s)),
                  digits_value 0 (take 2 (drop 14 s)), digits_value 0 (take 2 (drop 17 s)),
                  digits_value 0 (take 3 (drop 20 s)))
            of (Some y, Some mo, Some d, Some h, Some mi, Some se, Some ms) \<Rightarrow>
              (if 1 \<le> mo \<and> mo \<le> 12 \<and> 1 \<le> d \<and> d \<le> days_in_month y mo
                  \<and> h \<le> 23 \<and> mi \<le> 59 \<and> se \<le> 59
               then Some (days_from_civil y mo d * 86400000
                          + h * 3600000 + mi * 60000 + se * 1000 + ms)
               else None)
            | _ \<Rightarrow> None)
      else None)"

definition date_parse :: "js_env \<Rightarrow> jval \<Rightarrow> int option" where
  "date_parse env v =
     (case v of
        JStr s \<Rightarrow> (case iso_instant s of Some ms \<Rightarrow> Some ms | None \<Rightarrow> parse_other env v)
      | _ \<Rightarrow> parse_other env v)"

definition date_parse_str :: "js_env \<Rightarrow> jstr \<Rightarrow> int option" where
  "date_parse_str env s = date_parse env (JStr s)"

end
