(* ===== verification/Supersede_Guards.thy ===== *)
theory Supersede_Guards
  imports Js_Value
begin

text \<open>
  The candidates and caches the write arbitration works on (\<open>src/src/domain/memory/lifecycle.ts\<close>)
  and the guards that turn a supersede into a create
  (\<open>src/src/storage/writes/supersede-guards.ts\<close>): the durability leg and the temporal-ordering leg.
\<close>

section \<open>Candidates, recent writes, configuration\<close>

text \<open>
  The row mapper may deliver a date as a string or as a \<open>Date\<close>, so the date fields hold a value
  of unknown shape.
\<close>

record similar_candidate =
  sc_id :: jstr
  sc_l2 :: jstr
  sc_similarity :: real
  sc_createdAt :: jval
  sc_updatedAt :: jval
  sc_validAt :: jval
  sc_continuitySubjectKey :: jval
  sc_tags :: "jstr list option"
  sc_tier :: "jstr option"
  sc_factKey :: jval
  sc_noemaClaimKey :: jval
  sc_atomicFact :: jval

record recent_write =
  rw_text :: jstr
  rw_normalizedText :: jstr
  rw_embedding :: "real list"
  rw_userId :: jstr
  rw_scope :: jstr
  rw_sessionId :: "jstr option"
  rw_source :: jstr
  rw_writtenAtMs :: int

record arbitration_config =
  skipThreshold :: real
  skipWindowHours :: real
  mergeThreshold :: real
  mergeWindowHours :: real
  candidateLimit :: nat
  recentWriteTtlMinutes :: real
  supersedeCandidateFloor :: "real option"

definition default_arbitration_config :: arbitration_config where
  "default_arbitration_config =
     \<lparr>skipThreshold = 95 / 100, skipWindowHours = 24, mergeThreshold = 85 / 100,
      mergeWindowHours = 72, candidateLimit = 5, recentWriteTtlMinutes = 5,
      supersedeCandidateFloor = None\<rparr>"

section \<open>Transience cues\<close>

definition word_pat :: "re \<Rightarrow> re" where
  "word_pat r = seqs [WordB, r, WordB]"

definition transience_cue_patterns :: "re list" where
  "transience_cue_patterns =
     [word_pat (lit ''for now''),
      word_pat (lit ''for the moment''),
      word_pat (lit ''for the time being''),
      word_pat (lit ''temporarily''),
      word_pat (lit ''at the moment''),
      word_pat (lit ''right now''),
      word_pat (Seq (lit ''this '')
        (alts (map lit [''week'', ''month'', ''morning'', ''afternoon'', ''evening'', ''sprint'']))),
      word_pat (lit ''today''),
      word_pat (lit ''tonight'')]"

definition hasTransienceCue :: "jstr \<Rightarrow> bool" where
  "hasTransienceCue text = list_ex (\<lambda>r. re_test r (js_lower text)) transience_cue_patterns"

section \<open>The two legs\<close>

datatype keep_both_reason =
    Ephemeral_over_durable
  | Transient_over_durable
  | Invalid_incoming_validAt
  | Invalid_candidate_time
  | Older_incoming

text \<open>A finite epoch in milliseconds, or None.\<close>

definition parseEpochMs :: "js_env \<Rightarrow> jval \<Rightarrow> real option" where
  "parseEpochMs env v =
     (if nullish v \<or> v = JStr [] then None
      else (case v of
              JDate t \<Rightarrow> map_option of_int t
            | JNum (Fin x) \<Rightarrow> Some x
            | JNum _ \<Rightarrow> None
            | JStr _ \<Rightarrow> map_option of_int (date_parse env v)
            | _ \<Rightarrow> None))"

definition durableTransientKeepBothReason ::
  "similar_candidate \<Rightarrow> jstr \<Rightarrow> jstr option \<Rightarrow> keep_both_reason option" where
  "durableTransientKeepBothReason candidate incomingText incomingTier =
     (if sc_tier candidate = Some ''durable'' \<and> incomingTier \<noteq> Some ''durable'' then
        (if incomingTier = Some ''ephemeral'' then Some Ephemeral_over_durable
         else if hasTransienceCue incomingText then Some Transient_over_durable
         else None)
      else None)"

definition temporalOrderingKeepBothReason ::
  "js_env \<Rightarrow> similar_candidate \<Rightarrow> jstr option \<Rightarrow> int \<Rightarrow> keep_both_reason option" where
  "temporalOrderingKeepBothReason env candidate incomingValidAt nowMs =
     (let incoming =
            (case incomingValidAt of
               None \<Rightarrow> Some (of_int nowMs)
             | Some s \<Rightarrow> if s = [] then Some (of_int nowMs) else parseEpochMs env (JStr s))
      in case incoming of
           None \<Rightarrow> Some Invalid_incoming_validAt
         | Some incomingMs \<Rightarrow>
             (case parseEpochMs env (coalesce (sc_validAt candidate) (sc_createdAt candidate)) of
                None \<Rightarrow> Some Invalid_candidate_time
              | Some candidateMs \<Rightarrow>
                  if incomingMs < candidateMs then Some Older_incoming else None))"

section \<open>Facts\<close>

lemma durable_leg_iff:
  "durableTransientKeepBothReason c text tier \<noteq> None \<longleftrightarrow>
     sc_tier c = Some ''durable'' \<and> tier \<noteq> Some ''durable''
     \<and> (tier = Some ''ephemeral'' \<or> hasTransienceCue text)"
  by (auto simp: durableTransientKeepBothReason_def)

lemma durable_leg_reasons:
  "durableTransientKeepBothReason c text tier = Some r \<Longrightarrow>
     r = Ephemeral_over_durable \<or> r = Transient_over_durable"
  by (auto simp: durableTransientKeepBothReason_def split: if_splits)

text \<open>
  The temporal leg permits exactly when both instants are known and the incoming one is not the
  older; an absent valid time counts as the arbitration instant, an unparseable one never does.
\<close>

definition incoming_instant :: "js_env \<Rightarrow> jstr option \<Rightarrow> int \<Rightarrow> real option" where
  "incoming_instant env validAt nowMs =
     (case validAt of
        None \<Rightarrow> Some (of_int nowMs)
      | Some s \<Rightarrow> if s = [] then Some (of_int nowMs) else parseEpochMs env (JStr s))"

definition candidate_instant :: "js_env \<Rightarrow> similar_candidate \<Rightarrow> real option" where
  "candidate_instant env c = parseEpochMs env (coalesce (sc_validAt c) (sc_createdAt c))"

lemma temporal_leg_permits_iff:
  "temporalOrderingKeepBothReason env c validAt nowMs = None \<longleftrightarrow>
     (\<exists>i k. incoming_instant env validAt nowMs = Some i \<and> candidate_instant env c = Some k \<and> k \<le> i)"
  by (auto simp: temporalOrderingKeepBothReason_def incoming_instant_def candidate_instant_def Let_def
      split: option.splits)

lemma temporal_leg_mono:
  assumes "temporalOrderingKeepBothReason env c None t = None" and "t \<le> t'"
  shows "temporalOrderingKeepBothReason env c None t' = None"
  using assms by (auto simp: temporal_leg_permits_iff incoming_instant_def)

end
