(* ===== verification/Referent_Identity.thy ===== *)
theory Referent_Identity
  imports Supersede_Guards
begin

text \<open>
  Referent identity (\<open>src/src/storage/writes/referent-identity.ts\<close> and \<open>referent-keys.ts\<close>): the
  structural anchors of a text, the relation of two anchor sets, the stable keys of a write, and
  the verdict that decides whether a stored fact and an incoming one speak of the same referent.
\<close>

section \<open>Anchors\<close>

datatype anchor_kind = File_line | Tracker_id | Labeled_id | Issue_ref
datatype anchor_grade = Proof | Conflict_only

record anchor =
  a_kind :: anchor_kind
  a_value :: jstr
  a_grade :: anchor_grade

definition anchor_kinds :: "anchor_kind list" where
  "anchor_kinds = [File_line, Tracker_id, Labeled_id, Issue_ref]"

fun kind_name :: "anchor_kind \<Rightarrow> jstr" where
  "kind_name File_line = ''file_line''"
| "kind_name Tracker_id = ''tracker_id''"
| "kind_name Labeled_id = ''labeled_id''"
| "kind_name Issue_ref = ''issue_ref''"

subsection \<open>The patterns\<close>

definition letter_char :: "char \<Rightarrow> bool" where
  "letter_char c = (lower_char c \<or> upper_char c)"

definition file_char :: "char \<Rightarrow> bool" where
  "file_char c = (word_char c \<or> c \<in> set ''@$.-'')"

definition file_line_re :: re where
  "file_line_re =
     seqs [NotBehind (\<lambda>c. word_char c \<or> c = CHR ''/''),
           Group 1 (seqs [plus (Chr file_char),
                          Star (Seq (ch (CHR ''/'')) (plus (Chr file_char))),
                          ch (CHR ''.''), Chr letter_char,
                          upto_re 5 (Chr (\<lambda>c. letter_char c \<or> digit_char c))]),
           ch (CHR '':''),
           Group 2 (between_re 1 6 digit_re),
           opt (Seq (ch (CHR ''-'')) (Group 3 (between_re 1 6 digit_re))),
           WordB]"

text \<open>The Unicode classes \<open>\p{Lu}\<close>, \<open>\p{L}\<close> and \<open>\p{N}\<close> up to U+00FF.\<close>

definition unicode_upper :: "char \<Rightarrow> bool" where
  "unicode_upper c =
     (let n = code_unit c in (65 \<le> n \<and> n \<le> 90) \<or> (192 \<le> n \<and> n \<le> 222 \<and> n \<noteq> 215))"

definition unicode_letter :: "char \<Rightarrow> bool" where
  "unicode_letter c =
     (let n = code_unit c in letter_char c \<or> n = 170 \<or> n = 181 \<or> n = 186
        \<or> (192 \<le> n \<and> n \<noteq> 215 \<and> n \<noteq> 247))"

definition unicode_number :: "char \<Rightarrow> bool" where
  "unicode_number c =
     (let n = code_unit c in digit_char c \<or> n = 178 \<or> n = 179 \<or> n = 185 \<or> (188 \<le> n \<and> n \<le> 190))"

lemma unicode_class_code [code]:
  "unicode_upper c = (char_le (CHR ''A'') c \<and> char_le c (CHR ''Z'')
     \<or> char_le (CHR 0xC0) c \<and> char_le c (CHR 0xDE) \<and> c \<noteq> CHR 0xD7)"
  "unicode_letter c = (letter_char c \<or> c = CHR 0xAA \<or> c = CHR 0xB5 \<or> c = CHR 0xBA
     \<or> char_le (CHR 0xC0) c \<and> c \<noteq> CHR 0xD7 \<and> c \<noteq> CHR 0xF7)"
  "unicode_number c = (digit_char c \<or> c = CHR 0xB2 \<or> c = CHR 0xB3 \<or> c = CHR 0xB9
     \<or> char_le (CHR 0xBC) c \<and> char_le c (CHR 0xBE))"
  by (auto simp: unicode_upper_def unicode_letter_def unicode_number_def char_le_def code_unit_def Let_def
      of_char_eq_iff [symmetric, where ?'a = nat])

definition slug_char :: "char \<Rightarrow> bool" where
  "slug_char c = (lower_char c \<or> digit_char c)"

definition tracker_re :: re where
  "tracker_re =
     seqs [WordB, Chr unicode_upper, Star (Chr (\<lambda>c. unicode_letter c \<or> unicode_number c)),
           ch (CHR ''-''),
           Ahead (Seq (Star (Chr (\<lambda>c. slug_char c \<or> c = CHR ''.''))) digit_re),
           plus (Chr slug_char),
           Star (Seq (ch (CHR ''.'')) (plus digit_re)),
           WordB]"

definition task_or_review :: re where
  "task_or_review =
     Alt (Seq (Chr (\<lambda>c. c \<in> set ''Tt'')) (lit ''ask'')) (Seq (Chr (\<lambda>c. c \<in> set ''Rr'')) (lit ''eview''))"

definition labeled_id_re :: re where
  "labeled_id_re =
     Alt (seqs [WordB, lit ''ID:'', Star ws_re,
                Group 1 (Seq (times_re 6 (Chr (\<lambda>c. word_char c \<or> c = CHR ''-'')))
                             (Star (Chr (\<lambda>c. word_char c \<or> c = CHR ''-'')))),
                WordB])
         (seqs [WordB, task_or_review, plus ws_re, opt (ch (CHR ''('')),
                Group 2 (seqs [Ahead (Seq (Star (Chr (\<lambda>c. slug_char c \<or> c \<in> set ''_-''))) digit_re),
                               Chr lower_char,
                               times_re 7 (Chr (\<lambda>c. slug_char c \<or> c \<in> set ''_-'')),
                               Star (Chr (\<lambda>c. slug_char c \<or> c \<in> set ''_-''))]),
                opt (ch (CHR '')'')), WordB])"

definition weak_labeled_id_re :: re where
  "weak_labeled_id_re =
     seqs [WordB, task_or_review, plus ws_re, opt (ch (CHR ''('')),
           Group 1 (seqs [Chr lower_char,
                          times_re 5 (Chr (\<lambda>c. lower_char c \<or> c \<in> set ''_-'')),
                          Star (Chr (\<lambda>c. lower_char c \<or> c \<in> set ''_-''))]),
           opt (ch (CHR '')'')),
           Ahead (Alt (Chr (\<lambda>c. js_ws c \<or> c \<in> set ''(.,;:'')) TextEnd)]"

definition issue_re :: re where
  "issue_re =
     seqs [WordB, Group 1 (alts [lit_ci ''GH'', lit_ci ''PR'', lit_ci ''MR'', lit_ci ''issue'']),
           Star ws_re, opt (ch (CHR ''#'')), Star ws_re,
           Group 2 (between_re 1 6 digit_re), WordB]"

subsection \<open>Extraction\<close>

text \<open>
  The insertion-ordered map of \<open>extractReferentAnchors\<close>: one entry per kind and value, upgraded
  in place from \<open>conflict-only\<close> to \<open>proof\<close>.
\<close>

fun add_anchor :: "anchor \<Rightarrow> anchor list \<Rightarrow> anchor list" where
  "add_anchor a [] = [a]"
| "add_anchor a (b # bs) =
     (if a_kind b = a_kind a \<and> a_value b = a_value a then
        (if a_grade b = Conflict_only \<and> a_grade a = Proof then a else b) # bs
      else b # add_anchor a bs)"

definition mk_anchor :: "anchor_kind \<Rightarrow> jstr \<Rightarrow> anchor_grade \<Rightarrow> anchor" where
  "mk_anchor k v g = \<lparr>a_kind = k, a_value = v, a_grade = g\<rparr>"

definition cap_text :: "caps \<Rightarrow> nat \<Rightarrow> jstr" where
  "cap_text c n = (case cap c n of Some t \<Rightarrow> t | None \<Rightarrow> [])"

definition file_line_value :: "caps \<Rightarrow> jstr" where
  "file_line_value c =
     js_lower (cap_text c 1 @ '':'' @ cap_text c 2 @
       (if truthy (cap_text c 3) then ''-'' @ cap_text c 3 else []))"

definition found_anchors :: "jstr \<Rightarrow> anchor list" where
  "found_anchors text =
     map (\<lambda>(_, c). mk_anchor File_line (file_line_value c) Proof) (match_all file_line_re text)
     @ map (\<lambda>(t, _). mk_anchor Tracker_id (js_lower t) Conflict_only) (match_all tracker_re text)
     @ map (\<lambda>v. mk_anchor Labeled_id (js_lower v) Proof)
         (filter truthy (map (\<lambda>(_, c). case cap c 1 of Some v \<Rightarrow> v | None \<Rightarrow> cap_text c 2)
                             (match_all labeled_id_re text)))
     @ map (\<lambda>v. mk_anchor Labeled_id (js_lower v) Conflict_only)
         (filter truthy (map (\<lambda>(_, c). cap_text c 1) (match_all weak_labeled_id_re text)))
     @ map (\<lambda>(_, c). mk_anchor Issue_ref (js_lower (cap_text c 1) @ '':'' @ cap_text c 2) Proof)
         (match_all issue_re text)"

definition anchor_compare :: "js_env \<Rightarrow> anchor \<Rightarrow> anchor \<Rightarrow> int" where
  "anchor_compare env a b =
     (if a_kind a = a_kind b then locale_compare env (a_value a) (a_value b)
      else locale_compare env (kind_name (a_kind a)) (kind_name (a_kind b)))"

definition extractReferentAnchors :: "js_env \<Rightarrow> jstr \<Rightarrow> anchor list" where
  "extractReferentAnchors env text =
     js_sort (anchor_compare env) (fold add_anchor (found_anchors text) [])"

section \<open>The relation of two anchor sets\<close>

datatype anchor_relation = Shared | Conflict | No_relation

definition anchor_values :: "anchor list \<Rightarrow> anchor_kind \<Rightarrow> jstr list" where
  "anchor_values anchors kind = map a_value (filter (\<lambda>a. a_kind a = kind) anchors)"

definition proof_values :: "anchor list \<Rightarrow> anchor_kind \<Rightarrow> jstr list" where
  "proof_values anchors kind =
     map a_value (filter (\<lambda>a. a_kind a = kind \<and> a_grade a = Proof) anchors)"

definition intersects :: "jstr list \<Rightarrow> jstr list \<Rightarrow> bool" where
  "intersects a b = list_ex (\<lambda>v. List.member b v) a"

definition sets_equal :: "jstr list \<Rightarrow> jstr list \<Rightarrow> bool" where
  "sets_equal a b =
     (length (js_uniq a) = length (js_uniq b) \<and> list_all (\<lambda>v. List.member b v) a)"

fun relation_loop :: "anchor list \<Rightarrow> anchor list \<Rightarrow> bool \<Rightarrow> anchor_kind list \<Rightarrow> anchor_relation" where
  "relation_loop a b shared [] = (if shared then Shared else No_relation)"
| "relation_loop a b shared (kind # kinds) =
     (let av = anchor_values a kind; bv = anchor_values b kind
      in if av = [] \<or> bv = [] then relation_loop a b shared kinds
         else if \<not> sets_equal av bv then Conflict
         else relation_loop a b (shared \<or> intersects (proof_values a kind) (proof_values b kind))
                kinds)"

definition anchorRelation :: "anchor list \<Rightarrow> anchor list \<Rightarrow> anchor_relation" where
  "anchorRelation a b = relation_loop a b False anchor_kinds"

section \<open>Content tokens and opposing states\<close>

definition generic_value_tokens :: "jstr list" where
  "generic_value_tokens =
     [''tech'', ''lead'', ''main'', ''true'', ''false'', ''user'', ''team'', ''data'', ''work'',
      ''type'', ''name'', ''role'', ''item'', ''project'', ''active'', ''status'', ''value'',
      ''thing'', ''stuff'', ''info'']"

definition non_token_re :: re where
  "non_token_re = plus (Chr (\<lambda>c. \<not> slug_char c))"

definition contentTokens :: "jstr \<Rightarrow> jstr list" where
  "contentTokens text =
     js_uniq (filter (\<lambda>t. length t \<ge> 4 \<and> \<not> List.member generic_value_tokens t)
                     (re_split non_token_re (js_lower text)))"

definition opposing_pairs :: "(re \<times> re) list" where
  "opposing_pairs =
     map (\<lambda>(a, b). (word_pat (lit a), word_pat (lit b)))
       [(''enabled'', ''disabled''), (''enable'', ''disable''), (''true'', ''false''),
        (''on'', ''off''), (''yes'', ''no''), (''present'', ''missing'')]"

definition hasOpposingStateFlip :: "jstr \<Rightarrow> jstr \<Rightarrow> bool" where
  "hasOpposingStateFlip existingText incomingText =
     (let existing = normalizeText existingText; incoming = normalizeText incomingText
      in list_ex (\<lambda>(left, right).
           (re_test left existing \<and> re_test right incoming)
           \<or> (re_test right existing \<and> re_test left incoming)) opposing_pairs)"

section \<open>Stable keys\<close>

record referent_keys =
  rk_factKey :: "jstr option"
  rk_continuitySubjectKey :: "jstr option"
  rk_atomicFactIdentity :: "jstr option"

definition no_keys :: referent_keys where
  "no_keys = \<lparr>rk_factKey = None, rk_continuitySubjectKey = None, rk_atomicFactIdentity = None\<rparr>"

definition referentKeyString :: "jval \<Rightarrow> jstr option" where
  "referentKeyString v = (case v of JStr s \<Rightarrow> if length s > 0 then Some s else None | _ \<Rightarrow> None)"

definition isAtomicFactObject :: "jval \<Rightarrow> bool" where
  "isAtomicFactObject af = is_object af"

definition isCompleteAtomicTriple :: "jval \<Rightarrow> bool" where
  "isCompleteAtomicTriple af =
     (isAtomicFactObject af
      \<and> referentKeyString (jget af ''subject'') \<noteq> None
      \<and> referentKeyString (jget af ''predicate'') \<noteq> None
      \<and> referentKeyString (jget af ''value'') \<noteq> None)"

definition atomicFactIdentity :: "jval \<Rightarrow> jstr option" where
  "atomicFactIdentity af =
     (if \<not> isCompleteAtomicTriple af then None
      else let subject = normalizeText (the (referentKeyString (jget af ''subject'')));
               predicate = normalizeText (the (referentKeyString (jget af ''predicate'')))
           in if subject = [] \<or> predicate = [] then None
              else if js_includes subject ''|'' \<or> js_includes predicate ''|'' then None
              else Some (subject @ ''|'' @ predicate))"

datatype atomic_fact_action = Retain | Clear

definition mergeAtomicFactAction :: "jval \<Rightarrow> jval \<Rightarrow> atomic_fact_action" where
  "mergeAtomicFactAction stored incoming =
     (case atomicFactIdentity incoming of
        None \<Rightarrow> Clear
      | Some _ \<Rightarrow>
          if \<not> is_object stored then Clear
          else (case (referentKeyString (jget stored ''subject''),
                      referentKeyString (jget stored ''predicate''),
                      referentKeyString (jget stored ''value'')) of
                  (Some ss, Some sp, Some sv) \<Rightarrow>
                    (let inS = the (referentKeyString (jget incoming ''subject''));
                         ip = the (referentKeyString (jget incoming ''predicate''));
                         iv = the (referentKeyString (jget incoming ''value''))
                     in if normalizeText ss \<noteq> normalizeText inS then Clear
                        else if normalizeText sp \<noteq> normalizeText ip then Clear
                        else if js_trim sv \<noteq> js_trim iv then Clear
                        else Retain)
                | _ \<Rightarrow> Clear))"

definition incomingReferentKeys :: "jval \<Rightarrow> referent_keys" where
  "incomingReferentKeys metadata =
     (if metadata = JUndef then no_keys
      else \<lparr>rk_factKey = referentKeyString (jget metadata ''factKey''),
            rk_continuitySubjectKey = referentKeyString (jget metadata ''continuitySubjectKey''),
            rk_atomicFactIdentity = atomicFactIdentity (jget metadata ''atomicFact'')\<rparr>)"

definition candidateReferentKeys :: "similar_candidate \<Rightarrow> referent_keys" where
  "candidateReferentKeys c =
     \<lparr>rk_factKey = referentKeyString (sc_factKey c),
      rk_continuitySubjectKey = referentKeyString (sc_continuitySubjectKey c),
      rk_atomicFactIdentity = atomicFactIdentity (sc_atomicFact c)\<rparr>"

section \<open>The verdict\<close>

datatype referent_proof = Key_factKey | Key_atomicFactIdentity | Anchor_shared
datatype referent_verdict = Proven referent_proof | Anchor_conflict | Unproven

fun nonEmptyEqual :: "jstr option \<Rightarrow> jstr option \<Rightarrow> bool" where
  "nonEmptyEqual (Some a) b = (length a > 0 \<and> b = Some a)"
| "nonEmptyEqual None b = False"

definition proveReferentIdentity ::
  "js_env \<Rightarrow> jstr \<Rightarrow> jstr \<Rightarrow> referent_keys \<Rightarrow> referent_keys \<Rightarrow> bool \<Rightarrow> referent_verdict" where
  "proveReferentIdentity env candidateText incomingText candidateKeys incomingKeys atomicAuthority =
     (let rel = anchorRelation (extractReferentAnchors env candidateText)
                               (extractReferentAnchors env incomingText)
      in if rel = Conflict then Anchor_conflict
         else if nonEmptyEqual (rk_factKey candidateKeys) (rk_factKey incomingKeys)
           then Proven Key_factKey
         else if atomicAuthority
              \<and> nonEmptyEqual (rk_atomicFactIdentity candidateKeys) (rk_atomicFactIdentity incomingKeys)
           then Proven Key_atomicFactIdentity
         else if rel = Shared then Proven Anchor_shared
         else Unproven)"

section \<open>Facts\<close>

lemma member_set [simp]: "List.member xs x \<longleftrightarrow> x \<in> set xs"
  by simp

lemma intersects_iff: "intersects a b \<longleftrightarrow> set a \<inter> set b \<noteq> {}"
  by (auto simp: intersects_def list_ex_iff)

lemma sets_equal_iff: "sets_equal a b \<longleftrightarrow> set a = set b"
proof
  assume eq: "sets_equal a b"
  have "card (set a) = length (js_uniq a)" and "card (set b) = length (js_uniq b)"
    by (metis distinct_card distinct_js_uniq set_js_uniq)+
  with eq have "set a \<subseteq> set b" and "card (set a) = card (set b)"
    by (auto simp: sets_equal_def list_all_iff)
  then show "set a = set b" by (simp add: card_subset_eq)
next
  assume "set a = set b"
  moreover have "length (js_uniq xs) = card (set xs)" for xs :: "jstr list"
    by (metis distinct_card distinct_js_uniq set_js_uniq)
  ultimately show "sets_equal a b" by (simp add: sets_equal_def list_all_iff)
qed

text \<open>
  The abstract relation: a conflict is a kind that both sides name with different value sets; a
  shared referent is a proof-grade value both sides name, when no kind conflicts.
\<close>

definition kind_conflict :: "anchor list \<Rightarrow> anchor list \<Rightarrow> anchor_kind \<Rightarrow> bool" where
  "kind_conflict a b k =
     (anchor_values a k \<noteq> [] \<and> anchor_values b k \<noteq> []
      \<and> set (anchor_values a k) \<noteq> set (anchor_values b k))"

definition kind_shared :: "anchor list \<Rightarrow> anchor list \<Rightarrow> anchor_kind \<Rightarrow> bool" where
  "kind_shared a b k = (set (proof_values a k) \<inter> set (proof_values b k) \<noteq> {})"

lemma proof_values_subset: "set (proof_values a k) \<subseteq> set (anchor_values a k)"
  by (auto simp: proof_values_def anchor_values_def)

lemma kind_shared_nonempty:
  "kind_shared a b k \<Longrightarrow> anchor_values a k \<noteq> [] \<and> anchor_values b k \<noteq> []"
  using proof_values_subset [of a k] proof_values_subset [of b k]
  by (auto simp: kind_shared_def)

lemma relation_loop_Conflict:
  "relation_loop a b sh ks = Conflict \<longleftrightarrow> (\<exists>k\<in>set ks. kind_conflict a b k)"
  by (induction ks arbitrary: sh) (auto simp: kind_conflict_def sets_equal_iff Let_def)

lemma relation_loop_Shared:
  "relation_loop a b sh ks = Shared \<longleftrightarrow>
     (\<forall>k\<in>set ks. \<not> kind_conflict a b k) \<and> (sh \<or> (\<exists>k\<in>set ks. kind_shared a b k))"
proof (induction ks arbitrary: sh)
  case Nil
  then show ?case by simp
next
  case (Cons k ks)
  show ?case
  proof (cases "anchor_values a k = [] \<or> anchor_values b k = []")
    case True
    then have "\<not> kind_conflict a b k" "\<not> kind_shared a b k"
      using kind_shared_nonempty by (auto simp: kind_conflict_def)
    with True Cons.IH show ?thesis by auto
  next
    case False
    then show ?thesis
      using Cons.IH
      by (auto simp: kind_conflict_def kind_shared_def sets_equal_iff intersects_iff Let_def)
  qed
qed

lemma set_anchor_kinds: "set anchor_kinds = UNIV"
  by (auto simp: anchor_kinds_def) (metis anchor_kind.exhaust)

lemma anchorRelation_Conflict: "anchorRelation a b = Conflict \<longleftrightarrow> (\<exists>k. kind_conflict a b k)"
  by (simp add: anchorRelation_def relation_loop_Conflict set_anchor_kinds)

lemma anchorRelation_Shared:
  "anchorRelation a b = Shared \<longleftrightarrow> (\<nexists>k. kind_conflict a b k) \<and> (\<exists>k. kind_shared a b k)"
  by (simp add: anchorRelation_def relation_loop_Shared set_anchor_kinds)

lemma anchorRelation_commute: "anchorRelation a b = anchorRelation b a"
proof -
  have "kind_conflict a b k = kind_conflict b a k" "kind_shared a b k = kind_shared b a k" for k
    by (auto simp: kind_conflict_def kind_shared_def)
  then show ?thesis
    by (metis anchorRelation_Conflict anchorRelation_Shared anchor_relation.exhaust)
qed

text \<open>The sort is unobservable: the relation depends on the sets of anchors alone.\<close>

lemma anchor_values_cong: "set a = set a' \<Longrightarrow> set (anchor_values a k) = set (anchor_values a' k)"
  by (simp add: anchor_values_def)

lemma proof_values_cong: "set a = set a' \<Longrightarrow> set (proof_values a k) = set (proof_values a' k)"
  by (simp add: proof_values_def)

lemma anchorRelation_cong:
  assumes "set a = set a'" and "set b = set b'"
  shows "anchorRelation a b = anchorRelation a' b'"
proof -
  note eqs = anchor_values_cong [OF assms(1)] anchor_values_cong [OF assms(2)]
    proof_values_cong [OF assms(1)] proof_values_cong [OF assms(2)]
  have "kind_conflict a b k = kind_conflict a' b' k" "kind_shared a b k = kind_shared a' b' k" for k
    using eqs [of k] by (auto simp: kind_conflict_def kind_shared_def simp flip: set_empty)
  then show ?thesis
    by (metis anchorRelation_Conflict anchorRelation_Shared anchor_relation.exhaust)
qed

lemma set_extract: "set (extractReferentAnchors env t) = set (fold add_anchor (found_anchors t) [])"
  by (simp add: extractReferentAnchors_def)

lemma proveReferentIdentity_env:
  "proveReferentIdentity env ct it ck ik aa = proveReferentIdentity env' ct it ck ik aa"
proof -
  have "anchorRelation (extractReferentAnchors env ct) (extractReferentAnchors env it)
      = anchorRelation (extractReferentAnchors env' ct) (extractReferentAnchors env' it)"
    by (rule anchorRelation_cong) (simp_all add: set_extract)
  then show ?thesis by (simp add: proveReferentIdentity_def Let_def)
qed

lemma prove_conflict_iff:
  "proveReferentIdentity env ct it ck ik aa = Anchor_conflict \<longleftrightarrow>
     anchorRelation (extractReferentAnchors env ct) (extractReferentAnchors env it) = Conflict"
  by (simp add: proveReferentIdentity_def Let_def)

lemma prove_atomic_needs_authority:
  "proveReferentIdentity env ct it ck ik aa = Proven Key_atomicFactIdentity \<Longrightarrow> aa"
  by (auto simp: proveReferentIdentity_def Let_def split: if_splits)

text \<open>The atomic identity determines the canonical subject and predicate: \<open>|\<close> is reserved.\<close>

lemma append_sep_inj:
  assumes "a @ d # b = a' @ d # b'" and "d \<notin> set a" and "d \<notin> set a'"
  shows "a = a' \<and> b = b'"
  using assms
proof (induction a arbitrary: a')
  case Nil
  then show ?case by (cases a') auto
next
  case (Cons x xs)
  then show ?case by (cases a') auto
qed

lemma js_includes_single: "js_includes s [c] \<longleftrightarrow> c \<in> set s"
  by (auto simp: js_includes_def sublist_def in_set_conv_decomp)

lemma atomicFactIdentity_inj:
  assumes "atomicFactIdentity f = Some i" and "atomicFactIdentity g = Some i"
  shows "normalizeText (the (referentKeyString (jget f ''subject'')))
           = normalizeText (the (referentKeyString (jget g ''subject'')))
       \<and> normalizeText (the (referentKeyString (jget f ''predicate'')))
           = normalizeText (the (referentKeyString (jget g ''predicate'')))"
  using assms
  by (auto simp: atomicFactIdentity_def Let_def js_includes_single split: if_splits
      dest!: append_sep_inj)

text \<open>A merge keeps the stored triple only when it is the incoming one, up to canonical form.\<close>

lemma merge_retain:
  "mergeAtomicFactAction stored incoming = Retain \<Longrightarrow>
     atomicFactIdentity incoming \<noteq> None \<and> isCompleteAtomicTriple stored
     \<and> js_trim (the (referentKeyString (jget stored ''value'')))
         = js_trim (the (referentKeyString (jget incoming ''value'')))"
  by (auto simp: mergeAtomicFactAction_def isCompleteAtomicTriple_def isAtomicFactObject_def Let_def
      split: option.splits if_splits)

lemma merge_retain_identity:
  assumes "mergeAtomicFactAction stored incoming = Retain"
  shows "atomicFactIdentity stored = atomicFactIdentity incoming"
  using assms
  by (auto simp: mergeAtomicFactAction_def atomicFactIdentity_def isCompleteAtomicTriple_def
      isAtomicFactObject_def Let_def split: option.splits if_splits)

end
