(* ===== verification/Exact_Qa.thy ===== *)
theory Exact_Qa
  imports Referent_Identity
begin

text \<open>
  Exact-answer comparison of two texts (\<open>src/src/domain/memory/exact-qa.ts\<close>): when two stored
  texts answer different questions, and so may neither absorb nor retire one another.
\<close>

section \<open>Patterns\<close>

definition alnum_char :: "char \<Rightarrow> bool" where
  "alnum_char c = (letter_char c \<or> digit_char c)"

definition exact_query_patterns :: "re list" where
  "exact_query_patterns =
     [word_pat (Seq (lit_ci ''exact'') (opt (lit_ci ''ly''))),
      word_pat (lit_ci ''verbatim''), word_pat (lit_ci ''which''), word_pat (lit_ci ''when''),
      word_pat (lit_ci ''what''), word_pat (lit_ci ''who''), word_pat (lit_ci ''how many''),
      word_pat (lit_ci ''list''), word_pat (lit_ci ''version''), word_pat (lit_ci ''port''),
      word_pat (lit_ci ''commit''), word_pat (lit_ci ''date''), word_pat (lit_ci ''value''),
      word_pat (lit_ci ''answer'')]"

definition exact_value_patterns :: "re list" where
  "exact_value_patterns =
     [word_pat (seqs [times_re 4 digit_re, ch (CHR ''-''), times_re 2 digit_re, ch (CHR ''-''),
                      times_re 2 digit_re]),
      word_pat (Seq (plus digit_re) (plus (Seq (ch (CHR ''.'')) (plus digit_re)))),
      word_pat (plus digit_re),
      word_pat (seqs [Chr upper_char, Star (Chr (\<lambda>c. word_char c \<or> c = CHR ''-'')), ch (CHR ''-''),
                      plus digit_re]),
      word_pat (seqs [Chr upper_char,
                      times_re 2 (Chr (\<lambda>c. upper_char c \<or> digit_char c \<or> c = CHR ''_'')),
                      Star (Chr (\<lambda>c. upper_char c \<or> digit_char c \<or> c = CHR ''_''))]),
      seqs [ch (CHR 0x60), plus (Chr (\<lambda>c. c \<noteq> CHR 0x60)), ch (CHR 0x60)],
      Seq (ch (CHR ''/'')) (plus (Chr (\<lambda>c. word_char c \<or> c \<in> set ''./-''))),
      word_pat (seqs [plus (Chr (\<lambda>c. word_char c \<or> c \<in> set ''.-'')), ch (CHR ''.''),
                      alts (map lit_ci [''ts'', ''tsx'', ''js'', ''jsx'', ''json'', ''md'', ''py'', ''rs'',
                                        ''go'', ''sql'', ''yaml'', ''yml''])]),
      word_pat (between_re 7 40
        (Chr (\<lambda>c. digit_char c \<or> js_lower_char c \<in> set ''abcdef''))),
      seqs [WordB, plus (Chr (\<lambda>c. upper_char c \<or> digit_char c \<or> c = CHR ''_'')), ch (CHR ''=''),
            plus (Chr (\<lambda>c. \<not> js_ws c))],
      seqs [lit_ci ''http'', opt (lit_ci ''s''), lit ''://'', plus (Chr (\<lambda>c. \<not> js_ws c))]]"

definition list_marker_re :: re where
  "list_marker_re =
     Alt (Chr (\<lambda>c. c \<in> set ''-*+'')) (Seq (plus digit_re) (Chr (\<lambda>c. c \<in> set ''.)'')))"

definition list_line_pattern :: re where
  "list_line_pattern =
     seqs [LineStart, Star ws_re, list_marker_re, plus ws_re, Chr (\<lambda>c. \<not> js_ws c)]"

definition exact_stopwords :: "jstr list" where
  "exact_stopwords =
     [''a'', ''an'', ''and'', ''are'', ''as'', ''at'', ''be'', ''but'', ''by'', ''do'', ''does'', ''for'',
      ''from'', ''how'', ''i'', ''if'', ''in'', ''into'', ''is'', ''it'', ''its'', ''me'', ''my'', ''of'',
      ''on'', ''or'', ''our'', ''should'', ''that'', ''the'', ''their'', ''them'', ''there'', ''these'',
      ''they'', ''this'', ''those'', ''to'', ''up'', ''us'', ''was'', ''we'', ''what'', ''when'',
      ''where'', ''which'', ''who'', ''why'', ''will'', ''with'', ''you'', ''your'']"

section \<open>Normal form, value signals and tokens\<close>

definition quote_char :: "char \<Rightarrow> bool" where
  "quote_char c = (c = CHR 0x60 \<or> c = CHR 0x22 \<or> c = CHR 0x27)"

definition normalizeExactText :: "jstr \<Rightarrow> jstr" where
  "normalizeExactText text =
     js_trim (collapse_ws (filter (\<lambda>c. \<not> quote_char c) (js_lower text)))"

definition hasExactQaValueSignal :: "jstr \<Rightarrow> bool" where
  "hasExactQaValueSignal text =
     (list_ex (\<lambda>p. re_test p text) exact_value_patterns \<or> re_test list_line_pattern text)"

definition exactValueTokens :: "jstr \<Rightarrow> jstr list" where
  "exactValueTokens text =
     js_uniq (concat (map (\<lambda>p. map (\<lambda>(t, _). js_lower t) (match_all p text)) exact_value_patterns))"

definition detectExactQaIntent :: "jstr \<Rightarrow> bool" where
  "detectExactQaIntent query =
     (let normalized = js_trim query;
          asks = list_ex (\<lambda>p. re_test p normalized) exact_query_patterns
      in truthy normalized
         \<and> (js_includes normalized ''?'' \<or> asks)
         \<and> (hasExactQaValueSignal normalized \<or> asks))"

definition exact_token_re :: re where
  "exact_token_re =
     plus (Chr (\<lambda>c. unicode_letter c \<or> unicode_number c \<or> c \<in> set ''_./:-''))"

definition exactQaTokens :: "jstr \<Rightarrow> jstr list" where
  "exactQaTokens text =
     (let tokens = map fst (match_all exact_token_re (normalizeExactText text));
          filtered = filter (\<lambda>t. length t > 2 \<and> t \<notin> set exact_stopwords) tokens
      in js_uniq (if filtered \<noteq> [] then filtered else tokens))"

section \<open>Claims\<close>

record comparable_claim =
  cc_subject :: jstr
  cc_predicate :: jstr
  cc_value :: jstr

definition claim_delimiters :: "jstr list" where
  "claim_delimiters =
     ['' switched to '', '' changed to '', '' updated to '', '' replaced '', '' uses '', '' use '',
      '' is '', '' are '', '' was '', '' were '', '' = '', '':'']"

fun parse_claim_at :: "jstr \<Rightarrow> jstr list \<Rightarrow> comparable_claim option" where
  "parse_claim_at normalized [] = None"
| "parse_claim_at normalized (d # ds) =
     (case js_index_of normalized d of
        None \<Rightarrow> parse_claim_at normalized ds
      | Some i \<Rightarrow>
          if i < 4 then parse_claim_at normalized ds
          else (let subject = js_trim (take i normalized);
                    val = js_trim (drop (i + length d) normalized)
                in if length subject > 0 \<and> length val > 0
                   then Some \<lparr>cc_subject = subject, cc_predicate = js_trim d, cc_value = val\<rparr>
                   else parse_claim_at normalized ds))"

definition parseClaim :: "jstr \<Rightarrow> comparable_claim option" where
  "parseClaim text = parse_claim_at (normalizeExactText text) claim_delimiters"

definition newline_re :: re where
  "newline_re = plus (ch (CHR 0x0A))"

definition list_prefix_re :: re where
  "list_prefix_re =
     seqs [NotBehind (\<lambda>_. True), Star ws_re, list_marker_re, plus ws_re]"

definition listItems :: "jstr \<Rightarrow> jstr list" where
  "listItems text =
     filter (\<lambda>l. length l > 0)
       (map (\<lambda>l. js_trim (replace_first list_prefix_re (\<lambda>_. []) l)) (re_split newline_re text))"

text \<open>\<open>/\n+|(?<=[.!?])\s+/\<close>\<close>

definition segment_re :: re where
  "segment_re = Alt newline_re (Seq (Behind (\<lambda>c. c \<in> set ''.!?'')) (plus ws_re))"

definition sentenceCount :: "jstr \<Rightarrow> nat" where
  "sentenceCount text =
     length (filter (\<lambda>s. length s > 0) (map js_trim (re_split segment_re text)))"

definition isCompactComparableClaim :: "jstr \<Rightarrow> bool" where
  "isCompactComparableClaim text = (sentenceCount text \<le> 2 \<and> length (exactQaTokens text) \<le> 30)"

definition sameSubject :: "jstr \<Rightarrow> jstr \<Rightarrow> bool" where
  "sameSubject a b =
     (if a = b then True
      else (let aToks = exactQaTokens a; bToks = exactQaTokens b
            in if aToks = [] \<or> bToks = [] then False
               else real (length (filter (\<lambda>t. t \<in> set bToks) aToks)) / real (min (length aToks) (length bToks))
                      \<ge> 6 / 10))"

definition meaningfullyDifferentValue :: "jstr \<Rightarrow> jstr \<Rightarrow> bool" where
  "meaningfullyDifferentValue a b =
     (let left = normalizeExactText a; right = normalizeExactText b
      in if left = [] \<or> right = [] \<or> left = right then False
         else if js_includes left right \<or> js_includes right left then False
         else hasExactQaValueSignal left \<or> hasExactQaValueSignal right)"

definition areAnswerDistinctTexts :: "jstr \<Rightarrow> jstr \<Rightarrow> bool" where
  "areAnswerDistinctTexts existingText incomingText =
     (let existingList = (if re_test list_line_pattern existingText then listItems existingText else []);
          incomingList = (if re_test list_line_pattern incomingText then listItems incomingText else [])
      in if length existingList > 1 \<and> length incomingList > 1
         then normalizeExactText (js_join [CHR 0x0A] existingList)
                \<noteq> normalizeExactText (js_join [CHR 0x0A] incomingList)
         else (case (parseClaim existingText, parseClaim incomingText) of
                 (Some ec, Some ic) \<Rightarrow>
                   (if \<not> isCompactComparableClaim existingText
                       \<or> \<not> isCompactComparableClaim incomingText then False
                    else \<not> sameSubject (cc_subject ec) (cc_subject ic)
                         \<and> cc_predicate ec = cc_predicate ic
                         \<and> meaningfullyDifferentValue (cc_value ec) (cc_value ic))
               | _ \<Rightarrow> False))"

section \<open>Candidate scoring\<close>

text \<open>
  The strings of a candidate of unknown shape, in the order in which the code lists them; a field
  that holds no string counts as the empty one and is dropped.
\<close>

definition textValue :: "jval \<Rightarrow> jstr" where
  "textValue v = (case v of JStr s \<Rightarrow> s | _ \<Rightarrow> [])"

definition elements :: "jval \<Rightarrow> jval list" where
  "elements v = (case v of JArr xs \<Rightarrow> xs | _ \<Rightarrow> [])"

definition collectCandidateTexts :: "jval \<Rightarrow> jstr list" where
  "collectCandidateTexts candidate =
     js_uniq (filter (\<lambda>t. length (js_trim t) > 0)
       (map (\<lambda>k. textValue (jget candidate k)) [''text'', ''l0'', ''l1'', ''raw_source_text'']
        @ [textValue (jget (jget candidate ''rawSpan'') ''text'')]
        @ map (\<lambda>s. textValue (jget s ''text'')) (elements (jget candidate ''rawSpans''))
        @ map (\<lambda>k. textValue (jget (jget candidate ''atomicFact'') k))
            [''subject'', ''predicate'', ''value'', ''text'']
        @ concat (map (\<lambda>c. map (\<lambda>k. textValue (jget c k))
                             [''subject'', ''predicate'', ''value'', ''text'', ''rawSpanText''])
                      (elements (jget candidate ''atomicClaims'')))))"

definition scoreExactQaCandidate :: "jstr \<Rightarrow> jval \<Rightarrow> real" where
  "scoreExactQaCandidate query candidate =
     (if \<not> detectExactQaIntent query then 0
      else let queryTokens = exactQaTokens query
           in if queryTokens = [] then 0
              else let haystacks = map normalizeExactText (collectCandidateTexts candidate)
                   in if haystacks = [] then 0
                      else let matched = length (filter (\<lambda>t. list_ex (\<lambda>h. js_includes h t) haystacks)
                                                        queryTokens);
                               overlap = real matched / real (length queryTokens);
                               source_bonus = (if list_ex hasExactQaValueSignal haystacks then 1 / 4 else 0);
                               span = normalizeExactText (textValue (jget (jget candidate ''rawSpan'') ''text''));
                               span_bonus = (if list_ex (\<lambda>h. length h > 0 \<and> h = span) haystacks
                                             then 1 / 10 else 0)
                           in min 1 (overlap + source_bonus + span_bonus))"

section \<open>Facts\<close>

lemma length_filter_ratio: "xs \<noteq> [] \<Longrightarrow> real (length (filter P xs)) / real (length xs) \<le> 1"
  by (simp add: divide_le_eq_1)

lemma sameSubject_refl [simp]: "sameSubject a a"
  by (simp add: sameSubject_def)

lemma meaningfullyDifferentValue_irrefl [simp]: "\<not> meaningfullyDifferentValue a a"
  by (simp add: meaningfullyDifferentValue_def)

lemma meaningfullyDifferentValue_commute:
  "meaningfullyDifferentValue a b = meaningfullyDifferentValue b a"
  by (auto simp: meaningfullyDifferentValue_def Let_def)

lemma areAnswerDistinct_irrefl: "\<not> areAnswerDistinctTexts t t"
  by (auto simp: areAnswerDistinctTexts_def Let_def split: option.splits)

lemma score_bounds: "0 \<le> scoreExactQaCandidate q c \<and> scoreExactQaCandidate q c \<le> 1"
  by (auto simp: scoreExactQaCandidate_def Let_def)

lemma parse_claim_at_Some:
  "parse_claim_at n ds = Some cl \<Longrightarrow>
     cc_subject cl \<noteq> [] \<and> cc_value cl \<noteq> [] \<and> (\<exists>d\<in>set ds. cc_predicate cl = js_trim d \<and> js_includes n d)"
proof (induction ds)
  case Nil
  then show ?case by simp
next
  case (Cons d ds)
  then show ?case
    using js_index_of_None [of n d]
    by (auto simp: Let_def split: option.splits if_splits)
qed

lemma sameSubject_overlap_commute:
  assumes "a \<noteq> b"
  shows "sameSubject a b = sameSubject b a"
proof -
  let ?A = "exactQaTokens a" and ?B = "exactQaTokens b"
  have dist: "distinct ?A" "distinct ?B" by (auto simp: exactQaTokens_def Let_def)
  have count: "length (filter (\<lambda>t. t \<in> set ys) xs) = card (set xs \<inter> set ys)"
    if "distinct xs" for xs ys :: "jstr list"
    using distinct_card [OF distinct_filter [OF that, of "\<lambda>t. t \<in> set ys"]]
    by (simp add: Int_def)
  have "length (filter (\<lambda>t. t \<in> set ?B) ?A) = length (filter (\<lambda>t. t \<in> set ?A) ?B)"
    using count [OF dist(1)] count [OF dist(2)] by (simp add: Int_commute)
  with assms show ?thesis by (auto simp: sameSubject_def Let_def min.commute)
qed

lemma sameSubject_commute: "sameSubject a b = sameSubject b a"
  using sameSubject_overlap_commute by (cases "a = b") auto

lemma areAnswerDistinct_commute: "areAnswerDistinctTexts a b = areAnswerDistinctTexts b a"
  by (auto simp: areAnswerDistinctTexts_def Let_def sameSubject_commute
      meaningfullyDifferentValue_commute split: option.splits)

end
