(* ===== verification/Write_Signals.thy ===== *)
theory Write_Signals
  imports Exact_Qa
begin

text \<open>
  The heuristic signals of write arbitration (\<open>src/src/storage/writes/write-signals.ts\<close>): the merged
  text of two facts, the statement key and value of a sentence, the correction marker and slot
  tags, the currentness cues, and the reasons for keeping two close facts apart.
\<close>

section \<open>Merged text\<close>

definition splitSegments :: "jstr \<Rightarrow> jstr list" where
  "splitSegments text = filter truthy (map js_trim (re_split segment_re text))"

text \<open>One pass over the segments: a normal form seen before, or an empty one, is dropped.\<close>

fun dedupe_segments :: "jstr list \<Rightarrow> jstr list \<Rightarrow> jstr list" where
  "dedupe_segments seen [] = []"
| "dedupe_segments seen (segment # segments) =
     (let normalized = normalizeText segment
      in if normalized = [] \<or> normalized \<in> set seen then dedupe_segments seen segments
         else segment # dedupe_segments (normalized # seen) segments)"

definition buildMergedText :: "jstr \<Rightarrow> jstr \<Rightarrow> jstr" where
  "buildMergedText existingText incomingText =
     (let existingNorm = normalizeText existingText;
          incomingNorm = normalizeText incomingText
      in if existingNorm = incomingNorm then existingText
         else if js_includes incomingNorm existingNorm then incomingText
         else if js_includes existingNorm incomingNorm then existingText
         else let merged = js_trim (js_join '' '' (dedupe_segments []
                                (splitSegments existingText @ splitSegments incomingText)))
              in if merged = [] then incomingText
                 else if length merged > 1200
                   then (if length incomingText \<ge> length existingText then incomingText
                         else existingText)
                 else merged)"

section \<open>Statement key and value\<close>

definition statement_delimiters :: "jstr list" where
  "statement_delimiters =
     ['':'', '' is '', '' are '', '' was '', '' were '', '' = '', '' uses '', '' use '',
      '' switched to '', '' changed to '', '' updated to '', '' moved to '', '' moved from '',
      '' relocated to '', '' resides in '', '' lives in '', '' renamed to '']"

fun leftmost_delimiter ::
  "jstr \<Rightarrow> nat \<Rightarrow> (nat \<times> jstr) option \<Rightarrow> jstr list \<Rightarrow> (nat \<times> jstr) option" where
  "leftmost_delimiter normalized minIndex best [] = best"
| "leftmost_delimiter normalized minIndex best (d # ds) =
     (case js_index_of normalized d of
        None \<Rightarrow> leftmost_delimiter normalized minIndex best ds
      | Some index \<Rightarrow>
          if index \<ge> minIndex \<and> (case best of None \<Rightarrow> True | Some (b, _) \<Rightarrow> index < b)
          then leftmost_delimiter normalized minIndex (Some (index, d)) ds
          else leftmost_delimiter normalized minIndex best ds)"

definition findLeftmostDelimiter :: "jstr \<Rightarrow> nat \<Rightarrow> (nat \<times> jstr) option" where
  "findLeftmostDelimiter normalized minIndex =
     leftmost_delimiter normalized minIndex None statement_delimiters"

definition deriveStatementKey :: "jstr \<Rightarrow> jstr" where
  "deriveStatementKey text =
     (let normalized = normalizeText text
      in case findLeftmostDelimiter normalized 8 of
           Some (index, _) \<Rightarrow> js_trim (take index normalized)
         | None \<Rightarrow> js_trim (js_join '' '' (take 8 (split_char (CHR '' '') normalized))))"

definition extractStatementValue :: "jstr \<Rightarrow> jstr" where
  "extractStatementValue text =
     (let normalized = normalizeText text
      in case findLeftmostDelimiter normalized 0 of
           Some (index, d) \<Rightarrow> js_trim (drop (index + length d) normalized)
         | None \<Rightarrow> normalized)"

definition wouldSupersedeTexts :: "jstr \<Rightarrow> jstr \<Rightarrow> bool" where
  "wouldSupersedeTexts existingText incomingText =
     (let existingKey = deriveStatementKey existingText;
          incomingKey = deriveStatementKey incomingText
      in if existingKey = [] \<or> incomingKey = [] \<or> existingKey \<noteq> incomingKey then False
         else if hasOpposingStateFlip existingText incomingText then True
         else let existingValue = extractStatementValue existingText;
                  incomingValue = extractStatementValue incomingText
              in if existingValue = [] \<or> incomingValue = [] \<or> existingValue = incomingValue
                 then False
                 else if js_includes existingValue incomingValue
                      \<or> js_includes incomingValue existingValue then False
                 else True)"

section \<open>Tags\<close>

definition correction_marker_tags :: "jstr list" where
  "correction_marker_tags = [''update'', ''supersedes_prior'', ''invalidation'', ''no_longer_true'']"

definition non_slot_tag_prefixes :: "jstr list" where
  "non_slot_tag_prefixes = [''speaker:'', ''status:'']"

definition normTags :: "jstr list option \<Rightarrow> jstr list" where
  "normTags tags =
     filter truthy (map (\<lambda>t. js_lower (js_trim t)) (case tags of None \<Rightarrow> [] | Some ts \<Rightarrow> ts))"

definition hasCorrectionMarker :: "jstr list option \<Rightarrow> bool" where
  "hasCorrectionMarker tags = list_ex (\<lambda>t. t \<in> set correction_marker_tags) (normTags tags)"

definition isSlotTag :: "jstr \<Rightarrow> bool" where
  "isSlotTag tag =
     (if \<not> js_includes tag '':'' then False
      else if tag \<in> set correction_marker_tags then False
      else \<not> list_ex (\<lambda>p. prefix p tag) non_slot_tag_prefixes)"

definition canonicalSlotTag :: "jstr \<Rightarrow> jstr" where
  "canonicalSlotTag tag = map (\<lambda>c. if c = CHR ''_'' then CHR ''-'' else c) tag"

definition slot_tags :: "jstr list option \<Rightarrow> jstr list" where
  "slot_tags tags = js_uniq (map canonicalSlotTag (filter isSlotTag (normTags tags)))"

definition sharesSlotTags :: "jstr list option \<Rightarrow> jstr list option \<Rightarrow> bool" where
  "sharesSlotTags candidateTags incomingTags =
     (let inc = slot_tags incomingTags
      in if inc = [] then False
         else length (filter (\<lambda>t. t \<in> set inc) (slot_tags candidateTags)) \<ge> 2)"

definition subject_tag_prefixes :: "jstr list" where
  "subject_tag_prefixes =
     [''project:'', ''subject:'', ''person:'', ''owner:'', ''entity:'', ''service:'', ''app:'',
      ''repo:'']"

text \<open>The value behind the first subject prefix of a tag, when it is not empty.\<close>

fun subject_value :: "jstr list \<Rightarrow> jstr \<Rightarrow> jstr option" where
  "subject_value [] tag = None"
| "subject_value (p # ps) tag =
     (if prefix p tag then (let v = drop (length p) tag in if truthy v then Some v else None)
      else subject_value ps tag)"

definition subjectValues :: "jstr list option \<Rightarrow> jstr list" where
  "subjectValues tags =
     js_uniq (List.map_filter (\<lambda>t. subject_value subject_tag_prefixes (canonicalSlotTag t))
       (normTags tags))"

definition conflictingSubjects :: "jstr list option \<Rightarrow> jstr list option \<Rightarrow> bool" where
  "conflictingSubjects candidateTags incomingTags =
     (let a = subjectValues candidateTags; b = subjectValues incomingTags
      in if a = [] \<or> b = [] then False else \<not> list_ex (\<lambda>v. v \<in> set b) a)"

definition subjectsChanged :: "jstr list option \<Rightarrow> jstr list option \<Rightarrow> bool" where
  "subjectsChanged candidateTags incomingTags =
     (let a = subjectValues candidateTags; b = subjectValues incomingTags
      in if a = [] \<or> b = [] then False
         else let shared = list_ex (\<lambda>v. v \<in> set b) a;
                  differs = list_ex (\<lambda>v. v \<notin> set b) a;
                  differs' = (if \<not> differs then list_ex (\<lambda>v. v \<notin> set a) b else differs)
              in shared \<and> differs')"

section \<open>Naming the old value\<close>

definition sharesContextToken :: "jstr \<Rightarrow> jstr \<Rightarrow> jstr \<Rightarrow> bool" where
  "sharesContextToken candidateText incomingText exclude =
     (let inc = contentTokens incomingText
      in list_ex (\<lambda>tok. tok \<noteq> exclude \<and> tok \<in> set inc) (contentTokens candidateText))"

text \<open>The value of a slot tag: what follows its first colon.\<close>

definition tag_value :: "jstr \<Rightarrow> jstr" where
  "tag_value tag = (case js_index_of tag '':'' of None \<Rightarrow> tag | Some i \<Rightarrow> drop (i + 1) tag)"

definition incomingNamesCandidateValue ::
  "similar_candidate \<Rightarrow> jstr \<Rightarrow> jstr list option \<Rightarrow> bool" where
  "incomingNamesCandidateValue candidate incomingText incomingTags =
     (let candTags = filter isSlotTag (normTags (sc_tags candidate));
          incomingCanon = map canonicalSlotTag (normTags incomingTags);
          hay = js_lower incomingText
      in if candTags = [] then False
         else list_ex (\<lambda>rawTag.
                let tag = canonicalSlotTag rawTag
                in if tag \<in> set incomingCanon then False
                   else list_ex (\<lambda>tok.
                          if length tok < 4 \<or> List.member generic_value_tokens tok then False
                          else if \<not> re_test (word_pat (lit tok)) hay then False
                          else sharesContextToken (sc_l2 candidate) incomingText tok)
                        (re_split non_token_re (tag_value tag)))
              candTags)"

section \<open>Currentness cues\<close>

definition ly_adverb_re :: re where
  "ly_adverb_re = opt (seqs [plus word_re, lit ''ly'', plus ws_re])"

definition one_of :: "jstr list \<Rightarrow> re" where
  "one_of ws = alts (map lit ws)"

definition currentness_cue_patterns :: "re list" where
  "currentness_cue_patterns =
     [word_pat (Seq (lit ''replac'') (one_of [''e'', ''es'', ''ed'', ''ing''])),
      word_pat (lit ''no longer''),
      word_pat (lit ''instead of''),
      word_pat (Seq (lit ''migrat'') (one_of [''e'', ''es'', ''ed'', ''ing''])),
      word_pat (seqs [lit ''switch'', opt (one_of [''ed'', ''ing'']), plus ws_re, ly_adverb_re,
                      one_of [''to'', ''from'', ''off'', ''over'', ''away'']]),
      word_pat (seqs [lit ''move'', opt (lit ''d''), plus ws_re, ly_adverb_re,
                      one_of [''to'', ''off'', ''from'', ''over'', ''away'']]),
      word_pat (seqs [lit ''move'', opt (lit ''d''), plus ws_re, lit ''on'', plus ws_re, lit ''to'']),
      word_pat (seqs [lit ''transition'', opt (one_of [''ed'', ''ing'', ''s'']), plus ws_re, ly_adverb_re,
                      one_of [''to'', ''from'', ''away'']]),
      seqs [WordB, one_of [''dropped'', ''ditched''], plus ws_re,
            NotAhead (alts [Seq (lit ''the'') WordB, Seq (lit ''a'') WordB, Seq (lit ''an'') WordB]),
            upto_re 3 (Seq (plus word_re) (plus ws_re)),
            Alt (Seq (lit ''for'') WordB) (Seq (lit ''in favor of'') WordB)],
      word_pat (lit ''is now''),
      word_pat (lit ''as of''),
      word_pat (lit ''took over''),
      word_pat (lit ''taking over''),
      word_pat (lit ''stepped down''),
      word_pat (lit ''the new''),
      word_pat (seqs [one_of [''updated'', ''changed'', ''upgraded''], plus ws_re,
                      one_of [''to'', ''from'']])]"

definition hasCurrentnessCue :: "jstr \<Rightarrow> bool" where
  "hasCurrentnessCue text = list_ex (\<lambda>r. re_test r (js_lower text)) currentness_cue_patterns"

definition isJudgeWorthy :: "similar_candidate \<Rightarrow> jstr \<Rightarrow> jstr list option \<Rightarrow> bool" where
  "isJudgeWorthy candidate incomingText incomingTags =
     (if conflictingSubjects (sc_tags candidate) incomingTags then False
      else if \<not> hasCurrentnessCue incomingText then False
      else sharesSlotTags (sc_tags candidate) incomingTags
           \<or> incomingNamesCandidateValue candidate incomingText incomingTags)"

section \<open>Occasions and additive content\<close>

datatype occasion_type = Iso_date_occ | Quarter_occ | Year_occ | Named_occ

definition numbered_occasion :: "jstr \<Rightarrow> re" where
  "numbered_occasion w = seqs [lit_ci w, Star ws_re, plus digit_re]"

definition distinct_occasion_patterns :: "(occasion_type \<times> re) list" where
  "distinct_occasion_patterns =
     [(Iso_date_occ, word_pat (Group 1 (seqs [times_re 4 digit_re, ch (CHR ''-''), times_re 2 digit_re,
                                              ch (CHR ''-''), times_re 2 digit_re]))),
      (Quarter_occ, word_pat (Group 1 (Seq (lit_ci ''q'') (Chr (\<lambda>c. c \<in> set ''1234''))))),
      (Year_occ, word_pat (Group 1 (Seq (lit ''20'') (times_re 2 digit_re)))),
      (Named_occ, word_pat (Group 1 (alts
         (map numbered_occasion [''sprint'', ''week'', ''phase'', ''iteration'', ''milestone'']
          @ [seqs [lit_ci ''v'', plus digit_re, ch (CHR ''.''), plus digit_re]]))))]"

fun first_occasion :: "jstr \<Rightarrow> (occasion_type \<times> re) list \<Rightarrow> (occasion_type \<times> jstr) option" where
  "first_occasion text [] = None"
| "first_occasion text ((ty, r) # ps) =
     (case re_exec r text of
        Some (_, c) \<Rightarrow> Some (ty, collapse_ws (js_lower (cap_text c 1)))
      | None \<Rightarrow> first_occasion text ps)"

definition distinctOccasionAnchor :: "jstr \<Rightarrow> (occasion_type \<times> jstr) option" where
  "distinctOccasionAnchor text = first_occasion text distinct_occasion_patterns"

definition novel_token_floor :: nat where
  "novel_token_floor = 3"

definition novel_ratio_floor :: real where
  "novel_ratio_floor = 40 / 100"

definition isAdditiveContent :: "jstr \<Rightarrow> jstr \<Rightarrow> bool" where
  "isAdditiveContent candidateText incomingText =
     (let candTokens = contentTokens candidateText;
          incTokens = contentTokens incomingText
      in if length incTokens = 0 then False
         else let novelCount = length (filter (\<lambda>tok. tok \<notin> set candTokens) incTokens)
              in novelCount \<ge> novel_token_floor
                 \<and> real novelCount / real (length incTokens) \<ge> novel_ratio_floor)"

datatype merge_keep_both = Conflicting_subjects | Distinct_occasion | Ambiguous_slot_change_no_cue

definition different_occasion :: "jstr \<Rightarrow> jstr \<Rightarrow> bool" where
  "different_occasion candidateText incomingText =
     (case (distinctOccasionAnchor candidateText, distinctOccasionAnchor incomingText) of
        (Some (t1, v1), Some (t2, v2)) \<Rightarrow> t1 = t2 \<and> v1 \<noteq> v2
      | _ \<Rightarrow> False)"

definition mergeKeepBothReason ::
  "similar_candidate \<Rightarrow> jstr \<Rightarrow> jstr list option \<Rightarrow> merge_keep_both option" where
  "mergeKeepBothReason candidate incomingText incomingTags =
     (if conflictingSubjects (sc_tags candidate) incomingTags
         \<and> isAdditiveContent (sc_l2 candidate) incomingText
      then Some Conflicting_subjects
      else if different_occasion (sc_l2 candidate) incomingText
              \<and> (let a = subjectValues (sc_tags candidate); b = subjectValues incomingTags
                 in length a > 0 \<and> length b > 0 \<and> list_ex (\<lambda>v. v \<in> set b) a)
      then Some Distinct_occasion
      else if sharesSlotTags (sc_tags candidate) incomingTags
              \<and> subjectsChanged (sc_tags candidate) incomingTags
              \<and> \<not> hasCurrentnessCue incomingText
      then Some Ambiguous_slot_change_no_cue
      else None)"

end
