(* ===== verification/Cosine.thy ===== *)
theory Cosine
  imports Runir_Prelude
begin

text \<open>
  Cosine similarity of two embeddings (\<open>src/src/shared/cosine.ts\<close>) over the real numbers: the
  fallback to zero, the bound, the symmetry and the invariance under scaling.
\<close>

fun dot_loop :: "real list \<Rightarrow> real list \<Rightarrow> real \<Rightarrow> real \<Rightarrow> real \<Rightarrow> real \<times> real \<times> real" where
  "dot_loop (av # a) (bv # b) dot normA normB =
     dot_loop a b (dot + av * bv) (normA + av * av) (normB + bv * bv)"
| "dot_loop a b dot normA normB = (dot, normA, normB)"

definition cosineSimilarity :: "real list \<Rightarrow> real list \<Rightarrow> real" where
  "cosineSimilarity a b =
     (if length a = 0 \<or> length b = 0 \<or> length a \<noteq> length b then 0
      else (case dot_loop a b 0 0 0 of
              (dot, normA, normB) \<Rightarrow>
                if normA = 0 \<or> normB = 0 then 0 else dot / (sqrt normA * sqrt normB)))"

section \<open>Sums of products\<close>

fun dot_product :: "real list \<Rightarrow> real list \<Rightarrow> real" where
  "dot_product (x # xs) (y # ys) = x * y + dot_product xs ys"
| "dot_product xs ys = 0"

lemma dot_loop_sums:
  "length a = length b \<Longrightarrow>
     dot_loop a b d p q = (d + dot_product a b, p + dot_product a a, q + dot_product b b)"
  by (induction a b d p q rule: dot_loop.induct) auto

lemma dot_product_commute: "dot_product a b = dot_product b a"
  by (induction a b rule: dot_product.induct) (auto simp: mult.commute)

lemma dot_product_nonneg: "0 \<le> dot_product a a"
  by (induction a) auto

lemma dot_product_scale_right: "dot_product a (map ((*) k) b) = k * dot_product a b"
  by (induction a b rule: dot_product.induct) (auto simp: algebra_simps)

lemma dot_product_scale_left: "dot_product (map ((*) k) a) b = k * dot_product a b"
  by (induction a b rule: dot_product.induct) (auto simp: algebra_simps)

text \<open>The Cauchy-Schwarz inequality.\<close>

lemma cauchy_step:
  fixes p x y :: real
  assumes "p\<^sup>2 \<le> a * b" and "0 \<le> a" and "0 \<le> b"
  shows "(x * y + p)\<^sup>2 \<le> (x * x + a) * (y * y + b)"
proof -
  have "(2 * (x * y * p))\<^sup>2 = 4 * ((x * y)\<^sup>2 * p\<^sup>2)" by (simp add: power_mult_distrib)
  also have "\<dots> \<le> 4 * ((x * y)\<^sup>2 * (a * b))"
    using assms(1) by (intro mult_left_mono) auto
  also have "\<dots> = 4 * ((x\<^sup>2 * b) * (y\<^sup>2 * a))" by (simp add: power_mult_distrib)
  also have "\<dots> \<le> (x\<^sup>2 * b + y\<^sup>2 * a)\<^sup>2"
    using zero_le_power2 [of "x\<^sup>2 * b - y\<^sup>2 * a"] by (simp add: power2_diff power2_sum mult_ac)
  finally have "2 * (x * y * p) \<le> x\<^sup>2 * b + y\<^sup>2 * a"
    by (rule power2_le_imp_le) (use assms in simp)
  moreover have "(x * y + p)\<^sup>2 = x\<^sup>2 * y\<^sup>2 + 2 * (x * y * p) + p\<^sup>2"
    by (simp add: power2_sum power_mult_distrib)
  moreover have "(x * x + a) * (y * y + b) = x\<^sup>2 * y\<^sup>2 + (x\<^sup>2 * b + y\<^sup>2 * a) + a * b"
    by (simp add: power2_eq_square distrib_left distrib_right mult_ac)
  ultimately show ?thesis using assms(1) by linarith
qed

lemma cauchy_schwarz: "(dot_product a b)\<^sup>2 \<le> dot_product a a * dot_product b b"
proof (induction a b rule: dot_product.induct)
  case (1 x xs y ys)
  then show ?case
    using cauchy_step [OF 1 dot_product_nonneg dot_product_nonneg, of x y] by simp
qed (auto simp: dot_product_nonneg)

lemma cosine_dot:
  "length a = length b \<Longrightarrow>
     cosineSimilarity a b = dot_product a b / (sqrt (dot_product a a) * sqrt (dot_product b b))"
  by (cases a; cases b) (auto simp: cosineSimilarity_def dot_loop_sums)

lemma cosine_other_length: "length a \<noteq> length b \<Longrightarrow> cosineSimilarity a b = 0"
  by (simp add: cosineSimilarity_def)

lemma quotient_abs_le_1: "\<bar>d\<bar> \<le> n \<Longrightarrow> \<bar>d / n\<bar> \<le> (1::real)"
proof -
  assume le: "\<bar>d\<bar> \<le> n"
  then have n: "0 \<le> n" using abs_ge_zero order_trans by blast
  show "\<bar>d / n\<bar> \<le> 1"
  proof (cases "n = 0")
    case False
    with n have "0 < n" by simp
    with le show ?thesis by (simp add: abs_divide divide_le_eq)
  qed simp
qed

lemma cosine_abs_le_1: "\<bar>cosineSimilarity a b\<bar> \<le> 1"
proof (cases "length a = length b")
  case True
  let ?n = "sqrt (dot_product a a) * sqrt (dot_product b b)"
  have "\<bar>dot_product a b\<bar> = sqrt ((dot_product a b)\<^sup>2)" by simp
  also have "\<dots> \<le> sqrt (dot_product a a * dot_product b b)"
    using cauchy_schwarz by (rule real_sqrt_le_mono)
  also have "\<dots> = ?n" by (rule real_sqrt_mult)
  finally have "\<bar>dot_product a b\<bar> \<le> ?n" .
  then have "\<bar>dot_product a b / ?n\<bar> \<le> 1" by (rule quotient_abs_le_1)
  then show ?thesis by (simp add: cosine_dot [OF True])
next
  case False
  then show ?thesis by (simp add: cosine_other_length)
qed

lemma cosine_commute: "cosineSimilarity a b = cosineSimilarity b a"
  by (cases "length a = length b")
    (auto simp: cosine_dot cosine_other_length dot_product_commute [of a b] mult.commute)

lemma cosine_scale:
  assumes "0 < k"
  shows "cosineSimilarity (map ((*) k) a) b = cosineSimilarity a b"
proof (cases "length a = length b")
  case True
  have "sqrt (dot_product (map ((*) k) a) (map ((*) k) a)) = k * sqrt (dot_product a a)"
    using assms by (simp add: dot_product_scale_left dot_product_scale_right real_sqrt_mult
        flip: mult.assoc)
  with True assms show ?thesis
    by (simp add: cosine_dot dot_product_scale_left)
next
  case False
  then show ?thesis by (simp add: cosine_other_length)
qed

lemma dot_product_pos: "x \<in> set a \<Longrightarrow> x \<noteq> 0 \<Longrightarrow> 0 < dot_product a a"
proof (induction a)
  case (Cons y ys)
  then show ?case
    by (cases "y = 0")
      (auto simp: dot_product_nonneg add_pos_nonneg zero_less_mult_iff linorder_neq_iff)
qed simp

lemma cosine_self: "x \<in> set a \<Longrightarrow> x \<noteq> 0 \<Longrightarrow> cosineSimilarity a a = 1"
  using dot_product_pos [of x a] by (simp add: cosine_dot)

end
