(* ===== verification/Js_Json.thy ===== *)
theory Js_Json
  imports Js_Value
begin

text \<open>
  \<open>JSON.parse\<close> on the strings of the model: the ECMAScript grammar (white space, literals,
  numbers, strings with escapes, arrays, objects). An escape \<open>\u\<close> that names a code unit above
  U+00FF yields \<open>?\<close>, since the model has no such character; a number that overflows is infinite,
  as a double is, and no other number is rounded.
\<close>

section \<open>Lexical parts\<close>

definition json_ws :: "char \<Rightarrow> bool" where
  "json_ws c = (let n = code_unit c in n = 9 \<or> n = 10 \<or> n = 13 \<or> n = 32)"

lemma json_ws_code [code]: "json_ws c = (c = CHR '' '' \<or> c = CHR 0x0A \<or> c = CHR 0x09 \<or> c = CHR 0x0D)"
  by (auto simp: json_ws_def code_unit_def Let_def of_char_eq_iff [symmetric, where ?'a = nat])

definition skip_ws :: "jstr \<Rightarrow> jstr" where
  "skip_ws s = dropWhile json_ws s"

definition hex_value :: "char \<Rightarrow> nat option" where
  "hex_value c =
     (let n = code_unit c
      in if 48 \<le> n \<and> n \<le> 57 then Some (n - 48)
         else if 97 \<le> n \<and> n \<le> 102 then Some (n - 87)
         else if 65 \<le> n \<and> n \<le> 70 then Some (n - 55)
         else None)"

definition unit_char :: "nat \<Rightarrow> char" where
  "unit_char n = (if n < 256 then char_of n else CHR ''?'')"

definition simple_escape :: "char \<Rightarrow> char option" where
  "simple_escape c =
     (if c = CHR 0x22 \<or> c = CHR 0x5C \<or> c = CHR ''/'' then Some c
      else if c = CHR ''b'' then Some (CHR 0x08)
      else if c = CHR ''f'' then Some (CHR 0x0C)
      else if c = CHR ''n'' then Some (CHR 0x0A)
      else if c = CHR ''r'' then Some (CHR 0x0D)
      else if c = CHR ''t'' then Some (CHR 0x09)
      else None)"

text \<open>The rest of a string literal after its opening quote.\<close>

fun json_chars :: "jstr \<Rightarrow> (jstr \<times> jstr) option" where
  "json_chars [] = None"
| "json_chars (c # s) =
     (if c = CHR 0x22 then Some ([], s)
      else if code_unit c < 32 then None
      else if c = CHR 0x5C
      then (case s of
              [] \<Rightarrow> None
            | e # s' \<Rightarrow>
                (case simple_escape e of
                   Some d \<Rightarrow> map_option (\<lambda>(t, r). (d # t, r)) (json_chars s')
                 | None \<Rightarrow>
                     (case s' of
                        h1 # h2 # h3 # h4 # s'' \<Rightarrow>
                          (case (hex_value h1, hex_value h2, hex_value h3, hex_value h4) of
                             (Some a, Some b, Some d, Some f) \<Rightarrow>
                               if e = CHR ''u''
                               then map_option
                                      (\<lambda>(t, r). (unit_char (((a * 16 + b) * 16 + d) * 16 + f) # t, r))
                                      (json_chars s'')
                               else None
                           | _ \<Rightarrow> None)
                      | _ \<Rightarrow> None)))
      else map_option (\<lambda>(t, r). (c # t, r)) (json_chars s))"

text \<open>A number: sign, integer part without a leading zero, fraction, exponent.\<close>

fun digits_of :: "jstr \<Rightarrow> jstr" where
  "digits_of s = takeWhile digit_char s"

definition digits_nat :: "jstr \<Rightarrow> int" where
  "digits_nat s = (case digits_value 0 s of Some n \<Rightarrow> n | None \<Rightarrow> 0)"

definition double_limit :: real where
  "double_limit = 2 ^ 1024 - 2 ^ 970"

definition to_jnum :: "real \<Rightarrow> jnum" where
  "to_jnum x = (if \<bar>x\<bar> \<ge> double_limit then Infinite (x > 0) else Fin x)"

text \<open>For evaluation: a number far below the limit is not compared with it.\<close>

lemma to_jnum_code [code]:
  "to_jnum x = (if \<bar>x\<bar> \<le> 1000000 then Fin x
    else if \<bar>x\<bar> \<ge> double_limit then Infinite (x > 0) else Fin x)"
proof (cases "\<bar>x\<bar> \<le> 1000000")
  case True
  moreover have "(1000000::real) < double_limit" unfolding double_limit_def by simp
  ultimately have "\<not> \<bar>x\<bar> \<ge> double_limit" by linarith
  with True show ?thesis by (simp add: to_jnum_def)
qed (simp add: to_jnum_def)

definition json_exponent :: "jstr \<Rightarrow> (int \<times> jstr) option" where
  "json_exponent s =
     (case s of
        [] \<Rightarrow> Some (0, [])
      | c # s1 \<Rightarrow>
          (if c = CHR ''e'' \<or> c = CHR ''E''
           then (let neg = (case s1 of d # _ \<Rightarrow> d = CHR ''-'' | [] \<Rightarrow> False);
                     s2 = (case s1 of d # r \<Rightarrow> if d = CHR ''-'' \<or> d = CHR ''+'' then r else s1
                           | [] \<Rightarrow> s1);
                     ds = digits_of s2
                 in if ds = [] then None
                    else Some ((if neg then - digits_nat ds else digits_nat ds), drop (length ds) s2))
           else Some (0, s)))"

definition json_fraction :: "jstr \<Rightarrow> (jstr \<times> jstr) option" where
  "json_fraction s =
     (case s of
        [] \<Rightarrow> Some ([], [])
      | c # s1 \<Rightarrow>
          (if c = CHR ''.''
           then (let ds = digits_of s1
                 in if ds = [] then None else Some (ds, drop (length ds) s1))
           else Some ([], s)))"

definition power10 :: "int \<Rightarrow> real" where
  "power10 e = (if e \<ge> 0 then 10 ^ nat e else 1 / 10 ^ nat (- e))"

definition json_number :: "jstr \<Rightarrow> (jval \<times> jstr) option" where
  "json_number s =
     (let neg = (case s of c # _ \<Rightarrow> c = CHR ''-'' | [] \<Rightarrow> False);
          s1 = (if neg then tl s else s);
          ds = (case s1 of c # _ \<Rightarrow> if c = CHR ''0'' then [c] else digits_of s1 | [] \<Rightarrow> [])
      in if ds = [] then None
         else (case json_fraction (drop (length ds) s1) of
                 None \<Rightarrow> None
               | Some (fs, s2) \<Rightarrow>
                   (case json_exponent s2 of
                      None \<Rightarrow> None
                    | Some (e, s3) \<Rightarrow>
                        (let m = real_of_int (digits_nat (ds @ fs)) * power10 (e - int (length fs))
                         in Some (JNum (to_jnum (if neg then - m else m)), s3)))))"

section \<open>Values\<close>

text \<open>
  A property that occurs twice keeps its first place and its last value. The order in which an
  engine lists integer-like keys is outside the model.
\<close>

fun put_field :: "pkey \<Rightarrow> jval \<Rightarrow> (pkey \<times> jval) list \<Rightarrow> (pkey \<times> jval) list" where
  "put_field k v [] = [(k, v)]"
| "put_field k v ((k', v') # fs) = (if k = k' then (k, v) # fs else (k', v') # put_field k v fs)"

definition json_object :: "(jstr \<times> jval) list \<Rightarrow> jval" where
  "json_object fs = JObj True (foldl (\<lambda>acc (k, v). put_field (KStr k) v acc) [] fs)"

text \<open>\<open>strip_lit w s\<close>: what follows the literal.\<close>

definition strip_lit :: "jstr \<Rightarrow> jstr \<Rightarrow> jstr option" where
  "strip_lit w s = (if prefix w s then Some (drop (length w) s) else None)"

definition json_atom :: "jstr \<Rightarrow> (jval \<times> jstr) option" where
  "json_atom s =
     (case strip_lit ''null'' s of Some r \<Rightarrow> Some (JNull, r)
      | None \<Rightarrow> (case strip_lit ''true'' s of Some r \<Rightarrow> Some (JBool True, r)
      | None \<Rightarrow> (case strip_lit ''false'' s of Some r \<Rightarrow> Some (JBool False, r)
      | None \<Rightarrow> json_number s)))"

lemma length_skip_ws: "length (skip_ws s) \<le> length s"
  by (simp add: skip_ws_def length_dropWhile_le)

lemma skip_ws_Cons: "skip_ws s = c # r \<Longrightarrow> length r < length s"
  using length_skip_ws [of s] by simp

text \<open>
  The recursion: a value, the rest of an array after \<open>[\<close> or a comma, the rest of an object
  after \<open>{\<close> or a comma. The tests on lengths are always true where they stand (lemma
  \<open>json_consumes\<close>); they make the termination evident.
\<close>

function (sequential) json_value :: "jstr \<Rightarrow> (jval \<times> jstr) option"
  and json_elements :: "jstr \<Rightarrow> (jval list \<times> jstr) option"
  and json_members :: "jstr \<Rightarrow> ((jstr \<times> jval) list \<times> jstr) option"
where
  "json_value s =
     (case skip_ws s of
        [] \<Rightarrow> None
      | c # s1 \<Rightarrow>
          (if c = CHR 0x22 then map_option (\<lambda>(t, r). (JStr t, r)) (json_chars s1)
           else if c = CHR ''[''
           then (case skip_ws s1 of
                   [] \<Rightarrow> None
                 | d # r \<Rightarrow>
                     (if d = CHR '']'' then Some (JArr [], r)
                      else map_option (\<lambda>(vs, r). (JArr vs, r)) (json_elements s1)))
           else if c = CHR ''{''
           then (case skip_ws s1 of
                   [] \<Rightarrow> None
                 | d # r \<Rightarrow>
                     (if d = CHR ''}'' then Some (json_object [], r)
                      else map_option (\<lambda>(fs, r). (json_object fs, r)) (json_members s1)))
           else json_atom (c # s1)))"
| "json_elements s =
     (case json_value s of
        None \<Rightarrow> None
      | Some (v, r) \<Rightarrow>
          (case skip_ws r of
             [] \<Rightarrow> None
           | d # r1 \<Rightarrow>
               (if d = CHR '']'' then Some ([v], r1)
                else if d = CHR '','' \<and> length r1 < length s
                then map_option (\<lambda>(vs, r2). (v # vs, r2)) (json_elements r1)
                else None)))"
| "json_members s =
     (case skip_ws s of
        [] \<Rightarrow> None
      | q # s1 \<Rightarrow>
          (if q \<noteq> CHR 0x22 then None
           else (case json_chars s1 of
                   None \<Rightarrow> None
                 | Some (k, r) \<Rightarrow>
                     (case skip_ws r of
                        [] \<Rightarrow> None
                      | d # r1 \<Rightarrow>
                          (if d = CHR '':'' \<and> length r1 < length s
                           then (case json_value r1 of
                                   None \<Rightarrow> None
                                 | Some (v, r2) \<Rightarrow>
                                     (case skip_ws r2 of
                                        [] \<Rightarrow> None
                                      | e # r3 \<Rightarrow>
                                          (if e = CHR ''}'' then Some ([(k, v)], r3)
                                           else if e = CHR '','' \<and> length r3 < length s
                                           then map_option (\<lambda>(fs, r4). ((k, v) # fs, r4)) (json_members r3)
                                           else None)))
                           else None)))))"
  by pat_completeness auto

termination
  by (relation "measure (\<lambda>x. case x of Inl s \<Rightarrow> 2 * length s
        | Inr y \<Rightarrow> (case y of Inl s \<Rightarrow> 2 * length s + 1 | Inr s \<Rightarrow> 2 * length s + 1))")
    (auto dest!: skip_ws_Cons)

declare json_value.simps [simp del] json_elements.simps [simp del] json_members.simps [simp del]

definition json_parse :: "jstr \<Rightarrow> jval option" where
  "json_parse s =
     (case json_value s of
        Some (v, r) \<Rightarrow> if skip_ws r = [] then Some v else None
      | None \<Rightarrow> None)"

section \<open>Every part consumes text\<close>

lemma json_chars_consumes: "json_chars s = Some (t, r) \<Longrightarrow> length r < length s"
proof (induction s arbitrary: t r rule: json_chars.induct)
  case (2 c s)
  then show ?case
    by (fastforce split: if_splits option.splits list.splits)
qed simp

lemma json_fraction_length: "json_fraction s = Some (fs, r) \<Longrightarrow> length r \<le> length s"
  by (auto simp: json_fraction_def Let_def split: list.splits if_splits)

lemma json_exponent_length: "json_exponent s = Some (e, r) \<Longrightarrow> length r \<le> length s"
  by (auto simp: json_exponent_def Let_def split: list.splits if_splits)

lemma json_number_consumes: "json_number s = Some (v, r) \<Longrightarrow> length r < length s"
  by (auto simp: json_number_def Let_def split: list.splits if_splits option.splits
      dest!: json_fraction_length json_exponent_length)

lemma json_atom_consumes: "json_atom s = Some (v, r) \<Longrightarrow> length r < length s"
  by (auto simp: json_atom_def strip_lit_def split: option.splits if_splits
      dest: json_number_consumes prefix_length_le)

lemma json_consumes:
  "json_value s = Some (v, r) \<Longrightarrow> length r < length s"
  "json_elements t = Some (vs, r') \<Longrightarrow> length r' < length t"
  "json_members u = Some (fs, r'') \<Longrightarrow> length r'' < length u"
proof (induction s and t and u arbitrary: v r and vs r' and fs r''
    rule: json_value_json_elements_json_members.induct)
  case (1 s)
  obtain c s1 where sk: "skip_ws s = c # s1"
    using "1.prems" by (subst (asm) json_value.simps) (auto split: list.splits)
  note lt = skip_ws_Cons [OF sk]
  have el: "length r < length s" if "c \<noteq> CHR 0x22" "c = CHR ''[''" "skip_ws s1 = d # q" "d \<noteq> CHR '']''"
      "json_elements s1 = Some (vs, r)" for d q vs
    using "1.IH"(1) [OF sk that] lt by simp
  have mem: "length r < length s" if "c \<noteq> CHR 0x22" "c \<noteq> CHR ''[''" "c = CHR ''{''"
      "skip_ws s1 = d # q" "d \<noteq> CHR ''}''" "json_members s1 = Some (fs, r)" for d q fs
    using "1.IH"(2) [OF sk that] lt by simp
  have atom: "length r < length s" if "json_atom (c # s1) = Some (v, r)"
    using json_atom_consumes [OF that] lt by simp
  from "1.prems" show ?case
    by (subst (asm) json_value.simps)
      (auto simp: sk split: list.splits if_splits dest: skip_ws_Cons json_chars_consumes
        intro: el mem atom less_trans [OF _ lt])
next
  case (2 s)
  obtain w q where val: "json_value s = Some (w, q)"
    using "2.prems" by (subst (asm) json_elements.simps) (auto split: option.splits)
  have lt: "length q < length s" by (rule "2.IH"(1) [OF val])
  have "length r' < length s" if "skip_ws q = d # r1" "d \<noteq> CHR '']''"
      "d = CHR '','' \<and> length r1 < length s" "json_elements r1 = Some (vs, r')" for d r1 vs
    using "2.IH"(2) [OF val refl that] that by simp
  with "2.prems" lt show ?case
    by (subst (asm) json_elements.simps)
      (fastforce simp: val split: list.splits if_splits dest: skip_ws_Cons)
next
  case (3 s)
  obtain q s1 k r where sk: "skip_ws s = q # s1" "\<not> q \<noteq> CHR 0x22" and ch: "json_chars s1 = Some (k, r)"
    using "3.prems" by (subst (asm) json_members.simps) (auto split: option.splits list.splits if_splits)
  obtain d r1 where d: "skip_ws r = d # r1" and c: "d = CHR '':'' \<and> length r1 < length s"
    using "3.prems" sk ch by (subst (asm) json_members.simps) (auto split: option.splits list.splits if_splits)
  obtain v r2 where val: "json_value r1 = Some (v, r2)"
    using "3.prems" sk ch d c by (subst (asm) json_members.simps) (auto split: option.splits list.splits if_splits)
  have lt: "length r2 < length s" using "3.IH"(1) [OF sk ch refl d c val] c by simp
  have "length r'' < length s" if "skip_ws r2 = e # r3" "e \<noteq> CHR ''}''"
      "e = CHR '','' \<and> length r3 < length s" "json_members r3 = Some (fs, r'')" for e r3 fs
    using "3.IH"(2) [OF sk ch refl d c val refl that] that by simp
  with "3.prems" sk ch d c val lt show ?case
    by (subst (asm) json_members.simps)
      (fastforce split: list.splits if_splits dest: skip_ws_Cons)
qed

text \<open>So the guards never refuse a text: an array or object goes on exactly at its comma.\<close>

lemma json_elements_comma:
  assumes "json_value s = Some (v, r)" and "skip_ws r = CHR '','' # r1"
  shows "json_elements s = map_option (\<lambda>(vs, r2). (v # vs, r2)) (json_elements r1)"
proof -
  have "length r1 < length s"
    using skip_ws_Cons [OF assms(2)] json_consumes(1) [OF assms(1)] by simp
  then show ?thesis by (subst json_elements.simps) (simp add: assms)
qed

lemma json_atom_literals:
  "json_parse ''null'' = Some JNull" "json_parse ''true'' = Some (JBool True)"
  "json_parse '' [1, -2.50e1 , []] '' =
     Some (JArr [JNum (Fin 1), JNum (Fin (- 25)), JArr []])"
  by code_simp+

end
