(* ===== verification/Supersession_Judge.thy ===== *)
theory Supersession_Judge
  imports Js_Json
begin

text \<open>
  The judge of one stored and one incoming text
  (\<open>src/src/storage/writes/supersession-judge.ts\<close>) and the handle around the model call
  (\<open>src/src/app/supersession-judge.ts\<close>): what the model is shown, how its answer is parsed, and
  how every failure class is counted. The network call and the fixed system prompt (its characters
  are outside the model's alphabet) are parameters.
\<close>

section \<open>Verdicts\<close>

datatype verdict_label = Says_duplicate | Says_supersede | Says_independent

fun label_name :: "verdict_label \<Rightarrow> jstr" where
  "label_name Says_duplicate = ''duplicate''"
| "label_name Says_supersede = ''supersede''"
| "label_name Says_independent = ''independent''"

definition valid_labels :: "verdict_label list" where
  "valid_labels = [Says_duplicate, Says_supersede, Says_independent]"

definition label_of :: "jstr \<Rightarrow> verdict_label option" where
  "label_of s = find (\<lambda>l. label_name l = s) valid_labels"

record supersession_verdict =
  sv_verdict :: verdict_label
  sv_confidence :: jnum
  sv_rationale :: "jstr option"

datatype judge_outcome =
    Verdict supersession_verdict
  | Unavailable
  | Transport_error jstr
  | Invalid_response jstr

record judge_identity =
  ji_model :: jstr
  ji_promptVersion :: jstr
  ji_promptSha256 :: jstr
  ji_confidenceFloor :: real
  ji_temperature :: real
  ji_effectiveJsonMode :: bool
  ji_baseUrl :: jstr
  ji_timeoutMs :: real

definition keep_both :: supersession_verdict where
  "keep_both = \<lparr>sv_verdict = Says_independent, sv_confidence = Fin 0, sv_rationale = None\<rparr>"

section \<open>What the judge is shown\<close>

datatype judge_input_view = Raw_view | Strip_provenance

definition newline :: char where
  "newline = CHR 0x0A"

definition provenance_markers :: "jstr list" where
  "provenance_markers =
     [[newline, newline] @ ''Source:'' @ [newline],
      [newline, newline] @ ''Exact source list:'' @ [newline]]"

definition js_trim_end :: "jstr \<Rightarrow> jstr" where
  "js_trim_end s = rev (dropWhile js_ws (rev s))"

definition earlier_marker :: "jstr \<Rightarrow> nat \<Rightarrow> jstr \<Rightarrow> nat" where
  "earlier_marker text stop marker =
     (case js_index_of text marker of Some i \<Rightarrow> if i < stop then i else stop | None \<Rightarrow> stop)"

definition withoutProvenance :: "jstr \<Rightarrow> jstr" where
  "withoutProvenance text =
     js_trim_end (take (foldl (earlier_marker text) (length text) provenance_markers) text)"

definition trailing_punctuation :: re where
  "trailing_punctuation =
     Seq (plus (Chr (\<lambda>c. c \<in> set ''.,;:!?''))) TextEnd"

definition comparable :: "jstr \<Rightarrow> jstr" where
  "comparable text =
     js_trim (replace_first trailing_punctuation (\<lambda>_. []) (collapse_ws (js_lower text)))"

record judge_texts =
  jt_old :: jstr
  jt_new :: jstr
  jt_indistinguishable :: bool

definition judgeInputTexts :: "jstr \<Rightarrow> jstr \<Rightarrow> judge_input_view \<Rightarrow> judge_texts" where
  "judgeInputTexts oldText newText view =
     (if view = Raw_view then \<lparr>jt_old = oldText, jt_new = newText, jt_indistinguishable = False\<rparr>
      else let old1 = withoutProvenance oldText; new1 = withoutProvenance newText;
               blocksDiffer =
                 (js_trim (drop (length old1) oldText) \<noteq> js_trim (drop (length new1) newText))
           in \<lparr>jt_old = old1, jt_new = new1,
               jt_indistinguishable = (blocksDiffer \<and> comparable old1 = comparable new1)\<rparr>)"

datatype chat_role = System_role | User_role

definition buildJudgePrompt ::
  "jstr \<Rightarrow> jstr \<Rightarrow> jstr \<Rightarrow> judge_input_view \<Rightarrow> (chat_role \<times> jstr) list" where
  "buildJudgePrompt system_prompt oldText newText view =
     (let texts = judgeInputTexts oldText newText view
      in [(System_role, system_prompt),
          (User_role, ''OLD:'' @ [newline] @ jt_old texts @ [newline, newline] @ ''NEW:''
             @ [newline] @ jt_new texts)])"

section \<open>Parsing the answer\<close>

definition fence :: jstr where
  "fence = replicate 3 (CHR 0x60)"

definition stripFences :: "jstr \<Rightarrow> jstr" where
  "stripFences content =
     js_trim (replace_first (seqs [opt (ch newline), lit fence, TextEnd]) (\<lambda>_. [])
       (replace_first (seqs [text_start, lit fence, opt (lit_ci ''json''), opt (ch newline)]) (\<lambda>_. [])
          content))"

definition malformed_json :: jstr where "malformed_json = ''malformed_json''"
definition wrong_shape :: jstr where "wrong_shape = ''wrong_shape''"
definition unknown_label :: jstr where "unknown_label = ''unknown_label''"
definition non_finite_confidence :: jstr where "non_finite_confidence = ''non_finite_confidence''"
definition out_of_range_confidence :: jstr where
  "out_of_range_confidence = ''out_of_range_confidence''"

definition parseJudgeVerdictRaw :: "jstr \<Rightarrow> jstr + supersession_verdict" where
  "parseJudgeVerdictRaw raw =
     (case json_parse (stripFences raw) of
        None \<Rightarrow> Inl malformed_json
      | Some parsed \<Rightarrow>
          (case parsed of
             JObj _ _ \<Rightarrow>
               (case Option.bind (str_of (jget parsed ''verdict'')) label_of of
                  None \<Rightarrow> Inl unknown_label
                | Some label \<Rightarrow>
                    (case jget parsed ''confidence'' of
                       JNum (Fin c) \<Rightarrow>
                         (if c < 0 \<or> c > 1 then Inl out_of_range_confidence
                          else Inr \<lparr>sv_verdict = label, sv_confidence = Fin c,
                                    sv_rationale = str_of (jget parsed ''rationale'')\<rparr>)
                     | _ \<Rightarrow> Inl non_finite_confidence))
           | _ \<Rightarrow> Inl wrong_shape))"

definition parseJudgeVerdict :: "jstr \<Rightarrow> supersession_verdict" where
  "parseJudgeVerdict raw =
     (case parseJudgeVerdictRaw raw of Inl _ \<Rightarrow> keep_both | Inr v \<Rightarrow> v)"

section \<open>The handle\<close>

record judge_counters =
  jc_verdict :: nat
  jc_unavailable :: nat
  jc_transport_error :: nat
  jc_invalid_response :: nat
  jc_vetoed :: nat
  jc_confirmed :: nat
  jc_duplicate :: nat
  jc_indistinguishable :: nat
  jc_ledger_write_failures :: nat

definition emptyJudgeCounters :: judge_counters where
  "emptyJudgeCounters =
     \<lparr>jc_verdict = 0, jc_unavailable = 0, jc_transport_error = 0, jc_invalid_response = 0,
      jc_vetoed = 0, jc_confirmed = 0, jc_duplicate = 0, jc_indistinguishable = 0,
      jc_ledger_write_failures = 0\<rparr>"

datatype gateway_kind = Http_kind | Timeout_kind | Network_kind | Shape_kind

text \<open>What the call to the model gateway gives: the content, or the error it throws.\<close>

datatype gateway_reply =
    Content jstr
  | Gateway_error gateway_kind jstr
  | Other_error jstr

record judge_options =
  jo_apiKey :: jstr
  jo_identity :: judge_identity
  jo_inputView :: judge_input_view
  jo_systemPrompt :: jstr

definition judge_call ::
  "judge_options \<Rightarrow> (judge_identity \<Rightarrow> (chat_role \<times> jstr) list \<Rightarrow> gateway_reply)
     \<Rightarrow> jstr \<Rightarrow> jstr \<Rightarrow> judge_counters \<Rightarrow> judge_outcome \<times> judge_counters" where
  "judge_call opts gateway oldText newText n =
     (if jo_apiKey opts = []
      then (Unavailable, n\<lparr>jc_unavailable := jc_unavailable n + 1\<rparr>)
      else if jt_indistinguishable (judgeInputTexts oldText newText (jo_inputView opts))
      then (Verdict keep_both, n\<lparr>jc_indistinguishable := jc_indistinguishable n + 1\<rparr>)
      else (case gateway (jo_identity opts)
                   (buildJudgePrompt (jo_systemPrompt opts) oldText newText (jo_inputView opts)) of
              Content content \<Rightarrow>
                (case parseJudgeVerdictRaw content of
                   Inl detail \<Rightarrow>
                     (Invalid_response detail, n\<lparr>jc_invalid_response := jc_invalid_response n + 1\<rparr>)
                 | Inr v \<Rightarrow> (Verdict v, n\<lparr>jc_verdict := jc_verdict n + 1\<rparr>))
            | Gateway_error Shape_kind message \<Rightarrow>
                (Invalid_response message, n\<lparr>jc_invalid_response := jc_invalid_response n + 1\<rparr>)
            | Gateway_error _ message \<Rightarrow>
                (Transport_error message, n\<lparr>jc_transport_error := jc_transport_error n + 1\<rparr>)
            | Other_error message \<Rightarrow>
                (Transport_error message, n\<lparr>jc_transport_error := jc_transport_error n + 1\<rparr>)))"

datatype judge_resolution = Confirmed_note | Vetoed_note | Duplicate_note

fun noteResolution :: "judge_resolution \<Rightarrow> judge_counters \<Rightarrow> judge_counters" where
  "noteResolution Confirmed_note n = n\<lparr>jc_confirmed := jc_confirmed n + 1\<rparr>"
| "noteResolution Vetoed_note n = n\<lparr>jc_vetoed := jc_vetoed n + 1\<rparr>"
| "noteResolution Duplicate_note n = n\<lparr>jc_duplicate := jc_duplicate n + 1\<rparr>"

definition calls_counted :: "judge_counters \<Rightarrow> nat" where
  "calls_counted n =
     jc_verdict n + jc_unavailable n + jc_transport_error n + jc_invalid_response n
       + jc_indistinguishable n"

section \<open>Facts\<close>

lemma label_of_name [simp]: "label_of (label_name l) = Some l"
  by (cases l) (simp_all add: label_of_def valid_labels_def)

lemma label_of_Some: "label_of s = Some l \<Longrightarrow> s = label_name l"
  by (auto simp: label_of_def find_Some_iff)

lemma parse_verdict_range:
  assumes "parseJudgeVerdictRaw raw = Inr v"
  shows "\<exists>c. sv_confidence v = Fin c \<and> 0 \<le> c \<and> c \<le> 1"
  using assms
  by (auto simp: parseJudgeVerdictRaw_def split: option.splits jval.splits jnum.splits if_splits)

lemma js_trim_end_prefix: "prefix (js_trim_end s) s"
  by (simp add: js_trim_end_def suffix_dropWhile suffix_to_prefix [symmetric])
    (metis rev_rev_ident suffix_dropWhile suffix_to_prefix)

lemma js_trim_end_idem [simp]: "js_trim_end (js_trim_end s) = js_trim_end s"
  by (simp add: js_trim_end_def dropWhile_ws_idem)

lemma cut_le: "foldl (earlier_marker text) n ms \<le> n"
proof (induction ms arbitrary: n)
  case (Cons m ms)
  have "earlier_marker text n m \<le> n" by (simp add: earlier_marker_def split: option.split)
  with Cons.IH [of "earlier_marker text n m"] show ?case by simp
qed simp

lemma cut_le_marker:
  "m \<in> set ms \<Longrightarrow> js_index_of text m = Some i \<Longrightarrow> foldl (earlier_marker text) n ms \<le> i"
proof (induction ms arbitrary: n)
  case (Cons m' ms)
  show ?case
  proof (cases "m = m'")
    case True
    with Cons.prems have "earlier_marker text n m' \<le> i" by (simp add: earlier_marker_def)
    then have "foldl (earlier_marker text) (earlier_marker text n m') ms \<le> i"
      by (rule order.trans [OF cut_le])
    then show ?thesis by simp
  qed (use Cons in simp)
qed simp

lemma withoutProvenance_prefix: "prefix (withoutProvenance text) text"
  unfolding withoutProvenance_def using js_trim_end_prefix take_is_prefix by (rule prefix_order.trans)

text \<open>An occurrence in a prefix is an occurrence in the text, at the same place.\<close>

lemma js_index_of_prefix:
  "prefix s t \<Longrightarrow> js_index_of s m = Some i \<Longrightarrow> \<exists>j\<le>i. js_index_of t m = Some j"
proof (induction s arbitrary: t i)
  case Nil
  then have "m = []" "i = 0" by (auto simp: js_index_of.simps split: if_splits)
  then show ?case by (simp add: js_index_of.simps)
next
  case (Cons c cs)
  then obtain cs' where t: "t = c # cs'" and pre: "prefix cs cs'" by (cases t) auto
  show ?case
  proof (cases "prefix m t")
    case True
    then show ?thesis by (simp add: js_index_of.simps)
  next
    case False
    then have "\<not> prefix m (c # cs)"
      using Cons.prems(1) prefix_order.trans by blast
    with Cons.prems(2) obtain k where k: "js_index_of cs m = Some k" "i = Suc k"
      by (auto simp: js_index_of.simps [of "c # cs"])
    from Cons.IH [OF pre k(1)] obtain j where "j \<le> k" "js_index_of cs' m = Some j" by blast
    with False k t show ?thesis by (simp add: js_index_of.simps [of "c # cs'"])
  qed
qed

lemma withoutProvenance_no_marker:
  assumes "m \<in> set provenance_markers"
  shows "js_index_of (withoutProvenance text) m = None"
proof (rule ccontr)
  assume "js_index_of (withoutProvenance text) m \<noteq> None"
  then obtain i where i: "js_index_of (withoutProvenance text) m = Some i" by blast
  let ?cut = "foldl (earlier_marker text) (length text) provenance_markers"
  obtain j where j: "j \<le> i" "js_index_of text m = Some j"
    using js_index_of_prefix [OF withoutProvenance_prefix i] by blast
  have "?cut \<le> j" by (rule cut_le_marker [OF assms j(2)])
  moreover have "i + length m \<le> length (withoutProvenance text)"
    using js_index_of_Some [OF i] by simp
  moreover have "length (withoutProvenance text) \<le> ?cut"
    using prefix_length_le [OF js_trim_end_prefix, of "take ?cut text"] cut_le
    by (simp add: withoutProvenance_def)
  moreover have "length m > 0" using assms by (auto simp: provenance_markers_def)
  ultimately show False using j(1) by linarith
qed

lemma foldl_no_marker:
  "\<forall>m\<in>set ms. js_index_of text m = None \<Longrightarrow> foldl (earlier_marker text) n ms = n"
  by (induction ms arbitrary: n) (auto simp: earlier_marker_def)

lemma withoutProvenance_idem: "withoutProvenance (withoutProvenance text) = withoutProvenance text"
proof -
  let ?t = "withoutProvenance text"
  have "foldl (earlier_marker ?t) (length ?t) provenance_markers = length ?t"
    by (rule foldl_no_marker) (simp add: withoutProvenance_no_marker)
  then have "withoutProvenance ?t = js_trim_end ?t" by (simp add: withoutProvenance_def [of ?t])
  also have "\<dots> = ?t" unfolding withoutProvenance_def by (rule js_trim_end_idem)
  finally show ?thesis .
qed

lemma judge_call_counts: "calls_counted (snd (judge_call opts gateway a b n)) = Suc (calls_counted n)"
  by (simp add: judge_call_def calls_counted_def split: gateway_reply.split gateway_kind.split sum.split)

end
