(* ===== verification/Write_Decision.thy ===== *)
theory Write_Decision
  imports Write_Signals Cosine Supersession_Judge
begin

text \<open>
  The decision core of write arbitration (\<open>resolveDecision\<close> and \<open>findSupersedeTarget\<close> of
  \<open>src/src/storage/writes/write-arbitrator.ts\<close>, with \<open>shadow-snapshots.ts\<close>): given the incoming
  text, the recent writes and the similar candidates, the one outcome that is applied. The
  rendered reason strings are constructors that carry what the code interpolates into them.
\<close>

section \<open>Decisions\<close>

datatype outcome = Skip | Supersede | Merge_update | Create | Judge

datatype band =
    Exact_dup
  | Correction_supersede
  | Recent_near_dup_skip
  | Store_near_dup_skip
  | Merge_band
  | Create_band

datatype supersede_signal =
    Deterministic_text
  | Extractor_correction_slot
  | Extractor_correction_named_value
  | Currentness_cue_slot
  | Llm_judge_supersede

datatype guard_leg = Durability | Temporal | Occasion

text \<open>\<open>guardKeepBoth.reason\<close>: one of the guard reasons, or the text of the occasion leg.\<close>

datatype guard_reason = Guard keep_both_reason | Same_type_anchors_differ

text \<open>
  What the reasons of a judged decision interpolate: on the confirmation path the original signal
  and the cosine, on the cue path nothing.
\<close>

datatype judge_context = F2_context "supersede_signal option" real | Cue_context

datatype decision_reason =
    Matched_recent_duplicate
  | Matched_store_duplicate
  | Kept_value_change_guard supersede_signal real
  | Escalated_f2 supersede_signal real
  | Kept_durability keep_both_reason supersede_signal real
  | Kept_temporal keep_both_reason supersede_signal real
  | Kept_occasion supersede_signal real
  | Superseded_via supersede_signal real
  | Additive_over_recent real
  | Recent_near_duplicate real
  | Additive_over_store real
  | Store_near_duplicate real
  | Kept_anchor_conflict real
  | Already_contained
  | Kept_fusion_guard real
  | Resolved_to_existing
  | Kept_merge_durability keep_both_reason real
  | Escalated_judge real
  | Kept_merge_guard merge_keep_both real
  | Merged_into real
  | Kept_recent_veto
  | Kept_store_veto
  | Correction_without_target
  | No_match
  | Judge_unavailable judge_context
  | Judge_transport_error jstr judge_context
  | Judge_invalid_response jstr judge_context
  | Judge_overridden bool guard_leg keep_both_reason jnum
  | Judge_superseded judge_context real jnum
  | Judge_duplicate bool jnum
  | Judge_kept_both verdict_label jnum judge_context

datatype verdict_stamp = Stamp_proven | Stamp_conflict | Stamp_f2_exception
datatype proof_stamp = Proof_arm referent_proof | Conflict_detail | Signal_provenance supersede_signal

datatype snapshot_role = Matched_candidate | Blocked_nomination

record candidate_snapshot =
  sn_id :: "jstr option"
  sn_l2 :: jstr
  sn_tags :: "jstr list option"
  sn_factKey :: jval
  sn_noemaClaimKey :: jval
  sn_atomicFact :: jval
  sn_role :: snapshot_role

definition snapshotCandidate :: "similar_candidate \<Rightarrow> snapshot_role \<Rightarrow> candidate_snapshot" where
  "snapshotCandidate c role =
     \<lparr>sn_id = Some (sc_id c), sn_l2 = sc_l2 c, sn_tags = sc_tags c,
      sn_factKey = coalesce (sc_factKey c) JNull,
      sn_noemaClaimKey = coalesce (sc_noemaClaimKey c) JNull,
      sn_atomicFact = coalesce (sc_atomicFact c) JNull, sn_role = role\<rparr>"

definition snapshotRecentWrite :: "recent_write \<Rightarrow> candidate_snapshot" where
  "snapshotRecentWrite rw =
     \<lparr>sn_id = None, sn_l2 = rw_text rw, sn_tags = None, sn_factKey = JNull, sn_noemaClaimKey = JNull,
      sn_atomicFact = JNull, sn_role = Matched_candidate\<rparr>"

record guard_keep_both =
  gk_leg :: guard_leg
  gk_reason :: guard_reason
  gk_signal :: supersede_signal

record arbitration_decision =
  dec_outcome :: outcome
  dec_reason :: decision_reason
  dec_band :: "band option"
  dec_candidate :: "similar_candidate option"
  dec_mergedText :: "jstr option"
  dec_supersedeSignal :: "supersede_signal option"
  dec_blockedNomination :: "jstr option"
  dec_referentVerdict :: "verdict_stamp option"
  dec_referentProof :: "proof_stamp option"
  dec_snapshot :: "candidate_snapshot option"
  dec_guardKeepBoth :: "guard_keep_both option"

text \<open>A decision literal: the three fields every return site sets, the rest absent.\<close>

definition decision :: "outcome \<Rightarrow> decision_reason \<Rightarrow> band \<Rightarrow> arbitration_decision" where
  "decision out why b =
     \<lparr>dec_outcome = out, dec_reason = why, dec_band = Some b, dec_candidate = None,
      dec_mergedText = None, dec_supersedeSignal = None, dec_blockedNomination = None,
      dec_referentVerdict = None, dec_referentProof = None, dec_snapshot = None,
      dec_guardKeepBoth = None\<rparr>"

lemma decision_simps [simp]:
  "dec_outcome (decision out why b) = out" "dec_reason (decision out why b) = why"
  "dec_band (decision out why b) = Some b" "dec_candidate (decision out why b) = None"
  "dec_mergedText (decision out why b) = None" "dec_supersedeSignal (decision out why b) = None"
  "dec_blockedNomination (decision out why b) = None"
  "dec_referentVerdict (decision out why b) = None" "dec_referentProof (decision out why b) = None"
  "dec_snapshot (decision out why b) = None" "dec_guardKeepBoth (decision out why b) = None"
  by (simp_all add: decision_def)

section \<open>Parameters\<close>

text \<open>
  The parameters of \<open>resolveDecision\<close> after the texts and candidate lists, with the clocks:
  \<open>rp_withinHoursNow\<close> is absent in production, where each recency check reads the wall clock.
\<close>

record resolve_params =
  rp_config :: arbitration_config
  rp_tags :: "jstr list option"
  rp_judgeEnabled :: bool
  rp_keepBothGuard :: bool
  rp_temporalGuard :: bool
  rp_validAt :: "jstr option"
  rp_tier :: "jstr option"
  rp_arbitrationNow :: int
  rp_additiveSkipGuard :: bool
  rp_cueGate :: bool
  rp_keys :: referent_keys
  rp_withinHoursNow :: "int option"
  rp_f2JudgeConfirm :: bool
  rp_atomicAuthority :: bool
  rp_laneClock :: int
  rp_f2RequireValueChange :: bool
  rp_mergeKeepBothOnFusion :: bool

definition default_params :: resolve_params where
  "default_params =
     \<lparr>rp_config = default_arbitration_config, rp_tags = None, rp_judgeEnabled = False,
      rp_keepBothGuard = False, rp_temporalGuard = False, rp_validAt = None, rp_tier = None,
      rp_arbitrationNow = 0, rp_additiveSkipGuard = False, rp_cueGate = False, rp_keys = no_keys,
      rp_withinHoursNow = None, rp_f2JudgeConfirm = False, rp_atomicAuthority = False,
      rp_laneClock = 0, rp_f2RequireValueChange = False, rp_mergeKeepBothOnFusion = False\<rparr>"

definition isF2SupersedeSignal :: "supersede_signal \<Rightarrow> bool" where
  "isF2SupersedeSignal sig =
     (sig = Extractor_correction_slot \<or> sig = Extractor_correction_named_value
      \<or> sig = Currentness_cue_slot)"

definition withinHours :: "js_env \<Rightarrow> similar_candidate \<Rightarrow> real \<Rightarrow> int option \<Rightarrow> bool" where
  "withinHours env candidate maxHours nowMs =
     (case date_parse env (coalesce (sc_updatedAt candidate) (sc_createdAt candidate)) of
        None \<Rightarrow> False
      | Some referenceMs \<Rightarrow>
          real_of_int ((case nowMs of Some n \<Rightarrow> n | None \<Rightarrow> now_ms env) - referenceMs)
            \<le> maxHours * 3600 * 1000)"

definition referentOf :: "js_env \<Rightarrow> resolve_params \<Rightarrow> jstr \<Rightarrow> similar_candidate \<Rightarrow> referent_verdict" where
  "referentOf env p incoming candidate =
     proveReferentIdentity env (sc_l2 candidate) incoming (candidateReferentKeys candidate)
       (rp_keys p) (rp_atomicAuthority p)"

definition referentOfRecent :: "js_env \<Rightarrow> resolve_params \<Rightarrow> jstr \<Rightarrow> recent_write \<Rightarrow> referent_verdict" where
  "referentOfRecent env p incoming rw =
     proveReferentIdentity env (rw_text rw) incoming no_keys (rp_keys p) (rp_atomicAuthority p)"

section \<open>The correction pass\<close>

record supersede_target =
  tg_candidate :: similar_candidate
  tg_signal :: supersede_signal
  tg_proof :: "referent_proof option"

record correction_scan =
  cs_best :: "supersede_target option"
  cs_blocked :: "jstr option"
  cs_blockedSnapshot :: "candidate_snapshot option"
  cs_conflict :: "proof_stamp option"
  cs_conflictSnapshot :: "candidate_snapshot option"

definition empty_scan :: correction_scan where
  "empty_scan = \<lparr>cs_best = None, cs_blocked = None, cs_blockedSnapshot = None, cs_conflict = None,
                 cs_conflictSnapshot = None\<rparr>"

text \<open>\<open>a ??= b\<close>\<close>

definition or_else :: "'a option \<Rightarrow> 'a \<Rightarrow> 'a option" where
  "or_else a b = (case a of None \<Rightarrow> Some b | Some _ \<Rightarrow> a)"

definition supersede_floor :: "arbitration_config \<Rightarrow> real" where
  "supersede_floor config =
     (case supersedeCandidateFloor config of Some f \<Rightarrow> f | None \<Rightarrow> mergeThreshold config)"

definition in_correction_band :: "js_env \<Rightarrow> resolve_params \<Rightarrow> similar_candidate \<Rightarrow> bool" where
  "in_correction_band env p candidate =
     (\<not> (sc_similarity candidate < supersede_floor (rp_config p)
         \<or> \<not> withinHours env candidate (mergeWindowHours (rp_config p)) (rp_withinHoursNow p)))"

definition record_blocked :: "similar_candidate \<Rightarrow> correction_scan \<Rightarrow> correction_scan" where
  "record_blocked candidate s =
     s\<lparr>cs_blocked := or_else (cs_blocked s) ''deterministic_text:unproven'',
       cs_blockedSnapshot :=
         or_else (cs_blockedSnapshot s) (snapshotCandidate candidate Blocked_nomination)\<rparr>"

definition record_conflict :: "similar_candidate \<Rightarrow> correction_scan \<Rightarrow> correction_scan" where
  "record_conflict candidate s =
     s\<lparr>cs_conflict := or_else (cs_conflict s) Conflict_detail,
       cs_conflictSnapshot :=
         or_else (cs_conflictSnapshot s) (snapshotCandidate candidate Blocked_nomination)\<rparr>"

definition record_target ::
  "similar_candidate \<Rightarrow> supersede_signal \<Rightarrow> referent_proof option \<Rightarrow> correction_scan \<Rightarrow> correction_scan" where
  "record_target candidate sig pr s =
     (if (case cs_best s of None \<Rightarrow> True
          | Some b \<Rightarrow> sc_similarity candidate > sc_similarity (tg_candidate b))
      then s\<lparr>cs_best := Some \<lparr>tg_candidate = candidate, tg_signal = sig, tg_proof = pr\<rparr>\<rparr>
      else s)"

text \<open>
  The signal that qualifies a candidate: F1 retires on a proven referent only and is otherwise
  blocked; the tag-driven F2 paths come after it. The result is the signal with the proof, a
  blocked nomination, or nothing.
\<close>

datatype nomination =
    Nominated supersede_signal "referent_proof option"
  | Blocked_f1
  | No_signal

definition nominate :: "resolve_params \<Rightarrow> jstr \<Rightarrow> similar_candidate \<Rightarrow> referent_verdict \<Rightarrow> nomination" where
  "nominate p incoming candidate referent =
     (let marker = hasCorrectionMarker (rp_tags p);
          cueGate = rp_cueGate p \<and> hasCurrentnessCue incoming;
          tagDriveAllowed = (marker \<or> cueGate) \<and> \<not> conflictingSubjects (sc_tags candidate) (rp_tags p);
          proven = (case referent of Proven _ \<Rightarrow> True | _ \<Rightarrow> False);
          textValueChange = wouldSupersedeTexts (sc_l2 candidate) incoming
      in if textValueChange \<and> (proven \<or> \<not> rp_f2RequireValueChange p) then
           (case referent of
              Proven pr \<Rightarrow> Nominated Deterministic_text (Some pr)
            | _ \<Rightarrow> Blocked_f1)
         else if tagDriveAllowed \<and> sharesSlotTags (sc_tags candidate) (rp_tags p)
                 \<and> (marker \<or> subjectsChanged (sc_tags candidate) (rp_tags p)) then
           Nominated (if marker then Extractor_correction_slot else Currentness_cue_slot) None
         else if tagDriveAllowed \<and> marker
                 \<and> incomingNamesCandidateValue candidate incoming (rp_tags p) then
           Nominated Extractor_correction_named_value None
         else if textValueChange \<and> \<not> proven then Blocked_f1
         else No_signal)"

fun correction_step ::
  "js_env \<Rightarrow> resolve_params \<Rightarrow> jstr \<Rightarrow> correction_scan \<Rightarrow> similar_candidate \<Rightarrow> correction_scan" where
  "correction_step env p incoming s candidate =
     (if \<not> in_correction_band env p candidate then s
      else if areAnswerDistinctTexts (sc_l2 candidate) incoming then s
      else (case referentOf env p incoming candidate of
              Anchor_conflict \<Rightarrow> record_conflict candidate s
            | referent \<Rightarrow>
                (case nominate p incoming candidate referent of
                   Nominated sig pr \<Rightarrow> record_target candidate sig pr s
                 | Blocked_f1 \<Rightarrow> record_blocked candidate s
                 | No_signal \<Rightarrow> s)))"

definition findSupersedeTarget ::
  "js_env \<Rightarrow> resolve_params \<Rightarrow> jstr \<Rightarrow> similar_candidate list \<Rightarrow> correction_scan" where
  "findSupersedeTarget env p incoming similarCandidates =
     foldl (correction_step env p incoming) empty_scan similarCandidates"

section \<open>What the correction pass decides\<close>

definition supersede_decision :: "supersede_target \<Rightarrow> arbitration_decision" where
  "supersede_decision t =
     (decision Supersede (Superseded_via (tg_signal t) (sc_similarity (tg_candidate t)))
        Correction_supersede)
       \<lparr>dec_candidate := Some (tg_candidate t), dec_supersedeSignal := Some (tg_signal t),
        dec_referentVerdict :=
          Some (case tg_proof t of Some _ \<Rightarrow> Stamp_proven | None \<Rightarrow> Stamp_f2_exception),
        dec_referentProof :=
          Some (case tg_proof t of Some pr \<Rightarrow> Proof_arm pr
                | None \<Rightarrow> Signal_provenance (tg_signal t))\<rparr>"

text \<open>A create that the atomic guard unit returns instead of a proven F1 retirement.\<close>

definition guard_create ::
  "supersede_target \<Rightarrow> decision_reason \<Rightarrow> guard_leg \<Rightarrow> guard_reason \<Rightarrow> arbitration_decision" where
  "guard_create t why leg reason =
     (decision Create why Correction_supersede)
       \<lparr>dec_candidate := Some (tg_candidate t), dec_referentVerdict := Some Stamp_proven,
        dec_referentProof := Some (Proof_arm Key_atomicFactIdentity),
        dec_snapshot := Some (snapshotCandidate (tg_candidate t) Matched_candidate),
        dec_guardKeepBoth := Some \<lparr>gk_leg = leg, gk_reason = reason, gk_signal = tg_signal t\<rparr>\<rparr>"

definition atomic_guard_unit ::
  "js_env \<Rightarrow> resolve_params \<Rightarrow> jstr \<Rightarrow> supersede_target \<Rightarrow> arbitration_decision option" where
  "atomic_guard_unit env p incoming t =
     (let sim = sc_similarity (tg_candidate t)
      in case durableTransientKeepBothReason (tg_candidate t) incoming (rp_tier p) of
           Some r \<Rightarrow> Some (guard_create t (Kept_durability r (tg_signal t) sim) Durability (Guard r))
         | None \<Rightarrow>
             (case temporalOrderingKeepBothReason env (tg_candidate t) (rp_validAt p) (rp_laneClock p) of
                Some r \<Rightarrow> Some (guard_create t (Kept_temporal r (tg_signal t) sim) Temporal (Guard r))
              | None \<Rightarrow>
                  if different_occasion (sc_l2 (tg_candidate t)) incoming
                  then Some (guard_create t (Kept_occasion (tg_signal t) sim) Occasion
                               Same_type_anchors_differ)
                  else None))"

definition temporal_guard_block ::
  "js_env \<Rightarrow> resolve_params \<Rightarrow> jstr \<Rightarrow> supersede_target \<Rightarrow> arbitration_decision option" where
  "temporal_guard_block env p incoming t =
     (let sim = sc_similarity (tg_candidate t)
      in if \<not> rp_temporalGuard p then None
         else (case durableTransientKeepBothReason (tg_candidate t) incoming (rp_tier p) of
                 Some r \<Rightarrow>
                   Some (decision Create (Kept_durability r (tg_signal t) sim) Correction_supersede)
               | None \<Rightarrow>
                   if tg_signal t \<noteq> Deterministic_text
                   then (case temporalOrderingKeepBothReason env (tg_candidate t) (rp_validAt p)
                                (rp_arbitrationNow p) of
                           Some r \<Rightarrow>
                             Some (decision Create (Kept_temporal r (tg_signal t) sim)
                                     Correction_supersede)
                         | None \<Rightarrow> None)
                   else None))"

definition decide_target ::
  "js_env \<Rightarrow> resolve_params \<Rightarrow> jstr \<Rightarrow> supersede_target \<Rightarrow> arbitration_decision" where
  "decide_target env p incoming t =
     (let cand = tg_candidate t; sig = tg_signal t; sim = sc_similarity cand
      in if rp_f2RequireValueChange p \<and> isF2SupersedeSignal sig
            \<and> \<not> (case referentOf env p incoming cand of Proven _ \<Rightarrow> True | _ \<Rightarrow> False)
            \<and> \<not> wouldSupersedeTexts (sc_l2 cand) incoming
         then (decision Create (Kept_value_change_guard sig sim) Correction_supersede)
                \<lparr>dec_snapshot := Some (snapshotCandidate cand Matched_candidate)\<rparr>
         else if rp_f2JudgeConfirm p \<and> tg_proof t = None \<and> isF2SupersedeSignal sig
         then (decision Judge (Escalated_f2 sig sim) Correction_supersede)
                \<lparr>dec_candidate := Some cand, dec_supersedeSignal := Some sig,
                 dec_referentVerdict := Some Stamp_f2_exception,
                 dec_referentProof := Some (Signal_provenance sig),
                 dec_snapshot := Some (snapshotCandidate cand Matched_candidate)\<rparr>
         else (case (if tg_proof t = Some Key_atomicFactIdentity
                     then atomic_guard_unit env p incoming t else None) of
                 Some d \<Rightarrow> d
               | None \<Rightarrow>
                   (case temporal_guard_block env p incoming t of
                      Some d \<Rightarrow> d
                    | None \<Rightarrow> supersede_decision t)))"

section \<open>The remaining bands\<close>

text \<open>
  The recent-cache band: a decision, or the first entry an anchor conflict vetoed.
\<close>

fun recent_band ::
  "js_env \<Rightarrow> resolve_params \<Rightarrow> jstr \<Rightarrow> real list \<Rightarrow> recent_write option \<Rightarrow> recent_write list
     \<Rightarrow> arbitration_decision option \<times> recent_write option" where
  "recent_band env p incoming embedding conflict [] = (None, conflict)"
| "recent_band env p incoming embedding conflict (rw # rws) =
     (let similarity = cosineSimilarity (rw_embedding rw) embedding
      in if \<not> similarity \<ge> skipThreshold (rp_config p)
         then recent_band env p incoming embedding conflict rws
         else if areAnswerDistinctTexts (rw_text rw) incoming
         then recent_band env p incoming embedding conflict rws
         else if referentOfRecent env p incoming rw = Anchor_conflict
         then recent_band env p incoming embedding (or_else conflict rw) rws
         else if rp_additiveSkipGuard p \<and> isAdditiveContent (rw_text rw) incoming
         then (Some (decision Create (Additive_over_recent similarity) Recent_near_dup_skip), conflict)
         else (Some (decision Skip (Recent_near_duplicate similarity) Recent_near_dup_skip), conflict))"

fun store_band ::
  "js_env \<Rightarrow> resolve_params \<Rightarrow> jstr \<Rightarrow> similar_candidate option \<Rightarrow> similar_candidate list
     \<Rightarrow> arbitration_decision option \<times> similar_candidate option" where
  "store_band env p incoming conflict [] = (None, conflict)"
| "store_band env p incoming conflict (c # cs) =
     (if \<not> (sc_similarity c \<ge> skipThreshold (rp_config p)
            \<and> withinHours env c (skipWindowHours (rp_config p)) (rp_withinHoursNow p))
      then store_band env p incoming conflict cs
      else if areAnswerDistinctTexts (sc_l2 c) incoming
      then store_band env p incoming conflict cs
      else if referentOf env p incoming c = Anchor_conflict
      then store_band env p incoming (or_else conflict c) cs
      else if rp_additiveSkipGuard p \<and> isAdditiveContent (sc_l2 c) incoming
      then (Some (decision Create (Additive_over_store (sc_similarity c)) Store_near_dup_skip), conflict)
      else (Some ((decision Skip (Store_near_duplicate (sc_similarity c)) Store_near_dup_skip)
                    \<lparr>dec_candidate := Some c\<rparr>), conflict))"

definition in_merge_band :: "js_env \<Rightarrow> resolve_params \<Rightarrow> similar_candidate \<Rightarrow> bool" where
  "in_merge_band env p c =
     (\<not> (sc_similarity c < mergeThreshold (rp_config p)
         \<or> \<not> withinHours env c (mergeWindowHours (rp_config p)) (rp_withinHoursNow p)))"

text \<open>
  One candidate of the merge band, after the distinct-answer test: the decision it returns, or
  None for the \<open>break\<close> of a tagged correction.
\<close>

definition merge_candidate ::
  "js_env \<Rightarrow> resolve_params \<Rightarrow> jstr \<Rightarrow> similar_candidate \<Rightarrow> arbitration_decision option" where
  "merge_candidate env p incoming c =
     (let sim = sc_similarity c;
          normalizedText = normalizeText incoming;
          candidateNorm = normalizeText (sc_l2 c);
          mergedText = buildMergedText (sc_l2 c) incoming;
          durable = (if rp_temporalGuard p
                     then durableTransientKeepBothReason c incoming (rp_tier p) else None);
          keepBoth = (if rp_keepBothGuard p
                      then mergeKeepBothReason c incoming (rp_tags p) else None)
      in if referentOf env p incoming c = Anchor_conflict
         then Some ((decision Create (Kept_anchor_conflict sim) Merge_band)
                      \<lparr>dec_referentVerdict := Some Stamp_conflict,
                       dec_referentProof := Some Conflict_detail,
                       dec_snapshot := Some (snapshotCandidate c Matched_candidate)\<rparr>)
         else if js_includes candidateNorm normalizedText
         then Some ((decision Skip Already_contained Merge_band)\<lparr>dec_candidate := Some c\<rparr>)
         else if rp_mergeKeepBothOnFusion p \<and> \<not> js_includes normalizedText candidateNorm
         then Some ((decision Create (Kept_fusion_guard sim) Merge_band)
                      \<lparr>dec_snapshot := Some (snapshotCandidate c Matched_candidate)\<rparr>)
         else if normalizeText mergedText = candidateNorm
         then Some ((decision Skip Resolved_to_existing Merge_band)\<lparr>dec_candidate := Some c\<rparr>)
         else (case durable of
                 Some r \<Rightarrow> Some (decision Create (Kept_merge_durability r sim) Merge_band)
               | None \<Rightarrow>
                   if \<not> hasCorrectionMarker (rp_tags p) \<and> rp_judgeEnabled p
                      \<and> isJudgeWorthy c incoming (rp_tags p)
                   then Some ((decision Judge (Escalated_judge sim) Merge_band)\<lparr>dec_candidate := Some c\<rparr>)
                   else if hasCorrectionMarker (rp_tags p) then None
                   else (case keepBoth of
                           Some r \<Rightarrow>
                             Some ((decision Create (Kept_merge_guard r sim) Merge_band)
                                     \<lparr>dec_snapshot := Some (snapshotCandidate c Matched_candidate)\<rparr>)
                         | None \<Rightarrow>
                             Some ((decision Merge_update (Merged_into sim) Merge_band)
                                     \<lparr>dec_candidate := Some c, dec_mergedText := Some mergedText\<rparr>))))"

fun merge_band ::
  "js_env \<Rightarrow> resolve_params \<Rightarrow> jstr \<Rightarrow> similar_candidate list \<Rightarrow> arbitration_decision option" where
  "merge_band env p incoming [] = None"
| "merge_band env p incoming (c # cs) =
     (if \<not> in_merge_band env p c then merge_band env p incoming cs
      else if areAnswerDistinctTexts (sc_l2 c) incoming then merge_band env p incoming cs
      else merge_candidate env p incoming c)"

definition conflict_create ::
  "decision_reason \<Rightarrow> band \<Rightarrow> candidate_snapshot \<Rightarrow> arbitration_decision" where
  "conflict_create why b snap =
     (decision Create why b)
       \<lparr>dec_referentVerdict := Some Stamp_conflict, dec_referentProof := Some Conflict_detail,
        dec_snapshot := Some snap\<rparr>"

definition resolveRemainingBands ::
  "js_env \<Rightarrow> resolve_params \<Rightarrow> jstr \<Rightarrow> recent_write list \<Rightarrow> similar_candidate list \<Rightarrow> real list
     \<Rightarrow> arbitration_decision" where
  "resolveRemainingBands env p incoming recentCandidates similarCandidates embedding =
     (case recent_band env p incoming embedding None recentCandidates of
        (Some d, _) \<Rightarrow> d
      | (None, recentConflict) \<Rightarrow>
          (case store_band env p incoming None similarCandidates of
             (Some d, _) \<Rightarrow> d
           | (None, storeConflict) \<Rightarrow>
               (case merge_band env p incoming similarCandidates of
                  Some d \<Rightarrow> d
                | None \<Rightarrow>
                    (case recentConflict of
                       Some rw \<Rightarrow>
                         conflict_create Kept_recent_veto Recent_near_dup_skip (snapshotRecentWrite rw)
                     | None \<Rightarrow>
                         (case storeConflict of
                            Some c \<Rightarrow>
                              conflict_create Kept_store_veto Store_near_dup_skip
                                (snapshotCandidate c Matched_candidate)
                          | None \<Rightarrow>
                              decision Create
                                (if hasCorrectionMarker (rp_tags p) then Correction_without_target
                                 else No_match)
                                Create_band)))))"

section \<open>The whole resolver\<close>

definition stamp_scan :: "correction_scan \<Rightarrow> arbitration_decision \<Rightarrow> arbitration_decision" where
  "stamp_scan s d =
     (let d1 = (case cs_blocked s of None \<Rightarrow> d
                | Some b \<Rightarrow> d\<lparr>dec_blockedNomination := Some b\<rparr>);
          d2 = (if dec_snapshot d1 = None
                then (case cs_conflictSnapshot s of
                        Some sn \<Rightarrow> d1\<lparr>dec_snapshot := Some sn\<rparr>
                      | None \<Rightarrow>
                          (case cs_blockedSnapshot s of
                             Some sn \<Rightarrow> d1\<lparr>dec_snapshot := Some sn\<rparr>
                           | None \<Rightarrow> d1))
                else d1)
      in if dec_referentVerdict d2 = None \<and> cs_conflict s \<noteq> None
         then d2\<lparr>dec_referentVerdict := Some Stamp_conflict, dec_referentProof := cs_conflict s\<rparr>
         else d2)"

definition recent_exact_dup :: "jstr \<Rightarrow> recent_write list \<Rightarrow> bool" where
  "recent_exact_dup normalizedText rws = list_ex (\<lambda>rw. rw_normalizedText rw = normalizedText) rws"

definition store_exact_dup ::
  "js_env \<Rightarrow> resolve_params \<Rightarrow> jstr \<Rightarrow> similar_candidate list \<Rightarrow> similar_candidate option" where
  "store_exact_dup env p normalizedText cs =
     find (\<lambda>c. normalizeText (sc_l2 c) = normalizedText
               \<and> withinHours env c (skipWindowHours (rp_config p)) (rp_withinHoursNow p)) cs"

definition resolveDecision ::
  "js_env \<Rightarrow> resolve_params \<Rightarrow> jstr \<Rightarrow> recent_write list \<Rightarrow> similar_candidate list \<Rightarrow> real list
     \<Rightarrow> arbitration_decision" where
  "resolveDecision env p incoming recentCandidates similarCandidates embedding =
     (let normalizedText = normalizeText incoming
      in if recent_exact_dup normalizedText recentCandidates
         then decision Skip Matched_recent_duplicate Exact_dup
         else (case store_exact_dup env p normalizedText similarCandidates of
                 Some c \<Rightarrow>
                   (decision Skip Matched_store_duplicate Exact_dup)\<lparr>dec_candidate := Some c\<rparr>
               | None \<Rightarrow>
                   (let scan = findSupersedeTarget env p incoming similarCandidates
                    in case cs_best scan of
                         Some t \<Rightarrow> decide_target env p incoming t
                       | None \<Rightarrow>
                           stamp_scan scan
                             (resolveRemainingBands env p incoming recentCandidates
                                similarCandidates embedding))))"

section \<open>Facts\<close>

subsection \<open>The correction pass keeps the best qualifying candidate\<close>

text \<open>The target a candidate would become, when it qualifies.\<close>

definition qualifying_target ::
  "js_env \<Rightarrow> resolve_params \<Rightarrow> jstr \<Rightarrow> similar_candidate \<Rightarrow> supersede_target option" where
  "qualifying_target env p incoming c =
     (if in_correction_band env p c \<and> \<not> areAnswerDistinctTexts (sc_l2 c) incoming
         \<and> referentOf env p incoming c \<noteq> Anchor_conflict
      then (case nominate p incoming c (referentOf env p incoming c) of
              Nominated sig pr \<Rightarrow> Some \<lparr>tg_candidate = c, tg_signal = sig, tg_proof = pr\<rparr>
            | _ \<Rightarrow> None)
      else None)"

lemma record_best [simp]:
  "cs_best (record_conflict c s) = cs_best s" "cs_best (record_blocked c s) = cs_best s"
  by (simp_all add: record_conflict_def record_blocked_def)

interpretation corr: best_scan "correction_step env p incoming" cs_best "qualifying_target env p incoming"
    "\<lambda>t. sc_similarity (tg_candidate t)" for env p incoming
  by unfold_locales
    (auto simp: qualifying_target_def record_target_def split: referent_verdict.splits nomination.splits
      option.splits)

lemma target_qualifies:
  assumes "cs_best (findSupersedeTarget env p incoming cs) = Some t"
  shows "tg_candidate t \<in> set cs \<and> qualifying_target env p incoming (tg_candidate t) = Some t"
proof -
  have "\<exists>c\<in>set cs. qualifying_target env p incoming c = Some t"
    using corr.scan_from [of env p incoming empty_scan cs t] assms
    by (auto simp: findSupersedeTarget_def empty_scan_def)
  then obtain c where c: "c \<in> set cs" "qualifying_target env p incoming c = Some t" by blast
  then have "tg_candidate t = c"
    by (auto simp: qualifying_target_def split: nomination.splits if_splits)
  with c show ?thesis by simp
qed

lemma target_max:
  assumes "cs_best (findSupersedeTarget env p incoming cs) = Some t"
    and "c \<in> set cs" and "qualifying_target env p incoming c = Some u"
  shows "sc_similarity c \<le> sc_similarity (tg_candidate t)"
proof -
  have "tg_candidate u = c"
    using assms(3) by (auto simp: qualifying_target_def split: nomination.splits if_splits)
  with corr.scan_max [OF assms(2,3), of empty_scan] assms(1) show ?thesis
    by (auto simp: findSupersedeTarget_def)
qed

lemma target_none_iff:
  "cs_best (findSupersedeTarget env p incoming cs) = None \<longleftrightarrow>
     (\<forall>c\<in>set cs. qualifying_target env p incoming c = None)"
  unfolding findSupersedeTarget_def by (rule corr.scan_none) (simp add: empty_scan_def)

text \<open>What a qualifying candidate satisfies, by the signal that qualified it.\<close>

lemma nominate_F1:
  "nominate p incoming c r = Nominated Deterministic_text pr \<longleftrightarrow>
     (\<exists>q. r = Proven q \<and> pr = Some q) \<and> wouldSupersedeTexts (sc_l2 c) incoming"
  by (auto simp: nominate_def Let_def split: referent_verdict.splits if_splits)

lemma nominate_F2:
  assumes "nominate p incoming c r = Nominated sig pr" and "sig \<noteq> Deterministic_text"
  shows "pr = None \<and> isF2SupersedeSignal sig \<and> \<not> conflictingSubjects (sc_tags c) (rp_tags p)
     \<and> (hasCorrectionMarker (rp_tags p)
        \<or> (rp_cueGate p \<and> hasCurrentnessCue incoming \<and> sharesSlotTags (sc_tags c) (rp_tags p)
           \<and> subjectsChanged (sc_tags c) (rp_tags p)))"
  using assms
  by (auto simp: nominate_def Let_def isF2SupersedeSignal_def
      split: referent_verdict.splits if_splits)

lemma nominate_signal:
  "nominate p incoming c r = Nominated sig pr \<Longrightarrow>
     (sig = Deterministic_text) = (pr \<noteq> None) \<and> (sig = Deterministic_text \<or> isF2SupersedeSignal sig)"
  using nominate_F1 [of p incoming c r pr] nominate_F2 [of p incoming c r sig pr]
  by (cases "sig = Deterministic_text") auto

lemma qualifying_targetD:
  assumes "qualifying_target env p incoming c = Some t"
  shows "tg_candidate t = c" "in_correction_band env p c"
    "\<not> areAnswerDistinctTexts (sc_l2 c) incoming"
    "referentOf env p incoming c \<noteq> Anchor_conflict"
    "nominate p incoming c (referentOf env p incoming c) = Nominated (tg_signal t) (tg_proof t)"
  using assms by (auto simp: qualifying_target_def split: nomination.splits if_splits)

subsection \<open>The bands\<close>

lemma recent_band_Some:
  assumes "recent_band env p incoming e k rws = (Some d, k')"
  shows "\<exists>rw\<in>set rws. cosineSimilarity (rw_embedding rw) e \<ge> skipThreshold (rp_config p)
    \<and> \<not> areAnswerDistinctTexts (rw_text rw) incoming
    \<and> referentOfRecent env p incoming rw \<noteq> Anchor_conflict
    \<and> dec_candidate d = None \<and> dec_mergedText d = None \<and> dec_supersedeSignal d = None
    \<and> dec_band d = Some Recent_near_dup_skip
    \<and> (dec_outcome d = Skip \<and> \<not> (rp_additiveSkipGuard p \<and> isAdditiveContent (rw_text rw) incoming)
       \<or> dec_outcome d = Create \<and> rp_additiveSkipGuard p \<and> isAdditiveContent (rw_text rw) incoming)"
  using assms
  by (induction rws arbitrary: k) (fastforce simp: Let_def split: if_splits)+

lemma store_band_Some:
  assumes "store_band env p incoming k cs = (Some d, k')"
  shows "\<exists>c\<in>set cs. sc_similarity c \<ge> skipThreshold (rp_config p)
    \<and> withinHours env c (skipWindowHours (rp_config p)) (rp_withinHoursNow p)
    \<and> \<not> areAnswerDistinctTexts (sc_l2 c) incoming
    \<and> referentOf env p incoming c \<noteq> Anchor_conflict
    \<and> dec_mergedText d = None \<and> dec_supersedeSignal d = None
    \<and> dec_band d = Some Store_near_dup_skip
    \<and> (dec_outcome d = Skip \<and> dec_candidate d = Some c
         \<and> \<not> (rp_additiveSkipGuard p \<and> isAdditiveContent (sc_l2 c) incoming)
       \<or> dec_outcome d = Create \<and> dec_candidate d = None
         \<and> rp_additiveSkipGuard p \<and> isAdditiveContent (sc_l2 c) incoming)"
  using assms
  by (induction cs arbitrary: k) (fastforce split: if_splits)+

lemma merge_band_Some:
  "merge_band env p incoming cs = Some d \<Longrightarrow>
     \<exists>c\<in>set cs. in_merge_band env p c \<and> \<not> areAnswerDistinctTexts (sc_l2 c) incoming
       \<and> merge_candidate env p incoming c = Some d"
  by (induction cs) (auto split: if_splits)

text \<open>What each outcome of a merge-band candidate implies.\<close>

lemma merge_candidate_names:
  assumes "merge_candidate env p incoming c = Some d"
  shows "dec_outcome d \<noteq> Supersede \<and> dec_supersedeSignal d = None \<and> dec_band d = Some Merge_band
    \<and> (dec_outcome d \<noteq> Create \<longrightarrow>
         dec_candidate d = Some c \<and> referentOf env p incoming c \<noteq> Anchor_conflict)
    \<and> (dec_candidate d \<noteq> None \<longrightarrow> dec_outcome d \<noteq> Create)"
  using assms
  by (simp add: merge_candidate_def Let_def split: if_splits option.splits) auto

lemma merge_candidate_skip:
  assumes "merge_candidate env p incoming c = Some d" and "dec_outcome d = Skip"
  shows "js_includes (normalizeText (sc_l2 c)) (normalizeText incoming)
    \<or> normalizeText (buildMergedText (sc_l2 c) incoming) = normalizeText (sc_l2 c)"
  using assms by (simp add: merge_candidate_def Let_def split: if_splits option.splits) auto

lemma merge_candidate_judge:
  assumes "merge_candidate env p incoming c = Some d" and "dec_outcome d = Judge"
  shows "rp_judgeEnabled p \<and> isJudgeWorthy c incoming (rp_tags p) \<and> \<not> hasCorrectionMarker (rp_tags p)"
  using assms by (simp add: merge_candidate_def Let_def split: if_splits option.splits) auto

lemma merge_candidate_update:
  assumes "merge_candidate env p incoming c = Some d" and "dec_outcome d = Merge_update"
  shows "dec_mergedText d = Some (buildMergedText (sc_l2 c) incoming)
    \<and> \<not> hasCorrectionMarker (rp_tags p)
    \<and> (rp_temporalGuard p \<longrightarrow> durableTransientKeepBothReason c incoming (rp_tier p) = None)
    \<and> (rp_keepBothGuard p \<longrightarrow> mergeKeepBothReason c incoming (rp_tags p) = None)
    \<and> (rp_mergeKeepBothOnFusion p \<longrightarrow>
         js_includes (normalizeText incoming) (normalizeText (sc_l2 c)))
    \<and> \<not> js_includes (normalizeText (sc_l2 c)) (normalizeText incoming)"
  using assms by (simp add: merge_candidate_def Let_def split: if_splits option.splits) auto

lemma conflict_create_simps [simp]:
  "dec_outcome (conflict_create why b sn) = Create" "dec_candidate (conflict_create why b sn) = None"
  "dec_mergedText (conflict_create why b sn) = None"
  "dec_supersedeSignal (conflict_create why b sn) = None"
  "dec_band (conflict_create why b sn) = Some b"
  by (simp_all add: conflict_create_def)

lemma stamp_scan_simps [simp]:
  "dec_outcome (stamp_scan s d) = dec_outcome d" "dec_candidate (stamp_scan s d) = dec_candidate d"
  "dec_mergedText (stamp_scan s d) = dec_mergedText d"
  "dec_supersedeSignal (stamp_scan s d) = dec_supersedeSignal d"
  "dec_band (stamp_scan s d) = dec_band d" "dec_reason (stamp_scan s d) = dec_reason d"
  "dec_guardKeepBoth (stamp_scan s d) = dec_guardKeepBoth d"
  by (simp_all add: stamp_scan_def Let_def split: option.splits)

text \<open>The remaining bands return a decision of one band, or the final create.\<close>

lemma remaining_cases:
  assumes "resolveRemainingBands env p incoming rws cs e = d"
  obtains
    (recent) k where "recent_band env p incoming e None rws = (Some d, k)"
  | (store) k where "store_band env p incoming None cs = (Some d, k)"
  | (merge) "merge_band env p incoming cs = Some d"
  | (create) "dec_outcome d = Create" "dec_candidate d = None" "dec_supersedeSignal d = None"
      "dec_band d \<noteq> Some Exact_dup"
      "merge_band env p incoming cs = None"
proof -
  obtain dr kr where r: "recent_band env p incoming e None rws = (dr, kr)" by fastforce
  obtain ds ks where s: "store_band env p incoming None cs = (ds, ks)" by fastforce
  show thesis
    using that r s assms
    by (cases dr; cases ds; cases "merge_band env p incoming cs")
      (auto simp: resolveRemainingBands_def split: option.splits)
qed

lemma resolve_cases:
  assumes "resolveDecision env p incoming rws cs e = d"
  obtains
    (exact_recent) "recent_exact_dup (normalizeText incoming) rws"
      "d = decision Skip Matched_recent_duplicate Exact_dup"
  | (exact_store) c where "\<not> recent_exact_dup (normalizeText incoming) rws"
      "store_exact_dup env p (normalizeText incoming) cs = Some c"
      "d = (decision Skip Matched_store_duplicate Exact_dup)\<lparr>dec_candidate := Some c\<rparr>"
  | (target) t where "\<not> recent_exact_dup (normalizeText incoming) rws"
      "store_exact_dup env p (normalizeText incoming) cs = None"
      "cs_best (findSupersedeTarget env p incoming cs) = Some t"
      "d = decide_target env p incoming t"
  | (remaining) d0 where "\<not> recent_exact_dup (normalizeText incoming) rws"
      "store_exact_dup env p (normalizeText incoming) cs = None"
      "cs_best (findSupersedeTarget env p incoming cs) = None"
      "resolveRemainingBands env p incoming rws cs e = d0"
      "d = stamp_scan (findSupersedeTarget env p incoming cs) d0"
  using assms that
  by (auto simp: resolveDecision_def Let_def split: if_splits option.splits)

lemma supersede_decision_simps [simp]:
  "dec_outcome (supersede_decision t) = Supersede"
  "dec_candidate (supersede_decision t) = Some (tg_candidate t)"
  "dec_supersedeSignal (supersede_decision t) = Some (tg_signal t)"
  "dec_mergedText (supersede_decision t) = None"
  by (simp_all add: supersede_decision_def)

lemma guard_create_simps [simp]:
  "dec_outcome (guard_create t w l r) = Create" "dec_supersedeSignal (guard_create t w l r) = None"
  "dec_candidate (guard_create t w l r) = Some (tg_candidate t)"
  "dec_band (guard_create t w l r) = Some Correction_supersede"
  by (simp_all add: guard_create_def)

lemma atomic_guard_None:
  "atomic_guard_unit env p incoming t = None \<longleftrightarrow>
     durableTransientKeepBothReason (tg_candidate t) incoming (rp_tier p) = None
     \<and> temporalOrderingKeepBothReason env (tg_candidate t) (rp_validAt p) (rp_laneClock p) = None
     \<and> \<not> different_occasion (sc_l2 (tg_candidate t)) incoming"
  by (auto simp: atomic_guard_unit_def Let_def split: option.splits)

lemma atomic_guard_Some:
  "atomic_guard_unit env p incoming t = Some d \<Longrightarrow>
     dec_outcome d = Create \<and> dec_band d = Some Correction_supersede"
  by (auto simp: atomic_guard_unit_def Let_def split: option.splits if_splits)

lemma temporal_block_None:
  "temporal_guard_block env p incoming t = None \<longleftrightarrow>
     (rp_temporalGuard p \<longrightarrow>
        durableTransientKeepBothReason (tg_candidate t) incoming (rp_tier p) = None
        \<and> (tg_signal t \<noteq> Deterministic_text \<longrightarrow>
             temporalOrderingKeepBothReason env (tg_candidate t) (rp_validAt p)
               (rp_arbitrationNow p) = None))"
  by (auto simp: temporal_guard_block_def Let_def split: option.splits)

lemma temporal_block_Some:
  "temporal_guard_block env p incoming t = Some d \<Longrightarrow>
     dec_outcome d = Create \<and> dec_candidate d = None \<and> dec_band d = Some Correction_supersede"
  by (auto simp: temporal_guard_block_def Let_def split: option.splits if_splits)

text \<open>When the target becomes a supersede, and when it becomes an escalation.\<close>

lemma decide_supersede_iff:
  "dec_outcome (decide_target env p incoming t) = Supersede \<longleftrightarrow>
     \<not> (rp_f2RequireValueChange p \<and> isF2SupersedeSignal (tg_signal t)
        \<and> (\<forall>q. referentOf env p incoming (tg_candidate t) \<noteq> Proven q)
        \<and> \<not> wouldSupersedeTexts (sc_l2 (tg_candidate t)) incoming)
     \<and> \<not> (rp_f2JudgeConfirm p \<and> tg_proof t = None \<and> isF2SupersedeSignal (tg_signal t))
     \<and> (tg_proof t = Some Key_atomicFactIdentity \<longrightarrow> atomic_guard_unit env p incoming t = None)
     \<and> temporal_guard_block env p incoming t = None"
  by (auto simp: decide_target_def Let_def dest: atomic_guard_Some temporal_block_Some
      split: option.splits if_splits referent_verdict.splits)

lemma decide_supersede_eq:
  "dec_outcome (decide_target env p incoming t) = Supersede \<Longrightarrow>
     decide_target env p incoming t = supersede_decision t"
  by (auto simp: decide_target_def Let_def dest: atomic_guard_Some temporal_block_Some
      split: option.splits if_splits)

lemma decide_outcomes:
  "dec_outcome (decide_target env p incoming t) \<in> {Supersede, Create, Judge}
   \<and> (dec_outcome (decide_target env p incoming t) = Judge \<longrightarrow>
        rp_f2JudgeConfirm p \<and> isF2SupersedeSignal (tg_signal t)
        \<and> dec_candidate (decide_target env p incoming t) = Some (tg_candidate t))
   \<and> dec_mergedText (decide_target env p incoming t) = None"
  by (auto simp: decide_target_def Let_def guard_create_def atomic_guard_unit_def
      temporal_guard_block_def split: option.splits if_splits)

lemma supersede_decision_band [simp]: "dec_band (supersede_decision t) = Some Correction_supersede"
  by (simp add: supersede_decision_def)

lemma decide_band: "dec_band (decide_target env p incoming t) = Some Correction_supersede"
  by (auto simp: decide_target_def Let_def dest: atomic_guard_Some temporal_block_Some
      split: option.splits)

lemma remaining_not_supersede:
  assumes "resolveRemainingBands env p incoming rws cs e = d"
  shows "dec_outcome d \<noteq> Supersede \<and> dec_supersedeSignal d = None"
  using assms
proof (cases rule: remaining_cases)
  case (recent k)
  then show ?thesis by (auto dest: recent_band_Some)
next
  case (store k)
  then show ?thesis by (auto dest: store_band_Some)
next
  case merge
  then show ?thesis by (auto dest!: merge_band_Some dest: merge_candidate_names)
qed simp_all

text \<open>A supersede comes from the best qualifying target, past every guard.\<close>

lemma supersede_inversion:
  assumes "dec_outcome (resolveDecision env p incoming rws cs e) = Supersede"
  obtains t where "cs_best (findSupersedeTarget env p incoming cs) = Some t"
    and "resolveDecision env p incoming rws cs e = supersede_decision t"
    and "dec_outcome (decide_target env p incoming t) = Supersede"
    and "tg_candidate t \<in> set cs"
    and "qualifying_target env p incoming (tg_candidate t) = Some t"
proof -
  obtain d where d: "resolveDecision env p incoming rws cs e = d" by blast
  from d show thesis
  proof (cases rule: resolve_cases)
    case (target t)
    with assms d have "dec_outcome (decide_target env p incoming t) = Supersede" by simp
    with target d target_qualifies [OF target(3)] decide_supersede_eq show thesis
      by (intro that [of t]) auto
  next
    case (remaining d0)
    with remaining_not_supersede [OF remaining(4)] assms d show thesis by simp
  qed (use assms d in auto)
qed

end
