(* ===== verification/Write_Decision_Laws.thy ===== *)
theory Write_Decision_Laws
  imports Write_Decision
begin

text \<open>
  The contract of the decision core (\<open>resolveDecision\<close> in
  \<open>src/src/storage/writes/write-arbitrator.ts\<close>): who may retire a stored fact, which guards no flag
  can lift, and what a skip or a merge may drop. Each law is applied at a concrete write below it.
\<close>

section \<open>A concrete write\<close>

definition demo_env :: js_env where
  "demo_env = \<lparr>now_ms = 1750000000000, parse_other = (\<lambda>_. None),
     locale_compare = (\<lambda>a b. if a = b then 0 else 1), sha256_hex = (\<lambda>s. s)\<rparr>"

definition stored_port :: similar_candidate where
  "stored_port =
     \<lparr>sc_id = ''m1'', sc_l2 = ''Atlas port is 8080'', sc_similarity = 9 / 10,
      sc_createdAt = JStr ''2025-06-15T10:00:00.000Z'', sc_updatedAt = JUndef, sc_validAt = JUndef,
      sc_continuitySubjectKey = JUndef, sc_tags = None, sc_tier = None,
      sc_factKey = JStr ''atlas:port'', sc_noemaClaimKey = JUndef,
      sc_atomicFact = obj [(''subject'', JStr ''Atlas''), (''predicate'', JStr ''port''),
                           (''value'', JStr ''8080'')]\<rparr>"

definition new_port :: jstr where
  "new_port = ''Atlas port is 9090''"

definition keyed_params :: resolve_params where
  "keyed_params = default_params\<lparr>rp_keys := no_keys\<lparr>rk_factKey := Some ''atlas:port''\<rparr>\<rparr>"

definition atomic_params :: resolve_params where
  "atomic_params =
     default_params\<lparr>rp_keys := no_keys\<lparr>rk_atomicFactIdentity := Some ''atlas|port''\<rparr>,
       rp_atomicAuthority := True, rp_laneClock := 1750000000000\<rparr>"

lemma demo_within [simp]: "withinHours demo_env stored_port 72 None" by code_simp
lemma demo_differ [simp]: "normalizeText (sc_l2 stored_port) \<noteq> normalizeText new_port" by code_simp
lemma demo_change [simp]: "wouldSupersedeTexts (sc_l2 stored_port) new_port" by code_simp
lemma demo_distinct [simp]: "\<not> areAnswerDistinctTexts (sc_l2 stored_port) new_port" by code_simp
lemma demo_keyed [simp]: "referentOf demo_env keyed_params new_port stored_port = Proven Key_factKey"
  by code_simp
lemma demo_atomic [simp]:
  "referentOf demo_env atomic_params new_port stored_port = Proven Key_atomicFactIdentity"
  by code_simp

lemma demo_params [simp]:
  "rp_config keyed_params = default_arbitration_config" "rp_withinHoursNow keyed_params = None"
  "rp_config atomic_params = default_arbitration_config" "rp_withinHoursNow atomic_params = None"
  "supersede_floor default_arbitration_config = 85 / 100"
  "mergeWindowHours default_arbitration_config = 72" "sc_similarity stored_port = 9 / 10"
  "rp_f2RequireValueChange keyed_params = False" "rp_f2RequireValueChange atomic_params = False"
  "rp_temporalGuard keyed_params = False" "rp_temporalGuard atomic_params = False"
  "rp_f2JudgeConfirm keyed_params = False" "rp_f2JudgeConfirm atomic_params = False"
  "rp_tier atomic_params = None" "rp_validAt atomic_params = None" "sc_tier stored_port = None"
  by (simp_all add: keyed_params_def atomic_params_def default_params_def supersede_floor_def
      default_arbitration_config_def stored_port_def)

lemma demo_no_exact [simp]:
  "\<not> recent_exact_dup (normalizeText new_port) []"
  "store_exact_dup env p (normalizeText new_port) [stored_port] = None"
  by (simp_all add: recent_exact_dup_def store_exact_dup_def)

text \<open>A single candidate that a proven referent nominates becomes the target.\<close>

lemma single_nominated:
  assumes "in_correction_band env p c" and "\<not> areAnswerDistinctTexts (sc_l2 c) incoming"
    and "referentOf env p incoming c = r" and "r \<noteq> Anchor_conflict"
    and "nominate p incoming c r = Nominated sig pr"
  shows "cs_best (findSupersedeTarget env p incoming [c])
    = Some \<lparr>tg_candidate = c, tg_signal = sig, tg_proof = pr\<rparr>"
  using assms by (cases r) (simp_all add: findSupersedeTarget_def empty_scan_def record_target_def)

lemma single_target:
  assumes "in_correction_band env p c" and "\<not> areAnswerDistinctTexts (sc_l2 c) incoming"
    and "referentOf env p incoming c = Proven q" and "wouldSupersedeTexts (sc_l2 c) incoming"
  shows "cs_best (findSupersedeTarget env p incoming [c])
    = Some \<lparr>tg_candidate = c, tg_signal = Deterministic_text, tg_proof = Some q\<rparr>"
  using assms nominate_F1 [of p incoming c "Proven q" "Some q"]
  by (simp add: findSupersedeTarget_def empty_scan_def record_target_def)

lemma demo_target_keyed [simp]:
  "cs_best (findSupersedeTarget demo_env keyed_params new_port [stored_port])
    = Some \<lparr>tg_candidate = stored_port, tg_signal = Deterministic_text, tg_proof = Some Key_factKey\<rparr>"
  by (rule single_target) (simp_all add: in_correction_band_def)

lemma demo_target_atomic [simp]:
  "cs_best (findSupersedeTarget demo_env atomic_params new_port [stored_port])
    = Some \<lparr>tg_candidate = stored_port, tg_signal = Deterministic_text,
            tg_proof = Some Key_atomicFactIdentity\<rparr>"
  by (rule single_target) (simp_all add: in_correction_band_def)

lemma demo_created: "date_parse demo_env (JStr ''2025-06-15T10:00:00.000Z'') = Some 1749981600000"
  by code_simp

lemma demo_instant: "candidate_instant demo_env stored_port = Some 1749981600000"
  using demo_created
  by (simp add: candidate_instant_def stored_port_def coalesce_def nullish_def parseEpochMs_def)

lemma demo_temporal:
  "temporalOrderingKeepBothReason demo_env stored_port None 1750000000000 = None"
  by (simp add: temporal_leg_permits_iff incoming_instant_def demo_instant)

lemma demo_occasion: "\<not> different_occasion (sc_l2 stored_port) new_port"
  by code_simp

lemma demo_guard [simp]:
  "atomic_guard_unit demo_env atomic_params new_port
     \<lparr>tg_candidate = stored_port, tg_signal = Deterministic_text,
      tg_proof = Some Key_atomicFactIdentity\<rparr> = None"
  using demo_temporal demo_occasion
  by (simp add: atomic_guard_None durableTransientKeepBothReason_def, simp add: atomic_params_def)

lemma demo_supersede_keyed [simp]:
  "resolveDecision demo_env keyed_params new_port [] [stored_port] e
    = supersede_decision \<lparr>tg_candidate = stored_port, tg_signal = Deterministic_text,
                          tg_proof = Some Key_factKey\<rparr>"
  by (simp add: resolveDecision_def Let_def decide_target_def isF2SupersedeSignal_def
      temporal_guard_block_def)

lemma demo_supersede_atomic [simp]:
  "resolveDecision demo_env atomic_params new_port [] [stored_port] e
    = supersede_decision \<lparr>tg_candidate = stored_port, tg_signal = Deterministic_text,
                          tg_proof = Some Key_atomicFactIdentity\<rparr>"
  by (simp add: resolveDecision_def Let_def decide_target_def isF2SupersedeSignal_def
      temporal_guard_block_def)

section \<open>The laws\<close>

text \<open>C3: A supersede driven by text similarity alone names a stored candidate whose referent identity is
  proven independently of the text, carries that proof, and rests on a change of value.\<close>

theorem text_supersede_needs_proof:
  assumes "dec_outcome (resolveDecision env p incoming rws cs e) = Supersede"
    and "dec_supersedeSignal (resolveDecision env p incoming rws cs e) = Some Deterministic_text"
  shows "\<exists>c\<in>set cs. \<exists>q. dec_candidate (resolveDecision env p incoming rws cs e) = Some c
    \<and> referentOf env p incoming c = Proven q
    \<and> dec_referentVerdict (resolveDecision env p incoming rws cs e) = Some Stamp_proven
    \<and> dec_referentProof (resolveDecision env p incoming rws cs e) = Some (Proof_arm q)
    \<and> wouldSupersedeTexts (sc_l2 c) incoming \<and> in_correction_band env p c"
  using assms(1)
proof (rule supersede_inversion)
  fix t
  assume t: "resolveDecision env p incoming rws cs e = supersede_decision t"
    "tg_candidate t \<in> set cs" "qualifying_target env p incoming (tg_candidate t) = Some t"
  with assms(2) have "tg_signal t = Deterministic_text" by simp
  with qualifying_targetD [OF t(3)] nominate_F1 [of p incoming "tg_candidate t"]
  obtain q where "referentOf env p incoming (tg_candidate t) = Proven q" "tg_proof t = Some q"
    "wouldSupersedeTexts (sc_l2 (tg_candidate t)) incoming" by metis
  with t qualifying_targetD [OF t(3)] show ?thesis
    by (intro bexI [of _ "tg_candidate t"] exI [of _ q]) (simp_all add: supersede_decision_def)
qed

theorem text_supersede_needs_proof_witness:
  "\<exists>q. referentOf demo_env keyed_params new_port stored_port = Proven q
     \<and> dec_referentProof (resolveDecision demo_env keyed_params new_port [] [stored_port] [])
         = Some (Proof_arm q)"
  using text_supersede_needs_proof [of demo_env keyed_params new_port "[]" "[stored_port]" "[]"]
  by simp



text \<open>C25: A retirement proven by the atomic fact identity passes the durability leg, the temporal leg at
  the lane clock and the occasion leg, whatever the environment flags are, and needs the authority
  flag of that proof.\<close>

theorem atomic_supersede_guarded:
  assumes "dec_outcome (resolveDecision env p incoming rws cs e) = Supersede"
    and "dec_referentProof (resolveDecision env p incoming rws cs e)
           = Some (Proof_arm Key_atomicFactIdentity)"
  shows "\<exists>c\<in>set cs. dec_candidate (resolveDecision env p incoming rws cs e) = Some c
    \<and> rp_atomicAuthority p
    \<and> \<not> (sc_tier c = Some ''durable'' \<and> rp_tier p \<noteq> Some ''durable''
           \<and> (rp_tier p = Some ''ephemeral'' \<or> hasTransienceCue incoming))
    \<and> (\<exists>i k. incoming_instant env (rp_validAt p) (rp_laneClock p) = Some i
           \<and> candidate_instant env c = Some k \<and> k \<le> i)
    \<and> \<not> different_occasion (sc_l2 c) incoming"
  using assms(1)
proof (rule supersede_inversion)
  fix t
  assume t: "resolveDecision env p incoming rws cs e = supersede_decision t"
    "dec_outcome (decide_target env p incoming t) = Supersede"
    "tg_candidate t \<in> set cs" "qualifying_target env p incoming (tg_candidate t) = Some t"
  have proof_arm: "tg_proof t = Some Key_atomicFactIdentity"
    using assms(2) t(1) by (auto simp: supersede_decision_def split: option.splits)
  with t(2) have legs: "atomic_guard_unit env p incoming t = None"
    by (simp add: decide_supersede_iff)
  note q = qualifying_targetD [OF t(4)]
  have "tg_signal t = Deterministic_text"
    using nominate_signal [OF q(5)] proof_arm by simp
  with q(5) proof_arm
  have "referentOf env p incoming (tg_candidate t) = Proven Key_atomicFactIdentity"
    by (auto simp: nominate_F1)
  then have "rp_atomicAuthority p"
    unfolding referentOf_def by (rule prove_atomic_needs_authority)
  with legs t durable_leg_iff [of "tg_candidate t" incoming "rp_tier p"]
  show ?thesis
    by (intro bexI [of _ "tg_candidate t"])
      (simp_all add: atomic_guard_None temporal_leg_permits_iff)
qed

theorem atomic_supersede_guarded_witness:
  "\<exists>i k. incoming_instant demo_env None 1750000000000 = Some i
     \<and> candidate_instant demo_env stored_port = Some k \<and> k \<le> i"
  using atomic_supersede_guarded
    [of demo_env atomic_params new_port "[]" "[stored_port]" "[]"]
  by (simp add: supersede_decision_def) (simp add: atomic_params_def default_params_def)

text \<open>With the temporal guard on, no transient text retires or is folded into a durable fact.\<close>

theorem durable_fact_protected:
  assumes "rp_temporalGuard p"
    and "dec_candidate (resolveDecision env p incoming rws cs e) = Some c"
    and "dec_outcome (resolveDecision env p incoming rws cs e) \<in> {Supersede, Merge_update}"
    and "sc_tier c = Some ''durable''"
  shows "rp_tier p = Some ''durable'' \<or> (rp_tier p \<noteq> Some ''ephemeral'' \<and> \<not> hasTransienceCue incoming)"
proof -
  obtain d where d: "resolveDecision env p incoming rws cs e = d" by blast
  have "durableTransientKeepBothReason c incoming (rp_tier p) = None"
    using d
  proof (cases rule: resolve_cases)
    case (target t)
    with assms d have "dec_outcome (decide_target env p incoming t) = Supersede"
      using decide_outcomes [of env p incoming t] by auto
    with assms d target show ?thesis
      using decide_supersede_eq [of env p incoming t]
      by (simp add: decide_supersede_iff temporal_block_None)
  next
    case (remaining d0)
    with assms d remaining_not_supersede [OF remaining(4)]
    have d0: "dec_candidate d0 = Some c" "dec_outcome d0 = Merge_update" by auto
    from remaining(4) show ?thesis
    proof (cases rule: remaining_cases)
      case (recent k)
      with d0 show ?thesis by (auto dest: recent_band_Some)
    next
      case (store k)
      with d0 show ?thesis by (auto dest: store_band_Some)
    next
      case merge
      with d0 obtain c' where "merge_candidate env p incoming c' = Some d0"
        by (auto dest: merge_band_Some)
      with d0 assms(1) show ?thesis
        using merge_candidate_update [of env p incoming c' d0]
          merge_candidate_names [of env p incoming c' d0] by simp
    qed (use d0 in simp)
  qed (use assms d in auto)
  with assms(4) durable_leg_iff [of c incoming "rp_tier p"] show ?thesis by auto
qed

definition durable_port :: similar_candidate where
  "durable_port = stored_port\<lparr>sc_tier := Some ''durable''\<rparr>"

definition guarded_params :: resolve_params where
  "guarded_params = keyed_params\<lparr>rp_temporalGuard := True\<rparr>"

lemma durable_port_simps [simp]:
  "sc_tier durable_port = Some ''durable''" "sc_l2 durable_port = sc_l2 stored_port"
  "sc_similarity durable_port = 9 / 10" "sc_updatedAt durable_port = sc_updatedAt stored_port"
  "sc_createdAt durable_port = sc_createdAt stored_port"
  "candidateReferentKeys durable_port = candidateReferentKeys stored_port"
  by (simp_all add: durable_port_def candidateReferentKeys_def)

lemma guarded_params_simps [simp]:
  "rp_temporalGuard guarded_params" "rp_config guarded_params = default_arbitration_config"
  "rp_withinHoursNow guarded_params = None" "rp_tier guarded_params = None"
  "rp_keys guarded_params = rp_keys keyed_params" "\<not> rp_f2JudgeConfirm guarded_params"
  "\<not> rp_f2RequireValueChange guarded_params"
  "rp_atomicAuthority guarded_params = rp_atomicAuthority keyed_params"
  by (simp_all add: guarded_params_def keyed_params_def default_params_def)

lemma durable_port_target:
  "cs_best (findSupersedeTarget demo_env guarded_params new_port [durable_port])
    = Some \<lparr>tg_candidate = durable_port, tg_signal = Deterministic_text, tg_proof = Some Key_factKey\<rparr>"
  using demo_within demo_keyed
  by (intro single_target) (simp_all add: in_correction_band_def withinHours_def referentOf_def)

lemma new_port_steady: "\<not> hasTransienceCue new_port"
  by code_simp

lemma durable_port_supersede:
  "resolveDecision demo_env guarded_params new_port [] [durable_port] e
    = supersede_decision \<lparr>tg_candidate = durable_port, tg_signal = Deterministic_text,
                          tg_proof = Some Key_factKey\<rparr>"
  by (simp add: resolveDecision_def Let_def decide_target_def isF2SupersedeSignal_def
      temporal_guard_block_def durable_port_target store_exact_dup_def
      durableTransientKeepBothReason_def new_port_steady)

theorem durable_fact_protected_witness:
  "dec_outcome (resolveDecision demo_env guarded_params new_port [] [durable_port] []) = Supersede
   \<and> (rp_tier guarded_params \<noteq> Some ''ephemeral'' \<and> \<not> hasTransienceCue new_port)"
  using durable_fact_protected
    [of guarded_params demo_env new_port "[]" "[durable_port]" "[]" durable_port]
  by (simp add: durable_port_supersede)

text \<open>With the judge confirmation on, the decision core itself retires a fact only on a proven
  referent: every tag-driven or cue-driven target is escalated to the judge instead.\<close>

theorem judge_confirm_gates_f2:
  assumes "rp_f2JudgeConfirm p"
    and "dec_outcome (resolveDecision env p incoming rws cs e) = Supersede"
  shows "dec_supersedeSignal (resolveDecision env p incoming rws cs e) = Some Deterministic_text
    \<and> dec_referentVerdict (resolveDecision env p incoming rws cs e) = Some Stamp_proven"
  using assms(2)
proof (rule supersede_inversion)
  fix t
  assume t: "resolveDecision env p incoming rws cs e = supersede_decision t"
    "dec_outcome (decide_target env p incoming t) = Supersede"
    "qualifying_target env p incoming (tg_candidate t) = Some t"
  have "tg_proof t \<noteq> None \<or> \<not> isF2SupersedeSignal (tg_signal t)"
    using t(2) assms(1) by (auto simp: decide_supersede_iff)
  with nominate_signal [OF qualifying_targetD(5) [OF t(3)]]
  have "tg_signal t = Deterministic_text" and "tg_proof t \<noteq> None" by auto
  with t(1) show ?thesis by (auto simp: supersede_decision_def)
qed

definition confirm_params :: resolve_params where
  "confirm_params = keyed_params\<lparr>rp_f2JudgeConfirm := True\<rparr>"

lemma confirm_params_simps [simp]:
  "rp_f2JudgeConfirm confirm_params" "rp_config confirm_params = default_arbitration_config"
  "rp_withinHoursNow confirm_params = None" "rp_keys confirm_params = rp_keys keyed_params"
  "\<not> rp_f2RequireValueChange confirm_params" "\<not> rp_temporalGuard confirm_params"
  "rp_atomicAuthority confirm_params = rp_atomicAuthority keyed_params"
  by (simp_all add: confirm_params_def keyed_params_def default_params_def)

lemma confirm_supersede:
  "resolveDecision demo_env confirm_params new_port [] [stored_port] e
    = supersede_decision \<lparr>tg_candidate = stored_port, tg_signal = Deterministic_text,
                          tg_proof = Some Key_factKey\<rparr>"
proof -
  have "cs_best (findSupersedeTarget demo_env confirm_params new_port [stored_port])
    = Some \<lparr>tg_candidate = stored_port, tg_signal = Deterministic_text, tg_proof = Some Key_factKey\<rparr>"
    using demo_keyed
    by (intro single_target) (simp_all add: in_correction_band_def referentOf_def)
  then show ?thesis
    by (simp add: resolveDecision_def Let_def decide_target_def isF2SupersedeSignal_def
        temporal_guard_block_def)
qed

theorem judge_confirm_gates_f2_witness:
  "dec_referentVerdict (resolveDecision demo_env confirm_params new_port [] [stored_port] [])
     = Some Stamp_proven"
  using judge_confirm_gates_f2 [of confirm_params demo_env new_port "[]" "[stored_port]" "[]"]
  by (simp add: confirm_supersede)

text \<open>A text whose normal form equals that of a recent write, or of a stored candidate inside the
  skip window, is skipped, whatever tags, keys and flags the write carries; and a decision of the
  exact-duplicate band is always a skip.\<close>

theorem exact_duplicate_skipped:
  "(recent_exact_dup (normalizeText incoming) rws
      \<or> (\<exists>c. store_exact_dup env p (normalizeText incoming) cs = Some c))
     = (dec_band (resolveDecision env p incoming rws cs e) = Some Exact_dup)
   \<and> (dec_band (resolveDecision env p incoming rws cs e) = Some Exact_dup)
     = (dec_band (resolveDecision env p incoming rws cs e) = Some Exact_dup
        \<and> dec_outcome (resolveDecision env p incoming rws cs e) = Skip)"
proof -
  obtain d where d: "resolveDecision env p incoming rws cs e = d" by blast
  from d show ?thesis
  proof (cases rule: resolve_cases)
    case (target t)
    with d decide_band [of env p incoming t] show ?thesis by simp
  next
    case (remaining d0)
    have "dec_band d0 \<noteq> Some Exact_dup" using remaining(4)
    proof (cases rule: remaining_cases)
      case (recent k)
      then show ?thesis by (auto dest: recent_band_Some)
    next
      case (store k)
      then show ?thesis by (auto dest: store_band_Some)
    next
      case merge
      then show ?thesis by (auto dest!: merge_band_Some dest: merge_candidate_names)
    qed
    with remaining d show ?thesis by simp
  qed (use d in auto)
qed

text \<open>The candidate a supersede retires is one of the most similar among all candidates that qualify, and
  qualifying means: inside the correction band, no distinct answer, no anchor conflict, and a
  signal.\<close>

theorem supersede_picks_best:
  assumes "dec_outcome (resolveDecision env p incoming rws cs e) = Supersede"
  shows "\<exists>c\<in>set cs. dec_candidate (resolveDecision env p incoming rws cs e) = Some c
    \<and> (\<forall>c'\<in>set cs. qualifying_target env p incoming c' = None
          \<or> sc_similarity c' \<le> sc_similarity c)"
  using assms
proof (rule supersede_inversion)
  fix t
  assume t: "cs_best (findSupersedeTarget env p incoming cs) = Some t"
    "resolveDecision env p incoming rws cs e = supersede_decision t" "tg_candidate t \<in> set cs"
  have "qualifying_target env p incoming c' = None \<or> sc_similarity c' \<le> sc_similarity (tg_candidate t)"
    if "c' \<in> set cs" for c'
    using target_max [OF t(1) that] by (cases "qualifying_target env p incoming c'") auto
  with t show ?thesis by (intro bexI [of _ "tg_candidate t"]) auto
qed

theorem supersede_picks_best_witness:
  "\<exists>c\<in>set [stored_port]. \<forall>c'\<in>set [stored_port].
     qualifying_target demo_env keyed_params new_port c' = None
     \<or> sc_similarity c' \<le> sc_similarity c"
  using supersede_picks_best [of demo_env keyed_params new_port "[]" "[stored_port]" "[]"]
  by (simp add: supersede_decision_def)

text \<open>Nothing is escalated to a judge unless one of the two judge flags is on, and what the merge band
  escalates shows positive evidence of the same subject and a currentness cue.\<close>

theorem judge_only_when_enabled:
  assumes "dec_outcome (resolveDecision env p incoming rws cs e) = Judge"
  shows "\<exists>c\<in>set cs. dec_candidate (resolveDecision env p incoming rws cs e) = Some c
    \<and> (rp_f2JudgeConfirm p \<or>
       (rp_judgeEnabled p \<and> hasCurrentnessCue incoming
        \<and> \<not> conflictingSubjects (sc_tags c) (rp_tags p)
        \<and> (sharesSlotTags (sc_tags c) (rp_tags p)
           \<or> incomingNamesCandidateValue c incoming (rp_tags p))))"
proof -
  obtain d where d: "resolveDecision env p incoming rws cs e = d" by blast
  from d show ?thesis
  proof (cases rule: resolve_cases)
    case (target t)
    with assms d decide_outcomes [of env p incoming t] target_qualifies [OF target(3)]
    show ?thesis by auto
  next
    case (remaining d0)
    with assms d have d0: "dec_outcome d0 = Judge" by simp
    from remaining(4) show ?thesis
    proof (cases rule: remaining_cases)
      case (recent k)
      with d0 show ?thesis by (auto dest: recent_band_Some)
    next
      case (store k)
      with d0 show ?thesis by (auto dest: store_band_Some)
    next
      case merge
      then obtain c where c: "c \<in> set cs" "merge_candidate env p incoming c = Some d0"
        by (auto dest: merge_band_Some)
      with d0 merge_candidate_names [OF c(2)] merge_candidate_judge [OF c(2)] remaining d
      show ?thesis
        by (intro bexI [of _ c]) (auto simp: isJudgeWorthy_def split: if_splits)
    qed (use d0 in simp)
  qed (use assms d in auto)
qed

definition stored_lead :: similar_candidate where
  "stored_lead = stored_port\<lparr>sc_l2 := ''Atlas lead is Priya'',
     sc_tags := Some [''project:atlas'', ''role:lead'']\<rparr>"

definition new_lead :: jstr where
  "new_lead = ''Marcus runs Atlas''"

definition lead_params :: resolve_params where
  "lead_params = default_params\<lparr>rp_tags := Some [''project:atlas'', ''role:lead'', ''update''],
     rp_f2JudgeConfirm := True\<rparr>"

lemma stored_lead_nominated:
  "nominate lead_params new_lead stored_lead Unproven = Nominated Extractor_correction_slot None"
  by code_simp

lemma stored_lead_referent: "referentOf demo_env lead_params new_lead stored_lead = Unproven"
  by code_simp

lemma stored_lead_distinct: "\<not> areAnswerDistinctTexts (sc_l2 stored_lead) new_lead"
  by code_simp

lemma stored_lead_norm: "normalizeText (sc_l2 stored_lead) \<noteq> normalizeText new_lead"
  by code_simp

lemma stored_lead_band: "in_correction_band demo_env lead_params stored_lead"
proof -
  have "withinHours demo_env stored_lead 72 None" by code_simp
  then show ?thesis
    by (simp add: in_correction_band_def lead_params_def default_params_def stored_lead_def)
qed

lemma stored_lead_judge:
  "dec_outcome (resolveDecision demo_env lead_params new_lead [] [stored_lead] e) = Judge"
proof -
  note t = single_nominated [OF stored_lead_band stored_lead_distinct stored_lead_referent _
      stored_lead_nominated, simplified]
  show ?thesis
    by (simp add: resolveDecision_def t decide_target_def isF2SupersedeSignal_def recent_exact_dup_def
        store_exact_dup_def stored_lead_norm)
      (simp add: lead_params_def default_params_def isF2SupersedeSignal_def)
qed

theorem judge_only_when_enabled_witness:
  "\<exists>c\<in>set [stored_lead].
     dec_candidate (resolveDecision demo_env lead_params new_lead [] [stored_lead] []) = Some c"
  using judge_only_when_enabled [OF stored_lead_judge [of "[]"]] by auto

text \<open>A skip loses nothing the store does not hold: the write equals a recent or stored text, is a near
  duplicate above the skip threshold that does not answer another question, or its detail is already
  contained in the stored text.\<close>

theorem skip_keeps_information:
  assumes "dec_outcome (resolveDecision env p incoming rws cs e) = Skip"
  shows "(\<exists>rw\<in>set rws. rw_normalizedText rw = normalizeText incoming)
    \<or> (\<exists>c\<in>set cs. normalizeText (sc_l2 c) = normalizeText incoming)
    \<or> (\<exists>rw\<in>set rws. cosineSimilarity (rw_embedding rw) e \<ge> skipThreshold (rp_config p)
           \<and> \<not> areAnswerDistinctTexts (rw_text rw) incoming)
    \<or> (\<exists>c\<in>set cs. sc_similarity c \<ge> skipThreshold (rp_config p)
           \<and> \<not> areAnswerDistinctTexts (sc_l2 c) incoming)
    \<or> (\<exists>c\<in>set cs. in_merge_band env p c
           \<and> (js_includes (normalizeText (sc_l2 c)) (normalizeText incoming)
              \<or> normalizeText (buildMergedText (sc_l2 c) incoming) = normalizeText (sc_l2 c)))"
proof -
  obtain d where d: "resolveDecision env p incoming rws cs e = d" by blast
  from d show ?thesis
  proof (cases rule: resolve_cases)
    case exact_recent
    then show ?thesis by (auto simp: recent_exact_dup_def list_ex_iff)
  next
    case (exact_store c)
    then show ?thesis by (auto simp: store_exact_dup_def find_Some_iff)
  next
    case (target t)
    with assms d decide_outcomes [of env p incoming t] show ?thesis by auto
  next
    case (remaining d0)
    with assms d have d0: "dec_outcome d0 = Skip" by simp
    from remaining(4) show ?thesis
    proof (cases rule: remaining_cases)
      case (recent k)
      with d0 show ?thesis by (auto dest!: recent_band_Some)
    next
      case (store k)
      with d0 show ?thesis by (auto dest!: store_band_Some)
    next
      case merge
      with d0 show ?thesis by (fastforce dest!: merge_band_Some dest: merge_candidate_skip)
    qed (use d0 in simp)
  qed
qed

theorem skip_keeps_information_witness:
  "normalizeText (sc_l2 stored_port) = normalizeText ''ATLAS  port is 8080''"
proof -
  have eq: "normalizeText (sc_l2 stored_port) = normalizeText ''ATLAS  port is 8080''" by code_simp
  have "withinHours demo_env stored_port 24 None" by code_simp
  with eq have "dec_outcome (resolveDecision demo_env keyed_params ''ATLAS  port is 8080'' []
      [stored_port] []) = Skip"
    by (simp add: resolveDecision_def recent_exact_dup_def store_exact_dup_def
        default_arbitration_config_def)
  from skip_keeps_information [OF this] eq show ?thesis by auto
qed

end
