(* ===== verification/Write_Judge.thy ===== *)
theory Write_Judge
  imports Write_Decision
begin

text \<open>
  The resolution of an escalated decision by the judge (\<open>resolveJudgeDecision\<close> of
  \<open>src/src/storage/writes/write-arbitrator.ts\<close>): the failure classes, the confidence floor, the
  guards that run once on an escalated target, and the provenance and ledger row of the
  confirmation path. A missing signal is None in the ledger and in a reason, where the code writes
  \<open>unknown\<close> and \<open>undefined\<close>.
\<close>

section \<open>What a judged decision adds\<close>

datatype f2_result =
    F2_confirmed | F2_vetoed | F2_duplicate | F2_unavailable | F2_transport_error | F2_invalid_response

datatype identity_status = Resolved | No_handle

record guard_override =
  go_leg :: guard_leg
  go_reason :: keep_both_reason

record f2_judge_check =
  fc_result :: f2_result
  fc_confidence :: "jnum option"
  fc_guardOverride :: "guard_override option"
  fc_judgeIdentity :: "judge_identity option"
  fc_identityStatus :: identity_status

record supersession_provenance =
  pv_decisionId :: jstr
  pv_appliedOutcome :: outcome
  pv_check :: f2_judge_check

record judge_ledger_row =
  lr_decisionId :: jstr
  lr_ts :: jstr
  lr_userId :: jstr
  lr_scope :: jstr
  lr_candidateId :: jstr
  lr_candidateSha256 :: jstr
  lr_incomingSha256 :: jstr
  lr_signal :: "supersede_signal option"
  lr_band :: "band option"
  lr_cosine :: real
  lr_check :: f2_judge_check
  lr_appliedOutcome :: outcome

datatype judge_unresolved = Unresolved_unavailable | Unresolved_transport jstr | Unresolved_invalid jstr

record judged_decision = arbitration_decision +
  jd_provenance :: "supersession_provenance option"
  jd_ledger :: "judge_ledger_row option"
  jd_unresolved :: "judge_unresolved option"

text \<open>A decision of the core as it is, without the three fields.\<close>

definition unjudged :: "arbitration_decision \<Rightarrow> judged_decision" where
  "unjudged d =
     arbitration_decision.extend d (judged_decision.fields None None None)"

section \<open>The call\<close>

text \<open>
  What the injected handle does on a pair of texts: answer, or throw although its contract forbids
  it. The other inputs are the ones the arbitrator captured: the random decision id and the one
  time stamp.
\<close>

datatype judge_reply = Answered judge_outcome | Judge_threw

record judge_handle =
  jh_identity :: judge_identity
  jh_judge :: "jstr \<Rightarrow> jstr \<Rightarrow> judge_reply"

record judge_params =
  jp_judge :: "judge_handle option"
  jp_temporalGuard :: bool
  jp_validAt :: "jstr option"
  jp_tier :: "jstr option"
  jp_arbitrationNow :: int
  jp_f2ConfirmOrigin :: bool
  jp_decisionId :: jstr
  jp_decisionTs :: jstr

definition provider_error :: jstr where
  "provider_error = ''provider_error''"

text \<open>The outcome the resolver works with: failures lose the provider's own detail.\<close>

definition asked :: "judge_params \<Rightarrow> jstr \<Rightarrow> jstr \<Rightarrow> judge_outcome" where
  "asked jp oldText newText =
     (case jp_judge jp of
        None \<Rightarrow> Unavailable
      | Some h \<Rightarrow>
          (case jh_judge h oldText newText of
             Judge_threw \<Rightarrow> Transport_error provider_error
           | Answered (Transport_error _) \<Rightarrow> Transport_error provider_error
           | Answered (Invalid_response _) \<Rightarrow> Invalid_response provider_error
           | Answered out \<Rightarrow> out))"

definition f2_origin :: "judge_params \<Rightarrow> arbitration_decision \<Rightarrow> bool" where
  "f2_origin jp d =
     (jp_f2ConfirmOrigin jp
      \<or> (case dec_supersedeSignal d of Some sig \<Rightarrow> isF2SupersedeSignal sig | None \<Rightarrow> False))"

definition judge_context_of :: "judge_params \<Rightarrow> arbitration_decision \<Rightarrow> similar_candidate \<Rightarrow> judge_context" where
  "judge_context_of jp d c =
     (if f2_origin jp d then F2_context (dec_supersedeSignal d) (sc_similarity c) else Cue_context)"

section \<open>Provenance and ledger\<close>

definition judge_check ::
  "judge_params \<Rightarrow> f2_result \<Rightarrow> jnum option \<Rightarrow> guard_override option \<Rightarrow> f2_judge_check" where
  "judge_check jp result confidence override =
     \<lparr>fc_result = result, fc_confidence = confidence, fc_guardOverride = override,
      fc_judgeIdentity = map_option jh_identity (jp_judge jp),
      fc_identityStatus = (case jp_judge jp of Some _ \<Rightarrow> Resolved | None \<Rightarrow> No_handle)\<rparr>"

definition buildProvenance ::
  "judge_params \<Rightarrow> f2_result \<Rightarrow> outcome \<Rightarrow> jnum option \<Rightarrow> guard_override option \<Rightarrow> supersession_provenance" where
  "buildProvenance jp result applied confidence override =
     \<lparr>pv_decisionId = jp_decisionId jp, pv_appliedOutcome = applied,
      pv_check = judge_check jp result confidence override\<rparr>"

definition buildLedger ::
  "js_env \<Rightarrow> judge_params \<Rightarrow> arbitration_decision \<Rightarrow> similar_candidate \<Rightarrow> jstr \<Rightarrow> f2_result \<Rightarrow> outcome
     \<Rightarrow> jnum option \<Rightarrow> guard_override option \<Rightarrow> judge_ledger_row option" where
  "buildLedger env jp d c incoming result applied confidence override =
     (if \<not> f2_origin jp d then None
      else Some \<lparr>lr_decisionId = jp_decisionId jp, lr_ts = jp_decisionTs jp, lr_userId = [],
                 lr_scope = [], lr_candidateId = sc_id c,
                 lr_candidateSha256 = sha256_hex env (sc_l2 c),
                 lr_incomingSha256 = sha256_hex env incoming,
                 lr_signal = dec_supersedeSignal d, lr_band = dec_band d,
                 lr_cosine = sc_similarity c,
                 lr_check = judge_check jp result confidence override,
                 lr_appliedOutcome = applied\<rparr>)"

definition withF2Meta ::
  "js_env \<Rightarrow> judge_params \<Rightarrow> arbitration_decision \<Rightarrow> similar_candidate \<Rightarrow> jstr \<Rightarrow> judged_decision
     \<Rightarrow> f2_result \<Rightarrow> jnum option \<Rightarrow> guard_override option \<Rightarrow> judged_decision" where
  "withF2Meta env jp d c incoming base result confidence override =
     (let kept = base\<lparr>dec_snapshot :=
                        (case dec_snapshot base of Some sn \<Rightarrow> Some sn | None \<Rightarrow> dec_snapshot d)\<rparr>
      in if \<not> f2_origin jp d then kept
         else kept\<lparr>jd_provenance :=
                     Some (buildProvenance jp result (dec_outcome kept) confidence override),
                   jd_ledger :=
                     buildLedger env jp d c incoming result (dec_outcome kept) confidence override\<rparr>)"

section \<open>The resolution\<close>

text \<open>The literal most branches return: the fields of the escalation carried over.\<close>

definition judged_base ::
  "arbitration_decision \<Rightarrow> similar_candidate \<Rightarrow> outcome \<Rightarrow> decision_reason \<Rightarrow> judge_unresolved option
     \<Rightarrow> judged_decision" where
  "judged_base d c out why unresolved =
     \<lparr>dec_outcome = out, dec_reason = why, dec_band = dec_band d, dec_candidate = Some c,
      dec_mergedText = None, dec_supersedeSignal = dec_supersedeSignal d, dec_blockedNomination = None,
      dec_referentVerdict = dec_referentVerdict d, dec_referentProof = dec_referentProof d,
      dec_snapshot = None, dec_guardKeepBoth = None, jd_provenance = None, jd_ledger = None,
      jd_unresolved = unresolved\<rparr>"

definition actionable :: "judge_params \<Rightarrow> supersession_verdict \<Rightarrow> bool" where
  "actionable jp v =
     (case sv_confidence v of
        Fin c \<Rightarrow>
          (case jp_judge jp of Some h \<Rightarrow> ji_confidenceFloor (jh_identity h) | None \<Rightarrow> 0) \<le> c \<and> c \<le> 1
      | _ \<Rightarrow> False)"

definition judge_guards ::
  "js_env \<Rightarrow> judge_params \<Rightarrow> similar_candidate \<Rightarrow> jstr \<Rightarrow> guard_override option" where
  "judge_guards env jp c incoming =
     (if \<not> jp_temporalGuard jp then None
      else (case durableTransientKeepBothReason c incoming (jp_tier jp) of
              Some r \<Rightarrow> Some \<lparr>go_leg = Durability, go_reason = r\<rparr>
            | None \<Rightarrow>
                map_option (\<lambda>r. \<lparr>go_leg = Temporal, go_reason = r\<rparr>)
                  (temporalOrderingKeepBothReason env c (jp_validAt jp) (jp_arbitrationNow jp))))"

definition judge_supersede ::
  "judge_params \<Rightarrow> arbitration_decision \<Rightarrow> similar_candidate \<Rightarrow> supersession_verdict \<Rightarrow> judged_decision" where
  "judge_supersede jp d c v =
     (let f2 = f2_origin jp d
      in (judged_base d c Supersede
            (Judge_superseded (judge_context_of jp d c) (sc_similarity c) (sv_confidence v)) None)
           \<lparr>dec_supersedeSignal := (if f2 then dec_supersedeSignal d else Some Llm_judge_supersede),
            dec_band := (case dec_band d of Some b \<Rightarrow> Some b
                         | None \<Rightarrow> if f2 then Some Correction_supersede else None),
            dec_referentVerdict := (if f2 then Some Stamp_f2_exception else None),
            dec_referentProof :=
              (if f2 then map_option Signal_provenance (dec_supersedeSignal d) else None)\<rparr>)"

text \<open>
  The resolved decision, and the one resolution the handle is told of. The candidate is the
  escalation's own; the code asserts that it is there.
\<close>

definition resolve_verdict ::
  "js_env \<Rightarrow> judge_params \<Rightarrow> arbitration_decision \<Rightarrow> similar_candidate \<Rightarrow> jstr \<Rightarrow> supersession_verdict
     \<Rightarrow> judged_decision \<times> judge_resolution option" where
  "resolve_verdict env jp d c incoming v =
     (let conf = sv_confidence v;
          f2 = f2_origin jp d;
          note_if = (\<lambda>n. if f2 then Some n else None);
          meta = withF2Meta env jp d c incoming
      in if actionable jp v \<and> sv_verdict v = Says_supersede
         then (case judge_guards env jp c incoming of
                 Some g \<Rightarrow>
                   (meta (judged_base d c Create (Judge_overridden f2 (go_leg g) (go_reason g) conf) None)
                      F2_confirmed (Some conf) (Some g),
                    note_if Confirmed_note)
               | None \<Rightarrow>
                   (meta (judge_supersede jp d c v) F2_confirmed (Some conf) None,
                    note_if Confirmed_note))
         else if actionable jp v \<and> sv_verdict v = Says_duplicate
         then (meta ((judged_base d c Skip (Judge_duplicate f2 conf) None)
                       \<lparr>dec_referentVerdict := None, dec_referentProof := None\<rparr>)
                 F2_duplicate (Some conf) None,
               note_if Duplicate_note)
         else (meta (judged_base d c Create
                       (Judge_kept_both (sv_verdict v) conf (judge_context_of jp d c)) None)
                 F2_vetoed (case conf of Fin _ \<Rightarrow> Some conf | _ \<Rightarrow> None) None,
               note_if Vetoed_note))"

definition resolveJudgeDecision ::
  "js_env \<Rightarrow> judge_params \<Rightarrow> arbitration_decision \<Rightarrow> similar_candidate \<Rightarrow> jstr
     \<Rightarrow> judged_decision \<times> judge_resolution option" where
  "resolveJudgeDecision env jp d c incoming =
     (let ctx = judge_context_of jp d c; meta = withF2Meta env jp d c incoming
      in case asked jp (sc_l2 c) incoming of
           Unavailable \<Rightarrow>
             (meta (judged_base d c Create (Judge_unavailable ctx) (Some Unresolved_unavailable))
                F2_unavailable None None, None)
         | Transport_error detail \<Rightarrow>
             (meta (judged_base d c Create (Judge_transport_error detail ctx)
                      (Some (Unresolved_transport detail)))
                F2_transport_error None None, None)
         | Invalid_response detail \<Rightarrow>
             (meta (judged_base d c Create (Judge_invalid_response detail ctx)
                      (Some (Unresolved_invalid detail)))
                F2_invalid_response None None, None)
         | Verdict v \<Rightarrow> resolve_verdict env jp d c incoming v)"

text \<open>
  The two stages as \<open>arbitrateWrite\<close> composes them. A judge escalation of the core always carries
  its candidate (lemma \<open>judge_has_candidate\<close>).
\<close>

definition judge_params_of ::
  "resolve_params \<Rightarrow> judge_handle option \<Rightarrow> jstr \<Rightarrow> jstr \<Rightarrow> arbitration_decision \<Rightarrow> judge_params" where
  "judge_params_of p handle decisionId ts d =
     \<lparr>jp_judge = handle, jp_temporalGuard = rp_temporalGuard p, jp_validAt = rp_validAt p,
      jp_tier = rp_tier p, jp_arbitrationNow = rp_arbitrationNow p,
      jp_f2ConfirmOrigin =
        (rp_f2JudgeConfirm p
         \<and> (case dec_supersedeSignal d of Some sig \<Rightarrow> isF2SupersedeSignal sig | None \<Rightarrow> False)),
      jp_decisionId = decisionId, jp_decisionTs = ts\<rparr>"

definition decideWrite ::
  "js_env \<Rightarrow> resolve_params \<Rightarrow> judge_handle option \<Rightarrow> jstr \<Rightarrow> jstr \<Rightarrow> jstr \<Rightarrow> recent_write list
     \<Rightarrow> similar_candidate list \<Rightarrow> real list \<Rightarrow> judged_decision" where
  "decideWrite env p handle decisionId ts incoming recentCandidates similarCandidates embedding =
     (let d = resolveDecision env p incoming recentCandidates similarCandidates embedding
      in case (dec_outcome d, dec_candidate d) of
           (Judge, Some c) \<Rightarrow>
             fst (resolveJudgeDecision env (judge_params_of p handle decisionId ts d) d c incoming)
         | _ \<Rightarrow> unjudged d)"

section \<open>Facts\<close>

lemma judged_base_simps [simp]:
  "dec_outcome (judged_base d c out why u) = out" "dec_reason (judged_base d c out why u) = why"
  "dec_band (judged_base d c out why u) = dec_band d" "dec_candidate (judged_base d c out why u) = Some c"
  "dec_mergedText (judged_base d c out why u) = None"
  "dec_supersedeSignal (judged_base d c out why u) = dec_supersedeSignal d"
  "dec_snapshot (judged_base d c out why u) = None" "jd_provenance (judged_base d c out why u) = None"
  "jd_ledger (judged_base d c out why u) = None" "jd_unresolved (judged_base d c out why u) = u"
  by (simp_all add: judged_base_def)

lemma withF2Meta_simps [simp]:
  "dec_outcome (withF2Meta env jp d c inc base r cf g) = dec_outcome base"
  "dec_candidate (withF2Meta env jp d c inc base r cf g) = dec_candidate base"
  "dec_supersedeSignal (withF2Meta env jp d c inc base r cf g) = dec_supersedeSignal base"
  "dec_mergedText (withF2Meta env jp d c inc base r cf g) = dec_mergedText base"
  "jd_unresolved (withF2Meta env jp d c inc base r cf g) = jd_unresolved base"
  by (simp_all add: withF2Meta_def Let_def)

lemma judge_supersede_simps [simp]:
  "dec_outcome (judge_supersede jp d c v) = Supersede"
  "dec_candidate (judge_supersede jp d c v) = Some c"
  "dec_mergedText (judge_supersede jp d c v) = None"
  "dec_snapshot (judge_supersede jp d c v) = None"
  "dec_supersedeSignal (judge_supersede jp d c v) =
     (if f2_origin jp d then dec_supersedeSignal d else Some Llm_judge_supersede)"
  "jd_unresolved (judge_supersede jp d c v) = None" "jd_provenance (judge_supersede jp d c v) = None"
  "jd_ledger (judge_supersede jp d c v) = None"
  by (simp_all add: judge_supersede_def Let_def)

lemma unjudged_simps [simp]:
  "dec_outcome (unjudged d) = dec_outcome d" "dec_candidate (unjudged d) = dec_candidate d"
  "dec_supersedeSignal (unjudged d) = dec_supersedeSignal d" "dec_band (unjudged d) = dec_band d"
  "dec_referentVerdict (unjudged d) = dec_referentVerdict d" "dec_reason (unjudged d) = dec_reason d"
  "dec_mergedText (unjudged d) = dec_mergedText d" "jd_provenance (unjudged d) = None"
  "jd_ledger (unjudged d) = None" "jd_unresolved (unjudged d) = None"
  by (simp_all add: unjudged_def arbitration_decision.defs judged_decision.defs)

end
