(* ===== verification/Write_Judge_Laws.thy ===== *)
theory Write_Judge_Laws
  imports Write_Judge Write_Decision_Laws
begin

text \<open>
  The contract of the judge stage: what the model is shown and how its answers are classified
  (\<open>supersession-judge.ts\<close>), what a resolved escalation may do, and that the composed decision
  retires a fact only on a proof or on a confident verdict.
\<close>

section \<open>The judge\<close>

text \<open>The judge sees the fact texts alone: what it is shown is a prefix of the stored text, holds no
  provenance marker, is stable under another strip, and the pair is called indistinguishable
  whichever of the two texts is the old one.\<close>

theorem judge_sees_fact_text:
  "prefix (withoutProvenance t) t
   \<and> list_all (\<lambda>m. js_index_of (withoutProvenance t) m = None) provenance_markers
   \<and> withoutProvenance (withoutProvenance t) = withoutProvenance t
   \<and> jt_old (judgeInputTexts t u Strip_provenance) = withoutProvenance t
   \<and> jt_new (judgeInputTexts t u Strip_provenance) = withoutProvenance u
   \<and> jt_indistinguishable (judgeInputTexts t u view) = jt_indistinguishable (judgeInputTexts u t view)
   \<and> \<not> jt_indistinguishable (judgeInputTexts t t view)"
  by (auto simp: withoutProvenance_prefix withoutProvenance_idem list_all_iff withoutProvenance_no_marker
      judgeInputTexts_def Let_def)


definition demo_identity :: judge_identity where
  "demo_identity =
     \<lparr>ji_model = ''model'', ji_promptVersion = ''v3'', ji_promptSha256 = [], ji_confidenceFloor = 6 / 10,
      ji_temperature = 1 / 10, ji_effectiveJsonMode = True, ji_baseUrl = [], ji_timeoutMs = 30000\<rparr>"

definition demo_options :: judge_options where
  "demo_options =
     \<lparr>jo_apiKey = ''key'', jo_identity = demo_identity, jo_inputView = Strip_provenance,
      jo_systemPrompt = []\<rparr>"

definition dq :: jstr where
  "dq = [CHR 0x22]"

definition demo_answer :: jstr where
  "demo_answer =
     ''{'' @ dq @ ''verdict'' @ dq @ '':'' @ dq @ ''supersede'' @ dq @ '','' @ dq @ ''confidence'' @ dq
       @ '': 0.9}''"

lemma demo_parsed:
  "parseJudgeVerdictRaw demo_answer
     = Inr \<lparr>sv_verdict = Says_supersede, sv_confidence = Fin (9 / 10), sv_rationale = None\<rparr>"
  by code_simp

lemma demo_distinguishable:
  "\<not> jt_indistinguishable (judgeInputTexts ''Port is 1'' ''Port is 2'' Strip_provenance)"
  by code_simp


section \<open>The resolution\<close>

text \<open>What a resolved escalation does: it retires the fact exactly on a supersede verdict between the
  handle's floor and 1 that no guard overrides, skips exactly on a duplicate verdict in that range,
  and creates in every other case, so an absent, failing, throwing or unsure judge keeps both.\<close>

theorem judge_outcome_complete:
  "dec_outcome (fst (resolveJudgeDecision env jp d c incoming)) =
     (case asked jp (sc_l2 c) incoming of
        Verdict v \<Rightarrow>
          (if \<not> actionable jp v then Create
           else if sv_verdict v = Says_supersede \<and> judge_guards env jp c incoming = None then Supersede
           else if sv_verdict v = Says_duplicate then Skip
           else Create)
      | _ \<Rightarrow> Create)
   \<and> dec_candidate (fst (resolveJudgeDecision env jp d c incoming)) = Some c"
  by (cases "asked jp (sc_l2 c) incoming")
    (auto simp: resolveJudgeDecision_def resolve_verdict_def Let_def split: option.splits)

text \<open>The check result a resolution records, and the resolution it notes.\<close>

definition recorded :: "judged_decision \<Rightarrow> f2_result \<Rightarrow> bool" where
  "recorded jd r =
     (\<exists>pv lr. jd_provenance jd = Some pv \<and> jd_ledger jd = Some lr
        \<and> fc_result (pv_check pv) = r \<and> lr_check lr = pv_check pv
        \<and> pv_decisionId pv = lr_decisionId lr
        \<and> pv_appliedOutcome pv = dec_outcome jd \<and> lr_appliedOutcome lr = dec_outcome jd)"

lemma recorded_meta [simp]:
  "f2_origin jp d \<Longrightarrow> recorded (withF2Meta env jp d c inc base r cf g) r' = (r' = r)"
  by (auto simp: recorded_def withF2Meta_def buildProvenance_def buildLedger_def judge_check_def Let_def)

lemma meta_cue:
  assumes "\<not> f2_origin jp d"
  shows "jd_provenance (withF2Meta env jp d c inc base r cf g) = jd_provenance base"
    and "jd_ledger (withF2Meta env jp d c inc base r cf g) = jd_ledger base"
  using assms by (simp_all add: withF2Meta_def Let_def)

fun note_of :: "f2_result \<Rightarrow> judge_resolution option" where
  "note_of F2_confirmed = Some Confirmed_note"
| "note_of F2_vetoed = Some Vetoed_note"
| "note_of F2_duplicate = Some Duplicate_note"
| "note_of _ = None"

text \<open>The confirmation path leaves a trace that fits what was applied: provenance and ledger row exist,
  share the decision id and the check, name the applied outcome, and the handle is told of exactly
  the result they record. The cue path leaves neither and tells the handle nothing.\<close>

theorem judge_trace_consistent:
  "(if f2_origin jp d
    then \<exists>r. recorded (fst (resolveJudgeDecision env jp d c incoming)) r
           \<and> snd (resolveJudgeDecision env jp d c incoming) = note_of r
    else jd_provenance (fst (resolveJudgeDecision env jp d c incoming)) = None
           \<and> jd_ledger (fst (resolveJudgeDecision env jp d c incoming)) = None
           \<and> snd (resolveJudgeDecision env jp d c incoming) = None)"
proof (cases "f2_origin jp d")
  case True
  then show ?thesis
    by (cases "asked jp (sc_l2 c) incoming")
      (auto simp: resolveJudgeDecision_def resolve_verdict_def Let_def split: option.split)
next
  case False
  then show ?thesis
    by (cases "asked jp (sc_l2 c) incoming")
      (auto simp: resolveJudgeDecision_def resolve_verdict_def Let_def meta_cue split: option.splits)
qed

section \<open>The two stages composed\<close>

text \<open>A judge escalation of the core names a candidate.\<close>

lemma judge_has_candidate:
  assumes "dec_outcome (resolveDecision env p incoming rws cs e) = Judge"
  shows "\<exists>c\<in>set cs. dec_candidate (resolveDecision env p incoming rws cs e) = Some c
    \<and> referentOf env p incoming c \<noteq> Anchor_conflict"
proof -
  obtain d where d: "resolveDecision env p incoming rws cs e = d" by blast
  from d show ?thesis
  proof (cases rule: resolve_cases)
    case (target t)
    then have "dec_candidate d = Some (tg_candidate t)" and "tg_candidate t \<in> set cs"
      using assms d decide_outcomes [of env p incoming t] target_qualifies [OF target(3)] by auto
    moreover have "referentOf env p incoming (tg_candidate t) \<noteq> Anchor_conflict"
      using target_qualifies [OF target(3)] qualifying_targetD(4) by blast
    ultimately show ?thesis using d by blast
  next
    case (remaining d0)
    have "dec_outcome d0 = Judge" using remaining assms d by simp
    with remaining(4) have "\<exists>c\<in>set cs. dec_candidate d0 = Some c \<and> referentOf env p incoming c \<noteq> Anchor_conflict"
    proof (cases rule: remaining_cases)
      case (recent k)
      with \<open>dec_outcome d0 = Judge\<close> show ?thesis by (auto dest: recent_band_Some)
    next
      case (store k)
      with \<open>dec_outcome d0 = Judge\<close> show ?thesis by (auto dest: store_band_Some)
    next
      case merge
      with \<open>dec_outcome d0 = Judge\<close> show ?thesis
        by (auto dest!: merge_band_Some dest: merge_candidate_names)
    next
      case create
      with \<open>dec_outcome d0 = Judge\<close> show ?thesis by simp
    qed
    with remaining d show ?thesis by simp
  qed (use assms d in auto)
qed

lemma decideWrite_cases:
  obtains
    (core) "decideWrite env p h i ts incoming rws cs e
        = unjudged (resolveDecision env p incoming rws cs e)"
      "dec_outcome (resolveDecision env p incoming rws cs e) \<noteq> Judge"
  | (judged) c where "c \<in> set cs" "referentOf env p incoming c \<noteq> Anchor_conflict"
      "dec_outcome (resolveDecision env p incoming rws cs e) = Judge"
      "decideWrite env p h i ts incoming rws cs e
        = fst (resolveJudgeDecision env
             (judge_params_of p h i ts (resolveDecision env p incoming rws cs e))
             (resolveDecision env p incoming rws cs e) c incoming)"
proof (cases "dec_outcome (resolveDecision env p incoming rws cs e) = Judge")
  case True
  from judge_has_candidate [OF True] obtain c where "c \<in> set cs"
    "dec_candidate (resolveDecision env p incoming rws cs e) = Some c"
    "referentOf env p incoming c \<noteq> Anchor_conflict" by blast
  with True show thesis by (intro judged [of c]) (auto simp: decideWrite_def Let_def)
next
  case False
  then show thesis
    by (intro core) (auto simp: decideWrite_def Let_def split: outcome.splits)
qed

lemma judge_outcome_shape:
  "dec_outcome (fst (resolveJudgeDecision env jp d c incoming)) \<in> {Create, Skip, Supersede}"
  by (cases "asked jp (sc_l2 c) incoming")
    (auto simp: resolveJudgeDecision_def resolve_verdict_def Let_def split: option.splits)

lemma judge_names_candidate:
  "dec_candidate (fst (resolveJudgeDecision env jp d c incoming)) = Some c"
  by (cases "asked jp (sc_l2 c) incoming")
    (auto simp: resolveJudgeDecision_def resolve_verdict_def Let_def split: option.splits)

lemma judge_supersede_needs:
  assumes "dec_outcome (fst (resolveJudgeDecision env jp d c incoming)) = Supersede"
  shows "\<exists>v. asked jp (sc_l2 c) incoming = Verdict v \<and> actionable jp v \<and> sv_verdict v = Says_supersede"
  using assms
  by (cases "asked jp (sc_l2 c) incoming")
    (auto simp: resolveJudgeDecision_def resolve_verdict_def Let_def split: option.splits if_splits)

lemma asked_verdict:
  "asked jp a b = Verdict v \<longleftrightarrow> (\<exists>h. jp_judge jp = Some h \<and> jh_judge h a b = Answered (Verdict v))"
  by (auto simp: asked_def split: option.splits judge_reply.splits judge_outcome.splits)

lemma write_decided: "dec_outcome (decideWrite env p h i ts incoming rws cs e) \<noteq> Judge"
proof (cases rule: decideWrite_cases [of env p h i ts incoming rws cs e])
  case core
  then show ?thesis by simp
next
  case (judged c)
  then show ?thesis
    using judge_outcome_shape
      [of env "judge_params_of p h i ts (resolveDecision env p incoming rws cs e)"
        "resolveDecision env p incoming rws cs e" c incoming]
    by auto
qed

text \<open>C2: With the judge confirmation on, the composed decision retires a stored fact only when the two
  texts state different values of one proven referent, or when the injected judge was asked about
  exactly this pair and answered supersede with a confidence between its own floor and 1; in
  either case the anchors of the two texts do not conflict.\<close>

theorem retirement_justified:
  assumes confirm: "rp_f2JudgeConfirm p"
    and out: "dec_outcome (decideWrite env p h i ts incoming rws cs e) = Supersede"
  shows "\<exists>c\<in>set cs. dec_candidate (decideWrite env p h i ts incoming rws cs e) = Some c
    \<and> referentOf env p incoming c \<noteq> Anchor_conflict
    \<and> ((\<exists>q. referentOf env p incoming c = Proven q) \<and> wouldSupersedeTexts (sc_l2 c) incoming
       \<or> (\<exists>handle v conf. h = Some handle
            \<and> jh_judge handle (sc_l2 c) incoming = Answered (Verdict v)
            \<and> sv_verdict v = Says_supersede \<and> sv_confidence v = Fin conf
            \<and> ji_confidenceFloor (jh_identity handle) \<le> conf \<and> conf \<le> 1))"
proof (cases rule: decideWrite_cases [of env p h i ts incoming rws cs e])
  case core
  with out have "dec_outcome (resolveDecision env p incoming rws cs e) = Supersede" by simp
  then show ?thesis
  proof (rule supersede_inversion)
    fix t
    assume t: "resolveDecision env p incoming rws cs e = supersede_decision t"
      "dec_outcome (decide_target env p incoming t) = Supersede" "tg_candidate t \<in> set cs"
      "qualifying_target env p incoming (tg_candidate t) = Some t"
    have "tg_signal t = Deterministic_text"
      using t(2) confirm nominate_signal [OF qualifying_targetD(5) [OF t(4)]]
      by (auto simp: decide_supersede_iff)
    with qualifying_targetD(5) [OF t(4)]
    have "(\<exists>q. referentOf env p incoming (tg_candidate t) = Proven q)
        \<and> wouldSupersedeTexts (sc_l2 (tg_candidate t)) incoming"
      by (auto simp: nominate_F1)
    with t qualifying_targetD(4) [OF t(4)] core(1) show ?thesis
      by (intro bexI [of _ "tg_candidate t"]) auto
  qed
next
  case (judged c)
  let ?d = "resolveDecision env p incoming rws cs e"
  let ?jp = "judge_params_of p h i ts ?d"
  have res: "dec_outcome (fst (resolveJudgeDecision env ?jp ?d c incoming)) = Supersede"
    using out judged(4) by simp
  from judge_supersede_needs [OF res] obtain v where v: "asked ?jp (sc_l2 c) incoming = Verdict v"
    "actionable ?jp v" "sv_verdict v = Says_supersede" by blast
  from v(1) obtain handle where "h = Some handle" "jh_judge handle (sc_l2 c) incoming = Answered (Verdict v)"
    by (auto simp: asked_verdict judge_params_of_def)
  moreover from this v(2) have "\<exists>conf. sv_confidence v = Fin conf
      \<and> ji_confidenceFloor (jh_identity handle) \<le> conf \<and> conf \<le> 1"
    by (auto simp: actionable_def judge_params_of_def split: jnum.splits)
  moreover have "dec_candidate (decideWrite env p h i ts incoming rws cs e) = Some c"
    by (simp add: judged(4) judge_names_candidate)
  ultimately show ?thesis using judged(1,2) v(3) by blast
qed

definition sure_handle :: judge_handle where
  "sure_handle =
     \<lparr>jh_identity = demo_identity,
      jh_judge = (\<lambda>_ _. Answered (Verdict \<lparr>sv_verdict = Says_supersede, sv_confidence = Fin (9 / 10),
                                            sv_rationale = None\<rparr>))\<rparr>"

lemma sure_judged:
  "\<not> jp_temporalGuard jp \<Longrightarrow> jp_judge jp = Some sure_handle \<Longrightarrow>
     dec_outcome (fst (resolveJudgeDecision env jp d c incoming)) = Supersede"
  by (simp add: resolveJudgeDecision_def resolve_verdict_def judge_guards_def asked_def sure_handle_def
      actionable_def demo_identity_def Let_def)

lemma lead_retired:
  "dec_outcome (decideWrite demo_env lead_params (Some sure_handle) i ts new_lead [] [stored_lead] []) = Supersede"
proof (cases rule: decideWrite_cases
    [of demo_env lead_params "Some sure_handle" i ts new_lead "[]" "[stored_lead]" "[]"])
  case core
  then show ?thesis using stored_lead_judge [of "[]"] by simp
next
  case (judged c)
  have "\<not> rp_temporalGuard lead_params" by (simp add: lead_params_def default_params_def)
  then show ?thesis by (simp add: judged(4) sure_judged judge_params_of_def)
qed

theorem retirement_justified_witness:
  "\<exists>c\<in>set [stored_lead].
     dec_candidate (decideWrite demo_env lead_params (Some sure_handle) [] [] new_lead [] [stored_lead] [])
       = Some c
     \<and> referentOf demo_env lead_params new_lead c \<noteq> Anchor_conflict"
  using retirement_justified [OF _ lead_retired [of "[]" "[]"]]
  by (auto simp: lead_params_def)

end
