(* ===== verification/Overlay_Store.thy ===== *)
theory Overlay_Store
  imports Supersede_Guards
begin

text \<open>
  The in-memory overlay of fresh writes: the lock keys and the outcome on a key
  (\<open>src/src/storage/writes/overlay-supersession.ts\<close>), and the registry of per-user stores with
  lazy expiry and two least-recently-used caps (\<open>src/src/storage/overlay/overlay-store.ts\<close>). A
  JavaScript map is the list of its entries in insertion order, which is what the eviction reads.
  The clock is read once per operation.
\<close>

section \<open>Lock keys\<close>

record lock_key =
  lk_factKey :: jstr
  lk_continuitySubjectKey :: jstr

definition normalizeKeyField :: "jstr option \<Rightarrow> jstr option" where
  "normalizeKeyField v =
     (case v of None \<Rightarrow> None | Some s \<Rightarrow> if js_trim s = [] then None else Some (js_trim s))"

definition buildOverlayKey :: "jstr option \<Rightarrow> jstr option \<Rightarrow> lock_key option" where
  "buildOverlayKey factKey continuitySubjectKey =
     (case (normalizeKeyField factKey, normalizeKeyField continuitySubjectKey) of
        (Some f, Some c) \<Rightarrow> Some \<lparr>lk_factKey = f, lk_continuitySubjectKey = c\<rparr>
      | _ \<Rightarrow> None)"

definition shouldEngageOverlay :: "jstr option \<Rightarrow> jstr option \<Rightarrow> bool" where
  "shouldEngageOverlay factKey continuitySubjectKey =
     (buildOverlayKey factKey continuitySubjectKey \<noteq> None)"

datatype overlay_outcome =
    Overlay_create bool
  | Overlay_skip jstr
  | Overlay_merge_update jstr
  | Overlay_supersede jstr

record overlay_input =
  oi_factKey :: "jstr option"
  oi_continuitySubjectKey :: "jstr option"
  oi_existing :: "(jstr \<times> jstr) option"
  oi_incomingText :: jstr

text \<open>The flag of a create tells whether a lock key was there; the other outcomes name the record.\<close>

definition decideOverlayOutcome :: "overlay_input \<Rightarrow> overlay_outcome" where
  "decideOverlayOutcome i =
     (if buildOverlayKey (oi_factKey i) (oi_continuitySubjectKey i) = None then Overlay_create False
      else (case oi_existing i of
              None \<Rightarrow> Overlay_create True
            | Some (mid, old) \<Rightarrow>
                (let existingNorm = normalizeText old; incomingNorm = normalizeText (oi_incomingText i)
                 in if existingNorm = incomingNorm then Overlay_skip mid
                    else if js_includes existingNorm incomingNorm \<or> js_includes incomingNorm existingNorm
                    then Overlay_merge_update mid
                    else Overlay_supersede mid)))"

section \<open>Entries and stores\<close>

datatype entry_outcome = Entry_create | Entry_merge_update | Entry_supersede

record overlay_entry =
  oe_memoryId :: jstr
  oe_text :: jstr
  oe_lockKey :: lock_key
  oe_userId :: jstr
  oe_score :: real
  oe_committedAtMs :: int
  oe_expiresAtMs :: int
  oe_lastAccessedAtMs :: int
  oe_active :: bool
  oe_outcome :: entry_outcome

type_synonym tenant_store = "(jstr \<times> overlay_entry) list"

record overlay_options =
  oo_perTenantCap :: int
  oo_ttlMs :: int
  oo_globalAggregateCap :: int

definition serializeLockKey :: "lock_key \<Rightarrow> jstr" where
  "serializeLockKey k = lk_factKey k @ [CHR 0x00] @ lk_continuitySubjectKey k"

definition live :: "int \<Rightarrow> overlay_entry \<Rightarrow> bool" where
  "live t e = (\<not> t \<ge> oe_expiresAtMs e)"

definition lazyExpire :: "int \<Rightarrow> tenant_store \<Rightarrow> tenant_store" where
  "lazyExpire t es = filter (\<lambda>(k, e). live t e) es"

definition without :: "jstr \<Rightarrow> (jstr \<times> 'e) list \<Rightarrow> (jstr \<times> 'e) list" where
  "without k es = filter (\<lambda>(k', e). k' \<noteq> k) es"

text \<open>The store's part of \<open>put\<close>, before \<open>onAfterPut\<close>: an old entry goes, the new one is the newest.\<close>

definition store_put :: "lock_key \<Rightarrow> overlay_entry \<Rightarrow> tenant_store \<Rightarrow> tenant_store" where
  "store_put lockKey e es = without (serializeLockKey lockKey) es @ [(serializeLockKey lockKey, e)]"

definition store_get :: "int \<Rightarrow> lock_key \<Rightarrow> tenant_store \<Rightarrow> overlay_entry option \<times> tenant_store" where
  "store_get t lockKey es =
     (let k = serializeLockKey lockKey
      in case map_of es k of
           None \<Rightarrow> (None, es)
         | Some e \<Rightarrow>
             (if t \<ge> oe_expiresAtMs e then (None, without k es)
              else let touched = e\<lparr>oe_lastAccessedAtMs := t\<rparr>
                   in (Some touched, without k es @ [(k, touched)])))"

definition store_delete :: "lock_key \<Rightarrow> tenant_store \<Rightarrow> bool \<times> tenant_store" where
  "store_delete lockKey es =
     (serializeLockKey lockKey \<in> fst ` set es, without (serializeLockKey lockKey) es)"

definition store_snapshot :: "int \<Rightarrow> tenant_store \<Rightarrow> overlay_entry list \<times> tenant_store" where
  "store_snapshot t es = (map snd (lazyExpire t es), lazyExpire t es)"

definition store_size :: "int \<Rightarrow> tenant_store \<Rightarrow> int \<times> tenant_store" where
  "store_size t es = (int (length (lazyExpire t es)), lazyExpire t es)"

definition lruHead :: "int \<Rightarrow> tenant_store \<Rightarrow> overlay_entry option \<times> tenant_store" where
  "lruHead t es =
     (case lazyExpire t es of [] \<Rightarrow> (None, []) | (k, e) # r \<Rightarrow> (Some e, (k, e) # r))"

definition evictLruHead :: "int \<Rightarrow> tenant_store \<Rightarrow> bool \<times> tenant_store" where
  "evictLruHead t es = (case lazyExpire t es of [] \<Rightarrow> (False, []) | _ # r \<Rightarrow> (True, r))"

definition store_evictExpired :: "int \<Rightarrow> tenant_store \<Rightarrow> nat \<times> tenant_store" where
  "store_evictExpired t es =
     (length (filter (\<lambda>(k, e). t \<ge> oe_expiresAtMs e) es), lazyExpire t es)"

section \<open>The registry\<close>

type_synonym registry_state = "(jstr \<times> tenant_store) list"

text \<open>The store of a user, created on first use; a handle to it is the user's name.\<close>

definition forUser :: "jstr \<Rightarrow> registry_state \<Rightarrow> registry_state" where
  "forUser userId reg = (if userId \<in> fst ` set reg then reg else reg @ [(userId, [])])"

definition tenant :: "registry_state \<Rightarrow> jstr \<Rightarrow> tenant_store" where
  "tenant reg userId = (case map_of reg userId of Some es \<Rightarrow> es | None \<Rightarrow> [])"

definition in_tenant :: "jstr \<Rightarrow> (tenant_store \<Rightarrow> tenant_store) \<Rightarrow> registry_state \<Rightarrow> registry_state" where
  "in_tenant userId f reg = map (\<lambda>(u, es). if u = userId then (u, f es) else (u, es)) reg"

definition expire_all :: "int \<Rightarrow> registry_state \<Rightarrow> registry_state" where
  "expire_all t reg = map (\<lambda>(u, es). (u, lazyExpire t es)) reg"

definition entry_count :: "registry_state \<Rightarrow> nat" where
  "entry_count reg = sum_list (map (\<lambda>(u, es). length es) reg)"

definition globalSize :: "int \<Rightarrow> registry_state \<Rightarrow> int \<times> registry_state" where
  "globalSize t reg = (int (entry_count (expire_all t reg)), expire_all t reg)"

definition tenantCount :: "int \<Rightarrow> registry_state \<Rightarrow> nat \<times> registry_state" where
  "tenantCount t reg =
     (length (filter (\<lambda>(u, es). es \<noteq> []) (expire_all t reg)), expire_all t reg)"

definition registry_evictExpired :: "int \<Rightarrow> registry_state \<Rightarrow> nat \<times> registry_state" where
  "registry_evictExpired t reg =
     (sum_list (map (\<lambda>(u, es). fst (store_evictExpired t es)) reg), expire_all t reg)"

text \<open>The owner of the oldest head over all tenants, the first one among equals.\<close>

definition head_step ::
  "int \<Rightarrow> (jstr \<times> overlay_entry) option \<Rightarrow> jstr \<times> tenant_store \<Rightarrow> (jstr \<times> overlay_entry) option" where
  "head_step t best = (\<lambda>(u, es).
     (case fst (lruHead t es) of
        None \<Rightarrow> best
      | Some e \<Rightarrow>
          (case best of
             None \<Rightarrow> Some (u, e)
           | Some (_, b) \<Rightarrow>
               if oe_lastAccessedAtMs e < oe_lastAccessedAtMs b then Some (u, e) else best)))"

definition registryLruHead :: "int \<Rightarrow> registry_state \<Rightarrow> (jstr \<times> overlay_entry) option \<times> registry_state" where
  "registryLruHead t reg = (foldl (head_step t) None reg, expire_all t reg)"

interpretation heads: best_scan "head_step t" "\<lambda>b. b" "\<lambda>(u, es). map_option (Pair u) (fst (lruHead t es))"
    "\<lambda>(u, e). - real_of_int (oe_lastAccessedAtMs e)" for t
  by unfold_locales (auto simp: head_step_def split: option.splits)

subsection \<open>Sizes\<close>

lemma map_of_without [simp]: "map_of (without k es) = (map_of es)(k := None)"
  by (induction es) (auto simp: without_def)

lemma expire_idem [simp]: "lazyExpire t (lazyExpire t es) = lazyExpire t es"
  by (simp add: lazyExpire_def)

lemma expire_all_idem [simp]: "expire_all t (expire_all t reg) = expire_all t reg"
  by (induction reg) (auto simp: expire_all_def)

lemma entry_count_simps [simp]:
  "entry_count [] = 0" "entry_count ((u, es) # reg) = length es + entry_count reg"
  by (simp_all add: entry_count_def)

lemma expire_all_simps [simp]:
  "expire_all t [] = []" "expire_all t ((u, es) # reg) = (u, lazyExpire t es) # expire_all t reg"
  by (simp_all add: expire_all_def)

lemma expire_count: "entry_count (expire_all t reg) \<le> entry_count reg"
proof (induction reg)
  case (Cons p reg)
  then show ?case by (cases p) (auto simp: lazyExpire_def intro: add_le_mono)
qed simp

lemma expire_map_of [simp]: "map_of (expire_all t reg) u = map_option (lazyExpire t) (map_of reg u)"
  by (induction reg) auto

lemma lruHead_Some: "fst (lruHead t es) = Some e \<longleftrightarrow> (\<exists>k r. lazyExpire t es = (k, e) # r)"
  by (auto simp: lruHead_def split: list.splits)

lemma registry_head_from:
  "fst (registryLruHead t reg) = Some (u, e) \<Longrightarrow> \<exists>es k r. (u, es) \<in> set reg \<and> lazyExpire t es = (k, e) # r"
  using heads.scan_from [of t None reg "(u, e)"]
  by (fastforce simp: registryLruHead_def lruHead_Some)

lemma registry_head_oldest:
  assumes "fst (registryLruHead t reg) = Some (u, e)" and "(v, es) \<in> set reg" and "lazyExpire t es = (k, e') # r"
  shows "oe_lastAccessedAtMs e \<le> oe_lastAccessedAtMs e'"
  using heads.scan_max [of "(v, es)" reg t "(v, e')" None] assms
  by (auto simp: registryLruHead_def lruHead_def)

lemma registry_head_none: "fst (registryLruHead t reg) = None \<longleftrightarrow> entry_count (expire_all t reg) = 0"
  unfolding registryLruHead_def fst_conv heads.scan_none [OF refl]
  by (induction reg) (auto simp: lruHead_def split: list.splits)

lemma in_tenant_simps [simp]:
  "in_tenant u f [] = []"
  "in_tenant u f ((v, es) # reg) = (if v = u then (v, f es) else (v, es)) # in_tenant u f reg"
  by (simp_all add: in_tenant_def)

lemma in_tenant_le: "(\<And>es. length (f es) \<le> length es) \<Longrightarrow> entry_count (in_tenant u f reg) \<le> entry_count reg"
  by (induction reg) (auto simp: add_le_mono)

lemma in_tenant_less:
  assumes "\<And>es. length (f es) \<le> length es" and "(u, es) \<in> set reg" and "length (f es) < length es"
  shows "entry_count (in_tenant u f reg) < entry_count reg"
  using assms(2)
proof (induction reg)
  case (Cons p reg)
  obtain v es' where p: "p = (v, es')" by (cases p)
  from Cons.prems consider "v = u" "es' = es" | "(u, es) \<in> set reg" by (auto simp: p)
  then show ?case
  proof cases
    case 1
    with assms(3) in_tenant_le [of f u reg, OF assms(1)] show ?thesis by (simp add: p)
  next
    case 2
    with Cons.IH assms(1) [of es'] show ?thesis by (auto simp: p intro: add_le_less_mono)
  qed
qed simp

lemma evict_length: "length (snd (evictLruHead t es)) \<le> length es"
proof -
  have "length (lazyExpire t es) \<le> length es" by (simp add: lazyExpire_def)
  then show ?thesis by (auto simp: evictLruHead_def split: list.splits)
qed

lemma evict_decreases:
  assumes "registryLruHead t (expire_all t reg) = (Some (u, e), reg2)"
  shows "entry_count (in_tenant u (\<lambda>es. snd (evictLruHead t es)) reg2) < entry_count reg"
proof -
  let ?reg = "expire_all t reg"
  have reg2: "reg2 = ?reg" and head: "fst (registryLruHead t ?reg) = Some (u, e)"
    using assms by (auto simp: registryLruHead_def)
  from registry_head_from [OF head] obtain es k r
    where es: "(u, es) \<in> set ?reg" "lazyExpire t es = (k, e) # r" by blast
  have "length ((k, e) # r) \<le> length es" using es(2) by (metis lazyExpire_def length_filter_le)
  then have "entry_count (in_tenant u (\<lambda>es. snd (evictLruHead t es)) ?reg) < entry_count ?reg"
    using es by (intro in_tenant_less [OF evict_length es(1)]) (simp add: evictLruHead_def)
  also have "\<dots> \<le> entry_count reg" by (rule expire_count)
  finally show ?thesis by (simp add: reg2)
qed

lemma evict_shortens: "evictLruHead t es = (True, es') \<Longrightarrow> length es' < length es"
proof -
  assume "evictLruHead t es = (True, es')"
  then have "length (lazyExpire t es) = Suc (length es')"
    by (auto simp: evictLruHead_def split: list.splits)
  moreover have "length (lazyExpire t es) \<le> length es" by (simp add: lazyExpire_def)
  ultimately show ?thesis by simp
qed

lemma expire_length: "length (lazyExpire t es) \<le> length es"
  by (simp add: lazyExpire_def)

section \<open>Eviction after a put\<close>

text \<open>Pass 1: the registry-wide loop.\<close>

function evict_global :: "int \<Rightarrow> overlay_options \<Rightarrow> registry_state \<Rightarrow> registry_state" where
  "evict_global t opts reg =
     (let (size, reg1) = globalSize t reg
      in if size > oo_globalAggregateCap opts
         then (case registryLruHead t reg1 of
                 (None, reg2) \<Rightarrow> reg2
               | (Some (u, e), reg2) \<Rightarrow> evict_global t opts (in_tenant u (\<lambda>es. snd (evictLruHead t es)) reg2))
         else reg1)"
  by pat_completeness auto

termination
  by (relation "measure (\<lambda>(t, opts, reg). entry_count reg)") (auto simp: globalSize_def intro: evict_decreases [OF sym])

declare evict_global.simps [simp del]

text \<open>Pass 2: the inserting tenant's loop.\<close>

function evict_tenant :: "int \<Rightarrow> overlay_options \<Rightarrow> tenant_store \<Rightarrow> tenant_store" where
  "evict_tenant t opts es =
     (let (size, es1) = store_size t es
      in if size > oo_perTenantCap opts
         then (case evictLruHead t es1 of
                 (False, es2) \<Rightarrow> es2
               | (True, es2) \<Rightarrow> evict_tenant t opts es2)
         else es1)"
  by pat_completeness auto

termination
  by (relation "measure (\<lambda>(t, opts, es). length es)")
    (auto simp: store_size_def intro: less_le_trans [OF evict_shortens [OF sym] expire_length])

declare evict_tenant.simps [simp del]

definition afterPut :: "int \<Rightarrow> overlay_options \<Rightarrow> jstr \<Rightarrow> registry_state \<Rightarrow> registry_state" where
  "afterPut t opts userId reg = in_tenant userId (evict_tenant t opts) (evict_global t opts reg)"

text \<open>\<open>forUser(userId).put\<close>, \<open>.get\<close>, \<open>.delete\<close> and \<open>.snapshot\<close>.\<close>

definition registry_put ::
  "int \<Rightarrow> overlay_options \<Rightarrow> jstr \<Rightarrow> lock_key \<Rightarrow> overlay_entry \<Rightarrow> registry_state \<Rightarrow> registry_state" where
  "registry_put t opts userId lockKey e reg =
     afterPut t opts userId (in_tenant userId (store_put lockKey e) (forUser userId reg))"

definition registry_get ::
  "int \<Rightarrow> jstr \<Rightarrow> lock_key \<Rightarrow> registry_state \<Rightarrow> overlay_entry option \<times> registry_state" where
  "registry_get t userId lockKey reg =
     (let reg1 = forUser userId reg
      in (fst (store_get t lockKey (tenant reg1 userId)),
          in_tenant userId (\<lambda>es. snd (store_get t lockKey es)) reg1))"

definition registry_delete :: "jstr \<Rightarrow> lock_key \<Rightarrow> registry_state \<Rightarrow> bool \<times> registry_state" where
  "registry_delete userId lockKey reg =
     (let reg1 = forUser userId reg
      in (fst (store_delete lockKey (tenant reg1 userId)),
          in_tenant userId (\<lambda>es. snd (store_delete lockKey es)) reg1))"

definition registry_snapshot :: "int \<Rightarrow> jstr \<Rightarrow> registry_state \<Rightarrow> overlay_entry list \<times> registry_state" where
  "registry_snapshot t userId reg =
     (let reg1 = forUser userId reg
      in (fst (store_snapshot t (tenant reg1 userId)),
          in_tenant userId (\<lambda>es. snd (store_snapshot t es)) reg1))"

end
