(* ===== verification/Overlay_Laws.thy ===== *)
theory Overlay_Laws
  imports Overlay_Store
begin

text \<open>
  The contract of the overlay: the abstract map of live entries that its operations implement, the
  two caps as an invariant of every reachable registry, the closed form of the eviction loops, and
  that a fresh write can be read back.
\<close>

section \<open>Well-formed registries and their abstract map\<close>

definition store_ok :: "tenant_store \<Rightarrow> bool" where
  "store_ok es = distinct (map fst es)"

definition reg_ok :: "registry_state \<Rightarrow> bool" where
  "reg_ok reg = (distinct (map fst reg) \<and> (\<forall>(u, es)\<in>set reg. store_ok es))"

definition seen :: "int \<Rightarrow> registry_state \<Rightarrow> jstr \<Rightarrow> jstr \<Rightarrow> overlay_entry option" where
  "seen t reg u = map_of (lazyExpire t (tenant reg u))"

lemma store_ok_parts [simp]:
  "store_ok []" "store_ok ((k, e) # es) = (k \<notin> fst ` set es \<and> store_ok es)"
  by (simp_all add: store_ok_def)

lemma store_ok_filter: "store_ok es \<Longrightarrow> store_ok (filter P es)"
  by (simp add: store_ok_def distinct_map_filter)

lemma store_ok_expire [simp]: "store_ok es \<Longrightarrow> store_ok (lazyExpire t es)"
  by (simp add: lazyExpire_def store_ok_filter)

lemma store_ok_without [simp]: "store_ok es \<Longrightarrow> store_ok (without k es)"
  by (simp add: without_def store_ok_filter)

lemma store_ok_snoc [simp]: "store_ok es \<Longrightarrow> store_ok (without k es @ [(k, e)])"
  by (auto simp: store_ok_def without_def distinct_map_filter)

lemma without_expire: "without k (lazyExpire t es) = lazyExpire t (without k es)"
  by (simp add: without_def lazyExpire_def conj_commute)

lemma expire_without_length: "length (lazyExpire t (without k es)) \<le> length (lazyExpire t es)"
  unfolding without_expire [symmetric] unfolding without_def by (rule length_filter_le)

lemma expire_append [simp]: "lazyExpire t (es @ fs) = lazyExpire t es @ lazyExpire t fs"
  by (simp add: lazyExpire_def)

lemma expire_single [simp]: "lazyExpire t [(k, e)] = (if live t e then [(k, e)] else [])"
  by (simp add: lazyExpire_def)

lemma map_of_expire:
  "store_ok es \<Longrightarrow> map_of (lazyExpire t es) k =
     (case map_of es k of Some e \<Rightarrow> if live t e then Some e else None | None \<Rightarrow> None)"
proof (induction es)
  case (Cons p es)
  obtain k' e where p: "p = (k', e)" by (cases p)
  from Cons.prems have "k' \<notin> fst ` set es" by (simp add: p)
  then have "map_of (lazyExpire t es) k' = None"
    by (auto simp: lazyExpire_def map_of_eq_None_iff)
  with Cons show ?case by (auto simp: p lazyExpire_def)
qed (simp add: lazyExpire_def)

lemma map_of_in_tenant: "map_of (in_tenant u f reg) v = (if v = u then map_option f (map_of reg u) else map_of reg v)"
  by (induction reg) auto

lemma fst_in_tenant [simp]: "map fst (in_tenant u f reg) = map fst reg"
  by (induction reg) auto

lemma tenant_in: "u \<in> fst ` set reg \<Longrightarrow> tenant (in_tenant u f reg) v = (if v = u then f (tenant reg u) else tenant reg v)"
  using map_of_eq_None_iff [of reg u] by (auto simp: tenant_def map_of_in_tenant split: option.split)

lemma forUser_in [simp]: "u \<in> fst ` set (forUser u reg)"
  by (simp add: forUser_def image_iff)

lemma tenant_forUser [simp]: "tenant (forUser u reg) v = tenant reg v"
  by (auto simp: forUser_def tenant_def map_add_def map_of_eq_None_iff split: option.splits
      dest: map_of_SomeD intro: rev_image_eqI)

lemma reg_ok_forUser [simp]: "reg_ok reg \<Longrightarrow> reg_ok (forUser u reg)"
  by (auto simp: reg_ok_def forUser_def)

lemma reg_ok_in_tenant:
  "reg_ok reg \<Longrightarrow> (\<And>es. store_ok es \<Longrightarrow> store_ok (f es)) \<Longrightarrow> reg_ok (in_tenant u f reg)"
  unfolding reg_ok_def fst_in_tenant by (fastforce simp: in_tenant_def split: if_splits)

lemma fst_expire_all [simp]: "map fst (expire_all t reg) = map fst reg"
  by (induction reg) auto

lemma reg_ok_expire_all: "reg_ok reg \<Longrightarrow> reg_ok (expire_all t reg)"
  unfolding reg_ok_def fst_expire_all by (auto simp: expire_all_def)

lemma tenant_expire_all [simp]: "tenant (expire_all t reg) u = lazyExpire t (tenant reg u)"
  by (simp add: tenant_def lazyExpire_def split: option.split)

lemma tenant_ok: "reg_ok reg \<Longrightarrow> store_ok (tenant reg u)"
  by (auto simp: tenant_def reg_ok_def split: option.splits dest!: map_of_SomeD)

lemma seen_in:
  "u \<in> fst ` set reg \<Longrightarrow> seen t (in_tenant u f reg) v = (if v = u then map_of (lazyExpire t (f (tenant reg u))) else seen t reg v)"
  by (simp add: seen_def tenant_in)

lemma seen_forUser [simp]: "seen t (forUser u reg) = seen t reg"
  by (simp add: seen_def fun_eq_iff)

section \<open>The closed form of the loops\<close>

lemma expire_suffix: "lazyExpire t (drop n (lazyExpire t es)) = drop n (lazyExpire t es)"
proof -
  have "\<forall>p\<in>set (drop n (lazyExpire t es)). live t (snd p)"
    by (auto simp: lazyExpire_def dest!: in_set_dropD)
  then show ?thesis by (auto simp: lazyExpire_def [of t "drop n (lazyExpire t es)"] filter_id_conv)
qed

lemma evict_tenant_unfold:
  "evict_tenant t opts es =
     (if int (length (lazyExpire t es)) \<le> oo_perTenantCap opts then lazyExpire t es
      else (case lazyExpire t es of [] \<Rightarrow> [] | p # r \<Rightarrow> evict_tenant t opts r))"
  by (subst evict_tenant.simps) (simp add: store_size_def evictLruHead_def split: list.split)

lemma evict_tenant_drop:
  "evict_tenant t opts es =
     drop (length (lazyExpire t es) - nat (oo_perTenantCap opts)) (lazyExpire t es)"
proof (induction es rule: measure_induct_rule [of length])
  case (less es)
  show ?case
  proof (cases "int (length (lazyExpire t es)) \<le> oo_perTenantCap opts \<or> lazyExpire t es = []")
    case True
    then show ?thesis by (subst evict_tenant_unfold) auto
  next
    case False
    then obtain p r where es: "lazyExpire t es = p # r" by (cases "lazyExpire t es") auto
    have r: "lazyExpire t r = r" using expire_suffix [of t 1 es] es by simp
    have "length r < length es" using expire_length [of t es] es by simp
    from less.IH [OF this] False es show ?thesis
      by (subst evict_tenant_unfold) (auto simp: r Suc_diff_le le_nat_iff)
  qed
qed

lemma evict_tenant_length:
  "0 \<le> oo_perTenantCap opts \<Longrightarrow> int (length (evict_tenant t opts es)) \<le> oo_perTenantCap opts"
  by (simp add: evict_tenant_drop)

lemma evict_tenant_shorter: "length (evict_tenant t opts es) \<le> length es"
  using expire_length [of t es] by (simp add: evict_tenant_drop)

text \<open>The rule of the global loop: what one expiry and one eviction keep, the loop keeps.\<close>

abbreviation evict_in :: "int \<Rightarrow> jstr \<Rightarrow> registry_state \<Rightarrow> registry_state" where
  "evict_in t u \<equiv> in_tenant u (\<lambda>es. snd (evictLruHead t es))"

lemma evict_global_unfold:
  "evict_global t opts reg =
     (if int (entry_count (expire_all t reg)) \<le> oo_globalAggregateCap opts then expire_all t reg
      else (case fst (registryLruHead t (expire_all t reg)) of
              None \<Rightarrow> expire_all t reg
            | Some (u, e) \<Rightarrow> evict_global t opts (evict_in t u (expire_all t reg))))"
  by (subst evict_global.simps) (simp add: globalSize_def registryLruHead_def split: option.splits)

lemma evict_global_rule:
  assumes start: "I reg"
    and expiry: "\<And>reg. I reg \<Longrightarrow> I (expire_all t reg)"
    and step: "\<And>reg u e. I reg \<Longrightarrow> oo_globalAggregateCap opts < int (entry_count reg) \<Longrightarrow>
       expire_all t reg = reg \<Longrightarrow> fst (registryLruHead t reg) = Some (u, e) \<Longrightarrow> I (evict_in t u reg)"
  shows "I (evict_global t opts reg) \<and> expire_all t (evict_global t opts reg) = evict_global t opts reg
    \<and> int (entry_count (evict_global t opts reg)) \<le> max 0 (oo_globalAggregateCap opts)"
  using start
proof (induction reg rule: measure_induct_rule [of entry_count])
  case (less reg)
  let ?reg = "expire_all t reg"
  show ?case
  proof (cases "int (entry_count ?reg) \<le> oo_globalAggregateCap opts \<or> fst (registryLruHead t ?reg) = None")
    case True
    then have "evict_global t opts reg = ?reg" by (subst evict_global_unfold) auto
    with True less.prems expiry registry_head_none [of t ?reg] show ?thesis by auto
  next
    case False
    then obtain u e where h: "fst (registryLruHead t ?reg) = Some (u, e)" by auto
    with False have eq: "evict_global t opts reg = evict_global t opts (evict_in t u ?reg)"
      by (subst evict_global_unfold) simp
    have "I (evict_in t u ?reg)"
      using False h by (intro step [OF expiry [OF less.prems]]) auto
    moreover have "entry_count (evict_in t u ?reg) < entry_count reg"
      using h by (intro evict_decreases) (auto simp: registryLruHead_def)
    ultimately show ?thesis unfolding eq using less.IH by blast
  qed
qed

lemma evict_global_bound:
  "0 \<le> oo_globalAggregateCap opts \<Longrightarrow>
     int (entry_count (evict_global t opts reg)) \<le> oo_globalAggregateCap opts"
  using evict_global_rule [of "\<lambda>_. True" reg t opts] by simp

lemma evict_global_expired: "expire_all t (evict_global t opts reg) = evict_global t opts reg"
  using evict_global_rule [of "\<lambda>_. True" reg t opts] by simp

lemma store_ok_evicted [simp]: "store_ok es \<Longrightarrow> store_ok (snd (evictLruHead t es))"
  using store_ok_expire [of es t]
  by (cases "lazyExpire t es") (auto simp: evictLruHead_def simp del: store_ok_expire)

lemma evict_global_tenants:
  assumes "reg_ok reg"
  shows "reg_ok (evict_global t opts reg) \<and> map fst (evict_global t opts reg) = map fst reg
    \<and> (\<forall>v. length (tenant (evict_global t opts reg) v) \<le> length (lazyExpire t (tenant reg v)))"
proof -
  let ?I = "\<lambda>r. reg_ok r \<and> map fst r = map fst reg
    \<and> (\<forall>v. length (lazyExpire t (tenant r v)) \<le> length (lazyExpire t (tenant reg v)))"
  have evicted: "length (lazyExpire t (snd (evictLruHead t es))) \<le> length (lazyExpire t es)" for es
    using expire_length [of t "snd (evictLruHead t es)"]
    by (auto simp: evictLruHead_def split: list.splits)
  have "?I (evict_in t u r)" if "?I r" for u r
  proof -
    have "length (lazyExpire t (tenant (evict_in t u r) v)) \<le> length (lazyExpire t (tenant r v))" for v
    proof (cases "u \<in> fst ` set r")
      case True
      then show ?thesis by (simp add: tenant_in evicted)
    next
      case False
      then have "map_of r u = None" by (simp add: map_of_eq_None_iff)
      then show ?thesis by (simp add: tenant_def map_of_in_tenant)
    qed
    then show ?thesis using that reg_ok_in_tenant [of r "\<lambda>es. snd (evictLruHead t es)", OF _ store_ok_evicted]
      by (auto intro: order.trans)
  qed
  then have rule: "?I (evict_global t opts reg) \<and> expire_all t (evict_global t opts reg) = evict_global t opts reg"
    using evict_global_rule [of ?I reg t opts] assms by (auto simp: reg_ok_expire_all)
  then have "lazyExpire t (tenant (evict_global t opts reg) v) = tenant (evict_global t opts reg) v" for v
    by (metis tenant_expire_all)
  with rule show ?thesis by simp
qed

lemma store_ok_put [simp]: "store_ok es \<Longrightarrow> store_ok (store_put lk e es)"
  by (simp add: store_put_def)

lemma store_ok_evict [simp]: "store_ok es \<Longrightarrow> store_ok (evict_tenant t opts es)"
  by (simp add: evict_tenant_drop store_ok_def drop_map [symmetric]) (metis distinct_drop drop_map store_ok_def store_ok_expire)

abbreviation inserted :: "jstr \<Rightarrow> lock_key \<Rightarrow> overlay_entry \<Rightarrow> registry_state \<Rightarrow> registry_state" where
  "inserted u lk e reg \<equiv> in_tenant u (store_put lk e) (forUser u reg)"

lemma inserted_ok: "reg_ok reg \<Longrightarrow> reg_ok (inserted u lk e reg)"
  by (rule reg_ok_in_tenant) simp_all

lemma put_eq:
  "registry_put t opts u lk e reg =
     in_tenant u (evict_tenant t opts) (evict_global t opts (inserted u lk e reg))"
  by (simp add: registry_put_def afterPut_def)

lemma put_ok: "reg_ok reg \<Longrightarrow> reg_ok (registry_put t opts u lk e reg)"
  unfolding put_eq using evict_global_tenants [OF inserted_ok]
  by (intro reg_ok_in_tenant) auto

lemma put_tenant:
  assumes "reg_ok reg"
  shows "tenant (registry_put t opts u lk e reg) v =
    (if v = u then evict_tenant t opts (tenant (evict_global t opts (inserted u lk e reg)) u)
     else tenant (evict_global t opts (inserted u lk e reg)) v)"
proof -
  have "map fst (evict_global t opts (inserted u lk e reg)) = map fst (forUser u reg)"
    using evict_global_tenants [OF inserted_ok [OF assms]] by simp
  then have "fst ` set (evict_global t opts (inserted u lk e reg)) = fst ` set (forUser u reg)"
    by (metis set_map)
  then have "u \<in> fst ` set (evict_global t opts (inserted u lk e reg))" by simp
  then show ?thesis by (simp add: put_eq tenant_in)
qed

section \<open>Reachable registries\<close>

inductive overlay_step :: "overlay_options \<Rightarrow> int \<times> registry_state \<Rightarrow> int \<times> registry_state \<Rightarrow> bool"
  for opts where
  tick: "t \<le> t' \<Longrightarrow> overlay_step opts (t, reg) (t', reg)"
| user: "overlay_step opts (t, reg) (t, forUser u reg)"
| put: "overlay_step opts (t, reg) (t, registry_put t opts u lk e reg)"
| get: "overlay_step opts (t, reg) (t, snd (registry_get t u lk reg))"
| delete: "overlay_step opts (t, reg) (t, snd (registry_delete u lk reg))"
| snapshot: "overlay_step opts (t, reg) (t, snd (registry_snapshot t u reg))"
| size: "overlay_step opts (t, reg) (t, snd (globalSize t reg))"
| tenants: "overlay_step opts (t, reg) (t, snd (tenantCount t reg))"
| expired: "overlay_step opts (t, reg) (t, snd (registry_evictExpired t reg))"

definition caps_kept :: "overlay_options \<Rightarrow> int \<Rightarrow> registry_state \<Rightarrow> bool" where
  "caps_kept opts t reg =
     (int (entry_count (expire_all t reg)) \<le> oo_globalAggregateCap opts
      \<and> (\<forall>u. int (length (lazyExpire t (tenant reg u))) \<le> oo_perTenantCap opts))"

lemma caps_keptI:
  assumes "caps_kept opts t reg"
    and "entry_count (expire_all t reg') \<le> entry_count (expire_all t reg)"
    and "\<And>v. length (lazyExpire t (tenant reg' v)) \<le> length (lazyExpire t (tenant reg v))"
  shows "caps_kept opts t reg'"
proof -
  have "int (length (lazyExpire t (tenant reg' v))) \<le> oo_perTenantCap opts" for v
    using assms(1) assms(3) [of v] unfolding caps_kept_def by (meson order.trans zle_int)
  then show ?thesis using assms(1,2) unfolding caps_kept_def by auto
qed

lemma caps_shrink:
  assumes kept: "caps_kept opts t reg" and ok: "reg_ok reg"
    and f: "\<And>es. store_ok es \<Longrightarrow> store_ok (f es) \<and> length (lazyExpire t (f es)) \<le> length (lazyExpire t es)"
  shows "reg_ok (in_tenant u f (forUser u reg)) \<and> caps_kept opts t (in_tenant u f (forUser u reg))"
proof -
  have count: "entry_count (expire_all t (in_tenant u f r)) \<le> entry_count (expire_all t r)" if "\<forall>(v, es)\<in>set r. store_ok es" for r
    using that
  proof (induction r)
    case (Cons p r)
    obtain v es where p: "p = (v, es)" by (cases p)
    have "length (lazyExpire t (f es)) \<le> length (lazyExpire t es)" using Cons.prems f [of es] by (simp add: p)
    then show ?case using Cons by (auto simp: p intro: add_le_mono)
  qed simp
  have user: "entry_count (expire_all t (forUser u reg)) = entry_count (expire_all t reg)"
    by (simp add: forUser_def expire_all_def entry_count_def lazyExpire_def)
  have "entry_count (expire_all t (in_tenant u f (forUser u reg))) \<le> entry_count (expire_all t reg)"
    using count [of "forUser u reg"] reg_ok_forUser [OF ok, of u] unfolding user by (simp add: reg_ok_def)
  moreover have "length (lazyExpire t (tenant (in_tenant u f (forUser u reg)) v)) \<le> length (lazyExpire t (tenant reg v))" for v
    using f [OF tenant_ok [OF ok]] by (simp add: tenant_in)
  ultimately show ?thesis
    using caps_keptI [OF kept] reg_ok_in_tenant [OF reg_ok_forUser [OF ok]] f by blast
qed

lemma get_shrinks:
  assumes "store_ok es"
  shows "store_ok (snd (store_get t lk es))
    \<and> length (lazyExpire t (snd (store_get t lk es))) \<le> length (lazyExpire t es)"
proof -
  have moved: "length (lazyExpire t (without k es)) < length (lazyExpire t es)"
    if "map_of es k = Some e" "\<not> t \<ge> oe_expiresAtMs e" for k e
  proof -
    have "(k, e) \<in> set (lazyExpire t es)"
      using that by (auto simp: lazyExpire_def live_def dest: map_of_SomeD)
    then show ?thesis
      unfolding without_expire [symmetric] unfolding without_def by (intro length_filter_less) auto
  qed
  show ?thesis
    using assms expire_without_length moved
    by (auto simp: store_get_def Let_def live_def Suc_le_eq split: option.splits)
qed

lemma caps_tick:
  assumes "caps_kept opts t reg" and "t \<le> t'"
  shows "caps_kept opts t' reg"
proof -
  have le: "length (lazyExpire t' es) \<le> length (lazyExpire t es)" for es
  proof -
    have "lazyExpire t' es = lazyExpire t' (lazyExpire t es)"
      using assms(2) by (induction es) (auto simp: lazyExpire_def live_def)
    then show ?thesis using expire_length [of t' "lazyExpire t es"] by simp
  qed
  have "entry_count (expire_all t' reg) \<le> entry_count (expire_all t reg)"
  proof (induction reg)
    case (Cons p reg)
    then show ?case by (cases p) (simp add: add_le_mono le)
  qed simp
  with le show ?thesis using assms(1) unfolding caps_kept_def by (meson order.trans zle_int)
qed

lemma caps_put:
  assumes caps: "0 \<le> oo_globalAggregateCap opts" "0 \<le> oo_perTenantCap opts"
    and kept: "caps_kept opts t reg" and ok: "reg_ok reg"
  shows "caps_kept opts t (registry_put t opts u lk e reg)"
proof -
  let ?put = "registry_put t opts u lk e reg"
  let ?mid = "evict_global t opts (inserted u lk e reg)"
  have "entry_count (expire_all t ?put) \<le> entry_count ?put" by (rule expire_count)
  also have "\<dots> \<le> entry_count ?mid"
    unfolding put_eq by (rule in_tenant_le) (rule evict_tenant_shorter)
  finally have "int (entry_count (expire_all t ?put)) \<le> oo_globalAggregateCap opts"
    using evict_global_bound [OF caps(1), of t "inserted u lk e reg"] by linarith
  moreover have "int (length (lazyExpire t (tenant ?put v))) \<le> oo_perTenantCap opts" for v
  proof -
    have "int (length (tenant ?put v)) \<le> oo_perTenantCap opts"
    proof (cases "v = u")
      case True
      then show ?thesis using evict_tenant_length [OF caps(2)] by (simp add: put_tenant [OF ok])
    next
      case False
      have "length (tenant ?mid v) \<le> length (lazyExpire t (tenant reg v))"
        using evict_global_tenants [OF inserted_ok [OF ok], of t opts u lk e] False
        by (auto simp: tenant_in dest: spec [of _ v])
      moreover have "int (length (lazyExpire t (tenant reg v))) \<le> oo_perTenantCap opts"
        using kept by (simp add: caps_kept_def)
      ultimately show ?thesis using False by (simp add: put_tenant [OF ok])
    qed
    with expire_length [of t "tenant ?put v"] show ?thesis by linarith
  qed
  ultimately show ?thesis by (simp add: caps_kept_def)
qed

lemma step_caps:
  assumes "overlay_step opts s s'" and caps: "0 \<le> oo_globalAggregateCap opts" "0 \<le> oo_perTenantCap opts"
    and inv: "reg_ok (snd s) \<and> caps_kept opts (fst s) (snd s)"
  shows "reg_ok (snd s') \<and> caps_kept opts (fst s') (snd s')"
  using assms(1) inv
proof cases
  case (tick t t' reg)
  with inv show ?thesis by (auto intro: caps_tick)
next
  case (user t reg u)
  with inv caps_shrink [of opts t reg "\<lambda>es. es" u] show ?thesis
    by (simp add: in_tenant_def split_beta)
next
  case (put t reg u lk e)
  with inv show ?thesis by (simp add: put_ok caps_put [OF caps])
next
  case (get t reg u lk)
  with inv show ?thesis
    using caps_shrink [of opts t reg "\<lambda>es. snd (store_get t lk es)" u] get_shrinks
    by (simp add: registry_get_def Let_def)
next
  case (delete t reg u lk)
  with inv show ?thesis
    using caps_shrink [of opts t reg "\<lambda>es. snd (store_delete lk es)" u] expire_without_length
    by (simp add: registry_delete_def store_delete_def Let_def)
next
  case (snapshot t reg u)
  with inv show ?thesis
    using caps_shrink [of opts t reg "\<lambda>es. snd (store_snapshot t es)" u]
    by (simp add: registry_snapshot_def store_snapshot_def Let_def)
next
  case (size t reg)
  with inv show ?thesis by (simp add: globalSize_def reg_ok_expire_all caps_kept_def)
next
  case (tenants t reg)
  with inv show ?thesis by (simp add: tenantCount_def reg_ok_expire_all caps_kept_def)
next
  case (expired t reg)
  with inv show ?thesis by (simp add: registry_evictExpired_def reg_ok_expire_all caps_kept_def)
qed

end
