(* ===== verification/Overlay_Contract.thy ===== *)
theory Overlay_Contract
  imports Overlay_Laws
begin

text \<open>
  What the overlay promises its callers: its operations implement a map from users and lock keys
  to live entries, a fresh write can be read back whatever had to be evicted for it, the two caps
  hold in every reachable state, and the eviction loops end.
\<close>

section \<open>The abstract map\<close>

definition touch :: "int \<Rightarrow> overlay_entry \<Rightarrow> overlay_entry" where
  "touch t e = e\<lparr>oe_lastAccessedAtMs := t\<rparr>"

lemma live_touch [simp]: "live t (touch s e) = live t e"
  by (simp add: live_def touch_def)

lemma map_le_without: "map_of (without k es) \<subseteq>\<^sub>m map_of es"
  by (simp add: map_le_def)

lemma map_le_drop: "store_ok es \<Longrightarrow> map_of (drop n es) \<subseteq>\<^sub>m map_of es"
proof -
  assume ok: "store_ok es"
  have "map_of es = map_of (drop n es) ++ map_of (take n es)"
    by (metis append_take_drop_id map_of_append)
  moreover have "dom (map_of (drop n es)) \<inter> dom (map_of (take n es)) = {}"
    using ok set_take_disj_set_drop_if_distinct [of "map fst es" n n]
    by (auto simp: store_ok_def dom_map_of_conv_image_fst take_map drop_map)
  ultimately show ?thesis by (metis map_add_comm map_le_map_add)
qed

lemmas expire_without = without_expire [symmetric]

lemma seen_expire_all [simp]: "seen t (expire_all t reg) = seen t reg"
  by (simp add: seen_def fun_eq_iff)

lemma seen_unchanged: "(\<And>es. lazyExpire t (f es) = lazyExpire t es) \<Longrightarrow> seen t (in_tenant u f (forUser u reg)) = seen t reg"
  by (rule ext) (auto simp: seen_in, simp_all add: seen_def)

lemma seen_put: "seen t (inserted u lk e reg) =
    (seen t reg)(u := (seen t reg u)(serializeLockKey lk := if live t e then Some e else None))"
  by (auto simp: seen_def tenant_in store_put_def expire_without fun_eq_iff map_add_def split: option.split)

lemma seen_get:
  assumes "reg_ok reg"
  shows "fst (registry_get t u lk reg) = map_option (touch t) (seen t reg u (serializeLockKey lk))"
    and "seen t (snd (registry_get t u lk reg)) = (seen t reg)(u := (seen t reg u)
      (serializeLockKey lk := map_option (touch t) (seen t reg u (serializeLockKey lk))))"
proof -
  have at_key: "seen t reg u (serializeLockKey lk) = (case map_of (tenant reg u) (serializeLockKey lk) of
      Some e \<Rightarrow> if live t e then Some e else None | None \<Rightarrow> None)"
    by (simp add: seen_def map_of_expire [OF tenant_ok [OF assms]])
  then show "fst (registry_get t u lk reg) = map_option (touch t) (seen t reg u (serializeLockKey lk))"
    by (auto simp: registry_get_def Let_def store_get_def live_def touch_def split: option.splits)
  have "map_of (lazyExpire t (snd (store_get t lk (tenant reg u)))) = (seen t reg u)
      (serializeLockKey lk := map_option (touch t) (seen t reg u (serializeLockKey lk)))"
    using at_key
    by (auto simp: store_get_def Let_def expire_without seen_def touch_def fun_eq_iff map_add_def live_def
        split: option.splits if_splits)
  then show "seen t (snd (registry_get t u lk reg)) = (seen t reg)(u := (seen t reg u)
      (serializeLockKey lk := map_option (touch t) (seen t reg u (serializeLockKey lk))))"
    by (simp add: registry_get_def Let_def seen_in fun_eq_iff)
qed

lemma seen_delete: "seen t (snd (registry_delete u lk reg)) =
    (seen t reg)(u := (seen t reg u)(serializeLockKey lk := None))"
  by (auto simp: registry_delete_def store_delete_def Let_def tenant_in expire_without fun_eq_iff seen_def)

lemma seen_snapshot:
  assumes "reg_ok reg"
  shows "set (fst (registry_snapshot t u reg)) = ran (seen t reg u)"
    and "seen t (snd (registry_snapshot t u reg)) = seen t reg"
proof -
  show "set (fst (registry_snapshot t u reg)) = ran (seen t reg u)"
    using store_ok_expire [OF tenant_ok [OF assms], of t u]
    by (simp add: registry_snapshot_def store_snapshot_def Let_def seen_def store_ok_def ran_distinct)
  show "seen t (snd (registry_snapshot t u reg)) = seen t reg"
    using seen_unchanged [of t "\<lambda>es. snd (store_snapshot t es)" u reg]
    by (simp add: registry_snapshot_def Let_def store_snapshot_def)
qed

section \<open>What a put may evict\<close>

lemma evicted_le: "store_ok es \<Longrightarrow> map_of (lazyExpire t (snd (evictLruHead t es))) \<subseteq>\<^sub>m map_of (lazyExpire t es)"
  using map_le_drop [OF store_ok_expire, of es 1 t] expire_suffix [of t 1 es]
  by (auto simp: evictLruHead_def split: list.splits)

lemma evict_global_below:
  assumes "reg_ok reg"
  shows "seen t (evict_global t opts reg) v \<subseteq>\<^sub>m seen t reg v"
proof -
  let ?I = "\<lambda>r. reg_ok r \<and> (\<forall>v. seen t r v \<subseteq>\<^sub>m seen t reg v)"
  have "?I (evict_in t u r)" if I: "?I r" for u r
  proof -
    have "seen t (evict_in t u r) v \<subseteq>\<^sub>m seen t r v" for v
    proof (cases "u \<in> fst ` set r")
      case True
      then show ?thesis using evicted_le [OF tenant_ok [of r u]] I by (simp add: seen_in) (simp add: seen_def)
    next
      case False
      then have "map_of r u = None" by (simp add: map_of_eq_None_iff)
      then show ?thesis by (simp add: seen_def tenant_def map_of_in_tenant)
    qed
    moreover have "reg_ok (evict_in t u r)"
      using I by (intro reg_ok_in_tenant) auto
    ultimately show ?thesis using I by (meson map_le_trans)
  qed
  then show ?thesis
    using evict_global_rule [of ?I reg t opts] assms by (auto simp: reg_ok_expire_all)
qed

lemma seen_settled: "reg_ok reg \<Longrightarrow>
  seen t (registry_put t opts u lk e reg) v = (if v = u
     then map_of (lazyExpire t (evict_tenant t opts (tenant (evict_global t opts (inserted u lk e reg)) u)))
     else seen t (evict_global t opts (inserted u lk e reg)) v)"
  by (simp add: seen_def put_tenant)

lemma put_below:
  assumes "reg_ok reg"
  shows "seen t (registry_put t opts u lk e reg) v \<subseteq>\<^sub>m seen t (inserted u lk e reg) v"
proof -
  let ?mid = "evict_global t opts (inserted u lk e reg)"
  have ok: "store_ok (lazyExpire t (tenant ?mid u))"
    using evict_global_tenants [OF inserted_ok [OF assms]] by (simp add: tenant_ok)
  have "map_of (lazyExpire t (evict_tenant t opts (tenant ?mid u))) \<subseteq>\<^sub>m seen t ?mid u"
    using map_le_drop [OF ok] by (simp add: evict_tenant_drop expire_suffix seen_def)
  then have "seen t (registry_put t opts u lk e reg) v \<subseteq>\<^sub>m seen t ?mid v"
    by (simp add: seen_settled [OF assms])
  then show ?thesis using evict_global_below [OF inserted_ok [OF assms]] by (rule map_le_trans)
qed

lemma put_with_room:
  assumes ok: "reg_ok reg"
    and room: "int (entry_count (expire_all t (inserted u lk e reg))) \<le> oo_globalAggregateCap opts"
    and here: "int (length (lazyExpire t (tenant (inserted u lk e reg) u))) \<le> oo_perTenantCap opts"
  shows "seen t (registry_put t opts u lk e reg) = seen t (inserted u lk e reg)"
proof
  fix v
  have mid: "evict_global t opts (inserted u lk e reg) = expire_all t (inserted u lk e reg)"
    using room by (subst evict_global_unfold) simp
  have "evict_tenant t opts (tenant (expire_all t (inserted u lk e reg)) u)
      = lazyExpire t (tenant (inserted u lk e reg) u)"
    using here by (subst evict_tenant_unfold) simp
  then show "seen t (registry_put t opts u lk e reg) v = seen t (inserted u lk e reg) v"
    by (simp add: seen_settled [OF ok] mid del: tenant_expire_all) (simp add: seen_def)
qed

text \<open>C6: The overlay implements a map from users and lock keys to live entries. A get returns the
  entry of the map with its access time refreshed and changes nothing else; a delete clears the key;
  a snapshot lists exactly the values; reading the size and dropping expired entries leave the map
  alone; a put updates the key and otherwise only forgets entries, none when both caps leave room.\<close>

theorem overlay_refines_map:
  assumes "reg_ok reg" and "k = serializeLockKey lk"
  shows "fst (registry_get t u lk reg) = map_option (touch t) (seen t reg u k)
    \<and> seen t (snd (registry_get t u lk reg))
        = (seen t reg)(u := (seen t reg u)(k := map_option (touch t) (seen t reg u k)))
    \<and> seen t (snd (registry_delete u lk reg)) = (seen t reg)(u := (seen t reg u)(k := None))
    \<and> set (fst (registry_snapshot t u reg)) = ran (seen t reg u)
    \<and> seen t (snd (registry_snapshot t u reg)) = seen t reg
    \<and> seen t (snd (globalSize t reg)) = seen t reg
    \<and> seen t (snd (registry_evictExpired t reg)) = seen t reg
    \<and> (\<forall>v. seen t (registry_put t opts u lk e reg) v
          \<subseteq>\<^sub>m ((seen t reg)(u := (seen t reg u)(k := if live t e then Some e else None))) v)
    \<and> (int (entry_count (expire_all t (inserted u lk e reg))) \<le> oo_globalAggregateCap opts
       \<and> int (length (lazyExpire t (tenant (inserted u lk e reg) u))) \<le> oo_perTenantCap opts
       \<longrightarrow> seen t (registry_put t opts u lk e reg)
          = (seen t reg)(u := (seen t reg u)(k := if live t e then Some e else None)))"
  using seen_get [OF assms(1)] seen_delete seen_snapshot [OF assms(1)] put_below [OF assms(1), of t opts u lk e]
    put_with_room [OF assms(1), of t u lk e opts]
  unfolding seen_put assms(2) by (auto simp: globalSize_def registry_evictExpired_def)

abbreviation sample_key :: lock_key where
  "sample_key \<equiv> \<lparr>lk_factKey = ''f'', lk_continuitySubjectKey = ''s''\<rparr>"

abbreviation sample_entry :: overlay_entry where
  "sample_entry \<equiv> \<lparr>oe_memoryId = ''m'', oe_text = ''x'', oe_lockKey = sample_key, oe_userId = ''u'',
     oe_score = 1, oe_committedAtMs = 5, oe_expiresAtMs = 9, oe_lastAccessedAtMs = 5, oe_active = True,
     oe_outcome = Entry_create\<rparr>"

lemma reg_ok_Nil [simp]: "reg_ok []"
  by (simp add: reg_ok_def)

theorem overlay_refines_map_witness:
  "set (fst (registry_snapshot 6 ''u'' (inserted ''u'' sample_key sample_entry [])))
     = ran (seen 6 (inserted ''u'' sample_key sample_entry []) ''u'')"
  using overlay_refines_map [OF inserted_ok [OF reg_ok_Nil] refl, of 6 "''u''"] by blast

section \<open>Bounds and termination\<close>

lemma reached_ok:
  assumes "0 \<le> oo_globalAggregateCap opts" "0 \<le> oo_perTenantCap opts"
    and "(overlay_step opts)\<^sup>*\<^sup>* (t0, []) s"
  shows "reg_ok (snd s) \<and> caps_kept opts (fst s) (snd s)"
  using assms(3)
proof (induction rule: rtranclp_induct)
  case base
  show ?case using assms(1,2) by (simp add: caps_kept_def tenant_def lazyExpire_def)
next
  case (step s s')
  then show ?case using step_caps [OF _ assms(1,2)] by blast
qed

text \<open>In every state the registry can reach from empty, by any sequence of puts, gets, deletes,
  snapshots, sweeps and clock ticks, the number of live entries is within the global cap and the
  snapshot of every user is within the per-tenant cap.\<close>

theorem overlay_caps_invariant:
  assumes "0 \<le> oo_globalAggregateCap opts" "0 \<le> oo_perTenantCap opts"
    and "(overlay_step opts)\<^sup>*\<^sup>* (t0, []) (t, reg)"
  shows "fst (globalSize t reg) \<le> oo_globalAggregateCap opts
    \<and> int (length (fst (registry_snapshot t u reg))) \<le> oo_perTenantCap opts"
  using reached_ok [OF assms]
  by (simp_all add: caps_kept_def globalSize_def registry_snapshot_def store_snapshot_def Let_def)

abbreviation small_caps :: overlay_options where
  "small_caps \<equiv> \<lparr>oo_perTenantCap = 1, oo_ttlMs = 4, oo_globalAggregateCap = 1\<rparr>"

lemma two_puts: "(overlay_step small_caps)\<^sup>*\<^sup>* (5, [])
  (5, registry_put 5 small_caps ''v'' sample_key sample_entry
     (registry_put 5 small_caps ''u'' sample_key sample_entry []))"
  by (meson overlay_step.put rtranclp.rtrancl_into_rtrancl rtranclp.rtrancl_refl)

theorem overlay_caps_invariant_witness:
  "fst (globalSize 5 (registry_put 5 small_caps ''v'' sample_key sample_entry
     (registry_put 5 small_caps ''u'' sample_key sample_entry []))) \<le> 1"
  using overlay_caps_invariant [OF _ _ two_puts] by simp

text \<open>The tenant's eviction loop ends for every cap and every store, and its result is the live
  entries with just so many of the oldest dropped that the cap holds; the relative order of the
  survivors is kept.\<close>

theorem tenant_eviction_ends:
  "evict_tenant t opts es
     = drop (length (lazyExpire t es) - nat (oo_perTenantCap opts)) (lazyExpire t es)
   \<and> int (length (evict_tenant t opts es)) \<le> max 0 (oo_perTenantCap opts)"
  by (simp add: evict_tenant_drop)

section \<open>A fresh write can be read\<close>

lemma only_tenant:
  assumes "distinct (map fst r)" and "\<And>v es. (v, es) \<in> set r \<Longrightarrow> v \<noteq> u \<Longrightarrow> es = []"
  shows "entry_count r = length (tenant r u)"
  using assms
proof (induction r)
  case (Cons p r)
  obtain v es where p: "p = (v, es)" by (cases p)
  have rest: "entry_count r = length (tenant r u)" using Cons by (auto simp: p)
  show ?case
  proof (cases "v = u")
    case True
    then have "map_of r u = None" using Cons.prems(1) by (simp add: p map_of_eq_None_iff)
    with rest True show ?thesis by (simp add: p tenant_def)
  next
    case False
    then have "es = []" using Cons.prems(2) [of v es] by (simp add: p)
    with rest False show ?thesis by (simp add: p tenant_def)
  qed
qed (simp add: tenant_def)

definition newest :: "jstr \<Rightarrow> jstr \<Rightarrow> overlay_entry \<Rightarrow> registry_state \<Rightarrow> bool" where
  "newest u k e r =
     ((\<exists>front. tenant r u = front @ [(k, e)])
      \<and> (\<forall>v k' e'. (k', e') \<in> set (tenant r v) \<and> (v, k') \<noteq> (u, k)
            \<longrightarrow> oe_lastAccessedAtMs e' < oe_lastAccessedAtMs e))"

lemma tenant_mem: "distinct (map fst r) \<Longrightarrow> (u, es) \<in> set r \<Longrightarrow> tenant r u = es"
  by (simp add: tenant_def)

lemma newest_not_alone:
  assumes ok: "reg_ok r" and settled: "expire_all t r = r" and new: "newest u k e r"
    and head: "fst (registryLruHead t r) = Some (u, e')" and many: "1 < entry_count r"
  shows "\<exists>p front. tenant r u = p # front @ [(k, e)]"
proof (rule ccontr)
  assume "\<not> ?thesis"
  with new have only: "tenant r u = [(k, e)]"
    unfolding newest_def by (metis append_Cons append_Nil neq_Nil_conv)
  have dist: "distinct (map fst r)" using ok by (simp add: reg_ok_def)
  have live: "lazyExpire t es = es" if "(v, es) \<in> set r" for v es
    using tenant_mem [OF dist that] tenant_expire_all [of t r v] by (simp add: settled)
  obtain es k2 r2 where "(u, es) \<in> set r" "lazyExpire t es = (k2, e') # r2"
    using registry_head_from [OF head] by blast
  with only tenant_mem [OF dist] live have e': "e' = e" by fastforce
  have "es = []" if v: "(v, es) \<in> set r" "v \<noteq> u" for v es
  proof (cases es)
    case (Cons p rest)
    obtain k' f where p: "p = (k', f)" by (cases p)
    have "oe_lastAccessedAtMs e \<le> oe_lastAccessedAtMs f"
      using registry_head_oldest [OF head v(1)] live [OF v(1)] by (simp add: Cons p e')
    moreover have "oe_lastAccessedAtMs f < oe_lastAccessedAtMs e"
      using new v tenant_mem [OF dist v(1)] unfolding newest_def by (metis Cons list.set_intros(1) p prod.inject)
    ultimately show ?thesis by simp
  qed
  then have "entry_count r = length (tenant r u)" by (rule only_tenant [OF dist])
  with only many show False by simp
qed

lemma newest_survives:
  assumes ok: "reg_ok reg" and new: "newest u k e reg" and live: "live t e" and u: "u \<in> fst ` set reg"
    and cap: "1 \<le> oo_globalAggregateCap opts"
  shows "newest u k e (evict_global t opts reg)"
proof -
  let ?I = "\<lambda>r. reg_ok r \<and> u \<in> fst ` set r \<and> newest u k e r"
  have sub: "newest u k e (expire_all t r)" if "newest u k e r" for r
    using that live unfolding newest_def tenant_expire_all
    by (auto simp: lazyExpire_def)
  have fst_set: "fst ` set (expire_all t r) = fst ` set r" "fst ` set (evict_in t v r) = fst ` set r" for r v
    by (metis fst_expire_all set_map, metis fst_in_tenant set_map)
  have keep: "?I (evict_in t v r)"
    if I: "?I r" and settled: "expire_all t r = r" and many: "oo_globalAggregateCap opts < int (entry_count r)"
      and head: "fst (registryLruHead t r) = Some (v, e')" for r v e'
  proof -
    have v: "v \<in> fst ` set r" using registry_head_from [OF head] by force
    have settled': "lazyExpire t (tenant r w) = tenant r w" for w
      using tenant_expire_all [of t r w] by (simp add: settled)
    have tl: "snd (evictLruHead t (tenant r v)) = tl (tenant r v)"
      by (simp add: evictLruHead_def settled' split: list.split)
    have "\<exists>front. tenant (evict_in t v r) u = front @ [(k, e)]"
    proof (cases "v = u")
      case True
      with newest_not_alone [OF _ settled] I head many cap
      obtain p front where "tenant r u = p # front @ [(k, e)]" by force
      then show ?thesis using v True tl by (simp add: tenant_in)
    next
      case False
      then show ?thesis using v I by (simp add: tenant_in newest_def)
    qed
    moreover have "set (tenant (evict_in t v r) w) \<subseteq> set (tenant r w)" for w
      using v tl by (auto simp: tenant_in dest: list.set_sel(2) [rotated] split: if_splits)
        (metis list.sel(2) list.set_sel(2))
    ultimately have "newest u k e (evict_in t v r)"
      using I unfolding newest_def by blast
    moreover have "reg_ok (evict_in t v r)"
      using I by (intro reg_ok_in_tenant) auto
    ultimately show ?thesis using I fst_set by blast
  qed
  show ?thesis
    using evict_global_rule [of ?I reg t opts] ok new u sub keep by (auto simp: reg_ok_expire_all fst_set)
qed

lemma newest_read:
  assumes ok: "reg_ok reg" and live: "live t e"
    and caps: "1 \<le> oo_globalAggregateCap opts" "1 \<le> oo_perTenantCap opts"
    and fresh: "\<And>v k' e'. (k', e') \<in> set (tenant reg v) \<Longrightarrow> oe_lastAccessedAtMs e' < oe_lastAccessedAtMs e"
  shows "fst (registry_get t u lk (registry_put t opts u lk e reg)) = Some (touch t e)"
proof -
  let ?k = "serializeLockKey lk"
  let ?mid = "evict_global t opts (inserted u lk e reg)"
  have u: "u \<in> fst ` set (inserted u lk e reg)"
    by (metis fst_in_tenant forUser_in set_map)
  have "newest u ?k e (inserted u lk e reg)"
    using fresh unfolding newest_def by (auto simp: tenant_in store_put_def without_def)
  from newest_survives [OF inserted_ok [OF ok] this live u caps(1)]
  obtain front where front: "tenant ?mid u = front @ [(?k, e)]" unfolding newest_def by blast
  have "?k \<notin> fst ` set front"
    using tenant_ok [of ?mid u] evict_global_tenants [OF inserted_ok [OF ok], of t opts u lk e]
    by (auto simp: front store_ok_def)
  have exp: "lazyExpire t (tenant ?mid u) = lazyExpire t front @ [(?k, e)]"
    using live by (simp add: front)
  have "evict_tenant t opts (tenant ?mid u)
      = drop (Suc (length (lazyExpire t front)) - nat (oo_perTenantCap opts)) (lazyExpire t front) @ [(?k, e)]"
    using caps(2) by (auto simp: evict_tenant_drop exp drop_Cons')
  moreover have "?k \<notin> fst ` set (lazyExpire t (drop n (lazyExpire t front)))" for n
    using \<open>?k \<notin> fst ` set front\<close> by (auto simp: lazyExpire_def dest!: in_set_dropD)
  ultimately have "seen t (registry_put t opts u lk e reg) u ?k = Some e"
    using live by (simp add: seen_settled [OF ok] map_of_eq_None_iff [THEN iffD2] map_add_Some_iff)
  then show ?thesis by (simp add: seen_get [OF put_ok [OF ok]])
qed

text \<open>Read your writes. When both caps are at least one and every other live entry was last
  touched before the new one, a put is readable by the next get of its key in the same instant,
  whatever the two eviction passes had to remove to make room for it.\<close>

theorem fresh_write_readable:
  assumes ok: "reg_ok reg" and live: "live t e"
    and caps: "1 \<le> oo_globalAggregateCap opts" "1 \<le> oo_perTenantCap opts"
    and fresh: "\<And>v k' e'. (k', e') \<in> set (tenant reg v) \<Longrightarrow> oe_lastAccessedAtMs e' < oe_lastAccessedAtMs e"
  shows "fst (registry_get t u lk (registry_put t opts u lk e reg)) = Some (touch t e)"
  using assms by (rule newest_read)

theorem fresh_write_readable_witness:
  "fst (registry_get 6 ''v'' sample_key (registry_put 6 small_caps ''v'' sample_key
      (sample_entry\<lparr>oe_lastAccessedAtMs := 6\<rparr>) (inserted ''u'' sample_key sample_entry [])))
     = Some (touch 6 (sample_entry\<lparr>oe_lastAccessedAtMs := 6\<rparr>))"
  by (rule fresh_write_readable [OF inserted_ok [OF reg_ok_Nil]])
    (auto simp: live_def tenant_def forUser_def store_put_def without_def split: if_splits)

section \<open>The interface a writer relies on\<close>

text \<open>
  A writer clears a key or not, puts one fresh entry and expects to read it. The laws speak of
  well-formed states whose entries are older than the write.
\<close>

locale overlay_interface =
  fixes ok :: "'s \<Rightarrow> bool" and older :: "'s \<Rightarrow> bool" and fits :: "'e \<Rightarrow> bool"
    and put :: "'u \<Rightarrow> 'k \<Rightarrow> 'e \<Rightarrow> 's \<Rightarrow> 's"
    and del :: "'u \<Rightarrow> 'k \<Rightarrow> 's \<Rightarrow> 's"
    and read :: "'u \<Rightarrow> 'k \<Rightarrow> 's \<Rightarrow> 'e option"
  assumes read_put: "ok s \<Longrightarrow> older s \<Longrightarrow> fits e \<Longrightarrow> read u k (put u k e s) = Some e"
    and del_ok: "ok s \<Longrightarrow> ok (del u k s)"
    and del_older: "older s \<Longrightarrow> older (del u k s)"
begin

lemma write_through:
  "ok s \<Longrightarrow> older s \<Longrightarrow> fits e \<Longrightarrow> read u k (put u k e (if replace then del u k s else s)) = Some e"
  using read_put del_ok del_older by simp

lemma write_twice:
  assumes "ok s" "older s" "fits e"
  shows "read u k (put u k e (del u k (del u k s))) = Some e"
  using assms by (simp add: read_put del_ok del_older)

end

definition all_older :: "int \<Rightarrow> registry_state \<Rightarrow> bool" where
  "all_older t reg = (\<forall>u k e. (k, e) \<in> set (tenant reg u) \<longrightarrow> oe_lastAccessedAtMs e < t)"

definition fits_now :: "int \<Rightarrow> overlay_options \<Rightarrow> overlay_entry \<Rightarrow> bool" where
  "fits_now t opts e =
     (live t e \<and> oe_lastAccessedAtMs e = t \<and> 1 \<le> oo_globalAggregateCap opts \<and> 1 \<le> oo_perTenantCap opts)"

lemma all_older_tenant:
  "all_older t reg \<Longrightarrow> (k, e) \<in> set (tenant reg u) \<Longrightarrow> oe_lastAccessedAtMs e < t"
  by (auto simp: all_older_def)

lemma all_older_in:
  assumes "all_older t reg" and "\<And>es. set (f es) \<subseteq> set es"
  shows "all_older t (in_tenant u f (forUser u reg))"
  using assms(2) [of "tenant reg u"] assms(1) by (auto simp: all_older_def tenant_in)

interpretation overlay: overlay_interface reg_ok "all_older t" "fits_now t opts" "registry_put t opts"
    "\<lambda>u lk reg. snd (registry_delete u lk reg)" "\<lambda>u lk reg. fst (registry_get t u lk reg)" for t opts
proof
  fix s u lk e
  assume "reg_ok s" "all_older t s" "fits_now t opts e"
  moreover from this have "touch t e = e" by (cases e) (simp add: fits_now_def touch_def)
  ultimately show "fst (registry_get t u lk (registry_put t opts u lk e s)) = Some e"
    using newest_read [of s t e opts u lk] all_older_tenant by (auto simp: fits_now_def)
next
  fix s u lk
  assume "reg_ok s"
  then show "reg_ok (snd (registry_delete u lk s))"
    by (auto simp: registry_delete_def Let_def store_delete_def intro!: reg_ok_in_tenant)
next
  fix s u lk
  assume "all_older t s"
  then show "all_older t (snd (registry_delete u lk s))"
    unfolding registry_delete_def Let_def snd_conv
    by (rule all_older_in) (auto simp: store_delete_def without_def)
qed

end
