(* ===== verification/Canonical_Context.thy ===== *)
theory Canonical_Context
  imports Js_Value
begin

text \<open>
  The identity of a request context (\<open>src/src/identity/canonical-context.ts\<close>, with the scopes of
  \<open>src/src/domain/memory/boundary.ts\<close>): normalised tokens, the derived project key, and the keys of
  the project state, the hexis context and the arbitration partition.
\<close>

section \<open>Scopes\<close>

datatype memory_scope = Session_scope | User_scope | Team_scope | Global_scope

fun scope_name :: "memory_scope \<Rightarrow> jstr" where
  "scope_name Session_scope = ''session''"
| "scope_name User_scope = ''user''"
| "scope_name Team_scope = ''team''"
| "scope_name Global_scope = ''global''"

datatype context_kind = Kind_session | Kind_project | Kind_agent

datatype derivation_source =
    From_sessionId | From_projectId | From_gitRemote | From_gitRoot | From_path | From_agentId
  | From_taskId | From_default | Source_absent

datatype identity_marker = Explicit_marker | Git_marker | Path_fallback_marker | Absent_marker

section \<open>Records\<close>

record context_input =
  ci_userId :: jstr
  ci_sessionId :: "jstr option"
  ci_path :: "jstr option"
  ci_projectId :: "jstr option"
  ci_gitRemoteUrl :: "jstr option"
  ci_gitRepoRoot :: "jstr option"
  ci_agentId :: "jstr option"
  ci_taskId :: "jstr option"

record raw_fragments =
  rf_sessionId :: "jstr option"
  rf_path :: "jstr option"
  rf_projectId :: "jstr option"
  rf_gitRemoteUrl :: "jstr option"
  rf_gitRepoRoot :: "jstr option"
  rf_agentId :: "jstr option"
  rf_taskId :: "jstr option"

record project_key =
  pk_value :: "jstr option"
  pk_source :: derivation_source
  pk_marker :: identity_marker
  pk_pathFallback :: bool

record context_identity =
  id_userId :: jstr
  id_kind :: context_kind
  id_kindSource :: derivation_source
  id_agentId :: "jstr option"
  id_taskId :: "jstr option"
  id_projectKey :: project_key
  id_raw :: raw_fragments

section \<open>Normalisation\<close>

definition normalizeToken :: "jstr option \<Rightarrow> jstr option" where
  "normalizeToken v =
     (case v of None \<Rightarrow> None | Some s \<Rightarrow> (let t = js_trim s in if truthy t then Some t else None))"

definition normalizeProjectId :: "jstr \<Rightarrow> jstr" where
  "normalizeProjectId projectId = js_lower (js_trim projectId)"

abbreviation slash :: char where "slash \<equiv> CHR ''/''"

definition letter_ci :: "char \<Rightarrow> bool" where
  "letter_ci c = (lower_char c \<or> upper_char c)"

definition ssh_prefix :: re where
  "ssh_prefix = Seq text_start (lit_ci ''ssh://'')"

definition scheme_prefix :: re where
  "scheme_prefix = seqs [text_start, plus (Chr letter_ci), lit ''://'']"

definition login_prefix :: re where
  "login_prefix = seqs [text_start, plus (Chr (\<lambda>c. c \<noteq> CHR ''@'')), ch (CHR ''@'')]"

definition scp_host :: re where
  "scp_host =
     seqs [text_start, Group 1 (plus (Chr (\<lambda>c. c \<noteq> CHR '':'' \<and> c \<noteq> slash))), ch (CHR '':'')]"

definition git_suffix :: re where
  "git_suffix = Seq (lit_ci ''.git'') TextEnd"

definition trailing_slashes :: re where
  "trailing_slashes = Seq (plus (ch slash)) TextEnd"

definition erase :: "re \<Rightarrow> jstr \<Rightarrow> jstr" where
  "erase r = replace_first r (\<lambda>_. [])"

definition normalizeGitRemoteUrl :: "jstr \<Rightarrow> jstr" where
  "normalizeGitRemoteUrl remoteUrl =
     js_lower
       (erase trailing_slashes
         (erase git_suffix
           (replace_first scp_host (\<lambda>c. (case cap c 1 of Some h \<Rightarrow> h | None \<Rightarrow> []) @ [slash])
             (erase login_prefix (erase scheme_prefix (erase ssh_prefix (js_trim remoteUrl)))))))"

definition normalizePath :: "jstr \<Rightarrow> jstr" where
  "normalizePath path =
     replace_all trailing_slashes [] (map (\<lambda>c. if c = CHR 0x5C then slash else c) (js_trim path))"

definition basename :: "jstr \<Rightarrow> jstr" where
  "basename path =
     (let normalized = normalizePath path;
          segments = filter truthy (split_char slash normalized)
      in if segments = [] then normalized else last segments)"

definition fingerprint :: "js_env \<Rightarrow> jstr \<Rightarrow> jstr" where
  "fingerprint env v = take 24 (sha256_hex env v)"

definition projectKeyFromProjectId :: "jstr \<Rightarrow> jstr" where
  "projectKeyFromProjectId projectId = ''project:'' @ normalizeProjectId projectId"

definition projectKeyFromGitRemote :: "js_env \<Rightarrow> jstr \<Rightarrow> jstr" where
  "projectKeyFromGitRemote env remoteUrl = ''git:'' @ fingerprint env (normalizeGitRemoteUrl remoteUrl)"

definition fingerprintWorkspacePath :: "js_env \<Rightarrow> jstr \<Rightarrow> jstr" where
  "fingerprintWorkspacePath env path = fingerprint env (normalizePath path)"

definition canonicalizeWorkspaceId :: "jstr option \<Rightarrow> jstr" where
  "canonicalizeWorkspaceId v = (case normalizeToken v of Some t \<Rightarrow> t | None \<Rightarrow> ''-'')"

section \<open>The identity\<close>

definition deriveProjectKey ::
  "js_env \<Rightarrow> jstr option \<Rightarrow> jstr option \<Rightarrow> jstr option \<Rightarrow> jstr option \<Rightarrow> project_key" where
  "deriveProjectKey env projectId gitRemoteUrl gitRepoRoot path =
     (if opt_truthy projectId
      then \<lparr>pk_value = map_option projectKeyFromProjectId projectId, pk_source = From_projectId,
            pk_marker = Explicit_marker, pk_pathFallback = False\<rparr>
      else if opt_truthy gitRemoteUrl
      then \<lparr>pk_value = map_option (projectKeyFromGitRemote env) gitRemoteUrl, pk_source = From_gitRemote,
            pk_marker = Git_marker, pk_pathFallback = False\<rparr>
      else if opt_truthy gitRepoRoot
      then \<lparr>pk_value = map_option (\<lambda>r. ''git:'' @ fingerprint env (''root:'' @ basename r)) gitRepoRoot,
            pk_source = From_gitRoot, pk_marker = Git_marker, pk_pathFallback = False\<rparr>
      else if opt_truthy path
      then \<lparr>pk_value = map_option (\<lambda>q. ''path:'' @ fingerprint env (normalizePath q)) path,
            pk_source = From_path, pk_marker = Path_fallback_marker, pk_pathFallback = True\<rparr>
      else \<lparr>pk_value = None, pk_source = Source_absent, pk_marker = Absent_marker,
            pk_pathFallback = False\<rparr>)"

definition deriveContextScopeKind :: "raw_fragments \<Rightarrow> context_kind \<times> derivation_source" where
  "deriveContextScopeKind raw =
     (if opt_truthy (rf_sessionId raw) then (Kind_session, From_sessionId)
      else if opt_truthy (rf_projectId raw) \<or> opt_truthy (rf_gitRemoteUrl raw)
              \<or> opt_truthy (rf_gitRepoRoot raw) \<or> opt_truthy (rf_path raw)
      then (Kind_project,
            if opt_truthy (rf_projectId raw) then From_projectId
            else if opt_truthy (rf_gitRemoteUrl raw) then From_gitRemote
            else if opt_truthy (rf_gitRepoRoot raw) then From_gitRoot
            else From_path)
      else (Kind_agent, if opt_truthy (rf_agentId raw) then From_agentId else From_default))"

text \<open>\<open>normalizeToken(input.userId) ?? input.userId\<close>\<close>

definition normalized_user :: "jstr \<Rightarrow> jstr" where
  "normalized_user userId = (case normalizeToken (Some userId) of Some u \<Rightarrow> u | None \<Rightarrow> userId)"

definition resolveCanonicalContextIdentity :: "js_env \<Rightarrow> context_input \<Rightarrow> context_identity" where
  "resolveCanonicalContextIdentity env i =
     (let raw = \<lparr>rf_sessionId = normalizeToken (ci_sessionId i), rf_path = normalizeToken (ci_path i),
                 rf_projectId = normalizeToken (ci_projectId i),
                 rf_gitRemoteUrl = normalizeToken (ci_gitRemoteUrl i),
                 rf_gitRepoRoot = normalizeToken (ci_gitRepoRoot i),
                 rf_agentId = normalizeToken (ci_agentId i),
                 rf_taskId = normalizeToken (ci_taskId i)\<rparr>;
          (kind, source) = deriveContextScopeKind raw
      in \<lparr>id_userId = normalized_user (ci_userId i),
          id_kind = kind, id_kindSource = source,
          id_agentId = (if opt_truthy (rf_agentId raw) then rf_agentId raw else None),
          id_taskId = (if opt_truthy (rf_taskId raw) then rf_taskId raw else None),
          id_projectKey = deriveProjectKey env (rf_projectId raw) (rf_gitRemoteUrl raw)
                            (rf_gitRepoRoot raw) (rf_path raw),
          id_raw = raw\<rparr>)"

definition buildProjectStateRecordId :: "js_env \<Rightarrow> jstr \<Rightarrow> jstr option \<Rightarrow> jstr option \<Rightarrow> jstr" where
  "buildProjectStateRecordId env userId projectKey legacyPath =
     (let discriminator = (case projectKey of Some k \<Rightarrow> k
                           | None \<Rightarrow> (case legacyPath of Some q \<Rightarrow> q | None \<Rightarrow> ''*''))
      in ''project_state_'' @ fingerprint env (userId @ ''::'' @ discriminator))"

record project_state_ref =
  psr_recordId :: jstr
  psr_projectKey :: "jstr option"
  psr_legacyPath :: "jstr option"

definition buildProjectStateRef :: "js_env \<Rightarrow> context_identity \<Rightarrow> project_state_ref" where
  "buildProjectStateRef env identity =
     \<lparr>psr_recordId = buildProjectStateRecordId env (id_userId identity)
                       (pk_value (id_projectKey identity)) (rf_path (id_raw identity)),
      psr_projectKey = pk_value (id_projectKey identity), psr_legacyPath = rf_path (id_raw identity)\<rparr>"

definition first_of :: "'a option \<Rightarrow> 'a option \<Rightarrow> 'a option" where
  "first_of a b = (case a of None \<Rightarrow> b | Some _ \<Rightarrow> a)"

definition or_text :: "jstr option \<Rightarrow> jstr \<Rightarrow> jstr" where
  "or_text a b = (case a of None \<Rightarrow> b | Some t \<Rightarrow> t)"

definition buildHexisContextRef :: "context_identity \<Rightarrow> context_kind \<times> jstr" where
  "buildHexisContextRef identity =
     (case id_kind identity of
        Kind_session \<Rightarrow>
          (Kind_session,
           id_userId identity @ ''::session::'' @ or_text (rf_sessionId (id_raw identity)) ''default'')
      | Kind_project \<Rightarrow>
          (Kind_project,
           id_userId identity @ ''::project::''
             @ or_text (first_of (rf_projectId (id_raw identity))
                          (first_of (rf_gitRemoteUrl (id_raw identity)) (rf_path (id_raw identity))))
                 ''default'')
      | Kind_agent \<Rightarrow>
          (Kind_agent,
           id_userId identity @ ''::agent::'' @ or_text (id_agentId identity) (id_userId identity)))"

record partition_ref =
  pr_partitionKey :: jstr
  pr_scope :: memory_scope
  pr_sessionId :: "jstr option"

definition buildArbitrationPartitionRef :: "context_identity \<Rightarrow> memory_scope \<Rightarrow> partition_ref" where
  "buildArbitrationPartitionRef identity scope =
     \<lparr>pr_partitionKey = id_userId identity @ ''::'' @ scope_name scope @ ''::''
        @ or_text (rf_sessionId (id_raw identity)) ''-'',
      pr_scope = scope, pr_sessionId = rf_sessionId (id_raw identity)\<rparr>"

abbreviation partitionKey :: "context_identity \<Rightarrow> memory_scope \<Rightarrow> jstr" where
  "partitionKey i s \<equiv> pr_partitionKey (buildArbitrationPartitionRef i s)"

section \<open>Facts\<close>

lemma normalizeToken_Some: "normalizeToken v = Some t \<Longrightarrow> js_trim t = t \<and> t \<noteq> []"
  by (auto simp: normalizeToken_def Let_def split: option.splits if_splits)

lemma normalizeToken_idem: "normalizeToken (normalizeToken v) = normalizeToken v"
  by (auto simp: normalizeToken_def Let_def split: option.splits)

lemma normalized_user_idem [simp]: "normalized_user (normalized_user u) = normalized_user u"
  by (simp add: normalized_user_def normalizeToken_def Let_def)

lemma normalizeToken_truthy [simp]: "opt_truthy (normalizeToken v) = (normalizeToken v \<noteq> None)"
  by (auto simp: normalizeToken_def Let_def split: option.splits)

text \<open>A list before a separator it does not contain is determined.\<close>

lemma before_separator:
  assumes "xs @ a # ys = xs' @ a # ys'" and "a \<notin> set xs" and "a \<notin> set xs'"
  shows "xs = xs' \<and> ys = ys'"
proof -
  have "takeWhile (\<lambda>x. x \<noteq> a) (xs @ a # ys) = xs" using assms(2) by (simp add: takeWhile_append)
  moreover have "takeWhile (\<lambda>x. x \<noteq> a) (xs' @ a # ys') = xs'" using assms(3) by (simp add: takeWhile_append)
  ultimately show ?thesis using assms(1) by auto
qed

lemma scope_name_separated:
  "scope_name a @ CHR '':'' # x = scope_name b @ CHR '':'' # y \<Longrightarrow> a = b \<and> x = y"
  by (cases a; cases b) auto

lemma partition_parts:
  assumes "partitionKey i s = partitionKey j r"
    and "CHR '':'' \<notin> set (id_userId i)" and "CHR '':'' \<notin> set (id_userId j)"
  shows "id_userId i = id_userId j \<and> s = r
    \<and> or_text (rf_sessionId (id_raw i)) ''-'' = or_text (rf_sessionId (id_raw j)) ''-''"
proof -
  have key: "id_userId i @ CHR '':'' # CHR '':'' # scope_name s @ CHR '':'' # CHR '':''
        # or_text (rf_sessionId (id_raw i)) ''-''
      = id_userId j @ CHR '':'' # CHR '':'' # scope_name r @ CHR '':'' # CHR '':''
        # or_text (rf_sessionId (id_raw j)) ''-''"
    using assms(1) by (simp add: buildArbitrationPartitionRef_def)
  from before_separator [OF key assms(2,3)] scope_name_separated [of s _ r] show ?thesis by fastforce
qed

section \<open>Properties\<close>

text \<open>Resolving a context is idempotent: an identity rebuilt from its own user and raw fragments is the same
  identity, whatever tokens the request carried.\<close>

theorem context_identity_stable:
  "(let i = resolveCanonicalContextIdentity env c; r = id_raw i
    in resolveCanonicalContextIdentity env
         \<lparr>ci_userId = id_userId i, ci_sessionId = rf_sessionId r, ci_path = rf_path r,
          ci_projectId = rf_projectId r, ci_gitRemoteUrl = rf_gitRemoteUrl r,
          ci_gitRepoRoot = rf_gitRepoRoot r, ci_agentId = rf_agentId r, ci_taskId = rf_taskId r\<rparr> = i)"
  by (simp add: resolveCanonicalContextIdentity_def Let_def normalizeToken_idem split_beta)

text \<open>The recent-write partitions keep tenants apart as long as user names hold no colon: equal keys come
  from the same user, the same scope and the same session (an absent session counting as a dash).\<close>

theorem partition_separates_tenants:
  assumes "partitionKey (resolveCanonicalContextIdentity env c) s
      = partitionKey (resolveCanonicalContextIdentity env c') s'"
    and "CHR '':'' \<notin> set (ci_userId c)" and "CHR '':'' \<notin> set (ci_userId c')"
  shows "id_userId (resolveCanonicalContextIdentity env c) = id_userId (resolveCanonicalContextIdentity env c')
    \<and> s = s'
    \<and> or_text (normalizeToken (ci_sessionId c)) ''-'' = or_text (normalizeToken (ci_sessionId c')) ''-''"
proof -
  have "CHR '':'' \<notin> set (id_userId (resolveCanonicalContextIdentity env d))"
    if "CHR '':'' \<notin> set (ci_userId d)" for d
    using that set_js_trim [of "ci_userId d"]
    by (auto simp: resolveCanonicalContextIdentity_def Let_def normalized_user_def
        normalizeToken_def split_beta)
  from partition_parts [OF assms(1) this [OF assms(2)] this [OF assms(3)]] show ?thesis
    by (simp add: resolveCanonicalContextIdentity_def Let_def split_beta)
qed

definition plain_input :: "jstr \<Rightarrow> jstr option \<Rightarrow> context_input" where
  "plain_input user session =
     \<lparr>ci_userId = user, ci_sessionId = session, ci_path = None, ci_projectId = None,
      ci_gitRemoteUrl = None, ci_gitRepoRoot = None, ci_agentId = None, ci_taskId = None\<rparr>"

definition some_env :: js_env where
  "some_env = \<lparr>now_ms = 0, parse_other = (\<lambda>_. None),
     locale_compare = (\<lambda>a b. if a = b then 0 else 1), sha256_hex = (\<lambda>s. s)\<rparr>"

lemma plain_partition:
  "partitionKey
      (resolveCanonicalContextIdentity some_env (plain_input '' ada '' (Some ''s1''))) User_scope
    = partitionKey
      (resolveCanonicalContextIdentity some_env (plain_input ''ada'' (Some '' s1 ''))) User_scope"
  by code_simp

theorem partition_separates_tenants_witness:
  "id_userId (resolveCanonicalContextIdentity some_env (plain_input '' ada '' (Some ''s1'')))
     = id_userId (resolveCanonicalContextIdentity some_env (plain_input ''ada'' (Some '' s1 '')))"
  using partition_separates_tenants [OF plain_partition] by (simp add: plain_input_def)

text \<open>
  The condition on user names is needed: two tenants share a partition when one name is built from
  the separator.
\<close>

theorem partition_collision:
  "partitionKey
      (resolveCanonicalContextIdentity some_env (plain_input ''a'' (Some ''b::user::-''))) User_scope
    = partitionKey
      (resolveCanonicalContextIdentity some_env (plain_input ''a::user::b'' None)) User_scope
   \<and> id_userId (resolveCanonicalContextIdentity some_env (plain_input ''a'' (Some ''b::user::-'')))
     \<noteq> id_userId (resolveCanonicalContextIdentity some_env (plain_input ''a::user::b'' None))"
  by code_simp

end
