(* ===== verification/Write_Config.thy ===== *)
theory Write_Config
  imports Write_Judge
begin

text \<open>
  The configuration of one write: the environment gates
  (\<open>src/src/storage/writes/write-flags.ts\<close>), the merged configuration with its clamped supersede
  floor, and the parameters \<open>arbitrateWrite\<close> hands to the decision core
  (\<open>src/src/storage/writes/write-arbitrator.ts\<close>). The process environment is a map of strings.
\<close>

type_synonym process_env = "jstr \<Rightarrow> jstr option"

section \<open>Gates\<close>

definition gate_on :: "process_env \<Rightarrow> jstr \<Rightarrow> bool" where
  "gate_on vars name = (vars name = Some ''1'')"

definition cueGateEnabled :: "process_env \<Rightarrow> bool" where
  "cueGateEnabled vars = gate_on vars ''RUNIR_SUPERSEDE_CUE_GATE''"

definition judgeGateEnabled :: "process_env \<Rightarrow> bool" where
  "judgeGateEnabled vars = gate_on vars ''RUNIR_SUPERSEDE_JUDGE_GATE''"

definition f2JudgeConfirmEnabled :: "process_env \<Rightarrow> bool" where
  "f2JudgeConfirmEnabled vars = gate_on vars ''RUNIR_SUPERSEDE_F2_JUDGE_CONFIRM''"

definition f2RequireValueChangeEnabled :: "process_env \<Rightarrow> bool" where
  "f2RequireValueChangeEnabled vars = gate_on vars ''RUNIR_F2_REQUIRE_VALUE_CHANGE''"

definition mergeKeepBothOnFusionEnabled :: "process_env \<Rightarrow> bool" where
  "mergeKeepBothOnFusionEnabled vars = gate_on vars ''RUNIR_MERGE_KEEP_BOTH_ON_FUSION''"

definition mergeKeepBothGuardEnabled :: "process_env \<Rightarrow> bool" where
  "mergeKeepBothGuardEnabled vars = gate_on vars ''RUNIR_MERGE_KEEPBOTH_GUARD''"

definition additiveSkipGuardEnabled :: "process_env \<Rightarrow> bool" where
  "additiveSkipGuardEnabled vars = gate_on vars ''RUNIR_ADDITIVE_SKIP_GUARD''"

definition supersedeShadowEnabled :: "process_env \<Rightarrow> bool" where
  "supersedeShadowEnabled vars = gate_on vars ''RUNIR_SUPERSEDE_SHADOW''"

definition supersedeTemporalGuardEnabled :: "process_env \<Rightarrow> bool" where
  "supersedeTemporalGuardEnabled vars = gate_on vars ''RUNIR_SUPERSEDE_TEMPORAL_GUARD''"

definition atomicFactIdentityProofEnabled :: "process_env \<Rightarrow> bool" where
  "atomicFactIdentityProofEnabled vars = gate_on vars ''RUNIR_ATOMICFACT_IDENTITY_PROOF''"

section \<open>\<open>Number\<close> of a text\<close>

definition radix_step :: "nat \<Rightarrow> nat option \<Rightarrow> char \<Rightarrow> nat option" where
  "radix_step b acc c =
     (case (acc, hex_value c) of
        (Some n, Some d) \<Rightarrow> if d < b then Some (b * n + d) else None
      | _ \<Rightarrow> None)"

definition radix_number :: "nat \<Rightarrow> jstr \<Rightarrow> jnum" where
  "radix_number b s =
     (if s = [] then NaN
      else (case foldl (radix_step b) (Some 0) s of Some n \<Rightarrow> to_jnum (real n) | None \<Rightarrow> NaN))"

definition decimal_number :: "jstr \<Rightarrow> jnum" where
  "decimal_number s =
     (let neg = (case s of c # _ \<Rightarrow> c = CHR ''-'' | [] \<Rightarrow> False);
          u = (case s of c # r \<Rightarrow> if c = CHR ''-'' \<or> c = CHR ''+'' then r else s | [] \<Rightarrow> s);
          ds = digits_of u;
          after = drop (length ds) u;
          fs = (case after of c # r \<Rightarrow> if c = CHR ''.'' then digits_of r else [] | [] \<Rightarrow> []);
          tail = (case after of c # r \<Rightarrow> if c = CHR ''.'' then drop (length fs) r else after | [] \<Rightarrow> [])
      in if u = ''Infinity'' then Infinite (\<not> neg)
         else if ds = [] \<and> fs = [] then NaN
         else (case json_exponent tail of
                 Some (e, []) \<Rightarrow>
                   (let m = real_of_int (digits_nat (ds @ fs)) * power10 (e - int (length fs))
                    in to_jnum (if neg then - m else m))
               | _ \<Rightarrow> NaN))"

definition js_number :: "jstr \<Rightarrow> jnum" where
  "js_number s =
     (case js_trim s of
        [] \<Rightarrow> Fin 0
      | c # x # r \<Rightarrow>
          (if c = CHR ''0'' \<and> (x = CHR ''x'' \<or> x = CHR ''X'') then radix_number 16 r
           else if c = CHR ''0'' \<and> (x = CHR ''o'' \<or> x = CHR ''O'') then radix_number 8 r
           else if c = CHR ''0'' \<and> (x = CHR ''b'' \<or> x = CHR ''B'') then radix_number 2 r
           else decimal_number (c # x # r))
      | t \<Rightarrow> decimal_number t)"

section \<open>Configuration\<close>

record partial_config =
  pc_skipThreshold :: "real option"
  pc_skipWindowHours :: "real option"
  pc_mergeThreshold :: "real option"
  pc_mergeWindowHours :: "real option"
  pc_candidateLimit :: "nat option"
  pc_recentWriteTtlMinutes :: "real option"
  pc_supersedeCandidateFloor :: "real option"

definition spread_config :: "partial_config \<Rightarrow> arbitration_config" where
  "spread_config c =
     (let d = default_arbitration_config; over = (\<lambda>v x. case v of Some y \<Rightarrow> y | None \<Rightarrow> x)
      in \<lparr>skipThreshold = over (pc_skipThreshold c) (skipThreshold d),
          skipWindowHours = over (pc_skipWindowHours c) (skipWindowHours d),
          mergeThreshold = over (pc_mergeThreshold c) (mergeThreshold d),
          mergeWindowHours = over (pc_mergeWindowHours c) (mergeWindowHours d),
          candidateLimit = (case pc_candidateLimit c of Some n \<Rightarrow> n | None \<Rightarrow> candidateLimit d),
          recentWriteTtlMinutes = over (pc_recentWriteTtlMinutes c) (recentWriteTtlMinutes d),
          supersedeCandidateFloor = pc_supersedeCandidateFloor c\<rparr>)"

definition in_floor_range :: "arbitration_config \<Rightarrow> real \<Rightarrow> bool" where
  "in_floor_range config v = (v > 0 \<and> v \<le> mergeThreshold config)"

definition resolvedFloor :: "process_env \<Rightarrow> arbitration_config \<Rightarrow> real" where
  "resolvedFloor vars config =
     (case vars ''RUNIR_SUPERSEDE_CANDIDATE_FLOOR'' of
        Some raw \<Rightarrow>
          (case js_number (js_trim raw) of
             Fin v \<Rightarrow> if in_floor_range config v then v else mergeThreshold config
           | _ \<Rightarrow> mergeThreshold config)
      | None \<Rightarrow>
          (case supersedeCandidateFloor config of
             Some f \<Rightarrow> if in_floor_range config f then f else mergeThreshold config
           | None \<Rightarrow> mergeThreshold config))"

definition effective_config :: "process_env \<Rightarrow> partial_config \<Rightarrow> arbitration_config" where
  "effective_config vars c =
     (let config = spread_config c
      in config\<lparr>supersedeCandidateFloor := Some (resolvedFloor vars config)\<rparr>)"

section \<open>The input of a write and the parameters of its decision\<close>

definition incomingTags :: "jval \<Rightarrow> jstr list option" where
  "incomingTags metadata =
     (case jget metadata ''tags'' of JArr vs \<Rightarrow> Some (List.map_filter str_of vs) | _ \<Rightarrow> None)"

definition live_params ::
  "js_env \<Rightarrow> process_env \<Rightarrow> arbitration_config \<Rightarrow> bool \<Rightarrow> jval \<Rightarrow> int option \<Rightarrow> resolve_params" where
  "live_params env vars config judgeWired metadata nowMs =
     (let temporal = supersedeTemporalGuardEnabled vars
      in \<lparr>rp_config = config, rp_tags = incomingTags metadata,
          rp_judgeEnabled = (judgeGateEnabled vars \<and> judgeWired),
          rp_keepBothGuard = mergeKeepBothGuardEnabled vars, rp_temporalGuard = temporal,
          rp_validAt = str_of (jget metadata ''validAt''), rp_tier = str_of (jget metadata ''tier''),
          rp_arbitrationNow = (if temporal then now_ms env else 0),
          rp_additiveSkipGuard = additiveSkipGuardEnabled vars, rp_cueGate = cueGateEnabled vars,
          rp_keys = incomingReferentKeys metadata, rp_withinHoursNow = nowMs,
          rp_f2JudgeConfirm = f2JudgeConfirmEnabled vars,
          rp_atomicAuthority = atomicFactIdentityProofEnabled vars,
          rp_laneClock = (case nowMs of Some n \<Rightarrow> n | None \<Rightarrow> now_ms env),
          rp_f2RequireValueChange = f2RequireValueChangeEnabled vars,
          rp_mergeKeepBothOnFusion = mergeKeepBothOnFusionEnabled vars\<rparr>)"

text \<open>The two shadow lanes: all flags of the flip bundle on, and all off.\<close>

definition would_params :: "resolve_params \<Rightarrow> int \<Rightarrow> resolve_params" where
  "would_params p shadowNow =
     p\<lparr>rp_config := (rp_config p)\<lparr>supersedeCandidateFloor := Some (75 / 100)\<rparr>,
       rp_judgeEnabled := False, rp_keepBothGuard := True, rp_temporalGuard := True,
       rp_arbitrationNow := shadowNow, rp_additiveSkipGuard := True, rp_cueGate := True,
       rp_withinHoursNow := Some shadowNow, rp_f2JudgeConfirm := True, rp_atomicAuthority := True,
       rp_f2RequireValueChange := False, rp_mergeKeepBothOnFusion := False\<rparr>"

definition baseline_params :: "resolve_params \<Rightarrow> int \<Rightarrow> resolve_params" where
  "baseline_params p shadowNow =
     p\<lparr>rp_config := (rp_config p)\<lparr>supersedeCandidateFloor := Some (mergeThreshold (rp_config p))\<rparr>,
       rp_judgeEnabled := False, rp_keepBothGuard := False, rp_temporalGuard := False,
       rp_arbitrationNow := shadowNow, rp_additiveSkipGuard := False, rp_cueGate := False,
       rp_withinHoursNow := Some shadowNow, rp_f2JudgeConfirm := False, rp_atomicAuthority := False,
       rp_f2RequireValueChange := False, rp_mergeKeepBothOnFusion := False\<rparr>"

section \<open>Facts\<close>

lemma effective_floor:
  "supersedeCandidateFloor (effective_config vars c) = Some (supersede_floor (effective_config vars c))
   \<and> supersede_floor (effective_config vars c) \<le> mergeThreshold (effective_config vars c)
   \<and> (supersede_floor (effective_config vars c) = mergeThreshold (effective_config vars c)
      \<or> 0 < supersede_floor (effective_config vars c))"
  by (auto simp: effective_config_def Let_def supersede_floor_def resolvedFloor_def in_floor_range_def
      split: option.split jnum.split)

lemma number_forms:
  "js_number '' 0.75 '' = Fin (3 / 4)" "js_number ''5.'' = Fin 5" "js_number ''-.5e1'' = Fin (- 5)"
  "js_number ''0x10'' = Fin 16" "js_number '''' = Fin 0" "js_number ''1a'' = NaN" "js_number ''.'' = NaN"
  by code_simp+

end
