(* ===== verification/Recent_Writes.thy ===== *)
theory Recent_Writes
  imports Canonical_Context Overlay_Store
begin

text \<open>
  The short-lived caches of a write: the recent-write map
  (\<open>src/src/storage/writes/recent-writes.ts\<close>) and the entries and events a write hands to the
  overlay (\<open>src/src/storage/writes/overlay-lifecycle.ts\<close>). The recent-write map is the list of its
  entries in insertion order, as the overlay is.
\<close>

section \<open>The recent-write map\<close>

type_synonym recent_cache = "(jstr \<times> recent_write list) list"

definition map_set :: "'k \<Rightarrow> 'v \<Rightarrow> ('k \<times> 'v) list \<Rightarrow> ('k \<times> 'v) list" where
  "map_set k v m =
     (if k \<in> fst ` set m then map (\<lambda>(k', v'). if k' = k then (k, v) else (k', v')) m else m @ [(k, v)])"

definition getRecentWriteKey :: "js_env \<Rightarrow> jstr \<Rightarrow> memory_scope \<Rightarrow> jstr option \<Rightarrow> jstr" where
  "getRecentWriteKey env userId scope sessionId =
     pr_partitionKey
       (buildArbitrationPartitionRef
         (resolveCanonicalContextIdentity env
           \<lparr>ci_userId = userId, ci_sessionId = sessionId, ci_path = None, ci_projectId = None,
            ci_gitRemoteUrl = None, ci_gitRepoRoot = None, ci_agentId = None, ci_taskId = None\<rparr>)
         scope)"

definition retained :: "real \<Rightarrow> int \<Rightarrow> recent_write list \<Rightarrow> recent_write list" where
  "retained ttlMs nowMs entries =
     filter (\<lambda>e. real_of_int (rw_writtenAtMs e) \<ge> real_of_int nowMs - ttlMs) entries"

definition prunedRecentWritesView :: "recent_cache \<Rightarrow> real \<Rightarrow> int \<Rightarrow> recent_cache" where
  "prunedRecentWritesView recentWrites ttlMs nowMs =
     foldl (\<lambda>view (key, entries).
         let keep = retained ttlMs nowMs entries
         in if length keep > 0 then map_set key keep view else view)
       [] recentWrites"

definition pruneRecentWrites :: "recent_cache \<Rightarrow> real \<Rightarrow> int \<Rightarrow> recent_cache" where
  "pruneRecentWrites recentWrites ttlMs nowMs =
     foldl (\<lambda>m (key, entries).
         let keep = retained ttlMs nowMs entries
         in if length keep > 0 then map_set key keep m else without key m)
       recentWrites recentWrites"

definition cached :: "recent_cache \<Rightarrow> jstr \<Rightarrow> recent_write list" where
  "cached m key = (case map_of m key of Some es \<Rightarrow> es | None \<Rightarrow> [])"

definition rememberWrite ::
  "js_env \<Rightarrow> jstr \<Rightarrow> real list \<Rightarrow> jstr \<Rightarrow> memory_scope \<Rightarrow> jstr option \<Rightarrow> jstr \<Rightarrow> int option
     \<Rightarrow> recent_cache \<Rightarrow> recent_cache" where
  "rememberWrite env written embedding userId scope sessionId source nowMs m =
     (let key = getRecentWriteKey env userId scope sessionId;
          entry = \<lparr>rw_text = written, rw_normalizedText = normalizeText written, rw_embedding = embedding,
                   rw_userId = userId, rw_scope = scope_name scope, rw_sessionId = sessionId,
                   rw_source = source,
                   rw_writtenAtMs = (case nowMs of Some n \<Rightarrow> n | None \<Rightarrow> now_ms env)\<rparr>
      in map_set key (take 20 (entry # cached m key)) m)"

section \<open>Overlay entries and events\<close>

datatype lifecycle_event =
    Memory_committed jstr lock_key entry_outcome int
  | Memory_indexed jstr int

text \<open>The handle of a caller; the registry it refers to is part of the world, its options are here.\<close>

record overlay_handle =
  oh_ttlMs :: int
  oh_options :: overlay_options
  oh_traced :: bool

definition buildOverlayEntry ::
  "int \<Rightarrow> overlay_handle \<Rightarrow> jstr \<Rightarrow> jstr \<Rightarrow> jstr \<Rightarrow> lock_key \<Rightarrow> entry_outcome \<Rightarrow> overlay_entry" where
  "buildOverlayEntry t overlay userId memoryId written lockKey out =
     \<lparr>oe_memoryId = memoryId, oe_text = written, oe_lockKey = lockKey, oe_userId = userId, oe_score = 1,
      oe_committedAtMs = t, oe_expiresAtMs = t + oh_ttlMs overlay, oe_lastAccessedAtMs = t,
      oe_active = True, oe_outcome = out\<rparr>"

definition emitMemoryCommitted :: "overlay_handle \<Rightarrow> overlay_entry \<Rightarrow> lifecycle_event list" where
  "emitMemoryCommitted overlay e =
     (if \<not> oh_traced overlay then []
      else [Memory_committed (oe_memoryId e) (oe_lockKey e) (oe_outcome e) (oe_committedAtMs e)])"

definition emitMemoryIndexed :: "overlay_handle \<Rightarrow> overlay_entry \<Rightarrow> lifecycle_event list" where
  "emitMemoryIndexed overlay e =
     (if \<not> oh_traced overlay then [] else [Memory_indexed (oe_memoryId e) (oe_committedAtMs e)])"

definition lockKeyFromMetadata :: "jval \<Rightarrow> lock_key option" where
  "lockKeyFromMetadata metadata =
     (if metadata = JUndef then None
      else buildOverlayKey (str_of (jget metadata ''factKey''))
             (str_of (jget metadata ''continuitySubjectKey'')))"

section \<open>Facts\<close>

lemma map_of_map_set [simp]: "map_of (map_set k v m) = (map_of m)(k \<mapsto> v)"
proof -
  have inside: "map_of (map (\<lambda>(k', v'). if k' = k then (k, v) else (k', v')) m)
      = (if k \<in> fst ` set m then (map_of m)(k \<mapsto> v) else map_of m)"
    by (induction m) (auto simp: fun_eq_iff)
  have "map_of (m @ [(k, v)]) = (map_of m)(k \<mapsto> v)" if "k \<notin> fst ` set m"
    using that map_of_eq_None_iff [of m k] by (auto simp: map_add_def fun_eq_iff split: option.split)
  with inside show ?thesis by (simp add: map_set_def)
qed

lemma fst_map_set: "map fst (map_set k v m) = (if k \<in> fst ` set m then map fst m else map fst m @ [k])"
  by (auto simp: map_set_def)

lemma distinct_map_set [simp]: "distinct (map fst m) \<Longrightarrow> distinct (map fst (map_set k v m))"
  by (auto simp: fst_map_set)

lemma distinct_without [simp]: "distinct (map fst m) \<Longrightarrow> distinct (map fst (without k m))"
  by (simp add: without_def distinct_map_filter)

definition live_writes :: "real \<Rightarrow> int \<Rightarrow> recent_write list \<Rightarrow> recent_write list option" where
  "live_writes ttlMs nowMs entries =
     (if retained ttlMs nowMs entries = [] then None else Some (retained ttlMs nowMs entries))"

text \<open>Either loop, from any map that holds nothing else at the keys still to visit.\<close>

lemma prune_loop:
  assumes "distinct (map fst rest)"
  shows "map_of (foldl (\<lambda>m (key, entries).
           let keep = retained ttl now entries
           in if length keep > 0 then map_set key keep m else without key m) m rest) k
       = (case map_of rest k of None \<Rightarrow> map_of m k | Some es \<Rightarrow> live_writes ttl now es)"
  using assms
proof (induction rest arbitrary: m)
  case (Cons p rest)
  obtain j es where p: "p = (j, es)" by (cases p)
  from Cons.prems have "map_of rest j = None" by (simp add: p map_of_eq_None_iff)
  with Cons show ?case by (auto simp: p Let_def live_writes_def split: option.split)
qed simp

lemma view_loop:
  assumes "distinct (map fst rest)" and "\<And>k. k \<in> fst ` set rest \<Longrightarrow> map_of m k = None"
  shows "map_of (foldl (\<lambda>view (key, entries).
           let keep = retained ttl now entries
           in if length keep > 0 then map_set key keep view else view) m rest) k
       = (case map_of rest k of None \<Rightarrow> map_of m k | Some es \<Rightarrow> live_writes ttl now es)"
  using assms
proof (induction rest arbitrary: m)
  case (Cons p rest)
  obtain j es where p: "p = (j, es)" by (cases p)
  let ?m = "if length (retained ttl now es) > 0 then map_set j (retained ttl now es) m else m"
  from Cons.prems(1) have "map_of rest j = None" by (simp add: p map_of_eq_None_iff)
  moreover have "map_of ?m i = None" if "i \<in> fst ` set rest" for i
    using that Cons.prems by (auto simp: p)
  ultimately show ?case
    using Cons.IH [of ?m] Cons.prems by (auto simp: p Let_def live_writes_def split: option.split)
qed simp

lemma prune_keys: "distinct (map fst m) \<Longrightarrow> distinct (map fst (pruneRecentWrites m ttl now))"
proof -
  have "distinct (map fst (foldl (\<lambda>m (key, entries).
           let keep = retained ttl now entries
           in if length keep > 0 then map_set key keep m else without key m) m' rest))"
    if "distinct (map fst m')" for m' rest
    using that by (induction rest arbitrary: m') (auto simp: Let_def)
  then show "distinct (map fst m) \<Longrightarrow> ?thesis" by (simp add: pruneRecentWrites_def)
qed

lemma pruned_at:
  assumes "distinct (map fst m)"
  shows "map_of (pruneRecentWrites m ttl now) k = Option.bind (map_of m k) (live_writes ttl now)"
    and "map_of (prunedRecentWritesView m ttl now) k = Option.bind (map_of m k) (live_writes ttl now)"
  using prune_loop [OF assms] view_loop [OF assms]
  by (simp_all add: pruneRecentWrites_def prunedRecentWritesView_def split: option.split)

lemma retained_idem [simp]: "retained ttl now (retained ttl now es) = retained ttl now es"
  by (simp add: retained_def)

lemma retained_later: "now \<le> now' \<Longrightarrow> retained ttl now' (retained ttl now es) = retained ttl now' es"
  by (induction es) (auto simp: retained_def)

text \<open>The view a decision reads is the map the later physical prune leaves, key by key: what the decision
  saw is exactly what survives. Pruning is idempotent, and an early prune is absorbed by a later one.\<close>

theorem view_is_prune:
  assumes "distinct (map fst m)" and "now \<le> now'"
  shows "map_of (prunedRecentWritesView m ttl now) = map_of (pruneRecentWrites m ttl now)
    \<and> cached (pruneRecentWrites m ttl now) k = retained ttl now (cached m k)
    \<and> map_of (pruneRecentWrites (pruneRecentWrites m ttl now) ttl now')
        = map_of (pruneRecentWrites m ttl now')"
proof -
  have two: "Option.bind (live_writes ttl now es) (live_writes ttl now') = live_writes ttl now' es" for es
  proof (cases "retained ttl now es = []")
    case True
    then have "retained ttl now' es = []"
      using retained_later [OF assms(2), of ttl es] by (simp add: retained_def)
    with True show ?thesis by (simp add: live_writes_def)
  next
    case False
    then show ?thesis using retained_later [OF assms(2), of ttl es] by (simp add: live_writes_def)
  qed
  have "map_of (pruneRecentWrites (pruneRecentWrites m ttl now) ttl now') j
      = map_of (pruneRecentWrites m ttl now') j" for j
    by (cases "map_of m j") (simp_all add: pruned_at prune_keys assms(1) two)
  moreover have "cached (pruneRecentWrites m ttl now) k = retained ttl now (cached m k)"
    by (cases "map_of m k")
      (simp_all add: cached_def pruned_at [OF assms(1)] live_writes_def, simp_all add: retained_def)
  ultimately show ?thesis by (auto simp: fun_eq_iff pruned_at [OF assms(1)])
qed

theorem view_is_prune_witness:
  "map_of (prunedRecentWritesView (map_set ''k'' [] []) 1 0) = map_of (pruneRecentWrites (map_set ''k'' [] []) 1 0)"
  using view_is_prune [of "map_set ''k'' [] []" 0 0 1 "''k''"] by simp

lemma cached_remember:
  "cached (rememberWrite env t e u sc s src now m) k =
     (if k = getRecentWriteKey env u sc s
      then take 20 (\<lparr>rw_text = t, rw_normalizedText = normalizeText t, rw_embedding = e, rw_userId = u,
              rw_scope = scope_name sc, rw_sessionId = s, rw_source = src,
              rw_writtenAtMs = (case now of Some n \<Rightarrow> n | None \<Rightarrow> now_ms env)\<rparr> # cached m k)
      else cached m k)"
  by (simp add: rememberWrite_def Let_def) (simp add: cached_def)

lemma lock_key_filled: "lockKeyFromMetadata md = Some lk \<Longrightarrow> lk_factKey lk \<noteq> [] \<and> lk_continuitySubjectKey lk \<noteq> []"
  by (auto simp: lockKeyFromMetadata_def buildOverlayKey_def normalizeKeyField_def split: if_splits option.splits)

end
