(* ===== verification/Atomic_Shadow.thy ===== *)
theory Atomic_Shadow
  imports Write_Decision "HOL-Library.Multiset"
begin

text \<open>
  The atomic-isolated counterfactual (\<open>src/src/storage/writes/atomic-shadow.ts\<close>): the decision core
  run once more with the atomic identity as proof authority on the lane clock, the frame of value
  changes it saw, and the class of the attempt row. Copies of a source object are the object.
\<close>

section \<open>Snapshots\<close>

record atomic_candidate_snapshot =
  as_id :: jstr
  as_text :: jstr
  as_tags :: "jstr list option"
  as_atomicFact :: jval
  as_tier :: "jstr option"
  as_validAt :: jval
  as_createdAt :: jval
  as_keys :: referent_keys

text \<open>The truth value of a value, as in \<open>v ? a : b\<close>.\<close>

fun jtruthy :: "jval \<Rightarrow> bool" where
  "jtruthy JUndef = False"
| "jtruthy JNull = False"
| "jtruthy (JBool b) = b"
| "jtruthy (JNum x) = (case x of Fin r \<Rightarrow> r \<noteq> 0 | NaN \<Rightarrow> False | Infinite _ \<Rightarrow> True)"
| "jtruthy (JStr s) = (s \<noteq> [])"
| "jtruthy _ = True"

definition snapshotCandidateAtomic :: "similar_candidate \<Rightarrow> atomic_candidate_snapshot" where
  "snapshotCandidateAtomic c =
     \<lparr>as_id = sc_id c, as_text = sc_l2 c, as_tags = sc_tags c,
      as_atomicFact = (if jtruthy (sc_atomicFact c) then sc_atomicFact c else JNull),
      as_tier = sc_tier c, as_validAt = coalesce (sc_validAt c) JNull,
      as_createdAt = coalesce (sc_createdAt c) JNull, as_keys = candidateReferentKeys c\<rparr>"

record canonical_triple =
  ct_subject :: jstr
  ct_predicate :: jstr
  ct_value :: jstr

record atomic_incoming_snapshot =
  ai_text :: jstr
  ai_tags :: "jstr list option"
  ai_atomicFact :: jval
  ai_canonicalIdentity :: "jstr option"
  ai_canonicalTriple :: "canonical_triple option"
  ai_tier :: "jstr option"
  ai_validAt :: "jstr option"

definition part_or :: "jstr list \<Rightarrow> nat \<Rightarrow> jstr \<Rightarrow> jstr" where
  "part_or parts i other = (if i < length parts then parts ! i else other)"

definition snapshotIncoming ::
  "jstr \<Rightarrow> jstr list option \<Rightarrow> jval \<Rightarrow> jstr option \<Rightarrow> jstr option \<Rightarrow> atomic_incoming_snapshot" where
  "snapshotIncoming incoming tags raw tier validAt =
     \<lparr>ai_text = incoming, ai_tags = tags,
      ai_atomicFact = (if is_object raw then raw else JNull),
      ai_canonicalIdentity = atomicFactIdentity raw,
      ai_canonicalTriple =
        (case (is_object raw, atomicFactIdentity raw) of
           (True, Some identity) \<Rightarrow>
             (case (jget raw ''subject'', jget raw ''predicate'', jget raw ''value'') of
                (JStr s, JStr p, JStr v) \<Rightarrow>
                  (let parts = split_char (CHR ''|'') identity
                   in Some \<lparr>ct_subject = part_or parts 0 s, ct_predicate = part_or parts 1 p, ct_value = v\<rparr>)
              | _ \<Rightarrow> None)
         | _ \<Rightarrow> None),
      ai_tier = tier, ai_validAt = validAt\<rparr>"

section \<open>The evaluation\<close>

datatype disposition =
    Anchor_vetoed | Unproven_blocked | Guard_kept_both | Proven_retired | Proven_not_selected

record nomination_record =
  nr_candidateId :: jstr
  nr_snapshot :: atomic_candidate_snapshot
  nr_disposition :: disposition
  nr_selectedCandidateId :: "jstr option"
  nr_selectedSignal :: "supersede_signal option"

datatype activation_class = Safety_activation | Efficacy_only | Computation_failed

record isolated_evaluation =
  ie_decision :: arbitration_decision
  ie_judgePending :: bool
  ie_nominations :: "nomination_record list"
  ie_activationClass :: "activation_class option"
  ie_retiredCandidateId :: "jstr option"
  ie_incomingSnapshot :: atomic_incoming_snapshot
  ie_candidateSnapshot :: "atomic_candidate_snapshot option"
  ie_laneClockMs :: int

definition isEligible :: "js_env \<Rightarrow> arbitration_config \<Rightarrow> int \<Rightarrow> jstr \<Rightarrow> similar_candidate \<Rightarrow> bool" where
  "isEligible env config laneClockMs incoming c =
     (if sc_similarity c < supersede_floor config then False
      else if \<not> withinHours env c (mergeWindowHours config) (Some laneClockMs) then False
      else if areAnswerDistinctTexts (sc_l2 c) incoming then False
      else True)"

text \<open>Which candidate the isolated lane picked, and under which signal.\<close>

definition selected_id :: "arbitration_decision \<Rightarrow> jstr option" where
  "selected_id d =
     (if dec_outcome d = Supersede \<or> dec_guardKeepBoth d \<noteq> None
      then map_option sc_id (dec_candidate d) else None)"

definition selected_signal :: "arbitration_decision \<Rightarrow> supersede_signal option" where
  "selected_signal d =
     (if dec_outcome d = Supersede then dec_supersedeSignal d
      else map_option gk_signal (dec_guardKeepBoth d))"

definition nomination_of :: "arbitration_decision \<Rightarrow> referent_verdict \<Rightarrow> similar_candidate \<Rightarrow> nomination_record" where
  "nomination_of d referent c =
     (let plain = \<lparr>nr_candidateId = sc_id c, nr_snapshot = snapshotCandidateAtomic c,
                   nr_disposition = Anchor_vetoed, nr_selectedCandidateId = None, nr_selectedSignal = None\<rparr>
      in case referent of
           Anchor_conflict \<Rightarrow> plain
         | Unproven \<Rightarrow> plain\<lparr>nr_disposition := Unproven_blocked\<rparr>
         | Proven _ \<Rightarrow>
             (case selected_id d of
                None \<Rightarrow> plain\<lparr>nr_disposition := Proven_not_selected\<rparr>
              | Some i \<Rightarrow>
                  (if i = sc_id c
                   then plain\<lparr>nr_disposition :=
                          (if dec_guardKeepBoth d \<noteq> None then Guard_kept_both else Proven_retired)\<rparr>
                   else plain\<lparr>nr_disposition := Proven_not_selected, nr_selectedCandidateId := Some i,
                              nr_selectedSignal := selected_signal d\<rparr>)))"

definition nomination_step ::
  "js_env \<Rightarrow> resolve_params \<Rightarrow> jstr \<Rightarrow> arbitration_decision
     \<Rightarrow> jstr list \<times> nomination_record list \<Rightarrow> similar_candidate \<Rightarrow> jstr list \<times> nomination_record list" where
  "nomination_step env p incoming d = (\<lambda>(seenIds, noms) c.
     if \<not> isEligible env (rp_config p) (rp_laneClock p) incoming c then (seenIds, noms)
     else if \<not> wouldSupersedeTexts (sc_l2 c) incoming then (seenIds, noms)
     else if sc_id c \<in> set seenIds then (seenIds, noms)
     else (seenIds @ [sc_id c],
           noms @ [nomination_of d
                     (proveReferentIdentity env (sc_l2 c) incoming (candidateReferentKeys c) (rp_keys p) True) c]))"

definition isolated_params :: "resolve_params \<Rightarrow> resolve_params" where
  "isolated_params p = p\<lparr>rp_withinHoursNow := Some (rp_laneClock p), rp_atomicAuthority := True\<rparr>"

definition safety_target :: "arbitration_decision \<Rightarrow> 'a arbitration_decision_scheme \<Rightarrow> jstr option" where
  "safety_target isolated applied =
     (case (dec_outcome isolated, dec_candidate isolated) of
        (Supersede, Some c) \<Rightarrow>
          (if dec_outcome applied \<noteq> Supersede \<or> map_option sc_id (dec_candidate applied) \<noteq> Some (sc_id c)
           then Some (sc_id c) else None)
      | _ \<Rightarrow> None)"

definition computeAtomicIsolatedEvaluation ::
  "js_env \<Rightarrow> resolve_params \<Rightarrow> jstr \<Rightarrow> recent_write list \<Rightarrow> similar_candidate list \<Rightarrow> real list
     \<Rightarrow> 'a arbitration_decision_scheme \<Rightarrow> jval \<Rightarrow> isolated_evaluation" where
  "computeAtomicIsolatedEvaluation env p incoming recentCandidates similarCandidates embedding applied atomicFact =
     (let d = resolveDecision env (isolated_params p) incoming recentCandidates similarCandidates embedding;
          noms = snd (foldl (nomination_step env p incoming d) ([], []) similarCandidates);
          retired = safety_target d applied
      in \<lparr>ie_decision = d, ie_judgePending = (dec_outcome d = Judge), ie_nominations = noms,
          ie_activationClass =
            (if retired \<noteq> None then Some Safety_activation
             else if length noms > 0 then Some Efficacy_only else None),
          ie_retiredCandidateId = retired,
          ie_incomingSnapshot = snapshotIncoming incoming (rp_tags p) atomicFact (rp_tier p) (rp_validAt p),
          ie_candidateSnapshot = map_option snapshotCandidateAtomic (dec_candidate d),
          ie_laneClockMs = rp_laneClock p\<rparr>)"

definition atomicPairKey :: "jstr \<Rightarrow> jstr \<Rightarrow> jstr" where
  "atomicPairKey writeEventId retiredCandidateId = writeEventId @ [CHR 0x00] @ retiredCandidateId"

text \<open>
  The read-back rule of the finalizer (\<open>src/src/storage/surreal/atomic-shadow-store.ts\<close>): the rows
  the database returned, by their id property, against the manifest.
\<close>

definition rows_match :: "jval list \<Rightarrow> jstr list \<Rightarrow> bool" where
  "rows_match rows manifest =
     (let persistedIds = List.map_filter str_of rows; uniquePairs = js_uniq persistedIds
      in if length rows \<noteq> length manifest then False
         else if length persistedIds \<noteq> length manifest then False
         else if length uniquePairs \<noteq> length manifest then False
         else if length uniquePairs \<noteq> length (js_uniq manifest) then False
         else list_all (\<lambda>i. i \<in> set uniquePairs) (js_uniq manifest))"

section \<open>The frame\<close>

definition nominated :: "js_env \<Rightarrow> resolve_params \<Rightarrow> jstr \<Rightarrow> similar_candidate \<Rightarrow> bool" where
  "nominated env p incoming c =
     (isEligible env (rp_config p) (rp_laneClock p) incoming c \<and> wouldSupersedeTexts (sc_l2 c) incoming)"

definition isolated_referent :: "js_env \<Rightarrow> resolve_params \<Rightarrow> jstr \<Rightarrow> similar_candidate \<Rightarrow> referent_verdict" where
  "isolated_referent env p incoming c = referentOf env (isolated_params p) incoming c"

lemma nomination_of_id [simp]: "nr_candidateId (nomination_of d r c) = sc_id c"
  by (auto simp: nomination_of_def Let_def split: referent_verdict.split option.split)

lemma nomination_loop:
  fixes env p incoming d cs seenIds noms
  assumes "distinct seenIds" and "map nr_candidateId noms = seenIds"
  defines "res \<equiv> foldl (nomination_step env p incoming d) (seenIds, noms) cs"
  shows "distinct (fst res) \<and> map nr_candidateId (snd res) = fst res
    \<and> (\<exists>more. snd res = noms @ more
         \<and> (\<forall>n\<in>set more. \<exists>c\<in>set cs. nominated env p incoming c
              \<and> n = nomination_of d (isolated_referent env p incoming c) c))
    \<and> (\<forall>c\<in>set cs. nominated env p incoming c \<longrightarrow> sc_id c \<in> set (fst res))
    \<and> set seenIds \<subseteq> set (fst res)"
  using assms(1,2) unfolding res_def
proof (induction cs arbitrary: seenIds noms)
  case (Cons c cs)
  let ?n = "nomination_of d (isolated_referent env p incoming c) c"
  show ?case
  proof (cases "nominated env p incoming c \<and> sc_id c \<notin> set seenIds")
    case True
    then have step: "nomination_step env p incoming d (seenIds, noms) c = (seenIds @ [sc_id c], noms @ [?n])"
      by (simp add: nomination_step_def nominated_def isolated_referent_def referentOf_def isolated_params_def)
    have "distinct (seenIds @ [sc_id c])" "map nr_candidateId (noms @ [?n]) = seenIds @ [sc_id c]"
      using True Cons.prems by simp_all
    from Cons.IH [OF this] show ?thesis
      using True unfolding foldl_Cons step by fastforce
  next
    case False
    then have "nomination_step env p incoming d (seenIds, noms) c = (seenIds, noms)"
      by (auto simp: nomination_step_def nominated_def)
    with Cons.IH [OF Cons.prems] False show ?thesis by fastforce
  qed
qed simp

lemmas frame_fields = computeAtomicIsolatedEvaluation_def Let_def isolated_evaluation.simps

lemma frame_nominations:
  fixes env p incoming rws cs e applied af
  defines "ev \<equiv> computeAtomicIsolatedEvaluation env p incoming rws cs e applied af"
  shows "distinct (map nr_candidateId (ie_nominations ev))
    \<and> (\<forall>n\<in>set (ie_nominations ev). \<exists>c\<in>set cs. nominated env p incoming c
         \<and> n = nomination_of (ie_decision ev) (isolated_referent env p incoming c) c)
    \<and> (\<forall>c\<in>set cs. nominated env p incoming c \<longrightarrow> sc_id c \<in> nr_candidateId ` set (ie_nominations ev))"
  using nomination_loop [of "[]" "[]" env p incoming
      "resolveDecision env (isolated_params p) incoming rws cs e" cs]
  by (auto simp: ev_def frame_fields simp flip: set_map)

text \<open>A retirement on a proven value change is a nominated candidate of the same lane.\<close>

lemma text_retirement_nominated:
  assumes "dec_outcome (resolveDecision env (isolated_params p) incoming rws cs e) = Supersede"
    and "dec_supersedeSignal (resolveDecision env (isolated_params p) incoming rws cs e) = Some Deterministic_text"
  obtains c where "c \<in> set cs" "nominated env p incoming c"
    "\<exists>q. isolated_referent env p incoming c = Proven q"
    "dec_candidate (resolveDecision env (isolated_params p) incoming rws cs e) = Some c"
    "dec_guardKeepBoth (resolveDecision env (isolated_params p) incoming rws cs e) = None"
proof -
  from assms(1) obtain t
    where d: "resolveDecision env (isolated_params p) incoming rws cs e = supersede_decision t"
      and t: "tg_candidate t \<in> set cs" "qualifying_target env (isolated_params p) incoming (tg_candidate t) = Some t"
    by (rule supersede_inversion)
  have "tg_signal t = Deterministic_text" using assms(2) by (simp add: d supersede_decision_def)
  with qualifying_targetD [OF t(2)] nominate_F1
  have "nominated env p incoming (tg_candidate t)" "\<exists>q. isolated_referent env p incoming (tg_candidate t) = Proven q"
    by (auto simp: nominated_def isEligible_def in_correction_band_def isolated_params_def isolated_referent_def)
  with t(1) show thesis by (intro that [of "tg_candidate t"]) (simp_all add: d supersede_decision_def)
qed

text \<open>The frame of an evaluation is complete and unambiguous. Its entries have distinct ids, come from
  eligible candidates whose text is a value change, and every such candidate is listed; a candidate
  in anchor conflict is always vetoed and an unproven one always blocked; and when the isolated lane
  retires a fact on a value change, exactly that id is marked retired, provided ids are unique.\<close>

theorem atomic_frame_complete:
  fixes env p incoming rws cs e applied af
  assumes "distinct (map sc_id cs)"
  defines "ev \<equiv> computeAtomicIsolatedEvaluation env p incoming rws cs e applied af"
  shows "distinct (map nr_candidateId (ie_nominations ev))
    \<and> nr_candidateId ` set (ie_nominations ev) = sc_id ` {c \<in> set cs. nominated env p incoming c}
    \<and> (\<forall>n\<in>set (ie_nominations ev). \<forall>c\<in>set cs. sc_id c = nr_candidateId n \<longrightarrow>
         (nr_disposition n = Anchor_vetoed) = (isolated_referent env p incoming c = Anchor_conflict)
         \<and> (nr_disposition n = Unproven_blocked) = (isolated_referent env p incoming c = Unproven))
    \<and> (dec_outcome (ie_decision ev) = Supersede \<and> dec_supersedeSignal (ie_decision ev) = Some Deterministic_text
       \<longrightarrow> (\<exists>c. dec_candidate (ie_decision ev) = Some c
             \<and> (\<forall>n\<in>set (ie_nominations ev). (nr_disposition n = Proven_retired) = (nr_candidateId n = sc_id c))
             \<and> sc_id c \<in> nr_candidateId ` set (ie_nominations ev)))"
proof -
  note frame = frame_nominations [of env p incoming rws cs e applied af, folded ev_def]
  have same: "c = c'" if "c \<in> set cs" "c' \<in> set cs" "sc_id c = sc_id c'" for c c'
    using that assms(1) by (auto simp: distinct_map inj_on_def)
  have d: "ie_decision ev = resolveDecision env (isolated_params p) incoming rws cs e"
    by (simp add: ev_def frame_fields)
  have ids: "nr_candidateId ` set (ie_nominations ev) = sc_id ` {c \<in> set cs. nominated env p incoming c}"
    using frame by fastforce
  have disp: "(nr_disposition n = Anchor_vetoed) = (isolated_referent env p incoming c = Anchor_conflict)
      \<and> (nr_disposition n = Unproven_blocked) = (isolated_referent env p incoming c = Unproven)"
    if n: "n \<in> set (ie_nominations ev)" and c: "c \<in> set cs" "sc_id c = nr_candidateId n" for n c
  proof -
    obtain c' where c': "c' \<in> set cs" "n = nomination_of (ie_decision ev) (isolated_referent env p incoming c') c'"
      using frame n by blast
    with same [OF c(1) c'(1)] c(2) have "c' = c" by simp
    with c'(2) show ?thesis
      by (auto simp: nomination_of_def Let_def split: referent_verdict.splits option.splits)
  qed
  have retired: "\<exists>c. dec_candidate (ie_decision ev) = Some c
      \<and> (\<forall>n\<in>set (ie_nominations ev). (nr_disposition n = Proven_retired) = (nr_candidateId n = sc_id c))
      \<and> sc_id c \<in> nr_candidateId ` set (ie_nominations ev)"
    if sup: "dec_outcome (ie_decision ev) = Supersede" "dec_supersedeSignal (ie_decision ev) = Some Deterministic_text"
  proof -
    obtain c where c: "c \<in> set cs" "nominated env p incoming c"
        "\<exists>q. isolated_referent env p incoming c = Proven q" "dec_candidate (ie_decision ev) = Some c"
        "dec_guardKeepBoth (ie_decision ev) = None"
      using text_retirement_nominated [of env p incoming rws cs e] sup unfolding d by metis
    have sel: "selected_id (ie_decision ev) = Some (sc_id c)" using c sup by (simp add: selected_id_def)
    have "(nr_disposition n = Proven_retired) = (nr_candidateId n = sc_id c)" if n: "n \<in> set (ie_nominations ev)" for n
    proof -
      obtain c' where c': "c' \<in> set cs" "n = nomination_of (ie_decision ev) (isolated_referent env p incoming c') c'"
        using frame n by blast
      show ?thesis
      proof (cases "sc_id c' = sc_id c")
        case True
        with same [OF c'(1) c(1)] have "c' = c" by simp
        with c c' sel show ?thesis by (auto simp: nomination_of_def Let_def)
      next
        case False
        with c' sel show ?thesis
          by (auto simp: nomination_of_def Let_def split: referent_verdict.split)
      qed
    qed
    with c frame show ?thesis by blast
  qed
  show ?thesis using frame ids disp retired by blast
qed

section \<open>Finalization\<close>

lemma length_js_uniq_card: "length (js_uniq xs) = card (set xs)"
  by (metis distinct_card distinct_js_uniq set_js_uniq)

lemma all_strings: "length (List.map_filter str_of rows) = length rows \<Longrightarrow> rows = map JStr (List.map_filter str_of rows)"
proof (induction rows)
  case (Cons v rows)
  have "length (List.map_filter str_of rows) \<le> length rows" by (simp add: map_filter_def)
  with Cons.prems obtain s where v: "v = JStr s" and len: "length (List.map_filter str_of rows) = length rows"
    by (cases "str_of v") (auto simp: map_filter_simps)
  have "map JStr (List.map_filter str_of (v # rows)) = v # map JStr (List.map_filter str_of rows)"
    by (simp add: v map_filter_simps str_of_def)
  then show ?case using Cons.IH [OF len] by metis
qed (simp add: map_filter_simps)

text \<open>An attempt is finalized exactly when the stored rows are the manifest, row for row.\<close>

lemma rows_match_iff:
  assumes "distinct manifest"
  shows "rows_match rows manifest \<longleftrightarrow> mset rows = mset (map JStr manifest)"
proof
  assume r: "rows_match rows manifest"
  define ids where "ids = List.map_filter str_of rows"
  from r have len: "length rows = length manifest" "length ids = length manifest"
      "card (set ids) = length manifest" and sub: "set manifest \<subseteq> set ids"
    by (auto simp: rows_match_def Let_def ids_def length_js_uniq_card list_all_iff split: if_splits)
  then have "distinct ids" by (simp add: card_distinct)
  moreover have "set ids = set manifest"
    using sub len(3) assms by (metis List.finite_set card_subset_eq distinct_card)
  ultimately have "mset ids = mset manifest" using assms by (simp add: set_eq_iff_mset_eq_distinct)
  moreover have "rows = map JStr ids" using len all_strings [of rows] by (simp add: ids_def)
  ultimately show "mset rows = mset (map JStr manifest)" by simp
next
  assume eq: "mset rows = mset (map JStr manifest)"
  have "mset (List.map_filter str_of vs) = image_mset (\<lambda>v. the (str_of v)) (filter_mset (\<lambda>v. str_of v \<noteq> None) (mset vs))" for vs
    by (simp add: map_filter_def comp_def)
  then have "mset (List.map_filter str_of rows) = mset (List.map_filter str_of (map JStr manifest))"
    by (simp add: eq)
  also have "List.map_filter str_of (map JStr manifest) = manifest"
    by (induction manifest) (auto simp: map_filter_simps str_of_def)
  finally have ids: "mset (List.map_filter str_of rows) = mset manifest" .
  then have "set (List.map_filter str_of rows) = set manifest" "length (List.map_filter str_of rows) = length manifest"
    by (metis set_mset_mset, metis size_mset)
  moreover have "length rows = length manifest" using arg_cong [OF eq, of size] by simp
  ultimately show "rows_match rows manifest"
    using assms by (simp add: rows_match_def Let_def length_js_uniq_card list_all_iff distinct_card)
qed

end
