(* ===== verification/Write_Application.thy ===== *)
theory Write_Application
  imports Write_Config Recent_Writes Atomic_Shadow
begin

text \<open>
  \<open>arbitrateWrite\<close> of \<open>src/src/storage/writes/write-arbitrator.ts\<close>: one write from its input to its
  effects, in the order of the code. The caches, the trace events and the calls to the database are
  the world; what the database, the embedding service and the random ids answer are parameters. The
  clock is read once per write.
\<close>

section \<open>Inputs, calls and the world\<close>

record write_input =
  wi_text :: jstr
  wi_userId :: jstr
  wi_embedding :: "real list"
  wi_metadata :: jval
  wi_scope :: memory_scope
  wi_sessionId :: "jstr option"
  wi_source :: jstr
  wi_config :: partial_config
  wi_targetTable :: "jstr option"
  wi_fingerprintOk :: "bool option"
  wi_overlay :: "overlay_handle option"
  wi_judge :: "judge_handle option"
  wi_shadowJudge :: "judge_handle option"
  wi_nowMs :: "int option"
  wi_shadowCorrelationId :: "jstr option"
  wi_frameSource :: "(jstr \<times> jstr) option"

text \<open>The metadata of a written record: the base object and the two stamps of the arbitration.\<close>

record applied_metadata =
  am_base :: jval
  am_supersedeSignal :: "supersede_signal option"
  am_provenance :: "supersession_provenance option"

record replacement =
  rm_id :: jstr
  rm_l2 :: jstr
  rm_userId :: jstr
  rm_embedding :: "real list"
  rm_metadata :: applied_metadata
  rm_scope :: memory_scope
  rm_sessionId :: "jstr option"
  rm_writeSource :: jval

record continuity_update =
  cu_memoryRole :: jval
  cu_validAt :: jval
  cu_continuitySubjectKey :: jval

record attempt_row =
  at_writeEventId :: jstr
  at_class :: activation_class
  at_pairKey :: "jstr option"
  at_selectionHash :: "jstr option"
  at_retiredCandidateId :: "jstr option"
  at_manifestKeys :: "jstr list option"
  at_stratum :: jstr
  at_frameId :: jstr
  at_replayStepId :: "jstr option"
  at_errorDetail :: "jstr option"

record event_row =
  ev_writeEventId :: jstr
  ev_isolatedOutcome :: outcome
  ev_isolatedMatchedId :: "jstr option"
  ev_isolatedProof :: "proof_stamp option"
  ev_isolatedGuardReason :: "guard_reason option"
  ev_judgePending :: bool
  ev_incoming :: atomic_incoming_snapshot
  ev_candidate :: "atomic_candidate_snapshot option"
  ev_laneClockMs :: int
  ev_appliedOutcome :: outcome
  ev_appliedMatchedId :: "jstr option"

datatype shadow_outcome = Final outcome | Judge_pending

record live_flags =
  lf_cueGate :: bool
  lf_temporalGuard :: bool
  lf_keepBothGuard :: bool
  lf_addSkipGuard :: bool
  lf_judgeGate :: bool
  lf_f2JudgeConfirm :: bool
  lf_atomicIdentityProof :: bool
  lf_f2RequireValueChange :: bool
  lf_mergeKeepBothOnFusion :: bool

record shadow_row =
  sr_appliedMemoryId :: "jstr option"
  sr_userId :: jstr
  sr_scope :: memory_scope
  sr_sessionId :: "jstr option"
  sr_source :: jstr
  sr_appliedOutcome :: outcome
  sr_baselineOutcome :: shadow_outcome
  sr_wouldOutcome :: shadow_outcome
  sr_diverged :: bool
  sr_liveFlags :: live_flags
  sr_wouldMatchedId :: "jstr option"
  sr_wouldCosine :: "real option"
  sr_wouldSignal :: "supersede_signal option"
  sr_wouldReason :: decision_reason
  sr_wouldBand :: "band option"
  sr_baselineMatchedId :: "jstr option"
  sr_baselineBand :: "band option"
  sr_incomingTextTrunc :: jstr
  sr_wouldNominationBlocked :: "jstr option"
  sr_referentVerdict :: "verdict_stamp option"
  sr_referentProof :: "proof_stamp option"
  sr_incomingTextFull :: jstr
  sr_incomingTags :: "jstr list option"
  sr_candidateSnapshot :: "candidate_snapshot option"
  sr_correlationId :: "jstr option"
  sr_writeEventId :: jstr

datatype db_call =
    Update_memory_text jstr jstr "real list" jval atomic_fact_action continuity_update jstr
  | Supersede_memory similar_candidate replacement jstr
  | Upsert_memory jstr jstr jstr "real list" applied_metadata memory_scope "jstr option" jstr
  | Log_judge_ledger judge_ledger_row
  | Create_attempt attempt_row
  | Create_event event_row
  | Create_nomination jstr nomination_record
  | Mark_finalized jstr
  | Log_shadow shadow_row

record write_deps =
  wd_vars :: process_env
  wd_similar :: "jstr \<Rightarrow> real list \<Rightarrow> real \<Rightarrow> nat \<Rightarrow> memory_scope \<Rightarrow> jstr option \<Rightarrow> jstr \<Rightarrow> int option
     \<Rightarrow> similar_candidate list option"
  wd_embed :: "jstr \<Rightarrow> real list option"
  wd_fails :: "db_call \<Rightarrow> bool"
  wd_readback :: "jstr \<Rightarrow> jval list option"
  wd_uuid :: "nat \<Rightarrow> jstr"
  wd_iso :: "int \<Rightarrow> jstr"
  wd_evaluationThrows :: bool

record write_world =
  ww_recent :: recent_cache
  ww_overlay :: registry_state
  ww_events :: "lifecycle_event list"
  ww_calls :: "(db_call \<times> bool) list"
  ww_ledgerFailures :: nat

datatype write_failure =
    Similarity_failed | Attempt_failed | Embedding_failed | Missing_candidate | Mutation_failed

datatype result_reason = Empty_text | Decided decision_reason

record arbitration_result =
  ar_outcome :: outcome
  ar_memoryId :: "jstr option"
  ar_mergedIntoId :: "jstr option"
  ar_matchedMemoryId :: "jstr option"
  ar_reason :: result_reason

type_synonym write_step = "write_world \<Rightarrow> (write_failure + arbitration_result) \<times> write_world"

definition issue :: "write_deps \<Rightarrow> db_call \<Rightarrow> write_world \<Rightarrow> bool \<times> write_world" where
  "issue deps c w = (\<not> wd_fails deps c, w\<lparr>ww_calls := ww_calls w @ [(c, \<not> wd_fails deps c)]\<rparr>)"

definition target_table :: "write_input \<Rightarrow> jstr" where
  "target_table i = (case wi_targetTable i of Some t \<Rightarrow> t | None \<Rightarrow> ''semiote'')"

definition effective_source :: "write_input \<Rightarrow> jval" where
  "effective_source i = coalesce (jget (wi_metadata i) ''writeSource'') (JStr (wi_source i))"

section \<open>What a decided write carries along\<close>

record write_context =
  wc_input :: write_input
  wc_decision :: judged_decision
  wc_params :: resolve_params
  wc_shadow :: "(judged_decision \<times> arbitration_decision) option"
  wc_writeEventId :: jstr
  wc_newId :: jstr

definition remember :: "js_env \<Rightarrow> write_input \<Rightarrow> jstr \<Rightarrow> real list \<Rightarrow> write_world \<Rightarrow> write_world" where
  "remember env i written embedding w =
     w\<lparr>ww_recent := rememberWrite env written embedding (wi_userId i) (wi_scope i) (wi_sessionId i)
                      (wi_source i) (wi_nowMs i) (ww_recent w)\<rparr>"

text \<open>The overlay part of a write; a supersede first clears the key.\<close>

definition overlay_effects ::
  "js_env \<Rightarrow> write_input \<Rightarrow> jstr \<Rightarrow> jstr \<Rightarrow> entry_outcome \<Rightarrow> write_world \<Rightarrow> write_world" where
  "overlay_effects env i memoryId written out w =
     (case (wi_overlay i, lockKeyFromMetadata (wi_metadata i)) of
        (Some oh, Some lk) \<Rightarrow>
          (let e = buildOverlayEntry (now_ms env) oh (wi_userId i) memoryId written lk out;
               reg = (if out = Entry_supersede then snd (registry_delete (wi_userId i) lk (ww_overlay w))
                      else ww_overlay w)
           in w\<lparr>ww_overlay := registry_put (now_ms env) (oh_options oh) (wi_userId i) lk e reg,
                ww_events := ww_events w @ emitMemoryCommitted oh e @ emitMemoryIndexed oh e\<rparr>)
      | _ \<Rightarrow> w)"

definition emitJudgeLedgerAfterApplied :: "write_deps \<Rightarrow> write_context \<Rightarrow> write_world \<Rightarrow> write_world" where
  "emitJudgeLedgerAfterApplied deps ctx w =
     (case jd_ledger (wc_decision ctx) of
        None \<Rightarrow> w
      | Some row \<Rightarrow>
          (let payload = row\<lparr>lr_appliedOutcome := dec_outcome (wc_decision ctx),
                             lr_userId := wi_userId (wc_input ctx),
                             lr_scope := scope_name (wi_scope (wc_input ctx))\<rparr>;
               (ok, w1) = issue deps (Log_judge_ledger payload) w
           in if ok then w1 else w1\<lparr>ww_ledgerFailures := ww_ledgerFailures w1 + 1\<rparr>))"

definition shadow_label :: "judged_decision \<Rightarrow> shadow_outcome" where
  "shadow_label d =
     (if dec_outcome d = Judge \<or> jd_unresolved d \<noteq> None then Judge_pending else Final (dec_outcome d))"

definition flags_of :: "resolve_params \<Rightarrow> live_flags" where
  "flags_of p =
     \<lparr>lf_cueGate = rp_cueGate p, lf_temporalGuard = rp_temporalGuard p,
      lf_keepBothGuard = rp_keepBothGuard p, lf_addSkipGuard = rp_additiveSkipGuard p,
      lf_judgeGate = rp_judgeEnabled p, lf_f2JudgeConfirm = rp_f2JudgeConfirm p,
      lf_atomicIdentityProof = rp_atomicAuthority p,
      lf_f2RequireValueChange = rp_f2RequireValueChange p,
      lf_mergeKeepBothOnFusion = rp_mergeKeepBothOnFusion p\<rparr>"

definition shadow_row_of :: "write_context \<Rightarrow> judged_decision \<Rightarrow> arbitration_decision \<Rightarrow> jstr option \<Rightarrow> shadow_row" where
  "shadow_row_of ctx would baseline appliedMemoryId =
     (let i = wc_input ctx; wouldOutcome = shadow_label would;
          baselineOutcome = shadow_label (unjudged baseline)
      in \<lparr>sr_appliedMemoryId = appliedMemoryId, sr_userId = wi_userId i, sr_scope = wi_scope i,
          sr_sessionId = wi_sessionId i, sr_source = wi_source i,
          sr_appliedOutcome = dec_outcome (wc_decision ctx), sr_baselineOutcome = baselineOutcome,
          sr_wouldOutcome = wouldOutcome,
          sr_diverged = (wouldOutcome \<noteq> Judge_pending \<and> baselineOutcome \<noteq> wouldOutcome),
          sr_liveFlags = flags_of (wc_params ctx),
          sr_wouldMatchedId = map_option sc_id (dec_candidate would),
          sr_wouldCosine = map_option sc_similarity (dec_candidate would),
          sr_wouldSignal = dec_supersedeSignal would, sr_wouldReason = dec_reason would,
          sr_wouldBand = dec_band would,
          sr_baselineMatchedId = map_option sc_id (dec_candidate baseline),
          sr_baselineBand = dec_band baseline, sr_incomingTextTrunc = take 200 (wi_text i),
          sr_wouldNominationBlocked = dec_blockedNomination would,
          sr_referentVerdict = dec_referentVerdict would, sr_referentProof = dec_referentProof would,
          sr_incomingTextFull = wi_text i, sr_incomingTags = incomingTags (wi_metadata i),
          sr_candidateSnapshot = dec_snapshot would, sr_correlationId = wi_shadowCorrelationId i,
          sr_writeEventId = wc_writeEventId ctx\<rparr>)"

text \<open>The shadow row is fired and forgotten: whether it is stored changes nothing.\<close>

definition emitShadow :: "write_deps \<Rightarrow> write_context \<Rightarrow> jstr option \<Rightarrow> write_world \<Rightarrow> write_world" where
  "emitShadow deps ctx appliedMemoryId w =
     (case wc_shadow ctx of
        None \<Rightarrow> w
      | Some (would, baseline) \<Rightarrow> snd (issue deps (Log_shadow (shadow_row_of ctx would baseline appliedMemoryId)) w))"

definition spread_fields :: "jval \<Rightarrow> (pkey \<times> jval) list" where
  "spread_fields v = (case v of JObj _ fs \<Rightarrow> fs | _ \<Rightarrow> [])"

definition appliedMetadataWithProvenance :: "judged_decision \<Rightarrow> jval \<Rightarrow> applied_metadata" where
  "appliedMetadataWithProvenance d base =
     (if dec_supersedeSignal d = None \<and> jd_provenance d = None
      then \<lparr>am_base = base, am_supersedeSignal = None, am_provenance = None\<rparr>
      else \<lparr>am_base = JObj True (spread_fields base), am_supersedeSignal = dec_supersedeSignal d,
            am_provenance = jd_provenance d\<rparr>)"

section \<open>The four outcomes\<close>

definition apply_skip :: "js_env \<Rightarrow> write_deps \<Rightarrow> write_context \<Rightarrow> write_step" where
  "apply_skip env deps ctx w =
     (let i = wc_input ctx; d = wc_decision ctx; matched = map_option sc_id (dec_candidate d);
          w1 = remember env i (wi_text i) (wi_embedding i) w;
          w2 = emitJudgeLedgerAfterApplied deps ctx w1;
          w3 = emitShadow deps ctx None w2
      in (Inr \<lparr>ar_outcome = Skip, ar_memoryId = matched, ar_mergedIntoId = None,
               ar_matchedMemoryId = matched, ar_reason = Decided (dec_reason d)\<rparr>, w3))"

definition continuity_of :: "jval \<Rightarrow> continuity_update" where
  "continuity_of metadata =
     \<lparr>cu_memoryRole = jget metadata ''memoryRole'', cu_validAt = jget metadata ''validAt'',
      cu_continuitySubjectKey = jget metadata ''continuitySubjectKey''\<rparr>"

definition apply_merge :: "js_env \<Rightarrow> write_deps \<Rightarrow> write_context \<Rightarrow> write_step" where
  "apply_merge env deps ctx w =
     (let i = wc_input ctx; d = wc_decision ctx;
          mergedText = (case dec_mergedText d of Some t \<Rightarrow> t | None \<Rightarrow> wi_text i)
      in case (if normalizeText mergedText = normalizeText (wi_text i) then Some (wi_embedding i)
               else wd_embed deps mergedText) of
           None \<Rightarrow> (Inl Embedding_failed, w)
         | Some mergedEmbedding \<Rightarrow>
             (case dec_candidate d of
                None \<Rightarrow> (Inl Missing_candidate, w)
              | Some c \<Rightarrow>
                  (let action = mergeAtomicFactAction (sc_atomicFact c) (jget (wi_metadata i) ''atomicFact'');
                       (ok, w1) = issue deps
                         (Update_memory_text (sc_id c) mergedText mergedEmbedding (effective_source i) action
                           (continuity_of (wi_metadata i)) (target_table i)) w
                   in if \<not> ok then (Inl Mutation_failed, w1)
                      else let w2 = remember env i mergedText mergedEmbedding w1;
                               w3 = overlay_effects env i (sc_id c) mergedText Entry_merge_update w2;
                               w4 = emitShadow deps ctx (Some (sc_id c)) w3
                           in (Inr \<lparr>ar_outcome = Merge_update, ar_memoryId = Some (sc_id c),
                                    ar_mergedIntoId = Some (sc_id c), ar_matchedMemoryId = Some (sc_id c),
                                    ar_reason = Decided (dec_reason d)\<rparr>, w4))))"

definition apply_supersede :: "js_env \<Rightarrow> write_deps \<Rightarrow> write_context \<Rightarrow> write_step" where
  "apply_supersede env deps ctx w =
     (let i = wc_input ctx; d = wc_decision ctx; newId = wc_newId ctx;
          rm = \<lparr>rm_id = newId, rm_l2 = wi_text i, rm_userId = wi_userId i, rm_embedding = wi_embedding i,
                rm_metadata = appliedMetadataWithProvenance d (wi_metadata i), rm_scope = wi_scope i,
                rm_sessionId = wi_sessionId i, rm_writeSource = effective_source i\<rparr>
      in case dec_candidate d of
           None \<Rightarrow> (Inl Missing_candidate, w)
         | Some c \<Rightarrow>
             (let (ok, w1) = issue deps (Supersede_memory c rm (target_table i)) w
              in if \<not> ok then (Inl Mutation_failed, w1)
                 else let w2 = remember env i (wi_text i) (wi_embedding i) w1;
                          w3 = overlay_effects env i newId (wi_text i) Entry_supersede w2;
                          w4 = emitJudgeLedgerAfterApplied deps ctx w3;
                          w5 = emitShadow deps ctx (Some newId) w4
                      in (Inr \<lparr>ar_outcome = Supersede, ar_memoryId = Some newId, ar_mergedIntoId = None,
                               ar_matchedMemoryId = Some (sc_id c), ar_reason = Decided (dec_reason d)\<rparr>, w5)))"

definition create_base :: "write_input \<Rightarrow> jval" where
  "create_base i =
     JObj True (put_field (KStr ''arbitrationOutcome'') (JStr ''create'')
       (put_field (KStr ''writeSource'') (effective_source i) (spread_fields (wi_metadata i))))"

definition apply_create :: "js_env \<Rightarrow> write_deps \<Rightarrow> write_context \<Rightarrow> write_step" where
  "apply_create env deps ctx w =
     (let i = wc_input ctx; d = wc_decision ctx; newId = wc_newId ctx;
          (ok, w1) = issue deps
            (Upsert_memory newId (wi_text i) (wi_userId i) (wi_embedding i)
              (appliedMetadataWithProvenance d (create_base i)) (wi_scope i) (wi_sessionId i) (target_table i)) w
      in if \<not> ok then (Inl Mutation_failed, w1)
         else let w2 = remember env i (wi_text i) (wi_embedding i) w1;
                  w3 = overlay_effects env i newId (wi_text i) Entry_create w2;
                  w4 = emitJudgeLedgerAfterApplied deps ctx w3;
                  w5 = emitShadow deps ctx (Some newId) w4
              in (Inr \<lparr>ar_outcome = Create, ar_memoryId = Some newId, ar_mergedIntoId = None,
                       ar_matchedMemoryId = None, ar_reason = Decided (dec_reason d)\<rparr>, w5))"

text \<open>A decision that is none of the first three is applied as a create.\<close>

definition apply_outcome :: "js_env \<Rightarrow> write_deps \<Rightarrow> write_context \<Rightarrow> write_step" where
  "apply_outcome env deps ctx =
     (case dec_outcome (wc_decision ctx) of
        Skip \<Rightarrow> apply_skip env deps ctx
      | Merge_update \<Rightarrow> apply_merge env deps ctx
      | Supersede \<Rightarrow> apply_supersede env deps ctx
      | _ \<Rightarrow> apply_create env deps ctx)"

section \<open>The shadow lanes\<close>

definition would_decision ::
  "js_env \<Rightarrow> write_deps \<Rightarrow> write_input \<Rightarrow> resolve_params \<Rightarrow> int \<Rightarrow> recent_write list
     \<Rightarrow> similar_candidate list \<Rightarrow> judged_decision" where
  "would_decision env deps i p shadowNow recent similar =
     (let would = resolveDecision env (would_params p shadowNow) (wi_text i) recent similar (wi_embedding i)
      in case (dec_outcome would, wi_shadowJudge i, dec_supersedeSignal would, dec_candidate would) of
           (Judge, Some handle, Some sig, Some c) \<Rightarrow>
             (if isF2SupersedeSignal sig
              then (fst (resolveJudgeDecision env
                      \<lparr>jp_judge = Some handle, jp_temporalGuard = True, jp_validAt = rp_validAt p,
                       jp_tier = rp_tier p, jp_arbitrationNow = shadowNow, jp_f2ConfirmOrigin = True,
                       jp_decisionId = wd_uuid deps 3, jp_decisionTs = wd_iso deps (now_ms env)\<rparr>
                      would c (wi_text i)))\<lparr>jd_ledger := None, jd_provenance := None\<rparr>
              else unjudged would)
         | _ \<Rightarrow> unjudged would)"

definition shadow_lanes ::
  "js_env \<Rightarrow> write_deps \<Rightarrow> write_input \<Rightarrow> resolve_params \<Rightarrow> recent_write list \<Rightarrow> similar_candidate list
     \<Rightarrow> (judged_decision \<times> arbitration_decision) option" where
  "shadow_lanes env deps i p recent similar =
     (if \<not> supersedeShadowEnabled (wd_vars deps) then None
      else let shadowNow = (case wi_nowMs i of Some n \<Rightarrow> n | None \<Rightarrow> now_ms env)
           in Some (would_decision env deps i p shadowNow recent similar,
                    resolveDecision env (baseline_params p shadowNow) (wi_text i) recent similar
                      (wi_embedding i)))"

definition frame_source :: "write_deps \<Rightarrow> write_input \<Rightarrow> int \<Rightarrow> jstr \<times> jstr" where
  "frame_source deps i laneClockMs =
     (case wi_frameSource i of
        Some f \<Rightarrow> f
      | None \<Rightarrow> (''organic'', ''organic:'' @ take 10 (wd_iso deps laneClockMs)))"

definition failed_attempt :: "write_deps \<Rightarrow> write_input \<Rightarrow> jstr \<Rightarrow> int \<Rightarrow> attempt_row" where
  "failed_attempt deps i writeEventId laneClockMs =
     \<lparr>at_writeEventId = writeEventId, at_class = Computation_failed, at_pairKey = None,
      at_selectionHash = None, at_retiredCandidateId = None, at_manifestKeys = None,
      at_stratum = fst (frame_source deps i laneClockMs), at_frameId = snd (frame_source deps i laneClockMs),
      at_replayStepId = wi_shadowCorrelationId i, at_errorDetail = Some ''computation_failed''\<rparr>"

definition attempt_of ::
  "js_env \<Rightarrow> write_deps \<Rightarrow> write_input \<Rightarrow> jstr \<Rightarrow> isolated_evaluation \<Rightarrow> activation_class \<Rightarrow> attempt_row" where
  "attempt_of env deps i writeEventId ev cls =
     (let retired = (if cls = Safety_activation then ie_retiredCandidateId ev else None);
          pairKey = map_option (atomicPairKey writeEventId) retired;
          frame = frame_source deps i (ie_laneClockMs ev)
      in \<lparr>at_writeEventId = writeEventId, at_class = cls, at_pairKey = pairKey,
          at_selectionHash = map_option (sha256_hex env) pairKey, at_retiredCandidateId = retired,
          at_manifestKeys = Some (map nr_candidateId (ie_nominations ev)),
          at_stratum = fst frame, at_frameId = snd frame,
          at_replayStepId = wi_shadowCorrelationId i, at_errorDetail = None\<rparr>)"

text \<open>
  The isolated evaluation and the attempt row that must be stored before anything is applied:
  False when the write has to stop, else the evaluation whose artifacts are emitted later.
\<close>

definition attempt_boundary ::
  "js_env \<Rightarrow> write_deps \<Rightarrow> write_input \<Rightarrow> jstr \<Rightarrow> isolated_evaluation \<Rightarrow> int \<Rightarrow> write_world
     \<Rightarrow> (bool \<times> isolated_evaluation option) \<times> write_world" where
  "attempt_boundary env deps i writeEventId ev laneClockMs w =
     (if \<not> supersedeShadowEnabled (wd_vars deps) then ((True, None), w)
      else if wd_evaluationThrows deps
      then (let (ok, w1) = issue deps (Create_attempt (failed_attempt deps i writeEventId laneClockMs)) w
            in ((ok, None), w1))
      else (case ie_activationClass ev of
              None \<Rightarrow> ((True, None), w)
            | Some cls \<Rightarrow>
                (let (ok, w1) = issue deps (Create_attempt (attempt_of env deps i writeEventId ev cls)) w
                 in ((ok, Some ev), w1))))"

fun emit_nominations ::
  "write_deps \<Rightarrow> jstr \<Rightarrow> nomination_record list \<Rightarrow> write_world \<Rightarrow> bool \<times> write_world" where
  "emit_nominations deps writeEventId [] w = (True, w)"
| "emit_nominations deps writeEventId (n # ns) w =
     (let (ok, w1) = issue deps (Create_nomination writeEventId n) w
      in if ok then emit_nominations deps writeEventId ns w1 else (False, w1))"

definition finalizeAttempt :: "write_deps \<Rightarrow> jstr \<Rightarrow> jstr list \<Rightarrow> write_world \<Rightarrow> write_world" where
  "finalizeAttempt deps writeEventId manifest w =
     (case wd_readback deps writeEventId of
        None \<Rightarrow> w
      | Some rows \<Rightarrow>
          (if rows_match rows manifest then snd (issue deps (Mark_finalized writeEventId) w) else w))"

definition emitAtomicFrameArtifacts ::
  "write_deps \<Rightarrow> jstr \<Rightarrow> judged_decision \<Rightarrow> isolated_evaluation option \<Rightarrow> write_world \<Rightarrow> write_world" where
  "emitAtomicFrameArtifacts deps writeEventId applied evaluation w =
     (case evaluation of
        None \<Rightarrow> w
      | Some ev \<Rightarrow>
          (let d = ie_decision ev;
               (ok, w1) = issue deps (Create_event
                 \<lparr>ev_writeEventId = writeEventId, ev_isolatedOutcome = dec_outcome d,
                  ev_isolatedMatchedId = map_option sc_id (dec_candidate d),
                  ev_isolatedProof = dec_referentProof d,
                  ev_isolatedGuardReason = map_option gk_reason (dec_guardKeepBoth d),
                  ev_judgePending = ie_judgePending ev, ev_incoming = ie_incomingSnapshot ev,
                  ev_candidate = ie_candidateSnapshot ev, ev_laneClockMs = ie_laneClockMs ev,
                  ev_appliedOutcome = dec_outcome applied,
                  ev_appliedMatchedId = map_option sc_id (dec_candidate applied)\<rparr>) w
           in if \<not> ok then w1
              else let (all_ok, w2) = emit_nominations deps writeEventId (ie_nominations ev) w1
                   in if \<not> all_ok then w2
                      else finalizeAttempt deps writeEventId (map nr_candidateId (ie_nominations ev)) w2))"

section \<open>The write\<close>

definition decided_params :: "js_env \<Rightarrow> write_deps \<Rightarrow> write_input \<Rightarrow> resolve_params" where
  "decided_params env deps i =
     live_params env (wd_vars deps) (effective_config (wd_vars deps) (wi_config i)) (wi_judge i \<noteq> None)
       (wi_metadata i) (wi_nowMs i)"

definition prune_clock :: "js_env \<Rightarrow> write_input \<Rightarrow> int" where
  "prune_clock env i = (case wi_nowMs i of Some n \<Rightarrow> n | None \<Rightarrow> now_ms env)"

definition recent_ttl :: "js_env \<Rightarrow> write_deps \<Rightarrow> write_input \<Rightarrow> real" where
  "recent_ttl env deps i = recentWriteTtlMinutes (effective_config (wd_vars deps) (wi_config i)) * 60 * 1000"

definition similar_for :: "js_env \<Rightarrow> write_deps \<Rightarrow> write_input \<Rightarrow> similar_candidate list option" where
  "similar_for env deps i =
     (let config = effective_config (wd_vars deps) (wi_config i)
      in if wi_fingerprintOk i = Some False then Some []
         else wd_similar deps (wi_userId i) (wi_embedding i) (mergeWindowHours config)
                (candidateLimit config) (wi_scope i) (wi_sessionId i) (target_table i) (wi_nowMs i))"

definition recent_for :: "js_env \<Rightarrow> write_deps \<Rightarrow> write_input \<Rightarrow> write_world \<Rightarrow> recent_write list" where
  "recent_for env deps i w =
     cached (prunedRecentWritesView (ww_recent w) (recent_ttl env deps i) (prune_clock env i))
       (getRecentWriteKey env (wi_userId i) (wi_scope i) (wi_sessionId i))"

definition with_identity :: "write_input \<Rightarrow> judged_decision \<Rightarrow> judged_decision" where
  "with_identity i d =
     d\<lparr>jd_ledger := map_option
         (\<lambda>row. row\<lparr>lr_userId := wi_userId i, lr_scope := scope_name (wi_scope i)\<rparr>) (jd_ledger d)\<rparr>"

definition context_of ::
  "js_env \<Rightarrow> write_deps \<Rightarrow> write_input \<Rightarrow> similar_candidate list \<Rightarrow> write_world \<Rightarrow> write_context" where
  "context_of env deps i similar w =
     (let p = decided_params env deps i; recent = recent_for env deps i w
      in \<lparr>wc_input = i,
          wc_decision = with_identity i
            (decideWrite env p (wi_judge i) (wd_uuid deps 1) (wd_iso deps (now_ms env)) (wi_text i) recent
               similar (wi_embedding i)),
          wc_params = p, wc_shadow = shadow_lanes env deps i p recent similar,
          wc_writeEventId = wd_uuid deps 0, wc_newId = wd_uuid deps 2\<rparr>)"

definition evaluation_of ::
  "js_env \<Rightarrow> write_deps \<Rightarrow> write_input \<Rightarrow> similar_candidate list \<Rightarrow> write_world \<Rightarrow> isolated_evaluation" where
  "evaluation_of env deps i similar w =
     computeAtomicIsolatedEvaluation env (decided_params env deps i) (wi_text i) (recent_for env deps i w)
       similar (wi_embedding i) (wc_decision (context_of env deps i similar w))
       (jget (wi_metadata i) ''atomicFact'')"

definition prune_step :: "js_env \<Rightarrow> write_deps \<Rightarrow> write_input \<Rightarrow> write_world \<Rightarrow> write_world" where
  "prune_step env deps i w =
     w\<lparr>ww_recent := pruneRecentWrites (ww_recent w) (recent_ttl env deps i) (prune_clock env i)\<rparr>"

definition arbitrateWrite :: "js_env \<Rightarrow> write_deps \<Rightarrow> write_input \<Rightarrow> write_step" where
  "arbitrateWrite env deps i w =
     (if js_trim (wi_text i) = []
      then (Inr \<lparr>ar_outcome = Skip, ar_memoryId = None, ar_mergedIntoId = None,
                 ar_matchedMemoryId = None, ar_reason = Empty_text\<rparr>, w)
      else case similar_for env deps i of
        None \<Rightarrow> (Inl Similarity_failed, w)
      | Some similar \<Rightarrow>
          (let ctx = context_of env deps i similar w;
               ((go, evaluation), w1) =
                 attempt_boundary env deps i (wc_writeEventId ctx) (evaluation_of env deps i similar w)
                   (rp_laneClock (wc_params ctx)) w
           in if \<not> go then (Inl Attempt_failed, w1)
              else let w2 = prune_step env deps i w1;
                       w3 = emitAtomicFrameArtifacts deps (wc_writeEventId ctx) (wc_decision ctx) evaluation w2
                   in apply_outcome env deps ctx w3))"

end
