(* ===== verification/Write_Effects.thy ===== *)
theory Write_Effects
  imports Write_Application Write_Judge_Laws Overlay_Contract
begin

text \<open>
  What one write does to the world: which mutation it issues, what a failed write leaves behind,
  that the shadow lanes only observe, and that the writer reads its own write from the overlay.
\<close>

section \<open>Mutations and audit rows\<close>

text \<open>The record and text a call stores, for the three calls that change a memory.\<close>

definition stores :: "db_call \<Rightarrow> (jstr \<times> jstr) option" where
  "stores c =
     (case c of
        Update_memory_text mid t e src act cu tab \<Rightarrow> Some (mid, t)
      | Supersede_memory old rm tab \<Rightarrow> Some (rm_id rm, rm_l2 rm)
      | Upsert_memory mid t u e md sc s tab \<Rightarrow> Some (mid, t)
      | _ \<Rightarrow> None)"

definition mutation :: "db_call \<times> bool \<Rightarrow> bool" where
  "mutation p = (stores (fst p) \<noteq> None)"

lemma stores_simps [simp]:
  "stores (Update_memory_text mid t e src act cu tab) = Some (mid, t)"
  "stores (Supersede_memory old rm tab) = Some (rm_id rm, rm_l2 rm)"
  "stores (Upsert_memory mid t u e md sc s tab) = Some (mid, t)"
  "stores (Log_judge_ledger row) = None" "stores (Create_attempt a) = None" "stores (Create_event ev) = None"
  "stores (Create_nomination wid n) = None" "stores (Mark_finalized wid) = None" "stores (Log_shadow shadow) = None"
  by (simp_all add: stores_def)

text \<open>The core of a world: all but the audit rows and the failure counter.\<close>

definition core :: "write_world \<Rightarrow> recent_cache \<times> registry_state \<times> lifecycle_event list \<times> (db_call \<times> bool) list" where
  "core w = (ww_recent w, ww_overlay w, ww_events w, filter mutation (ww_calls w))"

lemma issue_fst [simp]: "fst (issue deps c w) = (\<not> wd_fails deps c)"
  by (simp add: issue_def)

lemma issue_audit [simp]: "stores c = None \<Longrightarrow> core (snd (issue deps c w)) = core w"
  by (simp add: issue_def core_def mutation_def)

lemma core_ledger [simp]: "core (emitJudgeLedgerAfterApplied deps ctx w) = core w"
  by (simp add: emitJudgeLedgerAfterApplied_def issue_def core_def mutation_def Let_def split: option.split)

lemma core_shadow [simp]: "core (emitShadow deps ctx m w) = core w"
  by (simp add: emitShadow_def split: option.split)

lemma core_nominations [simp]: "core (snd (emit_nominations deps wid ns w)) = core w"
  by (induction ns arbitrary: w) (auto simp: issue_def core_def mutation_def)

lemma core_artifacts [simp]: "core (emitAtomicFrameArtifacts deps wid d ev w) = core w"
proof -
  have fin: "core (finalizeAttempt deps wid m v) = core v" for m v
    by (simp add: finalizeAttempt_def split: option.split)
  have ns: "core v' = core v" if "emit_nominations deps wid ns v = (ok, v')" for ns v v' ok
    using that core_nominations [of deps wid ns v] by simp
  show ?thesis
    by (auto simp: emitAtomicFrameArtifacts_def Let_def issue_def fin split: option.split prod.split dest!: ns)
      (auto simp: core_def mutation_def)
qed

lemma core_boundary [simp]: "core (snd (attempt_boundary env deps i wid ev clock w)) = core w"
  by (auto simp: attempt_boundary_def Let_def issue_def core_def mutation_def split: option.split)

lemma core_fields:
  "core w = core w' \<Longrightarrow> ww_recent w = ww_recent w' \<and> ww_overlay w = ww_overlay w' \<and> ww_events w = ww_events w'
     \<and> filter mutation (ww_calls w) = filter mutation (ww_calls w')"
  by (simp add: core_def)

section \<open>An outcome on the core\<close>

definition shown :: "write_world \<Rightarrow> write_world" where
  "shown w = w\<lparr>ww_calls := filter mutation (ww_calls w), ww_ledgerFailures := 0\<rparr>"

lemma shown_core: "shown w = shown w' \<longleftrightarrow> core w = core w'"
  by (cases w; cases w') (auto simp: shown_def core_def)

text \<open>The effects of a stored write, as the three branches share them.\<close>

definition stored_effects ::
  "js_env \<Rightarrow> write_input \<Rightarrow> db_call \<Rightarrow> jstr \<Rightarrow> jstr \<Rightarrow> real list \<Rightarrow> entry_outcome \<Rightarrow> write_world \<Rightarrow> write_world" where
  "stored_effects env i c mid written emb out w =
     overlay_effects env i mid written out
       (remember env i written emb (w\<lparr>ww_calls := ww_calls w @ [(c, True)]\<rparr>))"

lemma core_effects:
  assumes "stores c \<noteq> None"
  shows "core (stored_effects env i c mid t e out w) = core (stored_effects env i c mid t e out (shown w))"
  using assms
  by (simp add: stored_effects_def overlay_effects_def remember_def core_def shown_def mutation_def Let_def
      split: option.split)

lemma core_effects_cong:
  assumes "stores c \<noteq> None" and "core w = core w'"
  shows "core (stored_effects env i c mid t e out w) = core (stored_effects env i c mid t e out w')"
proof -
  have "shown w = shown w'" using assms(2) by (simp add: shown_core)
  then show ?thesis
    using core_effects [OF assms(1), of env i mid t e out w] core_effects [OF assms(1), of env i mid t e out w']
    by simp
qed

text \<open>What an applied decision is, seen on the core: nothing stored, or one call stored and its effects.\<close>

datatype applied_plan =
    Plan_skip
  | Plan_fail write_failure "db_call option"
  | Plan_store db_call jstr jstr "real list" entry_outcome

definition plan_of :: "write_deps \<Rightarrow> write_context \<Rightarrow> applied_plan" where
  "plan_of deps ctx =
     (let i = wc_input ctx; d = wc_decision ctx; newId = wc_newId ctx;
          mergedText = (case dec_mergedText d of Some t \<Rightarrow> t | None \<Rightarrow> wi_text i);
          try = (\<lambda>c mid t e out. if wd_fails deps c then Plan_fail Mutation_failed (Some c)
                                else Plan_store c mid t e out)
      in case dec_outcome d of
           Skip \<Rightarrow> Plan_skip
         | Merge_update \<Rightarrow>
             (case (if normalizeText mergedText = normalizeText (wi_text i) then Some (wi_embedding i)
                    else wd_embed deps mergedText) of
                None \<Rightarrow> Plan_fail Embedding_failed None
              | Some e \<Rightarrow>
                  (case dec_candidate d of
                     None \<Rightarrow> Plan_fail Missing_candidate None
                   | Some c \<Rightarrow>
                       try (Update_memory_text (sc_id c) mergedText e (effective_source i)
                              (mergeAtomicFactAction (sc_atomicFact c) (jget (wi_metadata i) ''atomicFact''))
                              (continuity_of (wi_metadata i)) (target_table i))
                         (sc_id c) mergedText e Entry_merge_update))
         | Supersede \<Rightarrow>
             (case dec_candidate d of
                None \<Rightarrow> Plan_fail Missing_candidate None
              | Some c \<Rightarrow>
                  try (Supersede_memory c
                         \<lparr>rm_id = newId, rm_l2 = wi_text i, rm_userId = wi_userId i,
                          rm_embedding = wi_embedding i,
                          rm_metadata = appliedMetadataWithProvenance d (wi_metadata i),
                          rm_scope = wi_scope i, rm_sessionId = wi_sessionId i,
                          rm_writeSource = effective_source i\<rparr> (target_table i))
                    newId (wi_text i) (wi_embedding i) Entry_supersede)
         | _ \<Rightarrow>
             try (Upsert_memory newId (wi_text i) (wi_userId i) (wi_embedding i)
                    (appliedMetadataWithProvenance d (create_base i)) (wi_scope i) (wi_sessionId i)
                    (target_table i))
               newId (wi_text i) (wi_embedding i) Entry_create)"

definition outcome_of :: "entry_outcome \<Rightarrow> outcome" where
  "outcome_of out = (case out of Entry_create \<Rightarrow> Create | Entry_merge_update \<Rightarrow> Merge_update | Entry_supersede \<Rightarrow> Supersede)"

lemma plan_store:
  assumes "plan_of deps ctx = Plan_store c mid t e out"
  shows "stores c = Some (mid, t) \<and> \<not> wd_fails deps c
    \<and> (out \<noteq> Entry_merge_update \<longrightarrow> mid = wc_newId ctx \<and> t = wi_text (wc_input ctx))"
  using assms
  by (auto simp: plan_of_def Let_def split: outcome.splits option.splits if_splits)

lemma apply_plan:
  "case plan_of deps ctx of
     Plan_skip \<Rightarrow>
       (\<exists>r. fst (apply_outcome env deps ctx w) = Inr r \<and> ar_outcome r = Skip)
       \<and> core (snd (apply_outcome env deps ctx w))
           = core (remember env (wc_input ctx) (wi_text (wc_input ctx)) (wi_embedding (wc_input ctx)) w)
   | Plan_fail f c \<Rightarrow>
       fst (apply_outcome env deps ctx w) = Inl f
       \<and> snd (apply_outcome env deps ctx w)
           = (case c of None \<Rightarrow> w | Some c \<Rightarrow> w\<lparr>ww_calls := ww_calls w @ [(c, False)]\<rparr>)
   | Plan_store c mid t e out \<Rightarrow>
       (\<exists>r. fst (apply_outcome env deps ctx w) = Inr r \<and> ar_outcome r = outcome_of out \<and> ar_memoryId r = Some mid)
       \<and> core (snd (apply_outcome env deps ctx w)) = core (stored_effects env (wc_input ctx) c mid t e out w)"
  by (cases "dec_outcome (wc_decision ctx)"; cases "dec_candidate (wc_decision ctx)")
    (auto simp: plan_of_def apply_outcome_def apply_skip_def apply_merge_def apply_supersede_def
      apply_create_def issue_def stored_effects_def outcome_of_def Let_def split: option.split)

section \<open>One write\<close>

text \<open>The world in which the outcome is applied: audit rows added, the recent writes pruned.\<close>

definition pruned_core ::
  "js_env \<Rightarrow> write_deps \<Rightarrow> write_input \<Rightarrow> write_world \<Rightarrow> write_world \<Rightarrow> bool" where
  "pruned_core env deps i w w2 = (core w2 = core (prune_step env deps i w))"

lemma core_prune: "core w = core w' \<Longrightarrow> core (prune_step env deps i w) = core (prune_step env deps i w')"
  by (simp add: core_def prune_step_def)

lemma arbitrate_cases:
  obtains (empty) "js_trim (wi_text i) = []" "snd (arbitrateWrite env deps i w) = w"
      "\<exists>r. fst (arbitrateWrite env deps i w) = Inr r \<and> ar_outcome r = Skip"
  | (similarity) "similar_for env deps i = None" "arbitrateWrite env deps i w = (Inl Similarity_failed, w)"
  | (attempt) a where "supersedeShadowEnabled (wd_vars deps)" "wd_fails deps (Create_attempt a)"
      "fst (arbitrateWrite env deps i w) = Inl Attempt_failed" "core (snd (arbitrateWrite env deps i w)) = core w"
  | (applied) similar w2 where "similar_for env deps i = Some similar" "js_trim (wi_text i) \<noteq> []"
      "core w2 = core (prune_step env deps i w)"
      "arbitrateWrite env deps i w = apply_outcome env deps (context_of env deps i similar w) w2"
proof (cases "js_trim (wi_text i) = []")
  case True
  then show ?thesis by (intro empty) (simp_all add: arbitrateWrite_def)
next
  case False
  show ?thesis
  proof (cases "similar_for env deps i")
    case None
    with False show ?thesis by (intro similarity) (simp_all add: arbitrateWrite_def)
  next
    case (Some similar)
    define ctx where "ctx = context_of env deps i similar w"
    obtain go evaluation w1
      where b: "attempt_boundary env deps i (wc_writeEventId ctx) (evaluation_of env deps i similar w)
          (rp_laneClock (wc_params ctx)) w = ((go, evaluation), w1)"
      by (metis prod.exhaust)
    have w1: "core w1 = core w"
      using core_boundary [of env deps i "wc_writeEventId ctx" "evaluation_of env deps i similar w"
          "rp_laneClock (wc_params ctx)" w] by (simp add: b)
    show ?thesis
    proof (cases go)
      case True
      let ?w2 = "emitAtomicFrameArtifacts deps (wc_writeEventId ctx) (wc_decision ctx) evaluation
          (prune_step env deps i w1)"
      have "core ?w2 = core (prune_step env deps i w)" using core_prune [OF w1] by simp
      moreover have "arbitrateWrite env deps i w = apply_outcome env deps ctx ?w2"
        using False Some True b by (simp add: arbitrateWrite_def ctx_def Let_def)
      ultimately show ?thesis using applied Some False ctx_def by blast
    next
      case go: False
      from b go have "supersedeShadowEnabled (wd_vars deps)" "\<exists>a. wd_fails deps (Create_attempt a)"
        by (auto simp: attempt_boundary_def issue_def Let_def split: if_splits option.splits)
      moreover have "arbitrateWrite env deps i w = (Inl Attempt_failed, w1)"
        using False Some go b by (simp add: arbitrateWrite_def ctx_def Let_def)
      ultimately show ?thesis using attempt w1 by auto
    qed
  qed
qed

lemma core_pruned:
  "core (prune_step env deps i w) =
     (pruneRecentWrites (ww_recent w) (recent_ttl env deps i) (prune_clock env i), ww_overlay w,
      ww_events w, filter mutation (ww_calls w))"
  by (simp add: core_def prune_step_def)

text \<open>C8: A write that throws applies nothing. The overlay and the trace are as before, no mutation
  succeeded, and the recent writes are untouched or only pruned by the clock; when the similarity
  search or the attempt row failed they are untouched.\<close>

theorem failed_write_applies_nothing:
  assumes "arbitrateWrite env deps i w = (Inl f, w')"
  shows "ww_overlay w' = ww_overlay w \<and> ww_events w' = ww_events w
    \<and> filter (\<lambda>p. mutation p \<and> snd p) (ww_calls w') = filter (\<lambda>p. mutation p \<and> snd p) (ww_calls w)
    \<and> ww_recent w' = (if f \<in> {Similarity_failed, Attempt_failed} then ww_recent w
         else pruneRecentWrites (ww_recent w) (recent_ttl env deps i) (prune_clock env i))"
proof -
  have drop: "filter (\<lambda>p. mutation p \<and> snd p) cs = filter snd (filter mutation cs)" for cs
    by simp
  show ?thesis
  proof (cases rule: arbitrate_cases [where i = i and env = env and deps = deps and w = w])
    case empty
    with assms show ?thesis by auto
  next
    case similarity
    with assms show ?thesis by simp
  next
    case attempt
    with assms show ?thesis by (auto simp: core_def drop simp del: filter_filter)
  next
    case (applied similar w2)
    from applied(4) assms have run: "apply_outcome env deps (context_of env deps i similar w) w2 = (Inl f, w')"
      by simp
    obtain g c where plan: "plan_of deps (context_of env deps i similar w) = Plan_fail g c"
      using apply_plan [where ctx = "context_of env deps i similar w" and deps = deps and env = env and w = w2] run
      by (cases "plan_of deps (context_of env deps i similar w)") auto
    then have "f = g" "g \<notin> {Similarity_failed, Attempt_failed}"
        "w' = (case c of None \<Rightarrow> w2 | Some c \<Rightarrow> w2\<lparr>ww_calls := ww_calls w2 @ [(c, False)]\<rparr>)"
      using apply_plan [where ctx = "context_of env deps i similar w" and deps = deps and env = env and w = w2] run
      by (auto simp: plan_of_def Let_def split: outcome.splits option.splits if_splits)
    with core_fields [OF applied(3)] show ?thesis
      by (auto simp: core_pruned drop prune_step_def simp del: filter_filter split: option.splits)
  qed
qed

lemma context_simps [simp]:
  "wc_input (context_of env deps i similar w) = i" "wc_newId (context_of env deps i similar w) = wd_uuid deps 2"
  "wc_params (context_of env deps i similar w) = decided_params env deps i"
  "wc_writeEventId (context_of env deps i similar w) = wd_uuid deps 0"
  by (simp_all add: context_of_def Let_def)

lemma run_plan:
  assumes "arbitrateWrite env deps i w = apply_outcome env deps (context_of env deps i similar w) w2"
    and "core w2 = core (prune_step env deps i w)"
    and "plan_of deps (context_of env deps i similar w) = Plan_store c mid t e out"
  shows "\<exists>r. fst (arbitrateWrite env deps i w) = Inr r \<and> ar_outcome r = outcome_of out \<and> ar_memoryId r = Some mid"
    and "core (snd (arbitrateWrite env deps i w))
      = core (stored_effects env i c mid t e out (prune_step env deps i w))"
proof -
  have "stores c \<noteq> None" using plan_store [OF assms(3)] by simp
  then have "core (stored_effects env i c mid t e out w2)
      = core (stored_effects env i c mid t e out (prune_step env deps i w))"
    using assms(2) by (rule core_effects_cong)
  moreover note apply_plan [where ctx = "context_of env deps i similar w" and deps = deps and env = env and w = w2,
      unfolded assms(3), simplified]
  ultimately show "\<exists>r. fst (arbitrateWrite env deps i w) = Inr r \<and> ar_outcome r = outcome_of out \<and> ar_memoryId r = Some mid"
    "core (snd (arbitrateWrite env deps i w))
      = core (stored_effects env i c mid t e out (prune_step env deps i w))"
    unfolding assms(1) by simp_all
qed

lemma calls_effects [simp]: "ww_calls (stored_effects env i c mid t e out w) = ww_calls w @ [(c, True)]"
  by (simp add: stored_effects_def overlay_effects_def remember_def Let_def split: option.split)

text \<open>C7: A write that returns has stored exactly what it says: for a skip no mutation at all, else exactly
  one, which succeeded, on the record the result names; the record holds the incoming text unless
  the outcome is a merge.\<close>

theorem one_mutation_per_write:
  assumes "arbitrateWrite env deps i w = (Inr r, w')"
  shows "\<exists>new. filter mutation (ww_calls w') = filter mutation (ww_calls w) @ new
    \<and> (if ar_outcome r = Skip then new = []
       else \<exists>c mid t. new = [(c, True)] \<and> stores c = Some (mid, t) \<and> ar_memoryId r = Some mid
              \<and> (ar_outcome r = Merge_update \<or> t = wi_text i \<and> mid = wd_uuid deps 2))"
proof (cases rule: arbitrate_cases [where i = i and env = env and deps = deps and w = w])
  case (applied similar w2)
  let ?ctx = "context_of env deps i similar w"
  have run: "apply_outcome env deps ?ctx w2 = (Inr r, w')" using applied(4) assms by simp
  note plan = apply_plan [where ctx = ?ctx and deps = deps and env = env and w = w2, unfolded run]
  have w2: "filter mutation (ww_calls w2) = filter mutation (ww_calls w)"
    using core_fields [OF applied(3)] by (simp add: prune_step_def)
  show ?thesis
  proof (cases "plan_of deps ?ctx")
    case Plan_skip
    with plan have "ar_outcome r = Skip" "core w' = core (remember env i (wi_text i) (wi_embedding i) w2)"
      by simp_all
    with w2 show ?thesis by (auto simp: core_def remember_def)
  next
    case (Plan_fail f c)
    with plan show ?thesis by simp
  next
    case (Plan_store c mid t e out)
    with plan have "ar_outcome r = outcome_of out" "ar_memoryId r = Some mid"
        "core w' = core (stored_effects env i c mid t e out w2)" by simp_all
    moreover have "ww_calls (stored_effects env i c mid t e out w2) = ww_calls w2 @ [(c, True)]" by simp
    ultimately show ?thesis
      using w2 plan_store [OF Plan_store] core_fields [of w' "stored_effects env i c mid t e out w2"]
      by (cases out) (auto simp: outcome_of_def mutation_def)
  qed
qed (use assms in \<open>auto simp: core_def\<close>)

lemma apply_outcome_cong:
  assumes "wc_input ctx' = wc_input ctx" "wc_decision ctx' = wc_decision ctx" "wc_newId ctx' = wc_newId ctx"
    and "wd_fails deps' = wd_fails deps" "wd_embed deps' = wd_embed deps" and "core w = core w'"
  shows "fst (apply_outcome env deps ctx w) = fst (apply_outcome env deps' ctx' w')
    \<and> core (snd (apply_outcome env deps ctx w)) = core (snd (apply_outcome env deps' ctx' w'))"
proof
  show "fst (apply_outcome env deps ctx w) = fst (apply_outcome env deps' ctx' w')"
    using assms(1-5)
    by (auto simp: apply_outcome_def apply_skip_def apply_merge_def apply_supersede_def apply_create_def
        issue_def Let_def split: outcome.split option.split)
  have plans: "plan_of deps' ctx' = plan_of deps ctx" unfolding plan_of_def assms(1-5) by (rule refl)
  note left = apply_plan [where ctx = ctx and deps = deps and env = env and w = w]
  note right = apply_plan [where ctx = ctx' and deps = deps' and env = env and w = w', unfolded plans]
  show "core (snd (apply_outcome env deps ctx w)) = core (snd (apply_outcome env deps' ctx' w'))"
  proof (cases "plan_of deps ctx")
    case Plan_skip
    with left right assms(1,6) show ?thesis by (simp add: remember_def core_def)
  next
    case (Plan_fail f c)
    with left right assms(6) show ?thesis by (auto simp: core_def split: option.split)
  next
    case (Plan_store c mid t e out)
    with left right assms(1) core_effects_cong [OF _ assms(6), of c env "wc_input ctx" mid t e out] plan_store [OF Plan_store]
    show ?thesis by simp
  qed
qed

text \<open>What the shadow flag does not reach.\<close>

lemma without_shadow:
  fixes deps :: write_deps
  defines "off \<equiv> deps\<lparr>wd_vars := (wd_vars deps)(''RUNIR_SUPERSEDE_SHADOW'' := None)\<rparr>"
  shows "similar_for env off i = similar_for env deps i" "recent_ttl env off i = recent_ttl env deps i"
    "decided_params env off i = decided_params env deps i" "recent_for env off i w = recent_for env deps i w"
proof -
  have cfg: "effective_config (wd_vars off) c = effective_config (wd_vars deps) c" for c
    by (simp add: off_def effective_config_def resolvedFloor_def)
  show "similar_for env off i = similar_for env deps i" "recent_ttl env off i = recent_ttl env deps i"
    using cfg by (simp_all add: similar_for_def recent_ttl_def off_def Let_def cong: if_cong)
  then show "recent_for env off i w = recent_for env deps i w" by (simp add: recent_for_def)
  have "live_params env (wd_vars off) c j md n = live_params env (wd_vars deps) c j md n" for c j md n
    by (simp add: live_params_def off_def cueGateEnabled_def judgeGateEnabled_def f2JudgeConfirmEnabled_def
        f2RequireValueChangeEnabled_def mergeKeepBothOnFusionEnabled_def mergeKeepBothGuardEnabled_def
        additiveSkipGuardEnabled_def supersedeTemporalGuardEnabled_def atomicFactIdentityProofEnabled_def
        gate_on_def)
  then show "decided_params env off i = decided_params env deps i" by (simp add: decided_params_def cfg)
qed

lemma context_without_shadow:
  "wc_decision (context_of env (deps\<lparr>wd_vars := (wd_vars deps)(''RUNIR_SUPERSEDE_SHADOW'' := None)\<rparr>) i similar w)
     = wc_decision (context_of env deps i similar w)"
  by (simp add: context_of_def Let_def without_shadow)

text \<open>C28: The shadow lanes only observe. A write with the shadow flag on either stops at a failed attempt row,
  before anything is applied, or returns the same result, leaves the same caches and trace and
  issues the same mutations as with the flag off.\<close>

theorem shadow_observe_only:
  fixes env deps i w
  defines "off \<equiv> deps\<lparr>wd_vars := (wd_vars deps)(''RUNIR_SUPERSEDE_SHADOW'' := None)\<rparr>"
  shows "(fst (arbitrateWrite env deps i w) = Inl Attempt_failed \<and> (\<exists>a. wd_fails deps (Create_attempt a))
      \<and> core (snd (arbitrateWrite env deps i w)) = core w)
    \<or> (fst (arbitrateWrite env deps i w) = fst (arbitrateWrite env off i w)
       \<and> core (snd (arbitrateWrite env deps i w)) = core (snd (arbitrateWrite env off i w)))"
proof (cases "js_trim (wi_text i) = [] \<or> similar_for env deps i = None")
  case True
  have "similar_for env off i = similar_for env deps i" by (simp add: off_def without_shadow)
  with True show ?thesis by (auto simp: arbitrateWrite_def)
next
  case False
  then obtain similar where similar: "similar_for env deps i = Some similar" by auto
  have off_similar: "similar_for env off i = Some similar" using similar by (simp add: off_def without_shadow)
  have off_shadow: "\<not> supersedeShadowEnabled (wd_vars off)"
    by (simp add: off_def supersedeShadowEnabled_def gate_on_def)
  obtain w2' where w2': "core w2' = core (prune_step env off i w)"
      "arbitrateWrite env off i w = apply_outcome env off (context_of env off i similar w) w2'"
    using False off_similar off_shadow
    by (cases rule: arbitrate_cases [where i = i and env = env and deps = off and w = w]) auto
  show ?thesis
  proof (cases rule: arbitrate_cases [where i = i and env = env and deps = deps and w = w])
    case attempt
    then show ?thesis by blast
  next
    case (applied similar' w2)
    have "core w2 = core w2'"
      using w2'(1) applied(3) by (simp add: prune_step_def off_def without_shadow core_def)
    moreover have "similar' = similar" using applied(1) similar by simp
    ultimately have "fst (apply_outcome env deps (context_of env deps i similar' w) w2)
          = fst (apply_outcome env off (context_of env off i similar w) w2')
        \<and> core (snd (apply_outcome env deps (context_of env deps i similar' w) w2))
          = core (snd (apply_outcome env off (context_of env off i similar w) w2'))"
      by (intro apply_outcome_cong) (simp_all add: context_without_shadow off_def)
    with applied(4) w2'(2) show ?thesis by simp
  qed (use False similar in auto)
qed

section \<open>Reading the own write\<close>

lemma overlay_after:
  assumes "wi_overlay i = Some oh" and "lockKeyFromMetadata (wi_metadata i) = Some lk"
  shows "ww_overlay (stored_effects env i c mid t e out w) =
      registry_put (now_ms env) (oh_options oh) (wi_userId i) lk
        (buildOverlayEntry (now_ms env) oh (wi_userId i) mid t lk out)
        (if out = Entry_supersede then snd (registry_delete (wi_userId i) lk (ww_overlay w)) else ww_overlay w)"
    and "ww_events (stored_effects env i c mid t e out w) = ww_events w
      @ (if oh_traced oh then [Memory_committed mid lk out (now_ms env), Memory_indexed mid (now_ms env)] else [])"
  using assms
  by (simp_all add: stored_effects_def overlay_effects_def remember_def Let_def buildOverlayEntry_def
      emitMemoryCommitted_def emitMemoryIndexed_def)

lemma returned_plan:
  assumes "arbitrateWrite env deps i w = (Inr r, w')" and "ar_outcome r \<noteq> Skip"
  obtains c mid t e out where "stores c = Some (mid, t)" "ar_outcome r = outcome_of out" "ar_memoryId r = Some mid"
    "out \<noteq> Entry_merge_update \<longrightarrow> t = wi_text i"
    "core w' = core (stored_effects env i c mid t e out (prune_step env deps i w))"
proof (cases rule: arbitrate_cases [where i = i and env = env and deps = deps and w = w])
  case (applied similar w2)
  let ?ctx = "context_of env deps i similar w"
  have run: "apply_outcome env deps ?ctx w2 = (Inr r, w')" using applied(4) assms(1) by simp
  note plan = apply_plan [where ctx = ?ctx and deps = deps and env = env and w = w2, unfolded run]
  show thesis
  proof (cases "plan_of deps ?ctx")
    case (Plan_store c mid t e out)
    with plan assms(2) plan_store [OF Plan_store] run_plan(2) [OF applied(4,3) Plan_store] show thesis
      by (intro that [of c mid t out e]) (auto simp: assms(1))
  qed (use plan assms(2) in auto)
qed (use assms in auto)

text \<open>C9: Read your writes, end to end. A write that stores something under a lock key is what the next read
  of that key returns, with the id the result names and, unless it was merged, the incoming text;
  the trace says committed and then indexed for that id. The overlay has to be well-formed with
  older entries, room for one entry and a positive time to live.\<close>

theorem write_reads_itself:
  assumes run: "arbitrateWrite env deps i w = (Inr r, w')" and stored: "ar_outcome r \<noteq> Skip"
    and handle: "wi_overlay i = Some oh" and key: "lockKeyFromMetadata (wi_metadata i) = Some lk"
    and caps: "0 < oh_ttlMs oh" "1 \<le> oo_globalAggregateCap (oh_options oh)" "1 \<le> oo_perTenantCap (oh_options oh)"
    and reg: "reg_ok (ww_overlay w)" "all_older (now_ms env) (ww_overlay w)"
  shows "\<exists>e. fst (registry_get (now_ms env) (wi_userId i) lk (ww_overlay w')) = Some e
    \<and> ar_memoryId r = Some (oe_memoryId e) \<and> outcome_of (oe_outcome e) = ar_outcome r
    \<and> (ar_outcome r = Merge_update \<or> oe_text e = wi_text i)
    \<and> ww_events w' = ww_events w @ (if oh_traced oh
         then [Memory_committed (oe_memoryId e) lk (oe_outcome e) (now_ms env),
               Memory_indexed (oe_memoryId e) (now_ms env)] else [])"
proof -
  obtain c mid t emb out where p: "stores c = Some (mid, t)" "ar_outcome r = outcome_of out" "ar_memoryId r = Some mid"
      "out \<noteq> Entry_merge_update \<longrightarrow> t = wi_text i"
      "core w' = core (stored_effects env i c mid t emb out (prune_step env deps i w))"
    by (rule returned_plan [OF run stored])
  let ?e = "buildOverlayEntry (now_ms env) oh (wi_userId i) mid t lk out"
  have prune: "ww_overlay (prune_step env deps i w) = ww_overlay w" "ww_events (prune_step env deps i w) = ww_events w"
    by (simp_all add: prune_step_def)
  note after = overlay_after [OF handle key, of env c mid t emb out "prune_step env deps i w", unfolded prune]
  have fits: "fits_now (now_ms env) (oh_options oh) ?e"
    using caps by (simp add: fits_now_def buildOverlayEntry_def live_def)
  have "fst (registry_get (now_ms env) (wi_userId i) lk (ww_overlay w')) = Some ?e"
    using overlay.write_through [OF reg fits] core_fields [OF p(5)] after(1) by simp
  moreover have "ww_events w' = ww_events w
      @ (if oh_traced oh then [Memory_committed mid lk out (now_ms env), Memory_indexed mid (now_ms env)] else [])"
    using core_fields [OF p(5)] after(2) by simp
  ultimately show ?thesis
    using p by (intro exI [of _ ?e]) (auto simp: buildOverlayEntry_def outcome_of_def split: entry_outcome.splits)
qed

text \<open>When the live lane already treats the atomic identity as proof and runs on the lane clock, the
  isolated counterfactual never reports a safety activation: it cannot retire anything the applied
  decision did not retire too.\<close>

theorem no_safety_activation_when_live:
  assumes "atomicFactIdentityProofEnabled (wd_vars deps)" and "wi_nowMs i = Some n"
  shows "ie_activationClass (evaluation_of env deps i similar w) \<noteq> Some Safety_activation
    \<and> ie_retiredCandidateId (evaluation_of env deps i similar w) = None"
proof -
  let ?p = "decided_params env deps i"
  have same: "isolated_params ?p = ?p"
    using assms by (simp add: isolated_params_def decided_params_def live_params_def Let_def)
  let ?d = "resolveDecision env ?p (wi_text i) (recent_for env deps i w) similar (wi_embedding i)"
  let ?a = "wc_decision (context_of env deps i similar w)"
  have "safety_target ?d ?a = None"
  proof (cases "dec_outcome ?d = Supersede")
    case True
    then have "decideWrite env ?p h a b (wi_text i) (recent_for env deps i w) similar (wi_embedding i) = unjudged ?d"
      for h a b by (simp add: decideWrite_def Let_def)
    then have "dec_outcome ?a = Supersede" "dec_candidate ?a = dec_candidate ?d"
      using True by (simp_all add: context_of_def Let_def with_identity_def)
    then show ?thesis by (simp add: safety_target_def split: outcome.split option.split)
  qed (auto simp: safety_target_def split: outcome.split option.split)
  then show ?thesis
    by (simp add: evaluation_of_def computeAtomicIsolatedEvaluation_def Let_def same)
qed

section \<open>A first write\<close>

text \<open>With no recent write and no similar memory every text is created.\<close>

lemma nothing_known:
  "dec_outcome (decideWrite env p h a b written [] [] e) = Create"
proof -
  have "dec_outcome (resolveDecision env p written [] [] e) = Create"
    by (simp add: resolveDecision_def Let_def recent_exact_dup_def store_exact_dup_def findSupersedeTarget_def
        empty_scan_def resolveRemainingBands_def conflict_create_def
        stamp_scan_def split: option.split)
  then show ?thesis by (simp add: decideWrite_def Let_def)
qed

lemma first_write:
  assumes "js_trim (wi_text i) \<noteq> []" "similar_for env deps i = Some []" "ww_recent w = []"
    and "\<not> supersedeShadowEnabled (wd_vars deps)"
  shows "wd_fails deps = (\<lambda>_. False) \<Longrightarrow> \<exists>r. fst (arbitrateWrite env deps i w) = Inr r \<and> ar_outcome r = Create"
    and "wd_fails deps = (\<lambda>_. True) \<Longrightarrow> fst (arbitrateWrite env deps i w) = Inl Mutation_failed"
proof -
  have "recent_for env deps i w = []"
    by (simp add: recent_for_def assms(3) prunedRecentWritesView_def cached_def)
  then have "dec_outcome (wc_decision (context_of env deps i [] w)) = Create"
    by (simp add: context_of_def Let_def with_identity_def nothing_known)
  moreover have "arbitrateWrite env deps i w = apply_outcome env deps (context_of env deps i [] w)
      (prune_step env deps i w)"
    using assms by (simp add: arbitrateWrite_def attempt_boundary_def emitAtomicFrameArtifacts_def Let_def)
  ultimately show "wd_fails deps = (\<lambda>_. False) \<Longrightarrow> \<exists>r. fst (arbitrateWrite env deps i w) = Inr r \<and> ar_outcome r = Create"
    "wd_fails deps = (\<lambda>_. True) \<Longrightarrow> fst (arbitrateWrite env deps i w) = Inl Mutation_failed"
    by (simp_all add: apply_outcome_def apply_create_def issue_def Let_def)
qed

definition demo_deps :: "bool \<Rightarrow> write_deps" where
  "demo_deps broken =
     \<lparr>wd_vars = (\<lambda>_. None), wd_similar = (\<lambda>_ _ _ _ _ _ _ _. Some []), wd_embed = (\<lambda>_. None),
      wd_fails = (\<lambda>_. broken), wd_readback = (\<lambda>_. None), wd_uuid = (\<lambda>n. replicate n (CHR ''i'')),
      wd_iso = (\<lambda>_. []), wd_evaluationThrows = False\<rparr>"

definition demo_input :: write_input where
  "demo_input =
     \<lparr>wi_text = ''port 5'', wi_userId = ''u'', wi_embedding = [1],
      wi_metadata = obj [(''factKey'', JStr ''f''), (''continuitySubjectKey'', JStr ''s'')],
      wi_scope = User_scope, wi_sessionId = None, wi_source = ''agent_end'',
      wi_config = \<lparr>pc_skipThreshold = None, pc_skipWindowHours = None, pc_mergeThreshold = None,
        pc_mergeWindowHours = None, pc_candidateLimit = None, pc_recentWriteTtlMinutes = None,
        pc_supersedeCandidateFloor = None\<rparr>,
      wi_targetTable = None, wi_fingerprintOk = None,
      wi_overlay = Some \<lparr>oh_ttlMs = 4, oh_options = small_caps, oh_traced = True\<rparr>,
      wi_judge = None, wi_shadowJudge = None, wi_nowMs = None, wi_shadowCorrelationId = None,
      wi_frameSource = None\<rparr>"

definition empty_world :: write_world where
  "empty_world = \<lparr>ww_recent = [], ww_overlay = [], ww_events = [], ww_calls = [], ww_ledgerFailures = 0\<rparr>"

lemma demo_key: "lockKeyFromMetadata (wi_metadata demo_input) = Some sample_key"
  by code_simp

lemma demo_text: "js_trim (wi_text demo_input) \<noteq> []"
  by code_simp

lemmas demo_first = first_write [where i = demo_input and w = empty_world, OF demo_text]

lemma demo_simps [simp]:
  "similar_for env (demo_deps b) demo_input = Some []" "ww_recent empty_world = []"
  "\<not> supersedeShadowEnabled (wd_vars (demo_deps b))" "wd_fails (demo_deps b) = (\<lambda>_. b)"
  "ww_overlay empty_world = []" "ww_calls empty_world = []"
  by (simp_all add: similar_for_def Let_def demo_deps_def demo_input_def empty_world_def
      supersedeShadowEnabled_def gate_on_def)

lemma demo_runs:
  "\<exists>r w'. arbitrateWrite some_env (demo_deps False) demo_input empty_world = (Inr r, w') \<and> ar_outcome r = Create"
  "\<exists>w'. arbitrateWrite some_env (demo_deps True) demo_input empty_world = (Inl Mutation_failed, w')"
  using demo_first(1) [of some_env "demo_deps False"] demo_first(2) [of some_env "demo_deps True"]
  by (metis demo_simps prod.collapse)+

theorem failed_write_applies_nothing_witness:
  "ww_overlay (snd (arbitrateWrite some_env (demo_deps True) demo_input empty_world)) = []"
proof -
  obtain w' where run: "arbitrateWrite some_env (demo_deps True) demo_input empty_world = (Inl Mutation_failed, w')"
    using demo_runs(2) by blast
  show ?thesis using failed_write_applies_nothing [OF run] by (simp add: run)
qed

theorem one_mutation_per_write_witness:
  "\<exists>c. filter mutation (ww_calls (snd (arbitrateWrite some_env (demo_deps False) demo_input empty_world))) = [(c, True)]"
proof -
  obtain r w' where run: "arbitrateWrite some_env (demo_deps False) demo_input empty_world = (Inr r, w')"
      "ar_outcome r = Create" using demo_runs(1) by blast
  show ?thesis using one_mutation_per_write [OF run(1)] run(2) by (auto simp: run(1))
qed

theorem write_reads_itself_witness:
  "\<exists>e. fst (registry_get 0 ''u'' sample_key
        (ww_overlay (snd (arbitrateWrite some_env (demo_deps False) demo_input empty_world)))) = Some e
     \<and> oe_text e = ''port 5''"
proof -
  obtain r w' where run: "arbitrateWrite some_env (demo_deps False) demo_input empty_world = (Inr r, w')"
      "ar_outcome r = Create" using demo_runs(1) by blast
  have handle: "wi_overlay demo_input = Some \<lparr>oh_ttlMs = 4, oh_options = small_caps, oh_traced = True\<rparr>"
    "wi_userId demo_input = ''u''" "wi_text demo_input = ''port 5''" "now_ms some_env = 0"
    by (simp_all add: demo_input_def some_env_def)
  have "\<exists>e. fst (registry_get (now_ms some_env) (wi_userId demo_input) sample_key (ww_overlay w')) = Some e
      \<and> ar_memoryId r = Some (oe_memoryId e) \<and> outcome_of (oe_outcome e) = ar_outcome r
      \<and> (ar_outcome r = Merge_update \<or> oe_text e = wi_text demo_input)"
    using write_reads_itself [OF run(1) _ handle(1) demo_key] run(2)
    by (simp add: all_older_def tenant_def) blast
  with run(2) show ?thesis by (auto simp: run(1) handle)
qed

theorem no_safety_activation_when_live_witness:
  "ie_retiredCandidateId (evaluation_of some_env
      ((demo_deps False)\<lparr>wd_vars := (\<lambda>_. Some ''1'')\<rparr>) (demo_input\<lparr>wi_nowMs := Some 0\<rparr>) [] empty_world) = None"
  using no_safety_activation_when_live [of "(demo_deps False)\<lparr>wd_vars := (\<lambda>_. Some ''1'')\<rparr>"
      "demo_input\<lparr>wi_nowMs := Some 0\<rparr>" 0 some_env "[]" empty_world]
  by (simp add: atomicFactIdentityProofEnabled_def gate_on_def)

theorem atomic_frame_complete_witness:
  "distinct (map nr_candidateId (ie_nominations (evaluation_of some_env (demo_deps False) demo_input [stored_lead] empty_world)))"
  unfolding evaluation_of_def by (rule conjunct1 [OF atomic_frame_complete]) simp

end
