(* ===== verification/Write_Interleaving.thy ===== *)
theory Write_Interleaving
  imports Write_Effects
begin

text \<open>
  Concurrent writes. \<open>arbitrateWrite\<close> waits for the database, so other requests run between its
  mutation and its cache effects; the effects themselves run without a pause. The system is the
  world and the writes whose mutation is stored while their effects are due, and its steps are the
  uninterrupted parts. Every run of \<open>arbitrateWrite\<close> is a path of the system, so what holds in every
  reachable state holds between and during writes.
\<close>

section \<open>The system\<close>

datatype pending_write = Pending write_input jstr jstr "real list" entry_outcome

type_synonym system_state = "write_world \<times> pending_write list"

definition cache_effects ::
  "js_env \<Rightarrow> write_input \<Rightarrow> jstr \<Rightarrow> jstr \<Rightarrow> real list \<Rightarrow> entry_outcome \<Rightarrow> write_world \<Rightarrow> write_world" where
  "cache_effects env i mid written embedding out w =
     overlay_effects env i mid written out (remember env i written embedding w)"

definition logged :: "db_call \<Rightarrow> bool \<Rightarrow> write_world \<Rightarrow> write_world" where
  "logged c ok w = w\<lparr>ww_calls := ww_calls w @ [(c, ok)]\<rparr>"

definition with_overlay :: "registry_state \<Rightarrow> write_world \<Rightarrow> write_world" where
  "with_overlay reg w = w\<lparr>ww_overlay := reg\<rparr>"

inductive sys_step :: "system_state \<Rightarrow> system_state \<Rightarrow> bool" where
  store: "stores c = Some (mid, t) \<Longrightarrow> sys_step (w, ps) (logged c True w, Pending i mid t e out # ps)"
| call: "\<not> ok \<or> stores c = None \<Longrightarrow> sys_step (w, ps) (logged c ok w, ps)"
| effects: "sys_step (w, ps @ Pending i mid t e out # qs) (cache_effects env i mid t e out w, ps @ qs)"
| skipped: "sys_step (w, ps) (remember env i t e w, ps)"
| pruned: "sys_step (w, ps) (w\<lparr>ww_recent := pruneRecentWrites (ww_recent w) ttl now\<rparr>, ps)"
| counted: "sys_step (w, ps) (w\<lparr>ww_ledgerFailures := n\<rparr>, ps)"
| read: "sys_step (w, ps) (with_overlay (snd (registry_get now u lk (ww_overlay w))) w, ps)"
| deleted: "sys_step (w, ps) (with_overlay (snd (registry_delete u lk (ww_overlay w))) w, ps)"
| snapshot: "sys_step (w, ps) (with_overlay (snd (registry_snapshot now u (ww_overlay w))) w, ps)"
| swept: "sys_step (w, ps) (with_overlay (expire_all now (ww_overlay w)) w, ps)"

section \<open>The invariant\<close>

definition backed :: "(db_call \<times> bool) list \<Rightarrow> jstr \<Rightarrow> jstr \<Rightarrow> bool" where
  "backed calls mid t = (\<exists>c. (c, True) \<in> set calls \<and> stores c = Some (mid, t))"

definition entries_backed :: "(db_call \<times> bool) list \<Rightarrow> registry_state \<Rightarrow> bool" where
  "entries_backed calls reg =
     (\<forall>u k e. (k, e) \<in> set (tenant reg u) \<longrightarrow> oe_userId e = u \<and> backed calls (oe_memoryId e) (oe_text e))"

definition recent_ok :: "recent_cache \<Rightarrow> bool" where
  "recent_ok m = (distinct (map fst m) \<and> (\<forall>k. length (cached m k) \<le> 20))"

definition system_ok :: "system_state \<Rightarrow> bool" where
  "system_ok s =
     (entries_backed (ww_calls (fst s)) (ww_overlay (fst s)) \<and> recent_ok (ww_recent (fst s))
      \<and> (\<forall>i mid t e out. Pending i mid t e out \<in> set (snd s) \<longrightarrow> backed (ww_calls (fst s)) mid t))"

lemma backed_more: "backed calls mid t \<Longrightarrow> backed (calls @ rest) mid t"
  by (auto simp: backed_def)

lemma tenant_in_le: "set (tenant (in_tenant u f r) v) \<subseteq> (if v = u then set (f (tenant r u)) else set (tenant r v))"
proof (cases "u \<in> fst ` set r")
  case True
  then show ?thesis by (simp add: tenant_in)
next
  case False
  then have "map_of r u = None" by (simp add: map_of_eq_None_iff)
  then show ?thesis by (simp add: tenant_def map_of_in_tenant)
qed

lemma evict_global_le: "set (tenant (evict_global t opts reg) v) \<subseteq> set (tenant reg v)"
proof -
  let ?I = "\<lambda>r. \<forall>v. set (tenant r v) \<subseteq> set (tenant reg v)"
  have expiry: "set (lazyExpire t es) \<subseteq> set es" for es by (auto simp: lazyExpire_def)
  have evict: "set (snd (evictLruHead t es)) \<subseteq> set es" for es
    using expiry [of es] by (auto simp: evictLruHead_def split: list.splits)
  have "?I (evict_in t u r)" if I: "?I r" for u r
  proof
    fix v
    show "set (tenant (evict_in t u r) v) \<subseteq> set (tenant reg v)"
      using tenant_in_le [of u "\<lambda>es. snd (evictLruHead t es)" r v] evict [of "tenant r u"] I
      by (cases "v = u") (simp; blast)+
  qed
  moreover have "?I (expire_all t r)" if I: "?I r" for r
    using I expiry by (simp add: subset_trans [OF expiry])
  ultimately show ?thesis using evict_global_rule [of ?I reg t opts] by blast
qed

lemma put_entries:
  "set (tenant (registry_put t opts u lk e reg) v)
     \<subseteq> set (tenant reg v) \<union> (if v = u then {(serializeLockKey lk, e)} else {})"
proof -
  have evict: "set (evict_tenant t opts es) \<subseteq> set es" for es
    by (auto simp: evict_tenant_drop lazyExpire_def dest!: in_set_dropD)
  have "set (tenant (registry_put t opts u lk e reg) v) \<subseteq> set (tenant (evict_global t opts (inserted u lk e reg)) v)"
    using tenant_in_le [of u "evict_tenant t opts" "evict_global t opts (inserted u lk e reg)" v] evict
    by (auto simp: put_eq split: if_splits)
  also have "\<dots> \<subseteq> set (tenant (inserted u lk e reg) v)" by (rule evict_global_le)
  also have "\<dots> \<subseteq> set (tenant reg v) \<union> (if v = u then {(serializeLockKey lk, e)} else {})"
    by (auto simp: tenant_in store_put_def without_def)
  finally show ?thesis .
qed

lemma backed_sub:
  assumes "entries_backed calls reg"
    and "\<And>u k e. (k, e) \<in> set (tenant reg' u) \<Longrightarrow>
      \<exists>k' e'. (k', e') \<in> set (tenant reg u) \<and> oe_userId e = oe_userId e' \<and> oe_memoryId e = oe_memoryId e'
        \<and> oe_text e = oe_text e'"
  shows "entries_backed calls reg'"
  using assms unfolding entries_backed_def by metis

lemma backed_get: "entries_backed calls reg \<Longrightarrow> entries_backed calls (snd (registry_get t u lk reg))"
  by (erule backed_sub)
    (fastforce simp: registry_get_def Let_def tenant_in store_get_def without_def
      split: if_splits option.splits dest: map_of_SomeD)

lemma backed_delete: "entries_backed calls reg \<Longrightarrow> entries_backed calls (snd (registry_delete u lk reg))"
  by (erule backed_sub)
    (auto simp: registry_delete_def Let_def tenant_in store_delete_def without_def split: if_splits)

lemma backed_snapshot: "entries_backed calls reg \<Longrightarrow> entries_backed calls (snd (registry_snapshot t u reg))"
  by (erule backed_sub)
    (auto simp: registry_snapshot_def Let_def tenant_in store_snapshot_def lazyExpire_def split: if_splits)

lemma backed_sweep: "entries_backed calls reg \<Longrightarrow> entries_backed calls (expire_all t reg)"
  by (erule backed_sub) (auto simp: lazyExpire_def)

lemma backed_put:
  assumes "entries_backed calls reg" and "oe_userId e = u" and "backed calls (oe_memoryId e) (oe_text e)"
  shows "entries_backed calls (registry_put t opts u lk e reg)"
  unfolding entries_backed_def
proof (intro allI impI)
  fix v k e'
  assume "(k, e') \<in> set (tenant (registry_put t opts u lk e reg) v)"
  then have "(k, e') \<in> set (tenant reg v) \<or> (v = u \<and> e' = e)"
    using put_entries [of t opts u lk e reg v] by (auto split: if_splits)
  then show "oe_userId e' = v \<and> backed calls (oe_memoryId e') (oe_text e')"
    using assms unfolding entries_backed_def by blast
qed

lemma cached_length: "recent_ok m \<Longrightarrow> recent_ok (rememberWrite env t e u sc s src now m)"
  by (simp add: recent_ok_def cached_remember) (simp add: rememberWrite_def Let_def)

lemma pruned_ok:
  assumes "recent_ok m" shows "recent_ok (pruneRecentWrites m ttl now)"
proof -
  have d: "distinct (map fst m)" using assms by (simp add: recent_ok_def)
  have "length (cached (pruneRecentWrites m ttl now) k) \<le> length (cached m k)" for k
    by (cases "map_of m k") (simp_all add: cached_def pruned_at [OF d] live_writes_def retained_def)
  with assms d show ?thesis unfolding recent_ok_def by (meson order.trans prune_keys)
qed

lemma effects_ok:
  assumes "system_ok (w, ps)" and "backed (ww_calls w) mid t"
  shows "system_ok (cache_effects env i mid t e out w, ps)"
  using assms cached_length [of "ww_recent w"]
  by (auto simp: system_ok_def cache_effects_def overlay_effects_def remember_def buildOverlayEntry_def Let_def
      intro!: backed_put backed_delete split: option.split)

lemma sys_step_ok: "sys_step s s' \<Longrightarrow> system_ok s \<Longrightarrow> system_ok s'"
proof (induction rule: sys_step.induct)
  case (store c mid t w ps i e out)
  then have "backed (ww_calls w @ [(c, True)]) mid t" by (auto simp: backed_def)
  with store show ?case
    by (simp add: system_ok_def logged_def entries_backed_def) (blast intro: backed_more)
next
  case (call ok c w ps)
  then show ?case
    by (simp add: system_ok_def logged_def entries_backed_def) (blast intro: backed_more)
next
  case (effects w ps i mid t e out qs env)
  then have "backed (ww_calls w) mid t" "system_ok (w, ps @ qs)" by (auto simp: system_ok_def)
  then show ?case by (intro effects_ok)
next
  case (skipped w ps env i t e)
  then show ?case by (simp add: system_ok_def remember_def cached_length)
next
  case (pruned w ps ttl now)
  then show ?case by (simp add: system_ok_def pruned_ok)
qed (simp_all add: system_ok_def with_overlay_def backed_get backed_delete backed_snapshot backed_sweep)

lemma sys_steps_ok: "sys_step\<^sup>*\<^sup>* s s' \<Longrightarrow> system_ok s \<Longrightarrow> system_ok s'"
  by (induction rule: rtranclp_induct) (auto intro: sys_step_ok)

lemma empty_system_ok: "system_ok (empty_world, [])"
  by (simp add: system_ok_def empty_world_def entries_backed_def tenant_def recent_ok_def cached_def)

text \<open>C1: No phantom. However concurrent writes, reads and evictions interleave, every entry a user's
  snapshot shows was written for that user and its id and text were stored by a mutation that
  succeeded; and no partition of recent writes holds more than twenty.\<close>

theorem no_phantom_entries:
  assumes "sys_step\<^sup>*\<^sup>* (empty_world, []) (w, ps)"
  shows "length (cached (ww_recent w) key) \<le> 20
    \<and> list_all (\<lambda>e. oe_userId e = u \<and> backed (ww_calls w) (oe_memoryId e) (oe_text e))
        (fst (registry_snapshot now u (ww_overlay w)))"
proof -
  have "system_ok (w, ps)" using sys_steps_ok [OF assms] empty_system_ok by simp
  then show ?thesis
    by (auto simp: system_ok_def recent_ok_def entries_backed_def registry_snapshot_def store_snapshot_def
        Let_def lazyExpire_def list_all_iff)
qed

section \<open>A write is a path\<close>

abbreviation reach :: "write_world \<Rightarrow> write_world \<Rightarrow> bool" where
  "reach w w' \<equiv> \<forall>ps. sys_step\<^sup>*\<^sup>* (w, ps) (w', ps)"

lemma reach_trans: "reach w w' \<Longrightarrow> reach w' w'' \<Longrightarrow> reach w w''"
  by (blast intro: rtranclp_trans)

lemma reach_issue: "stores c = None \<Longrightarrow> reach w (snd (issue deps c w))"
  using sys_step.call [of "\<not> wd_fails deps c" c w] by (simp add: issue_def logged_def r_into_rtranclp)

lemma reach_failed: "wd_fails deps c \<Longrightarrow> reach w (snd (issue deps c w))"
  using sys_step.call [of "\<not> wd_fails deps c" c w] by (simp add: issue_def logged_def r_into_rtranclp)

lemma reach_ledger: "reach w (emitJudgeLedgerAfterApplied deps ctx w)"
proof (cases "jd_ledger (wc_decision ctx)")
  case (Some row)
  obtain c where c: "stores c = None" and eq: "emitJudgeLedgerAfterApplied deps ctx w =
      (if fst (issue deps c w) then snd (issue deps c w)
       else (snd (issue deps c w))\<lparr>ww_ledgerFailures := ww_ledgerFailures (snd (issue deps c w)) + 1\<rparr>)"
    using Some by (simp add: emitJudgeLedgerAfterApplied_def Let_def split_beta) (metis stores_simps(4))
  have "reach v (v\<lparr>ww_ledgerFailures := n\<rparr>)" for v n using sys_step.counted by blast
  then show ?thesis unfolding eq using reach_issue [OF c, of w deps] by (auto intro: rtranclp_trans)
qed (simp add: emitJudgeLedgerAfterApplied_def)

lemma reach_shadow: "reach w (emitShadow deps ctx m w)"
  using reach_issue [of _ w deps] by (auto simp: emitShadow_def split: option.split)

lemma reach_nominations: "reach w (snd (emit_nominations deps wid ns w))"
proof (induction ns arbitrary: w)
  case (Cons n ns)
  have first: "reach w (snd (issue deps (Create_nomination wid n) w))" by (rule reach_issue) simp
  obtain ok w1 where eq: "issue deps (Create_nomination wid n) w = (ok, w1)" by (cases "issue deps (Create_nomination wid n) w")
  then show ?case using first Cons.IH [of w1] by (auto intro: reach_trans [rule_format])
qed simp

lemma reach_artifacts: "reach w (emitAtomicFrameArtifacts deps wid d ev w)"
proof (cases ev)
  case (Some x)
  have finalize: "reach v (finalizeAttempt deps wid m v)" for m v
    using reach_issue [of "Mark_finalized wid" v deps]
    by (auto simp: finalizeAttempt_def split: option.split)
  obtain row where eq: "emitAtomicFrameArtifacts deps wid d ev w =
      (let (ok, w1) = issue deps (Create_event row) w
       in if \<not> ok then w1
          else let (all_ok, w2) = emit_nominations deps wid (ie_nominations x) w1
               in if \<not> all_ok then w2 else finalizeAttempt deps wid (map nr_candidateId (ie_nominations x)) w2)"
    by (simp add: emitAtomicFrameArtifacts_def Some Let_def)
  obtain ok w1 where w1: "issue deps (Create_event row) w = (ok, w1)"
    by (cases "issue deps (Create_event row) w")
  obtain all_ok w2 where w2: "emit_nominations deps wid (ie_nominations x) w1 = (all_ok, w2)"
    by (cases "emit_nominations deps wid (ie_nominations x) w1")
  have "reach w w1" using reach_issue [of "Create_event row" w deps] by (simp add: w1)
  moreover have "reach w1 w2" using reach_nominations [of w1 deps wid "ie_nominations x"] by (simp add: w2)
  moreover note finalize [of w2 "map nr_candidateId (ie_nominations x)"]
  ultimately show ?thesis by (simp add: eq w1 w2) (blast intro: rtranclp_trans)
qed (simp add: emitAtomicFrameArtifacts_def)

lemma reach_boundary: "reach w (snd (attempt_boundary env deps i wid ev clock w))"
  using reach_issue [of _ w deps] by (auto simp: attempt_boundary_def Let_def split_beta split: option.split)

text \<open>A stored mutation and its effects, then audit rows only.\<close>

lemma reach_stored:
  assumes "stores c = Some (mid, t)"
  shows "reach w (cache_effects env i mid t e out (logged c True w))"
proof
  fix ps
  have "sys_step (w, ps) (logged c True w, Pending i mid t e out # ps)" by (rule sys_step.store [OF assms])
  moreover have "sys_step (logged c True w, [] @ Pending i mid t e out # ps)
      (cache_effects env i mid t e out (logged c True w), [] @ ps)" by (rule sys_step.effects)
  ultimately show "sys_step\<^sup>*\<^sup>* (w, ps) (cache_effects env i mid t e out (logged c True w), ps)"
    by (metis append_Nil r_into_rtranclp rtranclp.rtrancl_into_rtrancl)
qed

lemma reach_audit:
  "reach w w' \<Longrightarrow> reach w (emitShadow deps ctx m (emitJudgeLedgerAfterApplied deps ctx' w'))"
  "reach w w' \<Longrightarrow> reach w (emitShadow deps ctx m w')"
  using reach_ledger [of w' deps ctx'] reach_shadow by (blast intro: rtranclp_trans)+

lemma issue_True: "\<not> wd_fails deps c \<Longrightarrow> issue deps c w = (True, logged c True w)"
  by (simp add: issue_def logged_def)

lemma reach_apply: "reach w (snd (apply_outcome env deps ctx w))"
proof -
  let ?i = "wc_input ctx" and ?d = "wc_decision ctx"
  have skipped: "reach w (remember env ?i t e w)" for t e using sys_step.skipped by blast
  have skip: "reach w (snd (apply_skip env deps ctx w))"
    using reach_audit(1) [OF skipped] by (simp add: apply_skip_def Let_def)
  have merge: "reach w (snd (apply_merge env deps ctx w))"
    using reach_failed [of deps _ w] reach_audit(2) [OF reach_stored]
    by (auto simp: apply_merge_def Let_def split_beta issue_True cache_effects_def split: option.split)
  have supersede: "reach w (snd (apply_supersede env deps ctx w))"
    using reach_failed [of deps _ w] reach_audit(1) [OF reach_stored]
    by (auto simp: apply_supersede_def Let_def split_beta issue_True cache_effects_def split: option.split)
  have create: "reach w (snd (apply_create env deps ctx w))"
    using reach_failed [of deps _ w] reach_audit(1) [OF reach_stored]
    by (auto simp: apply_create_def Let_def split_beta issue_True cache_effects_def)
  show ?thesis using skip merge supersede create by (simp add: apply_outcome_def split: outcome.split)
qed

lemma arbitrate_path:
  "sys_step\<^sup>*\<^sup>* (w, ps) (snd (arbitrateWrite env deps i w), ps)"
proof (cases "js_trim (wi_text i) = [] \<or> similar_for env deps i = None")
  case True
  then show ?thesis by (auto simp: arbitrateWrite_def)
next
  case False
  then obtain similar where similar: "similar_for env deps i = Some similar" by auto
  let ?ctx = "context_of env deps i similar w"
  obtain go evaluation w1
    where b: "attempt_boundary env deps i (wc_writeEventId ?ctx) (evaluation_of env deps i similar w)
        (rp_laneClock (wc_params ?ctx)) w = ((go, evaluation), w1)"
    by (metis prod.exhaust)
  have first: "reach w w1"
    using reach_boundary [of w env deps i "wc_writeEventId ?ctx" "evaluation_of env deps i similar w"
        "rp_laneClock (wc_params ?ctx)"] by (simp only: b snd_conv simp_thms)
  have prune: "reach w1 (prune_step env deps i w1)" using sys_step.pruned by (auto simp: prune_step_def)
  let ?w3 = "emitAtomicFrameArtifacts deps (wc_writeEventId ?ctx) (wc_decision ?ctx) evaluation (prune_step env deps i w1)"
  have "snd (arbitrateWrite env deps i w) = (if go then snd (apply_outcome env deps ?ctx ?w3) else w1)"
    using False similar b by (simp add: arbitrateWrite_def Let_def)
  moreover have "reach w (snd (apply_outcome env deps ?ctx ?w3))"
    using first prune reach_artifacts [of "prune_step env deps i w1" deps "wc_writeEventId ?ctx" "wc_decision ?ctx" evaluation]
      reach_apply [of ?w3 env deps ?ctx]
    by (blast intro: rtranclp_trans)
  ultimately show ?thesis using first by simp
qed

text \<open>C4: Every write, whatever its outcome and whichever of its calls fail, is a path of the interleaved
  system that ends with no effect left pending, from every state and beside any writes in flight; so
  the system's invariant holds before, during and after it.\<close>

theorem write_is_path:
  "sys_step\<^sup>*\<^sup>* (w, ps) (snd (arbitrateWrite env deps i w), ps)
   \<and> (if system_ok (w, ps) then system_ok (snd (arbitrateWrite env deps i w), ps) else True)"
  using arbitrate_path sys_steps_ok [OF arbitrate_path] by simp

theorem no_phantom_entries_witness:
  "list_all (\<lambda>e. oe_userId e = ''u'') (fst (registry_snapshot 0 ''u''
     (ww_overlay (snd (arbitrateWrite some_env (demo_deps False) demo_input empty_world)))))"
  using no_phantom_entries [OF arbitrate_path [of empty_world "[]" some_env "demo_deps False" demo_input], of "[]" "''u''" 0]
  by (simp add: list_all_iff)

end
