(* ===== verification/Processing_Lineage.thy ===== *)
theory Processing_Lineage
  imports Js_Value
begin

text \<open>
  Structural provenance of admitted content (\<open>src/src/domain/memory/processing-lineage.ts\<close>): the
  classifier of untrusted persisted data, the serialiser, and the conservative join of two
  verified values.
\<close>

section \<open>Enumerations\<close>

datatype lineage_operation = Capture_ingest | Scheduled_maintenance | Forced_maintenance
datatype restriction = Audio_derived | Excluded_source | Producer_local_only
datatype disposition = Ordinary | Local_only

fun operation_name :: "lineage_operation \<Rightarrow> jstr" where
  "operation_name Capture_ingest = ''capture_ingest''"
| "operation_name Scheduled_maintenance = ''scheduled_maintenance''"
| "operation_name Forced_maintenance = ''forced_maintenance''"

fun restriction_name :: "restriction \<Rightarrow> jstr" where
  "restriction_name Audio_derived = ''audio_derived''"
| "restriction_name Excluded_source = ''excluded_source''"
| "restriction_name Producer_local_only = ''producer_local_only''"

fun disposition_name :: "disposition \<Rightarrow> jstr" where
  "disposition_name Ordinary = ''ordinary''"
| "disposition_name Local_only = ''local_only''"

definition lineage_operations :: "lineage_operation list" where
  "lineage_operations = [Capture_ingest, Scheduled_maintenance, Forced_maintenance]"

definition lineage_restrictions :: "restriction list" where
  "lineage_restrictions = [Audio_derived, Excluded_source, Producer_local_only]"

text \<open>The member of a published list with a given name.\<close>

definition named :: "('a \<Rightarrow> jstr) \<Rightarrow> 'a list \<Rightarrow> jstr \<Rightarrow> 'a option" where
  "named name xs s = find (\<lambda>x. name x = s) xs"

text \<open>Restrictions are ordered as they are published.\<close>

fun restriction_rank :: "restriction \<Rightarrow> nat" where
  "restriction_rank Audio_derived = 0"
| "restriction_rank Excluded_source = 1"
| "restriction_rank Producer_local_only = 2"

lemma restriction_rank_inj [simp]: "restriction_rank a = restriction_rank b \<longleftrightarrow> a = b"
  by (cases a; cases b) auto

instantiation restriction :: linorder
begin

definition less_eq_restriction :: "restriction \<Rightarrow> restriction \<Rightarrow> bool" where
  "less_eq_restriction a b = (restriction_rank a \<le> restriction_rank b)"

definition less_restriction :: "restriction \<Rightarrow> restriction \<Rightarrow> bool" where
  "less_restriction a b = (restriction_rank a < restriction_rank b)"

instance
  by standard (auto simp: less_eq_restriction_def less_restriction_def)

end

interpretation restrictions: canonical_enum lineage_restrictions
  by unfold_locales (simp add: lineage_restrictions_def)

lemma set_lineage_restrictions [simp]: "set lineage_restrictions = UNIV"
  by (auto simp: lineage_restrictions_def) (metis restriction.exhaust)

lemma sorted_restrictions: "sorted_wrt (<) (filter P lineage_restrictions)"
  by (simp add: lineage_restrictions_def less_restriction_def)

section \<open>Values\<close>

record lineage_delivery =
  ld_version :: jstr
  ld_disposition :: disposition
  ld_restrictions :: "restriction list"

record lineage =
  pl_state :: jstr
  pl_origin :: jstr
  pl_principal :: jstr
  pl_registration :: jstr
  pl_policy :: jstr
  pl_operation :: lineage_operation
  pl_target :: jstr
  pl_delivery :: lineage_delivery

datatype lineage_invalid =
    Null_value | Root_shape | Unknown_root_field | Bad_state | Bad_origin | Bad_principal_ref
  | Bad_registration_ref | Bad_policy_version | Bad_operation | Bad_target_user_id
  | Bad_delivery_shape | Bad_delivery_version | Bad_disposition | Bad_restrictions
  | Unknown_restriction | Ordinary_with_restrictions | Local_only_without_restrictions

datatype classified =
    Minni_verified lineage
  | Legacy_unknown
  | Invalid lineage_invalid

definition lineage_state :: jstr where "lineage_state = ''minni_verified''"
definition lineage_origin :: jstr where "lineage_origin = ''minni''"
definition policy_version :: jstr where "policy_version = ''runir.minni.local/v1''"
definition lineage_version :: jstr where "lineage_version = ''runir.minni.delivery/v1''"

definition root_keys :: "jstr list" where
  "root_keys =
     [''admitted_operation'', ''delivery'', ''origin'', ''processing_policy_version'',
      ''producer_principal_ref'', ''producer_registration_ref'', ''state'', ''target_user_id'']"

definition delivery_keys :: "jstr list" where
  "delivery_keys = [''disposition'', ''restrictions'', ''version'']"

section \<open>The classifier\<close>

definition isPlainRecord :: "jval \<Rightarrow> bool" where
  "isPlainRecord v = (case v of JObj plain _ \<Rightarrow> plain | _ \<Rightarrow> False)"

definition exactStringKeys :: "jval \<Rightarrow> jstr list \<Rightarrow> bool" where
  "exactStringKeys v expected =
     (let ownKeys = jkeys v
      in if list_ex (\<lambda>k. case k of KStr _ \<Rightarrow> False | KSym _ \<Rightarrow> True) ownKeys then False
         else length ownKeys = length expected \<and> list_all (\<lambda>k. KStr k \<in> set ownKeys) expected)"

definition boundedNonEmptyString :: "jval \<Rightarrow> jstr option" where
  "boundedNonEmptyString v =
     (case v of
        JStr s \<Rightarrow> if length s > 0 \<and> length s \<le> 256 \<and> js_trim s = s then Some s else None
      | _ \<Rightarrow> None)"

fun scan_restrictions :: "restriction list \<Rightarrow> jval list \<Rightarrow> restriction list option" where
  "scan_restrictions seen [] = Some seen"
| "scan_restrictions seen (item # items) =
     (case item of
        JStr s \<Rightarrow>
          (if length s > 64 then None
           else (case named restriction_name lineage_restrictions s of
                   None \<Rightarrow> None
                 | Some r \<Rightarrow> scan_restrictions (r # seen) items))
      | _ \<Rightarrow> None)"

definition classifyRestrictions :: "jval \<Rightarrow> lineage_invalid + restriction list" where
  "classifyRestrictions v =
     (case v of
        JArr items \<Rightarrow>
          (case scan_restrictions [] items of
             None \<Rightarrow> Inl Unknown_restriction
           | Some seen \<Rightarrow> Inr (filter (\<lambda>r. r \<in> set seen) lineage_restrictions))
      | _ \<Rightarrow> Inl Bad_restrictions)"

text \<open>The delivery object, once it has the exact keys.\<close>

definition classify_delivery :: "jval \<Rightarrow> lineage_invalid + lineage_delivery" where
  "classify_delivery d =
     (if \<not> isPlainRecord d then Inl Bad_delivery_shape
      else if \<not> exactStringKeys d delivery_keys then Inl Bad_delivery_shape
      else if jget d ''version'' \<noteq> JStr lineage_version then Inl Bad_delivery_version
      else if jget d ''disposition'' \<noteq> JStr ''ordinary''
              \<and> jget d ''disposition'' \<noteq> JStr ''local_only'' then Inl Bad_disposition
      else (case classifyRestrictions (jget d ''restrictions'') of
              Inl reason \<Rightarrow> Inl reason
            | Inr rs \<Rightarrow>
                (if jget d ''disposition'' = JStr ''ordinary'' \<and> length rs \<noteq> 0
                 then Inl Ordinary_with_restrictions
                 else if jget d ''disposition'' = JStr ''local_only'' \<and> length rs = 0
                 then Inl Local_only_without_restrictions
                 else Inr \<lparr>ld_version = lineage_version,
                           ld_disposition = (if jget d ''disposition'' = JStr ''ordinary'' then Ordinary
                                             else Local_only),
                           ld_restrictions = rs\<rparr>)))"

definition classifyProcessingLineage :: "jval \<Rightarrow> classified" where
  "classifyProcessingLineage v =
     (if v = JUndef then Legacy_unknown
      else if v = JNull then Invalid Null_value
      else if \<not> isPlainRecord v then Invalid Root_shape
      else if \<not> exactStringKeys v root_keys then Invalid Unknown_root_field
      else if jget v ''state'' \<noteq> JStr lineage_state then Invalid Bad_state
      else if jget v ''origin'' \<noteq> JStr lineage_origin then Invalid Bad_origin
      else (case boundedNonEmptyString (jget v ''producer_principal_ref'') of
              None \<Rightarrow> Invalid Bad_principal_ref
            | Some prin \<Rightarrow>
      (case boundedNonEmptyString (jget v ''producer_registration_ref'') of
              None \<Rightarrow> Invalid Bad_registration_ref
            | Some reg \<Rightarrow>
      (if jget v ''processing_policy_version'' \<noteq> JStr policy_version then Invalid Bad_policy_version
       else (case Option.bind (str_of (jget v ''admitted_operation''))
                    (named operation_name lineage_operations) of
               None \<Rightarrow> Invalid Bad_operation
             | Some oper \<Rightarrow>
      (case boundedNonEmptyString (jget v ''target_user_id'') of
              None \<Rightarrow> Invalid Bad_target_user_id
            | Some tgt \<Rightarrow>
      (case classify_delivery (jget v ''delivery'') of
              Inl reason \<Rightarrow> Invalid reason
            | Inr deliv \<Rightarrow>
                Minni_verified
                  \<lparr>pl_state = lineage_state, pl_origin = lineage_origin, pl_principal = prin,
                   pl_registration = reg, pl_policy = policy_version,
                   pl_operation = oper, pl_target = tgt, pl_delivery = deliv\<rparr>)))))))"

section \<open>Serialisation and join\<close>

definition delivery_value :: "lineage_delivery \<Rightarrow> jval" where
  "delivery_value d =
     obj [(''version'', JStr (ld_version d)),
          (''disposition'', JStr (disposition_name (ld_disposition d))),
          (''restrictions'', JArr (map (\<lambda>r. JStr (restriction_name r)) (ld_restrictions d)))]"

definition lineage_value :: "lineage \<Rightarrow> jval" where
  "lineage_value l =
     obj [(''state'', JStr (pl_state l)), (''origin'', JStr (pl_origin l)),
          (''producer_principal_ref'', JStr (pl_principal l)),
          (''producer_registration_ref'', JStr (pl_registration l)),
          (''processing_policy_version'', JStr (pl_policy l)),
          (''admitted_operation'', JStr (operation_name (pl_operation l))),
          (''target_user_id'', JStr (pl_target l)), (''delivery'', delivery_value (pl_delivery l))]"

datatype lineage_error = Lineage_type_error

definition serializeProcessingLineage :: "lineage \<Rightarrow> lineage_error + lineage" where
  "serializeProcessingLineage l =
     (case classifyProcessingLineage (lineage_value l) of
        Minni_verified l' \<Rightarrow> Inr l'
      | _ \<Rightarrow> Inl Lineage_type_error)"

datatype join_failure =
    Join_legacy_unknown | Join_invalid | Origin_mismatch | Policy_version_mismatch
  | Principal_mismatch | Registration_mismatch | Operation_mismatch | Target_user_mismatch

datatype join_result = Joined lineage | Join_refused join_failure

definition mismatch :: "lineage \<Rightarrow> lineage \<Rightarrow> join_failure option" where
  "mismatch l r =
     (if pl_origin l \<noteq> pl_origin r then Some Origin_mismatch
      else if pl_policy l \<noteq> pl_policy r then Some Policy_version_mismatch
      else if pl_principal l \<noteq> pl_principal r then Some Principal_mismatch
      else if pl_registration l \<noteq> pl_registration r then Some Registration_mismatch
      else if pl_operation l \<noteq> pl_operation r then Some Operation_mismatch
      else if pl_target l \<noteq> pl_target r then Some Target_user_mismatch
      else None)"

definition joined_restrictions :: "lineage \<Rightarrow> lineage \<Rightarrow> restriction list" where
  "joined_restrictions l r =
     filter (\<lambda>x. x \<in> set (ld_restrictions (pl_delivery l)) \<or> x \<in> set (ld_restrictions (pl_delivery r)))
       lineage_restrictions"

definition conservativeJoin :: "classified \<Rightarrow> classified \<Rightarrow> lineage_error + join_result" where
  "conservativeJoin left right =
     (if left = Legacy_unknown \<or> right = Legacy_unknown then Inr (Join_refused Join_legacy_unknown)
      else (case (left, right) of
              (Minni_verified l, Minni_verified r) \<Rightarrow>
                (case mismatch l r of
                   Some reason \<Rightarrow> Inr (Join_refused reason)
                 | None \<Rightarrow>
                     (let rs = joined_restrictions l r;
                          delivery = \<lparr>ld_version = lineage_version,
                                      ld_disposition = (if length rs > 0 then Local_only else Ordinary),
                                      ld_restrictions = rs\<rparr>
                      in case serializeProcessingLineage (l\<lparr>pl_delivery := delivery\<rparr>) of
                           Inl err \<Rightarrow> Inl err
                         | Inr j \<Rightarrow> Inr (Joined j)))
            | _ \<Rightarrow> Inr (Join_refused Join_invalid)))"

section \<open>Well-formed lineages\<close>

text \<open>What the classifier establishes: the abstract specification of a verified value.\<close>

definition bounded_ref :: "jstr \<Rightarrow> bool" where
  "bounded_ref s = (0 < length s \<and> length s \<le> 256 \<and> js_trim s = s)"

definition delivery_ok :: "lineage_delivery \<Rightarrow> bool" where
  "delivery_ok d =
     (ld_version d = lineage_version \<and> sorted_wrt (<) (ld_restrictions d)
      \<and> (ld_disposition d = Ordinary \<longleftrightarrow> ld_restrictions d = []))"

definition lineage_ok :: "lineage \<Rightarrow> bool" where
  "lineage_ok l =
     (pl_state l = lineage_state \<and> pl_origin l = lineage_origin \<and> pl_policy l = policy_version
      \<and> bounded_ref (pl_principal l) \<and> bounded_ref (pl_registration l) \<and> bounded_ref (pl_target l)
      \<and> delivery_ok (pl_delivery l))"

lemma named_name [simp]:
  "named operation_name lineage_operations (operation_name x) = Some x"
  "named restriction_name lineage_restrictions (restriction_name r) = Some r"
  by (cases x; simp add: named_def lineage_operations_def)
    (cases r; simp add: named_def lineage_restrictions_def)

lemma length_restriction_name [simp]: "length (restriction_name r) \<le> 64"
  by (cases r) auto

lemma scan_names:
  "scan_restrictions seen (map (\<lambda>r. JStr (restriction_name r)) rs) = Some (rev rs @ seen)"
  by (induction rs arbitrary: seen) (simp_all add: not_less)

lemma canon_sorted:
  "sorted_wrt (<) rs \<Longrightarrow> filter (\<lambda>r. r \<in> set rs) lineage_restrictions = rs"
  using sorted_restrictions
  by (intro sorted_distinct_set_unique)
    (auto simp: strict_sorted_iff restrictions.canon_set)

lemma classify_delivery_value:
  assumes "delivery_ok d"
  shows "classify_delivery (delivery_value d) = Inr d"
proof -
  have "classifyRestrictions (jget (delivery_value d) ''restrictions'') = Inr (ld_restrictions d)"
    using assms by (simp add: delivery_value_def classifyRestrictions_def scan_names delivery_ok_def
        canon_sorted)
  with assms show ?thesis
    by (cases "ld_disposition d")
      (simp_all add: classify_delivery_def delivery_ok_def, simp_all add: delivery_value_def
        isPlainRecord_def obj_def exactStringKeys_def delivery_keys_def jkeys_def jget_def)
qed

lemma bounded_string [simp]: "boundedNonEmptyString (JStr s) = (if bounded_ref s then Some s else None)"
  by (simp add: boundedNonEmptyString_def bounded_ref_def)

lemma exact_root: "exactStringKeys (lineage_value l) root_keys"
  by (simp add: exactStringKeys_def lineage_value_def root_keys_def)

lemma classify_lineage_value:
  assumes "lineage_ok l"
  shows "classifyProcessingLineage (lineage_value l) = Minni_verified l"
proof -
  have "isPlainRecord (lineage_value l)"
    by (simp add: lineage_value_def isPlainRecord_def obj_def)
  moreover have "lineage_value l \<noteq> JUndef" "lineage_value l \<noteq> JNull"
    by (simp_all add: lineage_value_def obj_def)
  moreover have "jget (lineage_value l) ''state'' = JStr (pl_state l)"
    "jget (lineage_value l) ''origin'' = JStr (pl_origin l)"
    "jget (lineage_value l) ''producer_principal_ref'' = JStr (pl_principal l)"
    "jget (lineage_value l) ''producer_registration_ref'' = JStr (pl_registration l)"
    "jget (lineage_value l) ''processing_policy_version'' = JStr (pl_policy l)"
    "jget (lineage_value l) ''admitted_operation'' = JStr (operation_name (pl_operation l))"
    "jget (lineage_value l) ''target_user_id'' = JStr (pl_target l)"
    "jget (lineage_value l) ''delivery'' = delivery_value (pl_delivery l)"
    by (simp_all add: lineage_value_def)
  ultimately show ?thesis
    using assms exact_root [of l] classify_delivery_value [of "pl_delivery l"]
    by (simp add: classifyProcessingLineage_def lineage_ok_def str_of_def)
qed

lemma classify_delivery_ok: "classify_delivery v = Inr d \<Longrightarrow> delivery_ok d"
  by (auto simp: classify_delivery_def classifyRestrictions_def delivery_ok_def sorted_restrictions
      split: if_splits sum.splits jval.splits option.splits)

lemma classify_ok: "classifyProcessingLineage v = Minni_verified l \<Longrightarrow> lineage_ok l"
  by (auto simp: classifyProcessingLineage_def lineage_ok_def boundedNonEmptyString_def bounded_ref_def
      dest: classify_delivery_ok split: if_splits sum.splits jval.splits option.splits)

lemma serialize_ok: "serializeProcessingLineage l = Inr l' \<Longrightarrow> lineage_ok l'"
  by (auto simp: serializeProcessingLineage_def dest: classify_ok split: classified.splits)

lemma serialize_id: "lineage_ok l \<Longrightarrow> serializeProcessingLineage l = Inr l"
  by (simp add: serializeProcessingLineage_def classify_lineage_value)

subsection \<open>The join of verified values\<close>

definition same_scope :: "lineage \<Rightarrow> lineage \<Rightarrow> bool" where
  "same_scope l r =
     (pl_principal l = pl_principal r \<and> pl_registration l = pl_registration r
      \<and> pl_operation l = pl_operation r \<and> pl_target l = pl_target r)"

definition joined_lineage :: "lineage \<Rightarrow> lineage \<Rightarrow> lineage" where
  "joined_lineage l r =
     l\<lparr>pl_delivery :=
         \<lparr>ld_version = lineage_version,
          ld_disposition = (if joined_restrictions l r = [] then Ordinary else Local_only),
          ld_restrictions = joined_restrictions l r\<rparr>\<rparr>"

lemma joined_ok: "lineage_ok l \<Longrightarrow> lineage_ok (joined_lineage l r)"
  by (simp add: joined_lineage_def lineage_ok_def delivery_ok_def joined_restrictions_def
      sorted_restrictions)

lemma mismatch_None: "lineage_ok l \<Longrightarrow> lineage_ok r \<Longrightarrow> mismatch l r = None \<longleftrightarrow> same_scope l r"
  by (auto simp: mismatch_def same_scope_def lineage_ok_def)

lemma join_verified:
  assumes "lineage_ok l" and "lineage_ok r"
  shows "conservativeJoin (Minni_verified l) (Minni_verified r) =
    (if same_scope l r then Inr (Joined (joined_lineage l r))
     else Inr (Join_refused (the (mismatch l r))))"
proof (cases "same_scope l r")
  case True
  let ?rs = "joined_restrictions l r"
  have "l\<lparr>pl_delivery := \<lparr>ld_version = lineage_version,
          ld_disposition = (if length ?rs > 0 then Local_only else Ordinary),
          ld_restrictions = ?rs\<rparr>\<rparr> = joined_lineage l r"
    by (simp add: joined_lineage_def)
  moreover have "mismatch l r = None" using True assms mismatch_None by blast
  ultimately show ?thesis
    using True serialize_id [OF joined_ok [OF assms(1), of r]]
    by (simp add: conservativeJoin_def Let_def)
next
  case False
  with assms mismatch_None obtain m where "mismatch l r = Some m" by blast
  with False show ?thesis by (simp add: conservativeJoin_def)
qed

lemma joined_restrictions_set:
  "set (joined_restrictions l r)
     = set (ld_restrictions (pl_delivery l)) \<union> set (ld_restrictions (pl_delivery r))"
  by (auto simp: joined_restrictions_def)

lemma joined_restrictions_commute: "joined_restrictions l r = joined_restrictions r l"
  unfolding joined_restrictions_def by (rule filter_cong) auto

lemma joined_commute:
  assumes "lineage_ok l" and "lineage_ok r" and "same_scope l r"
  shows "joined_lineage l r = joined_lineage r l"
  using assms joined_restrictions_commute [of l r]
  by (intro lineage.equality) (simp_all add: joined_lineage_def lineage_ok_def same_scope_def)

lemma joined_idem:
  assumes "lineage_ok l"
  shows "joined_lineage l l = l"
proof -
  have "joined_restrictions l l = ld_restrictions (pl_delivery l)"
    using assms canon_sorted by (simp add: joined_restrictions_def lineage_ok_def delivery_ok_def)
  with assms show ?thesis
    by (intro lineage.equality lineage_delivery.equality; cases "ld_disposition (pl_delivery l)")
      (simp_all add: joined_lineage_def lineage_ok_def delivery_ok_def)
qed

section \<open>The laws\<close>

definition demo_lineage :: jval where
  "demo_lineage =
     obj [(''state'', JStr ''minni_verified''), (''origin'', JStr ''minni''),
          (''producer_principal_ref'', JStr ''p1''), (''producer_registration_ref'', JStr ''r1''),
          (''processing_policy_version'', JStr ''runir.minni.local/v1''),
          (''admitted_operation'', JStr ''capture_ingest''), (''target_user_id'', JStr ''u1''),
          (''delivery'',
             obj [(''version'', JStr ''runir.minni.delivery/v1''),
                  (''disposition'', JStr ''local_only''),
                  (''restrictions'',
                     JArr [JStr ''producer_local_only'', JStr ''audio_derived'',
                           JStr ''audio_derived''])])]"

definition demo_verified :: lineage where
  "demo_verified =
     \<lparr>pl_state = ''minni_verified'', pl_origin = ''minni'', pl_principal = ''p1'',
      pl_registration = ''r1'', pl_policy = ''runir.minni.local/v1'', pl_operation = Capture_ingest,
      pl_target = ''u1'',
      pl_delivery = \<lparr>ld_version = ''runir.minni.delivery/v1'', ld_disposition = Local_only,
                     ld_restrictions = [Audio_derived, Producer_local_only]\<rparr>\<rparr>"

lemma demo_classified: "classifyProcessingLineage demo_lineage = Minni_verified demo_verified"
  by code_simp


text \<open>Serialising a verified lineage never throws, returns the same lineage, and the serialised value
  classifies to it again.\<close>

theorem lineage_roundtrip:
  assumes "classifyProcessingLineage v = Minni_verified l"
  shows "serializeProcessingLineage l = Inr l
    \<and> classifyProcessingLineage (lineage_value l) = Minni_verified l"
  using classify_ok [OF assms] by (simp add: serialize_id classify_lineage_value)

theorem lineage_roundtrip_witness:
  "serializeProcessingLineage demo_verified = Inr demo_verified"
  using lineage_roundtrip [OF demo_classified] by simp

text \<open>Joining two lineages that were classified from persisted data never throws; it succeeds exactly
  when principal, registration, operation and target agree, the result is well formed, carries the
  union of the restrictions and is ordinary only if both sides are.\<close>

theorem join_is_conservative:
  assumes "classifyProcessingLineage v = Minni_verified l"
    and "classifyProcessingLineage w = Minni_verified r"
  shows "\<exists>res. conservativeJoin (Minni_verified l) (Minni_verified r) = Inr res
    \<and> (case res of
         Join_refused why \<Rightarrow> \<not> same_scope l r
       | Joined j \<Rightarrow> same_scope l r \<and> lineage_ok j \<and> same_scope j l
           \<and> set (ld_restrictions (pl_delivery j))
               = set (ld_restrictions (pl_delivery l)) \<union> set (ld_restrictions (pl_delivery r))
           \<and> (ld_disposition (pl_delivery j) = Ordinary
               \<longleftrightarrow> ld_disposition (pl_delivery l) = Ordinary
                   \<and> ld_disposition (pl_delivery r) = Ordinary))"
proof -
  note ok = classify_ok [OF assms(1)] classify_ok [OF assms(2)]
  have "joined_restrictions l r = [] \<longleftrightarrow>
      ld_restrictions (pl_delivery l) = [] \<and> ld_restrictions (pl_delivery r) = []"
    using joined_restrictions_set [of l r] by (simp flip: set_empty)
  with ok have "ld_disposition (pl_delivery (joined_lineage l r)) = Ordinary \<longleftrightarrow>
      ld_disposition (pl_delivery l) = Ordinary \<and> ld_disposition (pl_delivery r) = Ordinary"
    by (simp add: joined_lineage_def lineage_ok_def delivery_ok_def)
  with join_verified [OF ok] joined_ok [OF ok(1)] show ?thesis
    by (auto simp: joined_lineage_def joined_restrictions_set same_scope_def)
qed

theorem join_is_conservative_witness:
  "\<exists>res. conservativeJoin (Minni_verified demo_verified) (Minni_verified demo_verified) = Inr res"
  using join_is_conservative [OF demo_classified demo_classified] by blast

text \<open>On classified values the join is commutative where it succeeds, and joining a lineage with itself
  returns it unchanged.\<close>

theorem join_commutative_idempotent:
  assumes "classifyProcessingLineage v = Minni_verified l"
    and "classifyProcessingLineage w = Minni_verified r"
  shows "(conservativeJoin (Minni_verified l) (Minni_verified r) = Inr (Joined j))
      = (conservativeJoin (Minni_verified r) (Minni_verified l) = Inr (Joined j))
    \<and> conservativeJoin (Minni_verified l) (Minni_verified l) = Inr (Joined l)"
proof -
  note ok = classify_ok [OF assms(1)] classify_ok [OF assms(2)]
  have "same_scope l r = same_scope r l" by (auto simp: same_scope_def)
  with join_verified [OF ok] join_verified [OF ok(2,1)] joined_commute [OF ok]
    join_verified [OF ok(1,1)] joined_idem [OF ok(1)]
  show ?thesis by (auto simp: same_scope_def)
qed

theorem join_commutative_idempotent_witness:
  "conservativeJoin (Minni_verified demo_verified) (Minni_verified demo_verified)
     = Inr (Joined demo_verified)"
  using join_commutative_idempotent [OF demo_classified demo_classified] by simp

end
