(* ===== verification/Capability_Store.thy ===== *)
theory Capability_Store
  imports Processing_Lineage
begin

text \<open>
  What the two authority modules share: objects with identity, the private identity maps that make
  an object a capability, and the registry of registrations by principal and by reference with its
  consistency invariant. A weak map is a map from addresses; an object that no constructor of the
  module made is an address that the map does not hold.
\<close>

section \<open>Objects\<close>

type_synonym addr = nat

datatype jref = RUndef | RNull | RPrim jval | RRef addr

datatype js_throw = Type_error jstr | Policy_refused jstr | Callback_threw

text \<open>An object: its properties, and whether it is frozen.\<close>

record heap_object =
  ho_value :: jval
  ho_frozen :: bool

type_synonym heap = "addr \<rightharpoonup> heap_object"

text \<open>\<open>typeof value === "object" && value !== null\<close>\<close>

definition asObject :: "heap \<Rightarrow> jref \<Rightarrow> addr option" where
  "asObject h v = (case v of RRef a \<Rightarrow> (if h a \<noteq> None then Some a else None) | _ \<Rightarrow> None)"

definition field :: "heap \<Rightarrow> addr \<Rightarrow> jstr \<Rightarrow> jval" where
  "field h a k = (case h a of None \<Rightarrow> JUndef | Some ob \<Rightarrow> jget (ho_value ob) k)"

definition frozen :: "(jstr \<times> jval) list \<Rightarrow> heap_object" where
  "frozen fs = \<lparr>ho_value = obj fs, ho_frozen = True\<rparr>"

lemma field_same [simp]: "field (h(a \<mapsto> ob)) a k = jget (ho_value ob) k"
  by (simp add: field_def)

lemma field_other [simp]: "a \<noteq> b \<Longrightarrow> field (h(b \<mapsto> ob)) a k = field h a k"
  by (simp add: field_def)

lemma ho_frozen_simps [simp]: "ho_value (frozen fs) = obj fs" "ho_frozen (frozen fs)"
  by (simp_all add: frozen_def)

lemma asObject_Some: "asObject h v = Some a \<longleftrightarrow> v = RRef a \<and> h a \<noteq> None"
  by (auto simp: asObject_def split: jref.splits)

section \<open>Expiry\<close>

text \<open>An absent or empty expiry never expires; an unreadable one always has.\<close>

definition isExpired :: "js_env \<Rightarrow> jstr option \<Rightarrow> bool" where
  "isExpired env expiresAt =
     (case expiresAt of
        None \<Rightarrow> False
      | Some s \<Rightarrow>
          if s = [] then False
          else (case date_parse_str env s of None \<Rightarrow> True | Some ms \<Rightarrow> ms \<le> now_ms env))"

lemma isExpired_mono:
  "isExpired env e \<Longrightarrow> now_ms env \<le> t \<Longrightarrow> isExpired (env\<lparr>now_ms := t\<rparr>) e"
  by (auto simp: isExpired_def date_parse_str_def date_parse_def split: option.splits)

section \<open>Registries\<close>

record 'r registry =
  byPrincipal :: "jstr \<rightharpoonup> 'r"
  byRegistration :: "jstr \<rightharpoonup> 'r"
  revoked :: "jstr set"

definition empty_registry :: "'r registry" where
  "empty_registry = \<lparr>byPrincipal = Map.empty, byRegistration = Map.empty, revoked = {}\<rparr>"

text \<open>
  The consistency of the two maps: each is the other read backwards, and only present registrations
  are revoked.
\<close>

definition registry_ok :: "('r \<Rightarrow> jstr) \<Rightarrow> ('r \<Rightarrow> jstr) \<Rightarrow> 'r registry \<Rightarrow> bool" where
  "registry_ok principal_of registration_of s =
     ((\<forall>p r. byPrincipal s p = Some r \<longrightarrow>
          principal_of r = p \<and> byRegistration s (registration_of r) = Some r)
      \<and> (\<forall>k r. byRegistration s k = Some r \<longrightarrow>
          registration_of r = k \<and> byPrincipal s (principal_of r) = Some r)
      \<and> revoked s \<subseteq> dom (byRegistration s))"

lemma registry_okI:
  assumes "\<And>p r. byPrincipal s p = Some r \<Longrightarrow>
      principal_of r = p \<and> byRegistration s (registration_of r) = Some r"
    and "\<And>k r. byRegistration s k = Some r \<Longrightarrow>
      registration_of r = k \<and> byPrincipal s (principal_of r) = Some r"
    and "revoked s \<subseteq> dom (byRegistration s)"
  shows "registry_ok principal_of registration_of s"
  using assms by (simp add: registry_ok_def)

lemma registry_okD:
  assumes "registry_ok principal_of registration_of s"
  shows "byPrincipal s p = Some r \<Longrightarrow> principal_of r = p \<and> byRegistration s (registration_of r) = Some r"
    and "byRegistration s k = Some r \<Longrightarrow> registration_of r = k \<and> byPrincipal s (principal_of r) = Some r"
    and "revoked s \<subseteq> dom (byRegistration s)"
  using assms by (simp_all add: registry_ok_def)

text \<open>
  The contract of a registry module: what each of its four mutations does to the maps when it
  returns. The client's invariant is proved from it once, for both modules.
\<close>

locale registry_ops =
  fixes principal_of :: "'r \<Rightarrow> jstr"
    and registration_of :: "'r \<Rightarrow> jstr"
    and add :: "'r \<Rightarrow> 'r registry \<Rightarrow> js_throw + 'r registry"
    and revoke :: "jstr \<Rightarrow> 'r registry \<Rightarrow> js_throw + 'r registry"
    and remove :: "jstr \<Rightarrow> 'r registry \<Rightarrow> js_throw + 'r registry"
    and replace :: "'r \<Rightarrow> 'r registry \<Rightarrow> js_throw + 'r registry"
  assumes add_law: "add r s = Inr s' \<Longrightarrow>
      byPrincipal s (principal_of r) = None \<and> byRegistration s (registration_of r) = None
      \<and> s' = s\<lparr>byPrincipal := (byPrincipal s)(principal_of r \<mapsto> r),
               byRegistration := (byRegistration s)(registration_of r \<mapsto> r)\<rparr>"
    and revoke_law: "revoke k s = Inr s' \<Longrightarrow>
      \<exists>k'. k' \<in> dom (byRegistration s) \<and> s' = s\<lparr>revoked := insert k' (revoked s)\<rparr>"
    and remove_law: "remove k s = Inr s' \<Longrightarrow>
      \<exists>k' r. byRegistration s k' = Some r
        \<and> s' = s\<lparr>byRegistration := (byRegistration s)(k' := None),
                 byPrincipal := (byPrincipal s)(principal_of r := None),
                 revoked := revoked s - {k'}\<rparr>"
    and replace_law: "replace r s = Inr s' \<Longrightarrow>
      \<exists>c. byRegistration s (registration_of r) = Some c
        \<and> (\<forall>q. byPrincipal s (principal_of r) = Some q \<longrightarrow> registration_of q = registration_of r)
        \<and> s' = s\<lparr>byRegistration := (byRegistration s)(registration_of r \<mapsto> r),
                 byPrincipal := ((byPrincipal s)(principal_of c := None))(principal_of r \<mapsto> r),
                 revoked := revoked s - {registration_of r}\<rparr>"
begin

lemma empty_ok: "registry_ok principal_of registration_of empty_registry"
  by (simp add: registry_ok_def empty_registry_def)

lemma add_ok:
  assumes ok: "registry_ok principal_of registration_of s" and "add r s = Inr s'"
  shows "registry_ok principal_of registration_of s'"
proof -
  from add_law [OF assms(2)]
  have new: "byPrincipal s (principal_of r) = None" "byRegistration s (registration_of r) = None"
    and s': "s' = s\<lparr>byPrincipal := (byPrincipal s)(principal_of r \<mapsto> r),
               byRegistration := (byRegistration s)(registration_of r \<mapsto> r)\<rparr>"
    by auto
  show ?thesis
  proof (rule registry_okI)
    fix p x assume x: "byPrincipal s' p = Some x"
    show "principal_of x = p \<and> byRegistration s' (registration_of x) = Some x"
    proof (cases "p = principal_of r")
      case False
      with x have "byPrincipal s p = Some x" by (simp add: s')
      from registry_okD(1) [OF ok this] new show ?thesis by (auto simp: s')
    qed (use x in \<open>simp add: s'\<close>)
  next
    fix k x assume x: "byRegistration s' k = Some x"
    show "registration_of x = k \<and> byPrincipal s' (principal_of x) = Some x"
    proof (cases "k = registration_of r")
      case False
      with x have "byRegistration s k = Some x" by (simp add: s')
      from registry_okD(2) [OF ok this] new show ?thesis by (auto simp: s')
    qed (use x in \<open>simp add: s'\<close>)
  next
    show "revoked s' \<subseteq> dom (byRegistration s')" using registry_okD(3) [OF ok] by (auto simp: s')
  qed
qed

lemma revoke_ok:
  assumes "registry_ok principal_of registration_of s" and "revoke k s = Inr s'"
  shows "registry_ok principal_of registration_of s'"
  using assms(1) revoke_law [OF assms(2)] by (auto simp: registry_ok_def)

lemma remove_ok:
  assumes ok: "registry_ok principal_of registration_of s" and "remove k s = Inr s'"
  shows "registry_ok principal_of registration_of s'"
proof -
  from remove_law [OF assms(2)] obtain k' r where r: "byRegistration s k' = Some r"
    and s': "s' = s\<lparr>byRegistration := (byRegistration s)(k' := None),
                 byPrincipal := (byPrincipal s)(principal_of r := None),
                 revoked := revoked s - {k'}\<rparr>" by blast
  note kr = registry_okD(2) [OF ok r]
  show ?thesis
  proof (rule registry_okI)
    fix p x assume "byPrincipal s' p = Some x"
    then have x: "byPrincipal s p = Some x" "p \<noteq> principal_of r"
      by (auto simp: s' split: if_splits)
    note px = registry_okD(1) [OF ok x(1)]
    with kr x r have "registration_of x \<noteq> k'" by auto
    with px show "principal_of x = p \<and> byRegistration s' (registration_of x) = Some x"
      by (simp add: s')
  next
    fix k x assume "byRegistration s' k = Some x"
    then have x: "byRegistration s k = Some x" "k \<noteq> k'" by (auto simp: s' split: if_splits)
    note kx = registry_okD(2) [OF ok x(1)]
    with kr x have "principal_of x \<noteq> principal_of r" by auto
    with kx show "registration_of x = k \<and> byPrincipal s' (principal_of x) = Some x"
      by (simp add: s')
  next
    show "revoked s' \<subseteq> dom (byRegistration s')" using registry_okD(3) [OF ok] by (auto simp: s')
  qed
qed

lemma replace_ok:
  assumes ok: "registry_ok principal_of registration_of s" and "replace r s = Inr s'"
  shows "registry_ok principal_of registration_of s'"
proof -
  from replace_law [OF assms(2)] obtain c
    where c: "byRegistration s (registration_of r) = Some c"
      and q: "\<And>q. byPrincipal s (principal_of r) = Some q \<Longrightarrow> registration_of q = registration_of r"
      and s': "s' = s\<lparr>byRegistration := (byRegistration s)(registration_of r \<mapsto> r),
                 byPrincipal := ((byPrincipal s)(principal_of c := None))(principal_of r \<mapsto> r),
                 revoked := revoked s - {registration_of r}\<rparr>" by blast
  note rc = registry_okD(2) [OF ok c]
  show ?thesis
  proof (rule registry_okI)
    fix p x assume x: "byPrincipal s' p = Some x"
    show "principal_of x = p \<and> byRegistration s' (registration_of x) = Some x"
    proof (cases "p = principal_of r")
      case False
      with x have old: "byPrincipal s p = Some x" "p \<noteq> principal_of c"
        by (auto simp: s' split: if_splits)
      note px = registry_okD(1) [OF ok old(1)]
      with rc old c have "registration_of x \<noteq> registration_of r" by auto
      with px show ?thesis by (simp add: s')
    qed (use x in \<open>simp add: s'\<close>)
  next
    fix k x assume x: "byRegistration s' k = Some x"
    show "registration_of x = k \<and> byPrincipal s' (principal_of x) = Some x"
    proof (cases "k = registration_of r")
      case False
      with x have old: "byRegistration s k = Some x" by (simp add: s')
      note kx = registry_okD(2) [OF ok old]
      with rc False have "principal_of x \<noteq> principal_of c" by auto
      moreover have "principal_of x \<noteq> principal_of r" using kx q False by auto
      ultimately show ?thesis using kx by (simp add: s')
    qed (use x in \<open>simp add: s'\<close>)
  next
    show "revoked s' \<subseteq> dom (byRegistration s')" using registry_okD(3) [OF ok] by (auto simp: s')
  qed
qed

lemmas ops_ok = empty_ok add_ok revoke_ok remove_ok replace_ok

text \<open>After a removal the removed registration is gone from both maps.\<close>

lemma remove_gone:
  assumes ok: "registry_ok principal_of registration_of s" and "remove k s = Inr s'"
  shows "\<exists>r. byRegistration s (registration_of r) = Some r
    \<and> byRegistration s' (registration_of r) = None \<and> byPrincipal s' (principal_of r) = None"
proof -
  from remove_law [OF assms(2)] obtain k' r where "byRegistration s k' = Some r"
    "s' = s\<lparr>byRegistration := (byRegistration s)(k' := None),
                 byPrincipal := (byPrincipal s)(principal_of r := None),
                 revoked := revoked s - {k'}\<rparr>" by blast
  with registry_okD(2) [OF ok] show ?thesis by (intro exI [of _ r]) auto
qed

end

end
