(* ===== verification/Consumer_Authority.thy ===== *)
theory Consumer_Authority
  imports Capability_Store
begin

text \<open>
  The consumer authority of delivery (\<open>src/src/app/consumer-policy/authority.ts\<close>): capabilities made
  by server constructors, reviewed registrations, authorities that resolve an admission into a
  delivery context, the revalidation of a context against the current registry, and the admission
  callback. A world holds the module's weak maps and the registries of its authorities.
\<close>

section \<open>Enumerations\<close>

datatype consumer_operation = Recall_op | Summary_delivery_op
datatype consumer_provider = Openai | Anthropic | Xai | Local_hermes | Cloud_hermes
datatype consumer_client = Codex | Claude | Grok | Pi_client | Hermes
datatype consumer_locality = Same_device | Cloud
datatype consumer_tier = Ordinary_tier | Restricted_tier

fun consumer_operation_name :: "consumer_operation \<Rightarrow> jstr" where
  "consumer_operation_name Recall_op = ''recall''"
| "consumer_operation_name Summary_delivery_op = ''summary_delivery''"

fun provider_name :: "consumer_provider \<Rightarrow> jstr" where
  "provider_name Openai = ''openai''"
| "provider_name Anthropic = ''anthropic''"
| "provider_name Xai = ''xai''"
| "provider_name Local_hermes = ''local_hermes''"
| "provider_name Cloud_hermes = ''cloud_hermes''"

fun client_name :: "consumer_client \<Rightarrow> jstr" where
  "client_name Codex = ''codex''"
| "client_name Claude = ''claude''"
| "client_name Grok = ''grok''"
| "client_name Pi_client = ''pi''"
| "client_name Hermes = ''hermes''"

fun locality_name :: "consumer_locality \<Rightarrow> jstr" where
  "locality_name Same_device = ''same_device''"
| "locality_name Cloud = ''cloud''"

fun tier_name :: "consumer_tier \<Rightarrow> jstr" where
  "tier_name Ordinary_tier = ''ordinary''"
| "tier_name Restricted_tier = ''restricted''"

definition isConsumerOperation :: "jstr \<Rightarrow> consumer_operation option" where
  "isConsumerOperation = named consumer_operation_name [Recall_op, Summary_delivery_op]"

definition isConsumerProvider :: "jstr \<Rightarrow> consumer_provider option" where
  "isConsumerProvider = named provider_name [Openai, Anthropic, Xai, Local_hermes, Cloud_hermes]"

definition isConsumerClient :: "jstr \<Rightarrow> consumer_client option" where
  "isConsumerClient = named client_name [Codex, Claude, Grok, Pi_client, Hermes]"

definition isConsumerLocality :: "jstr \<Rightarrow> consumer_locality option" where
  "isConsumerLocality = named locality_name [Same_device, Cloud]"

definition isConsumerTier :: "jstr \<Rightarrow> consumer_tier option" where
  "isConsumerTier = named tier_name [Ordinary_tier, Restricted_tier]"

definition nonEmptyBoundedString :: "jstr \<Rightarrow> bool" where
  "nonEmptyBoundedString s = (length s > 0 \<and> length s \<le> 256 \<and> js_trim s = s)"

section \<open>State\<close>

record consumer_registration =
  cr_registrationRef :: jstr
  cr_principalRef :: jstr
  cr_provider :: consumer_provider
  cr_client :: consumer_client
  cr_locality :: consumer_locality
  cr_operations :: "consumer_operation list"
  cr_targetUsers :: "jstr list"
  cr_tiers :: "consumer_tier list"
  cr_allowOrdinary :: bool
  cr_restrictions :: "restriction list"
  cr_status :: jstr
  cr_expiresAt :: "jstr option"

text \<open>A context binding; the authority's address stands for its private state object.\<close>

record context_binding =
  cb_state :: addr
  cb_principalRef :: jstr
  cb_registrationRef :: jstr
  cb_provider :: consumer_provider
  cb_client :: consumer_client
  cb_locality :: consumer_locality
  cb_operation :: consumer_operation
  cb_targetUserId :: jstr
  cb_tier :: consumer_tier

record consumer_world =
  cw_heap :: heap
  cw_next :: addr
  cw_principals :: "addr \<rightharpoonup> jstr"
  cw_targets :: "addr \<rightharpoonup> jstr"
  cw_operations :: "addr \<rightharpoonup> consumer_operation"
  cw_tiers :: "addr \<rightharpoonup> consumer_tier"
  cw_registrations :: "addr \<rightharpoonup> consumer_registration"
  cw_contexts :: "addr \<rightharpoonup> context_binding"
  cw_authorities :: "addr \<rightharpoonup> consumer_registration registry"

definition empty_consumer_world :: consumer_world where
  "empty_consumer_world =
     \<lparr>cw_heap = Map.empty, cw_next = 0, cw_principals = Map.empty, cw_targets = Map.empty,
      cw_operations = Map.empty, cw_tiers = Map.empty, cw_registrations = Map.empty,
      cw_contexts = Map.empty, cw_authorities = Map.empty\<rparr>"

text \<open>A new frozen object; its address is the old \<open>cw_next\<close>.\<close>

definition c_alloc :: "heap_object \<Rightarrow> consumer_world \<Rightarrow> consumer_world" where
  "c_alloc ob w = w\<lparr>cw_heap := (cw_heap w)(cw_next w \<mapsto> ob), cw_next := Suc (cw_next w)\<rparr>"

section \<open>Server constructors\<close>

definition createServerAuthenticatedConsumerPrincipal ::
  "jstr \<Rightarrow> consumer_world \<Rightarrow> (js_throw + addr) \<times> consumer_world" where
  "createServerAuthenticatedConsumerPrincipal ref w =
     (if \<not> nonEmptyBoundedString ref
      then (Inl (Type_error ''consumer principal reference is required''), w)
      else let a = cw_next w;
               w1 = c_alloc (frozen [(''principalRef'', JStr ref),
                                     (''authenticatedBy'', JStr ''server'')]) w
           in (Inr a, w1\<lparr>cw_principals := (cw_principals w1)(a \<mapsto> ref)\<rparr>))"

definition createServerResolvedConsumerTargetUser ::
  "jstr \<Rightarrow> consumer_world \<Rightarrow> (js_throw + addr) \<times> consumer_world" where
  "createServerResolvedConsumerTargetUser userId w =
     (if \<not> nonEmptyBoundedString userId
      then (Inl (Type_error ''consumer target user is required''), w)
      else let a = cw_next w; w1 = c_alloc (frozen [(''userId'', JStr userId)]) w
           in (Inr a, w1\<lparr>cw_targets := (cw_targets w1)(a \<mapsto> userId)\<rparr>))"

definition createServerSelectedConsumerOperation ::
  "jstr \<Rightarrow> consumer_world \<Rightarrow> (js_throw + addr) \<times> consumer_world" where
  "createServerSelectedConsumerOperation operation w =
     (case isConsumerOperation operation of
        None \<Rightarrow> (Inl (Type_error ''consumer operation is unsupported''), w)
      | Some oper \<Rightarrow>
          (let a = cw_next w; w1 = c_alloc (frozen [(''name'', JStr operation)]) w
           in (Inr a, w1\<lparr>cw_operations := (cw_operations w1)(a \<mapsto> oper)\<rparr>)))"

definition createServerSelectedConsumerTier ::
  "jstr \<Rightarrow> consumer_world \<Rightarrow> (js_throw + addr) \<times> consumer_world" where
  "createServerSelectedConsumerTier tier w =
     (case isConsumerTier tier of
        None \<Rightarrow> (Inl (Type_error ''consumer tier is unsupported''), w)
      | Some t \<Rightarrow>
          (let a = cw_next w; w1 = c_alloc (frozen [(''name'', JStr tier)]) w
           in (Inr a, w1\<lparr>cw_tiers := (cw_tiers w1)(a \<mapsto> t)\<rparr>)))"

subsection \<open>Reviewed registrations\<close>

record registration_input =
  ri_registrationRef :: jstr
  ri_principalRef :: jstr
  ri_provider :: jstr
  ri_client :: jstr
  ri_locality :: jstr
  ri_operations :: "jstr list"
  ri_targetUsers :: "jstr list"
  ri_tiers :: "jstr list"
  ri_allowOrdinary :: jval
  ri_restrictions :: "jstr list"
  ri_status :: "jstr option"
  ri_expiresAt :: "jstr option"

definition canonicalRestrictions :: "jstr list \<Rightarrow> js_throw + restriction list" where
  "canonicalRestrictions rs =
     (if list_ex (\<lambda>r. named restriction_name lineage_restrictions r = None) rs
      then Inl (Type_error ''consumer restriction grants are unsupported'')
      else Inr (filter (\<lambda>x. restriction_name x \<in> set rs) lineage_restrictions))"

text \<open>The properties a caller can read off a registration object.\<close>

definition registration_object :: "consumer_registration \<Rightarrow> heap_object" where
  "registration_object r =
     frozen [(''registrationRef'', JStr (cr_registrationRef r)),
             (''principalRef'', JStr (cr_principalRef r)),
             (''provider'', JStr (provider_name (cr_provider r))),
             (''client'', JStr (client_name (cr_client r))),
             (''locality'', JStr (locality_name (cr_locality r))),
             (''allowOrdinary'', JBool (cr_allowOrdinary r)),
             (''status'', JStr (cr_status r))]"

definition checked_registration ::
  "js_env \<Rightarrow> registration_input \<Rightarrow> js_throw + consumer_registration" where
  "checked_registration env i =
     (let targetUsers = filter truthy (map js_trim (ri_targetUsers i))
      in if \<not> nonEmptyBoundedString (ri_registrationRef i) \<or> \<not> nonEmptyBoundedString (ri_principalRef i)
         then Inl (Type_error ''consumer registration references are required'')
         else (case (isConsumerProvider (ri_provider i), isConsumerClient (ri_client i),
                     isConsumerLocality (ri_locality i)) of
           (Some provider, Some client, Some locality) \<Rightarrow>
             (if ri_operations i = [] \<or> list_ex (\<lambda>x. isConsumerOperation x = None) (ri_operations i)
              then Inl (Type_error ''consumer registration operations are invalid'')
              else if ri_tiers i = [] \<or> list_ex (\<lambda>x. isConsumerTier x = None) (ri_tiers i)
              then Inl (Type_error ''consumer registration tiers are invalid'')
              else if targetUsers = [] \<or> list_ex (\<lambda>u. \<not> nonEmptyBoundedString u) targetUsers
              then Inl (Type_error ''consumer registration target users are invalid'')
              else (case ri_allowOrdinary i of
                JBool allowOrdinary \<Rightarrow>
                  (if (case ri_expiresAt i of None \<Rightarrow> False | Some e \<Rightarrow> date_parse_str env e = None)
                   then Inl (Type_error ''consumer registration expiry is invalid'')
                   else (case canonicalRestrictions (ri_restrictions i) of
                     Inl err \<Rightarrow> Inl err
                   | Inr rs \<Rightarrow>
                       Inr \<lparr>cr_registrationRef = ri_registrationRef i,
                            cr_principalRef = ri_principalRef i, cr_provider = provider,
                            cr_client = client, cr_locality = locality,
                            cr_operations = js_uniq (List.map_filter isConsumerOperation (ri_operations i)),
                            cr_targetUsers = js_uniq targetUsers,
                            cr_tiers = js_uniq (List.map_filter isConsumerTier (ri_tiers i)),
                            cr_allowOrdinary = allowOrdinary, cr_restrictions = rs,
                            cr_status = (case ri_status i of None \<Rightarrow> ''active'' | Some s \<Rightarrow> s),
                            cr_expiresAt = (case ri_expiresAt i of
                                              Some e \<Rightarrow> if truthy e then Some e else None
                                            | None \<Rightarrow> None)\<rparr>))
              | _ \<Rightarrow> Inl (Type_error ''consumer ordinary grant is invalid'')))
         | _ \<Rightarrow> Inl (Type_error ''consumer provider, client, or locality is unsupported'')))"

definition createReviewedConsumerRegistration ::
  "js_env \<Rightarrow> registration_input \<Rightarrow> consumer_world \<Rightarrow> (js_throw + addr) \<times> consumer_world" where
  "createReviewedConsumerRegistration env i w =
     (case checked_registration env i of
        Inl err \<Rightarrow> (Inl err, w)
      | Inr r \<Rightarrow>
          (let a = cw_next w; w1 = c_alloc (registration_object r) w
           in (Inr a, w1\<lparr>cw_registrations := (cw_registrations w1)(a \<mapsto> r)\<rparr>)))"

section \<open>Registries\<close>

definition c_add :: "consumer_registration \<Rightarrow> consumer_registration registry
    \<Rightarrow> js_throw + consumer_registration registry" where
  "c_add r s =
     (if byPrincipal s (cr_principalRef r) \<noteq> None
      then Inl (Type_error ''consumer principal has multiple registrations'')
      else if byRegistration s (cr_registrationRef r) \<noteq> None
      then Inl (Type_error ''consumer registration reference is duplicated'')
      else Inr (s\<lparr>byPrincipal := (byPrincipal s)(cr_principalRef r \<mapsto> r),
                  byRegistration := (byRegistration s)(cr_registrationRef r \<mapsto> r)\<rparr>))"

definition c_revoke :: "jstr \<Rightarrow> consumer_registration registry
    \<Rightarrow> js_throw + consumer_registration registry" where
  "c_revoke ref s =
     (if \<not> nonEmptyBoundedString ref \<or> byRegistration s ref = None
      then Inl (Type_error ''consumer registration is unknown'')
      else Inr (s\<lparr>revoked := insert ref (revoked s)\<rparr>))"

definition c_remove :: "jstr \<Rightarrow> consumer_registration registry
    \<Rightarrow> js_throw + consumer_registration registry" where
  "c_remove ref s =
     (case byRegistration s ref of
        None \<Rightarrow> Inl (Type_error ''consumer registration is unknown'')
      | Some r \<Rightarrow>
          Inr (s\<lparr>byRegistration := (byRegistration s)(ref := None),
                 byPrincipal := (byPrincipal s)(cr_principalRef r := None),
                 revoked := revoked s - {ref}\<rparr>))"

definition c_replace :: "consumer_registration \<Rightarrow> consumer_registration registry
    \<Rightarrow> js_throw + consumer_registration registry" where
  "c_replace r s =
     (case byRegistration s (cr_registrationRef r) of
        None \<Rightarrow> Inl (Type_error ''consumer registration is unknown'')
      | Some current \<Rightarrow>
          (if (case byPrincipal s (cr_principalRef r) of
                 None \<Rightarrow> False
               | Some q \<Rightarrow> cr_registrationRef q \<noteq> cr_registrationRef r)
           then Inl (Type_error ''consumer principal has multiple registrations'')
           else Inr (s\<lparr>byRegistration := (byRegistration s)(cr_registrationRef r \<mapsto> r),
                       byPrincipal := ((byPrincipal s)(cr_principalRef current := None))
                                        (cr_principalRef r \<mapsto> r),
                       revoked := revoked s - {cr_registrationRef r}\<rparr>)))"

interpretation consumer_registry: registry_ops cr_principalRef cr_registrationRef c_add c_revoke
    c_remove c_replace
  by unfold_locales
    (auto simp: c_add_def c_revoke_def c_remove_def c_replace_def split: if_splits option.splits)

fun c_add_all :: "consumer_world \<Rightarrow> addr list \<Rightarrow> consumer_registration registry
    \<Rightarrow> js_throw + consumer_registration registry" where
  "c_add_all w [] s = Inr s"
| "c_add_all w (a # as) s =
     (case cw_registrations w a of
        None \<Rightarrow> Inl (Type_error ''consumer registration must come from reviewed server construction'')
      | Some r \<Rightarrow> (case c_add r s of Inl err \<Rightarrow> Inl err | Inr s' \<Rightarrow> c_add_all w as s'))"

definition createConsumerAuthority ::
  "addr list \<Rightarrow> consumer_world \<Rightarrow> (js_throw + addr) \<times> consumer_world" where
  "createConsumerAuthority registrations w =
     (case c_add_all w registrations empty_registry of
        Inl err \<Rightarrow> (Inl err, w)
      | Inr s \<Rightarrow>
          (let a = cw_next w; w1 = c_alloc (frozen []) w
           in (Inr a, w1\<lparr>cw_authorities := (cw_authorities w1)(a \<mapsto> s)\<rparr>)))"

text \<open>A registry mutation of one authority.\<close>

definition c_update ::
  "addr \<Rightarrow> (consumer_registration registry \<Rightarrow> js_throw + consumer_registration registry)
     \<Rightarrow> consumer_world \<Rightarrow> (js_throw + unit) \<times> consumer_world" where
  "c_update authority f w =
     (case cw_authorities w authority of
        None \<Rightarrow> (Inl (Type_error ''consumer registration is unknown''), w)
      | Some s \<Rightarrow>
          (case f s of
             Inl err \<Rightarrow> (Inl err, w)
           | Inr s' \<Rightarrow> (Inr (), w\<lparr>cw_authorities := (cw_authorities w)(authority \<mapsto> s')\<rparr>)))"

definition revokeConsumerRegistration ::
  "addr \<Rightarrow> jstr \<Rightarrow> consumer_world \<Rightarrow> (js_throw + unit) \<times> consumer_world" where
  "revokeConsumerRegistration authority ref w = c_update authority (c_revoke ref) w"

definition removeConsumerRegistration ::
  "addr \<Rightarrow> jstr \<Rightarrow> consumer_world \<Rightarrow> (js_throw + unit) \<times> consumer_world" where
  "removeConsumerRegistration authority ref w = c_update authority (c_remove ref) w"

definition replaceConsumerRegistration ::
  "addr \<Rightarrow> addr \<Rightarrow> consumer_world \<Rightarrow> (js_throw + unit) \<times> consumer_world" where
  "replaceConsumerRegistration authority registration w =
     (case (cw_authorities w authority, field (cw_heap w) registration ''registrationRef'') of
        (Some s, JStr ref) \<Rightarrow>
          (if byRegistration s ref = None
           then (Inl (Type_error ''consumer registration is unknown''), w)
           else (case cw_registrations w registration of
                   None \<Rightarrow>
                     (Inl (Type_error ''consumer registration must come from reviewed server construction''),
                      w)
                 | Some r \<Rightarrow> c_update authority (c_replace r) w))
      | _ \<Rightarrow> (Inl (Type_error ''consumer registration is unknown''), w))"

section \<open>Admission\<close>

datatype consumer_refusal =
    C_principal_missing | C_principal_untrusted | C_target_user_missing | C_target_user_untrusted
  | C_requested_user_mismatch | C_operation_untrusted | C_tier_untrusted | C_registration_missing
  | C_registration_mismatch | C_registration_revoked | C_registration_expired
  | C_operation_not_authorized | C_target_user_not_authorized | C_tier_not_authorized
  | C_context_invalid | C_authority_mismatch

record admission_input =
  ai_principal :: jref
  ai_operation :: jref
  ai_tier :: jref
  ai_targetUser :: jref
  ai_requestedUserId :: jval

definition nullish_ref :: "jref \<Rightarrow> bool" where
  "nullish_ref v = (v = RUndef \<or> v = RNull)"

text \<open>The four identity checks: the reference a capability carries, when it is one.\<close>

definition authenticated_principal :: "consumer_world \<Rightarrow> jref \<Rightarrow> jstr option" where
  "authenticated_principal w v =
     (case asObject (cw_heap w) v of
        None \<Rightarrow> None
      | Some a \<Rightarrow>
          (case cw_principals w a of
             None \<Rightarrow> None
           | Some ref \<Rightarrow>
               if field (cw_heap w) a ''principalRef'' = JStr ref
                  \<and> field (cw_heap w) a ''authenticatedBy'' = JStr ''server''
                  \<and> nonEmptyBoundedString ref
               then Some ref else None))"

definition resolved_target :: "consumer_world \<Rightarrow> jref \<Rightarrow> jstr option" where
  "resolved_target w v =
     (case asObject (cw_heap w) v of
        None \<Rightarrow> None
      | Some a \<Rightarrow>
          (case cw_targets w a of
             None \<Rightarrow> None
           | Some userId \<Rightarrow>
               if field (cw_heap w) a ''userId'' = JStr userId \<and> nonEmptyBoundedString userId
               then Some userId else None))"

definition selected_operation :: "consumer_world \<Rightarrow> jref \<Rightarrow> consumer_operation option" where
  "selected_operation w v =
     (case asObject (cw_heap w) v of
        None \<Rightarrow> None
      | Some a \<Rightarrow>
          (case cw_operations w a of
             None \<Rightarrow> None
           | Some oper \<Rightarrow>
               if field (cw_heap w) a ''name'' = JStr (consumer_operation_name oper)
               then Some oper else None))"

definition selected_tier :: "consumer_world \<Rightarrow> jref \<Rightarrow> consumer_tier option" where
  "selected_tier w v =
     (case asObject (cw_heap w) v of
        None \<Rightarrow> None
      | Some a \<Rightarrow>
          (case cw_tiers w a of
             None \<Rightarrow> None
           | Some t \<Rightarrow> if field (cw_heap w) a ''name'' = JStr (tier_name t) then Some t else None))"

definition context_object :: "context_binding \<Rightarrow> heap_object" where
  "context_object b =
     frozen [(''principalRef'', JStr (cb_principalRef b)),
             (''registrationRef'', JStr (cb_registrationRef b)),
             (''provider'', JStr (provider_name (cb_provider b))),
             (''client'', JStr (client_name (cb_client b))),
             (''locality'', JStr (locality_name (cb_locality b))),
             (''operation'', JStr (consumer_operation_name (cb_operation b))),
             (''targetUserId'', JStr (cb_targetUserId b)),
             (''tier'', JStr (tier_name (cb_tier b)))]"

definition buildContext ::
  "addr \<Rightarrow> jstr \<Rightarrow> consumer_registration \<Rightarrow> consumer_operation \<Rightarrow> jstr \<Rightarrow> consumer_tier
     \<Rightarrow> consumer_world \<Rightarrow> addr \<times> consumer_world" where
  "buildContext state principalRef r oper targetUserId tier w =
     (let a = cw_next w;
          b = \<lparr>cb_state = state, cb_principalRef = principalRef,
               cb_registrationRef = cr_registrationRef r, cb_provider = cr_provider r,
               cb_client = cr_client r, cb_locality = cr_locality r, cb_operation = oper,
               cb_targetUserId = targetUserId, cb_tier = tier\<rparr>;
          w1 = c_alloc (context_object b) w
      in (a, w1\<lparr>cw_contexts := (cw_contexts w1)(a \<mapsto> b)\<rparr>))"

text \<open>What a registration refuses of an operation, a user and a tier at an instant.\<close>

definition grant_refusal ::
  "js_env \<Rightarrow> consumer_registration registry \<Rightarrow> consumer_registration \<Rightarrow> consumer_operation \<Rightarrow> jstr
     \<Rightarrow> consumer_tier \<Rightarrow> consumer_refusal option" where
  "grant_refusal env s r oper userId tier =
     (if cr_registrationRef r \<in> revoked s \<or> cr_status r \<noteq> ''active'' then Some C_registration_revoked
      else if isExpired env (cr_expiresAt r) then Some C_registration_expired
      else if oper \<notin> set (cr_operations r) then Some C_operation_not_authorized
      else if userId \<notin> set (cr_targetUsers r) then Some C_target_user_not_authorized
      else if tier \<notin> set (cr_tiers r) then Some C_tier_not_authorized
      else None)"

datatype consumer_admission = Admitted addr | C_refused consumer_refusal

definition consumer_resolve ::
  "js_env \<Rightarrow> addr \<Rightarrow> admission_input \<Rightarrow> consumer_world
     \<Rightarrow> (js_throw + consumer_admission) \<times> consumer_world" where
  "consumer_resolve env authority i w =
     (case cw_authorities w authority of
        None \<Rightarrow> (Inl (Type_error ''authority.resolve is not a function''), w)
      | Some s \<Rightarrow>
          (if nullish_ref (ai_principal i) then (Inr (C_refused C_principal_missing), w)
           else (case authenticated_principal w (ai_principal i) of
             None \<Rightarrow> (Inr (C_refused C_principal_untrusted), w)
           | Some principalRef \<Rightarrow>
          (if nullish_ref (ai_targetUser i) then (Inr (C_refused C_target_user_missing), w)
           else (case resolved_target w (ai_targetUser i) of
             None \<Rightarrow> (Inr (C_refused C_target_user_untrusted), w)
           | Some userId \<Rightarrow>
          (case selected_operation w (ai_operation i) of
             None \<Rightarrow> (Inr (C_refused C_operation_untrusted), w)
           | Some oper \<Rightarrow>
          (case selected_tier w (ai_tier i) of
             None \<Rightarrow> (Inr (C_refused C_tier_untrusted), w)
           | Some tier \<Rightarrow>
          (if ai_requestedUserId i \<noteq> JUndef \<and> ai_requestedUserId i \<noteq> JStr userId
           then (Inr (C_refused C_requested_user_mismatch), w)
           else (case byPrincipal s principalRef of
             None \<Rightarrow> (Inr (C_refused C_registration_missing), w)
           | Some r \<Rightarrow>
          (if cr_principalRef r \<noteq> principalRef then (Inr (C_refused C_registration_mismatch), w)
           else (case grant_refusal env s r oper userId tier of
             Some why \<Rightarrow> (Inr (C_refused why), w)
           | None \<Rightarrow>
               (case buildContext authority principalRef r oper userId tier w of
                  (a, w') \<Rightarrow> (Inr (Admitted a), w')))))))))))))"

section \<open>Revalidation\<close>

definition contextFieldsMatchBinding :: "heap \<Rightarrow> addr \<Rightarrow> context_binding \<Rightarrow> bool" where
  "contextFieldsMatchBinding h a b =
     (field h a ''principalRef'' = JStr (cb_principalRef b)
      \<and> field h a ''registrationRef'' = JStr (cb_registrationRef b)
      \<and> field h a ''provider'' = JStr (provider_name (cb_provider b))
      \<and> field h a ''client'' = JStr (client_name (cb_client b))
      \<and> field h a ''locality'' = JStr (locality_name (cb_locality b))
      \<and> field h a ''operation'' = JStr (consumer_operation_name (cb_operation b))
      \<and> field h a ''targetUserId'' = JStr (cb_targetUserId b)
      \<and> field h a ''tier'' = JStr (tier_name (cb_tier b)))"

definition currentContextRefusal ::
  "js_env \<Rightarrow> consumer_world \<Rightarrow> consumer_registration registry \<Rightarrow> addr \<Rightarrow> context_binding
     \<Rightarrow> consumer_refusal option" where
  "currentContextRefusal env w s a b =
     (case byRegistration s (cb_registrationRef b) of
        None \<Rightarrow> Some C_registration_missing
      | Some r \<Rightarrow>
          (if cr_registrationRef r \<noteq> cb_registrationRef b \<or> cr_principalRef r \<noteq> cb_principalRef b
           then Some C_registration_mismatch
           else if (case byPrincipal s (cb_principalRef b) of
                      None \<Rightarrow> True
                    | Some q \<Rightarrow> cr_registrationRef q \<noteq> cb_registrationRef b)
           then Some C_registration_mismatch
           else if cr_provider r \<noteq> cb_provider b \<or> cr_client r \<noteq> cb_client b
                   \<or> cr_locality r \<noteq> cb_locality b
           then Some C_registration_mismatch
           else (case grant_refusal env s r (cb_operation b) (cb_targetUserId b) (cb_tier b) of
                   Some why \<Rightarrow> Some why
                 | None \<Rightarrow>
                     if \<not> contextFieldsMatchBinding (cw_heap w) a b then Some C_context_invalid
                     else None)))"

datatype bound_context = Bound addr context_binding "consumer_registration registry"
  | Unbound consumer_refusal

definition bindingForContext ::
  "js_env \<Rightarrow> addr \<Rightarrow> jref \<Rightarrow> consumer_world \<Rightarrow> bound_context" where
  "bindingForContext env authority v w =
     (case cw_authorities w authority of
        None \<Rightarrow> Unbound C_authority_mismatch
      | Some s \<Rightarrow>
          (case asObject (cw_heap w) v of
             None \<Rightarrow> Unbound C_context_invalid
           | Some a \<Rightarrow>
               (case cw_contexts w a of
                  None \<Rightarrow> Unbound C_context_invalid
                | Some b \<Rightarrow>
                    (if cb_state b \<noteq> authority then Unbound C_authority_mismatch
                     else if \<not> contextFieldsMatchBinding (cw_heap w) a b then Unbound C_context_invalid
                     else (case currentContextRefusal env w s a b of
                             Some why \<Rightarrow> Unbound why
                           | None \<Rightarrow> Bound a b s)))))"

record delivery_grant =
  dg_context :: addr
  dg_targetUserId :: jstr
  dg_registrationRef :: jstr
  dg_provider :: consumer_provider
  dg_client :: consumer_client
  dg_locality :: consumer_locality
  dg_allowOrdinary :: bool
  dg_restrictions :: "restriction list"
  dg_expiresAt :: "jstr option"

datatype grant_result = Granted delivery_grant | No_grant consumer_refusal

definition getCurrentConsumerDeliveryGrant ::
  "js_env \<Rightarrow> addr \<Rightarrow> jref \<Rightarrow> consumer_world \<Rightarrow> grant_result" where
  "getCurrentConsumerDeliveryGrant env authority v w =
     (case bindingForContext env authority v w of
        Unbound why \<Rightarrow> No_grant why
      | Bound a b s \<Rightarrow>
          (case byRegistration s (cb_registrationRef b) of
             None \<Rightarrow> No_grant C_registration_missing
           | Some r \<Rightarrow>
               Granted \<lparr>dg_context = a, dg_targetUserId = cb_targetUserId b,
                        dg_registrationRef = cr_registrationRef r, dg_provider = cr_provider r,
                        dg_client = cr_client r, dg_locality = cr_locality r,
                        dg_allowOrdinary = cr_allowOrdinary r, dg_restrictions = cr_restrictions r,
                        dg_expiresAt = (case cr_expiresAt r of
                                          Some e \<Rightarrow> if truthy e then Some e else None
                                        | None \<Rightarrow> None)\<rparr>))"

definition assertTrustedConsumerDeliveryContext ::
  "js_env \<Rightarrow> addr \<Rightarrow> jref \<Rightarrow> consumer_world \<Rightarrow> consumer_refusal option" where
  "assertTrustedConsumerDeliveryContext env authority v w =
     (case bindingForContext env authority v w of Unbound why \<Rightarrow> Some why | Bound _ _ _ \<Rightarrow> None)"

text \<open>
  The callback runs between two readings of the clock and may change the world: it is a function
  on worlds that returns a value or throws.
\<close>

datatype 'v admission_run = Run_refused consumer_refusal | Run_value addr 'v

definition consumerGrantSnapshotMatches :: "delivery_grant \<Rightarrow> delivery_grant \<Rightarrow> bool" where
  "consumerGrantSnapshotMatches initial current =
     (dg_context initial = dg_context current
      \<and> dg_registrationRef initial = dg_registrationRef current
      \<and> dg_provider initial = dg_provider current \<and> dg_client initial = dg_client current
      \<and> dg_locality initial = dg_locality current
      \<and> dg_allowOrdinary initial = dg_allowOrdinary current
      \<and> dg_expiresAt initial = dg_expiresAt current
      \<and> length (dg_restrictions initial) = length (dg_restrictions current)
      \<and> list_all (\<lambda>(x, y). x = y) (zip (dg_restrictions initial) (dg_restrictions current)))"

definition runWithConsumerAdmission ::
  "js_env \<Rightarrow> js_env \<Rightarrow> addr \<Rightarrow> admission_input
     \<Rightarrow> (addr \<Rightarrow> consumer_world \<Rightarrow> (js_throw + 'v) \<times> consumer_world)
     \<Rightarrow> consumer_world \<Rightarrow> (js_throw + 'v admission_run) \<times> consumer_world" where
  "runWithConsumerAdmission env env' authority i callback w =
     (case consumer_resolve env authority i w of
        (Inl err, w1) \<Rightarrow> (Inl err, w1)
      | (Inr (C_refused why), w1) \<Rightarrow> (Inr (Run_refused why), w1)
      | (Inr (Admitted a), w1) \<Rightarrow>
          (case getCurrentConsumerDeliveryGrant env authority (RRef a) w1 of
             No_grant why \<Rightarrow> (Inr (Run_refused why), w1)
           | Granted initial \<Rightarrow>
               (case callback a w1 of
                  (Inl err, w2) \<Rightarrow> (Inl err, w2)
                | (Inr val, w2) \<Rightarrow>
                    (case getCurrentConsumerDeliveryGrant env' authority (RRef a) w2 of
                       No_grant why \<Rightarrow> (Inr (Run_refused why), w2)
                     | Granted current \<Rightarrow>
                         (if \<not> consumerGrantSnapshotMatches initial current
                          then (Inr (Run_refused C_context_invalid), w2)
                          else (Inr (Run_value a val), w2))))))"

end
