(* ===== verification/Consumer_Worlds.thy ===== *)
theory Consumer_Worlds
  imports Consumer_Authority
begin

text \<open>
  The reachable worlds of the consumer authority (\<open>src/src/app/consumer-policy/authority.ts\<close>): a
  step is one call of an exported operation, the creation of any object by other code, or the
  mutation of an unfrozen one. The invariant of the reachable worlds and the laws of grants:
  contexts cannot be forged, a grant is current, a removal is final.
\<close>

section \<open>Steps\<close>

inductive consumer_step :: "consumer_world \<Rightarrow> consumer_world \<Rightarrow> bool" where
  principal: "createServerAuthenticatedConsumerPrincipal ref w = (res, w') \<Longrightarrow> consumer_step w w'"
| target: "createServerResolvedConsumerTargetUser ref w = (res, w') \<Longrightarrow> consumer_step w w'"
| operation: "createServerSelectedConsumerOperation ref w = (res, w') \<Longrightarrow> consumer_step w w'"
| tier: "createServerSelectedConsumerTier ref w = (res, w') \<Longrightarrow> consumer_step w w'"
| registration: "createReviewedConsumerRegistration env i w = (res, w') \<Longrightarrow> consumer_step w w'"
| authority: "createConsumerAuthority rs w = (res, w') \<Longrightarrow> consumer_step w w'"
| revoke: "revokeConsumerRegistration a ref w = (res, w') \<Longrightarrow> consumer_step w w'"
| remove: "removeConsumerRegistration a ref w = (res, w') \<Longrightarrow> consumer_step w w'"
| replace: "replaceConsumerRegistration a r w = (res, w') \<Longrightarrow> consumer_step w w'"
| resolve: "consumer_resolve env a input w = (adm, w') \<Longrightarrow> consumer_step w w'"
| forge: "consumer_step w (c_alloc ob w)"
| mutate: "cw_heap w a = Some ob \<Longrightarrow> \<not> ho_frozen ob \<Longrightarrow>
    consumer_step w (w\<lparr>cw_heap := (cw_heap w)(a \<mapsto> ob\<lparr>ho_value := v\<rparr>)\<rparr>)"

abbreviation consumer_steps :: "consumer_world \<Rightarrow> consumer_world \<Rightarrow> bool" where
  "consumer_steps \<equiv> consumer_step\<^sup>*\<^sup>*"

abbreviation consumer_reachable :: "consumer_world \<Rightarrow> bool" where
  "consumer_reachable w \<equiv> consumer_steps empty_consumer_world w"

section \<open>Three shapes of a step\<close>

text \<open>
  Whatever the operation, a step leaves the maps alone, allocates one object and enters it in at
  most one map, or changes the registry of one authority by a registry operation.
\<close>

definition registry_change ::
  "consumer_world \<Rightarrow> consumer_registration registry \<Rightarrow> consumer_registration registry \<Rightarrow> bool" where
  "registry_change w s s' =
     ((\<exists>ref. c_revoke ref s = Inr s' \<or> c_remove ref s = Inr s')
      \<or> (\<exists>x r. cw_registrations w x = Some r \<and> c_replace r s = Inr s'))"

inductive world_change :: "consumer_world \<Rightarrow> consumer_world \<Rightarrow> bool" where
  same: "world_change w w"
| alloc: "world_change w (c_alloc ob w)"
| alloc_principal: "world_change w ((c_alloc ob w)\<lparr>cw_principals := (cw_principals w)(cw_next w \<mapsto> x)\<rparr>)"
| alloc_target: "world_change w ((c_alloc ob w)\<lparr>cw_targets := (cw_targets w)(cw_next w \<mapsto> x)\<rparr>)"
| alloc_operation: "world_change w ((c_alloc ob w)\<lparr>cw_operations := (cw_operations w)(cw_next w \<mapsto> y)\<rparr>)"
| alloc_tier: "world_change w ((c_alloc ob w)\<lparr>cw_tiers := (cw_tiers w)(cw_next w \<mapsto> t)\<rparr>)"
| alloc_registration: "checked_registration env i = Inr r \<Longrightarrow>
    world_change w ((c_alloc ob w)\<lparr>cw_registrations := (cw_registrations w)(cw_next w \<mapsto> r)\<rparr>)"
| alloc_authority: "c_add_all w rs empty_registry = Inr s \<Longrightarrow>
    world_change w ((c_alloc ob w)\<lparr>cw_authorities := (cw_authorities w)(cw_next w \<mapsto> s)\<rparr>)"
| alloc_context: "cw_authorities w (cb_state b) \<noteq> None \<Longrightarrow>
    world_change w ((c_alloc (context_object b) w)\<lparr>cw_contexts := (cw_contexts w)(cw_next w \<mapsto> b)\<rparr>)"
| registry: "cw_authorities w a = Some s \<Longrightarrow> registry_change w s s' \<Longrightarrow>
    world_change w (w\<lparr>cw_authorities := (cw_authorities w)(a \<mapsto> s')\<rparr>)"
| heap_write: "cw_heap w a = Some ob \<Longrightarrow> \<not> ho_frozen ob \<Longrightarrow>
    world_change w (w\<lparr>cw_heap := (cw_heap w)(a \<mapsto> ob\<lparr>ho_value := v\<rparr>)\<rparr>)"

inductive_cases world_changeE: "world_change w w'"

lemma c_alloc_simps [simp]:
  "cw_heap (c_alloc ob w) = (cw_heap w)(cw_next w \<mapsto> ob)" "cw_next (c_alloc ob w) = Suc (cw_next w)"
  "cw_principals (c_alloc ob w) = cw_principals w" "cw_targets (c_alloc ob w) = cw_targets w"
  "cw_operations (c_alloc ob w) = cw_operations w" "cw_tiers (c_alloc ob w) = cw_tiers w"
  "cw_registrations (c_alloc ob w) = cw_registrations w" "cw_contexts (c_alloc ob w) = cw_contexts w"
  "cw_authorities (c_alloc ob w) = cw_authorities w"
  by (simp_all add: c_alloc_def)

lemma update_change:
  assumes "c_update a f w = (res, w')" and "\<And>s s'. f s = Inr s' \<Longrightarrow> registry_change w s s'"
  shows "world_change w w'"
proof (cases "cw_authorities w a")
  case None
  with assms(1) show ?thesis by (auto simp: c_update_def intro: world_change.same)
next
  case (Some s)
  with assms show ?thesis
    by (cases "f s") (auto simp: c_update_def intro: world_change.same world_change.registry)
qed

lemma resolve_result:
  assumes "consumer_resolve env a i w = (adm, w')"
  shows "w' = w \<and> (\<forall>x. adm \<noteq> Inr (Admitted x))
    \<or> (\<exists>s r p u oper t. cw_authorities w a = Some s \<and> byPrincipal s p = Some r
         \<and> cr_principalRef r = p \<and> authenticated_principal w (ai_principal i) = Some p
         \<and> resolved_target w (ai_targetUser i) = Some u
         \<and> selected_operation w (ai_operation i) = Some oper
         \<and> selected_tier w (ai_tier i) = Some t
         \<and> (ai_requestedUserId i = JUndef \<or> ai_requestedUserId i = JStr u)
         \<and> grant_refusal env s r oper u t = None
         \<and> buildContext a p r oper u t w = (cw_next w, w') \<and> adm = Inr (Admitted (cw_next w)))"
proof -
  have build: "\<exists>w2. buildContext a p r oper u t w = (cw_next w, w2)" for p r oper u t
    by (simp add: buildContext_def Let_def)
  from build have fresh: "x = cw_next w" if "buildContext a p r oper u t w = (x, w2)" for p r oper u t x w2
    using that by (metis prod.inject)
  from assms show ?thesis
    unfolding consumer_resolve_def
    by (auto split: option.splits if_splits prod.splits dest: fresh)
qed

lemma build_change:
  assumes "buildContext a p r oper u t w = (x, w')" and "cw_authorities w a \<noteq> None"
  shows "world_change w w'"
proof -
  let ?b = "\<lparr>cb_state = a, cb_principalRef = p, cb_registrationRef = cr_registrationRef r,
             cb_provider = cr_provider r, cb_client = cr_client r, cb_locality = cr_locality r,
             cb_operation = oper, cb_targetUserId = u, cb_tier = t\<rparr>"
  have built: "w' = (c_alloc (context_object ?b) w)\<lparr>cw_contexts := (cw_contexts w)(cw_next w \<mapsto> ?b)\<rparr>"
    using assms(1) by (auto simp: buildContext_def Let_def)
  have auth: "cw_authorities w (cb_state ?b) \<noteq> None" using assms(2) by simp
  show ?thesis by (subst built, rule world_change.alloc_context [OF auth])
qed

lemma step_change: "consumer_step w w' \<Longrightarrow> world_change w w'"
proof (induction rule: consumer_step.induct)
  case (principal ref w res w')
  then show ?case
    by (auto simp: createServerAuthenticatedConsumerPrincipal_def Let_def
        intro: world_change.same world_change.alloc_principal split: if_splits)
next
  case (target ref w res w')
  then show ?case
    by (auto simp: createServerResolvedConsumerTargetUser_def Let_def
        intro: world_change.same world_change.alloc_target split: if_splits)
next
  case (operation ref w res w')
  then show ?case
    by (auto simp: createServerSelectedConsumerOperation_def Let_def
        intro: world_change.same world_change.alloc_operation split: option.splits)
next
  case (tier ref w res w')
  then show ?case
    by (auto simp: createServerSelectedConsumerTier_def Let_def
        intro: world_change.same world_change.alloc_tier split: option.splits)
next
  case (registration env i w res w')
  then show ?case
    by (auto simp: createReviewedConsumerRegistration_def Let_def
        intro: world_change.same world_change.alloc_registration split: sum.splits)
next
  case (authority rs w res w')
  then show ?case
    by (auto simp: createConsumerAuthority_def Let_def
        intro: world_change.same world_change.alloc_authority split: sum.splits)
next
  case (revoke a ref w res w')
  then show ?case
    unfolding revokeConsumerRegistration_def by (rule update_change) (auto simp: registry_change_def)
next
  case (remove a ref w res w')
  then show ?case
    unfolding removeConsumerRegistration_def by (rule update_change) (auto simp: registry_change_def)
next
  case (replace a x w res w')
  have "world_change w w2" if "cw_registrations w x = Some r" "c_update a (c_replace r) w = (u, w2)"
    for r u w2
    using that(2) by (rule update_change) (use that(1) in \<open>auto simp: registry_change_def\<close>)
  with replace show ?case
    by (auto simp: replaceConsumerRegistration_def intro: world_change.same
        split: option.splits jval.splits if_splits)
next
  case (resolve env a i w adm w')
  from resolve_result [OF this] show ?case
    by (auto intro: world_change.same build_change)
qed (auto intro: world_change.intros)

section \<open>The invariant\<close>

definition registration_valid :: "consumer_registration \<Rightarrow> bool" where
  "registration_valid r =
     (nonEmptyBoundedString (cr_registrationRef r) \<and> nonEmptyBoundedString (cr_principalRef r)
      \<and> cr_operations r \<noteq> [] \<and> cr_tiers r \<noteq> [] \<and> cr_targetUsers r \<noteq> []
      \<and> list_all nonEmptyBoundedString (cr_targetUsers r)
      \<and> distinct (cr_operations r) \<and> distinct (cr_tiers r) \<and> distinct (cr_targetUsers r)
      \<and> sorted_wrt (<) (cr_restrictions r))"

definition maps_inside :: "consumer_world \<Rightarrow> bool" where
  "maps_inside w =
     (\<forall>a\<ge>cw_next w. cw_heap w a = None \<and> cw_principals w a = None \<and> cw_targets w a = None
        \<and> cw_operations w a = None \<and> cw_tiers w a = None \<and> cw_registrations w a = None
        \<and> cw_contexts w a = None \<and> cw_authorities w a = None)"

definition contexts_bound :: "consumer_world \<Rightarrow> bool" where
  "contexts_bound w =
     (\<forall>a b. cw_contexts w a = Some b \<longrightarrow>
        cw_heap w a = Some (context_object b) \<and> cw_authorities w (cb_state b) \<noteq> None)"

definition registrations_reviewed :: "consumer_world \<Rightarrow> bool" where
  "registrations_reviewed w = (\<forall>a r. cw_registrations w a = Some r \<longrightarrow> registration_valid r)"

definition reviewed_registry :: "consumer_world \<Rightarrow> consumer_registration registry \<Rightarrow> bool" where
  "reviewed_registry w s =
     (registry_ok cr_principalRef cr_registrationRef s
      \<and> (\<forall>k r. byRegistration s k = Some r \<longrightarrow> (\<exists>x. cw_registrations w x = Some r)))"

definition authorities_consistent :: "consumer_world \<Rightarrow> bool" where
  "authorities_consistent w = (\<forall>a s. cw_authorities w a = Some s \<longrightarrow> reviewed_registry w s)"

definition consumer_ok :: "consumer_world \<Rightarrow> bool" where
  "consumer_ok w =
     (maps_inside w \<and> contexts_bound w \<and> registrations_reviewed w \<and> authorities_consistent w)"

subsection \<open>Preservation\<close>

lemma checked_registration_valid:
  "checked_registration env i = Inr r \<Longrightarrow> registration_valid r"
  by (auto simp: checked_registration_def registration_valid_def canonicalRestrictions_def Let_def
      sorted_restrictions list_all_iff list_ex_iff List.map_filter_def filter_empty_conv
      split: if_splits option.splits sum.splits jval.splits)

lemma reviewed_change:
  assumes ok: "reviewed_registry w s" and "registry_change w s s'"
  shows "reviewed_registry w s'"
proof -
  have reg: "registry_ok cr_principalRef cr_registrationRef s" using ok by (simp add: reviewed_registry_def)
  from assms(2) consider ref where "c_revoke ref s = Inr s'" | ref where "c_remove ref s = Inr s'"
    | x r where "cw_registrations w x = Some r" "c_replace r s = Inr s'"
    by (auto simp: registry_change_def)
  then show ?thesis
  proof cases
    case (1 ref)
    with ok consumer_registry.revoke_ok [OF reg 1] show ?thesis
      by (auto simp: reviewed_registry_def c_revoke_def split: if_splits)
  next
    case (2 ref)
    with ok consumer_registry.remove_ok [OF reg 2] show ?thesis
      by (auto simp: reviewed_registry_def c_remove_def split: if_splits option.splits)
  next
    case (3 x r)
    with ok consumer_registry.replace_ok [OF reg 3(2)] show ?thesis
      by (auto simp: reviewed_registry_def c_replace_def split: if_splits option.splits)
  qed
qed

lemma add_all_reviewed:
  "c_add_all w rs s = Inr s' \<Longrightarrow> reviewed_registry w s \<Longrightarrow> reviewed_registry w s'"
proof (induction rs arbitrary: s)
  case Nil
  then show ?case by simp
next
  case (Cons a as)
  then obtain r s1 where r: "cw_registrations w a = Some r" and s1: "c_add r s = Inr s1"
    and rest: "c_add_all w as s1 = Inr s'"
    by (auto split: option.splits sum.splits)
  have "reviewed_registry w s1"
    using Cons.prems(2) r consumer_registry.add_ok [OF _ s1] consumer_registry.add_law [OF s1]
    by (auto simp: reviewed_registry_def)
  with rest show ?case by (rule Cons.IH)
qed

lemma empty_reviewed: "reviewed_registry w empty_registry"
  using consumer_registry.empty_ok by (simp add: reviewed_registry_def empty_registry_def)

lemma fresh_entries:
  assumes "maps_inside w"
  shows "cw_heap w (cw_next w) = None" "cw_contexts w (cw_next w) = None"
    "cw_registrations w (cw_next w) = None" "cw_authorities w (cw_next w) = None"
  using assms by (auto simp: maps_inside_def)

lemma reviewed_mono:
  "reviewed_registry w s \<Longrightarrow>
     (\<And>x r. cw_registrations w x = Some r \<Longrightarrow> cw_registrations w' x = Some r) \<Longrightarrow>
     reviewed_registry w' s"
  by (force simp: reviewed_registry_def)

text \<open>What a change keeps: addresses in use keep their contexts, registrations and authorities.\<close>

lemma change_frame:
  assumes "world_change w w'" and "maps_inside w" and "a < cw_next w"
  shows "cw_contexts w' a = cw_contexts w a \<and> cw_registrations w' a = cw_registrations w a
    \<and> (cw_authorities w' a = None) = (cw_authorities w a = None) \<and> cw_next w \<le> cw_next w'"
  using assms by cases (auto simp: c_alloc_def)

lemma change_keeps_registrations:
  assumes "world_change w w'" and "maps_inside w" and "cw_registrations w x = Some r"
  shows "cw_registrations w' x = Some r"
  using assms by cases (auto simp: fresh_entries)

lemma change_maps: "world_change w w' \<Longrightarrow> maps_inside w \<Longrightarrow> maps_inside w'"
proof (induction rule: world_change.induct)
  case (registry w a s s')
  then have "a < cw_next w" by (metis maps_inside_def not_less option.distinct(1))
  with registry show ?case by (auto simp: maps_inside_def)
next
  case (heap_write w a ob v)
  then have "a < cw_next w" by (metis maps_inside_def not_less option.distinct(1))
  with heap_write show ?case by (auto simp: maps_inside_def)
qed (auto simp: maps_inside_def)

lemma context_object_frozen [simp]: "ho_frozen (context_object b)"
  by (simp add: context_object_def)

lemma change_contexts: "world_change w w' \<Longrightarrow> consumer_ok w \<Longrightarrow> contexts_bound w'"
proof (induction rule: world_change.induct)
  case (heap_write w a ob v)
  then have "cw_contexts w a = None"
    by (cases "cw_contexts w a") (auto simp: consumer_ok_def contexts_bound_def)
  with heap_write show ?case by (auto simp: consumer_ok_def contexts_bound_def)
qed (auto simp: consumer_ok_def contexts_bound_def maps_inside_def)

lemma change_registrations: "world_change w w' \<Longrightarrow> consumer_ok w \<Longrightarrow> registrations_reviewed w'"
  by (induction rule: world_change.induct)
    (auto simp: consumer_ok_def registrations_reviewed_def dest: checked_registration_valid)

lemma change_authorities:
  assumes "world_change w w'" and "consumer_ok w"
  shows "authorities_consistent w'"
proof -
  have ok: "authorities_consistent w" and inside: "maps_inside w"
    using assms(2) by (simp_all add: consumer_ok_def)
  have keep: "reviewed_registry w' s" if "reviewed_registry w s" for s
    using that change_keeps_registrations [OF assms(1) inside] by (rule reviewed_mono)
  have "reviewed_registry w s" if "cw_authorities w' a = Some s" for a s
    using assms(1) ok that
    by cases (auto simp: authorities_consistent_def split: if_splits
        intro: reviewed_change add_all_reviewed [OF _ empty_reviewed])
  with keep show ?thesis by (auto simp: authorities_consistent_def)
qed

lemma change_ok: "world_change w w' \<Longrightarrow> consumer_ok w \<Longrightarrow> consumer_ok w'"
  unfolding consumer_ok_def [of w']
  using change_maps change_contexts change_registrations change_authorities
  by (auto simp: consumer_ok_def)

lemma step_ok [inv_intros]: "consumer_step w w' \<Longrightarrow> consumer_ok w \<Longrightarrow> consumer_ok w'"
  using step_change change_ok by blast

lemma steps_ok: "consumer_steps w w' \<Longrightarrow> consumer_ok w \<Longrightarrow> consumer_ok w'"
  by (induction rule: rtranclp_induct) (auto intro: inv_intros)

lemma empty_world_ok: "consumer_ok empty_consumer_world"
  by (simp add: consumer_ok_def empty_consumer_world_def maps_inside_def contexts_bound_def
      registrations_reviewed_def authorities_consistent_def)

lemma reachable_ok: "consumer_reachable w \<Longrightarrow> consumer_ok w"
  using steps_ok empty_world_ok by blast

lemma steps_frame:
  assumes "consumer_steps w w'" and "consumer_ok w" and "a < cw_next w"
  shows "cw_contexts w' a = cw_contexts w a \<and> a < cw_next w'"
  using assms(1)
proof (induction rule: rtranclp_induct)
  case base
  then show ?case using assms(3) by simp
next
  case (step y z)
  from step have "maps_inside y" using steps_ok assms(2) by (auto simp: consumer_ok_def)
  with step change_frame [OF step_change [OF step(2)], of a] show ?case by simp
qed

end
