(* ===== verification/Consumer_Delivery.thy ===== *)
theory Consumer_Delivery
  imports Consumer_Worlds
begin

text \<open>
  The delivery decision (\<open>src/src/app/consumer-policy/delivery.ts\<close>) and the laws of consumer
  authority and delivery over the reachable worlds.
\<close>

section \<open>Decisions\<close>

datatype withhold_reason =
    Consumer_context_invalid consumer_refusal
  | Target_user_mismatch
  | Ordinary_not_granted
  | Local_only_requires_same_device
  | Restriction_not_granted
  | Lineage_invalid lineage_invalid

record delivery_permit =
  dp_disposition :: disposition
  dp_registrationRef :: jstr
  dp_provider :: consumer_provider
  dp_client :: consumer_client
  dp_locality :: consumer_locality

datatype delivery_decision = Allow delivery_permit | Withhold withhold_reason | Legacy_generic

definition decideConsumerDelivery ::
  "js_env \<Rightarrow> addr \<Rightarrow> jref \<Rightarrow> jval \<Rightarrow> consumer_world \<Rightarrow> delivery_decision" where
  "decideConsumerDelivery env authority context persistedLineage w =
     (case classifyProcessingLineage persistedLineage of
        Legacy_unknown \<Rightarrow> Legacy_generic
      | Invalid reason \<Rightarrow> Withhold (Lineage_invalid reason)
      | Minni_verified l \<Rightarrow>
          (case getCurrentConsumerDeliveryGrant env authority context w of
             No_grant why \<Rightarrow> Withhold (Consumer_context_invalid why)
           | Granted g \<Rightarrow>
               (if dg_targetUserId g \<noteq> pl_target l then Withhold Target_user_mismatch
                else if ld_disposition (pl_delivery l) = Ordinary \<and> \<not> dg_allowOrdinary g
                then Withhold Ordinary_not_granted
                else if ld_disposition (pl_delivery l) \<noteq> Ordinary \<and> dg_locality g \<noteq> Same_device
                then Withhold Local_only_requires_same_device
                else if ld_disposition (pl_delivery l) \<noteq> Ordinary
                        \<and> \<not> list_all (\<lambda>r. r \<in> set (dg_restrictions g)) (ld_restrictions (pl_delivery l))
                then Withhold Restriction_not_granted
                else Allow \<lparr>dp_disposition = ld_disposition (pl_delivery l),
                            dp_registrationRef = dg_registrationRef g, dp_provider = dg_provider g,
                            dp_client = dg_client g, dp_locality = dg_locality g\<rparr>)))"

datatype 'v delivery_run = Not_delivered delivery_decision | Delivered delivery_permit 'v

definition runWithConsumerDelivery ::
  "js_env \<Rightarrow> js_env \<Rightarrow> addr \<Rightarrow> jref \<Rightarrow> jval
     \<Rightarrow> (delivery_permit \<Rightarrow> consumer_world \<Rightarrow> (js_throw + 'v) \<times> consumer_world)
     \<Rightarrow> consumer_world \<Rightarrow> (js_throw + 'v delivery_run) \<times> consumer_world" where
  "runWithConsumerDelivery env env' authority context persistedLineage callback w =
     (case decideConsumerDelivery env authority context persistedLineage w of
        Allow permit \<Rightarrow>
          (case callback permit w of
             (Inl err, w1) \<Rightarrow> (Inl err, w1)
           | (Inr val, w1) \<Rightarrow>
               (case decideConsumerDelivery env' authority context persistedLineage w1 of
                  Allow final \<Rightarrow> (Inr (Delivered final val), w1)
                | d \<Rightarrow> (Inr (Not_delivered d), w1)))
      | d \<Rightarrow> (Inr (Not_delivered d), w))"

section \<open>Facts\<close>

text \<open>The abstract grant: what the registry at the instant says about a binding.\<close>

definition currently_granted ::
  "js_env \<Rightarrow> consumer_world \<Rightarrow> addr \<Rightarrow> context_binding \<Rightarrow> consumer_registration \<Rightarrow> bool" where
  "currently_granted env w authority b r =
     (\<exists>s. cw_authorities w authority = Some s \<and> byRegistration s (cb_registrationRef b) = Some r
        \<and> byPrincipal s (cb_principalRef b) = Some r
        \<and> cb_registrationRef b \<notin> revoked s \<and> cr_status r = ''active''
        \<and> \<not> isExpired env (cr_expiresAt r)
        \<and> cb_operation b \<in> set (cr_operations r) \<and> cb_targetUserId b \<in> set (cr_targetUsers r)
        \<and> cb_tier b \<in> set (cr_tiers r) \<and> cr_provider r = cb_provider b \<and> cr_client r = cb_client b
        \<and> cr_locality r = cb_locality b)"

lemma grant_refusal_None:
  "grant_refusal env s r oper u t = None \<longleftrightarrow>
     cr_registrationRef r \<notin> revoked s \<and> cr_status r = ''active'' \<and> \<not> isExpired env (cr_expiresAt r)
     \<and> oper \<in> set (cr_operations r) \<and> u \<in> set (cr_targetUsers r) \<and> t \<in> set (cr_tiers r)"
  by (auto simp: grant_refusal_def)

lemma context_fields: "cw_heap w a = Some (context_object b) \<Longrightarrow> contextFieldsMatchBinding (cw_heap w) a b"
  by (simp add: contextFieldsMatchBinding_def field_def context_object_def)

lemma grant_binding:
  assumes "getCurrentConsumerDeliveryGrant env authority v w = Granted g"
  shows "\<exists>a b s r. v = RRef a \<and> cw_contexts w a = Some b \<and> cb_state b = authority
    \<and> cw_authorities w authority = Some s \<and> currentContextRefusal env w s a b = None
    \<and> byRegistration s (cb_registrationRef b) = Some r
    \<and> dg_context g = a \<and> dg_targetUserId g = cb_targetUserId b
    \<and> dg_registrationRef g = cr_registrationRef r \<and> dg_provider g = cr_provider r
    \<and> dg_client g = cr_client r \<and> dg_locality g = cr_locality r
    \<and> dg_allowOrdinary g = cr_allowOrdinary r \<and> dg_restrictions g = cr_restrictions r"
  using assms
  by (auto simp: getCurrentConsumerDeliveryGrant_def bindingForContext_def asObject_Some
      split: bound_context.splits option.splits if_splits)

lemma current_granted:
  assumes ok: "consumer_ok w" and s: "cw_authorities w authority = Some s"
    and none: "currentContextRefusal env w s a b = None"
    and r: "byRegistration s (cb_registrationRef b) = Some r"
  shows "currently_granted env w authority b r"
proof -
  have reg: "registry_ok cr_principalRef cr_registrationRef s"
    using ok s by (auto simp: consumer_ok_def authorities_consistent_def reviewed_registry_def)
  from none r obtain q where q: "byPrincipal s (cb_principalRef b) = Some q"
    and facts: "cr_registrationRef r = cb_registrationRef b" "cr_principalRef r = cb_principalRef b"
      "cr_provider r = cb_provider b" "cr_client r = cb_client b" "cr_locality r = cb_locality b"
      "grant_refusal env s r (cb_operation b) (cb_targetUserId b) (cb_tier b) = None"
    by (auto simp: currentContextRefusal_def split: if_splits option.splits)
  from registry_okD(2) [OF reg r] facts have "byPrincipal s (cb_principalRef b) = Some r" by simp
  with s r facts show ?thesis by (auto simp: currently_granted_def grant_refusal_None)
qed

lemma granted_iff:
  assumes ok: "consumer_ok w" and b: "cw_contexts w a = Some b"
  shows "(\<exists>g. getCurrentConsumerDeliveryGrant env (cb_state b) (RRef a) w = Granted g)
    \<longleftrightarrow> (\<exists>r. currently_granted env w (cb_state b) b r)"
proof
  assume "\<exists>g. getCurrentConsumerDeliveryGrant env (cb_state b) (RRef a) w = Granted g"
  then obtain g s r where "cw_authorities w (cb_state b) = Some s"
    "currentContextRefusal env w s a b = None" "byRegistration s (cb_registrationRef b) = Some r"
    using grant_binding b by fastforce
  with current_granted [OF ok] show "\<exists>r. currently_granted env w (cb_state b) b r" by blast
next
  assume "\<exists>r. currently_granted env w (cb_state b) b r"
  then obtain r s where s: "cw_authorities w (cb_state b) = Some s"
    and r: "byRegistration s (cb_registrationRef b) = Some r"
    and facts: "byPrincipal s (cb_principalRef b) = Some r" "cb_registrationRef b \<notin> revoked s"
      "cr_status r = ''active''" "\<not> isExpired env (cr_expiresAt r)"
      "cb_operation b \<in> set (cr_operations r)" "cb_targetUserId b \<in> set (cr_targetUsers r)"
      "cb_tier b \<in> set (cr_tiers r)" "cr_provider r = cb_provider b" "cr_client r = cb_client b"
      "cr_locality r = cb_locality b"
    by (auto simp: currently_granted_def)
  have reg: "registry_ok cr_principalRef cr_registrationRef s"
    using ok s by (auto simp: consumer_ok_def authorities_consistent_def reviewed_registry_def)
  have heap: "cw_heap w a = Some (context_object b)"
    using ok b by (auto simp: consumer_ok_def contexts_bound_def)
  have refs: "cr_registrationRef r = cb_registrationRef b" "cr_principalRef r = cb_principalRef b"
    using registry_okD(1,2) [OF reg] r facts(1) by auto
  have "grant_refusal env s r (cb_operation b) (cb_targetUserId b) (cb_tier b) = None"
    using facts refs by (simp add: grant_refusal_None)
  with r refs facts context_fields [OF heap] have "currentContextRefusal env w s a b = None"
    by (simp add: currentContextRefusal_def)
  with s r b heap context_fields [OF heap]
  show "\<exists>g. getCurrentConsumerDeliveryGrant env (cb_state b) (RRef a) w = Granted g"
    by (simp add: getCurrentConsumerDeliveryGrant_def bindingForContext_def asObject_def)
qed

text \<open>A registration reference that an authority does not hold never comes back to it.\<close>

definition absent :: "consumer_world \<Rightarrow> addr \<Rightarrow> jstr \<Rightarrow> bool" where
  "absent w authority ref =
     (\<exists>s. cw_authorities w authority = Some s \<and> byRegistration s ref = None)"

lemma registry_change_absent:
  "registry_change w s s' \<Longrightarrow> byRegistration s ref = None \<Longrightarrow> byRegistration s' ref = None"
  by (auto simp: registry_change_def c_revoke_def c_remove_def c_replace_def
      split: if_splits option.splits)

lemma change_absent:
  assumes "world_change w w'" and "maps_inside w" and "absent w authority ref"
  shows "absent w' authority ref"
proof -
  from assms obtain s where s: "cw_authorities w authority = Some s" "byRegistration s ref = None"
    by (auto simp: absent_def)
  then have "authority < cw_next w" using assms(2) by (metis maps_inside_def not_less option.distinct(1))
  with assms(1) s show ?thesis
    by cases (auto simp: absent_def dest: registry_change_absent)
qed

lemma steps_absent:
  assumes "consumer_steps w w'" and "consumer_ok w" and "absent w authority ref"
  shows "absent w' authority ref"
  using assms(1)
proof (induction rule: rtranclp_induct)
  case base
  then show ?case using assms(3) .
next
  case (step y z)
  then have "consumer_ok y" using steps_ok assms(2) by blast
  with step change_absent [OF step_change [OF step(2)]] show ?case by (simp add: consumer_ok_def)
qed

lemma zip_same_equal: "list_all (\<lambda>(x, y). x = y) (zip xs xs)"
  by (induction xs) auto

section \<open>A concrete world\<close>

definition clock :: js_env where
  "clock = \<lparr>now_ms = 1750000000000, parse_other = (\<lambda>_. None), locale_compare = (\<lambda>_ _. 0),
            sha256_hex = (\<lambda>s. s)\<rparr>"

definition demo_registration :: registration_input where
  "demo_registration =
     \<lparr>ri_registrationRef = ''r1'', ri_principalRef = ''p1'', ri_provider = ''local_hermes'',
      ri_client = ''hermes'', ri_locality = ''same_device'', ri_operations = [''recall''],
      ri_targetUsers = ['' u1 ''], ri_tiers = [''restricted''], ri_allowOrdinary = JBool True,
      ri_restrictions = [''producer_local_only'', ''audio_derived''], ri_status = None,
      ri_expiresAt = None\<rparr>"

text \<open>Six constructor calls: a registration at 0, an authority at 1, the four capabilities at 2 to 5.\<close>

definition demo_world :: consumer_world where
  "demo_world =
     (let w0 = snd (createReviewedConsumerRegistration clock demo_registration empty_consumer_world);
          w1 = snd (createConsumerAuthority [0] w0);
          w2 = snd (createServerAuthenticatedConsumerPrincipal ''p1'' w1);
          w3 = snd (createServerResolvedConsumerTargetUser ''u1'' w2);
          w4 = snd (createServerSelectedConsumerOperation ''recall'' w3)
      in snd (createServerSelectedConsumerTier ''restricted'' w4))"

definition demo_input :: admission_input where
  "demo_input = \<lparr>ai_principal = RRef 2, ai_operation = RRef 4, ai_tier = RRef 5, ai_targetUser = RRef 3,
                 ai_requestedUserId = JUndef\<rparr>"

definition admitted_world :: consumer_world where
  "admitted_world = snd (consumer_resolve clock 1 demo_input demo_world)"

lemma step_snd:
  "consumer_step w (snd (createReviewedConsumerRegistration env i w))"
  "consumer_step w (snd (createConsumerAuthority rs w))"
  "consumer_step w (snd (createServerAuthenticatedConsumerPrincipal ref w))"
  "consumer_step w (snd (createServerResolvedConsumerTargetUser ref w))"
  "consumer_step w (snd (createServerSelectedConsumerOperation ref w))"
  "consumer_step w (snd (createServerSelectedConsumerTier ref w))"
  "consumer_step w (snd (consumer_resolve env a j w))"
  "consumer_step w (snd (removeConsumerRegistration a ref w))"
  by (rule consumer_step.intros, rule prod.collapse [symmetric])+

lemma steps_then: "consumer_step w w' \<Longrightarrow> consumer_steps u w \<Longrightarrow> consumer_steps u w'"
  by (rule rtranclp.rtrancl_into_rtrancl)

lemmas steps_snd = step_snd [THEN steps_then]

lemma demo_reachable: "consumer_reachable demo_world"
  unfolding demo_world_def Let_def by (intro steps_snd rtranclp.rtrancl_refl)

lemma admitted_reachable: "consumer_reachable admitted_world"
  unfolding admitted_world_def by (intro steps_snd demo_reachable)

lemma demo_admitted: "fst (consumer_resolve clock 1 demo_input demo_world) = Inr (Admitted 6)"
  by code_simp

lemma demo_granted:
  "\<exists>g. getCurrentConsumerDeliveryGrant clock 1 (RRef 6) admitted_world = Granted g"
proof -
  have "(case getCurrentConsumerDeliveryGrant clock 1 (RRef 6) admitted_world of
           Granted _ \<Rightarrow> True | No_grant _ \<Rightarrow> False)" by code_simp
  then show ?thesis by (auto split: grant_result.splits)
qed

section \<open>The laws\<close>

text \<open>In every reachable world a grant stands for an object that an admission of the same authority made,
  and for a reviewed registration that the registry holds at the instant of the question: present
  under both keys, active, not revoked, not expired, and authorising the operation, the target user
  and the tier the context was admitted for.\<close>

theorem grant_is_current:
  assumes "consumer_reachable w"
    and "getCurrentConsumerDeliveryGrant env authority v w = Granted g"
  shows "\<exists>a b r. v = RRef a \<and> cw_contexts w a = Some b \<and> cb_state b = authority
    \<and> currently_granted env w authority b r
    \<and> (\<exists>x. cw_registrations w x = Some r) \<and> registration_valid r
    \<and> dg_locality g = cb_locality b \<and> dg_targetUserId g = cb_targetUserId b
    \<and> dg_restrictions g = cr_restrictions r \<and> dg_allowOrdinary g = cr_allowOrdinary r"
proof -
  have ok: "consumer_ok w" using assms(1) by (rule reachable_ok)
  from grant_binding [OF assms(2)] obtain a b s r where b: "v = RRef a" "cw_contexts w a = Some b"
    "cb_state b = authority" and s: "cw_authorities w authority = Some s"
    and none: "currentContextRefusal env w s a b = None"
    and r: "byRegistration s (cb_registrationRef b) = Some r"
    and g: "dg_targetUserId g = cb_targetUserId b" "dg_locality g = cr_locality r"
      "dg_restrictions g = cr_restrictions r" "dg_allowOrdinary g = cr_allowOrdinary r"
    by blast
  have granted: "currently_granted env w authority b r" by (rule current_granted [OF ok s none r])
  have "\<exists>x. cw_registrations w x = Some r"
    using ok s r by (auto simp: consumer_ok_def authorities_consistent_def reviewed_registry_def)
  moreover from this have "registration_valid r"
    using ok by (auto simp: consumer_ok_def registrations_reviewed_def)
  ultimately show ?thesis using b g granted by (auto simp: currently_granted_def)
qed

theorem grant_is_current_witness:
  "\<exists>b r. cw_contexts admitted_world 6 = Some b \<and> currently_granted clock admitted_world 1 b r"
proof -
  obtain g where "getCurrentConsumerDeliveryGrant clock 1 (RRef 6) admitted_world = Granted g"
    using demo_granted by blast
  from grant_is_current [OF admitted_reachable this] show ?thesis by auto
qed

text \<open>An object that other code makes, whatever its properties, is refused as a context by every
  authority in every later world: no copy of a context is a context.\<close>

theorem context_unforgeable:
  assumes "consumer_reachable w" and "consumer_steps (c_alloc ob w) w'"
  shows "getCurrentConsumerDeliveryGrant env authority (RRef (cw_next w)) w'
    \<in> {No_grant C_context_invalid, No_grant C_authority_mismatch}"
proof -
  have "consumer_ok w" using assms(1) by (rule reachable_ok)
  then have ok: "consumer_ok (c_alloc ob w)" by (rule step_ok [OF consumer_step.forge])
  have "cw_contexts (c_alloc ob w) (cw_next w) = None"
    using \<open>consumer_ok w\<close> by (simp add: consumer_ok_def fresh_entries)
  with steps_frame [OF assms(2) ok, of "cw_next w"] have "cw_contexts w' (cw_next w) = None" by simp
  then show ?thesis
    by (auto simp: getCurrentConsumerDeliveryGrant_def bindingForContext_def asObject_Some
        split: option.splits)
qed

theorem context_unforgeable_witness:
  "getCurrentConsumerDeliveryGrant clock 1 (RRef 7)
     (c_alloc (the (cw_heap admitted_world 6)) admitted_world)
   \<in> {No_grant C_context_invalid, No_grant C_authority_mismatch}"
proof -
  have "cw_next admitted_world = 7" by code_simp
  with context_unforgeable [OF admitted_reachable rtranclp.rtrancl_refl] show ?thesis by simp
qed

text \<open>C26: Removing a registration is final: in every later world, whatever is created, replaced or resolved,
  the authority grants no context under that registration reference.\<close>

theorem removal_is_final:
  assumes "consumer_reachable w"
    and "removeConsumerRegistration authority ref w = (Inr (), w1)" and "consumer_steps w1 w'"
  shows "\<nexists>g. getCurrentConsumerDeliveryGrant env authority v w' = Granted g \<and> dg_registrationRef g = ref"
proof -
  have ok: "consumer_ok w" using assms(1) by (rule reachable_ok)
  have step: "consumer_step w w1" using assms(2) by (rule consumer_step.remove)
  have "absent w1 authority ref"
    using assms(2)
    by (auto simp: removeConsumerRegistration_def c_update_def c_remove_def absent_def
        split: option.splits sum.splits)
  then have gone: "absent w' authority ref" using steps_absent assms(3) step_ok [OF step ok] by blast
  have ok': "consumer_ok w'" using steps_ok [OF assms(3)] step_ok [OF step ok] by blast
  show ?thesis
  proof (rule ccontr)
    assume "\<not> ?thesis"
    then obtain g where g: "getCurrentConsumerDeliveryGrant env authority v w' = Granted g"
      "dg_registrationRef g = ref" by auto
    from grant_binding [OF g(1)] obtain a b s r where "cw_contexts w' a = Some b"
      and s: "cw_authorities w' authority = Some s"
      and r: "byRegistration s (cb_registrationRef b) = Some r"
      and "dg_registrationRef g = cr_registrationRef r" by blast
    with g(2) have ref: "cr_registrationRef r = ref" by simp
    have "registry_ok cr_principalRef cr_registrationRef s"
      using ok' s by (auto simp: consumer_ok_def authorities_consistent_def reviewed_registry_def)
    from registry_okD(2) [OF this r] ref gone s r show False by (auto simp: absent_def)
  qed
qed

theorem removal_is_final_witness:
  "\<nexists>g. getCurrentConsumerDeliveryGrant clock 1 (RRef 6)
     (snd (removeConsumerRegistration 1 ''r1'' admitted_world)) = Granted g
   \<and> dg_registrationRef g = ''r1''"
proof -
  have "fst (removeConsumerRegistration 1 ''r1'' admitted_world) = Inr ()" by code_simp
  then have "removeConsumerRegistration 1 ''r1'' admitted_world
      = (Inr (), snd (removeConsumerRegistration 1 ''r1'' admitted_world))" by (metis prod.collapse)
  from removal_is_final [OF admitted_reachable this rtranclp.rtrancl_refl] show ?thesis .
qed

text \<open>An admission in a reachable world is good at once: the context it returns is new, and the grant for
  it at the same instant carries the operation, user and tier of the capabilities presented, which
  the registration of the presented principal authorises.\<close>

theorem admission_grants:
  assumes "consumer_reachable w"
    and "consumer_resolve env authority i w = (Inr (Admitted a), w')"
  shows "cw_contexts w a = None
    \<and> (\<exists>b. cw_contexts w' a = Some b \<and> authenticated_principal w (ai_principal i) = Some (cb_principalRef b)
         \<and> resolved_target w (ai_targetUser i) = Some (cb_targetUserId b)
         \<and> selected_operation w (ai_operation i) = Some (cb_operation b)
         \<and> selected_tier w (ai_tier i) = Some (cb_tier b)
         \<and> (ai_requestedUserId i = JUndef \<or> ai_requestedUserId i = JStr (cb_targetUserId b)))
    \<and> (\<exists>g. getCurrentConsumerDeliveryGrant env authority (RRef a) w' = Granted g)"
proof -
  have ok: "consumer_ok w" using assms(1) by (rule reachable_ok)
  from resolve_result [OF assms(2)] obtain s r u oper t
    where s: "cw_authorities w authority = Some s" and r: "byPrincipal s (cr_principalRef r) = Some r"
      and caps: "authenticated_principal w (ai_principal i) = Some (cr_principalRef r)"
        "resolved_target w (ai_targetUser i) = Some u" "selected_operation w (ai_operation i) = Some oper"
        "selected_tier w (ai_tier i) = Some t"
        "ai_requestedUserId i = JUndef \<or> ai_requestedUserId i = JStr u"
      and none: "grant_refusal env s r oper u t = None"
      and build: "buildContext authority (cr_principalRef r) r oper u t w = (a, w')"
    by auto
  let ?b = "\<lparr>cb_state = authority, cb_principalRef = cr_principalRef r,
    cb_registrationRef = cr_registrationRef r, cb_provider = cr_provider r, cb_client = cr_client r,
    cb_locality = cr_locality r, cb_operation = oper, cb_targetUserId = u, cb_tier = t\<rparr>"
  have a: "a = cw_next w" and b: "cw_contexts w' a = Some ?b"
    and s': "cw_authorities w' authority = Some s"
    using build s by (auto simp: buildContext_def Let_def)
  have ok': "consumer_ok w'" using ok assms(2) by (rule step_ok [OF consumer_step.resolve, rotated])
  have "registry_ok cr_principalRef cr_registrationRef s"
    using ok s by (auto simp: consumer_ok_def authorities_consistent_def reviewed_registry_def)
  from registry_okD(1) [OF this r] none s' r have "currently_granted env w' (cb_state ?b) ?b r"
    by (auto simp: currently_granted_def grant_refusal_None)
  with granted_iff [OF ok' b, of env] have "\<exists>g. getCurrentConsumerDeliveryGrant env authority (RRef a) w' = Granted g"
    by auto
  moreover have "cw_contexts w a = None" using ok a by (simp add: consumer_ok_def fresh_entries)
  ultimately show ?thesis using b caps by auto
qed

theorem admission_grants_witness:
  "\<exists>g. getCurrentConsumerDeliveryGrant clock 1 (RRef 6) admitted_world = Granted g"
proof -
  have "consumer_resolve clock 1 demo_input demo_world = (Inr (Admitted 6), admitted_world)"
    using demo_admitted by (metis admitted_world_def prod.collapse)
  from admission_grants [OF demo_reachable this] show ?thesis by blast
qed

text \<open>When an admission run returns a value, the grant held before the callback and, by the clock and
  the registry after it, still holds with the same registration, locality, ordinary flag,
  restrictions and expiry, whatever the callback did to the world.\<close>

theorem admission_run_revalidates:
  assumes "runWithConsumerAdmission env env' authority i callback w = (Inr (Run_value a val), w')"
  shows "\<exists>w1 g g'. consumer_resolve env authority i w = (Inr (Admitted a), w1)
    \<and> getCurrentConsumerDeliveryGrant env authority (RRef a) w1 = Granted g
    \<and> callback a w1 = (Inr val, w')
    \<and> getCurrentConsumerDeliveryGrant env' authority (RRef a) w' = Granted g'
    \<and> dg_registrationRef g' = dg_registrationRef g \<and> dg_locality g' = dg_locality g
    \<and> dg_allowOrdinary g' = dg_allowOrdinary g \<and> dg_restrictions g' = dg_restrictions g
    \<and> dg_expiresAt g' = dg_expiresAt g"
proof -
  have same: "xs = ys" if "length xs = length ys" "list_all (\<lambda>(x, y). x = y) (zip xs ys)"
    for xs ys :: "restriction list"
    using that by (induction xs ys rule: list_induct2) auto
  show ?thesis
    using assms
    by (auto simp: runWithConsumerAdmission_def consumerGrantSnapshotMatches_def
        split: prod.splits sum.splits consumer_admission.splits grant_result.splits if_splits
        dest: same)
qed

theorem admission_run_revalidates_witness:
  "\<exists>g'. getCurrentConsumerDeliveryGrant clock 1 (RRef 6) admitted_world = Granted g'"
proof -
  obtain g where g: "getCurrentConsumerDeliveryGrant clock 1 (RRef 6) admitted_world = Granted g"
    using demo_granted by blast
  have "consumer_resolve clock 1 demo_input demo_world = (Inr (Admitted 6), admitted_world)"
    using demo_admitted by (metis admitted_world_def prod.collapse)
  with g have "runWithConsumerAdmission clock clock 1 demo_input (\<lambda>_ w. (Inr (), w)) demo_world
      = (Inr (Run_value 6 ()), admitted_world)"
    by (simp add: runWithConsumerAdmission_def consumerGrantSnapshotMatches_def zip_same_equal)
  from admission_run_revalidates [OF this] show ?thesis by auto
qed

text \<open>In a reachable world a classified lineage is delivered exactly when the context is currently granted for
  the lineage's target user and either the content is ordinary and ordinary delivery is granted, or
  it is local-only, the consumer is on the same device and every restriction is granted.\<close>

theorem delivery_allowed_iff:
  assumes "consumer_reachable w" and "cw_contexts w a = Some b"
    and "classifyProcessingLineage v = Minni_verified l"
  shows "(\<exists>d. decideConsumerDelivery env (cb_state b) (RRef a) v w = Allow d)
    \<longleftrightarrow> (\<exists>r. currently_granted env w (cb_state b) b r \<and> pl_target l = cb_targetUserId b
          \<and> (if ld_disposition (pl_delivery l) = Ordinary then cr_allowOrdinary r
             else cr_locality r = Same_device
                  \<and> set (ld_restrictions (pl_delivery l)) \<subseteq> set (cr_restrictions r)))"
    (is "?L = ?R")
proof -
  have ok: "consumer_ok w" using assms(1) by (rule reachable_ok)
  have unique: "r = r'" if "currently_granted env w x b r" "currently_granted env w x b r'" for x r r'
    using that by (auto simp: currently_granted_def)
  show ?thesis
  proof (cases "getCurrentConsumerDeliveryGrant env (cb_state b) (RRef a) w")
    case (No_grant why)
    then have "\<nexists>r. currently_granted env w (cb_state b) b r"
      using granted_iff [OF ok assms(2), of env] by simp
    with No_grant assms(3) show ?thesis by (auto simp: decideConsumerDelivery_def)
  next
    case (Granted g)
    from grant_binding [OF Granted] assms(2) obtain s r
      where s: "cw_authorities w (cb_state b) = Some s" "currentContextRefusal env w s a b = None"
        "byRegistration s (cb_registrationRef b) = Some r"
        and g: "dg_targetUserId g = cb_targetUserId b" "dg_locality g = cr_locality r"
          "dg_allowOrdinary g = cr_allowOrdinary r" "dg_restrictions g = cr_restrictions r"
      by auto
    have r: "currently_granted env w (cb_state b) b r" by (rule current_granted [OF ok s])
    have "?R \<longleftrightarrow> pl_target l = cb_targetUserId b
        \<and> (if ld_disposition (pl_delivery l) = Ordinary then cr_allowOrdinary r
           else cr_locality r = Same_device
                \<and> set (ld_restrictions (pl_delivery l)) \<subseteq> set (cr_restrictions r))"
      using r unique [OF r] by blast
    moreover have "?L \<longleftrightarrow> pl_target l = cb_targetUserId b
        \<and> (if ld_disposition (pl_delivery l) = Ordinary then cr_allowOrdinary r
           else cr_locality r = Same_device
                \<and> set (ld_restrictions (pl_delivery l)) \<subseteq> set (cr_restrictions r))"
      using Granted assms(3) g
      by (auto simp: decideConsumerDelivery_def list_all_iff)
    ultimately show ?thesis by simp
  qed
qed

theorem delivery_allowed_iff_witness:
  "\<exists>d. decideConsumerDelivery clock 1 (RRef 6) demo_lineage admitted_world = Allow d"
proof -
  have "(case cw_contexts admitted_world 6 of
           Some b \<Rightarrow> cb_state b = 1 \<and> cb_targetUserId b = ''u1''
         | None \<Rightarrow> False)" by code_simp
  then obtain b where b: "cw_contexts admitted_world 6 = Some b" "cb_state b = 1"
    "cb_targetUserId b = ''u1''" by (auto split: option.splits)
  have "(case byRegistration (the (cw_authorities admitted_world 1)) ''r1'' of
           Some r \<Rightarrow> cr_locality r = Same_device
             \<and> cr_restrictions r = [Audio_derived, Producer_local_only]
         | None \<Rightarrow> False)" by code_simp
  moreover obtain g where "getCurrentConsumerDeliveryGrant clock (cb_state b) (RRef 6) admitted_world = Granted g"
    using demo_granted b by auto
  with granted_iff [OF reachable_ok [OF admitted_reachable] b(1), of clock] obtain r
    where r: "currently_granted clock admitted_world (cb_state b) b r" by blast
  moreover have "cb_registrationRef b = ''r1''"
  proof -
    have "cb_registrationRef (the (cw_contexts admitted_world 6)) = ''r1''" by code_simp
    with b show ?thesis by simp
  qed
  ultimately have "cr_locality r = Same_device" "cr_restrictions r = [Audio_derived, Producer_local_only]"
    using b by (auto simp: currently_granted_def split: option.splits)
  with r b delivery_allowed_iff [OF admitted_reachable b(1) demo_classified, of clock]
  show ?thesis by (auto simp: demo_verified_def)
qed

text \<open>A delivery run that refuses does not depend on the callback, and one that delivers was allowed
  before and after it: nothing protected reaches the callback on a refusal.\<close>

theorem delivery_run_fenced:
  assumes "runWithConsumerDelivery env env' authority context v callback w = (Inr res, w')"
  shows "case res of
      Delivered d val \<Rightarrow> \<exists>d0. decideConsumerDelivery env authority context v w = Allow d0
        \<and> callback d0 w = (Inr val, w') \<and> decideConsumerDelivery env' authority context v w' = Allow d
    | Not_delivered d \<Rightarrow> (\<exists>d0. decideConsumerDelivery env authority context v w = Allow d0)
        \<or> (w' = w \<and> (\<forall>callback'. runWithConsumerDelivery env env' authority context v callback' w
                 = (Inr (Not_delivered d) :: js_throw + unit delivery_run, w)))"
  using assms
  by (auto simp: runWithConsumerDelivery_def
      split: delivery_decision.splits prod.splits sum.splits delivery_run.splits)

theorem delivery_run_fenced_witness:
  "runWithConsumerDelivery clock clock 1 (RRef 2) JUndef
     (\<lambda>_ w. (Inr (), empty_consumer_world)) demo_world
   = (Inr (Not_delivered Legacy_generic), demo_world)"
proof -
  have run: "runWithConsumerDelivery clock clock 1 (RRef 2) JUndef (\<lambda>_ w. (Inr (), w)) demo_world
      = (Inr (Not_delivered Legacy_generic), demo_world)"
    by (simp add: runWithConsumerDelivery_def decideConsumerDelivery_def classifyProcessingLineage_def)
  from delivery_run_fenced [OF run] show ?thesis
    by (simp add: decideConsumerDelivery_def classifyProcessingLineage_def)
qed

end
