(* ===== verification/Dag_Guard.thy ===== *)
theory Dag_Guard
  imports Runir_Prelude
begin

text \<open>
  The cycle guard of the supersession graph (\<open>src/src/lifecycle/semion/dag-guard.ts\<close>): before a
  record is made to supersede another, the chain of \<open>supersedes\<close> pointers is followed from the
  target. The database is a parameter: the answer to the n-th query of a walk may depend on n, so
  other writers may change the table between two hops. A row is its \<open>supersedes\<close> column.
\<close>

datatype supersedes_reply = Query_failed | Query_rows "jstr option list"

datatype dag_warning =
    Cycle_detected "jstr list"
  | Unexpected_revisit jstr "jstr list"
  | Ceiling_reached "jstr list"
  | Query_error jstr
  | Orphaned_pointer jstr jstr

text \<open>What the walk returns, the warning it logs, and the identifiers it has queried.\<close>

record walk_result =
  wr_cycle :: bool
  wr_warning :: "dag_warning option"
  wr_queried :: "jstr list"

definition corruption_ceiling :: nat where "corruption_ceiling = 50"

text \<open>\<open>visited\<close> is the set of the code in insertion order.\<close>

function walk_chain ::
  "(nat \<Rightarrow> jstr \<Rightarrow> supersedes_reply) \<Rightarrow> jstr \<Rightarrow> jstr \<Rightarrow> jstr list \<Rightarrow> jstr list \<Rightarrow> jstr \<Rightarrow> walk_result" where
  "walk_chain db new target visited chain current =
     (if current = new
      then \<lparr>wr_cycle = True, wr_warning = Some (Cycle_detected (chain @ [current])), wr_queried = visited\<rparr>
      else if current \<in> set visited
      then \<lparr>wr_cycle = True, wr_warning = Some (Unexpected_revisit current chain), wr_queried = visited\<rparr>
      else if length (visited @ [current]) \<ge> corruption_ceiling
      then \<lparr>wr_cycle = True, wr_warning = Some (Ceiling_reached (take 5 chain)), wr_queried = visited\<rparr>
      else (case db (length visited) current of
              Query_failed \<Rightarrow>
                \<lparr>wr_cycle = False, wr_warning = Some (Query_error current), wr_queried = visited @ [current]\<rparr>
            | Query_rows [] \<Rightarrow>
                \<lparr>wr_cycle = False,
                 wr_warning = Some (Orphaned_pointer
                   (if length chain \<ge> 2 then chain ! (length chain - 2) else target) current),
                 wr_queried = visited @ [current]\<rparr>
            | Query_rows (None # _) \<Rightarrow>
                \<lparr>wr_cycle = False, wr_warning = None, wr_queried = visited @ [current]\<rparr>
            | Query_rows (Some nextId # _) \<Rightarrow>
                (if nextId = new
                 then \<lparr>wr_cycle = True, wr_warning = Some (Cycle_detected (chain @ [nextId])),
                       wr_queried = visited @ [current]\<rparr>
                 else walk_chain db new target (visited @ [current]) (chain @ [nextId]) nextId)))"
  by pat_completeness auto

termination
  by (relation "measure (\<lambda>(db, new, target, visited, chain, current). corruption_ceiling - length visited)") auto

declare walk_chain.simps [simp del]

definition wouldCreateCycle :: "(nat \<Rightarrow> jstr \<Rightarrow> supersedes_reply) \<Rightarrow> jstr \<Rightarrow> jstr \<Rightarrow> walk_result" where
  "wouldCreateCycle db newMemoryId targetId = walk_chain db newMemoryId targetId [] [targetId] targetId"

section \<open>Bounds\<close>

lemma walk_queries:
  assumes "length visited < corruption_ceiling" "distinct visited"
  shows "length (wr_queried (walk_chain db new target visited chain current)) < corruption_ceiling
    \<and> distinct (wr_queried (walk_chain db new target visited chain current))"
  using assms
proof (induction db new target visited chain current rule: walk_chain.induct)
  case (1 db new target visited chain current)
  show ?case
  proof (cases "current = new \<or> current \<in> set visited \<or> length (visited @ [current]) \<ge> corruption_ceiling")
    case True
    with 1(2,3) show ?thesis by (auto simp: walk_chain.simps [of db new target visited])
  next
    case False
    note step = False
    show ?thesis
    proof (cases "\<exists>n r. db (length visited) current = Query_rows (Some n # r) \<and> n \<noteq> new")
      case True
      then obtain n r where n: "db (length visited) current = Query_rows (Some n # r)" "n \<noteq> new" by blast
      from False n show ?thesis
        using 1(1) [OF _ _ _ n(1) refl refl n(2)] 1(3) by (simp add: walk_chain.simps [of db new target visited])
    next
      case False
      with step 1(2,3) show ?thesis
        by (auto simp: walk_chain.simps [of db new target visited]
            split: supersedes_reply.splits list.splits option.splits)
    qed
  qed
qed

section \<open>The reference: following the pointers of a table\<close>

text \<open>
  A table of records, each with its owner and its pointer; the query of the guard sees the records
  of one user.
\<close>

type_synonym supersede_table = "jstr \<Rightarrow> (jstr \<times> jstr option) option"

definition table_db :: "supersede_table \<Rightarrow> jstr \<Rightarrow> nat \<Rightarrow> jstr \<Rightarrow> supersedes_reply" where
  "table_db tab user n i =
     (case tab i of
        Some (u, p) \<Rightarrow> Query_rows (if u = user then [p] else [])
      | None \<Rightarrow> Query_rows [])"

definition successor :: "supersede_table \<Rightarrow> jstr \<Rightarrow> jstr \<Rightarrow> jstr option" where
  "successor tab user i = (case tab i of Some (u, p) \<Rightarrow> if u = user then p else None | None \<Rightarrow> None)"

primrec hops :: "supersede_table \<Rightarrow> jstr \<Rightarrow> nat \<Rightarrow> jstr \<Rightarrow> jstr option" where
  "hops tab user 0 i = Some i"
| "hops tab user (Suc n) i = Option.bind (hops tab user n i) (successor tab user)"

text \<open>The pointers of one user's records, as a relation.\<close>

definition supersede_edges :: "supersede_table \<Rightarrow> jstr \<Rightarrow> (jstr \<times> jstr) set" where
  "supersede_edges tab user = {(a, b). successor tab user a = Some b}"

lemma hops_add: "hops tab user (m + n) i = Option.bind (hops tab user n i) (hops tab user m)"
  by (induction m) (auto simp: Option.bind_assoc cong: bind_option_cong)

lemma hops_down: "hops tab user n i \<noteq> None \<Longrightarrow> m \<le> n \<Longrightarrow> hops tab user m i \<noteq> None"
  using hops_add [of tab user "n - m" m i] by (cases "hops tab user m i") auto

text \<open>A chain that meets itself has no end.\<close>

lemma hops_lasso:
  assumes "hops tab user j i = Some x" "hops tab user (j + Suc p) i = Some x"
  shows "hops tab user n i \<noteq> None"
proof -
  have loop: "hops tab user (Suc p) x = Some x"
    using assms hops_add [of tab user "Suc p" j i] by (simp add: add.commute)
  have rounds: "hops tab user (k * Suc p) x = Some x" for k
  proof (induction k)
    case (Suc k)
    then show ?case using loop hops_add [of tab user "Suc p" "k * Suc p" x]
      by (simp del: hops.simps mult_Suc_right add: mult_Suc)
  qed simp
  have "hops tab user (n * Suc p + j) i = Some x"
    using assms(1) hops_add [of tab user "n * Suc p" j i] rounds [of n] by (simp del: hops.simps)
  then show ?thesis using hops_down [of tab user "n * Suc p + j" i n] by simp
qed

lemma hops_reach: "hops tab user n i = Some x \<Longrightarrow> (i, x) \<in> (supersede_edges tab user)\<^sup>*"
proof (induction n arbitrary: x)
  case (Suc n)
  then show ?case
    by (auto simp: supersede_edges_def Option.bind_eq_Some_conv intro: rtrancl_into_rtrancl)
qed simp

lemma reach_hops: "(i, x) \<in> (supersede_edges tab user)\<^sup>* \<Longrightarrow> \<exists>n. hops tab user n i = Some x"
proof (induction rule: rtrancl_induct)
  case (step y z)
  then obtain n where "hops tab user n i = Some y" by blast
  with step show ?case by (intro exI [of _ "Suc n"]) (simp add: supersede_edges_def)
qed (auto intro: exI [of _ 0])

text \<open>The walk on a table: the identifiers seen so far are the first hops.\<close>

lemma walk_decides:
  assumes "visited = map (\<lambda>j. the (hops tab user j target)) [0..<length visited]"
    and "hops tab user (length visited) target = Some current"
    and "length visited < corruption_ceiling"
    and "\<forall>j<length visited. hops tab user j target \<noteq> Some new"
  shows "wr_cycle (walk_chain (table_db tab user) new target visited chain current)
    \<longleftrightarrow> (\<exists>j<corruption_ceiling. hops tab user j target = Some new)
      \<or> hops tab user (corruption_ceiling - 1) target \<noteq> None"
  using assms
proof (induction "table_db tab user" new target visited chain current rule: walk_chain.induct)
  case (1 new target visited chain current)
  let ?n = "length visited"
  let ?W = "walk_chain (table_db tab user) new target visited chain current"
  note unf = walk_chain.simps [of "table_db tab user" new target visited chain current]
  have before: "hops tab user j target \<noteq> None" if "j \<le> ?n" for j
    using hops_down [of tab user ?n target j] 1(3) that by simp
  show ?case
  proof (cases "current = new")
    case True
    then have "wr_cycle ?W" by (subst unf) simp
    with 1(3,4) True show ?thesis by blast
  next
    case fresh: False
    show ?thesis
    proof (cases "current \<in> set visited")
      case True
      then obtain j where j: "j < ?n" "current = visited ! j" by (auto simp: in_set_conv_nth)
      have "visited ! j = the (hops tab user j target)"
        using j(1) arg_cong [OF 1(2), of "\<lambda>v. v ! j"] by simp
      then have "hops tab user j target = Some current" using before [of j] j by auto
      moreover from j(1) have "j + Suc (?n - j - 1) = ?n" by simp
      then have "hops tab user (j + Suc (?n - j - 1)) target = Some current" using 1(3) by (simp only:)
      ultimately have "hops tab user (corruption_ceiling - 1) target \<noteq> None" by (rule hops_lasso)
      with fresh True show ?thesis by (auto simp: unf)
    next
      case unseen: False
      show ?thesis
      proof (cases "Suc ?n \<ge> corruption_ceiling")
        case True
        with 1(4) have "?n = corruption_ceiling - 1" by simp
        with 1(3) fresh unseen True show ?thesis by (auto simp: unf)
      next
        case room: False
        show ?thesis
        proof (cases "successor tab user current")
          case None
          then have stop: "hops tab user (Suc ?n) target = None" using 1(3) by simp
          have "\<not> wr_cycle ?W"
            using None fresh unseen room
            by (auto simp: unf table_db_def successor_def split: option.splits if_splits prod.splits)
          moreover have "hops tab user (corruption_ceiling - 1) target = None"
            using hops_down [of tab user "corruption_ceiling - 1" target "Suc ?n"] stop room by fastforce
          moreover have "hops tab user j target \<noteq> Some new" for j
          proof (cases "j \<le> ?n")
            case True
            then show ?thesis using 1(3,5) fresh by (cases "j = ?n") auto
          next
            case False
            then show ?thesis using hops_down [of tab user j target "Suc ?n"] stop by fastforce
          qed
          ultimately show ?thesis by blast
        next
          case (Some nextId)
          then obtain u where row: "tab current = Some (u, Some nextId)" "u = user"
            by (auto simp: successor_def split: option.splits if_splits)
          then have reply: "table_db tab user ?n current = Query_rows [Some nextId]" by (simp add: table_db_def)
          have hop: "hops tab user (Suc ?n) target = Some nextId" using 1(3) Some by simp
          show ?thesis
          proof (cases "nextId = new")
            case True
            then have "wr_cycle ?W" using fresh unseen room reply by (simp add: unf)
            moreover have "\<exists>j<corruption_ceiling. hops tab user j target = Some new"
              using hop True room by (intro exI [of _ "Suc ?n"]) simp
            ultimately show ?thesis by blast
          next
            case False
            have "?W = walk_chain (table_db tab user) new target (visited @ [current]) (chain @ [nextId]) nextId"
              using fresh unseen room reply False by (simp add: unf)
            moreover have "wr_cycle (walk_chain (table_db tab user) new target (visited @ [current]) (chain @ [nextId]) nextId)
              \<longleftrightarrow> (\<exists>j<corruption_ceiling. hops tab user j target = Some new)
                \<or> hops tab user (corruption_ceiling - 1) target \<noteq> None"
            proof (rule 1(1) [OF fresh unseen _ reply refl refl False])
              show "visited @ [current] = map (\<lambda>j. the (hops tab user j target)) [0..<length (visited @ [current])]"
                using 1(2,3) by simp
              show "\<forall>j<length (visited @ [current]). hops tab user j target \<noteq> Some new"
                using 1(3,5) fresh by (auto simp: less_Suc_eq)
            qed (use hop room in auto)
            ultimately show ?thesis by simp
          qed
        qed
      qed
    qed
  qed
qed

end
