(* ===== verification/Memory_Record.thy ===== *)
theory Memory_Record
  imports Processing_Lineage
begin

text \<open>
  Rows of the record store and the composer of a new row
  (\<open>src/src/storage/surreal/memory-crud-store.ts\<close>, \<open>composeMemoryRecord\<close>). A row is a function from
  field paths to values, None where the database holds \<open>NONE\<close>. Of the database the model takes the
  text a \<open>string\<close> cast yields, the digest of a row and the \<open>datetime\<close> cast.
\<close>

section \<open>Rows\<close>

type_synonym db_row = "jstr \<Rightarrow> jval option"
type_synonym db_table = "jstr \<Rightarrow> db_row option"

record surreal =
  sdb_cast :: "jval option \<Rightarrow> jval"
  sdb_digest :: "db_row \<Rightarrow> jstr"
  sdb_datetime :: "jstr \<Rightarrow> jval option"

text \<open>An assignment of \<open>undefined\<close> stores \<open>NONE\<close>.\<close>

definition set_field :: "db_row \<Rightarrow> jstr \<times> jval \<Rightarrow> db_row" where
  "set_field row = (\<lambda>(path, v). row(path := (if v = JUndef then None else Some v)))"

definition set_fields :: "db_row \<Rightarrow> (jstr \<times> jval) list \<Rightarrow> db_row" where
  "set_fields row fs = foldl set_field row fs"

text \<open>The value a field is read as in the client.\<close>

definition column :: "db_row \<Rightarrow> jstr \<Rightarrow> jval" where
  "column row f = (case row f of None \<Rightarrow> JUndef | Some v \<Rightarrow> v)"

section \<open>The composer\<close>

record memory_lifecycle =
  lc_active :: bool
  lc_inactiveAt :: "jstr option"
  lc_inactiveReason :: "jstr option"
  lc_supersededById :: "jstr option"
  lc_supersedesId :: "jstr option"
  lc_lineageRootId :: "jstr option"

definition default_active_lifecycle :: memory_lifecycle where
  "default_active_lifecycle =
     \<lparr>lc_active = True, lc_inactiveAt = None, lc_inactiveReason = None, lc_supersededById = None,
      lc_supersedesId = None, lc_lineageRootId = None\<rparr>"

record record_input =
  ri_text :: jstr
  ri_userId :: jstr
  ri_embedding :: "jnum list"
  ri_metadata :: "(jstr \<times> jval) list"
  ri_scope :: jstr
  ri_sessionId :: "jstr option"
  ri_lifecycle :: memory_lifecycle

definition opt_str :: "jstr option \<Rightarrow> jval" where
  "opt_str s = (case s of None \<Rightarrow> JUndef | Some t \<Rightarrow> JStr t)"

definition json_numbers :: "jnum list \<Rightarrow> jval" where
  "json_numbers xs = (if xs = [] then JUndef else JArr (map JNum xs))"

definition lifecycle_fields :: "memory_lifecycle \<Rightarrow> jval list" where
  "lifecycle_fields lc =
     [JBool (lc_active lc), opt_str (lc_inactiveAt lc), opt_str (lc_inactiveReason lc),
      opt_str (lc_supersededById lc), opt_str (lc_supersedesId lc), opt_str (lc_lineageRootId lc)]"

text \<open>The fields of the payload that are the writer's own.\<close>

definition writer_payload :: "record_input \<Rightarrow> jstr \<Rightarrow> (jstr \<times> jval) list" where
  "writer_payload i nowString =
     [(''l2'', JStr (ri_text i)), (''userId'', JStr (ri_userId i)), (''createdAt'', JStr nowString),
      (''updatedAt'', JStr nowString), (''source'', JStr ''memory-hybrid''), (''scope'', JStr (ri_scope i)),
      (''sessionId'', opt_str (ri_sessionId i))]
     @ zip [''active'', ''inactiveAt'', ''inactiveReason'', ''supersededById'', ''supersedesId'', ''lineageRootId'']
         (lifecycle_fields (ri_lifecycle i))"

text \<open>
  The payload: the caller's metadata over the writer's fields, without a lineage of its own; on a
  protected create the writer's fields once more over the metadata.
\<close>

definition record_payload :: "record_input \<Rightarrow> jstr \<Rightarrow> bool \<Rightarrow> (jstr \<times> jval) list" where
  "record_payload i nowString protected =
     filter (\<lambda>(k, v). k \<noteq> ''processing_lineage'') (writer_payload i nowString @ ri_metadata i)
     @ (if protected then writer_payload i nowString else [])"

definition payload_value :: "(jstr \<times> jval) list \<Rightarrow> jstr \<Rightarrow> jval" where
  "payload_value fs k = (case map_of (rev fs) k of None \<Rightarrow> JUndef | Some v \<Rightarrow> v)"

definition only_string :: "jval \<Rightarrow> jval" where
  "only_string v = (case v of JStr _ \<Rightarrow> v | _ \<Rightarrow> JUndef)"

definition only_number :: "jval \<Rightarrow> jval" where
  "only_number v = (case v of JNum _ \<Rightarrow> v | _ \<Rightarrow> JUndef)"

datatype record_error = Record_text_empty | Record_bad_datetime

definition as_datetime :: "surreal \<Rightarrow> jval \<Rightarrow> record_error + jval" where
  "as_datetime sdb v =
     (case v of
        JStr s \<Rightarrow> (case sdb_datetime sdb s of None \<Rightarrow> Inl Record_bad_datetime | Some d \<Rightarrow> Inr d)
      | _ \<Rightarrow> Inr JUndef)"

text \<open>The payload as fields of the row; a pin that is not set is dropped.\<close>

definition payload_columns :: "(jstr \<times> jval) list \<Rightarrow> (jstr \<times> jval) list" where
  "payload_columns fs =
     map (\<lambda>(k, v). (''payload.'' @ k, v)) fs
     @ (if nullish (payload_value fs ''pinnedAt'') then [(''payload.pinnedAt'', JUndef)] else [])"

text \<open>The columns beside the payload.\<close>

definition record_columns ::
  "jval \<Rightarrow> record_input \<Rightarrow> (jstr \<Rightarrow> jval) \<Rightarrow> jval \<Rightarrow> jval \<Rightarrow> lineage option \<Rightarrow> jstr option \<Rightarrow> (jstr \<times> jval) list" where
  "record_columns now i field validAt invalidAt processingLineage provenance =
     [(''embedding'', json_numbers (ri_embedding i)), (''text_norm'', JStr (js_trim (js_lower (ri_text i)))),
      (''created_at'', now), (''updated_at'', now), (''user_id'', JStr (ri_userId i)),
      (''scope'', JStr (ri_scope i)), (''session_id'', opt_str (ri_sessionId i)),
      (''path'', only_string (field ''path'')), (''memory_role'', only_string (field ''memoryRole'')),
      (''valid_at'', validAt), (''invalid_at'', invalidAt), (''confidence'', only_number (field ''confidence''))]
     @ zip [''active'', ''inactive_at'', ''inactive_reason'', ''superseded_by'', ''supersedes'', ''lineage_root_id'']
         (lifecycle_fields (ri_lifecycle i))
     @ [(''processing_lineage'', case processingLineage of None \<Rightarrow> JUndef | Some l \<Rightarrow> lineage_value l),
        (''supersede_provenance'', opt_str provenance)]"

definition composeMemoryRecord ::
  "surreal \<Rightarrow> jval \<Rightarrow> jstr \<Rightarrow> record_input \<Rightarrow> lineage option \<Rightarrow> jstr option \<Rightarrow> record_error + db_row" where
  "composeMemoryRecord sdb now nowString i processingLineage provenance =
     (if js_trim (ri_text i) = [] then Inl Record_text_empty
      else let fs = record_payload i nowString (processingLineage \<noteq> None);
               field = payload_value fs
           in case (as_datetime sdb (field ''validAt''), as_datetime sdb (field ''invalidAt'')) of
                (Inr validAt, Inr invalidAt) \<Rightarrow>
                  Inr (set_fields (\<lambda>_. None)
                    (payload_columns fs
                     @ record_columns now i field validAt invalidAt processingLineage provenance))
              | (Inl e, _) \<Rightarrow> Inl e
              | (_, Inl e) \<Rightarrow> Inl e)"

section \<open>Field assignments\<close>

lemma set_fields_value:
  "set_fields row fs f =
     (case map_of (rev fs) f of None \<Rightarrow> row f | Some v \<Rightarrow> if v = JUndef then None else Some v)"
  by (induction fs rule: rev_induct) (auto simp: set_fields_def set_field_def split: prod.splits)

lemma set_fields_untouched: "f \<notin> fst ` set fs \<Longrightarrow> set_fields row fs f = row f"
  using map_of_eq_None_iff [of "rev fs" f] by (simp add: set_fields_value)

lemma set_fields_append: "set_fields row (xs @ ys) = set_fields (set_fields row xs) ys"
  by (simp add: set_fields_def)

lemma map_of_payload: "map_of (map (\<lambda>(k, v). (''payload.'' @ k, v)) fs) (''payload.'' @ k) = map_of fs k"
  by (induction fs) auto

lemma opt_str_simps [simp]:
  "opt_str None = JUndef" "opt_str (Some s) = JStr s"
  "(if opt_str x = JUndef then None else Some (opt_str x)) = map_option JStr x"
  by (simp_all add: opt_str_def split: option.splits)

lemma lineage_value_defined [simp]: "lineage_value l \<noteq> JUndef" "lineage_value l \<noteq> JNull"
  by (simp_all add: lineage_value_def obj_def)

subsection \<open>What the composed row holds\<close>

lemma composed_shape:
  assumes "composeMemoryRecord sdb now nowString i l provenance = Inr row"
  shows "\<exists>field validAt invalidAt. row = set_fields (\<lambda>_. None)
    (payload_columns (record_payload i nowString (l \<noteq> None)) @ record_columns now i field validAt invalidAt l provenance)"
  using assms by (auto simp: composeMemoryRecord_def Let_def split: sum.splits if_splits)

lemma payload_columns_value:
  "k \<noteq> ''pinnedAt'' \<Longrightarrow> map_of (rev (payload_columns fs)) (''payload.'' @ k) = map_of (rev fs) k"
  using map_of_payload [of "rev fs" k] by (simp add: payload_columns_def rev_map)

lemma column_values:
  "map_of (rev (record_columns now i field validAt invalidAt l provenance)) ''user_id'' = Some (JStr (ri_userId i))"
  "map_of (rev (record_columns now i field validAt invalidAt l provenance)) ''active''
    = Some (JBool (lc_active (ri_lifecycle i)))"
  "map_of (rev (record_columns now i field validAt invalidAt l provenance)) ''supersedes''
    = Some (opt_str (lc_supersedesId (ri_lifecycle i)))"
  "map_of (rev (record_columns now i field validAt invalidAt l provenance)) ''superseded_by''
    = Some (opt_str (lc_supersededById (ri_lifecycle i)))"
  "map_of (rev (record_columns now i field validAt invalidAt l provenance)) ''lineage_root_id''
    = Some (opt_str (lc_lineageRootId (ri_lifecycle i)))"
  "map_of (rev (record_columns now i field validAt invalidAt l provenance)) ''processing_lineage''
    = Some (case l of None \<Rightarrow> JUndef | Some x \<Rightarrow> lineage_value x)"
  "map_of (rev (record_columns now i field validAt invalidAt l provenance)) ''supersede_provenance''
    = Some (opt_str provenance)"
  "map_of (rev (record_columns now i field validAt invalidAt l provenance)) (''payload.'' @ k) = None"
  "map_of (rev (record_columns now i field validAt invalidAt l provenance)) ''updated_at'' = Some now"
  "map_of (rev (record_columns now i field validAt invalidAt l provenance)) ''inactive_at''
    = Some (opt_str (lc_inactiveAt (ri_lifecycle i)))"
  "map_of (rev (record_columns now i field validAt invalidAt l provenance)) ''inactive_reason''
    = Some (opt_str (lc_inactiveReason (ri_lifecycle i)))"
  by (simp_all add: record_columns_def lifecycle_fields_def)

lemma composed_top:
  assumes "composeMemoryRecord sdb now nowString i l provenance = Inr row"
  shows "row ''user_id'' = Some (JStr (ri_userId i))"
    and "row ''active'' = Some (JBool (lc_active (ri_lifecycle i)))"
    and "row ''supersedes'' = map_option JStr (lc_supersedesId (ri_lifecycle i))"
    and "row ''superseded_by'' = map_option JStr (lc_supersededById (ri_lifecycle i))"
    and "row ''lineage_root_id'' = map_option JStr (lc_lineageRootId (ri_lifecycle i))"
    and "row ''processing_lineage'' = map_option lineage_value l"
    and "row ''supersede_provenance'' = map_option JStr provenance"
    and "row ''updated_at'' = (if now = JUndef then None else Some now)"
    and "row ''inactive_at'' = map_option JStr (lc_inactiveAt (ri_lifecycle i))"
    and "row ''inactive_reason'' = map_option JStr (lc_inactiveReason (ri_lifecycle i))"
proof -
  from composed_shape [OF assms] obtain pre field validAt invalidAt where
    "row = set_fields (\<lambda>_. None) (pre @ record_columns now i field validAt invalidAt l provenance)" by blast
  note row = this set_fields_append set_fields_value column_values
  show "row ''user_id'' = Some (JStr (ri_userId i))" by (simp add: row)
  show "row ''active'' = Some (JBool (lc_active (ri_lifecycle i)))" by (simp add: row)
  show "row ''supersedes'' = map_option JStr (lc_supersedesId (ri_lifecycle i))" by (simp add: row)
  show "row ''superseded_by'' = map_option JStr (lc_supersededById (ri_lifecycle i))" by (simp add: row)
  show "row ''lineage_root_id'' = map_option JStr (lc_lineageRootId (ri_lifecycle i))" by (simp add: row)
  show "row ''processing_lineage'' = map_option lineage_value l" by (simp add: row split: option.splits)
  show "row ''supersede_provenance'' = map_option JStr provenance" by (simp add: row)
  show "row ''updated_at'' = (if now = JUndef then None else Some now)" by (simp add: row)
  show "row ''inactive_at'' = map_option JStr (lc_inactiveAt (ri_lifecycle i))" by (simp add: row)
  show "row ''inactive_reason'' = map_option JStr (lc_inactiveReason (ri_lifecycle i))" by (simp add: row)
qed

text \<open>A field of the payload other than \<open>pinnedAt\<close> is the last value the composer lists for it.\<close>

lemma composed_payload:
  assumes "composeMemoryRecord sdb now nowString i l provenance = Inr row" and "k \<noteq> ''pinnedAt''"
  shows "row (''payload.'' @ k) =
    (let v = payload_value (record_payload i nowString (l \<noteq> None)) k in if v = JUndef then None else Some v)"
proof -
  let ?fs = "record_payload i nowString (l \<noteq> None)"
  from composed_shape [OF assms(1)] obtain field validAt invalidAt where
    row: "row = set_fields (\<lambda>_. None) (payload_columns ?fs @ record_columns now i field validAt invalidAt l provenance)"
    by blast
  show ?thesis
    unfolding row set_fields_append set_fields_value column_values(8) payload_columns_value [OF assms(2)] option.case
      payload_value_def Let_def
    by (simp split: option.splits)
qed

text \<open>
  In the payload of a protected create the writer's fields win; any other field, and every field of an
  unprotected create that metadata do not name, is as written first.
\<close>

lemma payload_filter:
  "k \<noteq> ''processing_lineage'' \<Longrightarrow>
    map_of (rev (filter (\<lambda>(k, v). k \<noteq> ''processing_lineage'') xs)) k = map_of (rev xs) k"
  by (induction xs rule: rev_induct) (auto split: prod.splits)

lemma record_payload_own:
  assumes "k \<in> fst ` set (writer_payload i nowString)" and "protected \<or> k \<notin> fst ` set (ri_metadata i)"
    and "k \<noteq> ''processing_lineage''"
  shows "payload_value (record_payload i nowString protected) k = payload_value (writer_payload i nowString) k"
proof -
  from assms(1) have "map_of (rev (writer_payload i nowString)) k \<noteq> None"
    by (simp add: map_of_eq_None_iff)
  then obtain v where v: "map_of (rev (writer_payload i nowString)) k = Some v" by blast
  have "map_of (rev (ri_metadata i)) k = None" if "\<not> protected"
    using assms(2) that by (auto simp: map_of_eq_None_iff)
  with v show ?thesis
    by (cases protected) (auto simp: payload_value_def record_payload_def payload_filter [OF assms(3)] map_add_def
        split: option.splits)
qed

lemma record_payload_metadata:
  assumes "k \<notin> fst ` set (writer_payload i nowString)" and "k \<noteq> ''processing_lineage''"
  shows "payload_value (record_payload i nowString protected) k = payload_value (ri_metadata i) k"
proof -
  have "map_of (rev (writer_payload i nowString)) k = None" using assms(1) by (simp add: map_of_eq_None_iff)
  then show ?thesis
    by (simp add: payload_value_def record_payload_def payload_filter [OF assms(2)] map_add_def split: option.splits)
qed

lemma writer_payload_keys:
  "fst ` set (writer_payload i nowString) =
    {''l2'', ''userId'', ''createdAt'', ''updatedAt'', ''source'', ''scope'', ''sessionId'', ''active'', ''inactiveAt'',
     ''inactiveReason'', ''supersededById'', ''supersedesId'', ''lineageRootId''}"
  by (auto simp: writer_payload_def lifecycle_fields_def)

lemma writer_payload_value:
  "payload_value (writer_payload i nowString) ''l2'' = JStr (ri_text i)"
  "payload_value (writer_payload i nowString) ''userId'' = JStr (ri_userId i)"
  "payload_value (writer_payload i nowString) ''updatedAt'' = JStr nowString"
  "payload_value (writer_payload i nowString) ''active'' = JBool (lc_active (ri_lifecycle i))"
  "payload_value (writer_payload i nowString) ''inactiveAt'' = opt_str (lc_inactiveAt (ri_lifecycle i))"
  "payload_value (writer_payload i nowString) ''inactiveReason'' = opt_str (lc_inactiveReason (ri_lifecycle i))"
  "payload_value (writer_payload i nowString) ''supersededById'' = opt_str (lc_supersededById (ri_lifecycle i))"
  "payload_value (writer_payload i nowString) ''supersedesId'' = opt_str (lc_supersedesId (ri_lifecycle i))"
  "payload_value (writer_payload i nowString) ''lineageRootId'' = opt_str (lc_lineageRootId (ri_lifecycle i))"
  by (simp_all add: payload_value_def writer_payload_def lifecycle_fields_def)

lemma composed_user:
  assumes "composeMemoryRecord sdb now nowString i l provenance = Inr row"
    and "l \<noteq> None \<or> ''userId'' \<notin> fst ` set (ri_metadata i)"
  shows "row ''payload.userId'' = Some (JStr (ri_userId i))"
  using composed_payload [OF assms(1), of "''userId''"] record_payload_own [OF _ assms(2), of nowString]
  by (simp add: writer_payload_keys writer_payload_value)

end
