(* ===== verification/Supersede_Store.thy ===== *)
theory Supersede_Store
  imports Dag_Guard Memory_Record
begin

text \<open>
  The generic supersede of the record store
  (\<open>src/src/storage/surreal/memory-crud-store.ts\<close>, \<open>supersedeMemory\<close> on a \<open>SurrealClient\<close>): a
  prepare phase that reads both rows, witnesses them by a digest and walks the cycle guard, and one
  transaction that compares the witnesses again before it writes; a failed transaction changes nothing.
  The other writers of the table run between the two phases.
\<close>

section \<open>Rows and inputs\<close>

record supersede_previous =
  pv_id :: jstr
  pv_lineageRootId :: "jstr option"

record supersede_replacement =
  rp_id :: jstr
  rp_l2 :: "jstr option"
  rp_text :: "jstr option"
  rp_userId :: jstr
  rp_embedding :: "jnum list"
  rp_metadata :: "(jstr \<times> jval) list"
  rp_scope :: jstr
  rp_sessionId :: "jstr option"
  rp_writeSource :: jstr

record supersede_call =
  sc_previous :: supersede_previous
  sc_replacement :: supersede_replacement
  sc_provenance :: jstr
  sc_isInternalCaller :: "bool option"
  sc_inactiveReason :: jstr
  sc_tableName :: jstr
  sc_staleFlags :: "(jstr \<times> jstr) option"

datatype supersede_error =
    Unsupported_table
  | Unsupported_value
  | Global_needs_internal_caller
  | Empty_string jstr
  | Unsupported_scope
  | Unsupported_write_source
  | Unsupported_provenance
  | Incomplete_projection
  | Field_not_plain jstr
  | Previous_snapshot_mismatch
  | Supersede_lineage_present
  | Replacement_user_mismatch
  | Metadata_changed
  | Supersede_cycle
  | Plan_rows_overlap
  | Blank_text
  | Bad_datetime
  | Initial_previous_failed
  | Initial_replacement_failed
  | Create_only_failed
  | Replacement_cas_failed
  | Previous_cas_failed

text \<open>
  The private copy of the inputs refuses what is no plain data; on plain data it is the identity,
  since the values of the model do not change.
\<close>

fun clonable :: "jval \<Rightarrow> bool" where
  "clonable (JNum n) = (case n of Fin _ \<Rightarrow> True | _ \<Rightarrow> False)"
| "clonable (JArr xs) = (\<forall>x \<in> set xs. clonable x)"
| "clonable (JObj plain fs) =
     (plain \<and> (\<forall>f \<in> set fs. (case fst f of KStr _ \<Rightarrow> True | KSym _ \<Rightarrow> False) \<and> clonable (snd f)))"
| "clonable (JOther n) = False"
| "clonable v = True"

definition replacement_text :: "supersede_replacement \<Rightarrow> jstr" where
  "replacement_text r =
     (case rp_l2 r of Some t \<Rightarrow> t | None \<Rightarrow> (case rp_text r of Some t \<Rightarrow> t | None \<Rightarrow> []))"

definition validateGenericPreparedInputs :: "supersede_call \<Rightarrow> supersede_error option" where
  "validateGenericPreparedInputs c =
     (let r = sc_replacement c; p = sc_previous c
      in if pv_id p = [] then Some (Empty_string ''previous id'')
         else if rp_id r = [] then Some (Empty_string ''replacement id'')
         else if rp_userId r = [] then Some (Empty_string ''replacement user id'')
         else if pv_lineageRootId p = Some [] then Some (Empty_string ''previous lineage root id'')
         else if replacement_text r = [] then Some (Empty_string ''replacement text'')
         else if rp_scope r \<notin> {''session'', ''user'', ''team'', ''global''} then Some Unsupported_scope
         else if rp_sessionId r = Some [] then Some (Empty_string ''replacement session id'')
         else if rp_writeSource r \<notin> {''memory_store'', ''agent_end'', ''session_summary''}
         then Some Unsupported_write_source
         else if sc_provenance c \<notin> {''deterministic'', ''llm-generated''} then Some Unsupported_provenance
         else if sc_inactiveReason c = [] then Some (Empty_string ''inactive reason'')
         else (case sc_staleFlags c of
                 None \<Rightarrow> None
               | Some (since, by_id) \<Rightarrow>
                   if since = [] then Some (Empty_string ''staleSince'')
                   else if by_id = [] then Some (Empty_string ''contradictedBy'')
                   else None))"

section \<open>Metadata and witnesses\<close>

datatype fact_kind = Boolean_fact | String_fact

definition generic_supersede_facts :: "(jstr \<times> fact_kind) list" where
  "generic_supersede_facts =
     [(''active'', Boolean_fact), (''supersedes'', String_fact), (''superseded_by'', String_fact),
      (''lineage_root_id'', String_fact), (''inactive_at'', String_fact), (''inactive_reason'', String_fact),
      (''supersede_provenance'', String_fact), (''scope'', String_fact), (''session_id'', String_fact),
      (''valid_at'', String_fact), (''invalid_at'', String_fact), (''created_at'', String_fact),
      (''updated_at'', String_fact), (''payload.active'', Boolean_fact), (''payload.inactiveAt'', String_fact),
      (''payload.inactiveReason'', String_fact), (''payload.supersededById'', String_fact),
      (''payload.supersedesId'', String_fact), (''payload.lineageRootId'', String_fact),
      (''payload.supersede_provenance'', String_fact), (''payload.updatedAt'', String_fact),
      (''payload.writeSource'', String_fact), (''payload.arbitrationOutcome'', String_fact),
      (''payload.isStale'', Boolean_fact), (''payload.staleSince'', String_fact),
      (''payload.contradictedBy'', String_fact), (''payload.scope'', String_fact),
      (''payload.sessionId'', String_fact), (''payload.validAt'', String_fact),
      (''payload.invalidAt'', String_fact), (''payload.createdAt'', String_fact)]"

record supersede_metadata =
  sm_user_id :: jstr
  sm_payload_user_id :: jstr
  sm_lineage_absent :: bool
  sm_facts :: "(jstr \<times> jval) list"

definition raw_fact :: "surreal \<Rightarrow> db_row \<Rightarrow> jstr \<times> fact_kind \<Rightarrow> jval" where
  "raw_fact sdb row = (\<lambda>(field, kind).
     (case kind of
        Boolean_fact \<Rightarrow> (case row field of None \<Rightarrow> JUndef | Some v \<Rightarrow> v)
      | String_fact \<Rightarrow> sdb_cast sdb (row field)))"

fun plain_facts :: "surreal \<Rightarrow> db_row \<Rightarrow> (jstr \<times> fact_kind) list \<Rightarrow> supersede_error + (jstr \<times> jval) list" where
  "plain_facts sdb row [] = Inr []"
| "plain_facts sdb row ((field, kind) # fs) =
     (let v = raw_fact sdb row (field, kind)
      in if nullish v then plain_facts sdb row fs
         else if (case (kind, v) of (Boolean_fact, JBool _) \<Rightarrow> True | (String_fact, JStr _) \<Rightarrow> True | _ \<Rightarrow> False)
         then (case plain_facts sdb row fs of Inl e \<Rightarrow> Inl e | Inr r \<Rightarrow> Inr ((field, v) # r))
         else Inl (Field_not_plain field))"

definition validateGenericSupersedeMetadata :: "surreal \<Rightarrow> db_row \<Rightarrow> supersede_error + supersede_metadata" where
  "validateGenericSupersedeMetadata sdb row =
     (case (sdb_cast sdb (row ''user_id''), sdb_cast sdb (row ''payload.userId''),
            sdb_cast sdb (row ''updated_at'')) of
        (JStr user, JStr payload_user, JStr updated) \<Rightarrow>
          (case plain_facts sdb row generic_supersede_facts of
             Inl e \<Rightarrow> Inl e
           | Inr fs \<Rightarrow>
               Inr \<lparr>sm_user_id = user, sm_payload_user_id = payload_user,
                    sm_lineage_absent = (row ''processing_lineage'' = None), sm_facts = fs\<rparr>)
      | _ \<Rightarrow> Inl Incomplete_projection)"

definition readGenericSupersedeMetadata ::
  "surreal \<Rightarrow> db_table \<Rightarrow> jstr \<Rightarrow> supersede_error + supersede_metadata option" where
  "readGenericSupersedeMetadata sdb tab recordId =
     (case tab recordId of
        None \<Rightarrow> Inr None
      | Some row \<Rightarrow> map_sum id Some (validateGenericSupersedeMetadata sdb row))"

text \<open>The \<open>WHERE\<close> clause that a row still is what the metadata say.\<close>

definition genericSupersedeBranchWhere :: "surreal \<Rightarrow> supersede_metadata \<Rightarrow> db_row \<Rightarrow> bool" where
  "genericSupersedeBranchWhere sdb m row =
     (row ''user_id'' = Some (JStr (sm_user_id m))
      \<and> sdb_cast sdb (row ''payload.userId'') = JStr (sm_payload_user_id m)
      \<and> row ''processing_lineage'' = None
      \<and> list_all (\<lambda>(field, kind).
            (case map_of (sm_facts m) field of
               None \<Rightarrow> row field = None
             | Some v \<Rightarrow>
                 (case kind of
                    String_fact \<Rightarrow> sdb_cast sdb (row field) = v
                  | Boolean_fact \<Rightarrow> row field = Some v)))
          generic_supersede_facts)"

definition hex_digit :: "char \<Rightarrow> bool" where
  "hex_digit c = (let n = code_unit c in (48 \<le> n \<and> n \<le> 57) \<or> (97 \<le> n \<and> n \<le> 102))"

lemma hex_digit_code [code]:
  "hex_digit c = (char_le (CHR ''0'') c \<and> char_le c (CHR ''9'') \<or> char_le (CHR ''a'') c \<and> char_le c (CHR ''f''))"
  by (simp add: hex_digit_def char_le_def code_unit_def Let_def)

type_synonym row_witness = "supersede_metadata \<times> jstr"

definition readGenericSupersedeWitness ::
  "surreal \<Rightarrow> db_table \<Rightarrow> jstr \<Rightarrow> supersede_metadata \<Rightarrow> supersede_error + row_witness" where
  "readGenericSupersedeWitness sdb tab recordId m =
     (case tab recordId of
        None \<Rightarrow> Inl Metadata_changed
      | Some row \<Rightarrow>
          (if genericSupersedeBranchWhere sdb m row
              \<and> length (sdb_digest sdb row) = 64 \<and> list_all hex_digit (sdb_digest sdb row)
           then Inr (m, sdb_digest sdb row) else Inl Metadata_changed))"

definition sameGenericSupersedeBranchWhere :: "surreal \<Rightarrow> row_witness \<Rightarrow> db_row \<Rightarrow> bool" where
  "sameGenericSupersedeBranchWhere sdb = (\<lambda>(m, d) row.
     genericSupersedeBranchWhere sdb m row \<and> sdb_digest sdb row = d)"

section \<open>Prepare\<close>

record supersede_plan =
  pl_call :: supersede_call
  pl_previous_witness :: row_witness
  pl_replacement_witness :: "row_witness option"
  pl_lineageRoot :: jstr

definition checked_call :: "supersede_call \<Rightarrow> supersede_error option" where
  "checked_call c =
     (let r = sc_replacement c
      in if sc_tableName c \<noteq> ''semiote'' \<and> sc_tableName c \<noteq> ''memories'' then Some Unsupported_table
         else if \<not> (list_all (\<lambda>n. clonable (JNum n)) (rp_embedding r) \<and> list_all (\<lambda>f. clonable (snd f)) (rp_metadata r))
         then Some Unsupported_value
         else if rp_scope r = ''global'' \<and> sc_isInternalCaller c \<noteq> Some True then Some Global_needs_internal_caller
         else validateGenericPreparedInputs c)"

text \<open>The two reads of the metadata, and the eligibility of the rows for the witnesses.\<close>

definition eligible_rows ::
  "surreal \<Rightarrow> db_table \<Rightarrow> supersede_call \<Rightarrow> supersede_error + supersede_metadata \<times> supersede_metadata option" where
  "eligible_rows sdb tab c =
     (let r = sc_replacement c; user = rp_userId r
      in case readGenericSupersedeMetadata sdb tab (pv_id (sc_previous c)) of
           Inl e \<Rightarrow> Inl e
         | Inr previous \<Rightarrow>
             (case readGenericSupersedeMetadata sdb tab (rp_id r) of
                Inl e \<Rightarrow> Inl e
              | Inr replacement \<Rightarrow>
                  (case previous of
                     None \<Rightarrow> Inl Previous_snapshot_mismatch
                   | Some p \<Rightarrow>
                       if sm_user_id p \<noteq> user \<or> sm_payload_user_id p \<noteq> user
                       then Inl Previous_snapshot_mismatch
                       else if \<not> sm_lineage_absent p
                            \<or> (case replacement of None \<Rightarrow> False | Some q \<Rightarrow> \<not> sm_lineage_absent q)
                       then Inl Supersede_lineage_present
                       else if (case replacement of
                                  None \<Rightarrow> False
                                | Some q \<Rightarrow> sm_user_id q \<noteq> user \<or> sm_payload_user_id q \<noteq> user)
                       then Inl Replacement_user_mismatch
                       else Inr (p, replacement))))"

definition witnessed_rows ::
  "surreal \<Rightarrow> db_table \<Rightarrow> supersede_call \<Rightarrow> supersede_metadata \<times> supersede_metadata option
    \<Rightarrow> supersede_error + row_witness \<times> row_witness option" where
  "witnessed_rows sdb tab c = (\<lambda>(p, q).
     (case readGenericSupersedeWitness sdb tab (pv_id (sc_previous c)) p of
        Inl e \<Rightarrow> Inl e
      | Inr w \<Rightarrow>
          (case q of
             None \<Rightarrow> Inr (w, None)
           | Some m \<Rightarrow>
               (case readGenericSupersedeWitness sdb tab (rp_id (sc_replacement c)) m of
                  Inl e \<Rightarrow> Inl e
                | Inr w' \<Rightarrow> Inr (w, Some w')))))"

text \<open>
  The whole prepare phase: \<open>tab1\<close> is the table at the metadata reads, \<open>tab2\<close> at the witness reads,
  and \<open>walk\<close> answers the queries of the cycle guard.
\<close>

definition prepareSupersedeMemory ::
  "surreal \<Rightarrow> db_table \<Rightarrow> db_table \<Rightarrow> (nat \<Rightarrow> jstr \<Rightarrow> supersedes_reply) \<Rightarrow> supersede_call
    \<Rightarrow> supersede_error + supersede_plan" where
  "prepareSupersedeMemory sdb tab1 tab2 walk c =
     (case checked_call c of
        Some e \<Rightarrow> Inl e
      | None \<Rightarrow>
          (case eligible_rows sdb tab1 c of
             Inl e \<Rightarrow> Inl e
           | Inr ms \<Rightarrow>
               (case witnessed_rows sdb tab2 c ms of
                  Inl e \<Rightarrow> Inl e
                | Inr (w, w') \<Rightarrow>
                    if wr_cycle (wouldCreateCycle walk (rp_id (sc_replacement c)) (pv_id (sc_previous c)))
                    then Inl Supersede_cycle
                    else Inr \<lparr>pl_call = c, pl_previous_witness = w, pl_replacement_witness = w',
                              pl_lineageRoot = (case pv_lineageRootId (sc_previous c) of
                                                  None \<Rightarrow> pv_id (sc_previous c) | Some r \<Rightarrow> r)\<rparr>)))"

section \<open>The transaction\<close>

text \<open>The input of the composer for a new replacement row.\<close>

definition created_input :: "supersede_plan \<Rightarrow> record_input" where
  "created_input p =
     (let c = pl_call p; r = sc_replacement c
      in \<lparr>ri_text = replacement_text r, ri_userId = rp_userId r, ri_embedding = rp_embedding r,
          ri_metadata = rp_metadata r
            @ [(''writeSource'', JStr (rp_writeSource r)), (''arbitrationOutcome'', JStr ''supersede''),
               (''supersede_provenance'', JStr (sc_provenance c))],
          ri_scope = rp_scope r, ri_sessionId = rp_sessionId r,
          ri_lifecycle = default_active_lifecycle\<lparr>lc_supersedesId := Some (pv_id (sc_previous c)),
                                                  lc_lineageRootId := Some (pl_lineageRoot p)\<rparr>\<rparr>)"

fun compose_error :: "record_error \<Rightarrow> supersede_error" where
  "compose_error Record_text_empty = Blank_text"
| "compose_error Record_bad_datetime = Bad_datetime"

text \<open>\<open>composeGenericCreateMemory\<close>: the content of the created row.\<close>

definition created_row :: "surreal \<Rightarrow> jval \<Rightarrow> jstr \<Rightarrow> supersede_plan \<Rightarrow> supersede_error + db_row" where
  "created_row sdb now nowString p =
     map_sum compose_error id
       (composeMemoryRecord sdb now nowString (created_input p) None (Some (sc_provenance (pl_call p))))"

text \<open>The assignments to an existing replacement row and to the previous row.\<close>

definition replacement_fields :: "jval \<Rightarrow> jstr \<Rightarrow> supersede_plan \<Rightarrow> (jstr \<times> jval) list" where
  "replacement_fields now nowString p =
     (let c = pl_call p; prev = JStr (pv_id (sc_previous c)); provenance = JStr (sc_provenance c)
      in [(''supersedes'', prev), (''lineage_root_id'', JStr (pl_lineageRoot p)), (''updated_at'', now),
          (''payload.supersedesId'', prev), (''payload.lineageRootId'', JStr (pl_lineageRoot p)),
          (''payload.updatedAt'', JStr nowString),
          (''payload.writeSource'', JStr (rp_writeSource (sc_replacement c))),
          (''payload.arbitrationOutcome'', JStr ''supersede''),
          (''payload.supersede_provenance'', provenance), (''supersede_provenance'', provenance)])"

definition previous_fields :: "jval \<Rightarrow> jstr \<Rightarrow> supersede_plan \<Rightarrow> (jstr \<times> jval) list" where
  "previous_fields now nowString p =
     (let c = pl_call p; new = JStr (rp_id (sc_replacement c)); reason = JStr (sc_inactiveReason c);
          root = JStr (pl_lineageRoot p); provenance = JStr (sc_provenance c)
      in [(''active'', JBool False), (''inactive_at'', now), (''inactive_reason'', reason),
          (''superseded_by'', new), (''lineage_root_id'', root), (''supersede_provenance'', provenance),
          (''payload.active'', JBool False), (''payload.inactiveAt'', JStr nowString),
          (''payload.inactiveReason'', reason), (''payload.supersededById'', new),
          (''payload.lineageRootId'', root), (''payload.supersede_provenance'', provenance),
          (''payload.updatedAt'', JStr nowString), (''updated_at'', now)]
         @ (case sc_staleFlags c of
              None \<Rightarrow> []
            | Some (since, by_id) \<Rightarrow>
                [(''payload.isStale'', JBool True), (''payload.staleSince'', JStr since),
                 (''payload.contradictedBy'', JStr by_id)]))"

definition row_matches :: "surreal \<Rightarrow> row_witness \<Rightarrow> db_table \<Rightarrow> jstr \<Rightarrow> bool" where
  "row_matches sdb w tab i =
     (case tab i of None \<Rightarrow> False | Some row \<Rightarrow> sameGenericSupersedeBranchWhere sdb w row)"

definition initial_guard :: "surreal \<Rightarrow> supersede_plan \<Rightarrow> db_table \<Rightarrow> supersede_error option" where
  "initial_guard sdb p tab =
     (let c = pl_call p; new = rp_id (sc_replacement c)
      in if \<not> row_matches sdb (pl_previous_witness p) tab (pv_id (sc_previous c))
         then Some Initial_previous_failed
         else (case pl_replacement_witness p of
                 Some w \<Rightarrow> if row_matches sdb w tab new then None else Some Initial_replacement_failed
               | None \<Rightarrow> if tab new = None then None else Some Create_only_failed))"

definition replacement_mutation ::
  "surreal \<Rightarrow> jval \<Rightarrow> jstr \<Rightarrow> supersede_plan \<Rightarrow> db_table \<Rightarrow> supersede_error + db_table" where
  "replacement_mutation sdb now nowString p tab =
     (let new = rp_id (sc_replacement (pl_call p))
      in case pl_replacement_witness p of
           Some w \<Rightarrow>
             (case tab new of
                None \<Rightarrow> Inl Replacement_cas_failed
              | Some row \<Rightarrow>
                  if sameGenericSupersedeBranchWhere sdb w row
                  then Inr (tab(new := Some (set_fields row (replacement_fields now nowString p))))
                  else Inl Replacement_cas_failed)
         | None \<Rightarrow>
             if tab new \<noteq> None then Inl Create_only_failed
             else map_sum id (\<lambda>row. tab(new := Some row)) (created_row sdb now nowString p))"

definition previous_mutation ::
  "surreal \<Rightarrow> jval \<Rightarrow> jstr \<Rightarrow> supersede_plan \<Rightarrow> db_table \<Rightarrow> supersede_error + db_table" where
  "previous_mutation sdb now nowString p tab =
     (let prev = pv_id (sc_previous (pl_call p))
      in case tab prev of
           None \<Rightarrow> Inl Previous_cas_failed
         | Some row \<Rightarrow>
             if sameGenericSupersedeBranchWhere sdb (pl_previous_witness p) row
             then Inr (tab(prev := Some (set_fields row (previous_fields now nowString p))))
             else Inl Previous_cas_failed)"

text \<open>
  The composition of one plan and its transaction: the checks of the composer run before it, and
  any failure inside it leaves the table as it was.
\<close>

definition commit_supersede ::
  "surreal \<Rightarrow> jval \<Rightarrow> jstr \<Rightarrow> supersede_plan \<Rightarrow> db_table \<Rightarrow> supersede_error option \<times> db_table" where
  "commit_supersede sdb now nowString p tab =
     (let c = pl_call p
      in if pv_id (sc_previous c) = rp_id (sc_replacement c) then (Some Plan_rows_overlap, tab)
         else if pl_replacement_witness p = None \<and> js_trim (replacement_text (sc_replacement c)) = []
         then (Some Blank_text, tab)
         else (case initial_guard sdb p tab of
                 Some e \<Rightarrow> (Some e, tab)
               | None \<Rightarrow>
                   (case replacement_mutation sdb now nowString p tab of
                      Inl e \<Rightarrow> (Some e, tab)
                    | Inr tab' \<Rightarrow>
                        (case previous_mutation sdb now nowString p tab' of
                           Inl e \<Rightarrow> (Some e, tab)
                         | Inr tab'' \<Rightarrow> (None, tab'')))))"

text \<open>What the cycle guard reads of a table: the owner in the payload and the pointer of a row.\<close>

definition pointers :: "db_table \<Rightarrow> supersede_table" where
  "pointers tab i =
     (case tab i of
        None \<Rightarrow> None
      | Some row \<Rightarrow>
          (case row ''payload.userId'' of
             Some (JStr u) \<Rightarrow>
               Some (u, case row ''supersedes'' of Some (JStr s) \<Rightarrow> Some s | _ \<Rightarrow> None)
           | _ \<Rightarrow> None))"

text \<open>One call with no other writer between its steps.\<close>

definition supersedeMemory ::
  "surreal \<Rightarrow> jval \<Rightarrow> jstr \<Rightarrow> supersede_call \<Rightarrow> db_table \<Rightarrow> supersede_error option \<times> db_table" where
  "supersedeMemory sdb now nowString c tab =
     (case prepareSupersedeMemory sdb tab tab (table_db (pointers tab) (rp_userId (sc_replacement c))) c of
        Inl e \<Rightarrow> (Some e, tab)
      | Inr p \<Rightarrow> commit_supersede sdb now nowString p tab)"

end
