(* ===== verification/Producer_Authority.thy ===== *)
theory Producer_Authority
  imports Capability_Store
begin

text \<open>
  The producer authority of the processing lane (\<open>src/src/app/processing-policy/authority.ts\<close>):
  principals, targets and operations made by server constructors, registrations, admission into an
  opaque processing context, delivery evidence, the minting of a persisted lineage and its use.
\<close>

section \<open>State\<close>

text \<open>A registration is a plain value here: only its origin and policy version are checked.\<close>

record producer_registration =
  pr_registrationRef :: jstr
  pr_principalRef :: jstr
  pr_origin :: jstr
  pr_policyVersion :: jstr
  pr_operations :: "lineage_operation list"
  pr_targetUsers :: "jstr list"
  pr_status :: jstr
  pr_expiresAt :: "jstr option"

record policy_binding =
  pb_state :: addr
  pb_context :: addr
  pb_principalRef :: jstr
  pb_registrationRef :: jstr
  pb_operation :: lineage_operation
  pb_targetUserId :: jstr

record minted_binding =
  mb_state :: addr
  mb_context :: policy_binding
  mb_lineage :: lineage

record evidence_binding =
  eb_state :: addr
  eb_context :: policy_binding
  eb_restrictions :: "restriction list"

datatype resolver_kind = Unconfigured | Synthetic

record producer_world =
  pw_heap :: heap
  pw_next :: addr
  pw_principals :: "addr \<rightharpoonup> jstr"
  pw_targets :: "addr \<rightharpoonup> jstr"
  pw_operations :: "addr \<rightharpoonup> lineage_operation"
  pw_contexts :: "addr \<rightharpoonup> policy_binding"
  pw_authorities :: "addr \<rightharpoonup> producer_registration registry"
  pw_minted :: "addr \<rightharpoonup> minted_binding"
  pw_evidence :: "addr \<rightharpoonup> evidence_binding"
  pw_resolvers :: "addr \<rightharpoonup> resolver_kind"

definition minni_origin :: jstr where "minni_origin = ''minni''"
definition minni_policy_version :: jstr where "minni_policy_version = ''runir.minni.local/v1''"

definition producer_operations :: "lineage_operation list" where
  "producer_operations = [Capture_ingest, Scheduled_maintenance, Forced_maintenance]"

text \<open>
  When the module is loaded the production resolver (address 0), the synthetic resolver (address 1)
  and the production authority without registrations (address 2) exist.
\<close>

definition initial_producer_world :: producer_world where
  "initial_producer_world =
     \<lparr>pw_heap = [0 \<mapsto> frozen [], 1 \<mapsto> frozen [], 2 \<mapsto> frozen []], pw_next = 3,
      pw_principals = Map.empty, pw_targets = Map.empty, pw_operations = Map.empty,
      pw_contexts = Map.empty, pw_authorities = [2 \<mapsto> empty_registry], pw_minted = Map.empty,
      pw_evidence = Map.empty, pw_resolvers = [0 \<mapsto> Unconfigured, 1 \<mapsto> Synthetic]\<rparr>"

definition productionProducerAuthority :: addr where
  "productionProducerAuthority = 2"

definition p_alloc :: "heap_object \<Rightarrow> producer_world \<Rightarrow> producer_world" where
  "p_alloc ob w = w\<lparr>pw_heap := (pw_heap w)(pw_next w \<mapsto> ob), pw_next := Suc (pw_next w)\<rparr>"

definition nonEmptyString :: "jstr \<Rightarrow> bool" where
  "nonEmptyString s = (length (js_trim s) > 0)"

definition isProducerOperation :: "jstr \<Rightarrow> lineage_operation option" where
  "isProducerOperation = named operation_name producer_operations"

section \<open>Server constructors\<close>

definition createServerAuthenticatedProducerPrincipal ::
  "jstr \<Rightarrow> producer_world \<Rightarrow> (js_throw + addr) \<times> producer_world" where
  "createServerAuthenticatedProducerPrincipal ref w =
     (if \<not> nonEmptyString ref
      then (Inl (Type_error ''producer principal reference is required''), w)
      else let a = pw_next w;
               w1 = p_alloc (frozen [(''principalRef'', JStr (js_trim ref)),
                                     (''authenticatedBy'', JStr ''server'')]) w
           in (Inr a, w1\<lparr>pw_principals := (pw_principals w1)(a \<mapsto> js_trim ref)\<rparr>))"

definition createServerResolvedTargetUser ::
  "jstr \<Rightarrow> producer_world \<Rightarrow> (js_throw + addr) \<times> producer_world" where
  "createServerResolvedTargetUser userId w =
     (if \<not> nonEmptyString userId
      then (Inl (Type_error ''server-resolved target user is required''), w)
      else let a = pw_next w; w1 = p_alloc (frozen [(''userId'', JStr (js_trim userId))]) w
           in (Inr a, w1\<lparr>pw_targets := (pw_targets w1)(a \<mapsto> js_trim userId)\<rparr>))"

definition createServerSelectedProducerOperation ::
  "jstr \<Rightarrow> producer_world \<Rightarrow> (js_throw + addr) \<times> producer_world" where
  "createServerSelectedProducerOperation operation w =
     (case isProducerOperation operation of
        None \<Rightarrow> (Inl (Type_error ''server-selected producer operation is invalid''), w)
      | Some oper \<Rightarrow>
          (let a = pw_next w; w1 = p_alloc (frozen [(''name'', JStr operation)]) w
           in (Inr a, w1\<lparr>pw_operations := (pw_operations w1)(a \<mapsto> oper)\<rparr>)))"

record producer_registration_input =
  pri_registrationRef :: jstr
  pri_principalRef :: jstr
  pri_operations :: "jstr list"
  pri_targetUsers :: "jstr list"
  pri_status :: "jstr option"
  pri_expiresAt :: "jstr option"

definition createTrustedProducerRegistration ::
  "js_env \<Rightarrow> producer_registration_input \<Rightarrow> js_throw + producer_registration" where
  "createTrustedProducerRegistration env i =
     (let targetUsers = filter truthy (map js_trim (pri_targetUsers i))
      in if \<not> nonEmptyString (pri_registrationRef i) \<or> \<not> nonEmptyString (pri_principalRef i)
         then Inl (Type_error ''producer registration references are required'')
         else if pri_operations i = [] \<or> list_ex (\<lambda>x. isProducerOperation x = None) (pri_operations i)
         then Inl (Type_error ''producer registration operations are invalid'')
         else if targetUsers = []
         then Inl (Type_error ''producer registration target users are required'')
         else if (case pri_expiresAt i of None \<Rightarrow> False | Some e \<Rightarrow> date_parse_str env e = None)
         then Inl (Type_error ''producer registration expiry is invalid'')
         else Inr \<lparr>pr_registrationRef = js_trim (pri_registrationRef i),
                   pr_principalRef = js_trim (pri_principalRef i), pr_origin = minni_origin,
                   pr_policyVersion = minni_policy_version,
                   pr_operations = js_uniq (List.map_filter isProducerOperation (pri_operations i)),
                   pr_targetUsers = js_uniq targetUsers,
                   pr_status = (case pri_status i of None \<Rightarrow> ''active'' | Some s \<Rightarrow> s),
                   pr_expiresAt = (case pri_expiresAt i of
                                     Some e \<Rightarrow> if truthy e then Some e else None
                                   | None \<Rightarrow> None)\<rparr>)"

section \<open>Registries\<close>

definition policy_supported :: "producer_registration \<Rightarrow> bool" where
  "policy_supported r = (pr_origin r = minni_origin \<and> pr_policyVersion r = minni_policy_version)"

definition p_add :: "producer_registration \<Rightarrow> producer_registration registry
    \<Rightarrow> js_throw + producer_registration registry" where
  "p_add r s =
     (if \<not> policy_supported r then Inl (Type_error ''producer registration policy is unsupported'')
      else if byPrincipal s (pr_principalRef r) \<noteq> None
      then Inl (Type_error ''producer principal has multiple registrations'')
      else if byRegistration s (pr_registrationRef r) \<noteq> None
      then Inl (Type_error ''producer registration reference is duplicated'')
      else Inr (s\<lparr>byPrincipal := (byPrincipal s)(pr_principalRef r \<mapsto> r),
                  byRegistration := (byRegistration s)(pr_registrationRef r \<mapsto> r)\<rparr>))"

definition p_revoke :: "jstr \<Rightarrow> producer_registration registry
    \<Rightarrow> js_throw + producer_registration registry" where
  "p_revoke ref s =
     (if \<not> nonEmptyString ref \<or> byRegistration s (js_trim ref) = None
      then Inl (Type_error ''producer registration is unknown'')
      else Inr (s\<lparr>revoked := insert (js_trim ref) (revoked s)\<rparr>))"

definition p_remove :: "jstr \<Rightarrow> producer_registration registry
    \<Rightarrow> js_throw + producer_registration registry" where
  "p_remove ref s =
     (case byRegistration s (js_trim ref) of
        None \<Rightarrow> Inl (Type_error ''producer registration is unknown'')
      | Some r \<Rightarrow>
          (if \<not> nonEmptyString ref then Inl (Type_error ''producer registration is unknown'')
           else Inr (s\<lparr>byRegistration := (byRegistration s)(js_trim ref := None),
                       byPrincipal := (byPrincipal s)(pr_principalRef r := None),
                       revoked := revoked s - {js_trim ref}\<rparr>)))"

definition p_replace :: "producer_registration \<Rightarrow> producer_registration registry
    \<Rightarrow> js_throw + producer_registration registry" where
  "p_replace r s =
     (if \<not> policy_supported r then Inl (Type_error ''producer registration policy is unsupported'')
      else (case byRegistration s (pr_registrationRef r) of
              None \<Rightarrow> Inl (Type_error ''producer registration is unknown'')
            | Some current \<Rightarrow>
                (if (case byPrincipal s (pr_principalRef r) of
                       None \<Rightarrow> False
                     | Some q \<Rightarrow> pr_registrationRef q \<noteq> pr_registrationRef r)
                 then Inl (Type_error ''producer principal has multiple registrations'')
                 else Inr (s\<lparr>byRegistration := (byRegistration s)(pr_registrationRef r \<mapsto> r),
                             byPrincipal := ((byPrincipal s)(pr_principalRef current := None))
                                              (pr_principalRef r \<mapsto> r),
                             revoked := revoked s - {pr_registrationRef r}\<rparr>))))"

interpretation producer_registry: registry_ops pr_principalRef pr_registrationRef p_add p_revoke
    p_remove p_replace
  by unfold_locales
    (auto simp: p_add_def p_revoke_def p_remove_def p_replace_def split: if_splits option.splits)

fun p_add_all :: "producer_registration list \<Rightarrow> producer_registration registry
    \<Rightarrow> js_throw + producer_registration registry" where
  "p_add_all [] s = Inr s"
| "p_add_all (r # rs) s = (case p_add r s of Inl err \<Rightarrow> Inl err | Inr s' \<Rightarrow> p_add_all rs s')"

definition createProducerAuthority ::
  "producer_registration list \<Rightarrow> producer_world \<Rightarrow> (js_throw + addr) \<times> producer_world" where
  "createProducerAuthority registrations w =
     (case p_add_all registrations empty_registry of
        Inl err \<Rightarrow> (Inl err, w)
      | Inr s \<Rightarrow>
          (let a = pw_next w; w1 = p_alloc (frozen []) w
           in (Inr a, w1\<lparr>pw_authorities := (pw_authorities w1)(a \<mapsto> s)\<rparr>)))"

definition p_update ::
  "addr \<Rightarrow> (producer_registration registry \<Rightarrow> js_throw + producer_registration registry)
     \<Rightarrow> producer_world \<Rightarrow> (js_throw + unit) \<times> producer_world" where
  "p_update authority f w =
     (case pw_authorities w authority of
        None \<Rightarrow> (Inl (Type_error ''producer registration is unknown''), w)
      | Some s \<Rightarrow>
          (case f s of
             Inl err \<Rightarrow> (Inl err, w)
           | Inr s' \<Rightarrow> (Inr (), w\<lparr>pw_authorities := (pw_authorities w)(authority \<mapsto> s')\<rparr>)))"

definition revokeProducerRegistration ::
  "addr \<Rightarrow> jstr \<Rightarrow> producer_world \<Rightarrow> (js_throw + unit) \<times> producer_world" where
  "revokeProducerRegistration authority ref w = p_update authority (p_revoke ref) w"

definition removeProducerRegistration ::
  "addr \<Rightarrow> jstr \<Rightarrow> producer_world \<Rightarrow> (js_throw + unit) \<times> producer_world" where
  "removeProducerRegistration authority ref w = p_update authority (p_remove ref) w"

definition replaceProducerRegistration ::
  "addr \<Rightarrow> producer_registration \<Rightarrow> producer_world \<Rightarrow> (js_throw + unit) \<times> producer_world" where
  "replaceProducerRegistration authority r w =
     (if \<not> policy_supported r
      then (Inl (Type_error ''producer registration policy is unsupported''), w)
      else p_update authority (p_replace r) w)"

section \<open>Admission\<close>

datatype producer_refusal =
    P_principal_missing | P_principal_untrusted | P_target_user_missing | P_target_user_untrusted
  | P_requested_user_mismatch | P_operation_untrusted | P_registration_missing
  | P_registration_mismatch | P_registration_revoked | P_registration_expired
  | P_operation_not_authorized | P_target_user_not_authorized | P_target_user_mismatch
  | P_operation_mismatch | P_registration_invalid | P_context_invalid | P_authority_mismatch
  | P_delivery_resolver_unconfigured | P_delivery_resolver_untrusted | P_delivery_evidence_invalid
  | P_lineage_invalid | P_lineage_present

record producer_input =
  pi_principal :: jref
  pi_operation :: jref
  pi_targetUser :: jref
  pi_requestedUserId :: jval

definition isServerAuthenticatedPrincipal :: "producer_world \<Rightarrow> jref \<Rightarrow> jstr option" where
  "isServerAuthenticatedPrincipal w v =
     (case asObject (pw_heap w) v of
        None \<Rightarrow> None
      | Some a \<Rightarrow>
          (case pw_principals w a of
             None \<Rightarrow> None
           | Some ref \<Rightarrow>
               if field (pw_heap w) a ''principalRef'' = JStr ref
                  \<and> field (pw_heap w) a ''authenticatedBy'' = JStr ''server'' \<and> nonEmptyString ref
               then Some ref else None))"

definition isServerResolvedTargetUser :: "producer_world \<Rightarrow> jref \<Rightarrow> jstr option" where
  "isServerResolvedTargetUser w v =
     (case asObject (pw_heap w) v of
        None \<Rightarrow> None
      | Some a \<Rightarrow>
          (case pw_targets w a of
             None \<Rightarrow> None
           | Some userId \<Rightarrow>
               if field (pw_heap w) a ''userId'' = JStr userId \<and> nonEmptyString userId
               then Some userId else None))"

definition isServerSelectedProducerOperation :: "producer_world \<Rightarrow> jref \<Rightarrow> lineage_operation option" where
  "isServerSelectedProducerOperation w v =
     (case asObject (pw_heap w) v of
        None \<Rightarrow> None
      | Some a \<Rightarrow>
          (case pw_operations w a of
             None \<Rightarrow> None
           | Some oper \<Rightarrow>
               if field (pw_heap w) a ''name'' = JStr (operation_name oper) then Some oper else None))"

definition policy_object :: "policy_binding \<Rightarrow> heap_object" where
  "policy_object b =
     frozen [(''principalRef'', JStr (pb_principalRef b)),
             (''registrationRef'', JStr (pb_registrationRef b)), (''origin'', JStr minni_origin),
             (''policyVersion'', JStr minni_policy_version),
             (''operation'', JStr (operation_name (pb_operation b))),
             (''targetUserId'', JStr (pb_targetUserId b)), (''mode'', JStr ''local-only''),
             (''lineageState'', JStr ''minni_verified'')]"

definition p_buildContext ::
  "addr \<Rightarrow> jstr \<Rightarrow> producer_registration \<Rightarrow> lineage_operation \<Rightarrow> jstr \<Rightarrow> producer_world
     \<Rightarrow> addr \<times> producer_world" where
  "p_buildContext state principalRef r oper targetUserId w =
     (let a = pw_next w;
          b = \<lparr>pb_state = state, pb_context = a, pb_principalRef = principalRef,
               pb_registrationRef = pr_registrationRef r, pb_operation = oper,
               pb_targetUserId = targetUserId\<rparr>;
          w1 = p_alloc (policy_object b) w
      in (a, w1\<lparr>pw_contexts := (pw_contexts w1)(a \<mapsto> b)\<rparr>))"

definition p_grant_refusal ::
  "js_env \<Rightarrow> producer_registration registry \<Rightarrow> producer_registration \<Rightarrow> lineage_operation \<Rightarrow> jstr
     \<Rightarrow> producer_refusal option" where
  "p_grant_refusal env s r oper userId =
     (if pr_registrationRef r \<in> revoked s \<or> pr_status r \<noteq> ''active'' then Some P_registration_revoked
      else if isExpired env (pr_expiresAt r) then Some P_registration_expired
      else if oper \<notin> set (pr_operations r) then Some P_operation_not_authorized
      else if userId \<notin> set (pr_targetUsers r) then Some P_target_user_not_authorized
      else None)"

datatype producer_admission = P_admitted addr | P_refused producer_refusal

definition producer_resolve ::
  "js_env \<Rightarrow> addr \<Rightarrow> producer_input \<Rightarrow> producer_world
     \<Rightarrow> (js_throw + producer_admission) \<times> producer_world" where
  "producer_resolve env authority i w =
     (case pw_authorities w authority of
        None \<Rightarrow> (Inl (Type_error ''authority.resolve is not a function''), w)
      | Some s \<Rightarrow>
          (if pi_principal i = RUndef \<or> pi_principal i = RNull
           then (Inr (P_refused P_principal_missing), w)
           else (case isServerAuthenticatedPrincipal w (pi_principal i) of
             None \<Rightarrow> (Inr (P_refused P_principal_untrusted), w)
           | Some principalRef \<Rightarrow>
          (if pi_targetUser i = RUndef \<or> pi_targetUser i = RNull
           then (Inr (P_refused P_target_user_missing), w)
           else (case isServerResolvedTargetUser w (pi_targetUser i) of
             None \<Rightarrow> (Inr (P_refused P_target_user_untrusted), w)
           | Some userId \<Rightarrow>
          (case isServerSelectedProducerOperation w (pi_operation i) of
             None \<Rightarrow> (Inr (P_refused P_operation_untrusted), w)
           | Some oper \<Rightarrow>
          (if pi_requestedUserId i \<noteq> JUndef \<and> pi_requestedUserId i \<noteq> JStr userId
           then (Inr (P_refused P_requested_user_mismatch), w)
           else (case byPrincipal s principalRef of
             None \<Rightarrow> (Inr (P_refused P_registration_missing), w)
           | Some r \<Rightarrow>
          (if pr_principalRef r \<noteq> principalRef then (Inr (P_refused P_registration_mismatch), w)
           else (case p_grant_refusal env s r oper userId of
             Some why \<Rightarrow> (Inr (P_refused why), w)
           | None \<Rightarrow>
               (case p_buildContext authority principalRef r oper userId w of
                  (a, w') \<Rightarrow> (Inr (P_admitted a), w'))))))))))))"

section \<open>Revalidation\<close>

definition p_contextFieldsMatchBinding :: "heap \<Rightarrow> addr \<Rightarrow> policy_binding \<Rightarrow> bool" where
  "p_contextFieldsMatchBinding h a b =
     (field h a ''principalRef'' = JStr (pb_principalRef b)
      \<and> field h a ''registrationRef'' = JStr (pb_registrationRef b)
      \<and> field h a ''origin'' = JStr minni_origin
      \<and> field h a ''policyVersion'' = JStr minni_policy_version
      \<and> field h a ''operation'' = JStr (operation_name (pb_operation b))
      \<and> field h a ''targetUserId'' = JStr (pb_targetUserId b)
      \<and> field h a ''mode'' = JStr ''local-only''
      \<and> field h a ''lineageState'' = JStr ''minni_verified'')"

definition isTrustedProcessingPolicyContext :: "producer_world \<Rightarrow> jref \<Rightarrow> bool" where
  "isTrustedProcessingPolicyContext w v =
     (case asObject (pw_heap w) v of
        None \<Rightarrow> False
      | Some a \<Rightarrow>
          (case pw_contexts w a of
             None \<Rightarrow> False
           | Some b \<Rightarrow> p_contextFieldsMatchBinding (pw_heap w) a b))"

record use_expectation =
  ue_operation :: "lineage_operation option"
  ue_targetUserId :: "jstr option"

definition no_expectation :: use_expectation where
  "no_expectation = \<lparr>ue_operation = None, ue_targetUserId = None\<rparr>"

definition p_currentContextRefusal ::
  "js_env \<Rightarrow> producer_world \<Rightarrow> addr \<Rightarrow> policy_binding \<Rightarrow> use_expectation \<Rightarrow> producer_refusal option" where
  "p_currentContextRefusal env w context b expected =
     (case pw_authorities w (pb_state b) of
        None \<Rightarrow> Some P_registration_missing
      | Some s \<Rightarrow>
     (case byRegistration s (pb_registrationRef b) of
        None \<Rightarrow> Some P_registration_missing
      | Some r \<Rightarrow>
          (if pr_registrationRef r \<noteq> pb_registrationRef b \<or> pr_principalRef r \<noteq> pb_principalRef b
           then Some P_registration_mismatch
           else if \<not> policy_supported r then Some P_registration_invalid
           else if (case byPrincipal s (pb_principalRef b) of
                      None \<Rightarrow> True
                    | Some q \<Rightarrow> pr_registrationRef q \<noteq> pb_registrationRef b)
           then Some P_registration_mismatch
           else (case p_grant_refusal env s r (pb_operation b) (pb_targetUserId b) of
                   Some why \<Rightarrow> Some why
                 | None \<Rightarrow>
                     if (case ue_targetUserId expected of None \<Rightarrow> False
                         | Some u \<Rightarrow> field (pw_heap w) context ''targetUserId'' \<noteq> JStr u)
                     then Some P_target_user_mismatch
                     else if (case ue_operation expected of None \<Rightarrow> False
                              | Some oper \<Rightarrow>
                                  field (pw_heap w) context ''operation'' \<noteq> JStr (operation_name oper))
                     then Some P_operation_mismatch
                     else None))))"

definition assertTrustedProcessingPolicyContext ::
  "js_env \<Rightarrow> jref \<Rightarrow> use_expectation \<Rightarrow> producer_world \<Rightarrow> producer_refusal option" where
  "assertTrustedProcessingPolicyContext env v expected w =
     (case asObject (pw_heap w) v of
        None \<Rightarrow> Some P_context_invalid
      | Some a \<Rightarrow>
          (case pw_contexts w a of
             None \<Rightarrow> Some P_context_invalid
           | Some b \<Rightarrow>
               if \<not> isTrustedProcessingPolicyContext w v then Some P_context_invalid
               else p_currentContextRefusal env w a b expected))"

text \<open>The binding of a trusted context of this very authority.\<close>

definition own_context :: "producer_world \<Rightarrow> addr \<Rightarrow> jref \<Rightarrow> (addr \<times> policy_binding) option" where
  "own_context w authority v =
     (case (pw_authorities w authority, asObject (pw_heap w) v) of
        (Some _, Some a) \<Rightarrow>
          (case pw_contexts w a of
             None \<Rightarrow> None
           | Some b \<Rightarrow>
               if pb_state b \<noteq> authority \<or> \<not> isTrustedProcessingPolicyContext w v then None
               else Some (a, b))
      | _ \<Rightarrow> None)"

section \<open>Delivery evidence and minting\<close>

definition createOpaqueProducerDeliveryEvidence ::
  "addr \<Rightarrow> jref \<Rightarrow> restriction list \<Rightarrow> producer_world \<Rightarrow> (producer_refusal + addr) \<times> producer_world" where
  "createOpaqueProducerDeliveryEvidence authority context restrictions w =
     (case own_context w authority context of
        None \<Rightarrow> (Inl P_authority_mismatch, w)
      | Some (_, b) \<Rightarrow>
          (let a = pw_next w; w1 = p_alloc (frozen []) w
           in (Inr a, w1\<lparr>pw_evidence := (pw_evidence w1)
                 (a \<mapsto> \<lparr>eb_state = authority, eb_context = b, eb_restrictions = restrictions\<rparr>)\<rparr>)))"

definition synthetic_restrictions :: "lineage_operation \<Rightarrow> restriction list" where
  "synthetic_restrictions oper =
     (case oper of
        Capture_ingest \<Rightarrow> []
      | Scheduled_maintenance \<Rightarrow> [Audio_derived]
      | Forced_maintenance \<Rightarrow> [Audio_derived, Excluded_source, Producer_local_only])"

definition syntheticProducerDeliveryResolver ::
  "addr \<Rightarrow> jref \<Rightarrow> producer_world \<Rightarrow> (producer_refusal + addr) \<times> producer_world" where
  "syntheticProducerDeliveryResolver authority context w =
     (case own_context w authority context of
        None \<Rightarrow> (Inl P_authority_mismatch, w)
      | Some (_, b) \<Rightarrow>
          createOpaqueProducerDeliveryEvidence authority context
            (synthetic_restrictions (pb_operation b)) w)"

definition minted_value :: "policy_binding \<Rightarrow> restriction list \<Rightarrow> jval" where
  "minted_value b restrictions =
     obj [(''state'', JStr lineage_state), (''origin'', JStr lineage_origin),
          (''producer_principal_ref'', JStr (pb_principalRef b)),
          (''producer_registration_ref'', JStr (pb_registrationRef b)),
          (''processing_policy_version'', JStr policy_version),
          (''admitted_operation'', JStr (operation_name (pb_operation b))),
          (''target_user_id'', JStr (pb_targetUserId b)),
          (''delivery'',
             obj [(''version'', JStr lineage_version),
                  (''disposition'', JStr (if length restrictions > 0 then ''local_only'' else ''ordinary'')),
                  (''restrictions'', JArr (map (\<lambda>r. JStr (restriction_name r)) restrictions))])]"

datatype mint_result = Minted addr lineage | Mint_refused producer_refusal

text \<open>
  The evidence step of minting: \<open>undefined\<close> stands for the default argument, the production
  resolver. The result is the evidence object, or the refusal.
\<close>

definition mint_evidence ::
  "js_env \<Rightarrow> addr \<Rightarrow> jref \<Rightarrow> addr \<Rightarrow> policy_binding \<Rightarrow> jref \<Rightarrow> producer_world
     \<Rightarrow> (producer_refusal + addr) \<times> producer_world" where
  "mint_evidence env authority context a b evidenceOrResolver w =
     (let arg = (if evidenceOrResolver = RUndef then RRef 0 else evidenceOrResolver)
      in case asObject (pw_heap w) arg of
           None \<Rightarrow> (Inl P_delivery_resolver_untrusted, w)
         | Some x \<Rightarrow>
             (case pw_resolvers w x of
                Some Unconfigured \<Rightarrow> (Inl P_delivery_resolver_unconfigured, w)
              | Some Synthetic \<Rightarrow>
                  (case syntheticProducerDeliveryResolver authority context w of
                     (Inl why, w1) \<Rightarrow> (Inl why, w1)
                   | (Inr ev, w1) \<Rightarrow>
                       (case p_currentContextRefusal env w1 a b no_expectation of
                          Some why \<Rightarrow> (Inl why, w1)
                        | None \<Rightarrow> (Inr ev, w1)))
              | None \<Rightarrow>
                  (case pw_evidence w x of
                     None \<Rightarrow> (Inl P_delivery_resolver_untrusted, w)
                   | Some eb \<Rightarrow>
                       if eb_state eb \<noteq> authority \<or> eb_context eb \<noteq> b
                       then (Inl P_authority_mismatch, w)
                       else (Inr x, w))))"

definition mintProcessingLineage ::
  "js_env \<Rightarrow> addr \<Rightarrow> jref \<Rightarrow> jref \<Rightarrow> producer_world \<Rightarrow> mint_result \<times> producer_world" where
  "mintProcessingLineage env authority context evidenceOrResolver w =
     (case own_context w authority context of
        None \<Rightarrow> (Mint_refused P_authority_mismatch, w)
      | Some (a, b) \<Rightarrow>
          (case p_currentContextRefusal env w a b no_expectation of
             Some why \<Rightarrow> (Mint_refused why, w)
           | None \<Rightarrow>
               (case mint_evidence env authority context a b evidenceOrResolver w of
                  (Inl why, w1) \<Rightarrow> (Mint_refused why, w1)
                | (Inr ev, w1) \<Rightarrow>
                    (case pw_evidence w1 ev of
                       None \<Rightarrow> (Mint_refused P_delivery_evidence_invalid, w1)
                     | Some eb \<Rightarrow>
                         (if eb_state eb \<noteq> authority \<or> eb_context eb \<noteq> b
                          then (Mint_refused P_delivery_evidence_invalid, w1)
                          else (case classifyProcessingLineage (minted_value b (eb_restrictions eb)) of
                                  Minni_verified l \<Rightarrow>
                                    (let m = pw_next w1;
                                         w2 = p_alloc (frozen [(''ok'', JBool True), (''lineage'', lineage_value l)]) w1
                                     in (Minted m l,
                                         w2\<lparr>pw_minted := (pw_minted w2)
                                              (m \<mapsto> \<lparr>mb_state = authority, mb_context = b,
                                                     mb_lineage = l\<rparr>)\<rparr>))
                                | _ \<Rightarrow> (Mint_refused P_lineage_invalid, w1)))))))"

datatype 'v minted_use = Use_refused producer_refusal | Use_value addr lineage 'v

definition runWithMintedProcessingLineage ::
  "js_env \<Rightarrow> addr \<Rightarrow> jref \<Rightarrow> (lineage \<Rightarrow> addr \<Rightarrow> producer_world \<Rightarrow> ('e + 'v) \<times> producer_world)
     \<Rightarrow> use_expectation \<Rightarrow> producer_world \<Rightarrow> ('e + 'v minted_use) \<times> producer_world" where
  "runWithMintedProcessingLineage env authority minted callback expected w =
     (case (pw_authorities w authority, Option.bind (asObject (pw_heap w) minted) (pw_minted w)) of
        (Some _, Some mb) \<Rightarrow>
          (if mb_state mb \<noteq> authority then (Inr (Use_refused P_authority_mismatch), w)
           else let b = mb_context mb; l = mb_lineage mb
                in case p_currentContextRefusal env w (pb_context b) b expected of
                     Some why \<Rightarrow> (Inr (Use_refused why), w)
                   | None \<Rightarrow>
                       (if pl_target l \<noteq> pb_targetUserId b \<or> pl_operation l \<noteq> pb_operation b
                           \<or> pl_principal l \<noteq> pb_principalRef b
                           \<or> pl_registration l \<noteq> pb_registrationRef b
                        then (Inr (Use_refused P_lineage_invalid), w)
                        else (case callback l (pb_context b) w of
                                (Inl err, w1) \<Rightarrow> (Inl err, w1)
                              | (Inr val, w1) \<Rightarrow> (Inr (Use_value (pb_context b) l val), w1))))
      | _ \<Rightarrow> (Inr (Use_refused P_lineage_invalid), w))"

datatype 'v producer_run = P_run_refused producer_refusal | P_run_value addr 'v

definition runWithProducerAdmission ::
  "js_env \<Rightarrow> addr \<Rightarrow> producer_input \<Rightarrow> (addr \<Rightarrow> producer_world \<Rightarrow> (js_throw + 'v) \<times> producer_world)
     \<Rightarrow> producer_world \<Rightarrow> (js_throw + 'v producer_run) \<times> producer_world" where
  "runWithProducerAdmission env authority i callback w =
     (case producer_resolve env authority i w of
        (Inl err, w1) \<Rightarrow> (Inl err, w1)
      | (Inr (P_refused why), w1) \<Rightarrow> (Inr (P_run_refused why), w1)
      | (Inr (P_admitted a), w1) \<Rightarrow>
          (case callback a w1 of
             (Inl err, w2) \<Rightarrow> (Inl err, w2)
           | (Inr val, w2) \<Rightarrow> (Inr (P_run_value a val), w2)))"

end
