(* ===== verification/Producer_Worlds.thy ===== *)
theory Producer_Worlds
  imports Producer_Authority
begin

text \<open>
  The reachable worlds of the producer authority (\<open>src/src/app/processing-policy/authority.ts\<close>) and
  the laws of minting: a minted lineage is bound to the context it was minted for, its use needs a
  current registration, and the production authority admits nothing.
\<close>

section \<open>Steps\<close>

inductive producer_step :: "producer_world \<Rightarrow> producer_world \<Rightarrow> bool" where
  principal: "createServerAuthenticatedProducerPrincipal ref w = (res, w') \<Longrightarrow> producer_step w w'"
| target: "createServerResolvedTargetUser ref w = (res, w') \<Longrightarrow> producer_step w w'"
| operation: "createServerSelectedProducerOperation ref w = (res, w') \<Longrightarrow> producer_step w w'"
| authority: "createProducerAuthority rs w = (res, w') \<Longrightarrow> producer_step w w'"
| revoke: "revokeProducerRegistration a ref w = (out, w') \<Longrightarrow> producer_step w w'"
| remove: "removeProducerRegistration a ref w = (out, w') \<Longrightarrow> producer_step w w'"
| replace: "replaceProducerRegistration a r w = (out, w') \<Longrightarrow> producer_step w w'"
| resolve: "producer_resolve env a input w = (adm, w') \<Longrightarrow> producer_step w w'"
| evidence: "syntheticProducerDeliveryResolver a v w = (ev, w') \<Longrightarrow> producer_step w w'"
| mint: "mintProcessingLineage env a v x w = (m, w') \<Longrightarrow> producer_step w w'"
| forge: "producer_step w (p_alloc ob w)"
| mutate: "pw_heap w a = Some ob \<Longrightarrow> \<not> ho_frozen ob \<Longrightarrow>
    producer_step w (w\<lparr>pw_heap := (pw_heap w)(a \<mapsto> ob\<lparr>ho_value := v\<rparr>)\<rparr>)"

abbreviation producer_steps :: "producer_world \<Rightarrow> producer_world \<Rightarrow> bool" where
  "producer_steps \<equiv> producer_step\<^sup>*\<^sup>*"

abbreviation producer_reachable :: "producer_world \<Rightarrow> bool" where
  "producer_reachable w \<equiv> producer_steps initial_producer_world w"

section \<open>The shapes of a change\<close>

definition own_binding :: "producer_world \<Rightarrow> addr \<Rightarrow> policy_binding \<Rightarrow> bool" where
  "own_binding w authority b =
     (pw_contexts w (pb_context b) = Some b \<and> pb_state b = authority \<and> pw_authorities w authority \<noteq> None)"

definition lineage_of_binding :: "policy_binding \<Rightarrow> lineage \<Rightarrow> bool" where
  "lineage_of_binding b l =
     (lineage_ok l \<and> pl_principal l = pb_principalRef b \<and> pl_registration l = pb_registrationRef b
      \<and> pl_operation l = pb_operation b \<and> pl_target l = pb_targetUserId b)"

inductive policy_change :: "producer_world \<Rightarrow> producer_world \<Rightarrow> bool" where
  alloc: "policy_change w (p_alloc ob w)"
| alloc_principal: "policy_change w ((p_alloc ob w)\<lparr>pw_principals := (pw_principals w)(pw_next w \<mapsto> x)\<rparr>)"
| alloc_target: "policy_change w ((p_alloc ob w)\<lparr>pw_targets := (pw_targets w)(pw_next w \<mapsto> x)\<rparr>)"
| alloc_operation: "policy_change w ((p_alloc ob w)\<lparr>pw_operations := (pw_operations w)(pw_next w \<mapsto> y)\<rparr>)"
| alloc_authority: "p_add_all rs empty_registry = Inr s \<Longrightarrow>
    policy_change w ((p_alloc ob w)\<lparr>pw_authorities := (pw_authorities w)(pw_next w \<mapsto> s)\<rparr>)"
| alloc_context: "pw_authorities w (pb_state b) \<noteq> None \<Longrightarrow> pb_context b = pw_next w \<Longrightarrow>
    policy_change w ((p_alloc (policy_object b) w)\<lparr>pw_contexts := (pw_contexts w)(pw_next w \<mapsto> b)\<rparr>)"
| alloc_evidence: "own_binding w (eb_state eb) (eb_context eb) \<Longrightarrow>
    policy_change w ((p_alloc ob w)\<lparr>pw_evidence := (pw_evidence w)(pw_next w \<mapsto> eb)\<rparr>)"
| alloc_minted: "own_binding w (mb_state mb) (mb_context mb) \<Longrightarrow>
    lineage_of_binding (mb_context mb) (mb_lineage mb) \<Longrightarrow>
    policy_change w ((p_alloc ob w)\<lparr>pw_minted := (pw_minted w)(pw_next w \<mapsto> mb)\<rparr>)"
| registry: "pw_authorities w a = Some s \<Longrightarrow>
    (\<exists>ref. p_revoke ref s = Inr s' \<or> p_remove ref s = Inr s') \<or> (\<exists>r. p_replace r s = Inr s') \<Longrightarrow>
    policy_change w (w\<lparr>pw_authorities := (pw_authorities w)(a \<mapsto> s')\<rparr>)"
| heap_write: "pw_heap w a = Some ob \<Longrightarrow> \<not> ho_frozen ob \<Longrightarrow>
    policy_change w (w\<lparr>pw_heap := (pw_heap w)(a \<mapsto> ob\<lparr>ho_value := v\<rparr>)\<rparr>)"

abbreviation policy_changes :: "producer_world \<Rightarrow> producer_world \<Rightarrow> bool" where
  "policy_changes \<equiv> policy_change\<^sup>*\<^sup>*"

lemma p_alloc_simps [simp]:
  "pw_heap (p_alloc ob w) = (pw_heap w)(pw_next w \<mapsto> ob)" "pw_next (p_alloc ob w) = Suc (pw_next w)"
  "pw_principals (p_alloc ob w) = pw_principals w" "pw_targets (p_alloc ob w) = pw_targets w"
  "pw_operations (p_alloc ob w) = pw_operations w" "pw_contexts (p_alloc ob w) = pw_contexts w"
  "pw_authorities (p_alloc ob w) = pw_authorities w" "pw_minted (p_alloc ob w) = pw_minted w"
  "pw_evidence (p_alloc ob w) = pw_evidence w" "pw_resolvers (p_alloc ob w) = pw_resolvers w"
  by (simp_all add: p_alloc_def)

section \<open>The invariant\<close>

definition p_inside :: "producer_world \<Rightarrow> bool" where
  "p_inside w =
     (\<forall>a\<ge>pw_next w. pw_heap w a = None \<and> pw_principals w a = None \<and> pw_targets w a = None
        \<and> pw_operations w a = None \<and> pw_contexts w a = None \<and> pw_authorities w a = None
        \<and> pw_minted w a = None \<and> pw_evidence w a = None \<and> pw_resolvers w a = None)"

definition p_contexts_bound :: "producer_world \<Rightarrow> bool" where
  "p_contexts_bound w =
     (\<forall>a b. pw_contexts w a = Some b \<longrightarrow>
        pw_heap w a = Some (policy_object b) \<and> pb_context b = a \<and> pw_authorities w (pb_state b) \<noteq> None)"

definition p_evidence_bound :: "producer_world \<Rightarrow> bool" where
  "p_evidence_bound w =
     (\<forall>a eb. pw_evidence w a = Some eb \<longrightarrow> own_binding w (eb_state eb) (eb_context eb))"

definition p_minted_bound :: "producer_world \<Rightarrow> bool" where
  "p_minted_bound w =
     (\<forall>a mb. pw_minted w a = Some mb \<longrightarrow>
        own_binding w (mb_state mb) (mb_context mb) \<and> lineage_of_binding (mb_context mb) (mb_lineage mb))"

definition supported_registry :: "producer_registration registry \<Rightarrow> bool" where
  "supported_registry s =
     (registry_ok pr_principalRef pr_registrationRef s
      \<and> (\<forall>k r. byRegistration s k = Some r \<longrightarrow> policy_supported r))"

definition p_authorities_ok :: "producer_world \<Rightarrow> bool" where
  "p_authorities_ok w =
     ((\<forall>a s. pw_authorities w a = Some s \<longrightarrow> supported_registry s)
      \<and> pw_authorities w productionProducerAuthority = Some empty_registry)"

definition producer_ok :: "producer_world \<Rightarrow> bool" where
  "producer_ok w =
     (p_inside w \<and> p_contexts_bound w \<and> p_evidence_bound w \<and> p_minted_bound w \<and> p_authorities_ok w)"

subsection \<open>Preservation\<close>

lemma empty_supported: "supported_registry empty_registry"
  using producer_registry.empty_ok by (simp add: supported_registry_def empty_registry_def)

lemma add_all_supported:
  "p_add_all rs s = Inr s' \<Longrightarrow> supported_registry s \<Longrightarrow> supported_registry s'"
proof (induction rs arbitrary: s)
  case (Cons r rs)
  then obtain s1 where s1: "p_add r s = Inr s1" and rest: "p_add_all rs s1 = Inr s'"
    by (auto split: sum.splits)
  have "supported_registry s1"
    using Cons.prems(2) producer_registry.add_ok [OF _ s1] producer_registry.add_law [OF s1] s1
    by (auto simp: supported_registry_def p_add_def split: if_splits)
  with rest show ?case by (rule Cons.IH)
qed simp

lemma registry_change_supported:
  assumes ok: "supported_registry s"
    and "(\<exists>ref. p_revoke ref s = Inr s' \<or> p_remove ref s = Inr s') \<or> (\<exists>r. p_replace r s = Inr s')"
  shows "supported_registry s'"
proof -
  have reg: "registry_ok pr_principalRef pr_registrationRef s" using ok by (simp add: supported_registry_def)
  from assms(2) consider ref where "p_revoke ref s = Inr s'" | ref where "p_remove ref s = Inr s'"
    | r where "p_replace r s = Inr s'" by blast
  then show ?thesis
  proof cases
    case (1 ref)
    with ok producer_registry.revoke_ok [OF reg 1] show ?thesis
      by (auto simp: supported_registry_def p_revoke_def split: if_splits)
  next
    case (2 ref)
    with ok producer_registry.remove_ok [OF reg 2] show ?thesis
      by (auto simp: supported_registry_def p_remove_def split: if_splits option.splits)
  next
    case (3 r)
    with ok producer_registry.replace_ok [OF reg 3] show ?thesis
      by (auto simp: supported_registry_def p_replace_def split: if_splits option.splits)
  qed
qed

lemma empty_registry_stuck:
  "\<not> ((\<exists>ref. p_revoke ref empty_registry = Inr s' \<or> p_remove ref empty_registry = Inr s')
      \<or> (\<exists>r. p_replace r empty_registry = Inr s'))"
  by (auto simp: p_revoke_def p_remove_def p_replace_def empty_registry_def split: if_splits)

lemma own_binding_keep:
  assumes "policy_change w w'" and "p_inside w" and "own_binding w a b"
  shows "own_binding w' a b"
proof -
  have "pb_context b < pw_next w" "a < pw_next w"
    using assms(2,3) unfolding own_binding_def p_inside_def
    by (metis not_less option.distinct(1))+
  with assms(1,3) show ?thesis by cases (auto simp: own_binding_def)
qed

lemma p_change_inside: "policy_change w w' \<Longrightarrow> p_inside w \<Longrightarrow> p_inside w'"
proof (induction rule: policy_change.induct)
  case (registry w a s s')
  then have "a < pw_next w" by (metis p_inside_def not_less option.distinct(1))
  with registry show ?case by (auto simp: p_inside_def)
next
  case (heap_write w a ob v)
  then have "a < pw_next w" by (metis p_inside_def not_less option.distinct(1))
  with heap_write show ?case by (auto simp: p_inside_def)
qed (auto simp: p_inside_def)

lemma policy_object_frozen [simp]: "ho_frozen (policy_object b)"
  by (simp add: policy_object_def)

lemma p_change_contexts:
  "policy_change w w' \<Longrightarrow> p_inside w \<Longrightarrow> p_contexts_bound w \<Longrightarrow> p_contexts_bound w'"
proof (induction rule: policy_change.induct)
  case (heap_write w a ob v)
  then have "pw_contexts w a = None"
    by (cases "pw_contexts w a") (auto simp: p_contexts_bound_def)
  with heap_write show ?case by (auto simp: p_contexts_bound_def)
qed (auto simp: p_contexts_bound_def p_inside_def)

lemma p_change_evidence:
  assumes "policy_change w w'" and "p_inside w" and "p_evidence_bound w"
  shows "p_evidence_bound w'"
proof -
  have "own_binding w (eb_state eb) (eb_context eb)" if "pw_evidence w' a = Some eb" for a eb
    using assms(1,3) that by cases (auto simp: p_evidence_bound_def split: if_splits)
  with own_binding_keep [OF assms(1,2)] show ?thesis by (auto simp: p_evidence_bound_def)
qed

lemma p_change_minted:
  assumes "policy_change w w'" and "p_inside w" and "p_minted_bound w"
  shows "p_minted_bound w'"
proof -
  have "own_binding w (mb_state mb) (mb_context mb) \<and> lineage_of_binding (mb_context mb) (mb_lineage mb)"
    if "pw_minted w' a = Some mb" for a mb
    using assms(1,3) that by cases (auto simp: p_minted_bound_def split: if_splits)
  with own_binding_keep [OF assms(1,2)] show ?thesis by (auto simp: p_minted_bound_def)
qed

lemma p_change_authorities:
  "policy_change w w' \<Longrightarrow> p_inside w \<Longrightarrow> p_authorities_ok w \<Longrightarrow> p_authorities_ok w'"
proof (induction rule: policy_change.induct)
  case (alloc_authority rs s w ob)
  then have "productionProducerAuthority \<noteq> pw_next w"
    by (auto simp: p_inside_def p_authorities_ok_def)
  with alloc_authority show ?case
    by (auto simp: p_authorities_ok_def intro: add_all_supported [OF _ empty_supported])
next
  case (registry w a s s')
  then have "a \<noteq> productionProducerAuthority"
    using empty_registry_stuck by (auto simp: p_authorities_ok_def)
  with registry show ?case
    by (auto simp: p_authorities_ok_def intro: registry_change_supported)
qed (auto simp: p_authorities_ok_def)

lemma p_change_ok: "policy_change w w' \<Longrightarrow> producer_ok w \<Longrightarrow> producer_ok w'"
  unfolding producer_ok_def
  using p_change_inside p_change_contexts p_change_evidence p_change_minted p_change_authorities
  by auto

lemma p_changes_ok: "policy_changes w w' \<Longrightarrow> producer_ok w \<Longrightarrow> producer_ok w'"
  by (induction rule: rtranclp_induct) (auto intro: p_change_ok)

lemma p_changes_frame:
  assumes "policy_changes w w'" and "producer_ok w" and "a < pw_next w"
  shows "pw_contexts w' a = pw_contexts w a \<and> pw_minted w' a = pw_minted w a
    \<and> pw_evidence w' a = pw_evidence w a \<and> a < pw_next w'"
  using assms(1)
proof (induction rule: rtranclp_induct)
  case base
  then show ?case using assms(3) by simp
next
  case (step y z)
  then have "a < pw_next y" by simp
  with step(2) have "pw_contexts z a = pw_contexts y a \<and> pw_minted z a = pw_minted y a
      \<and> pw_evidence z a = pw_evidence y a \<and> a < pw_next z"
    by cases auto
  with step show ?case by simp
qed

section \<open>Every step is a sequence of changes\<close>

lemma p_one: "policy_change w w' \<Longrightarrow> policy_changes w w'"
  by (rule r_into_rtranclp)

lemma p_update_changes:
  assumes "p_update a f w = (res, w')"
    and "\<And>s s'. f s = Inr s' \<Longrightarrow>
      (\<exists>ref. p_revoke ref s = Inr s' \<or> p_remove ref s = Inr s') \<or> (\<exists>r. p_replace r s = Inr s')"
  shows "policy_changes w w'"
proof (cases "pw_authorities w a")
  case None
  with assms(1) show ?thesis by (auto simp: p_update_def)
next
  case (Some s)
  show ?thesis
  proof (cases "f s")
    case (Inl err)
    with Some assms(1) show ?thesis by (auto simp: p_update_def)
  next
    case (Inr s')
    with Some assms(1) have "w' = w\<lparr>pw_authorities := (pw_authorities w)(a \<mapsto> s')\<rparr>"
      by (auto simp: p_update_def)
    with policy_change.registry [OF Some assms(2) [OF Inr]] show ?thesis by (simp add: p_one)
  qed
qed

lemma own_context_Some:
  assumes "own_context w authority v = Some (a, b)"
  shows "v = RRef a \<and> pw_contexts w a = Some b \<and> pb_state b = authority
    \<and> (\<exists>s. pw_authorities w authority = Some s) \<and> p_contextFieldsMatchBinding (pw_heap w) a b"
  using assms
  by (auto simp: own_context_def asObject_Some isTrustedProcessingPolicyContext_def
      split: option.splits if_splits)

lemma own_context_binding:
  "producer_ok w \<Longrightarrow> own_context w authority v = Some (a, b) \<Longrightarrow> own_binding w authority b \<and> pb_context b = a"
  using own_context_Some [of w authority v a b]
  by (auto simp: producer_ok_def p_contexts_bound_def own_binding_def)

lemma evidence_result:
  assumes "producer_ok w" and "createOpaqueProducerDeliveryEvidence authority v rs w = (res, w')"
  shows "(\<exists>why. res = Inl why) \<and> w' = w
    \<or> (\<exists>a b. own_context w authority v = Some (a, b) \<and> res = Inr (pw_next w)
         \<and> w' = (p_alloc (frozen []) w)\<lparr>pw_evidence := (pw_evidence w)(pw_next w \<mapsto>
              \<lparr>eb_state = authority, eb_context = b, eb_restrictions = rs\<rparr>)\<rparr>)"
  using assms(2)
  by (auto simp: createOpaqueProducerDeliveryEvidence_def Let_def split: option.splits)

lemma evidence_changes:
  assumes ok: "producer_ok w" and "createOpaqueProducerDeliveryEvidence authority v rs w = (res, w')"
  shows "policy_changes w w'"
  using evidence_result [OF assms]
proof (elim disjE)
  assume "\<exists>a b. own_context w authority v = Some (a, b) \<and> res = Inr (pw_next w)
         \<and> w' = (p_alloc (frozen []) w)\<lparr>pw_evidence := (pw_evidence w)(pw_next w \<mapsto>
              \<lparr>eb_state = authority, eb_context = b, eb_restrictions = rs\<rparr>)\<rparr>"
  then obtain a b where own: "own_context w authority v = Some (a, b)"
    and w': "w' = (p_alloc (frozen []) w)\<lparr>pw_evidence := (pw_evidence w)(pw_next w \<mapsto>
              \<lparr>eb_state = authority, eb_context = b, eb_restrictions = rs\<rparr>)\<rparr>" by blast
  let ?eb = "\<lparr>eb_state = authority, eb_context = b, eb_restrictions = rs\<rparr>"
  have bind: "own_binding w (eb_state ?eb) (eb_context ?eb)"
    using own_context_binding [OF ok own] by simp
  show ?thesis by (subst w', rule p_one, rule policy_change.alloc_evidence [OF bind])
qed simp

lemma synthetic_result:
  assumes "producer_ok w" and "syntheticProducerDeliveryResolver authority v w = (res, w')"
  shows "policy_changes w w'"
  using assms evidence_changes
  by (auto simp: syntheticProducerDeliveryResolver_def split: option.splits)

lemma mint_evidence_changes:
  assumes "producer_ok w" and "mint_evidence env authority v a b x w = (res, w')"
  shows "policy_changes w w'"
  using assms synthetic_result
  by (auto simp: mint_evidence_def Let_def split: option.splits resolver_kind.splits prod.splits
      sum.splits if_splits)

lemma classified_minted:
  assumes "classifyProcessingLineage (minted_value b rs) = Minni_verified l"
  shows "lineage_of_binding b l \<and> set (ld_restrictions (pl_delivery l)) = set rs"
proof -
  have fields: "jget (minted_value b rs) ''producer_principal_ref'' = JStr (pb_principalRef b)"
    "jget (minted_value b rs) ''producer_registration_ref'' = JStr (pb_registrationRef b)"
    "jget (minted_value b rs) ''admitted_operation'' = JStr (operation_name (pb_operation b))"
    "jget (minted_value b rs) ''target_user_id'' = JStr (pb_targetUserId b)"
    by (simp_all add: minted_value_def)
  have delivery: "classifyRestrictions (jget (jget (minted_value b rs) ''delivery'') ''restrictions'')
      = Inr (filter (\<lambda>r. r \<in> set rs) lineage_restrictions)"
    by (simp add: minted_value_def classifyRestrictions_def scan_names)
  have "pl_principal l = pb_principalRef b \<and> pl_registration l = pb_registrationRef b
      \<and> pl_operation l = pb_operation b \<and> pl_target l = pb_targetUserId b
      \<and> ld_restrictions (pl_delivery l) = filter (\<lambda>r. r \<in> set rs) lineage_restrictions"
    using assms
    by (auto simp: classifyProcessingLineage_def fields delivery str_of_def classify_delivery_def
        split: if_splits option.splits sum.splits)
  with classify_ok [OF assms] show ?thesis by (auto simp: lineage_of_binding_def)
qed

text \<open>What a successful mint did.\<close>

lemma mint_result:
  assumes ok: "producer_ok w" and "mintProcessingLineage env authority v x w = (res, w')"
  shows "policy_changes w w'
    \<and> (\<forall>m l. res = Minted m l \<longrightarrow>
         (\<exists>a b. own_context w authority v = Some (a, b)
            \<and> p_currentContextRefusal env w a b no_expectation = None
            \<and> lineage_of_binding b l
            \<and> pw_minted w' m = Some \<lparr>mb_state = authority, mb_context = b, mb_lineage = l\<rparr>))"
proof (cases "own_context w authority v")
  case None
  with assms(2) show ?thesis by (auto simp: mintProcessingLineage_def)
next
  case (Some ab)
  obtain a b where ab: "ab = (a, b)" by (cases ab)
  show ?thesis
  proof (cases "p_currentContextRefusal env w a b no_expectation")
    case (Some why)
    with \<open>own_context w authority v = Some ab\<close> ab assms(2) show ?thesis
      by (auto simp: mintProcessingLineage_def)
  next
    case None
    obtain ev w1 where ev: "mint_evidence env authority v a b x w = (ev, w1)" by fastforce
    note c1 = mint_evidence_changes [OF ok ev]
    have own: "own_binding w1 authority b" if "pw_evidence w1 e = Some eb" "eb_state eb = authority"
      "eb_context eb = b" for e eb
      using p_changes_ok [OF c1 ok] that by (auto simp: producer_ok_def p_evidence_bound_def)
    have two: "policy_changes w ((p_alloc ob w1)\<lparr>pw_minted := (pw_minted w1)(pw_next w1 \<mapsto> mb)\<rparr>)"
      if "own_binding w1 (mb_state mb) (mb_context mb)"
        "lineage_of_binding (mb_context mb) (mb_lineage mb)" for ob mb
      using c1 policy_change.alloc_minted [OF that] by (rule rtranclp.rtrancl_into_rtrancl)
    from assms(2) \<open>own_context w authority v = Some ab\<close> ab None ev c1 own two classified_minted
    show ?thesis
      by (auto simp: mintProcessingLineage_def Let_def split: sum.splits option.splits if_splits
          classified.splits)
  qed
qed

lemma producer_resolve_result:
  assumes "producer_resolve env a i w = (adm, w')"
  shows "w' = w \<and> (\<forall>x. adm \<noteq> Inr (P_admitted x))
    \<or> (\<exists>s r u oper. pw_authorities w a = Some s \<and> byPrincipal s (pr_principalRef r) = Some r
         \<and> p_buildContext a (pr_principalRef r) r oper u w = (pw_next w, w')
         \<and> p_grant_refusal env s r oper u = None \<and> adm = Inr (P_admitted (pw_next w)))"
proof -
  have fresh: "x = pw_next w" if "p_buildContext a p r oper u w = (x, w2)" for p r oper u x w2
    using that by (simp add: p_buildContext_def Let_def)
  from assms show ?thesis
    unfolding producer_resolve_def
    by (auto split: option.splits if_splits prod.splits dest: fresh)
qed

lemma p_build_change:
  assumes "p_buildContext a p r oper u w = (x, w')" and "pw_authorities w a \<noteq> None"
  shows "policy_change w w'"
proof -
  let ?b = "\<lparr>pb_state = a, pb_context = pw_next w, pb_principalRef = p,
             pb_registrationRef = pr_registrationRef r, pb_operation = oper, pb_targetUserId = u\<rparr>"
  have built: "w' = (p_alloc (policy_object ?b) w)\<lparr>pw_contexts := (pw_contexts w)(pw_next w \<mapsto> ?b)\<rparr>"
    using assms(1) by (auto simp: p_buildContext_def Let_def)
  have auth: "pw_authorities w (pb_state ?b) \<noteq> None" "pb_context ?b = pw_next w"
    using assms(2) by simp_all
  show ?thesis by (subst built, rule policy_change.alloc_context [OF auth])
qed

lemma producer_step_changes: "producer_step w w' \<Longrightarrow> producer_ok w \<Longrightarrow> policy_changes w w'"
proof (induction rule: producer_step.induct)
  case (principal ref w res w')
  then show ?case
    by (auto simp: createServerAuthenticatedProducerPrincipal_def Let_def
        intro: p_one policy_change.alloc_principal split: if_splits)
next
  case (target ref w res w')
  then show ?case
    by (auto simp: createServerResolvedTargetUser_def Let_def
        intro: p_one policy_change.alloc_target split: if_splits)
next
  case (operation ref w res w')
  then show ?case
    by (auto simp: createServerSelectedProducerOperation_def Let_def
        intro: p_one policy_change.alloc_operation split: option.splits)
next
  case (authority rs w res w')
  then show ?case
    by (auto simp: createProducerAuthority_def Let_def
        intro: p_one policy_change.alloc_authority split: sum.splits)
next
  case (revoke a ref w out w')
  then show ?case unfolding revokeProducerRegistration_def by (blast intro: p_update_changes)
next
  case (remove a ref w out w')
  then show ?case unfolding removeProducerRegistration_def by (blast intro: p_update_changes)
next
  case (replace a r w out w')
  then show ?case
    unfolding replaceProducerRegistration_def
    by (auto intro: p_update_changes split: if_splits)
next
  case (resolve env a i w adm w')
  from producer_resolve_result [OF resolve(1)] show ?case by (auto intro: p_one p_build_change)
next
  case (evidence a v w ev w')
  then show ?case using synthetic_result by blast
next
  case (mint env a v x w m w')
  then show ?case using mint_result by blast
qed (auto intro: p_one policy_change.intros)

lemma producer_steps_changes: "producer_steps w w' \<Longrightarrow> producer_ok w \<Longrightarrow> policy_changes w w' \<and> producer_ok w'"
proof (induction rule: rtranclp_induct)
  case (step y z)
  then have "policy_changes y z" using producer_step_changes by blast
  with step p_changes_ok show ?case by (meson rtranclp_trans)
qed simp

lemma initial_producer_ok: "producer_ok initial_producer_world"
  using empty_supported
  by (auto simp: producer_ok_def initial_producer_world_def p_inside_def p_contexts_bound_def
      p_evidence_bound_def p_minted_bound_def p_authorities_ok_def productionProducerAuthority_def)

lemma producer_reachable_ok: "producer_reachable w \<Longrightarrow> producer_ok w"
  using producer_steps_changes initial_producer_ok by blast

section \<open>The laws\<close>

definition p_currently_granted ::
  "js_env \<Rightarrow> producer_world \<Rightarrow> policy_binding \<Rightarrow> producer_registration \<Rightarrow> bool" where
  "p_currently_granted env w b r =
     (\<exists>s. pw_authorities w (pb_state b) = Some s \<and> byRegistration s (pb_registrationRef b) = Some r
        \<and> byPrincipal s (pb_principalRef b) = Some r \<and> policy_supported r
        \<and> pb_registrationRef b \<notin> revoked s \<and> pr_status r = ''active''
        \<and> \<not> isExpired env (pr_expiresAt r)
        \<and> pb_operation b \<in> set (pr_operations r) \<and> pb_targetUserId b \<in> set (pr_targetUsers r))"

lemma p_current_granted:
  assumes ok: "producer_ok w" and none: "p_currentContextRefusal env w a b e = None"
  shows "\<exists>r. p_currently_granted env w b r"
proof -
  from none obtain s r where s: "pw_authorities w (pb_state b) = Some s"
    and r: "byRegistration s (pb_registrationRef b) = Some r" "pr_registrationRef r = pb_registrationRef b"
      "pr_principalRef r = pb_principalRef b" "policy_supported r"
    and g: "p_grant_refusal env s r (pb_operation b) (pb_targetUserId b) = None"
    by (auto simp: p_currentContextRefusal_def split: option.splits if_splits)
  have "registry_ok pr_principalRef pr_registrationRef s"
    using ok s by (auto simp: producer_ok_def p_authorities_ok_def supported_registry_def)
  from registry_okD(2) [OF this r(1)] s r g show ?thesis
    by (auto simp: p_currently_granted_def p_grant_refusal_def split: if_splits)
qed

subsection \<open>A concrete world\<close>

definition p_clock :: js_env where
  "p_clock = \<lparr>now_ms = 1750000000000, parse_other = (\<lambda>_. None), locale_compare = (\<lambda>_ _. 0),
              sha256_hex = (\<lambda>s. s)\<rparr>"

definition demo_producer :: producer_registration where
  "demo_producer =
     \<lparr>pr_registrationRef = ''r1'', pr_principalRef = ''p1'', pr_origin = ''minni'',
      pr_policyVersion = ''runir.minni.local/v1'', pr_operations = [Scheduled_maintenance],
      pr_targetUsers = [''u1''], pr_status = ''active'', pr_expiresAt = None\<rparr>"

text \<open>An authority at 3, the capabilities at 4 to 6, the context at 7.\<close>

definition admitted_producer_world :: producer_world where
  "admitted_producer_world =
     (let w1 = snd (createProducerAuthority [demo_producer] initial_producer_world);
          w2 = snd (createServerAuthenticatedProducerPrincipal '' p1 '' w1);
          w3 = snd (createServerResolvedTargetUser ''u1'' w2);
          w4 = snd (createServerSelectedProducerOperation ''scheduled_maintenance'' w3)
      in snd (producer_resolve p_clock 3
           \<lparr>pi_principal = RRef 4, pi_operation = RRef 6, pi_targetUser = RRef 5,
            pi_requestedUserId = JStr ''u1''\<rparr> w4))"

text \<open>The evidence at 8 and the minted lineage at 9.\<close>

definition minted_world :: producer_world where
  "minted_world = snd (mintProcessingLineage p_clock 3 (RRef 7) (RRef 1) admitted_producer_world)"

definition idle_use :: "lineage \<Rightarrow> addr \<Rightarrow> producer_world \<Rightarrow> (js_throw + unit) \<times> producer_world" where
  "idle_use l a w = (Inr (), w)"

lemma p_step_snd:
  "producer_step w (snd (createProducerAuthority rs w))"
  "producer_step w (snd (createServerAuthenticatedProducerPrincipal ref w))"
  "producer_step w (snd (createServerResolvedTargetUser ref w))"
  "producer_step w (snd (createServerSelectedProducerOperation ref w))"
  "producer_step w (snd (producer_resolve env a i w))"
  "producer_step w (snd (mintProcessingLineage env a v x w))"
  by (rule producer_step.intros, rule prod.collapse [symmetric])+

lemma p_steps_then: "producer_step w w' \<Longrightarrow> producer_steps u w \<Longrightarrow> producer_steps u w'"
  by (rule rtranclp.rtrancl_into_rtrancl)

lemmas p_steps_snd = p_step_snd [THEN p_steps_then]

lemma admitted_producer_reachable: "producer_reachable admitted_producer_world"
  unfolding admitted_producer_world_def Let_def by (intro p_steps_snd rtranclp.rtrancl_refl)

lemma minted_reachable: "producer_reachable minted_world"
  unfolding minted_world_def by (intro p_steps_snd admitted_producer_reachable)

lemma demo_minted:
  "\<exists>l. mintProcessingLineage p_clock 3 (RRef 7) (RRef 1) admitted_producer_world
     = (Minted 9 l, minted_world)"
proof -
  have "(case fst (mintProcessingLineage p_clock 3 (RRef 7) (RRef 1) admitted_producer_world) of
           Minted m l \<Rightarrow> m = 9 | Mint_refused _ \<Rightarrow> False)" by code_simp
  then show ?thesis
    unfolding minted_world_def
    by (cases "mintProcessingLineage p_clock 3 (RRef 7) (RRef 1) admitted_producer_world")
      (auto split: mint_result.splits)
qed

text \<open>C27: A lineage is minted only for a context that this authority admitted and that its registry grants at the
  instant, and it carries that context's principal, registration, operation and target user in a
  well-formed lineage bound to the minted object.\<close>

theorem mint_is_authorised:
  assumes "producer_reachable w"
    and "mintProcessingLineage env authority context x w = (Minted m l, w')"
  shows "\<exists>a b r. context = RRef a \<and> pw_contexts w a = Some b \<and> pb_state b = authority
    \<and> p_currently_granted env w b r \<and> lineage_of_binding b l
    \<and> pw_minted w' m = Some \<lparr>mb_state = authority, mb_context = b, mb_lineage = l\<rparr>"
proof -
  have ok: "producer_ok w" using assms(1) by (rule producer_reachable_ok)
  from mint_result [OF ok assms(2)] obtain a b where own: "own_context w authority context = Some (a, b)"
    and none: "p_currentContextRefusal env w a b no_expectation = None"
    and l: "lineage_of_binding b l"
    and m: "pw_minted w' m = Some \<lparr>mb_state = authority, mb_context = b, mb_lineage = l\<rparr>" by blast
  from p_current_granted [OF ok none] own_context_Some [OF own] l m show ?thesis by blast
qed

theorem mint_is_authorised_witness:
  "\<exists>b r l. p_currently_granted p_clock admitted_producer_world b r \<and> lineage_of_binding b l"
proof -
  obtain l where "mintProcessingLineage p_clock 3 (RRef 7) (RRef 1) admitted_producer_world
     = (Minted 9 l, minted_world)" using demo_minted by blast
  from mint_is_authorised [OF admitted_producer_reachable this] show ?thesis by blast
qed

lemma use_is_current:
  assumes "producer_reachable w"
    and "runWithMintedProcessingLineage env authority v callback expected w = (Inr (Use_value a l val), w')"
  shows "\<exists>m mb r. v = RRef m \<and> pw_minted w m = Some mb \<and> mb_state mb = authority
    \<and> l = mb_lineage mb \<and> lineage_of_binding (mb_context mb) l
    \<and> p_currently_granted env w (mb_context mb) r
    \<and> (case ue_targetUserId expected of None \<Rightarrow> True | Some u \<Rightarrow> u = pl_target l)
    \<and> (case ue_operation expected of None \<Rightarrow> True | Some oper \<Rightarrow> oper = pl_operation l)
    \<and> callback l a w = (Inr val, w') \<and> a = pb_context (mb_context mb)
    \<and> pw_heap w a = Some (policy_object (mb_context mb))"
proof -
  have ok: "producer_ok w" using assms(1) by (rule producer_reachable_ok)
  from assms(2) obtain m mb where m: "v = RRef m" "pw_minted w m = Some mb" "mb_state mb = authority"
    and l: "l = mb_lineage mb" "a = pb_context (mb_context mb)"
    and none: "p_currentContextRefusal env w (pb_context (mb_context mb)) (mb_context mb) expected = None"
    and run: "callback l a w = (Inr val, w')"
    by (auto simp: runWithMintedProcessingLineage_def Let_def asObject_Some
        split: option.splits if_splits prod.splits sum.splits bind_splits)
  have bound: "own_binding w authority (mb_context mb)" "lineage_of_binding (mb_context mb) l"
    using ok m l by (auto simp: producer_ok_def p_minted_bound_def)
  have heap: "pw_heap w (pb_context (mb_context mb)) = Some (policy_object (mb_context mb))"
    using ok bound by (auto simp: producer_ok_def p_contexts_bound_def own_binding_def)
  have inj: "operation_name x = operation_name y \<Longrightarrow> x = y" for x y
    by (metis named_name(1) option.inject)
  have "case ue_targetUserId expected of None \<Rightarrow> True | Some u \<Rightarrow> u = pl_target l"
    "case ue_operation expected of None \<Rightarrow> True | Some oper \<Rightarrow> oper = pl_operation l"
    using none heap bound(2)
    by (auto simp: p_currentContextRefusal_def field_def policy_object_def lineage_of_binding_def
        split: option.splits if_splits dest: inj)
  with p_current_granted [OF ok none] m l bound run heap show ?thesis by blast
qed

text \<open>A protected use runs its callback only on an object that a mint of the same authority returned, with the
  very lineage that was minted, while the registration is granted at the instant and the expected
  operation and target user are those of the lineage.\<close>

theorem minted_use_is_current:
  assumes "producer_reachable w"
    and "runWithMintedProcessingLineage env authority v callback expected w = (Inr (Use_value a l val), w')"
  shows "\<exists>m mb r. v = RRef m \<and> pw_minted w m = Some mb \<and> mb_state mb = authority
    \<and> l = mb_lineage mb \<and> lineage_of_binding (mb_context mb) l
    \<and> p_currently_granted env w (mb_context mb) r
    \<and> (case ue_targetUserId expected of None \<Rightarrow> True | Some u \<Rightarrow> u = pl_target l)
    \<and> (case ue_operation expected of None \<Rightarrow> True | Some oper \<Rightarrow> oper = pl_operation l)
    \<and> callback l a w = (Inr val, w')"
  using use_is_current [OF assms] by blast

theorem minted_use_is_current_witness:
  "\<exists>mb r. pw_minted minted_world 9 = Some mb \<and> p_currently_granted p_clock minted_world (mb_context mb) r"
proof -
  have "(case fst (runWithMintedProcessingLineage p_clock 3 (RRef 9) idle_use
            no_expectation minted_world) of
           Inr (Use_value a l _) \<Rightarrow> True | _ \<Rightarrow> False)" by code_simp
  then obtain a l w' where "runWithMintedProcessingLineage p_clock 3 (RRef 9) idle_use
            no_expectation minted_world = (Inr (Use_value a l ()), w')"
    by (cases "runWithMintedProcessingLineage p_clock 3 (RRef 9) idle_use
            no_expectation minted_world") (auto split: sum.splits minted_use.splits)
  from minted_use_is_current [OF minted_reachable this] show ?thesis by auto
qed

lemma revoked_refusal:
  assumes "producer_reachable w"
    and "revokeProducerRegistration authority ref w = (Inr (), w1)"
    and "pw_minted w1 m = Some mb" and "mb_state mb = authority"
    and "pb_registrationRef (mb_context mb) = js_trim ref"
  shows "p_currentContextRefusal env w1 (pb_context (mb_context mb)) (mb_context mb) expected \<noteq> None
    \<and> pw_authorities w1 authority \<noteq> None"
proof -
  have ok: "producer_ok w1"
    using producer_reachable_ok [OF assms(1)] producer_steps_changes
      producer_step.revoke [OF assms(2)] by blast
  from assms(2) obtain s where s: "pw_authorities w1 authority = Some s" "js_trim ref \<in> revoked s"
    by (auto simp: revokeProducerRegistration_def p_update_def p_revoke_def
        split: option.splits sum.splits if_splits)
  have state: "pb_state (mb_context mb) = authority"
    using ok assms(3,4) by (auto simp: producer_ok_def p_minted_bound_def own_binding_def)
  show ?thesis
    using p_current_granted [OF ok, of env "pb_context (mb_context mb)" "mb_context mb" expected]
      s state assms(5)
    by (auto simp: p_currently_granted_def)
qed

lemma refused_use:
  assumes "p_currentContextRefusal env w (pb_context (mb_context mb)) (mb_context mb) expected \<noteq> None"
    and "pw_authorities w (mb_state mb) \<noteq> None" and "pw_minted w m = Some mb"
  shows "\<exists>why. runWithMintedProcessingLineage env (mb_state mb) (RRef m) callback expected w
    = (Inr (Use_refused why), w)"
  using assms
  by (cases "asObject (pw_heap w) (RRef m)")
    (auto simp: runWithMintedProcessingLineage_def Let_def asObject_def split: if_splits)

text \<open>After a registration is revoked, every use of a lineage minted under it is refused before the callback
  runs and leaves the world unchanged, whatever the clock, the expectation and the callback are.\<close>

theorem revocation_stops_use:
  assumes "producer_reachable w"
    and "revokeProducerRegistration authority ref w = (Inr (), w1)"
    and "pw_minted w1 m = Some mb" and "mb_state mb = authority"
    and "pb_registrationRef (mb_context mb) = js_trim ref"
  shows "\<exists>why. runWithMintedProcessingLineage env authority (RRef m) callback expected w1
    = (Inr (Use_refused why), w1)"
  using revoked_refusal [OF assms, of env expected] refused_use [of env w1 mb expected m callback] assms(3,4)
  by simp

theorem revocation_stops_use_witness:
  "\<exists>why. runWithMintedProcessingLineage p_clock 3 (RRef 9) idle_use no_expectation
     (snd (revokeProducerRegistration 3 ''r1'' minted_world))
   = (Inr (Use_refused why), snd (revokeProducerRegistration 3 ''r1'' minted_world))"
proof -
  have "fst (revokeProducerRegistration 3 ''r1'' minted_world) = Inr ()" by code_simp
  then have rev: "revokeProducerRegistration 3 ''r1'' minted_world
      = (Inr (), snd (revokeProducerRegistration 3 ''r1'' minted_world))" by (metis prod.collapse)
  have "(case pw_minted (snd (revokeProducerRegistration 3 ''r1'' minted_world)) 9 of
           Some mb \<Rightarrow> mb_state mb = 3 \<and> pb_registrationRef (mb_context mb) = js_trim ''r1''
         | None \<Rightarrow> False)" by code_simp
  then obtain mb where "pw_minted (snd (revokeProducerRegistration 3 ''r1'' minted_world)) 9 = Some mb"
    "mb_state mb = 3" "pb_registrationRef (mb_context mb) = js_trim ''r1''"
    by (auto split: option.splits)
  from revocation_stops_use [OF minted_reachable rev this] show ?thesis .
qed

text \<open>The production authority, created without registrations, admits nobody and mints nothing in any
  reachable world, and the refusals leave the world as it is.\<close>

theorem production_authority_closed:
  assumes "producer_reachable w"
  shows "(\<exists>why. producer_resolve env productionProducerAuthority i w = (Inr (P_refused why), w))
    \<and> (\<exists>why. mintProcessingLineage env productionProducerAuthority v x w = (Mint_refused why, w))"
proof -
  have ok: "producer_ok w" using assms by (rule producer_reachable_ok)
  then have s: "pw_authorities w productionProducerAuthority = Some empty_registry"
    by (simp add: producer_ok_def p_authorities_ok_def)
  have "\<exists>why. producer_resolve env productionProducerAuthority i w = (Inr (P_refused why), w)"
    by (auto simp: producer_resolve_def s empty_registry_def split: option.splits)
  moreover have "p_currentContextRefusal env w a b no_expectation = Some P_registration_missing"
    if "own_context w productionProducerAuthority v = Some (a, b)" for a b
    using own_context_Some [OF that] s by (auto simp: p_currentContextRefusal_def empty_registry_def)
  then have "\<exists>why. mintProcessingLineage env productionProducerAuthority v x w = (Mint_refused why, w)"
    by (auto simp: mintProcessingLineage_def split: option.splits)
  ultimately show ?thesis ..
qed

theorem production_authority_closed_witness:
  "\<exists>why. mintProcessingLineage p_clock productionProducerAuthority (RRef 7) (RRef 1) minted_world
     = (Mint_refused why, minted_world)"
  using production_authority_closed [OF minted_reachable] by blast

end
