(* ===== verification/Protected_Store.thy ===== *)
theory Protected_Store
  imports Supersede_Store Producer_Worlds
begin

text \<open>
  The single-row writers of the record store (\<open>src/src/storage/surreal/memory-crud-store.ts\<close>): the
  generic ones, which leave rows with a processing lineage alone, and the protected create, merge and
  supersede, which run under a minted lineage. A protected write has two uses of the mint: a preflight
  that reads metadata, and the transaction, whose guard compares what the preflight read. Between them
  other writers and revocations may run, so each phase has a producer world and a table of its own.
\<close>

datatype store_error =
    Refused producer_refusal
  | Not_composed record_error
  | Not_serialisable
  | Already_exists
  | Merge_cas_failed
  | Supersede_replacement_cas_failed
  | Supersede_previous_cas_failed

section \<open>Generic writers\<close>

text \<open>The guarded \<open>UPSERT\<close>: a row that has a lineage is not matched, and the empty result is a refusal.\<close>

definition upsertMemory ::
  "surreal \<Rightarrow> jval \<Rightarrow> jstr \<Rightarrow> jstr \<Rightarrow> record_input \<Rightarrow> db_table \<Rightarrow> store_error option \<times> db_table" where
  "upsertMemory sdb now nowString i r tab =
     (case composeMemoryRecord sdb now nowString r None None of
        Inl e \<Rightarrow> (Some (Not_composed e), tab)
      | Inr row \<Rightarrow>
          (if (case tab i of None \<Rightarrow> False | Some old \<Rightarrow> old ''processing_lineage'' \<noteq> None)
           then (Some (Refused P_lineage_present), tab)
           else (None, tab(i \<mapsto> row))))"

definition of_user :: "jstr \<Rightarrow> db_row \<Rightarrow> bool" where
  "of_user user row = (row ''payload.userId'' = Some (JStr user))"

datatype delete_mode = Soft_inactivate | Hard_delete

definition deleteMemoryById ::
  "jval \<Rightarrow> jstr \<Rightarrow> jstr \<Rightarrow> jstr \<Rightarrow> delete_mode \<Rightarrow> db_table \<Rightarrow> db_table" where
  "deleteMemoryById now nowString i user mode tab =
     (case tab i of
        None \<Rightarrow> tab
      | Some row \<Rightarrow>
          if \<not> of_user user row then tab
          else (case mode of
                  Hard_delete \<Rightarrow> tab(i := None)
                | Soft_inactivate \<Rightarrow>
                    tab(i \<mapsto> set_fields row
                      [(''active'', JBool False), (''inactive_at'', now), (''inactive_reason'', JStr ''forgotten''),
                       (''payload.active'', JBool False), (''payload.inactiveAt'', JStr nowString),
                       (''payload.inactiveReason'', JStr ''forgotten''), (''payload.updatedAt'', JStr nowString),
                       (''updated_at'', now)])))"

definition restoreMemoryById ::
  "jval \<Rightarrow> jstr \<Rightarrow> jstr \<Rightarrow> jstr \<Rightarrow> db_table \<Rightarrow> bool \<times> db_table" where
  "restoreMemoryById now nowString i user tab =
     (case tab i of
        None \<Rightarrow> (False, tab)
      | Some row \<Rightarrow>
          if of_user user row \<and> (row ''active'' = Some (JBool False) \<or> row ''active'' = None)
          then (True, tab(i \<mapsto> set_fields row
                  [(''active'', JBool True), (''inactive_at'', JUndef), (''inactive_reason'', JUndef),
                   (''payload.active'', JBool True), (''payload.inactiveAt'', JUndef),
                   (''payload.inactiveReason'', JUndef), (''payload.updatedAt'', JStr nowString),
                   (''updated_at'', now)]))
          else (False, tab))"

record merge_input =
  mi_id :: jstr
  mi_userId :: jstr
  mi_newText :: jstr
  mi_embedding :: "jnum list"
  mi_writeSource :: jstr
  mi_clearAtomicFact :: bool
  mi_memoryRole :: "jstr option"
  mi_validAt :: "jstr option"
  mi_continuitySubjectKey :: "jstr option"

text \<open>The assignments of a merge, generic or protected.\<close>

definition merge_fields :: "surreal \<Rightarrow> jval \<Rightarrow> jstr \<Rightarrow> merge_input \<Rightarrow> record_error + (jstr \<times> jval) list" where
  "merge_fields sdb now nowString m =
     map_sum id (\<lambda>validAt.
       [(''embedding'', json_numbers (mi_embedding m)), (''payload.l2'', JStr (mi_newText m)),
        (''payload.updatedAt'', JStr nowString), (''payload.writeSource'', JStr (mi_writeSource m)),
        (''payload.arbitrationOutcome'', JStr ''merge-update''), (''payload.active'', JBool True),
        (''payload.inactiveAt'', JUndef), (''payload.inactiveReason'', JUndef), (''payload.invalidAt'', JUndef),
        (''payload.memoryRole'', opt_str (mi_memoryRole m)), (''payload.validAt'', opt_str (mi_validAt m)),
        (''payload.continuitySubjectKey'', opt_str (mi_continuitySubjectKey m)),
        (''text_norm'', JStr (js_trim (js_lower (mi_newText m)))), (''active'', JBool True),
        (''inactive_at'', JUndef), (''inactive_reason'', JUndef), (''invalid_at'', JUndef),
        (''memory_role'', opt_str (mi_memoryRole m)), (''valid_at'', validAt), (''updated_at'', now)]
       @ (if mi_clearAtomicFact m then [(''payload.atomicFact'', JUndef)] else []))
     (as_datetime sdb (opt_str (mi_validAt m)))"

definition updateMemoryText ::
  "surreal \<Rightarrow> jval \<Rightarrow> jstr \<Rightarrow> merge_input \<Rightarrow> db_table \<Rightarrow> store_error option \<times> db_table" where
  "updateMemoryText sdb now nowString m tab =
     (if js_trim (mi_newText m) = [] then (Some (Not_composed Record_text_empty), tab)
      else case tab (mi_id m) of
             None \<Rightarrow> (Some (Refused P_lineage_invalid), tab)
           | Some row \<Rightarrow>
               if row ''processing_lineage'' \<noteq> None then (Some (Refused P_lineage_present), tab)
               else (case merge_fields sdb now nowString m of
                       Inl e \<Rightarrow> (Some (Not_composed e), tab)
                     | Inr fs \<Rightarrow> (None, tab(mi_id m \<mapsto> set_fields row fs))))"

section \<open>Protected create and merge\<close>

definition for_user :: "jstr \<Rightarrow> use_expectation" where
  "for_user user = \<lparr>ue_operation = None, ue_targetUserId = Some user\<rparr>"

text \<open>A use of the mint whose refusal is thrown.\<close>

definition under_mint ::
  "js_env \<Rightarrow> addr \<Rightarrow> jref \<Rightarrow> jstr \<Rightarrow> (lineage \<Rightarrow> jval \<Rightarrow> store_error + 'v) \<Rightarrow> producer_world
    \<Rightarrow> store_error + 'v" where
  "under_mint env authority minted user f w =
     (case fst (runWithMintedProcessingLineage env authority minted
                  (\<lambda>l context w. (f l (field (pw_heap w) context ''targetUserId''), w)) (for_user user) w) of
        Inl e \<Rightarrow> Inl e
      | Inr (Use_refused why) \<Rightarrow> Inl (Refused why)
      | Inr (Use_value _ _ v) \<Rightarrow> Inr v)"

definition table_after :: "db_table \<Rightarrow> store_error + db_table \<Rightarrow> store_error option \<times> db_table" where
  "table_after tab res = (case res of Inl e \<Rightarrow> (Some e, tab) | Inr tab' \<Rightarrow> (None, tab'))"

definition createMemoryWithProcessingLineage ::
  "js_env \<Rightarrow> surreal \<Rightarrow> jval \<Rightarrow> jstr \<Rightarrow> addr \<Rightarrow> jref \<Rightarrow> jstr \<Rightarrow> record_input
    \<Rightarrow> producer_world \<Rightarrow> db_table \<Rightarrow> store_error option \<times> db_table" where
  "createMemoryWithProcessingLineage env sdb now nowString authority minted i r w tab =
     table_after tab (under_mint env authority minted (ri_userId r)
       (\<lambda>l _. case composeMemoryRecord sdb now nowString r (Some l) None of
                Inl e \<Rightarrow> Inl (Not_composed e)
              | Inr row \<Rightarrow> if tab i \<noteq> None then Inl Already_exists else Inr (tab(i \<mapsto> row))) w)"

record merge_preflight =
  mp_expectedUserId :: jval
  mp_expectedLineage :: jval
  mp_mergedLineage :: lineage

definition refusalForStoredLineage :: "jval \<Rightarrow> lineage \<Rightarrow> store_error + lineage" where
  "refusalForStoredLineage stored incoming =
     (case conservativeJoin (classifyProcessingLineage stored) (Minni_verified incoming) of
        Inl _ \<Rightarrow> Inl Not_serialisable
      | Inr (Join_refused _) \<Rightarrow> Inl (Refused P_lineage_invalid)
      | Inr (Joined j) \<Rightarrow> Inr j)"

definition merge_read :: "merge_input \<Rightarrow> db_table \<Rightarrow> lineage \<Rightarrow> jval \<Rightarrow> store_error + merge_preflight" where
  "merge_read m tab incoming contextUser =
     (case tab (mi_id m) of
        None \<Rightarrow> Inl (Refused P_lineage_invalid)
      | Some row \<Rightarrow>
          if column row ''user_id'' \<noteq> contextUser \<or> column row ''user_id'' \<noteq> JStr (mi_userId m)
          then Inl (Refused P_lineage_invalid)
          else map_sum id (\<lambda>j. \<lparr>mp_expectedUserId = contextUser,
                               mp_expectedLineage = column row ''processing_lineage'', mp_mergedLineage = j\<rparr>)
                 (refusalForStoredLineage (column row ''processing_lineage'') incoming))"

text \<open>The transaction: one update of the row that still has the user and the lineage of the preflight.\<close>

definition merge_transaction ::
  "surreal \<Rightarrow> jval \<Rightarrow> jstr \<Rightarrow> merge_input \<Rightarrow> merge_preflight \<Rightarrow> db_table \<Rightarrow> store_error + db_table" where
  "merge_transaction sdb now nowString m p tab =
     (case tab (mi_id m) of
        None \<Rightarrow> Inl Merge_cas_failed
      | Some row \<Rightarrow>
          if column row ''user_id'' = mp_expectedUserId p
             \<and> column row ''processing_lineage'' = mp_expectedLineage p
          then (case merge_fields sdb now nowString m of
                  Inl e \<Rightarrow> Inl (Not_composed e)
                | Inr fs \<Rightarrow>
                    Inr (tab(mi_id m \<mapsto> set_fields row
                          ((''processing_lineage'', lineage_value (mp_mergedLineage p)) # fs))))
          else Inl Merge_cas_failed)"

definition mergeMemoryWithProcessingLineage ::
  "js_env \<Rightarrow> surreal \<Rightarrow> jval \<Rightarrow> jstr \<Rightarrow> addr \<Rightarrow> jref \<Rightarrow> merge_input
    \<Rightarrow> producer_world \<Rightarrow> db_table \<Rightarrow> producer_world \<Rightarrow> db_table \<Rightarrow> store_error option \<times> db_table" where
  "mergeMemoryWithProcessingLineage env sdb now nowString authority minted m w1 tab1 w2 tab2 =
     table_after tab2
       (case under_mint env authority minted (mi_userId m) (merge_read m tab1) w1 of
          Inl e \<Rightarrow> Inl e
        | Inr p \<Rightarrow>
            (if js_trim (mi_newText m) = [] then Inl (Not_composed Record_text_empty)
             else under_mint env authority minted (mi_userId m)
                    (\<lambda>_ _. merge_transaction sdb now nowString m p tab2) w2))"

section \<open>Protected supersede\<close>

record protected_supersede =
  ps_previousId :: jstr
  ps_replacement :: supersede_replacement
  ps_provenance :: jstr
  ps_inactiveReason :: "jstr option"
  ps_staleFlags :: "(jstr \<times> jstr) option"

fun classifyAndJoinSupersedeLineage :: "lineage \<Rightarrow> jval list \<Rightarrow> store_error + lineage" where
  "classifyAndJoinSupersedeLineage joined [] = Inr joined"
| "classifyAndJoinSupersedeLineage joined (stored # rest) =
     (case conservativeJoin (Minni_verified joined) (classifyProcessingLineage stored) of
        Inl _ \<Rightarrow> Inl Not_serialisable
      | Inr (Join_refused _) \<Rightarrow> Inl (Refused P_lineage_invalid)
      | Inr (Joined j) \<Rightarrow> classifyAndJoinSupersedeLineage j rest)"

text \<open>The metadata a snapshot selects, and the \<open>WHERE\<close> clause that a row still has them.\<close>

definition snapshot_fields :: "jstr list" where
  "snapshot_fields =
     [''user_id'', ''payload.userId'', ''processing_lineage'', ''active'', ''supersedes'', ''superseded_by'',
      ''lineage_root_id'', ''inactive_at'', ''inactive_reason'', ''supersede_provenance'', ''updated_at'',
      ''payload.active'', ''payload.inactiveAt'', ''payload.inactiveReason'', ''payload.supersededById'',
      ''payload.supersedesId'', ''payload.lineageRootId'', ''payload.supersede_provenance'',
      ''payload.updatedAt'', ''payload.writeSource'', ''payload.arbitrationOutcome'', ''payload.isStale'',
      ''payload.staleSince'', ''payload.contradictedBy'']"

definition readSupersedeMetadata :: "db_table \<Rightarrow> jstr \<Rightarrow> db_row option" where
  "readSupersedeMetadata tab i = map_option (\<lambda>row f. if f \<in> set snapshot_fields then row f else None) (tab i)"

definition sameSupersedeBranchWhere :: "db_row \<Rightarrow> db_row \<Rightarrow> bool" where
  "sameSupersedeBranchWhere snapshot row = list_all (\<lambda>f. row f = snapshot f) snapshot_fields"

record supersede_preflight =
  sp_previous :: db_row
  sp_replacement :: "db_row option"
  sp_mergedLineage :: lineage
  sp_lineageRootId :: jstr

text \<open>The reads of the preflight: the walk of the cycle guard, then the two rows.\<close>

definition supersede_read ::
  "(nat \<Rightarrow> jstr \<Rightarrow> supersedes_reply) \<Rightarrow> db_table \<Rightarrow> db_table \<Rightarrow> protected_supersede \<Rightarrow> lineage \<Rightarrow> jval
    \<Rightarrow> store_error + supersede_preflight" where
  "supersede_read walk tab1 tab2 c incoming contextUser =
     (let r = ps_replacement c
      in if JStr (rp_userId r) \<noteq> contextUser then Inl (Refused P_target_user_mismatch)
         else if wr_cycle (wouldCreateCycle walk (rp_id r) (ps_previousId c)) then Inl (Refused P_lineage_invalid)
         else (case readSupersedeMetadata tab1 (ps_previousId c) of
                 None \<Rightarrow> Inl (Refused P_lineage_invalid)
               | Some previous \<Rightarrow>
                   if column previous ''user_id'' \<noteq> contextUser \<or> column previous ''active'' \<noteq> JBool True
                   then Inl (Refused P_lineage_invalid)
                   else (let replacement = readSupersedeMetadata tab2 (rp_id r)
                         in if (case replacement of
                                  None \<Rightarrow> False
                                | Some row \<Rightarrow> column row ''user_id'' \<noteq> contextUser)
                            then Inl (Refused P_lineage_invalid)
                            else map_sum id (\<lambda>j.
                                   \<lparr>sp_previous = previous, sp_replacement = replacement, sp_mergedLineage = j,
                                    sp_lineageRootId = (case column previous ''lineage_root_id'' of
                                                          JStr s \<Rightarrow> s | _ \<Rightarrow> ps_previousId c)\<rparr>)
                                 (classifyAndJoinSupersedeLineage incoming
                                   (column previous ''processing_lineage''
                                    # (case replacement of
                                         None \<Rightarrow> []
                                       | Some row \<Rightarrow> [column row ''processing_lineage'']))))))"

definition protected_replacement_fields ::
  "jval \<Rightarrow> jstr \<Rightarrow> protected_supersede \<Rightarrow> supersede_preflight \<Rightarrow> (jstr \<times> jval) list" where
  "protected_replacement_fields now nowString c p =
     (let prev = JStr (ps_previousId c); root = JStr (sp_lineageRootId p); provenance = JStr (ps_provenance c)
      in [(''processing_lineage'', lineage_value (sp_mergedLineage p)), (''supersedes'', prev),
          (''lineage_root_id'', root), (''supersede_provenance'', provenance), (''updated_at'', now),
          (''payload.supersedesId'', prev), (''payload.lineageRootId'', root),
          (''payload.updatedAt'', JStr nowString),
          (''payload.writeSource'', JStr (rp_writeSource (ps_replacement c))),
          (''payload.arbitrationOutcome'', JStr ''supersede''),
          (''payload.supersede_provenance'', provenance)])"

definition protected_previous_fields ::
  "jval \<Rightarrow> jstr \<Rightarrow> protected_supersede \<Rightarrow> supersede_preflight \<Rightarrow> (jstr \<times> jval) list" where
  "protected_previous_fields now nowString c p =
     (let new = JStr (rp_id (ps_replacement c)); root = JStr (sp_lineageRootId p);
          provenance = JStr (ps_provenance c);
          reason = JStr (case ps_inactiveReason c of None \<Rightarrow> ''superseded'' | Some s \<Rightarrow> s)
      in [(''processing_lineage'', lineage_value (sp_mergedLineage p)), (''active'', JBool False),
          (''inactive_at'', now), (''inactive_reason'', reason), (''superseded_by'', new),
          (''lineage_root_id'', root), (''supersede_provenance'', provenance),
          (''payload.active'', JBool False), (''payload.inactiveAt'', JStr nowString),
          (''payload.inactiveReason'', reason), (''payload.supersededById'', new),
          (''payload.lineageRootId'', root), (''payload.supersede_provenance'', provenance),
          (''payload.updatedAt'', JStr nowString), (''updated_at'', now)]
         @ (case ps_staleFlags c of
              None \<Rightarrow> []
            | Some (since, by_id) \<Rightarrow>
                [(''payload.isStale'', JBool True), (''payload.staleSince'', JStr since),
                 (''payload.contradictedBy'', JStr by_id)]))"

text \<open>The input of the composer for a new protected replacement row.\<close>

definition protected_input :: "protected_supersede \<Rightarrow> supersede_preflight \<Rightarrow> record_input" where
  "protected_input c p =
     (let r = ps_replacement c
      in \<lparr>ri_text = replacement_text r, ri_userId = rp_userId r, ri_embedding = rp_embedding r,
          ri_metadata = rp_metadata r
            @ [(''writeSource'', JStr (rp_writeSource r)), (''arbitrationOutcome'', JStr ''supersede''),
               (''supersede_provenance'', JStr (ps_provenance c))],
          ri_scope = rp_scope r, ri_sessionId = rp_sessionId r,
          ri_lifecycle = default_active_lifecycle\<lparr>lc_supersedesId := Some (ps_previousId c),
                                                  lc_lineageRootId := Some (sp_lineageRootId p)\<rparr>\<rparr>)"

text \<open>A new row is created and then given the provenance; an existing one is compared and updated.\<close>

definition protected_replacement ::
  "surreal \<Rightarrow> jval \<Rightarrow> jstr \<Rightarrow> protected_supersede \<Rightarrow> supersede_preflight \<Rightarrow> db_table
    \<Rightarrow> store_error + db_row" where
  "protected_replacement sdb now nowString c p tab =
     (let new = rp_id (ps_replacement c)
      in case sp_replacement p of
           Some snapshot \<Rightarrow>
             (case tab new of
                None \<Rightarrow> Inl Supersede_replacement_cas_failed
              | Some row \<Rightarrow>
                  if sameSupersedeBranchWhere snapshot row
                  then Inr (set_fields row (protected_replacement_fields now nowString c p))
                  else Inl Supersede_replacement_cas_failed)
         | None \<Rightarrow>
             (case composeMemoryRecord sdb now nowString (protected_input c p) (Some (sp_mergedLineage p)) None of
                Inl e \<Rightarrow> Inl (Not_composed e)
              | Inr row \<Rightarrow>
                  if tab new \<noteq> None then Inl Already_exists
                  else Inr (set_fields row [(''supersede_provenance'', JStr (ps_provenance c))])))"

definition supersede_transaction ::
  "surreal \<Rightarrow> jval \<Rightarrow> jstr \<Rightarrow> protected_supersede \<Rightarrow> supersede_preflight \<Rightarrow> db_table
    \<Rightarrow> store_error + db_table" where
  "supersede_transaction sdb now nowString c p tab =
     (case protected_replacement sdb now nowString c p tab of
        Inl e \<Rightarrow> Inl e
      | Inr new_row \<Rightarrow>
          (let tab' = tab(rp_id (ps_replacement c) \<mapsto> new_row)
           in case tab' (ps_previousId c) of
                None \<Rightarrow> Inl Supersede_previous_cas_failed
              | Some row \<Rightarrow>
                  if sameSupersedeBranchWhere (sp_previous p) row
                  then Inr (tab'(ps_previousId c \<mapsto> set_fields row (protected_previous_fields now nowString c p)))
                  else Inl Supersede_previous_cas_failed))"

definition supersedeMemoryWithProcessingLineage ::
  "js_env \<Rightarrow> surreal \<Rightarrow> jval \<Rightarrow> jstr \<Rightarrow> addr \<Rightarrow> jref \<Rightarrow> (nat \<Rightarrow> jstr \<Rightarrow> supersedes_reply)
    \<Rightarrow> protected_supersede \<Rightarrow> producer_world \<Rightarrow> db_table \<Rightarrow> db_table \<Rightarrow> producer_world \<Rightarrow> db_table
    \<Rightarrow> store_error option \<times> db_table" where
  "supersedeMemoryWithProcessingLineage env sdb now nowString authority minted walk c w1 tab1 tab2 w3 tab3 =
     (let r = ps_replacement c
      in table_after tab3
        (if rp_id r = ps_previousId c then Inl (Refused P_lineage_invalid)
         else if rp_scope r = ''global'' then Inl (Refused P_lineage_invalid)
         else if js_trim (replacement_text r) = [] then Inl (Not_composed Record_text_empty)
         else (case under_mint env authority minted (rp_userId r) (supersede_read walk tab1 tab2 c) w1 of
                 Inl e \<Rightarrow> Inl e
               | Inr p \<Rightarrow>
                   under_mint env authority minted (rp_userId r)
                     (\<lambda>_ _. supersede_transaction sdb now nowString c p tab3) w3)))"

end
