(* ===== verification/Supersede_Laws.thy ===== *)
theory Supersede_Laws
  imports Supersede_Store
begin

text \<open>
  Laws of the generic supersede: what a committed transaction has compared and written, the pointers
  it leaves, the acyclic supersession graph, and the skew that remains between two prepared plans.
\<close>

section \<open>Field assignments\<close>

lemma previous_fields_keys:
  "f \<in> fst ` set (previous_fields now nowString p) \<Longrightarrow> f \<noteq> ''supersedes'' \<and> f \<noteq> ''payload.userId''"
  by (auto simp: previous_fields_def Let_def split: option.splits)

lemma previous_fields_value:
  "map_of (rev (previous_fields now nowString p)) ''active'' = Some (JBool False)"
  "map_of (rev (previous_fields now nowString p)) ''superseded_by'' = Some (JStr (rp_id (sc_replacement (pl_call p))))"
  by (simp_all add: previous_fields_def Let_def split: option.splits prod.splits)

lemma replacement_fields_value:
  "map_of (rev (replacement_fields now nowString p)) ''supersedes'' = Some (JStr (pv_id (sc_previous (pl_call p))))"
  "map_of (rev (replacement_fields now nowString p)) ''payload.userId'' = None"
  by (simp_all add: replacement_fields_def Let_def)

section \<open>What a commit does\<close>

text \<open>The row a commit leaves for the replacement.\<close>

definition replacement_after ::
  "surreal \<Rightarrow> jval \<Rightarrow> jstr \<Rightarrow> supersede_plan \<Rightarrow> db_table \<Rightarrow> db_row \<Rightarrow> bool" where
  "replacement_after sdb now nowString p tab row =
     (case pl_replacement_witness p of
        Some w \<Rightarrow>
          (case tab (rp_id (sc_replacement (pl_call p))) of
             None \<Rightarrow> False
           | Some old \<Rightarrow>
               sameGenericSupersedeBranchWhere sdb w old
               \<and> row = set_fields old (replacement_fields now nowString p))
      | None \<Rightarrow>
          tab (rp_id (sc_replacement (pl_call p))) = None \<and> created_row sdb now nowString p = Inr row)"

lemma commit_error: "fst (commit_supersede sdb now nowString p tab) = Some e \<Longrightarrow>
    snd (commit_supersede sdb now nowString p tab) = tab"
  by (auto simp: commit_supersede_def Let_def split: if_splits option.splits sum.splits)

lemma map_sum_Inr: "map_sum f g x = Inr y \<longleftrightarrow> (\<exists>z. x = Inr z \<and> y = g z)"
  by (cases x) auto

lemma replacement_mutation_ok:
  "replacement_mutation sdb now nowString p tab = Inr tab' \<longleftrightarrow>
    (\<exists>row. replacement_after sdb now nowString p tab row \<and> tab' = tab(rp_id (sc_replacement (pl_call p)) \<mapsto> row))"
  by (auto simp: replacement_mutation_def replacement_after_def Let_def map_sum_Inr split: option.splits)

lemma previous_mutation_ok:
  "previous_mutation sdb now nowString p tab = Inr tab' \<longleftrightarrow>
    (\<exists>row. tab (pv_id (sc_previous (pl_call p))) = Some row
       \<and> sameGenericSupersedeBranchWhere sdb (pl_previous_witness p) row
       \<and> tab' = tab(pv_id (sc_previous (pl_call p)) \<mapsto> set_fields row (previous_fields now nowString p)))"
  by (auto simp: previous_mutation_def Let_def split: option.splits)

lemma commit_ok:
  assumes "commit_supersede sdb now nowString p tab = (None, tab')"
  obtains prev new where
    "pv_id (sc_previous (pl_call p)) \<noteq> rp_id (sc_replacement (pl_call p))"
    "tab (pv_id (sc_previous (pl_call p))) = Some prev"
    "sameGenericSupersedeBranchWhere sdb (pl_previous_witness p) prev"
    "replacement_after sdb now nowString p tab new"
    "tab' = tab(rp_id (sc_replacement (pl_call p)) \<mapsto> new,
       pv_id (sc_previous (pl_call p)) \<mapsto> set_fields prev (previous_fields now nowString p))"
proof -
  from assms obtain mid where ne: "pv_id (sc_previous (pl_call p)) \<noteq> rp_id (sc_replacement (pl_call p))"
    and mid: "replacement_mutation sdb now nowString p tab = Inr mid"
    and fin: "previous_mutation sdb now nowString p mid = Inr tab'"
    by (auto simp: commit_supersede_def Let_def split: if_splits option.splits sum.splits)
  from mid obtain new where new: "replacement_after sdb now nowString p tab new"
    "mid = tab(rp_id (sc_replacement (pl_call p)) \<mapsto> new)"
    by (auto simp: replacement_mutation_ok)
  from fin obtain prev where "mid (pv_id (sc_previous (pl_call p))) = Some prev"
    "sameGenericSupersedeBranchWhere sdb (pl_previous_witness p) prev"
    "tab' = mid(pv_id (sc_previous (pl_call p)) \<mapsto> set_fields prev (previous_fields now nowString p))"
    by (auto simp: previous_mutation_ok)
  with that [OF ne _ _ new(1)] new(2) ne show thesis by simp
qed

section \<open>Pointers\<close>

definition casts_strings :: "surreal \<Rightarrow> bool" where
  "casts_strings sdb = (\<forall>s. sdb_cast sdb (Some (JStr s)) = JStr s)"

lemma created_composed:
  "created_row sdb now nowString p = Inr row \<longleftrightarrow>
    composeMemoryRecord sdb now nowString (created_input p) None (Some (sc_provenance (pl_call p))) = Inr row"
  by (auto simp: created_row_def map_sum_Inr)

lemma created_input_simps [simp]:
  "ri_userId (created_input p) = rp_userId (sc_replacement (pl_call p))"
  "lc_supersedesId (ri_lifecycle (created_input p)) = Some (pv_id (sc_previous (pl_call p)))"
  "lc_active (ri_lifecycle (created_input p)) = True"
  "''userId'' \<in> fst ` set (ri_metadata (created_input p))
    \<longleftrightarrow> ''userId'' \<in> fst ` set (rp_metadata (sc_replacement (pl_call p)))"
  by (auto simp: created_input_def Let_def default_active_lifecycle_def)

lemma created_supersedes:
  "created_row sdb now nowString p = Inr row \<Longrightarrow> row ''supersedes'' = Some (JStr (pv_id (sc_previous (pl_call p))))"
  using composed_top(3) [of sdb now nowString "created_input p"] by (simp add: created_composed)

lemma created_pointer:
  assumes "created_row sdb now nowString p = Inr row"
    and "''userId'' \<notin> fst ` set (rp_metadata (sc_replacement (pl_call p)))"
  shows "row ''supersedes'' = Some (JStr (pv_id (sc_previous (pl_call p))))"
    and "row ''payload.userId'' = Some (JStr (rp_userId (sc_replacement (pl_call p))))"
  using created_supersedes [OF assms(1)] assms composed_user [of sdb now nowString "created_input p" None]
  by (simp_all add: created_composed)

lemma same_branch_user:
  assumes "sameGenericSupersedeBranchWhere sdb (m, d) row" "casts_strings sdb"
    and "row ''payload.userId'' = Some (JStr u)"
  shows "u = sm_payload_user_id m"
  using assms by (simp add: sameGenericSupersedeBranchWhere_def genericSupersedeBranchWhere_def casts_strings_def)

text \<open>The pointer of the replacement after a commit, when its witness belongs to the user.\<close>

definition plan_of_user :: "supersede_plan \<Rightarrow> jstr \<Rightarrow> bool" where
  "plan_of_user p user =
     (rp_userId (sc_replacement (pl_call p)) = user
      \<and> sm_payload_user_id (fst (pl_previous_witness p)) = user
      \<and> (\<forall>w. pl_replacement_witness p = Some w \<longrightarrow> sm_payload_user_id (fst w) = user))"

lemma replacement_pointer:
  assumes "replacement_after sdb now nowString p tab row" "plan_of_user p user" "casts_strings sdb"
    and "''userId'' \<notin> fst ` set (rp_metadata (sc_replacement (pl_call p)))"
    and "row ''payload.userId'' = Some (JStr u)"
  shows "u = user" and "row ''supersedes'' = Some (JStr (pv_id (sc_previous (pl_call p))))"
proof -
  show "row ''supersedes'' = Some (JStr (pv_id (sc_previous (pl_call p))))"
    using assms(1) created_pointer(1) [OF _ assms(4)] replacement_fields_value
    by (auto simp: replacement_after_def set_fields_value split: option.splits)
  show "u = user"
  proof (cases "pl_replacement_witness p")
    case None
    with assms(1,2,4,5) created_pointer(2) [of sdb now nowString p row] show ?thesis
      by (simp add: replacement_after_def plan_of_user_def)
  next
    case (Some w)
    with assms(1) obtain old where old: "sameGenericSupersedeBranchWhere sdb w old"
      "row = set_fields old (replacement_fields now nowString p)"
      by (auto simp: replacement_after_def split: option.splits)
    then have "old ''payload.userId'' = Some (JStr u)"
      using assms(5) replacement_fields_value(2) [of now nowString p] by (simp add: set_fields_value)
    then show ?thesis
      using same_branch_user [of sdb "fst w" "snd w" old u] old(1) Some assms(2,3) by (simp add: plan_of_user_def)
  qed
qed

text \<open>A commit adds at most the edge from the replacement to the previous record, for the user alone.\<close>

lemma commit_edges:
  assumes "commit_supersede sdb now nowString p tab = (None, tab')" "plan_of_user p user" "casts_strings sdb"
    and "''userId'' \<notin> fst ` set (rp_metadata (sc_replacement (pl_call p)))"
  shows "supersede_edges (pointers tab') v \<subseteq>
    (if v = user
     then insert (rp_id (sc_replacement (pl_call p)), pv_id (sc_previous (pl_call p))) (supersede_edges (pointers tab) v)
     else supersede_edges (pointers tab) v)"
proof -
  let ?new = "rp_id (sc_replacement (pl_call p))" and ?prev = "pv_id (sc_previous (pl_call p))"
  from assms(1) obtain prev new where ne: "?prev \<noteq> ?new" and prev: "tab ?prev = Some prev"
    and new: "replacement_after sdb now nowString p tab new"
    and tab': "tab' = tab(?new \<mapsto> new, ?prev \<mapsto> set_fields prev (previous_fields now nowString p))"
    by (rule commit_ok)
  have keep: "set_fields prev (previous_fields now nowString p) f = prev f"
    if "f = ''supersedes'' \<or> f = ''payload.userId''" for f
    using that previous_fields_keys [of f now nowString p] by (intro set_fields_untouched) blast
  have "pointers tab' i = pointers tab i" if "i \<noteq> ?new" for i
    using that keep [of "''supersedes''"] keep [of "''payload.userId''"] prev
    by (simp add: pointers_def tab' cong: option.case_cong jval.case_cong)
  then have other: "successor (pointers tab') v i = successor (pointers tab) v i" if "i \<noteq> ?new" for i
    using that by (simp add: successor_def)
  have "v = user \<and> b = ?prev" if b: "successor (pointers tab') v ?new = Some b" for b
  proof -
    from b obtain u s where u: "new ''payload.userId'' = Some (JStr u)" "u = v"
      and s: "new ''supersedes'' = Some (JStr s)" "s = b"
      using ne by (auto simp: successor_def pointers_def tab' split: option.splits jval.splits if_splits)
    with replacement_pointer [OF new assms(2-4) u(1)] show ?thesis by simp
  qed
  then have "(a, b) \<in> supersede_edges (pointers tab') v \<Longrightarrow>
    (a, b) \<in> supersede_edges (pointers tab) v \<or> v = user \<and> (a, b) = (?new, ?prev)" for a b
    using other [of a] by (cases "a = ?new") (auto simp: supersede_edges_def)
  then show ?thesis by auto
qed

section \<open>A sequential supersede keeps the graph acyclic\<close>

lemma guard_decides:
  "wr_cycle (wouldCreateCycle (table_db tab user) new target)
    \<longleftrightarrow> (\<exists>j<corruption_ceiling. hops tab user j target = Some new)
      \<or> hops tab user (corruption_ceiling - 1) target \<noteq> None"
  unfolding wouldCreateCycle_def by (rule walk_decides) (simp_all add: corruption_ceiling_def)

lemma guard_unreachable:
  assumes "\<not> wr_cycle (wouldCreateCycle (table_db tab user) new target)"
  shows "(target, new) \<notin> (supersede_edges tab user)\<^sup>*"
proof
  assume "(target, new) \<in> (supersede_edges tab user)\<^sup>*"
  then obtain n where n: "hops tab user n target = Some new" using reach_hops by blast
  with hops_down [of tab user n target "corruption_ceiling - 1"] assms show False
    by (cases "n < corruption_ceiling") (auto simp: guard_decides)
qed

lemma metadata_user: "validateGenericSupersedeMetadata sdb row = Inr m \<Longrightarrow>
    sdb_cast sdb (row ''payload.userId'') = JStr (sm_payload_user_id m)"
  by (auto simp: validateGenericSupersedeMetadata_def split: jval.splits sum.splits)

lemma witness_metadata: "readGenericSupersedeWitness sdb tab i m = Inr w \<Longrightarrow> fst w = m"
  by (auto simp: readGenericSupersedeWitness_def split: option.splits if_splits)

lemma prepare_ok:
  assumes "prepareSupersedeMemory sdb tab1 tab2 walk c = Inr p"
  shows "pl_call p = c" "plan_of_user p (rp_userId (sc_replacement c))"
    "\<not> wr_cycle (wouldCreateCycle walk (rp_id (sc_replacement c)) (pv_id (sc_previous c)))"
proof -
  from assms obtain ms w w' where e: "eligible_rows sdb tab1 c = Inr ms" "witnessed_rows sdb tab2 c ms = Inr (w, w')"
    and p: "pl_call p = c" "pl_previous_witness p = w" "pl_replacement_witness p = w'"
    and walk: "\<not> wr_cycle (wouldCreateCycle walk (rp_id (sc_replacement c)) (pv_id (sc_previous c)))"
    by (auto simp: prepareSupersedeMemory_def split: option.splits sum.splits if_splits)
  from e(2) have ms: "fst w = fst ms" "\<forall>v. w' = Some v \<longrightarrow> snd ms = Some (fst v)"
    by (auto simp: witnessed_rows_def split: prod.splits sum.splits option.splits dest: witness_metadata)
  moreover from e(1) have "sm_payload_user_id (fst ms) = rp_userId (sc_replacement c)"
    "\<forall>m. snd ms = Some m \<longrightarrow> sm_payload_user_id m = rp_userId (sc_replacement c)"
    by (auto simp: eligible_rows_def Let_def split: sum.splits option.splits if_splits)
  ultimately show "plan_of_user p (rp_userId (sc_replacement c))"
    by (simp add: plan_of_user_def p)
  show "pl_call p = c" "\<not> wr_cycle (wouldCreateCycle walk (rp_id (sc_replacement c)) (pv_id (sc_previous c)))"
    by (fact p(1), fact walk)
qed

lemma supersede_edges_step:
  assumes "casts_strings sdb" "''userId'' \<notin> fst ` set (rp_metadata (sc_replacement c))"
    and "acyclic (supersede_edges (pointers tab) v)"
  shows "acyclic (supersede_edges (pointers (snd (supersedeMemory sdb now nowString c tab))) v)"
proof (cases "prepareSupersedeMemory sdb tab tab (table_db (pointers tab) (rp_userId (sc_replacement c))) c")
  case (Inr p)
  let ?user = "rp_userId (sc_replacement c)"
  obtain r tab' where com: "commit_supersede sdb now nowString p tab = (r, tab')" by fastforce
  have step: "supersedeMemory sdb now nowString c tab = (r, tab')" by (simp add: supersedeMemory_def Inr com)
  show ?thesis
  proof (cases r)
    case (Some e)
    with commit_error [of sdb now nowString p tab e] com assms(3) show ?thesis by (simp add: step)
  next
    case None
    note prep = prepare_ok [OF Inr]
    have "(pv_id (sc_previous c), rp_id (sc_replacement c)) \<notin> (supersede_edges (pointers tab) ?user)\<^sup>*"
      using prep(3) by (rule guard_unreachable)
    moreover have "supersede_edges (pointers tab') v \<subseteq>
      (if v = ?user then insert (rp_id (sc_replacement c), pv_id (sc_previous c)) (supersede_edges (pointers tab) v)
       else supersede_edges (pointers tab) v)"
      using commit_edges [OF com [unfolded None] prep(2) assms(1)] assms(2) unfolding prep(1) by blast
    ultimately show ?thesis
      using assms(3) by (auto simp: step acyclic_insert intro: acyclic_subset split: if_splits)
  qed
qed (use assms(3) in \<open>simp add: supersedeMemory_def\<close>)

section \<open>Sequences of calls\<close>

type_synonym timed_call = "jval \<times> jstr \<times> supersede_call"

definition supersede_all :: "surreal \<Rightarrow> timed_call list \<Rightarrow> db_table \<Rightarrow> db_table" where
  "supersede_all sdb calls tab =
     foldl (\<lambda>tab (now, nowString, c). snd (supersedeMemory sdb now nowString c tab)) tab calls"

lemma supersede_all_acyclic:
  assumes "casts_strings sdb" and "acyclic (supersede_edges (pointers tab) v)"
    and "list_all (\<lambda>(now, nowString, c). ''userId'' \<notin> fst ` set (rp_metadata (sc_replacement c))) calls"
  shows "acyclic (supersede_edges (pointers (supersede_all sdb calls tab)) v)"
  using assms(2,3)
proof (induction calls arbitrary: tab)
  case (Cons k calls)
  obtain now nowString c where k: "k = (now, nowString, c)" by (cases k)
  from Cons.prems have "acyclic (supersede_edges (pointers (snd (supersedeMemory sdb now nowString c tab))) v)"
    by (intro supersede_edges_step [OF assms(1)]) (auto simp: k)
  from Cons.IH [OF this] Cons.prems(2) show ?case by (simp add: supersede_all_def k)
qed (simp add: supersede_all_def)

section \<open>The witness of a plan\<close>

lemma prepare_witnesses:
  assumes "prepareSupersedeMemory sdb tab1 tab2 walk c = Inr p"
  shows "\<exists>row. tab2 (pv_id (sc_previous c)) = Some row \<and> sdb_digest sdb row = snd (pl_previous_witness p)"
    and "pl_replacement_witness p = Some w \<Longrightarrow>
      \<exists>row. tab2 (rp_id (sc_replacement c)) = Some row \<and> sdb_digest sdb row = snd w"
    and "pl_replacement_witness p = None \<longleftrightarrow> tab1 (rp_id (sc_replacement c)) = None"
proof -
  from assms obtain ms v v' where e: "eligible_rows sdb tab1 c = Inr ms" "witnessed_rows sdb tab2 c ms = Inr (v, v')"
    and p: "pl_previous_witness p = v" "pl_replacement_witness p = v'"
    by (auto simp: prepareSupersedeMemory_def split: option.splits sum.splits if_splits)
  have reads: "\<exists>row. tab2 i = Some row \<and> sdb_digest sdb row = snd x"
    if "readGenericSupersedeWitness sdb tab2 i m = Inr x" for i m x
    using that by (auto simp: readGenericSupersedeWitness_def split: option.splits if_splits)
  from e(2) show "\<exists>row. tab2 (pv_id (sc_previous c)) = Some row \<and> sdb_digest sdb row = snd (pl_previous_witness p)"
    by (auto simp: witnessed_rows_def p split: prod.splits sum.splits option.splits dest: reads)
  from e(2) show "pl_replacement_witness p = Some w \<Longrightarrow>
      \<exists>row. tab2 (rp_id (sc_replacement c)) = Some row \<and> sdb_digest sdb row = snd w"
    by (auto simp: witnessed_rows_def p split: prod.splits sum.splits option.splits dest: reads)
  have "snd ms = None \<longleftrightarrow> tab1 (rp_id (sc_replacement c)) = None"
    using e(1) by (auto simp: eligible_rows_def readGenericSupersedeMetadata_def Let_def map_sum_Inr
        split: sum.splits option.splits if_splits)
  moreover have "v' = None \<longleftrightarrow> snd ms = None"
    using e(2) by (auto simp: witnessed_rows_def split: prod.splits sum.splits option.splits)
  ultimately show "pl_replacement_witness p = None \<longleftrightarrow> tab1 (rp_id (sc_replacement c)) = None"
    by (simp add: p)
qed

text \<open>The rows of two tables have no two members with one digest.\<close>

definition digests_apart :: "surreal \<Rightarrow> db_table \<Rightarrow> db_table \<Rightarrow> bool" where
  "digests_apart sdb tab tab2 =
     inj_on (sdb_digest sdb) {row. \<exists>i. tab i = Some row \<or> tab2 i = Some row}"

lemma digest_same:
  assumes "digests_apart sdb tab tab2" "tab i = Some r" "tab2 j = Some r'" "sdb_digest sdb r = sdb_digest sdb r'"
  shows "r = r'"
  using assms by (auto simp: digests_apart_def inj_on_def)

lemma committed_rows_unchanged:
  assumes "prepareSupersedeMemory sdb tab1 tab2 walk c = Inr p"
    and "commit_supersede sdb now nowString p tab = (None, tab')" and "digests_apart sdb tab tab2"
  shows "tab (pv_id (sc_previous c)) = tab2 (pv_id (sc_previous c))"
    and "tab1 (rp_id (sc_replacement c)) \<noteq> None \<Longrightarrow> tab (rp_id (sc_replacement c)) = tab2 (rp_id (sc_replacement c))"
    and "tab1 (rp_id (sc_replacement c)) = None \<Longrightarrow> tab (rp_id (sc_replacement c)) = None"
proof -
  note call = prepare_ok(1) [OF assms(1)] and wit = prepare_witnesses [OF assms(1)]
  from assms(2) obtain prev new where rows: "tab (pv_id (sc_previous c)) = Some prev"
      "sameGenericSupersedeBranchWhere sdb (pl_previous_witness p) prev"
    and new: "replacement_after sdb now nowString p tab new"
    by (rule commit_ok) (simp add: call)
  have apart: "r = r'" if "tab i = Some r" "sameGenericSupersedeBranchWhere sdb w r" "tab2 i = Some r'"
    "sdb_digest sdb r' = snd w" for i r r' w
    using that digest_same [OF assms(3) that(1,3)] by (cases w) (simp add: sameGenericSupersedeBranchWhere_def)
  from wit(1) rows apart show "tab (pv_id (sc_previous c)) = tab2 (pv_id (sc_previous c))" by metis
  show "tab (rp_id (sc_replacement c)) = None" if "tab1 (rp_id (sc_replacement c)) = None"
    using new wit(3) that by (auto simp: replacement_after_def call split: option.splits)
  show "tab (rp_id (sc_replacement c)) = tab2 (rp_id (sc_replacement c))" if "tab1 (rp_id (sc_replacement c)) \<noteq> None"
  proof -
    from that wit(3) obtain w where w: "pl_replacement_witness p = Some w"
      by (cases "pl_replacement_witness p") auto
    with new obtain old where "tab (rp_id (sc_replacement c)) = Some old" "sameGenericSupersedeBranchWhere sdb w old"
      by (auto simp: replacement_after_def call split: option.splits)
    with wit(2) [OF w] apart show ?thesis by metis
  qed
qed

lemma replacement_supersedes:
  assumes "replacement_after sdb now nowString p tab row"
  shows "row ''supersedes'' = Some (JStr (pv_id (sc_previous (pl_call p))))"
  using assms created_supersedes [of sdb now nowString p row] replacement_fields_value(1) [of now nowString p]
  by (auto simp: replacement_after_def set_fields_value split: option.splits)

lemma commit_result:
  assumes "commit_supersede sdb now nowString p tab = (None, tab')" "pl_call p = c"
  shows "(\<forall>i. i \<noteq> pv_id (sc_previous c) \<and> i \<noteq> rp_id (sc_replacement c) \<longrightarrow> tab' i = tab i)
    \<and> (\<exists>old new. tab' (pv_id (sc_previous c)) = Some old \<and> tab' (rp_id (sc_replacement c)) = Some new
         \<and> old ''active'' = Some (JBool False) \<and> old ''superseded_by'' = Some (JStr (rp_id (sc_replacement c)))
         \<and> new ''supersedes'' = Some (JStr (pv_id (sc_previous c))))"
proof -
  from assms(1) obtain prev new where ne: "pv_id (sc_previous c) \<noteq> rp_id (sc_replacement c)"
    and new: "replacement_after sdb now nowString p tab new"
    and tab': "tab' = tab(rp_id (sc_replacement c) \<mapsto> new,
      pv_id (sc_previous c) \<mapsto> set_fields prev (previous_fields now nowString p))"
    by (rule commit_ok) (simp add: assms(2))
  with replacement_supersedes [OF new] show ?thesis
    by (simp add: assms(2) set_fields_value previous_fields_value)
qed

section \<open>A sample database\<close>

definition sample_sdb :: surreal where
  "sample_sdb = \<lparr>sdb_cast = (\<lambda>v. case v of None \<Rightarrow> JUndef | Some x \<Rightarrow> x),
     sdb_digest = (\<lambda>row. replicate 63 (CHR ''0'') @ (if row ''supersedes'' = None then ''0'' else ''1'')),
     sdb_datetime = (\<lambda>s. Some (JStr s))\<rparr>"

definition sample_row :: "(jstr \<times> jval) list \<Rightarrow> db_row" where
  "sample_row fs = set_fields (\<lambda>_. None)
     ([(''user_id'', JStr ''u''), (''payload.userId'', JStr ''u''), (''updated_at'', JStr ''t0''),
       (''active'', JBool True)] @ fs)"

definition sample_call :: "jstr \<Rightarrow> jstr \<Rightarrow> supersede_call" where
  "sample_call prev new =
     \<lparr>sc_previous = \<lparr>pv_id = prev, pv_lineageRootId = None\<rparr>,
      sc_replacement = \<lparr>rp_id = new, rp_l2 = Some ''new text'', rp_text = None, rp_userId = ''u'',
        rp_embedding = [], rp_metadata = [], rp_scope = ''user'', rp_sessionId = None,
        rp_writeSource = ''agent_end''\<rparr>,
      sc_provenance = ''deterministic'', sc_isInternalCaller = None, sc_inactiveReason = ''superseded'',
      sc_tableName = ''semiote'', sc_staleFlags = None\<rparr>"

definition sample_table :: db_table where
  "sample_table = [''a'' \<mapsto> sample_row []]"

definition sample_plan :: supersede_plan where
  "sample_plan = (case prepareSupersedeMemory sample_sdb sample_table sample_table
      (table_db (pointers sample_table) ''u'') (sample_call ''a'' ''b'') of Inr p \<Rightarrow> p)"

lemma sample_prepared:
  "prepareSupersedeMemory sample_sdb sample_table sample_table (table_db (pointers sample_table) ''u'')
     (sample_call ''a'' ''b'') = Inr sample_plan"
  by code_simp

lemma sample_committed: "fst (commit_supersede sample_sdb (JStr ''t1'') ''t1'' sample_plan sample_table) = None"
  by code_simp

lemma sample_casts: "casts_strings sample_sdb"
  by (simp add: casts_strings_def sample_sdb_def)

lemma sample_acyclic: "acyclic (supersede_edges (pointers sample_table) v)"
proof -
  have "(sample_row []) ''supersedes'' = None" by code_simp
  then have "supersede_edges (pointers sample_table) v = {}"
    by (auto simp: supersede_edges_def successor_def pointers_def sample_table_def split: option.splits jval.splits if_splits)
  then show ?thesis by (simp add: acyclic_def)
qed

text \<open>
  Two plans prepared on one table may both commit and close a cycle: \<open>p1\<close> supersedes \<open>r2\<close> and \<open>p2\<close>
  supersedes \<open>r1\<close>, and the plans put \<open>r1\<close> over \<open>p1\<close> and \<open>r2\<close> over \<open>p2\<close>. Each transaction compares
  only its own two rows, and the cycle guard has run before either.
\<close>

definition skew_table :: db_table where
  "skew_table = [''r1'' \<mapsto> sample_row [], ''r2'' \<mapsto> sample_row [],
     ''p1'' \<mapsto> sample_row [(''supersedes'', JStr ''r2'')], ''p2'' \<mapsto> sample_row [(''supersedes'', JStr ''r1'')]]"

definition skew_run :: "supersede_error option \<times> db_table" where
  "skew_run =
     (let walk = table_db (pointers skew_table) ''u''
      in case (prepareSupersedeMemory sample_sdb skew_table skew_table walk (sample_call ''p1'' ''r1''),
               prepareSupersedeMemory sample_sdb skew_table skew_table walk (sample_call ''p2'' ''r2'')) of
           (Inr a, Inr b) \<Rightarrow>
             (case commit_supersede sample_sdb (JStr ''t1'') ''t1'' a skew_table of
                (None, tab) \<Rightarrow> commit_supersede sample_sdb (JStr ''t2'') ''t2'' b tab
              | (e, tab) \<Rightarrow> (e, tab))
         | (Inl e, _) \<Rightarrow> (Some e, skew_table)
         | (_, Inl e) \<Rightarrow> (Some e, skew_table))"

lemma guard_is_not_transactional:
  "fst skew_run = None \<and> hops (pointers (snd skew_run)) ''u'' 4 ''r1'' = Some ''r1''"
  by code_simp

section \<open>Properties\<close>

text \<open>C24: Whatever the database answers, and however the table changes during the walk, the cycle
  guard returns after at most forty-nine queries, each for a different record.\<close>

theorem cycle_guard_bounded:
  "length (wr_queried (wouldCreateCycle db new target)) \<le> 49
    \<and> distinct (wr_queried (wouldCreateCycle db new target))"
  unfolding wouldCreateCycle_def
  using walk_queries [of "[]" db new target "[target]" target] by (simp add: corruption_ceiling_def)

text \<open>C23: On a table that answers, the guard reports a cycle exactly when the new record lies on the
  first fifty records of the target's chain or the chain is longer than forty-nine hops, which
  covers the chains that never end; a pointer to a missing record or to another user's record ends
  the chain.\<close>

theorem cycle_guard_decides:
  "wr_cycle (wouldCreateCycle (table_db tab user) new target)
    \<longleftrightarrow> (\<exists>j<50. hops tab user j target = Some new) \<or> (\<exists>x. hops tab user 49 target = Some x)"
  using guard_decides [of tab user new target] by (simp add: corruption_ceiling_def)

text \<open>C14: Calls of \<open>supersedeMemory\<close> that follow one another keep the supersession graph of every user
  acyclic, whatever records they name, fail or overwrite, as long as the metadata of no call replaces
  the owner in the payload.\<close>

theorem supersession_acyclic:
  assumes "casts_strings sdb"
    and "list_all (\<lambda>(now, nowString, c). ''userId'' \<notin> fst ` set (rp_metadata (sc_replacement c))) calls"
    and "acyclic (supersede_edges (pointers tab) user)"
  shows "acyclic (supersede_edges (pointers (supersede_all sdb calls tab)) user)"
  using assms by (intro supersede_all_acyclic)

theorem supersession_acyclic_witness:
  "acyclic (supersede_edges (pointers (supersede_all sample_sdb
      [(JStr ''t1'', ''t1'', sample_call ''a'' ''b''), (JStr ''t2'', ''t2'', sample_call ''b'' ''a'')] sample_table)) ''u'')"
  by (rule supersession_acyclic [OF sample_casts _ sample_acyclic]) (simp add: sample_call_def)

text \<open>A transaction either changes nothing, or it found both rows exactly as the plan had read them
  and then retired the previous record, made the replacement point to it, and touched no other
  record, however the table changed in between, as long as no two of the rows at hand share a
  digest.\<close>

theorem supersede_all_or_nothing:
  assumes "prepareSupersedeMemory sdb tab1 tab2 walk c = Inr p" and "digests_apart sdb tab tab2"
  shows "case commit_supersede sdb now nowString p tab of
      (Some e, tab') \<Rightarrow> tab' = tab
    | (None, tab') \<Rightarrow>
        tab (pv_id (sc_previous c)) = tab2 (pv_id (sc_previous c))
        \<and> tab (rp_id (sc_replacement c))
            = (if tab1 (rp_id (sc_replacement c)) = None then None else tab2 (rp_id (sc_replacement c)))
        \<and> (\<forall>i. i \<noteq> pv_id (sc_previous c) \<and> i \<noteq> rp_id (sc_replacement c) \<longrightarrow> tab' i = tab i)
        \<and> (\<exists>old new. tab' (pv_id (sc_previous c)) = Some old \<and> tab' (rp_id (sc_replacement c)) = Some new
             \<and> old ''active'' = Some (JBool False) \<and> old ''superseded_by'' = Some (JStr (rp_id (sc_replacement c)))
             \<and> new ''supersedes'' = Some (JStr (pv_id (sc_previous c))))"
proof (cases "commit_supersede sdb now nowString p tab")
  case (Pair r tab')
  show ?thesis
  proof (cases r)
    case None
    with Pair have com: "commit_supersede sdb now nowString p tab = (None, tab')" by simp
    with commit_result [OF com prepare_ok(1) [OF assms(1)]] committed_rows_unchanged [OF assms(1) com assms(2)]
    show ?thesis by simp
  next
    case (Some e)
    with Pair commit_error [of sdb now nowString p tab e] show ?thesis by simp
  qed
qed

theorem supersede_all_or_nothing_witness:
  "\<exists>tab'. commit_supersede sample_sdb (JStr ''t1'') ''t1'' sample_plan sample_table = (None, tab')
    \<and> sample_table ''b'' = None
    \<and> (\<exists>new. tab' ''b'' = Some new \<and> new ''supersedes'' = Some (JStr ''a''))"
proof -
  have "{row. \<exists>i. sample_table i = Some row \<or> sample_table i = Some row} = {sample_row []}"
    by (auto simp: sample_table_def split: if_splits)
  then have "digests_apart sample_sdb sample_table sample_table" by (simp add: digests_apart_def)
  note law = supersede_all_or_nothing [OF sample_prepared this, of "JStr ''t1''" "''t1''"]
  obtain tab' where "commit_supersede sample_sdb (JStr ''t1'') ''t1'' sample_plan sample_table = (None, tab')"
    using sample_committed by (cases "commit_supersede sample_sdb (JStr ''t1'') ''t1'' sample_plan sample_table") auto
  with law show ?thesis by (auto simp: sample_call_def sample_table_def)
qed

end
