(* ===== verification/Protected_Laws.thy ===== *)
theory Protected_Laws
  imports Protected_Store Supersede_Laws
begin

text \<open>
  Laws of the writers of the record store: the generic ones leave protected rows alone, a protected
  write joins the stored and the minted lineage under a registration that is granted when it
  commits, and over every interleaving of the writers a row keeps its protection and its
  restrictions only grow.
\<close>

section \<open>A use of the mint\<close>

definition authorised_lineage :: "js_env \<Rightarrow> addr \<Rightarrow> jref \<Rightarrow> jstr \<Rightarrow> producer_world \<Rightarrow> lineage \<Rightarrow> bool" where
  "authorised_lineage env authority minted user w l =
     (\<exists>m mb r. minted = RRef m \<and> pw_minted w m = Some mb \<and> mb_state mb = authority
        \<and> p_currently_granted env w (mb_context mb) r \<and> lineage_of_binding (mb_context mb) l
        \<and> l = mb_lineage mb \<and> pl_target l = user)"

lemma under_mint_ok:
  assumes "producer_reachable w" and "under_mint env authority minted user f w = Inr v"
  shows "\<exists>l. authorised_lineage env authority minted user w l \<and> f l (JStr user) = Inr v"
proof -
  let ?cb = "\<lambda>l context w. (f l (field (pw_heap w) context ''targetUserId''), w)"
  from assms(2) obtain a l w' where
    run: "runWithMintedProcessingLineage env authority minted ?cb (for_user user) w = (Inr (Use_value a l v), w')"
    by (cases "runWithMintedProcessingLineage env authority minted ?cb (for_user user) w")
      (auto simp: under_mint_def split: sum.splits minted_use.splits)
  from use_is_current [OF assms(1) run] obtain m mb r where
    *: "minted = RRef m" "pw_minted w m = Some mb" "mb_state mb = authority"
      "p_currently_granted env w (mb_context mb) r" "lineage_of_binding (mb_context mb) (mb_lineage mb)"
      "user = pl_target (mb_lineage mb)" "f (mb_lineage mb) (field (pw_heap w) a ''targetUserId'') = Inr v"
      "pw_heap w a = Some (policy_object (mb_context mb))"
    by (auto simp: for_user_def)
  have "field (pw_heap w) a ''targetUserId'' = JStr user"
    using * by (simp add: field_def policy_object_def lineage_of_binding_def)
  moreover have "authorised_lineage env authority minted user w (mb_lineage mb)"
    unfolding authorised_lineage_def by (intro exI [of _ m] exI [of _ mb] exI [of _ r]) (simp add: *(1-5) *(6) [symmetric])
  ultimately show ?thesis using *(7) by auto
qed

text \<open>A use before and a use after other steps find the same minted lineage.\<close>

lemma authorised_same:
  assumes "producer_reachable w1" and "producer_steps w1 w2"
    and "authorised_lineage env authority minted user w1 l1"
    and "authorised_lineage env' authority' minted user' w2 l2"
  shows "l1 = l2"
proof -
  have ok: "producer_ok w1" using assms(1) by (rule producer_reachable_ok)
  from assms(3) obtain m mb where m: "minted = RRef m" "pw_minted w1 m = Some mb" "l1 = mb_lineage mb"
    by (auto simp: authorised_lineage_def)
  have "m < pw_next w1" using ok m(2) by (metis not_less option.distinct(1) p_inside_def producer_ok_def)
  with producer_steps_changes [OF assms(2) ok] p_changes_frame [OF _ ok] have "pw_minted w2 m = Some mb"
    by (metis m(2))
  with m assms(4) show ?thesis by (auto simp: authorised_lineage_def)
qed

lemma steps_reachable: "producer_reachable w1 \<Longrightarrow> producer_steps w1 w2 \<Longrightarrow> producer_reachable w2"
  by (rule rtranclp_trans)

lemma under_mint_revoked:
  assumes "producer_reachable w" and "revokeProducerRegistration authority ref w = (Inr (), w1)"
    and "pw_minted w1 m = Some mb" and "mb_state mb = authority"
    and "pb_registrationRef (mb_context mb) = js_trim ref"
  shows "\<exists>why. under_mint env authority (RRef m) user f w1 = Inl (Refused why)"
proof -
  let ?cb = "\<lambda>l context w. (f l (field (pw_heap w) context ''targetUserId''), w)"
  from revoked_refusal [OF assms, of env "for_user user"] refused_use [of env w1 mb "for_user user" m ?cb] assms(3,4)
  show ?thesis by (auto simp: under_mint_def)
qed

section \<open>Stored lineages\<close>

definition value_restrictions :: "jval \<Rightarrow> restriction set" where
  "value_restrictions v =
     (case classifyProcessingLineage v of Minni_verified l \<Rightarrow> set (ld_restrictions (pl_delivery l)) | _ \<Rightarrow> {})"

definition stored_lineage :: "db_row \<Rightarrow> classified" where
  "stored_lineage row = classifyProcessingLineage (column row ''processing_lineage'')"

definition row_restrictions :: "db_row \<Rightarrow> restriction set" where
  "row_restrictions row = value_restrictions (column row ''processing_lineage'')"

lemma classify_undef [simp]: "classifyProcessingLineage JUndef = Legacy_unknown"
  by (simp add: classifyProcessingLineage_def)

lemma stored_lineage_absent [simp]:
  "row ''processing_lineage'' = None \<Longrightarrow> stored_lineage row = Legacy_unknown"
  by (simp add: stored_lineage_def column_def)

lemma stored_lineage_value:
  "row ''processing_lineage'' = Some (lineage_value l) \<Longrightarrow> lineage_ok l \<Longrightarrow> stored_lineage row = Minni_verified l"
  by (simp add: stored_lineage_def column_def classify_lineage_value)

lemma binding_lineage_ok: "lineage_of_binding b l \<Longrightarrow> lineage_ok l"
  by (simp add: lineage_of_binding_def)

lemma authorised_ok: "authorised_lineage env authority minted user w l \<Longrightarrow> lineage_ok l"
  by (auto simp: authorised_lineage_def binding_lineage_ok)

lemma join_ok:
  assumes "conservativeJoin left right = Inr (Joined j)"
  shows "\<exists>l r. left = Minni_verified l \<and> right = Minni_verified r"
  using assms by (auto simp: conservativeJoin_def split: if_splits classified.splits)

lemma refusal_ok:
  assumes "refusalForStoredLineage v l = Inr j" and "lineage_ok l"
  shows "\<exists>s. classifyProcessingLineage v = Minni_verified s \<and> lineage_ok s \<and> same_scope s l \<and> j = joined_lineage s l"
proof -
  from assms(1) have "conservativeJoin (classifyProcessingLineage v) (Minni_verified l) = Inr (Joined j)"
    by (auto simp: refusalForStoredLineage_def split: sum.splits join_result.splits)
  moreover with join_ok obtain s where s: "classifyProcessingLineage v = Minni_verified s" by blast
  moreover from s have "lineage_ok s" by (rule classify_ok)
  ultimately show ?thesis using join_verified [of s l] assms(2) by (auto split: if_splits)
qed

lemma fold_join_ok:
  assumes "classifyAndJoinSupersedeLineage l vs = Inr j" and "lineage_ok l"
  shows "lineage_ok j \<and> same_scope l j
    \<and> set (ld_restrictions (pl_delivery j)) = set (ld_restrictions (pl_delivery l)) \<union> \<Union> (value_restrictions ` set vs)
    \<and> (\<forall>v\<in>set vs. \<exists>s. classifyProcessingLineage v = Minni_verified s \<and> same_scope s j)"
  using assms
proof (induction vs arbitrary: l)
  case Nil
  then show ?case by (auto simp: same_scope_def)
next
  case (Cons v vs)
  from Cons.prems(1) obtain k where k: "conservativeJoin (Minni_verified l) (classifyProcessingLineage v) = Inr (Joined k)"
    and rest: "classifyAndJoinSupersedeLineage k vs = Inr j"
    by (auto split: sum.splits join_result.splits)
  from join_ok [OF k] obtain s where s: "classifyProcessingLineage v = Minni_verified s" by blast
  from classify_ok [OF s] join_verified [OF Cons.prems(2) classify_ok [OF s]] k s
  have step: "same_scope l s" "k = joined_lineage l s" by (auto split: if_splits)
  have restr: "set (ld_restrictions (pl_delivery k)) = set (ld_restrictions (pl_delivery l)) \<union> value_restrictions v"
    by (simp add: step joined_lineage_def joined_restrictions_set value_restrictions_def s)
  have "lineage_ok k" "same_scope l k"
    using joined_ok [OF Cons.prems(2)] by (simp_all add: step joined_lineage_def same_scope_def)
  with Cons.IH [OF rest] s step(1) restr show ?case by (auto simp: same_scope_def)
qed

section \<open>Create, merge and supersede\<close>

lemma table_after_ok [simp]: "table_after tab res = (None, tab') \<longleftrightarrow> res = Inr tab'"
  by (auto simp: table_after_def split: sum.splits)

lemma table_after_error: "table_after tab res = (Some e, tab') \<Longrightarrow> tab' = tab"
  by (auto simp: table_after_def split: sum.splits)

lemma merge_fields_keys:
  assumes "merge_fields sdb now nowString m = Inr fs"
  shows "f \<in> {''processing_lineage'', ''user_id'', ''payload.userId'', ''supersedes''} \<Longrightarrow> f \<notin> fst ` set fs"
    and "map_of (rev fs) ''payload.l2'' = Some (JStr (mi_newText m))"
  using assms by (auto simp: merge_fields_def map_sum_Inr)

definition merged_row :: "db_row \<Rightarrow> lineage \<Rightarrow> (jstr \<times> jval) list \<Rightarrow> db_row" where
  "merged_row row j fs = set_fields row ((''processing_lineage'', lineage_value j) # fs)"

lemma merged_row_fields:
  assumes "merge_fields sdb now nowString m = Inr fs"
  shows "merged_row row j fs ''processing_lineage'' = Some (lineage_value j)"
    and "merged_row row j fs ''user_id'' = row ''user_id''"
    and "merged_row row j fs ''payload.l2'' = Some (JStr (mi_newText m))"
proof -
  have "set_fields (row(''processing_lineage'' \<mapsto> lineage_value j)) fs f = (row(''processing_lineage'' \<mapsto> lineage_value j)) f"
    if "f \<in> {''processing_lineage'', ''user_id''}" for f
    using set_fields_untouched merge_fields_keys(1) [OF assms, of f] that by auto
  moreover have "merged_row row j fs = set_fields (row(''processing_lineage'' \<mapsto> lineage_value j)) fs"
    by (simp add: merged_row_def set_fields_def set_field_def)
  ultimately show "merged_row row j fs ''processing_lineage'' = Some (lineage_value j)"
    "merged_row row j fs ''user_id'' = row ''user_id''" by auto
  show "merged_row row j fs ''payload.l2'' = Some (JStr (mi_newText m))"
    using merge_fields_keys(2) [OF assms] by (simp add: merged_row_def set_fields_value)
qed

lemma column_str [simp]: "column row f = JStr s \<longleftrightarrow> row f = Some (JStr s)"
  by (auto simp: column_def split: option.splits)

lemma merge_commit:
  assumes "producer_reachable w1" and "producer_steps w1 w2"
    and "mergeMemoryWithProcessingLineage env sdb now nowString authority minted m w1 tab1 w2 tab2 = (None, tab')"
  shows "\<exists>l row s fs. authorised_lineage env authority minted (mi_userId m) w2 l
    \<and> tab2 (mi_id m) = Some row \<and> row ''user_id'' = Some (JStr (mi_userId m))
    \<and> stored_lineage row = Minni_verified s \<and> same_scope s l
    \<and> merge_fields sdb now nowString m = Inr fs \<and> tab' = tab2(mi_id m \<mapsto> merged_row row (joined_lineage s l) fs)"
proof -
  from assms(3) obtain p where pre: "under_mint env authority minted (mi_userId m) (merge_read m tab1) w1 = Inr p"
    and tx: "under_mint env authority minted (mi_userId m) (\<lambda>_ _. merge_transaction sdb now nowString m p tab2) w2 = Inr tab'"
    by (auto simp: mergeMemoryWithProcessingLineage_def split: sum.splits if_splits)
  from under_mint_ok [OF assms(1) pre] obtain l where l: "authorised_lineage env authority minted (mi_userId m) w1 l"
    and read: "merge_read m tab1 l (JStr (mi_userId m)) = Inr p" by blast
  from under_mint_ok [OF steps_reachable [OF assms(1,2)] tx] authorised_same [OF assms(1,2) l]
  have l2: "authorised_lineage env authority minted (mi_userId m) w2 l"
    and run: "merge_transaction sdb now nowString m p tab2 = Inr tab'" by blast+
  from read obtain v j where j: "refusalForStoredLineage v l = Inr j"
    and p: "p = \<lparr>mp_expectedUserId = JStr (mi_userId m), mp_expectedLineage = v, mp_mergedLineage = j\<rparr>"
    by (auto simp: merge_read_def map_sum_Inr split: option.splits if_splits)
  from refusal_ok [OF j authorised_ok [OF l]] obtain s where
    "classifyProcessingLineage v = Minni_verified s" "same_scope s l" "j = joined_lineage s l" by blast
  with run p l2 show ?thesis
    by (fastforce simp: merge_transaction_def merged_row_def stored_lineage_def split: option.splits if_splits sum.splits)
qed

lemma create_commit:
  assumes "producer_reachable w"
    and "createMemoryWithProcessingLineage env sdb now nowString authority minted i r w tab = (None, tab')"
  shows "\<exists>l row. authorised_lineage env authority minted (ri_userId r) w l \<and> tab i = None
    \<and> composeMemoryRecord sdb now nowString r (Some l) None = Inr row \<and> tab' = tab(i \<mapsto> row)"
proof -
  let ?f = "\<lambda>(l::lineage) (_::jval). case composeMemoryRecord sdb now nowString r (Some l) None of
                Inl e \<Rightarrow> Inl (Not_composed e)
              | Inr row \<Rightarrow> if tab i \<noteq> None then Inl Already_exists else Inr (tab(i \<mapsto> row))"
  from assms(2) have "under_mint env authority minted (ri_userId r) ?f w = Inr tab'"
    by (simp add: createMemoryWithProcessingLineage_def)
  from under_mint_ok [OF assms(1) this] show ?thesis by (fastforce split: sum.splits if_splits)
qed

lemma snapshot_same: "sameSupersedeBranchWhere snapshot row \<Longrightarrow> f \<in> set snapshot_fields \<Longrightarrow> row f = snapshot f"
  by (auto simp: sameSupersedeBranchWhere_def list_all_iff)

lemma snapshot_members:
  "''user_id'' \<in> set snapshot_fields" "''active'' \<in> set snapshot_fields"
  "''processing_lineage'' \<in> set snapshot_fields" "''payload.userId'' \<in> set snapshot_fields"
  by (simp_all add: snapshot_fields_def)

lemma snapshot_column:
  "sameSupersedeBranchWhere snapshot row \<Longrightarrow> f \<in> set snapshot_fields \<Longrightarrow> column row f = column snapshot f"
  by (simp add: column_def snapshot_same)

lemma protected_fields_value:
  "map_of (rev (protected_previous_fields now nowString c p)) ''processing_lineage''
    = Some (lineage_value (sp_mergedLineage p))"
  "map_of (rev (protected_previous_fields now nowString c p)) ''active'' = Some (JBool False)"
  "map_of (rev (protected_previous_fields now nowString c p)) ''superseded_by'' = Some (JStr (rp_id (ps_replacement c)))"
  "map_of (rev (protected_previous_fields now nowString c p)) ''payload.l2'' = None"
  "map_of (rev (protected_previous_fields now nowString c p)) ''user_id'' = None"
  "map_of (rev (protected_previous_fields now nowString c p)) ''supersedes'' = None"
  "map_of (rev (protected_replacement_fields now nowString c p)) ''processing_lineage''
    = Some (lineage_value (sp_mergedLineage p))"
  "map_of (rev (protected_replacement_fields now nowString c p)) ''supersedes'' = Some (JStr (ps_previousId c))"
  by (simp_all add: protected_previous_fields_def protected_replacement_fields_def Let_def
      split: option.splits prod.splits)

lemma protected_input_simps [simp]:
  "ri_userId (protected_input c p) = rp_userId (ps_replacement c)"
  "lc_supersedesId (ri_lifecycle (protected_input c p)) = Some (ps_previousId c)"
  "lc_active (ri_lifecycle (protected_input c p)) = True"
  by (simp_all add: protected_input_def Let_def default_active_lifecycle_def)

text \<open>The replacement row that a protected supersede leaves.\<close>

lemma protected_replacement_ok:
  assumes "protected_replacement sdb now nowString c p tab = Inr new"
  shows "new ''processing_lineage'' = Some (lineage_value (sp_mergedLineage p))
    \<and> new ''supersedes'' = Some (JStr (ps_previousId c))
    \<and> (case sp_replacement p of
         None \<Rightarrow> tab (rp_id (ps_replacement c)) = None
       | Some snapshot \<Rightarrow>
           (\<exists>old. tab (rp_id (ps_replacement c)) = Some old \<and> sameSupersedeBranchWhere snapshot old))"
proof (cases "sp_replacement p")
  case None
  with assms obtain row where "composeMemoryRecord sdb now nowString (protected_input c p) (Some (sp_mergedLineage p)) None = Inr row"
    "tab (rp_id (ps_replacement c)) = None"
    "new = set_fields row [(''supersede_provenance'', JStr (ps_provenance c))]"
    by (auto simp: protected_replacement_def Let_def split: sum.splits if_splits)
  with composed_top(3,6) [OF this(1)] None show ?thesis by (simp add: set_fields_value)
next
  case (Some snapshot)
  with assms show ?thesis
    by (auto simp: protected_replacement_def Let_def set_fields_value protected_fields_value split: option.splits if_splits)
qed

lemma supersede_transaction_ok:
  assumes "supersede_transaction sdb now nowString c p tab = Inr tab'" and "rp_id (ps_replacement c) \<noteq> ps_previousId c"
  shows "\<exists>new prev. protected_replacement sdb now nowString c p tab = Inr new \<and> tab (ps_previousId c) = Some prev
    \<and> sameSupersedeBranchWhere (sp_previous p) prev
    \<and> tab' = tab(rp_id (ps_replacement c) \<mapsto> new,
        ps_previousId c \<mapsto> set_fields prev (protected_previous_fields now nowString c p))"
  using assms by (auto simp: supersede_transaction_def Let_def split: sum.splits option.splits if_splits)

lemma metadata_column:
  "readSupersedeMetadata tab i = Some snapshot \<Longrightarrow> f \<in> set snapshot_fields \<Longrightarrow>
    \<exists>row. tab i = Some row \<and> column snapshot f = column row f"
  by (auto simp: readSupersedeMetadata_def column_def)

lemma supersede_read_ok:
  assumes "supersede_read walk tab1 tab2 c l (JStr user) = Inr p" and "lineage_ok l"
  shows "rp_userId (ps_replacement c) = user
    \<and> sp_previous p ''user_id'' = Some (JStr user) \<and> column (sp_previous p) ''active'' = JBool True
    \<and> (\<forall>row. sp_replacement p = Some row \<longrightarrow> row ''user_id'' = Some (JStr user))
    \<and> \<not> wr_cycle (wouldCreateCycle walk (rp_id (ps_replacement c)) (ps_previousId c))
    \<and> classifyAndJoinSupersedeLineage l (column (sp_previous p) ''processing_lineage''
         # (case sp_replacement p of None \<Rightarrow> [] | Some row \<Rightarrow> [column row ''processing_lineage'']))
       = Inr (sp_mergedLineage p)"
  using assms
  by (auto simp: supersede_read_def Let_def map_sum_Inr split: if_splits option.splits)

lemma supersede_commit:
  assumes "producer_reachable w1" and "producer_steps w1 w3"
    and "supersedeMemoryWithProcessingLineage env sdb now nowString authority minted walk c w1 tab1 tab2 w3 tab3
      = (None, tab')"
  shows "\<exists>l p. authorised_lineage env authority minted (rp_userId (ps_replacement c)) w3 l
    \<and> rp_id (ps_replacement c) \<noteq> ps_previousId c
    \<and> supersede_read walk tab1 tab2 c l (JStr (rp_userId (ps_replacement c))) = Inr p
    \<and> supersede_transaction sdb now nowString c p tab3 = Inr tab'"
proof -
  let ?u = "rp_userId (ps_replacement c)"
  from assms(3) obtain p where ne: "rp_id (ps_replacement c) \<noteq> ps_previousId c"
    and pre: "under_mint env authority minted ?u (supersede_read walk tab1 tab2 c) w1 = Inr p"
    and tx: "under_mint env authority minted ?u (\<lambda>_ _. supersede_transaction sdb now nowString c p tab3) w3 = Inr tab'"
    by (auto simp: supersedeMemoryWithProcessingLineage_def Let_def split: sum.splits if_splits)
  from under_mint_ok [OF assms(1) pre] obtain l where l: "authorised_lineage env authority minted ?u w1 l"
    and read: "supersede_read walk tab1 tab2 c l (JStr ?u) = Inr p" by blast
  from under_mint_ok [OF steps_reachable [OF assms(1,2)] tx] authorised_same [OF assms(1,2) l]
  have "authorised_lineage env authority minted ?u w3 l"
    and "supersede_transaction sdb now nowString c p tab3 = Inr tab'" by blast+
  with ne read show ?thesis by blast
qed

end
