(* ===== verification/Protection_Invariant.thy ===== *)
theory Protection_Invariant
  imports Protected_Laws
begin

text \<open>
  What the writers of the record store promise about protected rows: what a committed merge and a
  committed supersede store, that a revoked registration stops them, and the invariant of protection
  over interleaved writers. A hard deletion removes a row with its protection and is no step here.
\<close>

section \<open>One protected write\<close>

lemma stored_merged:
  assumes "merge_fields sdb now nowString m = Inr fs" and "lineage_ok j"
  shows "stored_lineage (merged_row row j fs) = Minni_verified j"
  by (rule stored_lineage_value) (rule merged_row_fields(1) [OF assms(1)], rule assms(2))

lemma row_restrictions_stored:
  "stored_lineage row = Minni_verified l \<Longrightarrow> row_restrictions row = set (ld_restrictions (pl_delivery l))"
  by (simp add: row_restrictions_def value_restrictions_def stored_lineage_def)

lemma joined_set:
  "set (ld_restrictions (pl_delivery (joined_lineage l r)))
    = set (ld_restrictions (pl_delivery l)) \<union> set (ld_restrictions (pl_delivery r))"
  by (simp add: joined_lineage_def joined_restrictions_set)

text \<open>The rows a protected supersede compares, and the lineage it stores in both.\<close>

lemma protected_rows:
  assumes read: "supersede_read walk tab1 tab2 c l (JStr (rp_userId (ps_replacement c))) = Inr p"
    and tx: "supersede_transaction sdb now nowString c p tab = Inr tab'"
    and ne: "rp_id (ps_replacement c) \<noteq> ps_previousId c" and ok: "lineage_ok l"
  shows "\<exists>prev new. tab (ps_previousId c) = Some prev
    \<and> prev ''user_id'' = Some (JStr (rp_userId (ps_replacement c))) \<and> prev ''active'' = Some (JBool True)
    \<and> tab' = tab(rp_id (ps_replacement c) \<mapsto> new,
        ps_previousId c \<mapsto> set_fields prev (protected_previous_fields now nowString c p))
    \<and> protected_replacement sdb now nowString c p tab = Inr new
    \<and> lineage_ok (sp_mergedLineage p) \<and> same_scope l (sp_mergedLineage p)
    \<and> set (ld_restrictions (pl_delivery (sp_mergedLineage p)))
        = set (ld_restrictions (pl_delivery l)) \<union> row_restrictions prev
          \<union> (case tab (rp_id (ps_replacement c)) of None \<Rightarrow> {} | Some old \<Rightarrow> row_restrictions old)
    \<and> (\<forall>i row. i \<in> {ps_previousId c, rp_id (ps_replacement c)} \<longrightarrow> tab i = Some row \<longrightarrow>
         (\<exists>s. stored_lineage row = Minni_verified s \<and> same_scope s (sp_mergedLineage p)))"
proof -
  note r = supersede_read_ok [OF read ok]
  from supersede_transaction_ok [OF tx ne] obtain new prev where
    new: "protected_replacement sdb now nowString c p tab = Inr new"
    and prev: "tab (ps_previousId c) = Some prev" "sameSupersedeBranchWhere (sp_previous p) prev"
    and tab': "tab' = tab(rp_id (ps_replacement c) \<mapsto> new,
        ps_previousId c \<mapsto> set_fields prev (protected_previous_fields now nowString c p))" by blast
  note same = snapshot_column [OF prev(2)] snapshot_same [OF prev(2)]
  have act: "prev ''active'' = Some (JBool True)"
    using r same(1) [of "''active''"] snapshot_members by (auto simp: column_def split: option.splits)
  have join: "classifyAndJoinSupersedeLineage l (column prev ''processing_lineage''
       # (case tab (rp_id (ps_replacement c)) of None \<Rightarrow> [] | Some row \<Rightarrow> [column row ''processing_lineage'']))
     = Inr (sp_mergedLineage p)"
  proof (cases "sp_replacement p")
    case None
    with r same(1) snapshot_members protected_replacement_ok [OF new] show ?thesis by simp
  next
    case (Some snapshot)
    with protected_replacement_ok [OF new] obtain old where
      old: "tab (rp_id (ps_replacement c)) = Some old" "sameSupersedeBranchWhere snapshot old" by auto
    with Some r same(1) snapshot_column [OF old(2)] snapshot_members show ?thesis by simp
  qed
  from fold_join_ok [OF join ok] prev(1) r same(2) snapshot_members act new tab' show ?thesis
    by (auto simp: row_restrictions_def stored_lineage_def split: option.splits)
qed

lemma supersede_stores:
  assumes "protected_replacement sdb now nowString c p tab = Inr new" and "lineage_ok (sp_mergedLineage p)"
  shows "stored_lineage (set_fields prev (protected_previous_fields now nowString c p)) = Minni_verified (sp_mergedLineage p)"
    and "stored_lineage new = Minni_verified (sp_mergedLineage p)"
  using assms(2) protected_replacement_ok [OF assms(1)]
  by (intro stored_lineage_value; simp add: set_fields_value protected_fields_value)+

section \<open>A concrete table\<close>

text \<open>The row \<open>a\<close> of user \<open>u1\<close> is protected by the lineage of the demonstration producer.\<close>

definition demo_stored_lineage :: jval where
  "demo_stored_lineage =
     obj [(''state'', JStr ''minni_verified''), (''origin'', JStr ''minni''),
          (''producer_principal_ref'', JStr ''p1''), (''producer_registration_ref'', JStr ''r1''),
          (''processing_policy_version'', JStr ''runir.minni.local/v1''),
          (''admitted_operation'', JStr ''scheduled_maintenance''), (''target_user_id'', JStr ''u1''),
          (''delivery'',
             obj [(''version'', JStr ''runir.minni.delivery/v1''), (''disposition'', JStr ''local_only''),
                  (''restrictions'', JArr [JStr ''excluded_source''])])]"

definition demo_protected_table :: db_table where
  "demo_protected_table =
     [''a'' \<mapsto> [''user_id'' \<mapsto> JStr ''u1'', ''payload.userId'' \<mapsto> JStr ''u1'', ''active'' \<mapsto> JBool True,
              ''payload.l2'' \<mapsto> JStr ''old'', ''processing_lineage'' \<mapsto> demo_stored_lineage]]"

definition demo_sdb :: surreal where
  "demo_sdb = \<lparr>sdb_cast = (\<lambda>v. case v of None \<Rightarrow> JUndef | Some x \<Rightarrow> x), sdb_digest = (\<lambda>_. ''''),
               sdb_datetime = (\<lambda>s. Some (JStr s))\<rparr>"

definition demo_merge :: merge_input where
  "demo_merge =
     \<lparr>mi_id = ''a'', mi_userId = ''u1'', mi_newText = ''new'', mi_embedding = [], mi_writeSource = ''agent_end'',
      mi_clearAtomicFact = True, mi_memoryRole = None, mi_validAt = None, mi_continuitySubjectKey = None\<rparr>"

definition demo_supersede :: protected_supersede where
  "demo_supersede =
     \<lparr>ps_previousId = ''a'',
      ps_replacement = \<lparr>rp_id = ''b'', rp_l2 = Some ''new'', rp_text = None, rp_userId = ''u1'', rp_embedding = [],
                        rp_metadata = [(''userId'', JStr ''forged'')], rp_scope = ''user'', rp_sessionId = None,
                        rp_writeSource = ''agent_end''\<rparr>,
      ps_provenance = ''deterministic'', ps_inactiveReason = None, ps_staleFlags = None\<rparr>"

abbreviation demo_merged :: "store_error option \<times> db_table" where
  "demo_merged \<equiv> mergeMemoryWithProcessingLineage p_clock demo_sdb (JStr ''now'') ''now'' 3 (RRef 9) demo_merge
     minted_world demo_protected_table minted_world demo_protected_table"

abbreviation demo_superseded :: "store_error option \<times> db_table" where
  "demo_superseded \<equiv> supersedeMemoryWithProcessingLineage p_clock demo_sdb (JStr ''now'') ''now'' 3 (RRef 9)
     (table_db (pointers demo_protected_table) ''u1'') demo_supersede minted_world demo_protected_table
     demo_protected_table minted_world demo_protected_table"

lemma demo_merged_ok: "fst demo_merged = None"
  by code_simp

lemma demo_superseded_ok: "fst demo_superseded = None"
  by code_simp

section \<open>The laws of one write\<close>

text \<open>A protected merge that commits writes one row, of the user the mint names, under a registration that is
  granted at the commit; the stored lineage had the scope of the minted one, and the row leaves with
  their join: the restrictions of both, none lost, beside the new text.\<close>

theorem protected_merge_joins:
  assumes "producer_reachable w1" and "producer_steps w1 w2"
    and "mergeMemoryWithProcessingLineage env sdb now nowString authority minted m w1 tab1 w2 tab2 = (None, tab')"
  shows "\<exists>l j row row'. authorised_lineage env authority minted (mi_userId m) w2 l
    \<and> tab2 (mi_id m) = Some row \<and> row ''user_id'' = Some (JStr (mi_userId m))
    \<and> tab' = tab2(mi_id m \<mapsto> row') \<and> row' ''payload.l2'' = Some (JStr (mi_newText m))
    \<and> stored_lineage row' = Minni_verified j \<and> same_scope j l
    \<and> row_restrictions row' = row_restrictions row \<union> set (ld_restrictions (pl_delivery l))"
proof -
  from merge_commit [OF assms] obtain l row s fs where
    l: "authorised_lineage env authority minted (mi_userId m) w2 l"
    and row: "tab2 (mi_id m) = Some row" "row ''user_id'' = Some (JStr (mi_userId m))"
      "stored_lineage row = Minni_verified s" "same_scope s l"
    and fs: "merge_fields sdb now nowString m = Inr fs"
    and tab': "tab' = tab2(mi_id m \<mapsto> merged_row row (joined_lineage s l) fs)" by blast
  have "lineage_ok (joined_lineage s l)"
    using row(3) joined_ok classify_ok by (auto simp: stored_lineage_def)
  note st = stored_merged [OF fs this, of row]
  have "same_scope (joined_lineage s l) l"
    using row(4) by (simp add: joined_lineage_def same_scope_def)
  moreover have "row_restrictions (merged_row row (joined_lineage s l) fs)
      = row_restrictions row \<union> set (ld_restrictions (pl_delivery l))"
    by (simp only: row_restrictions_stored [OF st] row_restrictions_stored [OF row(3)] joined_set)
  moreover note st l row(1,2) tab' merged_row_fields(3) [OF fs, of row "joined_lineage s l"]
  ultimately show ?thesis by blast
qed

theorem protected_merge_joins_witness:
  "\<exists>row'. snd demo_merged = demo_protected_table(''a'' \<mapsto> row') \<and> row' ''payload.l2'' = Some (JStr ''new'')"
proof -
  have "demo_merged = (None, snd demo_merged)" using demo_merged_ok by (metis prod.collapse)
  from protected_merge_joins [OF minted_reachable rtranclp.rtrancl_refl this]
  show ?thesis by (auto simp: demo_merge_def)
qed

text \<open>C18: A protected supersede that commits inactivates one active row of the user and leaves one lineage in it and
  in its replacement, with the restrictions of the minted lineage and of every row it touched; no
  other row changes.\<close>

theorem protected_supersede_joins:
  assumes "producer_reachable w1" and "producer_steps w1 w3"
    and "supersedeMemoryWithProcessingLineage env sdb now nowString authority minted walk c w1 tab1 tab2 w3 tab3
      = (None, tab')"
  shows "\<exists>l j prev prev' new. authorised_lineage env authority minted (rp_userId (ps_replacement c)) w3 l
    \<and> tab3 (ps_previousId c) = Some prev \<and> prev ''active'' = Some (JBool True)
    \<and> prev ''user_id'' = Some (JStr (rp_userId (ps_replacement c)))
    \<and> tab' = tab3(rp_id (ps_replacement c) \<mapsto> new, ps_previousId c \<mapsto> prev')
    \<and> prev' ''active'' = Some (JBool False) \<and> prev' ''superseded_by'' = Some (JStr (rp_id (ps_replacement c)))
    \<and> new ''supersedes'' = Some (JStr (ps_previousId c)) \<and> prev' ''payload.l2'' = prev ''payload.l2''
    \<and> stored_lineage new = Minni_verified j \<and> stored_lineage prev' = Minni_verified j \<and> same_scope l j
    \<and> set (ld_restrictions (pl_delivery j)) = set (ld_restrictions (pl_delivery l)) \<union> row_restrictions prev
        \<union> (case tab3 (rp_id (ps_replacement c)) of None \<Rightarrow> {} | Some old \<Rightarrow> row_restrictions old)"
proof -
  from supersede_commit [OF assms] obtain l p where
    l: "authorised_lineage env authority minted (rp_userId (ps_replacement c)) w3 l"
    and ne: "rp_id (ps_replacement c) \<noteq> ps_previousId c"
    and read: "supersede_read walk tab1 tab2 c l (JStr (rp_userId (ps_replacement c))) = Inr p"
    and tx: "supersede_transaction sdb now nowString c p tab3 = Inr tab'" by blast
  from protected_rows [OF read tx ne authorised_ok [OF l]] obtain prev new where
    rows: "tab3 (ps_previousId c) = Some prev"
      "prev ''user_id'' = Some (JStr (rp_userId (ps_replacement c)))" "prev ''active'' = Some (JBool True)"
      "tab' = tab3(rp_id (ps_replacement c) \<mapsto> new,
        ps_previousId c \<mapsto> set_fields prev (protected_previous_fields now nowString c p))"
      "protected_replacement sdb now nowString c p tab3 = Inr new"
      "lineage_ok (sp_mergedLineage p)" "same_scope l (sp_mergedLineage p)"
      "set (ld_restrictions (pl_delivery (sp_mergedLineage p)))
        = set (ld_restrictions (pl_delivery l)) \<union> row_restrictions prev
          \<union> (case tab3 (rp_id (ps_replacement c)) of None \<Rightarrow> {} | Some old \<Rightarrow> row_restrictions old)" by blast
  let ?prev' = "set_fields prev (protected_previous_fields now nowString c p)"
  have "?prev' ''active'' = Some (JBool False)" "?prev' ''superseded_by'' = Some (JStr (rp_id (ps_replacement c)))"
    "?prev' ''payload.l2'' = prev ''payload.l2''"
    by (simp_all add: set_fields_value protected_fields_value)
  moreover note supersede_stores [OF rows(5,6)]
  moreover have "new ''supersedes'' = Some (JStr (ps_previousId c))"
    using protected_replacement_ok [OF rows(5)] by blast
  ultimately show ?thesis using l rows by blast
qed

theorem protected_supersede_joins_witness:
  "\<exists>prev' new. snd demo_superseded = demo_protected_table(''b'' \<mapsto> new, ''a'' \<mapsto> prev')
     \<and> new ''supersedes'' = Some (JStr ''a'') \<and> prev' ''superseded_by'' = Some (JStr ''b'')"
proof -
  have "demo_superseded = (None, snd demo_superseded)" using demo_superseded_ok by (metis prod.collapse)
  from protected_supersede_joins [OF minted_reachable rtranclp.rtrancl_refl this]
  show ?thesis by (auto simp: demo_supersede_def)
qed

section \<open>Interleaved writers\<close>

text \<open>
  The state is the world of the producer authority and the table. A protected merge or supersede
  commits in the state of the step; its preflight may have read any table, in any earlier world.
\<close>

inductive store_step :: "producer_world \<times> db_table \<Rightarrow> producer_world \<times> db_table \<Rightarrow> bool" where
  policy: "producer_step w w' \<Longrightarrow> store_step (w, tab) (w', tab)"
| upsert: "upsertMemory sdb now nowString i r tab = (out, tab') \<Longrightarrow> store_step (w, tab) (w, tab')"
| forget: "deleteMemoryById now nowString i user Soft_inactivate tab = tab' \<Longrightarrow> store_step (w, tab) (w, tab')"
| restore: "restoreMemoryById now nowString i user tab = (b, tab') \<Longrightarrow> store_step (w, tab) (w, tab')"
| update_text: "updateMemoryText sdb now nowString m tab = (out, tab') \<Longrightarrow> store_step (w, tab) (w, tab')"
| supersede: "commit_supersede sdb now nowString p tab = (fail, tab') \<Longrightarrow> store_step (w, tab) (w, tab')"
| protected_create:
    "createMemoryWithProcessingLineage env sdb now nowString authority minted i r w tab = (out, tab') \<Longrightarrow>
     store_step (w, tab) (w, tab')"
| protected_merge:
    "producer_reachable w1 \<Longrightarrow> producer_steps w1 w \<Longrightarrow>
     mergeMemoryWithProcessingLineage env sdb now nowString authority minted m w1 tab1 w tab = (out, tab') \<Longrightarrow>
     store_step (w, tab) (w, tab')"
| protected_supersede:
    "producer_reachable w1 \<Longrightarrow> producer_steps w1 w \<Longrightarrow>
     supersedeMemoryWithProcessingLineage env sdb now nowString authority minted walk c w1 tab1 tab2 w tab
       = (out, tab') \<Longrightarrow>
     store_step (w, tab) (w, tab')"

inductive_cases store_stepE: "store_step (w, tab) (w', tab')"

text \<open>A row keeps its lineage, or exchanges one for a lineage of the same scope with more restrictions.\<close>

definition keeps_protection :: "db_row \<Rightarrow> db_row \<Rightarrow> bool" where
  "keeps_protection row row' =
     (row' ''processing_lineage'' = row ''processing_lineage''
      \<or> (\<exists>l l'. stored_lineage row = Minni_verified l \<and> stored_lineage row' = Minni_verified l' \<and> same_scope l l'
           \<and> row_restrictions row \<subseteq> row_restrictions row'))"

lemma keeps_refl [simp]: "keeps_protection row row"
  by (simp add: keeps_protection_def)

lemma keeps_lineage:
  "row' ''processing_lineage'' = row ''processing_lineage'' \<Longrightarrow>
    stored_lineage row' = stored_lineage row \<and> row_restrictions row' = row_restrictions row"
  by (simp add: stored_lineage_def row_restrictions_def column_def)

definition more_restricted :: "db_row \<Rightarrow> db_row \<Rightarrow> bool" where
  "more_restricted row row' =
     (\<exists>l l'. stored_lineage row = Minni_verified l \<and> stored_lineage row' = Minni_verified l' \<and> same_scope l l'
        \<and> row_restrictions row \<subseteq> row_restrictions row')"

lemma keeps_iff:
  "keeps_protection row row' \<longleftrightarrow>
    row' ''processing_lineage'' = row ''processing_lineage'' \<or> more_restricted row row'"
  by (simp add: keeps_protection_def more_restricted_def)

lemma more_restricted_trans:
  assumes "more_restricted a b" and "more_restricted b c"
  shows "more_restricted a c"
proof -
  from assms obtain k l m where
    "stored_lineage a = Minni_verified k" "stored_lineage b = Minni_verified l" "same_scope k l"
    "stored_lineage c = Minni_verified m" "same_scope l m"
    by (auto simp: more_restricted_def)
  moreover from this have "same_scope k m" by (simp add: same_scope_def)
  moreover have "row_restrictions a \<subseteq> row_restrictions c" using assms by (auto simp: more_restricted_def)
  ultimately show ?thesis unfolding more_restricted_def by blast
qed

lemma more_restricted_same:
  assumes "row' ''processing_lineage'' = row ''processing_lineage''"
  shows "more_restricted row' c = more_restricted row c" and "more_restricted c row' = more_restricted c row"
  using keeps_lineage [of row' row] assms by (simp_all add: more_restricted_def)

lemma keeps_trans:
  assumes "keeps_protection a b" and "keeps_protection b c"
  shows "keeps_protection a c"
proof (cases "b ''processing_lineage'' = a ''processing_lineage''")
  case True
  with assms(2) more_restricted_same(1) [of b a c] show ?thesis by (simp add: keeps_iff)
next
  case False
  with assms(1) have ab: "more_restricted a b" by (simp add: keeps_iff)
  with assms(2) more_restricted_same(2) [of c b a] more_restricted_trans [OF ab, of c] show ?thesis
    unfolding keeps_iff by blast
qed

definition table_keeps :: "db_table \<Rightarrow> db_table \<Rightarrow> bool" where
  "table_keeps tab tab' = (\<forall>i row. tab i = Some row \<longrightarrow> (\<exists>row'. tab' i = Some row' \<and> keeps_protection row row'))"

lemma table_keeps_refl [simp]: "table_keeps tab tab"
  by (simp add: table_keeps_def)

lemma table_keeps_trans: "table_keeps a b \<Longrightarrow> table_keeps b c \<Longrightarrow> table_keeps a c"
  unfolding table_keeps_def by (meson keeps_trans)

lemma table_keeps_upd:
  "(\<And>row. tab i = Some row \<Longrightarrow> keeps_protection row new) \<Longrightarrow> table_keeps tab (tab(i \<mapsto> new))"
  by (auto simp: table_keeps_def)

lemma keeps_set_fields:
  "''processing_lineage'' \<notin> fst ` set fs \<Longrightarrow> keeps_protection row (set_fields row fs)"
  by (simp add: keeps_protection_def set_fields_untouched)

lemma keeps_unprotected:
  "row ''processing_lineage'' = None \<Longrightarrow> row' ''processing_lineage'' = None \<Longrightarrow> keeps_protection row row'"
  by (simp add: keeps_protection_def)

subsection \<open>Every writer\<close>

lemma upsert_keeps: "table_keeps tab (snd (upsertMemory sdb now nowString i r tab))"
  by (auto simp: upsertMemory_def split: sum.splits option.splits
      intro!: table_keeps_upd keeps_unprotected dest: composed_top(6))

lemma forget_keeps: "table_keeps tab (deleteMemoryById now nowString i user Soft_inactivate tab)"
  by (auto simp: deleteMemoryById_def split: option.splits intro!: table_keeps_upd keeps_set_fields)

lemma restore_keeps: "table_keeps tab (snd (restoreMemoryById now nowString i user tab))"
  by (auto simp: restoreMemoryById_def split: option.splits intro!: table_keeps_upd keeps_set_fields)

lemma update_text_keeps: "table_keeps tab (snd (updateMemoryText sdb now nowString m tab))"
proof -
  have "keeps_protection row (set_fields row fs)" if "merge_fields sdb now nowString m = Inr fs" for row fs
    using merge_fields_keys(1) [OF that] by (intro keeps_set_fields) blast
  then show ?thesis
    by (auto simp: updateMemoryText_def split: option.splits sum.splits intro!: table_keeps_upd)
qed

lemma generic_fields_no_lineage:
  "''processing_lineage'' \<notin> fst ` set (replacement_fields now nowString p)"
  "''processing_lineage'' \<notin> fst ` set (previous_fields now nowString p)"
  by (auto simp: replacement_fields_def previous_fields_def Let_def split: option.splits)

lemma supersede_keeps: "table_keeps tab (snd (commit_supersede sdb now nowString p tab))"
proof (cases "fst (commit_supersede sdb now nowString p tab)")
  case None
  then obtain tab' where c: "commit_supersede sdb now nowString p tab = (None, tab')" by (metis prod.collapse)
  from c obtain prev new where ne: "pv_id (sc_previous (pl_call p)) \<noteq> rp_id (sc_replacement (pl_call p))"
    and prev: "tab (pv_id (sc_previous (pl_call p))) = Some prev"
    and new: "replacement_after sdb now nowString p tab new"
    and tab': "tab' = tab(rp_id (sc_replacement (pl_call p)) \<mapsto> new,
       pv_id (sc_previous (pl_call p)) \<mapsto> set_fields prev (previous_fields now nowString p))"
    by (rule commit_ok)
  have "keeps_protection row new" if "tab (rp_id (sc_replacement (pl_call p))) = Some row" for row
    using new that keeps_set_fields [OF generic_fields_no_lineage(1)]
    by (auto simp: replacement_after_def split: option.splits)
  then have "table_keeps tab (tab(rp_id (sc_replacement (pl_call p)) \<mapsto> new))" by (rule table_keeps_upd)
  moreover have "table_keeps (tab(rp_id (sc_replacement (pl_call p)) \<mapsto> new)) tab'"
    unfolding tab' using prev ne keeps_set_fields [OF generic_fields_no_lineage(2)]
    by (intro table_keeps_upd) auto
  ultimately show ?thesis using c table_keeps_trans by auto
next
  case (Some e)
  then show ?thesis by (simp add: commit_error)
qed

lemma create_keeps:
  assumes "producer_reachable w"
  shows "table_keeps tab (snd (createMemoryWithProcessingLineage env sdb now nowString authority minted i r w tab))"
proof (cases "createMemoryWithProcessingLineage env sdb now nowString authority minted i r w tab")
  case (Pair out tab')
  show ?thesis
  proof (cases out)
    case None
    with create_commit [OF assms] Pair show ?thesis by (fastforce intro: table_keeps_upd)
  next
    case (Some e)
    with Pair show ?thesis
      by (auto simp: createMemoryWithProcessingLineage_def dest: table_after_error)
  qed
qed

lemma merge_keeps:
  assumes "producer_reachable w1" and "producer_steps w1 w"
    and "mergeMemoryWithProcessingLineage env sdb now nowString authority minted m w1 tab1 w tab = (out, tab')"
  shows "table_keeps tab tab'"
proof (cases out)
  case None
  from merge_commit [OF assms(1,2) assms(3) [unfolded None]] obtain l row s fs where
    row: "tab (mi_id m) = Some row" "stored_lineage row = Minni_verified s" "same_scope s l"
    and fs: "merge_fields sdb now nowString m = Inr fs"
    and tab': "tab' = tab(mi_id m \<mapsto> merged_row row (joined_lineage s l) fs)" by blast
  have "lineage_ok (joined_lineage s l)"
    using row(2) joined_ok classify_ok by (auto simp: stored_lineage_def)
  note st = stored_merged [OF fs this, of row]
  have "same_scope s (joined_lineage s l)" by (simp add: joined_lineage_def same_scope_def)
  moreover have "row_restrictions row \<subseteq> row_restrictions (merged_row row (joined_lineage s l) fs)"
    by (simp add: row_restrictions_stored [OF st] row_restrictions_stored [OF row(2)] joined_set)
  ultimately have "keeps_protection row (merged_row row (joined_lineage s l) fs)"
    using st row(2) unfolding keeps_protection_def by blast
  with row(1) tab' show ?thesis by (auto intro: table_keeps_upd)
next
  case (Some e)
  with assms(3) show ?thesis by (auto simp: mergeMemoryWithProcessingLineage_def dest: table_after_error)
qed

lemma protected_supersede_keeps:
  assumes "producer_reachable w1" and "producer_steps w1 w"
    and "supersedeMemoryWithProcessingLineage env sdb now nowString authority minted walk c w1 tab1 tab2 w tab
      = (out, tab')"
  shows "table_keeps tab tab'"
proof (cases out)
  case None
  from supersede_commit [OF assms(1,2) assms(3) [unfolded None]] obtain l p where
    l: "authorised_lineage env authority minted (rp_userId (ps_replacement c)) w l"
    and ne: "rp_id (ps_replacement c) \<noteq> ps_previousId c"
    and read: "supersede_read walk tab1 tab2 c l (JStr (rp_userId (ps_replacement c))) = Inr p"
    and tx: "supersede_transaction sdb now nowString c p tab = Inr tab'" by blast
  let ?j = "sp_mergedLineage p" and ?new = "rp_id (ps_replacement c)"
  from protected_rows [OF read tx ne authorised_ok [OF l]] obtain prev new where
    prev: "tab (ps_previousId c) = Some prev"
    and tab': "tab' = tab(?new \<mapsto> new, ps_previousId c \<mapsto> set_fields prev (protected_previous_fields now nowString c p))"
    and new: "protected_replacement sdb now nowString c p tab = Inr new" and ok: "lineage_ok ?j"
    and restr: "set (ld_restrictions (pl_delivery ?j)) = set (ld_restrictions (pl_delivery l)) \<union> row_restrictions prev
          \<union> (case tab ?new of None \<Rightarrow> {} | Some old \<Rightarrow> row_restrictions old)"
    and scopes: "\<forall>i row. i \<in> {ps_previousId c, ?new} \<longrightarrow> tab i = Some row \<longrightarrow>
         (\<exists>s. stored_lineage row = Minni_verified s \<and> same_scope s ?j)" by blast
  note st = supersede_stores [OF new ok]
  have grow: "keeps_protection row row'"
    if "i \<in> {ps_previousId c, ?new}" "tab i = Some row" "stored_lineage row' = Minni_verified ?j" for i row row'
  proof -
    from scopes that obtain s where "stored_lineage row = Minni_verified s" "same_scope s ?j" by blast
    moreover have "row = prev \<or> tab ?new = Some row" using that(1,2) prev by auto
    with restr have "row_restrictions row \<subseteq> row_restrictions row'"
      unfolding row_restrictions_stored [OF that(3)] by (elim disjE) auto
    ultimately show ?thesis using that(3) unfolding keeps_protection_def by blast
  qed
  have "table_keeps tab (tab(?new \<mapsto> new))"
    using grow [of ?new] st by (auto intro: table_keeps_upd)
  moreover have "table_keeps (tab(?new \<mapsto> new)) tab'"
    unfolding tab' using grow [of "ps_previousId c"] st prev ne by (intro table_keeps_upd) auto
  ultimately show ?thesis by (rule table_keeps_trans)
next
  case (Some e)
  with assms(3) show ?thesis
    by (auto simp: supersedeMemoryWithProcessingLineage_def Let_def dest: table_after_error)
qed

lemma store_step_keeps:
  assumes "store_step s s'" and "producer_reachable (fst s)"
  shows "table_keeps (snd s) (snd s') \<and> producer_reachable (fst s')"
  using assms
proof cases
  case (policy w w' tab)
  with assms(2) show ?thesis by (auto intro: rtranclp.rtrancl_into_rtrancl)
next
  case (upsert sdb now nowString i r tab out tab' w)
  with upsert_keeps [of tab sdb now nowString i r] assms(2) show ?thesis by simp
next
  case (forget now nowString i user tab tab' w)
  with forget_keeps [of tab now nowString i user] assms(2) show ?thesis by simp
next
  case (restore now nowString i user tab b tab' w)
  with restore_keeps [of tab now nowString i user] assms(2) show ?thesis by simp
next
  case (update_text sdb now nowString m tab out tab' w)
  with update_text_keeps [of tab sdb now nowString m] assms(2) show ?thesis by simp
next
  case (supersede sdb now nowString p tab out tab' w)
  with supersede_keeps [of tab sdb now nowString p] assms(2) show ?thesis by simp
next
  case (protected_create env sdb now nowString authority minted i r w tab out tab')
  with create_keeps [of w tab env sdb now nowString authority minted i r] assms(2) show ?thesis by simp
next
  case (protected_merge w1 w env sdb now nowString authority minted m tab1 tab out tab')
  with merge_keeps assms(2) show ?thesis by simp
next
  case (protected_supersede w1 w env sdb now nowString authority minted walk c tab1 tab2 tab out tab')
  with protected_supersede_keeps assms(2) show ?thesis by simp
qed

lemma store_steps_keep:
  "store_step\<^sup>*\<^sup>* s s' \<Longrightarrow> producer_reachable (fst s) \<Longrightarrow> table_keeps (snd s) (snd s') \<and> producer_reachable (fst s')"
proof (induction rule: rtranclp_induct)
  case (step y z)
  with store_step_keeps [of y z] table_keeps_trans show ?case by blast
qed simp

section \<open>The laws of all writers\<close>



text \<open>The generic writers never touch a protected row: an upsert or a text update of it is refused with
  \<open>lineage_present\<close>, and a committed supersede leaves every protected row as it was.\<close>

theorem generic_writers_spare_protected:
  assumes "tab i = Some row" and "row ''processing_lineage'' \<noteq> None"
  shows "snd (upsertMemory sdb now nowString k r tab) i = Some row
    \<and> snd (updateMemoryText sdb now nowString m tab) i = Some row
    \<and> snd (commit_supersede sdb now nowString p tab) i = Some row
    \<and> (fst (upsertMemory sdb now nowString i r tab) = Some (Refused P_lineage_present)
        \<longleftrightarrow> (\<exists>new. composeMemoryRecord sdb now nowString r None None = Inr new))
    \<and> (fst (updateMemoryText sdb now nowString (m\<lparr>mi_id := i\<rparr>) tab) = Some (Refused P_lineage_present)
        \<longleftrightarrow> js_trim (mi_newText m) \<noteq> [])"
proof (intro conjI)
  show "snd (upsertMemory sdb now nowString k r tab) i = Some row"
    using assms by (auto simp: upsertMemory_def split: sum.splits option.splits)
  show "snd (updateMemoryText sdb now nowString m tab) i = Some row"
    using assms by (auto simp: updateMemoryText_def split: sum.splits option.splits)
  show "snd (commit_supersede sdb now nowString p tab) i = Some row"
  proof (cases "commit_supersede sdb now nowString p tab")
    case (Pair out tab')
    show ?thesis
    proof (cases out)
      case None
      from Pair [unfolded None] obtain prev new where
        "tab (pv_id (sc_previous (pl_call p))) = Some prev"
        "sameGenericSupersedeBranchWhere sdb (pl_previous_witness p) prev"
        and new: "replacement_after sdb now nowString p tab new"
        and tab': "tab' = tab(rp_id (sc_replacement (pl_call p)) \<mapsto> new,
          pv_id (sc_previous (pl_call p)) \<mapsto> set_fields prev (previous_fields now nowString p))"
        by (rule commit_ok)
      then have "i \<noteq> pv_id (sc_previous (pl_call p))"
        using assms by (auto simp: sameGenericSupersedeBranchWhere_def genericSupersedeBranchWhere_def split: prod.splits)
      moreover have "i \<noteq> rp_id (sc_replacement (pl_call p))"
        using assms new
        by (auto simp: replacement_after_def sameGenericSupersedeBranchWhere_def genericSupersedeBranchWhere_def
            split: option.splits prod.splits)
      ultimately show ?thesis using assms(1) by (simp add: Pair tab')
    next
      case (Some e)
      with Pair assms(1) commit_error [of sdb now nowString p tab e] show ?thesis by simp
    qed
  qed
  show "fst (upsertMemory sdb now nowString i r tab) = Some (Refused P_lineage_present)
      \<longleftrightarrow> (\<exists>new. composeMemoryRecord sdb now nowString r None None = Inr new)"
    using assms by (auto simp: upsertMemory_def split: sum.splits)
  show "fst (updateMemoryText sdb now nowString (m\<lparr>mi_id := i\<rparr>) tab) = Some (Refused P_lineage_present)
      \<longleftrightarrow> js_trim (mi_newText m) \<noteq> []"
    using assms by (simp add: updateMemoryText_def)
qed

theorem generic_writers_spare_protected_witness:
  "fst (updateMemoryText demo_sdb (JStr ''now'') ''now'' demo_merge demo_protected_table) = Some (Refused P_lineage_present)"
proof -
  have row: "demo_protected_table ''a'' = Some (the (demo_protected_table ''a''))"
    "the (demo_protected_table ''a'') ''processing_lineage'' \<noteq> None"
    by (simp_all add: demo_protected_table_def)
  have "js_trim (mi_newText demo_merge) \<noteq> []" by code_simp
  moreover have "demo_merge\<lparr>mi_id := ''a''\<rparr> = demo_merge" by (simp add: demo_merge_def)
  ultimately show ?thesis
    using generic_writers_spare_protected [of demo_protected_table "''a''" "the (demo_protected_table ''a'')" demo_sdb
        "JStr ''now''" "''now''" _ _ demo_merge] row by simp
qed

text \<open>C19: A revocation between the preflight and the transaction stops a protected write: with the registration of
  its mint revoked in the world of the commit, no create, merge or supersede succeeds or changes the
  table, whatever the preflight had read.\<close>

theorem revocation_stops_writes:
  assumes "producer_reachable w" and "revokeProducerRegistration authority ref w = (Inr (), w2)"
    and "pw_minted w2 a = Some mb" and "mb_state mb = authority"
    and "pb_registrationRef (mb_context mb) = js_trim ref"
  shows "(\<exists>e. createMemoryWithProcessingLineage env sdb now nowString authority (RRef a) i r w2 tab = (Some e, tab))
    \<and> (\<exists>e. mergeMemoryWithProcessingLineage env sdb now nowString authority (RRef a) m w1 tab1 w2 tab = (Some e, tab))
    \<and> (\<exists>e. supersedeMemoryWithProcessingLineage env sdb now nowString authority (RRef a) walk c w1 tab1 tab2 w2 tab
          = (Some e, tab))"
proof -
  have stop: "\<exists>why. under_mint env authority (RRef a) user f w2 = Inl (Refused why)"
    for user and f :: "lineage \<Rightarrow> jval \<Rightarrow> store_error + db_table"
    by (rule under_mint_revoked [OF assms])
  have c: "\<exists>e. createMemoryWithProcessingLineage env sdb now nowString authority (RRef a) i r w2 tab = (Some e, tab)"
    unfolding createMemoryWithProcessingLineage_def table_after_def
    using stop by (auto split: sum.splits) (metis sum.distinct(1))
  have m: "\<exists>e. mergeMemoryWithProcessingLineage env sdb now nowString authority (RRef a) m w1 tab1 w2 tab = (Some e, tab)"
    unfolding mergeMemoryWithProcessingLineage_def table_after_def
    using stop by (auto split: sum.splits) (metis sum.distinct(1))
  have s: "\<exists>e. supersedeMemoryWithProcessingLineage env sdb now nowString authority (RRef a) walk c w1 tab1 tab2 w2 tab
          = (Some e, tab)"
    unfolding supersedeMemoryWithProcessingLineage_def table_after_def Let_def
    using stop by (auto split: sum.splits) (metis sum.distinct(1))
  from c m s show ?thesis by blast
qed

abbreviation revoked_world :: producer_world where
  "revoked_world \<equiv> snd (revokeProducerRegistration 3 ''r1'' minted_world)"

theorem revocation_stops_writes_witness:
  "\<exists>e. mergeMemoryWithProcessingLineage p_clock demo_sdb (JStr ''now'') ''now'' 3 (RRef 9) demo_merge
     minted_world demo_protected_table revoked_world demo_protected_table = (Some e, demo_protected_table)"
proof -
  have "fst (revokeProducerRegistration 3 ''r1'' minted_world) = Inr ()" by code_simp
  then have rev: "revokeProducerRegistration 3 ''r1'' minted_world = (Inr (), revoked_world)" by (metis prod.collapse)
  have "(case pw_minted revoked_world 9 of
           Some mb \<Rightarrow> mb_state mb = 3 \<and> pb_registrationRef (mb_context mb) = js_trim ''r1''
         | None \<Rightarrow> False)" by code_simp
  then obtain mb where "pw_minted revoked_world 9 = Some mb"
    "mb_state mb = 3" "pb_registrationRef (mb_context mb) = js_trim ''r1''"
    by (auto split: option.splits)
  from revocation_stops_writes [OF minted_reachable rev this] show ?thesis by blast
qed

end
