(* ===== verification/Record_Id.thy ===== *)
theory Record_Id
  imports Runir_Prelude
begin

text \<open>
  Record identifiers as the database client hands them out, and their bare form
  (\<open>extractId\<close> in \<open>src/src/storage/surreal/surreal-client.ts\<close>): an object with an \<open>id\<close>, or a string
  with a table name in front.
\<close>

datatype raw_id = Id_object jstr | Id_string jstr

definition extractId :: "raw_id \<Rightarrow> jstr" where
  "extractId r =
     (case r of
        Id_object s \<Rightarrow> s
      | Id_string s \<Rightarrow>
          (let name = takeWhile (\<lambda>c. c \<noteq> CHR '':'') s
           in if name \<noteq> [] \<and> length name < length s then drop (Suc (length name)) s else s))"

lemma extractId_plain: "CHR '':'' \<notin> set s \<Longrightarrow> extractId (Id_string s) = s"
proof -
  assume "CHR '':'' \<notin> set s"
  then have "takeWhile (\<lambda>c. c \<noteq> CHR '':'') s = s" by (auto simp: takeWhile_eq_all_conv)
  then show ?thesis by (simp add: extractId_def Let_def del: takeWhile_eq_all_conv)
qed

end
