(* ===== verification/Js_Text.thy ===== *)
theory Js_Text
  imports Js_Value
begin

text \<open>
  The text of a value: \<open>String(v)\<close>, with the platform's text of numbers, dates and other objects and
  its collation as parameters.
\<close>

record text_env =
  te_number :: "jnum \<Rightarrow> jstr"
  te_date :: "int option \<Rightarrow> jstr"
  te_other :: "jval \<Rightarrow> jstr"
  te_collate :: "jstr \<Rightarrow> jstr \<Rightarrow> int"

definition js_string :: "text_env \<Rightarrow> jval \<Rightarrow> jstr" where
  "js_string te v =
     (case v of
        JStr s \<Rightarrow> s
      | JBool b \<Rightarrow> (if b then ''true'' else ''false'')
      | JNum n \<Rightarrow> te_number te n
      | JNull \<Rightarrow> ''null''
      | JUndef \<Rightarrow> ''undefined''
      | _ \<Rightarrow> te_other te v)"

end
