(* ===== verification/Supersede_Reconcile.thy ===== *)
theory Supersede_Reconcile
  imports Protection_Invariant Record_Id Js_Text
begin

text \<open>
  The readback after a protected supersede whose transaction failed ambiguously
  (\<open>canonicalMetadataValue\<close> to \<open>supersedeOutcome\<close> of
  \<open>src/src/storage/surreal/memory-crud-store.ts\<close>): the metadata of both rows are compared, as texts,
  with what a commit and what a rollback would have left. The texts of numbers and of dates are the
  platform's. The identifier of a row is the key it was read by, and is the same on both sides.
\<close>

section \<open>Canonical texts\<close>

definition hex_char :: "nat \<Rightarrow> char" where
  "hex_char n = (if n < 10 then char_of (48 + n) else char_of (87 + n))"

definition json_escape :: "char \<Rightarrow> jstr" where
  "json_escape c =
     (let n = code_unit c
      in if c = CHR 0x22 \<or> c = CHR 0x5C then [CHR 0x5C, c]
         else if n = 8 then [CHR 0x5C, CHR ''b''] else if n = 9 then [CHR 0x5C, CHR ''t'']
         else if n = 10 then [CHR 0x5C, CHR ''n''] else if n = 12 then [CHR 0x5C, CHR ''f'']
         else if n = 13 then [CHR 0x5C, CHR ''r'']
         else if n < 32 then CHR 0x5C # ''u00'' @ [hex_char (n div 16), hex_char (n mod 16)]
         else [c])"

lemma json_escape_code [code]:
  "json_escape c =
     (if c = CHR 0x22 \<or> c = CHR 0x5C then [CHR 0x5C, c]
      else if c = CHR 0x08 then [CHR 0x5C, CHR ''b''] else if c = CHR 0x09 then [CHR 0x5C, CHR ''t'']
      else if c = CHR 0x0A then [CHR 0x5C, CHR ''n''] else if c = CHR 0x0C then [CHR 0x5C, CHR ''f'']
      else if c = CHR 0x0D then [CHR 0x5C, CHR ''r'']
      else if char_le (CHR '' '') c then [c]
      else CHR 0x5C # ''u00'' @ [hex_char (code_unit c div 16), hex_char (code_unit c mod 16)])"
  by (simp add: json_escape_def Let_def char_le_def code_unit_def of_char_eq_iff [symmetric, where ?'a = nat])

definition json_quote :: "jstr \<Rightarrow> jstr" where
  "json_quote s = CHR 0x22 # concat (map json_escape s) @ [CHR 0x22]"

definition join_with :: "jstr \<Rightarrow> jstr list \<Rightarrow> jstr" where
  "join_with sep xs = (case xs of [] \<Rightarrow> [] | y # ys \<Rightarrow> y @ concat (map (\<lambda>z. sep @ z) ys))"

text \<open>\<open>JSON.stringify\<close> with the entries of every object sorted by key; None where it omits a value.\<close>

fun json_text :: "text_env \<Rightarrow> jval \<Rightarrow> jstr option" where
  "json_text te JUndef = None"
| "json_text te JNull = Some ''null''"
| "json_text te (JBool b) = Some (if b then ''true'' else ''false'')"
| "json_text te (JNum n) = Some (case n of Fin _ \<Rightarrow> te_number te n | _ \<Rightarrow> ''null'')"
| "json_text te (JStr s) = Some (json_quote s)"
| "json_text te (JArr xs) =
     Some (''['' @ join_with '','' (map (\<lambda>x. case json_text te x of None \<Rightarrow> ''null'' | Some t \<Rightarrow> t) xs) @ '']'')"
| "json_text te (JObj plain fs) =
     (let entries = concat (map
            (\<lambda>f. case (fst f, json_text te (snd f)) of (KStr k, Some t) \<Rightarrow> [(k, t)] | _ \<Rightarrow> []) fs)
      in Some (''{'' @ join_with '',''
                (map (\<lambda>(k, t). json_quote k @ '':'' @ t) (js_sort (\<lambda>a b. te_collate te (fst a) (fst b)) entries)) @ ''}''))"
| "json_text te (JDate t) = Some (case t of None \<Rightarrow> ''null'' | Some _ \<Rightarrow> json_quote (te_date te t))"
| "json_text te (JOther n) = None"

definition canonicalMetadataValue :: "text_env \<Rightarrow> jval \<Rightarrow> jstr" where
  "canonicalMetadataValue te v =
     (case v of
        JUndef \<Rightarrow> ''<NONE>''
      | JNull \<Rightarrow> ''<NULL>''
      | JDate t \<Rightarrow> te_date te t
      | JStr s \<Rightarrow> s
      | JObj _ _ \<Rightarrow>
          (if jget v ''id'' \<noteq> JUndef then ''<record:'' @ js_string te (jget v ''id'') @ ''>''
           else the (json_text te v))
      | JArr _ \<Rightarrow> the (json_text te v)
      | _ \<Rightarrow> js_string te v)"

definition record_name :: "text_env \<Rightarrow> jval \<Rightarrow> jstr option" where
  "record_name te v = (if jhas v ''id'' then Some (js_string te (jget v ''id'')) else None)"

definition sameMetadataValue :: "text_env \<Rightarrow> jval \<Rightarrow> jval \<Rightarrow> bool" where
  "sameMetadataValue te left right =
     (canonicalMetadataValue te left = canonicalMetadataValue te right
      \<or> (case (record_name te left, right) of
           (Some n, JStr s) \<Rightarrow> n = extractId (Id_string s)
         | _ \<Rightarrow>
             (case (record_name te right, left) of
                (Some n, JStr s) \<Rightarrow> extractId (Id_string s) = n
              | _ \<Rightarrow> False)))"

definition sameSupersedeSnapshot :: "text_env \<Rightarrow> db_row option \<Rightarrow> db_row option \<Rightarrow> bool" where
  "sameSupersedeSnapshot te left right =
     (case (left, right) of
        (Some l, Some r) \<Rightarrow> list_all (\<lambda>f. sameMetadataValue te (column l f) (column r f)) snapshot_fields
      | (None, None) \<Rightarrow> True
      | _ \<Rightarrow> False)"

section \<open>Expected states\<close>

definition expected_previous :: "jstr \<Rightarrow> protected_supersede \<Rightarrow> supersede_preflight \<Rightarrow> db_row" where
  "expected_previous nowString c p =
     (let new = JStr (rp_id (ps_replacement c)); root = JStr (sp_lineageRootId p);
          provenance = JStr (ps_provenance c);
          reason = JStr (case ps_inactiveReason c of None \<Rightarrow> ''superseded'' | Some s \<Rightarrow> s)
      in set_fields (sp_previous p)
           ([(''processing_lineage'', lineage_value (sp_mergedLineage p)), (''active'', JBool False),
             (''inactive_at'', JStr nowString), (''inactive_reason'', reason), (''superseded_by'', new),
             (''lineage_root_id'', root), (''supersede_provenance'', provenance),
             (''payload.active'', JBool False), (''payload.inactiveAt'', JStr nowString),
             (''payload.inactiveReason'', reason), (''payload.supersededById'', new),
             (''payload.lineageRootId'', root), (''payload.supersede_provenance'', provenance),
             (''payload.updatedAt'', JStr nowString), (''updated_at'', JStr nowString)]
            @ (case ps_staleFlags c of
                 None \<Rightarrow> []
               | Some (since, by_id) \<Rightarrow>
                   [(''payload.isStale'', JBool True), (''payload.staleSince'', JStr since),
                    (''payload.contradictedBy'', JStr by_id)])))"

definition expected_replacement :: "jstr \<Rightarrow> protected_supersede \<Rightarrow> supersede_preflight \<Rightarrow> db_row" where
  "expected_replacement nowString c p =
     (let r = ps_replacement c; prev = JStr (ps_previousId c); root = JStr (sp_lineageRootId p);
          provenance = JStr (ps_provenance c);
          written = [(''processing_lineage'', lineage_value (sp_mergedLineage p)), (''supersedes'', prev),
                     (''lineage_root_id'', root), (''supersede_provenance'', provenance),
                     (''updated_at'', JStr nowString), (''payload.supersedesId'', prev),
                     (''payload.lineageRootId'', root), (''payload.updatedAt'', JStr nowString),
                     (''payload.writeSource'', JStr (rp_writeSource r)),
                     (''payload.arbitrationOutcome'', JStr ''supersede''),
                     (''payload.supersede_provenance'', provenance)]
      in case sp_replacement p of
           Some snapshot \<Rightarrow> set_fields snapshot written
         | None \<Rightarrow>
             set_fields (\<lambda>_. None)
               ([(''user_id'', JStr (rp_userId r)), (''payload.userId'', JStr (rp_userId r)),
                 (''active'', JBool True), (''payload.active'', JBool True)] @ written))"

datatype supersede_outcome = Outcome_committed | Outcome_rolled_back | Outcome_unresolved

definition supersedeOutcome ::
  "text_env \<Rightarrow> jstr \<Rightarrow> protected_supersede \<Rightarrow> supersede_preflight \<Rightarrow> db_row option \<Rightarrow> db_row option
    \<Rightarrow> supersede_outcome" where
  "supersedeOutcome te nowString c p previous replacement =
     (if sameSupersedeSnapshot te previous (Some (expected_previous nowString c p))
         \<and> sameSupersedeSnapshot te replacement (Some (expected_replacement nowString c p))
      then Outcome_committed
      else if sameSupersedeSnapshot te previous (Some (sp_previous p))
              \<and> rp_id (ps_replacement c) \<noteq> ps_previousId c
              \<and> (case sp_replacement p of
                   None \<Rightarrow> replacement = None
                 | Some snapshot \<Rightarrow> sameSupersedeSnapshot te replacement (Some snapshot))
      then Outcome_rolled_back
      else Outcome_unresolved)"

text \<open>The readback: both rows of the table at that moment.\<close>

definition reconcile ::
  "text_env \<Rightarrow> jstr \<Rightarrow> protected_supersede \<Rightarrow> supersede_preflight \<Rightarrow> db_table \<Rightarrow> supersede_outcome" where
  "reconcile te nowString c p tab =
     supersedeOutcome te nowString c p (readSupersedeMetadata tab (ps_previousId c))
       (readSupersedeMetadata tab (rp_id (ps_replacement c)))"

section \<open>Laws\<close>

lemma same_value_refl [simp]: "sameMetadataValue te v v"
  by (simp add: sameMetadataValue_def)

lemma same_snapshot_refl [simp]: "sameSupersedeSnapshot te row row"
  by (cases row) (simp_all add: sameSupersedeSnapshot_def list_all_iff)

lemma true_is_not_false: "\<not> sameMetadataValue te (JBool True) (JBool False)"
  by (simp add: sameMetadataValue_def canonicalMetadataValue_def js_string_def record_name_def jhas_def)

lemma active_in_snapshot: "sameSupersedeSnapshot te (Some l) (Some r) \<Longrightarrow>
    sameMetadataValue te (column l ''active'') (column r ''active'')"
  by (simp add: sameSupersedeSnapshot_def snapshot_fields_def)

lemma expected_previous_active: "column (expected_previous nowString c p) ''active'' = JBool False"
  by (simp add: expected_previous_def Let_def column_def set_fields_value split: option.splits prod.splits)

lemma read_field:
  "f \<in> set snapshot_fields \<Longrightarrow> tab i = Some row \<Longrightarrow>
    (\<exists>s. readSupersedeMetadata tab i = Some s \<and> column s f = column row f)"
  by (auto simp: readSupersedeMetadata_def column_def)

text \<open>Rows that agree on the fields of the snapshot, but for the text of the instant, are the same.\<close>

definition same_but_now :: "jval \<Rightarrow> jstr \<Rightarrow> jval \<Rightarrow> jval \<Rightarrow> bool" where
  "same_but_now now nowString v v' = (v = v' \<or> v = now \<and> v' = JStr nowString)"

lemma same_rows:
  assumes "sameMetadataValue te now (JStr nowString)" and "tab i = Some row"
    and "\<And>f. f \<in> set snapshot_fields \<Longrightarrow> same_but_now now nowString (column row f) (column expected f)"
  shows "sameSupersedeSnapshot te (readSupersedeMetadata tab i) (Some expected)"
proof -
  have "sameMetadataValue te (column (\<lambda>f. if f \<in> set snapshot_fields then row f else None) f) (column expected f)"
    if "f \<in> set snapshot_fields" for f
    using assms(3) [OF that] assms(1) that by (auto simp: same_but_now_def column_def)
  with assms(2) show ?thesis
    by (simp add: sameSupersedeSnapshot_def readSupersedeMetadata_def list_all_iff)
qed

lemma column_set_fields:
  "column (set_fields row fs) f = (case map_of (rev fs) f of None \<Rightarrow> column row f | Some v \<Rightarrow> v)"
  by (simp add: column_def set_fields_value split: option.splits)

lemma same_set_fields:
  assumes "list_all2 (\<lambda>(k, v) (k', v'). k = k' \<and> same_but_now now nowString v v') fs gs"
    and "same_but_now now nowString (column row f) (column row' f)"
  shows "same_but_now now nowString (column (set_fields row fs) f) (column (set_fields row' gs) f)"
  using assms
proof (induction fs gs arbitrary: row row' rule: list_all2_induct)
  case Nil
  then show ?case by (simp add: set_fields_def)
next
  case (Cons x xs y ys)
  have "same_but_now now nowString (column (set_field row x) f) (column (set_field row' y) f)"
    using Cons.hyps(1) Cons.prems
    by (cases x; cases y) (auto simp: set_field_def column_def)
  from Cons.IH [OF this] show ?case by (simp add: set_fields_def)
qed

lemma same_but_now_refl [simp]: "same_but_now now nowString v v" "same_but_now now nowString now (JStr nowString)"
  by (simp_all add: same_but_now_def)

lemma previous_as_expected:
  assumes "sameSupersedeBranchWhere (sp_previous p) prev" and "f \<in> set snapshot_fields"
  shows "same_but_now now nowString (column (set_fields prev (protected_previous_fields now nowString c p)) f)
    (column (expected_previous nowString c p) f)"
  unfolding expected_previous_def protected_previous_fields_def Let_def
  by (rule same_set_fields) (simp_all add: snapshot_column [OF assms] split: option.split prod.split)

lemma replacement_as_expected:
  assumes "sp_replacement p = Some snapshot" and "sameSupersedeBranchWhere snapshot old" and "f \<in> set snapshot_fields"
  shows "same_but_now now nowString (column (set_fields old (protected_replacement_fields now nowString c p)) f)
    (column (expected_replacement nowString c p) f)"
  unfolding expected_replacement_def protected_replacement_fields_def Let_def assms(1) option.case
  by (rule same_set_fields) (simp_all add: snapshot_column [OF assms(2,3)])

definition stale_keys :: "jstr set" where
  "stale_keys = {''isStale'', ''staleSince'', ''contradictedBy''}"

lemma created_as_expected:
  assumes "composeMemoryRecord sdb now nowString (protected_input c p) (Some (sp_mergedLineage p)) None = Inr row"
    and "sp_replacement p = None" and "fst ` set (rp_metadata (ps_replacement c)) \<inter> stale_keys = {}"
    and "f \<in> set snapshot_fields"
  shows "same_but_now now nowString (column (set_fields row [(''supersede_provenance'', JStr (ps_provenance c))]) f)
    (column (expected_replacement nowString c p) f)"
proof -
  let ?i = "protected_input c p"
  note top = composed_top [OF assms(1)]
  have lc: "ri_lifecycle ?i = \<lparr>lc_active = True, lc_inactiveAt = None, lc_inactiveReason = None,
      lc_supersededById = None, lc_supersedesId = Some (ps_previousId c), lc_lineageRootId = Some (sp_lineageRootId p)\<rparr>"
    by (simp add: protected_input_def Let_def default_active_lifecycle_def)
  have own: "row (''payload.'' @ k) = (let v = payload_value (writer_payload ?i nowString) k in if v = JUndef then None else Some v)"
    if "k \<in> fst ` set (writer_payload ?i nowString)" for k
    using composed_payload [OF assms(1), of k] record_payload_own [OF that, of True] that
    by (auto simp: writer_payload_keys)
  have meta: "row (''payload.'' @ k) = (let v = payload_value (ri_metadata ?i) k in if v = JUndef then None else Some v)"
    if "k \<notin> fst ` set (writer_payload ?i nowString)" "k \<noteq> ''processing_lineage''" "k \<noteq> ''pinnedAt''" for k
    using composed_payload [OF assms(1), of k] record_payload_metadata [OF that(1,2)] that(3) by simp
  have none: "payload_value (ri_metadata ?i) k = JUndef" if "k \<in> stale_keys" for k
  proof -
    have "map_of (rev (ri_metadata ?i)) k = None"
      using assms(3) that by (auto simp: map_of_eq_None_iff protected_input_def Let_def stale_keys_def)
    then show ?thesis by (simp add: payload_value_def)
  qed
  have written: "payload_value (ri_metadata ?i) ''writeSource'' = JStr (rp_writeSource (ps_replacement c))"
    "payload_value (ri_metadata ?i) ''arbitrationOutcome'' = JStr ''supersede''"
    "payload_value (ri_metadata ?i) ''supersede_provenance'' = JStr (ps_provenance c)"
    by (simp_all add: payload_value_def protected_input_def Let_def)
  note pay = own [of "''userId''"] own [of "''active''"] own [of "''inactiveAt''"] own [of "''inactiveReason''"]
    own [of "''supersededById''"] own [of "''supersedesId''"] own [of "''lineageRootId''"] own [of "''updatedAt''"]
    meta [of "''supersede_provenance''"] meta [of "''writeSource''"] meta [of "''arbitrationOutcome''"]
    meta [of "''isStale''"] meta [of "''staleSince''"] meta [of "''contradictedBy''"]
  have cols: "column row ''user_id'' = JStr (rp_userId (ps_replacement c))" "column row ''active'' = JBool True"
    "column row ''supersedes'' = JStr (ps_previousId c)" "column row ''superseded_by'' = JUndef"
    "column row ''lineage_root_id'' = JStr (sp_lineageRootId p)" "column row ''inactive_at'' = JUndef"
    "column row ''inactive_reason'' = JUndef" "column row ''updated_at'' = now"
    "column row ''processing_lineage'' = lineage_value (sp_mergedLineage p)"
    by (simp_all add: column_def top lc)
  have pcols: "column row ''payload.userId'' = JStr (rp_userId (ps_replacement c))"
    "column row ''payload.active'' = JBool True" "column row ''payload.inactiveAt'' = JUndef"
    "column row ''payload.inactiveReason'' = JUndef" "column row ''payload.supersededById'' = JUndef"
    "column row ''payload.supersedesId'' = JStr (ps_previousId c)"
    "column row ''payload.lineageRootId'' = JStr (sp_lineageRootId p)"
    "column row ''payload.updatedAt'' = JStr nowString"
    "column row ''payload.supersede_provenance'' = JStr (ps_provenance c)"
    "column row ''payload.writeSource'' = JStr (rp_writeSource (ps_replacement c))"
    "column row ''payload.arbitrationOutcome'' = JStr ''supersede''" "column row ''payload.isStale'' = JUndef"
    "column row ''payload.staleSince'' = JUndef" "column row ''payload.contradictedBy'' = JUndef"
    using pay by (simp_all add: column_def writer_payload_keys writer_payload_value lc written none stale_keys_def)
  have "list_all (\<lambda>f. same_but_now now nowString
      (column (set_fields row [(''supersede_provenance'', JStr (ps_provenance c))]) f)
      (column (expected_replacement nowString c p) f)) snapshot_fields"
    unfolding snapshot_fields_def expected_replacement_def assms(2) Let_def option.case
    by (simp add: column_set_fields cols pcols) (simp add: column_def)
  with assms(4) show ?thesis by (simp add: list_all_iff)
qed

lemma committed_outcome:
  assumes "supersede_transaction sdb now nowString c p tab = Inr tab'"
    and "rp_id (ps_replacement c) \<noteq> ps_previousId c" and "sameMetadataValue te now (JStr nowString)"
    and "sp_replacement p = None \<longrightarrow> fst ` set (rp_metadata (ps_replacement c)) \<inter> stale_keys = {}"
  shows "reconcile te nowString c p tab' = Outcome_committed"
proof -
  from supersede_transaction_ok [OF assms(1,2)] obtain new prev where
    new: "protected_replacement sdb now nowString c p tab = Inr new"
    and prev: "sameSupersedeBranchWhere (sp_previous p) prev"
    and tab': "tab' = tab(rp_id (ps_replacement c) \<mapsto> new,
        ps_previousId c \<mapsto> set_fields prev (protected_previous_fields now nowString c p))" by blast
  have "sameSupersedeSnapshot te (readSupersedeMetadata tab' (ps_previousId c)) (Some (expected_previous nowString c p))"
    by (rule same_rows [OF assms(3) _ previous_as_expected [OF prev]]) (simp_all add: tab')
  moreover have "same_but_now now nowString (column new f) (column (expected_replacement nowString c p) f)"
    if "f \<in> set snapshot_fields" for f
  proof (cases "sp_replacement p")
    case None
    with new obtain row where
      "composeMemoryRecord sdb now nowString (protected_input c p) (Some (sp_mergedLineage p)) None = Inr row"
      "new = set_fields row [(''supersede_provenance'', JStr (ps_provenance c))]"
      by (auto simp: protected_replacement_def Let_def split: sum.splits if_splits)
    with created_as_expected [OF this(1) None _ that] None assms(4) show ?thesis by simp
  next
    case (Some snapshot)
    with new obtain old where "sameSupersedeBranchWhere snapshot old"
      "new = set_fields old (protected_replacement_fields now nowString c p)"
      by (auto simp: protected_replacement_def Let_def split: option.splits if_splits)
    with replacement_as_expected [OF Some this(1) that] show ?thesis by simp
  qed
  then have "sameSupersedeSnapshot te (readSupersedeMetadata tab' (rp_id (ps_replacement c)))
      (Some (expected_replacement nowString c p))"
    using assms(2) by (intro same_rows [OF assms(3), of tab' _ new]) (simp_all add: tab')
  ultimately show ?thesis by (simp add: reconcile_def supersedeOutcome_def)
qed

text \<open>A previous row that still is active is never reported as committed.\<close>

lemma active_not_committed:
  assumes "readSupersedeMetadata tab (ps_previousId c) = Some snapshot" and "column snapshot ''active'' = JBool True"
  shows "reconcile te nowString c p tab \<noteq> Outcome_committed"
  using assms true_is_not_false [of te] active_in_snapshot [of te snapshot "expected_previous nowString c p"]
    expected_previous_active [of nowString c p]
  by (auto simp: reconcile_def supersedeOutcome_def)

definition demo_texts :: text_env where
  "demo_texts = \<lparr>te_number = (\<lambda>_. ''0''), te_date = (\<lambda>_. ''''), te_other = (\<lambda>_. ''''), te_collate = (\<lambda>_ _. 0)\<rparr>"

definition demo_lineage_minted :: lineage where
  "demo_lineage_minted =
     (case pw_minted minted_world 9 of
        Some mb \<Rightarrow> mb_lineage mb
      | None \<Rightarrow> demo_verified)"

definition demo_preflight :: supersede_preflight where
  "demo_preflight =
     (case supersede_read (table_db (pointers demo_protected_table) ''u1'') demo_protected_table demo_protected_table
             demo_supersede demo_lineage_minted (JStr ''u1'') of
        Inr p \<Rightarrow> p
      | Inl _ \<Rightarrow> \<lparr>sp_previous = (\<lambda>_. None), sp_replacement = None, sp_mergedLineage = demo_verified,
                 sp_lineageRootId = ''''\<rparr>)"


lemma demo_preflight_read:
  "supersede_read (table_db (pointers demo_protected_table) ''u1'') demo_protected_table demo_protected_table
     demo_supersede demo_lineage_minted (JStr ''u1'') = Inr demo_preflight"
proof -
  have "case supersede_read (table_db (pointers demo_protected_table) ''u1'') demo_protected_table demo_protected_table
     demo_supersede demo_lineage_minted (JStr ''u1'') of Inr _ \<Rightarrow> True | Inl _ \<Rightarrow> False" by code_simp
  then show ?thesis unfolding demo_preflight_def by (auto split: sum.splits)
qed

lemma demo_minted_ok: "lineage_ok demo_lineage_minted"
  by code_simp


text \<open>
  The condition on the metadata is needed: a new row whose metadata say \<open>isStale\<close> has committed, and
  the readback calls it unresolved.
\<close>

definition demo_stale_supersede :: protected_supersede where
  "demo_stale_supersede =
     demo_supersede\<lparr>ps_replacement := (ps_replacement demo_supersede)\<lparr>rp_metadata := [(''isStale'', JBool False)]\<rparr>\<rparr>"

lemma stale_metadata_unresolved:
  "case supersede_transaction demo_sdb (JStr ''now'') ''now'' demo_stale_supersede demo_preflight demo_protected_table of
     Inr tab' \<Rightarrow> reconcile demo_texts ''now'' demo_stale_supersede demo_preflight tab' = Outcome_unresolved
   | Inl _ \<Rightarrow> False"
  by code_simp

end
