(* ===== verification/Search_Hit.thy ===== *)
theory Search_Hit
  imports Processing_Lineage "HOL-Library.Multiset"
begin

text \<open>
  The hit that travels through retrieval (\<open>src/src/domain/memory/retrieval.ts\<close>), its private lineage
  carrier (\<open>src/src/domain/memory/search-hit-lineage.ts\<close>), and the roles a memory can have
  (\<open>src/src/domain/memory/boundary.ts\<close>).
\<close>

section \<open>The hit and the lineage carrier\<close>

datatype lineage_classification = Classified classified | Lineage_unavailable

text \<open>
  A hit: the fields the overlay merge sets, the symbol-keyed carrier, and every other string-keyed
  field it passes through. A field with the value \<open>undefined\<close> is absent.
\<close>

record search_hit =
  sh_id :: jstr
  sh_text :: jstr
  sh_score :: real
  sh_createdAt :: "jstr option"
  sh_updatedAt :: "jstr option"
  sh_active :: jval
  sh_continuitySubjectKey :: "jstr option"
  sh_lineage :: "lineage_classification option"
  sh_other :: "(jstr \<times> jval) list"

definition without_lineage_field :: "search_hit \<Rightarrow> search_hit" where
  "without_lineage_field h = h\<lparr>sh_other := filter (\<lambda>(k, v). k \<noteq> ''processing_lineage'') (sh_other h)\<rparr>"

definition attachClassification :: "search_hit \<Rightarrow> lineage_classification \<Rightarrow> search_hit" where
  "attachClassification h c = (without_lineage_field h)\<lparr>sh_lineage := Some c\<rparr>"

definition attachSearchHitLineage :: "search_hit \<Rightarrow> search_hit" where
  "attachSearchHitLineage h = attachClassification h Lineage_unavailable"

definition attachSelectedSearchHitLineage :: "search_hit \<Rightarrow> jval \<Rightarrow> search_hit" where
  "attachSelectedSearchHitLineage h selected =
     attachClassification h (Classified (classifyProcessingLineage selected))"

definition getSearchHitLineage :: "search_hit \<Rightarrow> lineage_classification" where
  "getSearchHitLineage h = (case sh_lineage h of None \<Rightarrow> Lineage_unavailable | Some c \<Rightarrow> c)"

section \<open>The hit of the selection stages\<close>

datatype memory_role =
    Project_state | Current_status | Session_handoff | Recent_work | Debugging_active
  | Planning_active | Architecture_reference | Research_context | Deploy_ops | Admin_process
  | Operational_noise

definition memory_roles :: "(memory_role \<times> jstr) list" where
  "memory_roles =
     [(Project_state, ''project_state''), (Current_status, ''current_status''),
      (Session_handoff, ''session_handoff''), (Recent_work, ''recent_work''),
      (Debugging_active, ''debugging_active''), (Planning_active, ''planning_active''),
      (Architecture_reference, ''architecture_reference''), (Research_context, ''research_context''),
      (Deploy_ops, ''deploy_ops''), (Admin_process, ''admin_process''),
      (Operational_noise, ''operational_noise'')]"

definition role_name :: "memory_role \<Rightarrow> jstr" where
  "role_name r = the (map_of memory_roles r)"

datatype source_kind = Semiote | Noema

text \<open>Why a hit ranks where it does; the numbers are printed with two digits.\<close>

datatype ranking_reason =
    Hexis_scope_blocked | Hexis_role_blocked | Hexis_authority_blocked
  | Hexis_semantic real | Hexis_topic jstr | Hexis_role memory_role
  | Active_lineage_representative | Seed_candidate

text \<open>What the hexis reranking leaves on a hit: the audit scalars, the fit, and the score stage.\<close>

record hexis_audit =
  ha_preHexisScore :: real
  ha_postHexisScore :: real
  ha_poolRank :: nat
  ha_boundaryGap :: real
  ha_gateValue :: real
  ha_hexisMode :: nat
  ha_laneLambda :: real

record hexis_mark =
  hm_id :: jstr
  hm_version :: real
  hm_fit :: real

text \<open>The fields the later stages read or write beside those above.\<close>

record recall_hit = search_hit +
  rh_tags :: "jstr list"
  rh_category :: "jstr option"
  rh_memoryRole :: "memory_role option"
  rh_validAt :: "jstr option"
  rh_invalidAt :: "jstr option"
  rh_scope :: "jstr option"
  rh_path :: "jstr option"
  rh_client :: "jstr option"
  rh_confidence :: "real option"
  rh_l0 :: "jstr option"
  rh_l1 :: "jstr option"
  rh_lineageRootId :: "jstr option"
  rh_sourceKind :: "source_kind option"
  rh_exactQaCandidate :: bool
  rh_rankingExplanation :: "ranking_reason list"
  rh_hexisAudit :: "hexis_audit option"
  rh_hexisMark :: "hexis_mark option"
  rh_hexisBoost :: "real option"

text \<open>A string field in a boolean context.\<close>

abbreviation has_path :: "'a recall_hit_scheme \<Rightarrow> bool" where
  "has_path h \<equiv> opt_truthy (rh_path h)"

abbreviation invalidated :: "'a recall_hit_scheme \<Rightarrow> bool" where
  "invalidated h \<equiv> opt_truthy (rh_invalidAt h)"

text \<open>\<open>updatedAt ?? createdAt\<close>\<close>

definition hit_stamp :: "'a search_hit_scheme \<Rightarrow> jstr option" where
  "hit_stamp h = (case sh_updatedAt h of Some s \<Rightarrow> Some s | None \<Rightarrow> sh_createdAt h)"

text \<open>\<open>.sort((a, b) => b.score - a.score)\<close>\<close>

definition score_order :: "'a search_hit_scheme \<Rightarrow> 'a search_hit_scheme \<Rightarrow> int" where
  "score_order a b = (if sh_score b < sh_score a then - 1 else if sh_score a < sh_score b then 1 else 0)"

definition sort_by_score :: "'a search_hit_scheme list \<Rightarrow> 'a search_hit_scheme list" where
  "sort_by_score = js_sort score_order"

text \<open>The order of strings, by code units (\<open>a < b\<close>).\<close>

fun js_less :: "jstr \<Rightarrow> jstr \<Rightarrow> bool" where
  "js_less a [] = False"
| "js_less [] (b # bs) = True"
| "js_less (a # as) (b # bs) =
     (if code_unit a = code_unit b then js_less as bs else code_unit a < code_unit b)"

section \<open>Facts about sorting\<close>

lemma set_sort_by_score [simp]: "set (sort_by_score hs) = set hs"
  by (simp add: sort_by_score_def)

lemma length_sort_by_score [simp]: "length (sort_by_score hs) = length hs"
  by (simp add: sort_by_score_def)

lemma insort_cmp_mset: "mset (insort_cmp cmp x ys) = add_mset x (mset ys)"
  by (induction ys) auto

lemma js_sort_mset: "mset (js_sort cmp xs) = mset xs"
  unfolding js_sort_def by (induction xs) (auto simp: insort_cmp_mset)

lemma mset_sort_by_score [simp]: "mset (sort_by_score hs) = mset hs"
  by (simp add: sort_by_score_def js_sort_mset)

lemma insort_score_sorted:
  "sorted_wrt (\<lambda>a b. sh_score b \<le> sh_score a) ys \<Longrightarrow>
    sorted_wrt (\<lambda>a b. sh_score b \<le> sh_score a) (insort_cmp score_order x ys)"
  by (induction ys) (auto simp: score_order_def split: if_splits)

lemma sort_by_score_sorted: "sorted_wrt (\<lambda>a b. sh_score b \<le> sh_score a) (sort_by_score hs)"
  unfolding sort_by_score_def js_sort_def by (induction hs) (auto simp: insort_score_sorted)

lemma insort_score_head:
  "(\<And>y. y \<in> set ys \<Longrightarrow> sh_score y \<le> sh_score x) \<Longrightarrow> insort_cmp score_order x ys = x # ys"
  by (cases ys) (auto simp: score_order_def not_less [symmetric])

text \<open>A list in order stays as it is: the sort is stable.\<close>

lemma sort_by_score_id:
  "sorted_wrt (\<lambda>a b. sh_score b \<le> sh_score a) hs \<Longrightarrow> sort_by_score hs = hs"
  unfolding sort_by_score_def js_sort_def by (induction hs) (auto simp: insort_score_head)

end
