(* ===== verification/Overlay_Merge.thy ===== *)
theory Overlay_Merge
  imports Record_Id Overlay_Contract Search_Hit "HOL-Library.AList"
begin

text \<open>
  The overlay leg of retrieval (\<open>src/src/recall/query/overlay-merge.ts\<close>): the snapshot of a user's fresh
  writes is checked against the durable hits, the rest against one batched read, and what is
  confirmed replaces or joins the durable hits. The batched read is a parameter that may return any
  rows, and reading a field of a row may throw. \<open>Date.prototype.toISOString\<close> is a parameter too.
\<close>

section \<open>Rows of the batched read\<close>

text \<open>A field is a value, or its getter throws (None).\<close>

record overlay_row =
  or_id :: "raw_id option"
  or_user_id :: "jval option"
  or_payload_user_id :: "jval option"
  or_active :: "jval option"
  or_processing_lineage :: "jval option"

record valid_row =
  vr_id :: jstr
  vr_lineage :: jval

definition isNonEmptyUserIdentity :: "jval \<Rightarrow> bool" where
  "isNonEmptyUserIdentity v = (case v of JStr s \<Rightarrow> s \<noteq> [] | _ \<Rightarrow> False)"

definition validatedDurableRow :: "overlay_row \<Rightarrow> jstr list \<Rightarrow> jstr \<Rightarrow> valid_row option" where
  "validatedDurableRow row requestedIds userId =
     (case or_id row of
        None \<Rightarrow> None
      | Some rid \<Rightarrow>
          (let i = extractId rid
           in if i \<notin> set requestedIds then None
              else (case (or_user_id row, or_payload_user_id row, or_active row) of
                      (Some rootUser, Some payloadUser, Some active) \<Rightarrow>
                        (if \<not> isNonEmptyUserIdentity rootUser \<or> \<not> isNonEmptyUserIdentity payloadUser then None
                         else if rootUser \<noteq> JStr userId \<or> payloadUser \<noteq> JStr userId \<or> active \<noteq> JBool True
                         then None
                         else map_option (\<lambda>l. \<lparr>vr_id = i, vr_lineage = l\<rparr>) (or_processing_lineage row))
                    | _ \<Rightarrow> None)))"

section \<open>The merge\<close>

text \<open>The activity of a durable hit, by its identifier; the last hit of an identifier decides.\<close>

definition durable_active :: "search_hit list \<Rightarrow> (jstr \<times> bool) list" where
  "durable_active hits =
     foldl (\<lambda>m h. (case sh_active h of JBool b \<Rightarrow> AList.update (sh_id h) b m | _ \<Rightarrow> m)) [] hits"

datatype entry_check = Keep | Drop | Residual

definition check_entry :: "jstr \<Rightarrow> (jstr \<times> bool) list \<Rightarrow> overlay_entry \<Rightarrow> entry_check" where
  "check_entry userId active e =
     (if oe_userId e \<noteq> userId then Drop
      else (case map_of active (oe_memoryId e) of
              Some True \<Rightarrow> Keep
            | Some False \<Rightarrow> Drop
            | None \<Rightarrow> Residual))"

definition overlayEntryToSearchHit ::
  "(int \<Rightarrow> jstr) \<Rightarrow> overlay_entry \<Rightarrow> search_hit option \<Rightarrow> valid_row option \<Rightarrow> search_hit" where
  "overlayEntryToSearchHit toIso e prior selected =
     (let committedIso = toIso (oe_committedAtMs e);
          replacement = without_lineage_field
            \<lparr>sh_id = oe_memoryId e, sh_text = oe_text e, sh_score = oe_score e,
             sh_createdAt = (case prior of None \<Rightarrow> Some committedIso
               | Some h \<Rightarrow> (case sh_createdAt h of None \<Rightarrow> Some committedIso | Some c \<Rightarrow> Some c)),
             sh_updatedAt = Some committedIso,
             sh_active = coalesce (case prior of None \<Rightarrow> JUndef | Some h \<Rightarrow> sh_active h)
               (if selected \<noteq> None then JBool True else JUndef),
             sh_continuitySubjectKey = Some (lk_continuitySubjectKey (oe_lockKey e)),
             sh_lineage = (case prior of None \<Rightarrow> None | Some h \<Rightarrow> sh_lineage h),
             sh_other = (case prior of None \<Rightarrow> [] | Some h \<Rightarrow> sh_other h)\<rparr>
      in case selected of
           None \<Rightarrow> replacement
         | Some row \<Rightarrow> attachSelectedSearchHitLineage replacement (vr_lineage row))"

text \<open>The rows of the read that pass, by their identifier once more extracted.\<close>

definition valid_rows :: "overlay_row list \<Rightarrow> jstr list \<Rightarrow> jstr \<Rightarrow> (jstr \<times> valid_row) list" where
  "valid_rows rows requestedIds userId =
     foldl (\<lambda>m row. (case validatedDurableRow row requestedIds userId of
              None \<Rightarrow> m
            | Some v \<Rightarrow> AList.update (extractId (Id_string (vr_id v))) v m)) [] rows"

definition by_id :: "search_hit list \<Rightarrow> (jstr \<times> search_hit) list" where
  "by_id hits = foldl (\<lambda>m h. AList.update (sh_id h) h m) [] hits"

definition overlay_onto ::
  "(int \<Rightarrow> jstr) \<Rightarrow> (jstr \<times> valid_row) list \<Rightarrow> (jstr \<times> search_hit) list \<Rightarrow> overlay_entry
    \<Rightarrow> (jstr \<times> search_hit) list" where
  "overlay_onto toIso rows fused e =
     AList.update (oe_memoryId e)
       (overlayEntryToSearchHit toIso e (map_of fused (oe_memoryId e)) (map_of rows (oe_memoryId e))) fused"

record merge_result =
  mr_hits :: "search_hit list option"
  mr_queries :: "jstr list list"

text \<open>
  The merge of a snapshot: \<open>read\<close> is the batched read of the identifiers, None when it throws, and
  then the merge throws.
\<close>

definition merge_snapshot ::
  "(int \<Rightarrow> jstr) \<Rightarrow> (jstr list \<Rightarrow> overlay_row list option) \<Rightarrow> jstr \<Rightarrow> overlay_entry list \<Rightarrow> search_hit list
    \<Rightarrow> merge_result" where
  "merge_snapshot toIso read userId snapshot durableHits =
     (if snapshot = [] then \<lparr>mr_hits = Some durableHits, mr_queries = []\<rparr>
      else let active = durable_active durableHits;
               joined = filter (\<lambda>e. check_entry userId active e = Keep) snapshot;
               tentative = filter (\<lambda>e. check_entry userId active e = Residual) snapshot;
               requestedIds = js_uniq (map oe_memoryId tentative);
               finish = (\<lambda>rows kept. Some (map snd (foldl (overlay_onto toIso rows) (by_id durableHits) kept)))
           in if tentative = [] then \<lparr>mr_hits = finish [] joined, mr_queries = []\<rparr>
              else (case read requestedIds of
                      None \<Rightarrow> \<lparr>mr_hits = None, mr_queries = [requestedIds]\<rparr>
                    | Some rows \<Rightarrow>
                        (let found = valid_rows rows requestedIds userId
                         in \<lparr>mr_hits = finish found
                               (joined @ filter (\<lambda>e. map_of found (oe_memoryId e) \<noteq> None) tentative),
                             mr_queries = [requestedIds]\<rparr>)))"

definition mergeOverlayLeg ::
  "(int \<Rightarrow> jstr) \<Rightarrow> (jstr list \<Rightarrow> overlay_row list option) \<Rightarrow> int \<Rightarrow> jstr \<Rightarrow> registry_state \<Rightarrow> search_hit list
    \<Rightarrow> merge_result \<times> registry_state" where
  "mergeOverlayLeg toIso read t userId reg durableHits =
     (let (snapshot, reg') = registry_snapshot t userId reg
      in (merge_snapshot toIso read userId snapshot durableHits, reg'))"

section \<open>Lookups\<close>

lemma map_of_by_id: "map_of (by_id hits) i = find (\<lambda>h. sh_id h = i) (rev hits)"
  by (induction hits rule: rev_induct) (auto simp: by_id_def update_conv)

lemma valid_rows_from:
  "map_of (valid_rows rows ids userId) i = Some v \<Longrightarrow>
    \<exists>row \<in> set rows. validatedDurableRow row ids userId = Some v \<and> extractId (Id_string (vr_id v)) = i"
  by (induction rows rule: rev_induct) (auto simp: valid_rows_def update_conv split: option.splits if_splits)

lemma overlaid_id: "sh_id (overlayEntryToSearchHit toIso e prior selected) = oe_memoryId e"
  by (simp add: overlayEntryToSearchHit_def Let_def without_lineage_field_def
      attachSelectedSearchHitLineage_def attachClassification_def split: option.splits)

text \<open>The hit of an identifier after the overlay: the last kept entry of it decides, over what was there.\<close>

lemma overlay_lookup_other:
  "i \<notin> oe_memoryId ` set kept \<Longrightarrow> map_of (foldl (overlay_onto toIso rows) fused kept) i = map_of fused i"
  by (induction kept arbitrary: fused) (auto simp: overlay_onto_def update_conv)

lemma overlay_lookup_last:
  assumes "oe_memoryId e \<notin> oe_memoryId ` set later"
  shows "\<exists>prior. map_of (foldl (overlay_onto toIso rows) fused (before @ e # later)) (oe_memoryId e)
      = Some (overlayEntryToSearchHit toIso e prior (map_of rows (oe_memoryId e)))"
  using assms by (auto simp: overlay_lookup_other overlay_onto_def update_conv)

lemma update_values: "snd ` set (AList.update k v m) \<subseteq> insert v (snd ` set m)"
  by (induction m) auto

text \<open>A property of the durable hits that every overlaid hit has too is one of the merged hits.\<close>

lemma overlay_values:
  assumes "\<And>h. h \<in> snd ` set fused \<Longrightarrow> P h"
    and "\<And>e prior. e \<in> set kept \<Longrightarrow> (\<forall>h. prior = Some h \<longrightarrow> P h) \<Longrightarrow>
      P (overlayEntryToSearchHit toIso e prior (map_of rows (oe_memoryId e)))"
    and "h \<in> snd ` set (foldl (overlay_onto toIso rows) fused kept)"
  shows "P h"
  using assms
proof (induction kept arbitrary: fused)
  case (Cons e kept)
  have "P x" if "x \<in> snd ` set (overlay_onto toIso rows fused e)" for x
  proof -
    have "P (overlayEntryToSearchHit toIso e (map_of fused (oe_memoryId e)) (map_of rows (oe_memoryId e)))"
    proof (rule Cons.prems(2))
      have "map_of fused (oe_memoryId e) = Some x \<Longrightarrow> x \<in> snd ` set fused" for x
        by (force dest: map_of_SomeD)
      then show "\<forall>x. map_of fused (oe_memoryId e) = Some x \<longrightarrow> P x" using Cons.prems(1) by blast
    qed simp
    moreover have "x = overlayEntryToSearchHit toIso e (map_of fused (oe_memoryId e)) (map_of rows (oe_memoryId e))
        \<or> x \<in> snd ` set fused"
      using that subsetD [OF update_values that [unfolded overlay_onto_def]] by auto
    ultimately show ?thesis using Cons.prems(1) by auto
  qed
  with Cons.IH [of "overlay_onto toIso rows fused e"] Cons.prems(2,3) show ?case by auto
qed simp

lemma by_id_values: "snd ` set (by_id hits) \<subseteq> set hits"
proof (induction hits rule: rev_induct)
  case (snoc h hits)
  with update_values [of "sh_id h" h "by_id hits"] show ?case by (auto simp: by_id_def)
qed (simp add: by_id_def)

lemma update_keys_of:
  assumes "\<And>k h. (k, h) \<in> set m \<Longrightarrow> sh_id h = k" and "(k, h) \<in> set (AList.update (sh_id x) x m)"
  shows "sh_id h = k"
  using assms by (induction m) (auto split: if_splits)

lemma keyed_overlay:
  assumes "\<And>k h. (k, h) \<in> set fused \<Longrightarrow> sh_id h = k"
    and "(k, h) \<in> set (foldl (overlay_onto toIso rows) fused kept)"
  shows "sh_id h = k"
  using assms
proof (induction kept arbitrary: fused)
  case (Cons e kept)
  have "sh_id y = x" if "(x, y) \<in> set (overlay_onto toIso rows fused e)" for x y
    using update_keys_of [of fused x y "overlayEntryToSearchHit toIso e (map_of fused (oe_memoryId e)) (map_of rows (oe_memoryId e))"]
      Cons.prems(1) that by (simp add: overlay_onto_def overlaid_id)
  from Cons.IH [OF this] Cons.prems(2) show ?case by simp
qed simp

lemma keyed_by_id: "(k, h) \<in> set (by_id hits) \<Longrightarrow> sh_id h = k"
proof (induction hits arbitrary: k h rule: rev_induct)
  case (snoc x hits)
  with update_keys_of [of "by_id hits" k h x] show ?case by (simp add: by_id_def)
qed (simp add: by_id_def)

lemma ids_keys:
  assumes "\<And>k h. (k, h) \<in> set m \<Longrightarrow> sh_id h = k"
  shows "map sh_id (map snd m) = map fst m"
  using assms by (induction m) auto

lemma keys_update: "map fst (AList.update k v m) = (if k \<in> fst ` set m then map fst m else map fst m @ [k])"
  by (induction m) auto

lemma js_uniq_snoc: "js_uniq (xs @ [x]) = (if x \<in> set xs then js_uniq xs else js_uniq xs @ [x])"
  by (simp add: js_uniq_def)

lemma keys_by_id: "map fst (by_id hits) = js_uniq (map sh_id hits)"
proof (induction hits rule: rev_induct)
  case (snoc h hits)
  then have "fst ` set (by_id hits) = set (map sh_id hits)" by (metis set_js_uniq set_map)
  with snoc show ?case by (simp add: by_id_def keys_update js_uniq_snoc)
qed (simp add: by_id_def js_uniq_def)

lemma keys_overlay:
  "\<exists>new. map fst (foldl (overlay_onto toIso rows) fused kept) = map fst fused @ new
     \<and> set new \<subseteq> oe_memoryId ` set kept \<and> (distinct (map fst fused) \<longrightarrow> distinct (map fst fused @ new))"
proof (induction kept arbitrary: fused)
  case (Cons e kept)
  let ?f = "overlay_onto toIso rows fused e"
  from Cons [of ?f] obtain new where n: "map fst (foldl (overlay_onto toIso rows) ?f kept) = map fst ?f @ new"
    "set new \<subseteq> oe_memoryId ` set kept" "distinct (map fst ?f) \<longrightarrow> distinct (map fst ?f @ new)" by blast
  show ?case
  proof (cases "oe_memoryId e \<in> fst ` set fused")
    case True
    then have "map fst ?f = map fst fused" by (simp add: overlay_onto_def keys_update)
    with n show ?thesis by auto
  next
    case False
    then have "map fst ?f = map fst fused @ [oe_memoryId e]" by (simp add: overlay_onto_def keys_update)
    with n False show ?thesis by (intro exI [of _ "oe_memoryId e # new"]) auto
  qed
qed simp

section \<open>What a merge returns\<close>

text \<open>The kept entries, and the rows the batched read confirmed.\<close>

lemma merge_cases:
  assumes "mr_hits (merge_snapshot toIso read userId snapshot durableHits) = Some hits"
  obtains "snapshot = []" "hits = durableHits"
  | kept rows ids where
      "snapshot \<noteq> []" "hits = map snd (foldl (overlay_onto toIso rows) (by_id durableHits) kept)"
      "ids = js_uniq (map oe_memoryId (filter (\<lambda>e. check_entry userId (durable_active durableHits) e = Residual) snapshot))"
      "kept = filter (\<lambda>e. check_entry userId (durable_active durableHits) e = Keep) snapshot
         @ filter (\<lambda>e. map_of rows (oe_memoryId e) \<noteq> None)
             (filter (\<lambda>e. check_entry userId (durable_active durableHits) e = Residual) snapshot)"
      "rows = [] \<or> (\<exists>rs. read ids = Some rs \<and> rows = valid_rows rs ids userId)"
      "ids \<noteq> [] \<Longrightarrow> \<exists>rs. read ids = Some rs \<and> rows = valid_rows rs ids userId"
proof (cases "snapshot = []")
  case True
  with assms that(1) show thesis by (simp add: merge_snapshot_def)
next
  case False
  let ?res = "filter (\<lambda>e. check_entry userId (durable_active durableHits) e = Residual) snapshot"
  let ?ids = "js_uniq (map oe_memoryId ?res)"
  have none: "?ids = [] \<longleftrightarrow> ?res = []" by (metis set_js_uniq set_empty map_is_Nil_conv)
  show thesis
  proof (cases "?res = []")
    case True
    with False assms none that(2) [of "[]" _ ?ids] show thesis by (simp add: merge_snapshot_def Let_def)
  next
    case some: False
    with False assms obtain rs where rs: "read ?ids = Some rs"
      and h: "hits = map snd (foldl (overlay_onto toIso (valid_rows rs ?ids userId)) (by_id durableHits)
        (filter (\<lambda>e. check_entry userId (durable_active durableHits) e = Keep) snapshot
         @ filter (\<lambda>e. map_of (valid_rows rs ?ids userId) (oe_memoryId e) \<noteq> None) ?res))"
      by (auto simp: merge_snapshot_def Let_def split: option.splits)
    show thesis by (rule that(2) [OF False h refl refl]) (use rs in auto)
  qed
qed

lemma durable_active_from:
  "map_of (durable_active hits) i = Some b \<Longrightarrow> \<exists>h \<in> set hits. sh_id h = i \<and> sh_active h = JBool b"
  by (induction hits rule: rev_induct)
    (auto simp: durable_active_def update_conv split: jval.splits if_splits)

lemma valid_row_checked:
  assumes "validatedDurableRow row ids userId = Some v"
  shows "\<exists>rid. or_id row = Some rid \<and> vr_id v = extractId rid \<and> extractId rid \<in> set ids"
    "or_user_id row = Some (JStr userId)" "or_payload_user_id row = Some (JStr userId)"
    "or_active row = Some (JBool True)" "or_processing_lineage row = Some (vr_lineage v)"
  using assms by (auto simp: validatedDurableRow_def Let_def split: option.splits if_splits)

end
