(* ===== verification/Overlay_Merge_Laws.thy ===== *)
theory Overlay_Merge_Laws
  imports Overlay_Merge
begin

text \<open>
  What the overlay leg promises retrieval: which hits it may add or replace and on whose authority,
  where a hit's lineage classification comes from, how many reads it makes, the order it keeps, and
  that a fresh write is found by the next retrieval.
\<close>

section \<open>Authority\<close>

text \<open>The durable store stands for an entry: by an active hit, or by a row of the batched read.\<close>

definition store_confirms ::
  "(jstr list \<Rightarrow> overlay_row list option) \<Rightarrow> jstr \<Rightarrow> search_hit list \<Rightarrow> overlay_entry \<Rightarrow> bool" where
  "store_confirms read userId durableHits e =
     ((\<exists>h \<in> set durableHits. sh_id h = oe_memoryId e \<and> sh_active h = JBool True)
      \<or> (\<exists>ids rs row rid. read ids = Some rs \<and> row \<in> set rs \<and> or_id row = Some rid
           \<and> extractId (Id_string (extractId rid)) = oe_memoryId e
           \<and> or_user_id row = Some (JStr userId) \<and> or_payload_user_id row = Some (JStr userId)
           \<and> or_active row = Some (JBool True)))"

definition overlaid ::
  "(jstr list \<Rightarrow> overlay_row list option) \<Rightarrow> jstr \<Rightarrow> overlay_entry list \<Rightarrow> search_hit list \<Rightarrow> search_hit \<Rightarrow> bool" where
  "overlaid read userId snapshot durableHits h =
     (\<exists>e \<in> set snapshot. oe_userId e = userId \<and> sh_id h = oe_memoryId e \<and> sh_text h = oe_text e
        \<and> sh_score h = oe_score e \<and> store_confirms read userId durableHits e)"

lemma kept_confirmed:
  assumes "e \<in> set (filter (\<lambda>e. check_entry userId (durable_active durableHits) e = Keep) snapshot
      @ filter (\<lambda>e. map_of rows (oe_memoryId e) \<noteq> None)
          (filter (\<lambda>e. check_entry userId (durable_active durableHits) e = Residual) snapshot))"
    and "rows = [] \<or> (\<exists>rs. read ids = Some rs \<and> rows = valid_rows rs ids userId)"
  shows "e \<in> set snapshot \<and> oe_userId e = userId \<and> store_confirms read userId durableHits e"
proof -
  from assms(1) consider
      "e \<in> set snapshot" "check_entry userId (durable_active durableHits) e = Keep"
    | v where "e \<in> set snapshot" "check_entry userId (durable_active durableHits) e = Residual"
        "map_of rows (oe_memoryId e) = Some v" by auto
  then show ?thesis
  proof cases
    case 1
    then show ?thesis
      by (auto simp: check_entry_def store_confirms_def dest: durable_active_from split: if_splits option.splits bool.splits)
  next
    case 2
    with assms(2) obtain rs where rs: "read ids = Some rs" "map_of (valid_rows rs ids userId) (oe_memoryId e) = Some v"
      by auto
    from valid_rows_from [OF rs(2)] obtain row where row: "row \<in> set rs" "validatedDurableRow row ids userId = Some v"
      "extractId (Id_string (vr_id v)) = oe_memoryId e" by blast
    with valid_row_checked [OF row(2)] rs(1) have "store_confirms read userId durableHits e"
      unfolding store_confirms_def by metis
    with 2 show ?thesis by (auto simp: check_entry_def split: if_splits)
  qed
qed

lemma overlaid_fields:
  "sh_text (overlayEntryToSearchHit toIso e prior selected) = oe_text e"
  "sh_score (overlayEntryToSearchHit toIso e prior selected) = oe_score e"
  "''processing_lineage'' \<notin> fst ` set (sh_other (overlayEntryToSearchHit toIso e prior selected))"
  "sh_lineage (overlayEntryToSearchHit toIso e prior selected)
     = (case selected of
          Some row \<Rightarrow> Some (Classified (classifyProcessingLineage (vr_lineage row)))
        | None \<Rightarrow> Option.bind prior sh_lineage)"
  by (auto simp: overlayEntryToSearchHit_def Let_def without_lineage_field_def
      attachSelectedSearchHitLineage_def attachClassification_def split: option.splits)

lemma merge_hits:
  assumes "mr_hits (merge_snapshot toIso read userId snapshot durableHits) = Some hits" and "h \<in> set hits"
  shows "h \<in> set durableHits \<or> overlaid read userId snapshot durableHits h"
  using assms(1)
proof (cases rule: merge_cases)
  case 1
  with assms(2) show ?thesis by simp
next
  case (2 kept rows ids)
  let ?P = "\<lambda>h. h \<in> set durableHits \<or> overlaid read userId snapshot durableHits h"
  have "h \<in> snd ` set (foldl (overlay_onto toIso rows) (by_id durableHits) kept)" using assms(2) 2(2) by simp
  then show ?thesis
  proof (rule overlay_values [where P = ?P, rotated 2])
    fix e prior
    assume e: "e \<in> set kept"
    have "e \<in> set snapshot \<and> oe_userId e = userId \<and> store_confirms read userId durableHits e"
      by (rule kept_confirmed [of e userId durableHits snapshot rows read ids, OF e [unfolded 2(4)] 2(5)])
    then show "?P (overlayEntryToSearchHit toIso e prior (map_of rows (oe_memoryId e)))"
      unfolding overlaid_def by (auto simp: overlaid_id overlaid_fields)
  next
    fix h assume "h \<in> snd ` set (by_id durableHits)"
    then show "?P h" using by_id_values [of durableHits] by auto
  qed
qed

section \<open>Lineage\<close>

definition lineage_from_store ::
  "(jstr list \<Rightarrow> overlay_row list option) \<Rightarrow> jstr \<Rightarrow> search_hit list \<Rightarrow> search_hit \<Rightarrow> bool" where
  "lineage_from_store read userId durableHits h =
     (sh_lineage h = None \<or> (\<exists>d \<in> set durableHits. sh_lineage h = sh_lineage d)
      \<or> (\<exists>ids rs row l. read ids = Some rs \<and> row \<in> set rs \<and> or_user_id row = Some (JStr userId)
           \<and> or_payload_user_id row = Some (JStr userId) \<and> or_processing_lineage row = Some l
           \<and> sh_lineage h = Some (Classified (classifyProcessingLineage l))))"

lemma merge_lineage:
  assumes "mr_hits (merge_snapshot toIso read userId snapshot durableHits) = Some hits" and "h \<in> set hits"
  shows "lineage_from_store read userId durableHits h"
  using assms(1)
proof (cases rule: merge_cases)
  case 1
  with assms(2) show ?thesis by (auto simp: lineage_from_store_def)
next
  case (2 kept rows ids)
  let ?P = "lineage_from_store read userId durableHits"
  have "h \<in> snd ` set (foldl (overlay_onto toIso rows) (by_id durableHits) kept)" using assms(2) 2(2) by simp
  then show ?thesis
  proof (rule overlay_values [where P = ?P, rotated 2])
    fix e prior
    assume prior: "\<forall>h. prior = Some h \<longrightarrow> ?P h"
    show "?P (overlayEntryToSearchHit toIso e prior (map_of rows (oe_memoryId e)))"
    proof (cases "map_of rows (oe_memoryId e)")
      case None
      with prior show ?thesis
        by (cases prior) (auto simp: lineage_from_store_def overlaid_fields)
    next
      case (Some v)
      with 2(5) obtain rs where rs: "read ids = Some rs" "map_of (valid_rows rs ids userId) (oe_memoryId e) = Some v"
        by auto
      from valid_rows_from [OF rs(2)] obtain row where row: "row \<in> set rs" "validatedDurableRow row ids userId = Some v"
        by blast
      have "sh_lineage (overlayEntryToSearchHit toIso e prior (Some v))
          = Some (Classified (classifyProcessingLineage (vr_lineage v)))"
        by (simp add: overlaid_fields)
      with valid_row_checked [OF row(2)] row(1) rs(1) show ?thesis
        unfolding lineage_from_store_def Some by blast
    qed
  next
    fix h assume "h \<in> snd ` set (by_id durableHits)"
    then have "h \<in> set durableHits" using by_id_values [of durableHits] by auto
    then show "?P h" unfolding lineage_from_store_def by blast
  qed
qed

section \<open>Order\<close>

lemma merge_order:
  assumes "mr_hits (merge_snapshot toIso read userId snapshot durableHits) = Some hits" "snapshot \<noteq> []"
  shows "\<exists>new. map sh_id hits = js_uniq (map sh_id durableHits) @ new
    \<and> distinct (map sh_id hits) \<and> set new \<subseteq> oe_memoryId ` set snapshot"
  using assms(1)
proof (cases rule: merge_cases)
  case (2 kept rows ids)
  have keyed: "map sh_id hits = map fst (foldl (overlay_onto toIso rows) (by_id durableHits) kept)"
    unfolding 2(2) by (rule ids_keys) (auto intro: keyed_overlay keyed_by_id)
  obtain new where "map fst (foldl (overlay_onto toIso rows) (by_id durableHits) kept) = js_uniq (map sh_id durableHits) @ new"
    "set new \<subseteq> oe_memoryId ` set kept" "distinct (js_uniq (map sh_id durableHits) @ new)"
    using keys_overlay [of toIso rows "by_id durableHits" kept] by (auto simp: keys_by_id)
  moreover have "set kept \<subseteq> set snapshot" using 2(4) by auto
  ultimately show ?thesis by (intro exI [of _ new]) (auto simp: keyed)
qed (use assms(2) in simp)

section \<open>A fresh write is found\<close>

lemma put_last:
  assumes ok: "reg_ok reg" and live: "live t e"
    and caps: "1 \<le> oo_globalAggregateCap opts" "1 \<le> oo_perTenantCap opts"
    and fresh: "\<And>v k' e'. (k', e') \<in> set (tenant reg v) \<Longrightarrow> oe_lastAccessedAtMs e' < oe_lastAccessedAtMs e"
  shows "\<exists>front. fst (registry_snapshot t u (registry_put t opts u lk e reg)) = front @ [e]"
proof -
  let ?k = "serializeLockKey lk"
  let ?mid = "evict_global t opts (inserted u lk e reg)"
  have u: "u \<in> fst ` set (inserted u lk e reg)" by (metis fst_in_tenant forUser_in set_map)
  have "newest u ?k e (inserted u lk e reg)"
    using fresh unfolding newest_def by (auto simp: tenant_in store_put_def without_def)
  from newest_survives [OF inserted_ok [OF ok] this live u caps(1)]
  obtain front where front: "tenant ?mid u = front @ [(?k, e)]" unfolding newest_def by blast
  have "lazyExpire t (tenant ?mid u) = lazyExpire t front @ [(?k, e)]" using live by (simp add: front)
  then have ev: "evict_tenant t opts (tenant ?mid u)
      = drop (Suc (length (lazyExpire t front)) - nat (oo_perTenantCap opts)) (lazyExpire t front) @ [(?k, e)]"
    using caps(2) by (auto simp: evict_tenant_drop drop_Cons')
  have "tenant (registry_put t opts u lk e reg) u = evict_tenant t opts (tenant ?mid u)"
    using put_tenant [OF ok, of t opts u lk e u] by simp
  then show ?thesis
    using live ev by (simp add: registry_snapshot_def Let_def store_snapshot_def)
qed

text \<open>
  The fresh entry is the last of the snapshot, so the last kept entry of its identifier, as long as
  the durable hits do not call it inactive and the batched read, when it is needed, confirms it.
\<close>

lemma merge_shows_last:
  assumes hits: "mr_hits (merge_snapshot toIso read userId (front @ [e]) durableHits) = Some hits"
    and user: "oe_userId e = userId"
    and active: "map_of (durable_active durableHits) (oe_memoryId e) \<noteq> Some False"
    and confirm: "\<And>ids. oe_memoryId e \<in> set ids \<Longrightarrow>
      \<exists>rs. read ids = Some rs \<and> map_of (valid_rows rs ids userId) (oe_memoryId e) \<noteq> None"
  shows "\<exists>h \<in> set hits. sh_id h = oe_memoryId e \<and> sh_text h = oe_text e \<and> sh_score h = oe_score e"
  using hits
proof (cases rule: merge_cases)
  case (2 kept rows ids)
  let ?check = "check_entry userId (durable_active durableHits)"
  have same: "?check e' = ?check e" if "oe_memoryId e' = oe_memoryId e" "?check e' \<noteq> Drop" for e'
    using that user by (auto simp: check_entry_def split: if_splits)
  have "\<exists>before later. kept = before @ e # later \<and> oe_memoryId e \<notin> oe_memoryId ` set later"
  proof (cases "map_of (durable_active durableHits) (oe_memoryId e)")
    case None
    then have res: "?check e = Residual" using user by (simp add: check_entry_def)
    then have "oe_memoryId e \<in> set ids" using 2(3) by simp
    with confirm [of ids] 2(6) have "map_of rows (oe_memoryId e) \<noteq> None" by (cases ids) auto
    with res have "kept = (filter (\<lambda>e. ?check e = Keep) (front @ [e])
        @ filter (\<lambda>e. map_of rows (oe_memoryId e) \<noteq> None) (filter (\<lambda>e. ?check e = Residual) front)) @ e # []"
      using 2(4) by simp
    then show ?thesis by (metis empty_iff image_empty list.set(1))
  next
    case (Some b)
    with active user have keep: "?check e = Keep" by (simp add: check_entry_def)
    let ?later = "filter (\<lambda>e. map_of rows (oe_memoryId e) \<noteq> None) (filter (\<lambda>e. ?check e = Residual) (front @ [e]))"
    have "kept = filter (\<lambda>e. ?check e = Keep) front @ e # ?later" using 2(4) keep by simp
    moreover have "oe_memoryId e \<notin> oe_memoryId ` set ?later" using same keep by force
    ultimately show ?thesis by blast
  qed
  then obtain before later where k: "kept = before @ e # later" "oe_memoryId e \<notin> oe_memoryId ` set later" by blast
  from overlay_lookup_last [OF k(2), of toIso rows "by_id durableHits" before]
  obtain prior where "map_of (foldl (overlay_onto toIso rows) (by_id durableHits) kept) (oe_memoryId e)
      = Some (overlayEntryToSearchHit toIso e prior (map_of rows (oe_memoryId e)))" unfolding k(1) by blast
  then have "overlayEntryToSearchHit toIso e prior (map_of rows (oe_memoryId e)) \<in> set hits"
    unfolding 2(2) by (force dest: map_of_SomeD)
  then show ?thesis by (intro bexI) (simp_all add: overlaid_id overlaid_fields)
qed simp

lemma check_residual:
  "check_entry userId active e = Residual \<longleftrightarrow> oe_userId e = userId \<and> map_of active (oe_memoryId e) = None"
  by (cases "map_of active (oe_memoryId e)") (auto simp: check_entry_def split: bool.splits)

section \<open>Sample hits\<close>

definition sample_hit :: "jstr \<Rightarrow> jval \<Rightarrow> search_hit" where
  "sample_hit i active = \<lparr>sh_id = i, sh_text = ''old'', sh_score = 1 / 2, sh_createdAt = None, sh_updatedAt = None,
     sh_active = active, sh_continuitySubjectKey = None, sh_lineage = None, sh_other = []\<rparr>"

definition sample_read :: "jstr list \<Rightarrow> overlay_row list option" where
  "sample_read ids = Some (map (\<lambda>i. \<lparr>or_id = Some (Id_object i), or_user_id = Some (JStr (oe_userId sample_entry)),
     or_payload_user_id = Some (JStr (oe_userId sample_entry)), or_active = Some (JBool True),
     or_processing_lineage = Some JUndef\<rparr>) ids)"

section \<open>Properties\<close>



text \<open>The lineage classification of a merged hit is never taken from an overlay entry: it is absent,
  that of a durable hit, or the classification of the lineage field that the batched read selected
  from a row of this user.\<close>

theorem overlay_lineage_from_store:
  assumes "mr_hits (fst (mergeOverlayLeg toIso read t userId reg durableHits)) = Some hits" and "h \<in> set hits"
  shows "lineage_from_store read userId durableHits h"
  using merge_lineage [of toIso read userId _ durableHits hits h] assms
  by (simp add: mergeOverlayLeg_def split_def Let_def)

theorem overlay_lineage_from_store_witness:
  "lineage_from_store sample_read ''u'' [sample_hit ''d'' (JBool True)] (sample_hit ''d'' (JBool True))"
  using overlay_lineage_from_store [of "\<lambda>_. ''iso''" sample_read 5 "''u''" "[]" "[sample_hit ''d'' (JBool True)]"
      "[sample_hit ''d'' (JBool True)]" "sample_hit ''d'' (JBool True)"]
  by (simp add: mergeOverlayLeg_def registry_snapshot_def store_snapshot_def merge_snapshot_def Let_def
      tenant_def forUser_def lazyExpire_def)

text \<open>The overlay leg reads the durable store at most once, and then for distinct identifiers of
  entries in the snapshot that no durable hit has decided.\<close>

theorem overlay_reads_once:
  "length (mr_queries (merge_snapshot toIso read userId snapshot durableHits)) \<le> 1
    \<and> list_all (\<lambda>ids. ids \<noteq> [] \<and> distinct ids
        \<and> list_all (\<lambda>i. map_of (durable_active durableHits) i = None \<and> i \<in> oe_memoryId ` set snapshot) ids)
      (mr_queries (merge_snapshot toIso read userId snapshot durableHits))"
proof -
  let ?res = "filter (\<lambda>e. check_entry userId (durable_active durableHits) e = Residual) snapshot"
  let ?ids = "js_uniq (map oe_memoryId ?res)"
  have two: "mr_queries (merge_snapshot toIso read userId snapshot durableHits) \<in> {[], [?ids]}"
    unfolding merge_snapshot_def Let_def by (simp del: filter_filter map_map split: option.splits)
  have "list_all (\<lambda>i. map_of (durable_active durableHits) i = None \<and> i \<in> oe_memoryId ` set snapshot) ?ids"
    by (auto simp: list_all_iff check_residual)
  moreover have "distinct ?ids" by (simp add: js_uniq_def)
  moreover have "mr_queries (merge_snapshot toIso read userId snapshot durableHits) = []" if "?ids = []"
  proof -
    from that have "?res = []" by (simp add: js_uniq_def)
    then show ?thesis by (simp add: merge_snapshot_def Let_def)
  qed
  ultimately show ?thesis using two by (elim insertE) (fastforce, fastforce, simp)
qed

text \<open>The overlay leg keeps the durable hits' order: their identifiers come first, each once and in
  the order of their first occurrence, followed by new identifiers of overlay entries, so no durable
  identifier is lost and none is shown twice.\<close>

theorem overlay_keeps_order:
  assumes "mr_hits (merge_snapshot toIso read userId snapshot durableHits) = Some hits" and "snapshot \<noteq> []"
  shows "\<exists>new. map sh_id hits = js_uniq (map sh_id durableHits) @ new
    \<and> distinct (map sh_id hits) \<and> set new \<subseteq> oe_memoryId ` set snapshot"
  using assms by (rule merge_order)

text \<open>C16: Read your writes across the pipeline. After a put of an entry into a registry whose caps leave
  room for one and whose entries are older, the next retrieval of the user shows the entry's text and
  score under its identifier, as long as no durable hit calls the record inactive and the batched read,
  if it is asked for the record, returns a row of this user that is active.\<close>

theorem fresh_write_retrieved:
  assumes "reg_ok reg" and "live t e" and "1 \<le> oo_globalAggregateCap opts" and "1 \<le> oo_perTenantCap opts"
    and "\<And>v k' e'. (k', e') \<in> set (tenant reg v) \<Longrightarrow> oe_lastAccessedAtMs e' < oe_lastAccessedAtMs e"
    and "oe_userId e = userId"
    and "map_of (durable_active durableHits) (oe_memoryId e) \<noteq> Some False"
    and "\<And>ids. oe_memoryId e \<in> set ids \<Longrightarrow>
      \<exists>rs. read ids = Some rs \<and> map_of (valid_rows rs ids userId) (oe_memoryId e) \<noteq> None"
    and "mr_hits (fst (mergeOverlayLeg toIso read t userId (registry_put t opts userId lk e reg) durableHits)) = Some hits"
  shows "\<exists>h \<in> set hits. sh_id h = oe_memoryId e \<and> sh_text h = oe_text e \<and> sh_score h = oe_score e"
proof -
  have "\<exists>front. fst (registry_snapshot t userId (registry_put t opts userId lk e reg)) = front @ [e]"
    by (rule put_last [OF assms(1-4)]) (rule assms(5))
  then obtain front where "fst (registry_snapshot t userId (registry_put t opts userId lk e reg)) = front @ [e]"
    by blast
  with assms(9) have "mr_hits (merge_snapshot toIso read userId (front @ [e]) durableHits) = Some hits"
    by (simp add: mergeOverlayLeg_def split_def Let_def)
  from merge_shows_last [OF this assms(6,7,8)] show ?thesis by blast
qed

theorem fresh_write_retrieved_witness:
  "\<exists>h \<in> set (the (mr_hits (fst (mergeOverlayLeg (\<lambda>_. ''iso'') sample_read 5 ''u''
        (registry_put 5 small_caps ''u'' sample_key sample_entry []) [sample_hit ''m'' (JBool True)])))).
     sh_id h = ''m'' \<and> sh_text h = ''x'' \<and> sh_score h = 1"
proof -
  let ?m = "mergeOverlayLeg (\<lambda>_. ''iso'') sample_read 5 ''u''
    (registry_put 5 small_caps ''u'' sample_key sample_entry []) [sample_hit ''m'' (JBool True)]"
  obtain front where front: "fst (registry_snapshot 5 ''u'' (registry_put 5 small_caps ''u'' sample_key sample_entry [])) = front @ [sample_entry]"
    using put_last [of "[]" 5 sample_entry small_caps "''u''" sample_key] by (auto simp: live_def tenant_def)
  have "mr_hits (fst ?m) \<noteq> None"
    by (simp add: mergeOverlayLeg_def split_def Let_def front merge_snapshot_def sample_read_def split: option.split)
  then obtain hits where hits: "mr_hits (fst ?m) = Some hits" by blast
  have "\<exists>h \<in> set hits. sh_id h = oe_memoryId sample_entry \<and> sh_text h = oe_text sample_entry \<and> sh_score h = oe_score sample_entry"
  proof (rule fresh_write_retrieved [OF _ _ _ _ _ _ _ _ hits])
    show "map_of (durable_active [sample_hit ''m'' (JBool True)]) (oe_memoryId sample_entry) \<noteq> Some False"
      by (simp add: durable_active_def sample_hit_def)
    fix ids :: "jstr list"
    assume i: "oe_memoryId sample_entry \<in> set ids"
    have plain: "map_of (valid_rows (map (\<lambda>i. \<lparr>or_id = Some (Id_object i), or_user_id = Some (JStr ''u''),
        or_payload_user_id = Some (JStr ''u''), or_active = Some (JBool True), or_processing_lineage = Some JUndef\<rparr>) js) ids ''u'') ''m'' \<noteq> None"
      if "''m'' \<in> set js" for js
      using that
    proof (induction js rule: rev_induct)
      case (snoc j js)
      with i show ?case
        by (cases "''m'' = j")
          (auto simp: valid_rows_def validatedDurableRow_def extractId_def isNonEmptyUserIdentity_def update_conv)
    qed simp
    from plain [of ids] i show "\<exists>rs. sample_read ids = Some rs \<and> map_of (valid_rows rs ids ''u'') (oe_memoryId sample_entry) \<noteq> None"
      by (simp add: sample_read_def)
  qed (auto simp: live_def tenant_def)
  then show ?thesis by (simp add: hits)
qed

theorem overlay_keeps_order_witness:
  "\<exists>(hits :: search_hit list) new. map sh_id hits = js_uniq (map sh_id [sample_hit ''d'' (JBool True)]) @ new \<and> distinct (map sh_id hits)"
proof -
  have "mr_hits (merge_snapshot (\<lambda>_. ''iso'') sample_read ''u'' [sample_entry] [sample_hit ''d'' (JBool True)]) \<noteq> None"
    by (simp add: merge_snapshot_def sample_read_def Let_def)
  then obtain hits where "mr_hits (merge_snapshot (\<lambda>_. ''iso'') sample_read ''u'' [sample_entry] [sample_hit ''d'' (JBool True)]) = Some hits"
    by blast
  from overlay_keeps_order [OF this list.distinct(2)]
  obtain new where "map sh_id hits = js_uniq (map sh_id [sample_hit ''d'' (JBool True)]) @ new" "distinct (map sh_id hits)"
    by blast
  then show ?thesis by (intro exI [of _ hits] exI [of _ new] conjI)
qed

end
