(* ===== verification/Staleness_Pass.thy ===== *)
theory Staleness_Pass
  imports Record_Id Supersede_Laws Supersession_Judge Write_Signals "HOL-Library.AList"
begin

text \<open>
  The retroactive staleness pass (\<open>src/src/lifecycle/semion/staleness-pass.ts\<close>): candidates are
  searched for every new fact, a language model names the stale ones, and each named candidate is
  superseded after the cycle guard. The two searches, the embedding, the model call, the generated
  identifiers and the clock are parameters; the supersede is the one of \<open>Supersede_Store\<close> on the
  table as it then is. The angle quotes that \<open>normalizeCandidateId\<close> removes are no characters of the
  model's strings.
\<close>

section \<open>Identifiers and the search text\<close>

definition normalizeCandidateId :: "raw_id \<Rightarrow> jstr" where
  "normalizeCandidateId r = js_trim (extractId r)"

text \<open>\<open>replace(/\\/g, "\\\\").replace(/'/g, "\\'")\<close>\<close>

definition backslash :: char where "backslash = CHR 0x5C"
definition single_quote :: char where "single_quote = CHR 0x27"
definition double_quote :: char where "double_quote = CHR 0x22"

definition escape_char :: "char \<Rightarrow> jstr \<Rightarrow> jstr" where
  "escape_char d s = concat (map (\<lambda>c. if c = d then [backslash, c] else [c]) s)"

definition escapeQuoted :: "jstr \<Rightarrow> jstr" where
  "escapeQuoted s = escape_char single_quote (escape_char backslash s)"

definition buildExcludeClause :: "jstr list \<Rightarrow> jstr \<Rightarrow> jstr" where
  "buildExcludeClause excludeIds tableName =
     (let ids = filter truthy (map (\<lambda>i. normalizeCandidateId (Id_string i)) excludeIds);
          normalizedIds = js_uniq ids
      in if normalizedIds = [] then []
         else ''AND id NOT IN [''
           @ js_join '', '' (map (\<lambda>i. ''type::record('' @ [single_quote] @ tableName @ [single_quote] @ '', ''
                @ [single_quote] @ escapeQuoted i @ [single_quote] @ '')'') normalizedIds)
           @ '']'')"

record stale_fact =
  sf_text :: jstr
  sf_confidence :: real
  sf_replacementMemoryId :: jstr

record stale_candidate =
  ca_id :: jstr
  ca_text :: jstr

text \<open>The full-text query of a fact, None when it has fewer than two tokens.\<close>

definition fulltext_query :: "jstr \<Rightarrow> jstr option" where
  "fulltext_query factText =
     (let subjectKey = js_join '' '' (take 8 (re_split (plus ws_re) (deriveStatementKey factText)));
          uniqueTokens = js_uniq (filter truthy (re_split (plus ws_re) (js_lower subjectKey)))
      in if length uniqueTokens < 2 then None
         else Some (js_join '' OR ''
           (map (\<lambda>t. [double_quote] @ escape_char double_quote t @ [double_quote]) uniqueTokens)))"

section \<open>Parameters\<close>

datatype llm_reply =
    Llm_fetch_error
  | Llm_not_ok nat
  | Llm_body_error
  | Llm_body jval

record staleness_request =
  sq_model :: jstr
  sq_prompt :: jstr
  sq_json_mode :: bool

text \<open>
  A search returns the rows' identifiers and texts, or throws (None). The clock of the n-th entry is
  the transaction's time, its text, and the time of the stale flags.
\<close>

record staleness_deps =
  sd_fulltext :: "jstr \<Rightarrow> jstr \<Rightarrow> (raw_id \<times> jstr) list option"
  sd_vector :: "jnum list \<Rightarrow> jstr \<Rightarrow> (raw_id \<times> jstr) list option"
  sd_embed :: "jstr \<Rightarrow> jnum list option"
  sd_llm :: "staleness_request \<Rightarrow> llm_reply"
  sd_uuid :: "nat \<Rightarrow> jstr"
  sd_clock :: "nat \<Rightarrow> jval \<times> jstr \<times> jstr"
  sd_sdb :: surreal
  sd_model_env :: "jstr option"
  sd_json_mode :: "jstr \<Rightarrow> bool"

record staleness_opts =
  so_userId :: jstr
  so_scope :: jstr
  so_sessionId :: "jstr option"
  so_facts :: "stale_fact list"
  so_tableName :: "jstr option"

definition getStalenessModel :: "staleness_deps \<Rightarrow> jstr" where
  "getStalenessModel d =
     (case sd_model_env d of Some m \<Rightarrow> m | None \<Rightarrow> ''vertex/gemini-3.1-flash-lite@us'')"

datatype drop_scope = Batch_drop | Element_drop
datatype drop_reason = Fetch_error | Http_not_ok | Http_json_error | Invalid_json | Malformed_entry

definition recordStalenessDrop :: "drop_reason \<Rightarrow> drop_scope \<times> drop_reason" where
  "recordStalenessDrop reason = (if reason = Malformed_entry then Element_drop else Batch_drop, reason)"

section \<open>Candidates\<close>

definition bm25Search ::
  "staleness_deps \<Rightarrow> stale_fact \<Rightarrow> jstr list \<Rightarrow> jstr \<Rightarrow> stale_candidate list option" where
  "bm25Search d f excludeIds tableName =
     (case fulltext_query (sf_text f) of
        None \<Rightarrow> Some []
      | Some q \<Rightarrow>
          map_option (map (\<lambda>(i, t). \<lparr>ca_id = normalizeCandidateId i, ca_text = t\<rparr>))
            (sd_fulltext d (escapeQuoted q) (buildExcludeClause excludeIds tableName)))"

definition vectorSearch ::
  "staleness_deps \<Rightarrow> stale_fact \<Rightarrow> jstr list \<Rightarrow> jstr \<Rightarrow> stale_candidate list option" where
  "vectorSearch d f excludeIds tableName =
     (case sd_embed d (sf_text f) of
        None \<Rightarrow> None
      | Some v \<Rightarrow>
          map_option (map (\<lambda>(i, t). \<lparr>ca_id = normalizeCandidateId i, ca_text = t\<rparr>))
            (sd_vector d v (buildExcludeClause excludeIds tableName)))"

definition fact_candidates ::
  "staleness_deps \<Rightarrow> jstr list \<Rightarrow> jstr \<Rightarrow> stale_fact \<Rightarrow> stale_candidate list option" where
  "fact_candidates d excludeIds tableName f =
     (case bm25Search d f excludeIds tableName of
        None \<Rightarrow> None
      | Some [] \<Rightarrow> vectorSearch d f excludeIds tableName
      | Some cs \<Rightarrow> Some cs)"

text \<open>The map of all candidates: a later hit replaces an earlier one in its place.\<close>

definition add_candidates ::
  "(jstr \<times> stale_candidate) list \<Rightarrow> stale_candidate list \<Rightarrow> (jstr \<times> stale_candidate) list" where
  "add_candidates m cs = foldl (\<lambda>m c. AList.update (ca_id c) c m) m cs"

fun collect_candidates ::
  "staleness_deps \<Rightarrow> jstr list \<Rightarrow> jstr \<Rightarrow> stale_fact list \<Rightarrow> (jstr \<times> stale_candidate) list
    \<Rightarrow> (jstr \<times> stale_candidate) list option" where
  "collect_candidates d excludeIds tableName [] m = Some m"
| "collect_candidates d excludeIds tableName (f # fs) m =
     (case fact_candidates d excludeIds tableName f of
        None \<Rightarrow> None
      | Some cs \<Rightarrow> collect_candidates d excludeIds tableName fs (add_candidates m cs))"

section \<open>The prompt and the answer\<close>

fun decimal :: "nat \<Rightarrow> jstr" where
  "decimal n = (if n < 10 then [char_of (48 + n)] else decimal (n div 10) @ [char_of (48 + n mod 10)])"

declare decimal.simps [simp del]

definition lines_of :: "jstr list \<Rightarrow> jstr" where
  "lines_of = js_join [newline]"

definition staleness_prompt :: "stale_fact list \<Rightarrow> stale_candidate list \<Rightarrow> jstr" where
  "staleness_prompt fs cs = lines_of
     [''You are a memory staleness detector. Given a set of NEW facts and a set of EXISTING memories, determine which existing memories are now stale, outdated, or contradicted by the new facts.'',
      [], ''NEW FACTS:'',
      lines_of (map (\<lambda>(i, f). ''[N'' @ decimal i @ ''] '' @ sf_text f) (zip [0..<length fs] fs)),
      [], ''EXISTING MEMORIES:'',
      lines_of (map (\<lambda>(i, c). ''[E'' @ decimal i @ ''] (id: '' @ ca_id c @ '') '' @ ca_text c)
        (zip [0..<length cs] cs)),
      [],
      ''For each existing memory that is now stale, return its id and the index of the new fact that makes it stale. Return ONLY valid JSON:'',
      ''{\"stale\": [{\"existingId\": \"...\", \"reason\": \"...\", \"supersededByNewFactIndex\": 0}, ...]}'',
      [], ''If no existing memories are stale, return {\"stale\": []}.'']"

text \<open>
  \<open>/```(?:json)?\s*([\s\S]*?)```/i\<close>: the text between the first two fences, since neither the word
  nor the white space can run over a fence; and \<open>/\{[\s\S]*\}/\<close>: from the first opening brace to the
  last closing one.
\<close>

definition fenced_block :: "jstr \<Rightarrow> jstr option" where
  "fenced_block s =
     (case js_index_of s fence of
        None \<Rightarrow> None
      | Some i \<Rightarrow>
          (let r = drop (i + 3) s;
               r1 = (if js_lower (take 4 r) = ''json'' then drop 4 r else r);
               r2 = dropWhile js_ws r1
           in map_option (\<lambda>j. take j r2) (js_index_of r2 fence)))"

definition braced_block :: "jstr \<Rightarrow> jstr option" where
  "braced_block s =
     (let t = dropWhile (\<lambda>c. c \<noteq> CHR ''{'') s
      in if CHR ''}'' \<in> set t then Some (rev (dropWhile (\<lambda>c. c \<noteq> CHR ''}'') (rev t))) else None)"

definition stale_array :: "jstr \<Rightarrow> jval list option" where
  "stale_array candidate =
     (case json_parse candidate of
        None \<Rightarrow> None
      | Some parsed \<Rightarrow> (case jget parsed ''stale'' of JArr vs \<Rightarrow> Some vs | _ \<Rightarrow> None))"

fun first_stale :: "jstr list \<Rightarrow> jval list option" where
  "first_stale [] = None"
| "first_stale (c # cs) = (case stale_array c of Some vs \<Rightarrow> Some vs | None \<Rightarrow> first_stale cs)"

definition parseStalenessEntries :: "jstr \<Rightarrow> jval list option" where
  "parseStalenessEntries answer =
     (let trimmed = js_trim answer
      in if trimmed = [] then Some []
         else first_stale (filter truthy
           ([trimmed]
            @ (case fenced_block trimmed of None \<Rightarrow> [] | Some b \<Rightarrow> [js_trim b])
            @ (case braced_block trimmed of None \<Rightarrow> [] | Some b \<Rightarrow> [js_trim b]))))"

definition first_of :: "jval \<Rightarrow> jval" where
  "first_of v = (case v of JArr (x # _) \<Rightarrow> x | _ \<Rightarrow> jget v ''0'')"

text \<open>\<open>body?.choices?.[0]?.message?.content ?? body?.content?.[0]?.text\<close>, and a non-string is \<open>"{}"\<close>.\<close>

definition answer_text :: "jval \<Rightarrow> jstr" where
  "answer_text body =
     (case coalesce (jget (jget (first_of (jget body ''choices'')) ''message'') ''content'')
              (jget (first_of (jget body ''content'')) ''text'') of
        JStr s \<Rightarrow> s | _ \<Rightarrow> ''{}'')"

section \<open>The entries\<close>

record staleness_state =
  ss_table :: db_table
  ss_superseded :: nat
  ss_drops :: "(drop_scope \<times> drop_reason) list"

datatype 'a pass_outcome = Pass_ok 'a | Pass_threw 'a

text \<open>The index of an entry, when it is one of the facts' positions.\<close>

definition entry_index :: "jval \<Rightarrow> nat \<Rightarrow> nat option" where
  "entry_index v n =
     (case v of
        JNum (Fin x) \<Rightarrow>
          (if of_int \<lfloor>x\<rfloor> = x \<and> 0 \<le> \<lfloor>x\<rfloor> \<and> \<lfloor>x\<rfloor> < int n then Some (nat \<lfloor>x\<rfloor>) else None)
      | _ \<Rightarrow> None)"

definition stale_call ::
  "staleness_opts \<Rightarrow> jstr \<Rightarrow> stale_candidate \<Rightarrow> jstr \<Rightarrow> jstr \<Rightarrow> jnum list \<Rightarrow> jstr \<Rightarrow> supersede_call" where
  "stale_call opts tableName candidate replacementId factText embedding staleSince =
     \<lparr>sc_previous = \<lparr>pv_id = ca_id candidate, pv_lineageRootId = None\<rparr>,
      sc_replacement = \<lparr>rp_id = replacementId, rp_l2 = Some factText, rp_text = None,
        rp_userId = so_userId opts, rp_embedding = embedding, rp_metadata = [], rp_scope = so_scope opts,
        rp_sessionId = so_sessionId opts, rp_writeSource = ''agent_end''\<rparr>,
      sc_provenance = ''llm-generated'', sc_isInternalCaller = Some True,
      sc_inactiveReason = ''retroactive-staleness'', sc_tableName = tableName,
      sc_staleFlags = Some (staleSince, replacementId)\<rparr>"

text \<open>What an entry asks for: a candidate and the identifier and text of its replacement.\<close>

definition entry_request ::
  "staleness_deps \<Rightarrow> staleness_opts \<Rightarrow> stale_candidate list \<Rightarrow> nat \<Rightarrow> jval
    \<Rightarrow> drop_reason option + stale_candidate \<times> jstr \<times> jstr" where
  "entry_request d opts candidates n entry =
     (if \<not> is_object entry then Inl (Some Malformed_entry)
      else (case entry_index (jget entry ''supersededByNewFactIndex'') (length (so_facts opts)) of
              None \<Rightarrow> Inl (Some Malformed_entry)
            | Some idx \<Rightarrow>
                (case jget entry ''existingId'' of
                   JStr existingId \<Rightarrow>
                     (let f = so_facts opts ! idx;
                          normalizedExistingId = normalizeCandidateId (Id_string existingId)
                      in case find (\<lambda>c. ca_id c = normalizedExistingId) candidates of
                           None \<Rightarrow> Inl None
                         | Some candidate \<Rightarrow>
                             (let replacementId = normalizeCandidateId (Id_string
                                    (if sf_replacementMemoryId f \<noteq> [] then sf_replacementMemoryId f else sd_uuid d n))
                              in if ca_id candidate = replacementId then Inl None
                                 else Inr (candidate, replacementId, sf_text f)))
                 | _ \<Rightarrow> Inl (Some Malformed_entry))))"

fun process_entries ::
  "staleness_deps \<Rightarrow> staleness_opts \<Rightarrow> jstr \<Rightarrow> stale_candidate list \<Rightarrow> nat \<Rightarrow> jval list
    \<Rightarrow> staleness_state \<Rightarrow> staleness_state pass_outcome" where
  "process_entries d opts tableName candidates n [] st = Pass_ok st"
| "process_entries d opts tableName candidates n (entry # es) st =
     (case entry_request d opts candidates n entry of
        Inl None \<Rightarrow> process_entries d opts tableName candidates (Suc n) es st
      | Inl (Some reason) \<Rightarrow>
          process_entries d opts tableName candidates (Suc n) es
            (st\<lparr>ss_drops := ss_drops st @ [recordStalenessDrop reason]\<rparr>)
      | Inr (candidate, replacementId, factText) \<Rightarrow>
          (if wr_cycle (wouldCreateCycle (table_db (pointers (ss_table st)) (so_userId opts))
                replacementId (ca_id candidate))
           then process_entries d opts tableName candidates (Suc n) es st
           else (case sd_embed d factText of
                   None \<Rightarrow> Pass_threw st
                 | Some embedding \<Rightarrow>
                     (let (now, nowString, staleSince) = sd_clock d n;
                          (err, tab) = supersedeMemory (sd_sdb d) now nowString
                            (stale_call opts tableName candidate replacementId factText embedding staleSince) (ss_table st)
                      in if err \<noteq> None
                         then process_entries d opts tableName candidates (Suc n) es (st\<lparr>ss_table := tab\<rparr>)
                         else process_entries d opts tableName candidates (Suc n) es
                                (st\<lparr>ss_table := tab, ss_superseded := Suc (ss_superseded st)\<rparr>)))))"

section \<open>The pass\<close>

record staleness_result =
  sr_checked :: nat
  sr_state :: staleness_state

definition runStalenessCoreNoLock ::
  "staleness_deps \<Rightarrow> staleness_opts \<Rightarrow> db_table \<Rightarrow> staleness_result pass_outcome" where
  "runStalenessCoreNoLock d opts tab =
     (let st = \<lparr>ss_table = tab, ss_superseded = 0, ss_drops = []\<rparr>;
          tableName = (case so_tableName opts of Some t \<Rightarrow> t | None \<Rightarrow> ''semiote'');
          dropped = (\<lambda>n reason. Pass_ok \<lparr>sr_checked = n, sr_state = st\<lparr>ss_drops := [recordStalenessDrop reason]\<rparr>\<rparr>)
      in if so_scope opts = ''global'' then Pass_ok \<lparr>sr_checked = 0, sr_state = st\<rparr>
         else (case collect_candidates d (filter truthy (map sf_replacementMemoryId (so_facts opts))) tableName
                      (so_facts opts) [] of
                 None \<Rightarrow> Pass_threw \<lparr>sr_checked = 0, sr_state = st\<rparr>
               | Some m \<Rightarrow>
                   (let candidates = map snd m
                    in if candidates = [] then Pass_ok \<lparr>sr_checked = 0, sr_state = st\<rparr>
                       else (case sd_llm d \<lparr>sq_model = getStalenessModel d,
                                      sq_prompt = staleness_prompt (so_facts opts) candidates,
                                      sq_json_mode = sd_json_mode d (getStalenessModel d)\<rparr> of
                               Llm_fetch_error \<Rightarrow> dropped (length candidates) Fetch_error
                             | Llm_not_ok _ \<Rightarrow> dropped (length candidates) Http_not_ok
                             | Llm_body_error \<Rightarrow> dropped (length candidates) Http_json_error
                             | Llm_body body \<Rightarrow>
                                 (case parseStalenessEntries (answer_text body) of
                                    None \<Rightarrow> dropped (length candidates) Invalid_json
                                  | Some entries \<Rightarrow>
                                      (case process_entries d opts tableName candidates 0 entries st of
                                         Pass_ok st' \<Rightarrow> Pass_ok \<lparr>sr_checked = length candidates, sr_state = st'\<rparr>
                                       | Pass_threw st' \<Rightarrow>
                                           Pass_threw \<lparr>sr_checked = length candidates, sr_state = st'\<rparr>))))))"

end
