(* ===== verification/Staleness_Laws.thy ===== *)
theory Staleness_Laws
  imports Staleness_Pass
begin

text \<open>
  Laws of the staleness pass: what one supersede of it does to the rows, what the loop over the
  entries keeps, and which failures leave the table alone.
\<close>

fun outcome_of :: "'a pass_outcome \<Rightarrow> 'a" where
  "outcome_of (Pass_ok x) = x"
| "outcome_of (Pass_threw x) = x"

section \<open>One supersede\<close>

definition inactive_row :: "db_table \<Rightarrow> jstr \<Rightarrow> bool" where
  "inactive_row tab i = (\<exists>r. tab i = Some r \<and> r ''active'' = Some (JBool False))"

definition unprotected_of :: "jstr \<Rightarrow> db_table \<Rightarrow> jstr \<Rightarrow> bool" where
  "unprotected_of user tab i =
     (\<exists>r. tab i = Some r \<and> r ''user_id'' = Some (JStr user) \<and> r ''processing_lineage'' = None)"

lemma stale_keys:
  assumes "f \<in> {''user_id'', ''processing_lineage''}"
  shows "f \<notin> fst ` set (previous_fields now nowString p)" "f \<notin> fst ` set (replacement_fields now nowString p)"
  using assms by (auto simp: previous_fields_def replacement_fields_def Let_def split: option.splits)

lemma replacement_fields_active: "''active'' \<notin> fst ` set (replacement_fields now nowString p)"
  by (simp add: replacement_fields_def Let_def)

lemma created_row_active: "created_row sdb now nowString p = Inr row \<Longrightarrow> row ''active'' = Some (JBool True)"
  using composed_top(2) [of sdb now nowString "created_input p"] by (simp add: created_composed)

lemma replacement_stays:
  assumes "replacement_after sdb now nowString p tab new"
  shows "new ''active'' = Some (JBool False) \<Longrightarrow> inactive_row tab (rp_id (sc_replacement (pl_call p)))"
    and "tab (rp_id (sc_replacement (pl_call p))) = Some old \<Longrightarrow> f \<in> {''user_id'', ''processing_lineage''} \<Longrightarrow>
      new f = old f"
  using assms
  by (auto simp: replacement_after_def inactive_row_def set_fields_untouched [OF stale_keys(2)]
      set_fields_untouched [OF replacement_fields_active] split: option.splits dest: created_row_active)

lemma prepare_user:
  assumes "prepareSupersedeMemory sdb tab1 tab2 walk c = Inr p"
  shows "sm_user_id (fst (pl_previous_witness p)) = rp_userId (sc_replacement c)"
proof -
  from assms obtain ms w w' where e: "eligible_rows sdb tab1 c = Inr ms" "witnessed_rows sdb tab2 c ms = Inr (w, w')"
    and p: "pl_previous_witness p = w"
    by (auto simp: prepareSupersedeMemory_def split: option.splits sum.splits if_splits)
  from e(2) have "fst w = fst ms"
    by (auto simp: witnessed_rows_def split: prod.splits sum.splits option.splits dest: witness_metadata)
  moreover from e(1) have "sm_user_id (fst ms) = rp_userId (sc_replacement c)"
    by (auto simp: eligible_rows_def Let_def split: sum.splits option.splits if_splits)
  ultimately show ?thesis by (simp add: p)
qed

lemma supersede_rows:
  assumes "supersedeMemory sdb now nowString c tab = (None, tab')"
  shows "\<exists>prev prev' new.
    tab (pv_id (sc_previous c)) = Some prev \<and> prev ''user_id'' = Some (JStr (rp_userId (sc_replacement c)))
    \<and> prev ''processing_lineage'' = None
    \<and> (\<forall>f \<in> {''user_id'', ''processing_lineage''}. prev' f = prev f)
    \<and> (new ''active'' = Some (JBool False) \<longrightarrow> inactive_row tab (rp_id (sc_replacement c)))
    \<and> (\<forall>old. tab (rp_id (sc_replacement c)) = Some old \<longrightarrow>
          (\<forall>f \<in> {''user_id'', ''processing_lineage''}. new f = old f))
    \<and> tab' = tab(rp_id (sc_replacement c) \<mapsto> new, pv_id (sc_previous c) \<mapsto> prev')"
proof -
  from assms obtain p where p: "prepareSupersedeMemory sdb tab tab (table_db (pointers tab) (rp_userId (sc_replacement c))) c = Inr p"
    and com: "commit_supersede sdb now nowString p tab = (None, tab')"
    by (auto simp: supersedeMemory_def split: sum.splits)
  note call = prepare_ok(1) [OF p]
  from com obtain prev new where prev: "tab (pv_id (sc_previous c)) = Some prev"
      "sameGenericSupersedeBranchWhere sdb (pl_previous_witness p) prev"
    and new: "replacement_after sdb now nowString p tab new"
    and tab': "tab' = tab(rp_id (sc_replacement c) \<mapsto> new,
      pv_id (sc_previous c) \<mapsto> set_fields prev (previous_fields now nowString p))"
    by (rule commit_ok) (simp add: call)
  from prev(2) prepare_user [OF p] have "prev ''user_id'' = Some (JStr (rp_userId (sc_replacement c)))"
      "prev ''processing_lineage'' = None"
    by (auto simp: sameGenericSupersedeBranchWhere_def genericSupersedeBranchWhere_def split: prod.splits)
  moreover have "\<forall>f \<in> {''user_id'', ''processing_lineage''}.
      set_fields prev (previous_fields now nowString p) f = prev f"
    using set_fields_untouched [OF stale_keys(1)] by blast
  moreover note replacement_stays [OF new, unfolded call]
  ultimately show ?thesis using prev(1) tab' by blast
qed

lemma supersede_error: "fst (supersedeMemory sdb now nowString c tab) \<noteq> None \<Longrightarrow>
    snd (supersedeMemory sdb now nowString c tab) = tab"
  by (auto simp: supersedeMemory_def commit_error split: sum.splits)

text \<open>What a supersede of the pass does to the set of retired records.\<close>

lemma supersede_retires:
  assumes "supersedeMemory sdb now nowString c tab = (r, tab')" and "inactive_row tab' i"
  shows "inactive_row tab i \<or>
    (i = pv_id (sc_previous c) \<and> unprotected_of (rp_userId (sc_replacement c)) tab' i)"
proof (cases r)
  case None
  with assms(1) have "supersedeMemory sdb now nowString c tab = (None, tab')" by simp
  from supersede_rows [OF this] obtain prev prev' new where rows: "tab (pv_id (sc_previous c)) = Some prev"
      "prev ''user_id'' = Some (JStr (rp_userId (sc_replacement c)))" "prev ''processing_lineage'' = None"
    and keep: "\<forall>f \<in> {''user_id'', ''processing_lineage''}. prev' f = prev f"
    and new: "new ''active'' = Some (JBool False) \<longrightarrow> inactive_row tab (rp_id (sc_replacement c))"
    and same: "\<forall>old. tab (rp_id (sc_replacement c)) = Some old \<longrightarrow>
      (\<forall>f \<in> {''user_id'', ''processing_lineage''}. new f = old f)"
    and tab': "tab' = tab(rp_id (sc_replacement c) \<mapsto> new, pv_id (sc_previous c) \<mapsto> prev')"
    by blast
  show ?thesis
  proof (cases "i = pv_id (sc_previous c)")
    case True
    with rows keep show ?thesis
      by (simp add: unprotected_of_def tab')
  next
    case False
    with assms(2) new show ?thesis by (auto simp: inactive_row_def tab' split: if_splits)
  qed
next
  case (Some e)
  with assms supersede_error [of sdb now nowString c tab] show ?thesis by simp
qed

lemma supersede_unprotected:
  assumes "supersedeMemory sdb now nowString c tab = (r, tab')" and "unprotected_of user tab i"
  shows "unprotected_of user tab' i"
proof (cases r)
  case None
  with assms(1) have "supersedeMemory sdb now nowString c tab = (None, tab')" by simp
  from supersede_rows [OF this] obtain prev prev' new where rows: "tab (pv_id (sc_previous c)) = Some prev"
      "prev ''user_id'' = Some (JStr (rp_userId (sc_replacement c)))" "prev ''processing_lineage'' = None"
    and keep: "\<forall>f \<in> {''user_id'', ''processing_lineage''}. prev' f = prev f"
    and new: "new ''active'' = Some (JBool False) \<longrightarrow> inactive_row tab (rp_id (sc_replacement c))"
    and same: "\<forall>old. tab (rp_id (sc_replacement c)) = Some old \<longrightarrow>
      (\<forall>f \<in> {''user_id'', ''processing_lineage''}. new f = old f)"
    and tab': "tab' = tab(rp_id (sc_replacement c) \<mapsto> new, pv_id (sc_previous c) \<mapsto> prev')"
    by blast
  from assms(2) rows keep same show ?thesis by (auto simp: unprotected_of_def tab')
next
  case (Some e)
  with assms supersede_error [of sdb now nowString c tab] show ?thesis by simp
qed

section \<open>The loop\<close>

text \<open>A property of the table that every supersede of a named candidate keeps is kept by the loop.\<close>

definition named_candidates :: "stale_candidate list \<Rightarrow> jval list \<Rightarrow> jstr set" where
  "named_candidates candidates entries =
     {i. i \<in> ca_id ` set candidates
       \<and> (\<exists>e \<in> set entries. \<exists>s. jget e ''existingId'' = JStr s \<and> normalizeCandidateId (Id_string s) = i)}"

lemma request_named:
  assumes "entry_request d opts candidates n e = Inr (candidate, replacementId, factText)" "e \<in> set entries"
  shows "ca_id candidate \<in> named_candidates candidates entries"
proof -
  from assms(1) obtain s where "jget e ''existingId'' = JStr s"
    "find (\<lambda>c. ca_id c = normalizeCandidateId (Id_string s)) candidates = Some candidate"
    by (auto simp: entry_request_def Let_def split: if_splits option.splits jval.splits)
  with assms(2) show ?thesis by (fastforce simp: named_candidates_def find_Some_iff)
qed

lemma process_invariant:
  assumes step: "\<And>tab tab' r now nowString candidate replacementId factText embedding staleSince.
      P tab \<Longrightarrow> ca_id candidate \<in> named_candidates candidates all \<Longrightarrow>
      supersedeMemory (sd_sdb d) now nowString
        (stale_call opts tableName candidate replacementId factText embedding staleSince) tab = (r, tab') \<Longrightarrow> P tab'"
    and "P (ss_table st)" and "set es \<subseteq> set all"
  shows "P (ss_table (outcome_of (process_entries d opts tableName candidates n es st)))"
  using assms(2,3)
proof (induction es arbitrary: n st)
  case (Cons e es)
  have rec: "P (ss_table st') \<Longrightarrow>
      P (ss_table (outcome_of (process_entries d opts tableName candidates (Suc n) es st')))" for st'
    using Cons.IH Cons.prems(2) by simp
  show ?case
  proof (cases "entry_request d opts candidates n e")
    case (Inl reason)
    with rec [of st] rec [of "st\<lparr>ss_drops := ss_drops st @ [recordStalenessDrop (the reason)]\<rparr>"] Cons.prems(1)
    show ?thesis by (cases reason) simp_all
  next
    case (Inr t)
    obtain candidate replacementId factText where t: "t = (candidate, replacementId, factText)" by (cases t)
    have named: "ca_id candidate \<in> named_candidates candidates all"
      using request_named [OF Inr [unfolded t]] Cons.prems(2) by auto
    obtain now nowString staleSince where clock: "sd_clock d n = (now, nowString, staleSince)" by (cases "sd_clock d n")
    show ?thesis
    proof (cases "sd_embed d factText")
      case None
      with Inr t rec [of st] Cons.prems(1) show ?thesis by simp
    next
      case (Some embedding)
      obtain r tab' where sup: "supersedeMemory (sd_sdb d) now nowString
        (stale_call opts tableName candidate replacementId factText embedding staleSince) (ss_table st) = (r, tab')"
        by fastforce
      have "P tab'" by (rule step [OF Cons.prems(1) named sup])
      with Inr t rec [of st] rec [of "st\<lparr>ss_table := tab'\<rparr>"]
        rec [of "st\<lparr>ss_table := tab', ss_superseded := Suc (ss_superseded st)\<rparr>"] Cons.prems(1) Some clock sup
      show ?thesis by simp
    qed
  qed
qed simp

text \<open>The entries a model reply names, for the candidates of a call.\<close>

definition replied_entries ::
  "staleness_deps \<Rightarrow> staleness_opts \<Rightarrow> stale_candidate list \<Rightarrow> jval list \<Rightarrow> bool" where
  "replied_entries d opts candidates entries =
     (case sd_llm d \<lparr>sq_model = getStalenessModel d,
             sq_prompt = staleness_prompt (so_facts opts) candidates,
             sq_json_mode = sd_json_mode d (getStalenessModel d)\<rparr> of
        Llm_body body \<Rightarrow> parseStalenessEntries (answer_text body) = Some entries
      | _ \<Rightarrow> False)"

definition searched ::
  "staleness_deps \<Rightarrow> staleness_opts \<Rightarrow> jstr \<Rightarrow> stale_candidate list \<Rightarrow> bool" where
  "searched d opts tableName candidates =
     (map_option (map snd) (collect_candidates d (filter truthy (map sf_replacementMemoryId (so_facts opts)))
        tableName (so_facts opts) []) = Some candidates)"

lemma core_cases:
  "ss_table (sr_state (outcome_of (runStalenessCoreNoLock d opts tab))) = tab
    \<and> ss_superseded (sr_state (outcome_of (runStalenessCoreNoLock d opts tab))) = 0
   \<or> (\<exists>candidates entries tableName. searched d opts tableName candidates \<and> replied_entries d opts candidates entries
        \<and> sr_state (outcome_of (runStalenessCoreNoLock d opts tab)) = outcome_of
          (process_entries d opts tableName candidates 0 entries \<lparr>ss_table = tab, ss_superseded = 0, ss_drops = []\<rparr>))"
proof -
  let ?R = "runStalenessCoreNoLock d opts tab"
  let ?t = "case so_tableName opts of Some t \<Rightarrow> t | None \<Rightarrow> ''semiote''"
  let ?collected = "collect_candidates d (filter truthy (map sf_replacementMemoryId (so_facts opts))) ?t (so_facts opts) []"
  note run = runStalenessCoreNoLock_def [of d opts tab, unfolded Let_def]
  show ?thesis
  proof (cases "so_scope opts = ''global'' \<or> ?collected = None \<or> ?collected = Some []")
    case True
    then show ?thesis by (auto simp: run)
  next
    case False
    then obtain m where m: "?collected = Some m" "m \<noteq> []" and scope: "so_scope opts \<noteq> ''global''" by auto
    then have s: "searched d opts ?t (map snd m)" by (simp add: searched_def)
    let ?q = "\<lparr>sq_model = getStalenessModel d, sq_prompt = staleness_prompt (so_facts opts) (map snd m),
      sq_json_mode = sd_json_mode d (getStalenessModel d)\<rparr>"
    show ?thesis
    proof (cases "\<exists>body entries. sd_llm d ?q = Llm_body body \<and> parseStalenessEntries (answer_text body) = Some entries")
      case True
      then obtain body entries where r: "sd_llm d ?q = Llm_body body" "parseStalenessEntries (answer_text body) = Some entries"
        by blast
      then have "replied_entries d opts (map snd m) entries" by (simp add: replied_entries_def)
      moreover have "sr_state (outcome_of ?R) = outcome_of
          (process_entries d opts ?t (map snd m) 0 entries \<lparr>ss_table = tab, ss_superseded = 0, ss_drops = []\<rparr>)"
        using m scope r by (simp add: run split: pass_outcome.split)
      ultimately show ?thesis using s by blast
    next
      case False
      then show ?thesis using m scope by (simp add: run split: llm_reply.splits option.splits)
    qed
  qed
qed

end
