(* ===== verification/Staleness_Lock.thy ===== *)
theory Staleness_Lock
  imports Staleness_Laws
begin

text \<open>
  The lease that serialises the staleness passes of a user and scope
  (\<open>src/src/lifecycle/semion/lock.ts\<close>) and the public entry point of the pass
  (\<open>runStalenessPass\<close> in \<open>src/src/lifecycle/semion/staleness-pass.ts\<close>). Time is the database's
  clock in milliseconds; a query that the database fails to run throws and is outside the model.
\<close>

section \<open>Leases\<close>

type_synonym lock_table = "jstr \<Rightarrow> (jstr \<times> int) option"

definition lease_ms :: "real \<Rightarrow> int" where
  "lease_ms ttlSeconds = 1000 * max 1 \<lfloor>ttlSeconds\<rfloor>"

text \<open>An expired row is deleted, and the unique index decides whether the new row is created.\<close>

definition acquireLock :: "int \<Rightarrow> jstr \<Rightarrow> real \<Rightarrow> jstr \<Rightarrow> lock_table \<Rightarrow> jstr option \<times> lock_table" where
  "acquireLock now key ttlSeconds holder locks =
     (let locks1 = (case locks key of
                      Some (h, expires) \<Rightarrow> if expires \<le> now then locks(key := None) else locks
                    | None \<Rightarrow> locks)
      in if locks1 key = None then (Some holder, locks1(key \<mapsto> (holder, now + lease_ms ttlSeconds)))
         else (None, locks1))"

definition extendLock :: "int \<Rightarrow> jstr \<Rightarrow> jstr \<Rightarrow> real \<Rightarrow> lock_table \<Rightarrow> bool \<times> lock_table" where
  "extendLock now key holder ttlSeconds locks =
     (case locks key of
        Some (h, expires) \<Rightarrow>
          if h = holder then (True, locks(key \<mapsto> (h, now + lease_ms ttlSeconds))) else (False, locks)
      | None \<Rightarrow> (False, locks))"

definition releaseLock :: "jstr \<Rightarrow> jstr \<Rightarrow> lock_table \<Rightarrow> lock_table" where
  "releaseLock key holder locks =
     (case locks key of Some (h, expires) \<Rightarrow> if h = holder then locks(key := None) else locks | None \<Rightarrow> locks)"

section \<open>Concurrent workers\<close>

text \<open>
  The clock, the lock rows, and for every holder that has been handed out the key and the end of
  its lease as its worker knows it. Every acquisition draws an identifier never drawn before, as
  \<open>crypto.randomUUID\<close> documents; a worker may crash and never release.
\<close>

record lock_system =
  ls_now :: int
  ls_locks :: lock_table
  ls_leases :: "jstr \<Rightarrow> (jstr \<times> int) option"
  ls_drawn :: "jstr set"

inductive lock_step :: "lock_system \<Rightarrow> lock_system \<Rightarrow> bool" where
  Tick: "t \<ge> ls_now s \<Longrightarrow> lock_step s (s\<lparr>ls_now := t\<rparr>)"
| Acquire: "\<lbrakk>holder \<notin> ls_drawn s; acquireLock (ls_now s) key ttl holder (ls_locks s) = (Some h, locks')\<rbrakk> \<Longrightarrow>
    lock_step s (s\<lparr>ls_locks := locks', ls_drawn := insert holder (ls_drawn s),
      ls_leases := (ls_leases s)(h \<mapsto> (key, ls_now s + lease_ms ttl))\<rparr>)"
| Refused: "\<lbrakk>holder \<notin> ls_drawn s; acquireLock (ls_now s) key ttl holder (ls_locks s) = (None, locks')\<rbrakk> \<Longrightarrow>
    lock_step s (s\<lparr>ls_locks := locks', ls_drawn := insert holder (ls_drawn s)\<rparr>)"
| Extend: "\<lbrakk>ls_leases s holder = Some (key, e); extendLock (ls_now s) key holder ttl (ls_locks s) = (True, locks')\<rbrakk> \<Longrightarrow>
    lock_step s (s\<lparr>ls_locks := locks', ls_leases := (ls_leases s)(holder \<mapsto> (key, ls_now s + lease_ms ttl))\<rparr>)"
| Lost: "\<lbrakk>ls_leases s holder = Some (key, e); extendLock (ls_now s) key holder ttl (ls_locks s) = (False, locks')\<rbrakk> \<Longrightarrow>
    lock_step s (s\<lparr>ls_locks := locks', ls_leases := (ls_leases s)(holder := None)\<rparr>)"
| Release: "ls_leases s holder = Some (key, e) \<Longrightarrow>
    lock_step s (s\<lparr>ls_locks := releaseLock key holder (ls_locks s), ls_leases := (ls_leases s)(holder := None)\<rparr>)"

inductive lock_reachable :: "lock_system \<Rightarrow> bool" where
  Init: "lock_reachable \<lparr>ls_now = t, ls_locks = (\<lambda>_. None), ls_leases = (\<lambda>_. None), ls_drawn = {}\<rparr>"
| Step: "lock_reachable s \<Longrightarrow> lock_step s s' \<Longrightarrow> lock_reachable s'"

text \<open>A lease that has not ended is the row of its key; every row and lease is of a drawn holder.\<close>

definition lease_ok :: "lock_system \<Rightarrow> bool" where
  "lease_ok s \<longleftrightarrow>
     (\<forall>h k e. ls_leases s h = Some (k, e) \<longrightarrow> ls_now s < e \<longrightarrow> ls_locks s k = Some (h, e))
     \<and> (\<forall>k h e. ls_locks s k = Some (h, e) \<longrightarrow> h \<in> ls_drawn s)
     \<and> (\<forall>h. ls_leases s h \<noteq> None \<longrightarrow> h \<in> ls_drawn s)
     \<and> (\<forall>k k' h e e'. ls_locks s k = Some (h, e) \<longrightarrow> ls_locks s k' = Some (h, e') \<longrightarrow> k = k')"

lemma acquire_Some:
  "acquireLock now key ttl holder locks = (Some h, locks') \<longleftrightarrow>
    h = holder \<and> locks' = locks(key \<mapsto> (holder, now + lease_ms ttl))
    \<and> (\<forall>h' e'. locks key = Some (h', e') \<longrightarrow> e' \<le> now)"
  by (auto simp: acquireLock_def Let_def split: option.splits if_splits)

lemma acquire_None:
  "acquireLock now key ttl holder locks = (None, locks') \<longleftrightarrow>
    locks' = locks \<and> (\<exists>h' e'. locks key = Some (h', e') \<and> now < e')"
  by (auto simp: acquireLock_def Let_def split: option.splits if_splits)

lemma extend_True:
  "extendLock now key holder ttl locks = (True, locks') \<longleftrightarrow>
    (\<exists>e. locks key = Some (holder, e)) \<and> locks' = locks(key \<mapsto> (holder, now + lease_ms ttl))"
  by (auto simp: extendLock_def split: option.splits if_splits)

lemma extend_False: "extendLock now key holder ttl locks = (False, locks') \<Longrightarrow> locks' = locks"
  by (auto simp: extendLock_def split: option.splits if_splits)

lemma lease_ok_step: "lock_step s s' \<Longrightarrow> lease_ok s \<Longrightarrow> lease_ok s'"
proof (induction rule: lock_step.induct)
  case (Tick s t)
  then show ?case by (auto simp: lease_ok_def)
next
  case (Acquire holder s key ttl h locks')
  have "\<forall>k e. ls_locks s k \<noteq> Some (holder, e)" using Acquire(1,3) unfolding lease_ok_def by blast
  then show ?case using Acquire by (fastforce simp: lease_ok_def acquire_Some)
next
  case (Refused holder s key ttl locks')
  then show ?case by (auto simp: lease_ok_def acquire_None)
next
  case (Extend s holder key e ttl locks')
  then show ?case by (fastforce simp: lease_ok_def extend_True)
next
  case (Lost s holder key e ttl locks')
  then show ?case using extend_False [OF Lost(2)] by (auto simp: lease_ok_def)
next
  case (Release s holder key e)
  then show ?case by (fastforce simp: lease_ok_def releaseLock_def split: option.splits)
qed

lemma reachable_lease_ok: "lock_reachable s \<Longrightarrow> lease_ok s"
proof (induction rule: lock_reachable.induct)
  case (Init t)
  then show ?case by (simp add: lease_ok_def)
qed (rule lease_ok_step)

section \<open>The pass under its lock\<close>

record backlog_row =
  bl_userId :: jstr
  bl_scope :: jstr
  bl_sessionId :: "jstr option"
  bl_triggeredAt :: int
  bl_facts :: "stale_fact list"
  bl_status :: jstr

record staleness_world =
  sw_table :: db_table
  sw_locks :: lock_table
  sw_backlog :: "backlog_row list"

definition writeStalenessBacklog :: "int \<Rightarrow> staleness_opts \<Rightarrow> staleness_world \<Rightarrow> staleness_world" where
  "writeStalenessBacklog now opts w =
     w\<lparr>sw_backlog := sw_backlog w @ [\<lparr>bl_userId = so_userId opts, bl_scope = so_scope opts,
        bl_sessionId = so_sessionId opts, bl_triggeredAt = now, bl_facts = so_facts opts,
        bl_status = ''pending''\<rparr>]\<rparr>"

definition staleness_lock_key :: "jstr \<Rightarrow> jstr \<Rightarrow> jstr" where
  "staleness_lock_key userId scope = userId @ ''::'' @ scope"

text \<open>The checked and superseded counts; the lock is released whether the core returns or throws.\<close>

definition runStalenessPass ::
  "staleness_deps \<Rightarrow> staleness_opts \<Rightarrow> int \<Rightarrow> jstr \<Rightarrow> staleness_world
    \<Rightarrow> (nat \<times> nat) pass_outcome \<times> staleness_world" where
  "runStalenessPass d opts now holder w =
     (let key = staleness_lock_key (so_userId opts) (so_scope opts)
      in case acquireLock now key 60 holder (sw_locks w) of
           (None, locks') \<Rightarrow> (Pass_ok (0, 0), writeStalenessBacklog now opts (w\<lparr>sw_locks := locks'\<rparr>))
         | (Some h, locks') \<Rightarrow>
             (let ran = runStalenessCoreNoLock d opts (sw_table w); res = outcome_of ran;
                  counts = (sr_checked res, ss_superseded (sr_state res))
              in ((case ran of Pass_ok _ \<Rightarrow> Pass_ok counts | Pass_threw _ \<Rightarrow> Pass_threw counts),
                  w\<lparr>sw_table := ss_table (sr_state res), sw_locks := releaseLock key h locks'\<rparr>)))"

text \<open>The keys of different users and scopes differ, as a scope holds no colon.\<close>

lemma lock_key_injective:
  assumes "CHR '':'' \<notin> set scope" "CHR '':'' \<notin> set scope'"
    and "staleness_lock_key user scope = staleness_lock_key user' scope'"
  shows "user = user' \<and> scope = scope'"
proof -
  have tail: "rev (takeWhile (\<lambda>c. c \<noteq> CHR '':'') (rev (u @ ''::'' @ s))) = s" if "CHR '':'' \<notin> set s" for u s
    using that by (auto simp: takeWhile_append)
  from tail [OF assms(1), of user] tail [OF assms(2), of user'] assms(3)
  have "scope = scope'" unfolding staleness_lock_key_def by metis
  with assms(3) show ?thesis by (simp add: staleness_lock_key_def)
qed

lemma pass_acyclic_core:
  assumes "casts_strings (sd_sdb d)" "acyclic (supersede_edges (pointers tab) user)"
  shows "acyclic (supersede_edges (pointers (ss_table (sr_state (outcome_of (runStalenessCoreNoLock d opts tab))))) user)"
  using core_cases [of d opts tab]
proof (elim disjE exE conjE)
  fix candidates entries tableName
  assume st: "sr_state (outcome_of (runStalenessCoreNoLock d opts tab)) = outcome_of
    (process_entries d opts tableName candidates 0 entries \<lparr>ss_table = tab, ss_superseded = 0, ss_drops = []\<rparr>)"
  show ?thesis
    unfolding st
  proof (rule process_invariant [where P = "\<lambda>t. acyclic (supersede_edges (pointers t) user)" and all = entries])
    fix t t' r now nowString candidate replacementId factText embedding staleSince
    let ?c = "stale_call opts tableName candidate replacementId factText embedding staleSince"
    assume "acyclic (supersede_edges (pointers t) user)"
      and run: "supersedeMemory (sd_sdb d) now nowString ?c t = (r, t')"
    then have "acyclic (supersede_edges (pointers (snd (supersedeMemory (sd_sdb d) now nowString ?c t))) user)"
      by (intro supersede_edges_step [OF assms(1)]) (simp_all add: stale_call_def)
    with run show "acyclic (supersede_edges (pointers t') user)" by simp
  qed (simp_all add: assms(2))
qed (simp add: assms(2))

lemma core_retires:
  assumes "inactive_row (ss_table (sr_state (outcome_of (runStalenessCoreNoLock d opts tab)))) i"
    and "\<not> inactive_row tab i"
  shows "\<exists>candidates entries tableName. searched d opts tableName candidates
    \<and> replied_entries d opts candidates entries \<and> i \<in> named_candidates candidates entries
    \<and> unprotected_of (so_userId opts) (ss_table (sr_state (outcome_of (runStalenessCoreNoLock d opts tab)))) i"
  using core_cases [of d opts tab]
proof (elim disjE exE conjE)
  fix candidates entries tableName
  assume s: "searched d opts tableName candidates" "replied_entries d opts candidates entries"
    and st: "sr_state (outcome_of (runStalenessCoreNoLock d opts tab)) = outcome_of
      (process_entries d opts tableName candidates 0 entries \<lparr>ss_table = tab, ss_superseded = 0, ss_drops = []\<rparr>)"
  let ?P = "\<lambda>t. inactive_row t i \<longrightarrow> i \<in> named_candidates candidates entries \<and> unprotected_of (so_userId opts) t i"
  have "?P (ss_table (sr_state (outcome_of (runStalenessCoreNoLock d opts tab))))"
    unfolding st
  proof (rule process_invariant [where P = ?P and all = entries])
    fix t t' r now nowString candidate replacementId factText embedding staleSince
    let ?c = "stale_call opts tableName candidate replacementId factText embedding staleSince"
    assume P: "?P t" and named: "ca_id candidate \<in> named_candidates candidates entries"
      and run: "supersedeMemory (sd_sdb d) now nowString ?c t = (r, t')"
    show "?P t'"
    proof
      assume "inactive_row t' i"
      from supersede_retires [OF run this] P supersede_unprotected [OF run, of "so_userId opts" i] named
      show "i \<in> named_candidates candidates entries \<and> unprotected_of (so_userId opts) t' i"
        by (auto simp: stale_call_def)
    qed
  qed (use assms(2) in simp_all)
  with assms(1) s show ?thesis by blast
qed (use assms in simp)

lemma contended:
  assumes "sw_locks w (staleness_lock_key (so_userId opts) (so_scope opts)) = Some (h, e)" "now < e"
  shows "runStalenessPass d opts now holder w = (Pass_ok (0, 0), writeStalenessBacklog now opts w)"
  using assms by (simp add: runStalenessPass_def acquireLock_def)

lemma acquired:
  assumes "acquireLock now (staleness_lock_key (so_userId opts) (so_scope opts)) 60 holder (sw_locks w) = (Some h, locks')"
  shows "sw_table (snd (runStalenessPass d opts now holder w))
      = ss_table (sr_state (outcome_of (runStalenessCoreNoLock d opts (sw_table w))))"
  using assms by (simp add: runStalenessPass_def Let_def)

lemma pass_table:
  "sw_table (snd (runStalenessPass d opts now holder w)) = sw_table w
    \<or> sw_table (snd (runStalenessPass d opts now holder w))
      = ss_table (sr_state (outcome_of (runStalenessCoreNoLock d opts (sw_table w))))"
proof (cases "acquireLock now (staleness_lock_key (so_userId opts) (so_scope opts)) 60 holder (sw_locks w)")
  case (Pair r locks')
  then show ?thesis
    by (cases r) (simp_all add: acquired runStalenessPass_def Let_def writeStalenessBacklog_def)
qed

section \<open>A sample pass\<close>

definition sample_answer :: jstr where
  "sample_answer = ''{\"stale\":[{\"existingId\":\"a\",\"supersededByNewFactIndex\":0},null]}''"

definition sample_deps :: staleness_deps where
  "sample_deps = \<lparr>sd_fulltext = (\<lambda>q excl. Some [(Id_string ''semiote:a'', ''Alpha beta is delta'')]),
     sd_vector = (\<lambda>v excl. Some []), sd_embed = (\<lambda>t. Some []),
     sd_llm = (\<lambda>q. Llm_body (obj [(''choices'', JArr [obj [(''message'', obj [(''content'', JStr sample_answer)])]])])),
     sd_uuid = (\<lambda>n. ''uuid''), sd_clock = (\<lambda>n. (JStr ''t1'', ''t1'', ''t1'')), sd_sdb = sample_sdb,
     sd_model_env = None, sd_json_mode = (\<lambda>m. False)\<rparr>"

definition sample_opts :: staleness_opts where
  "sample_opts = \<lparr>so_userId = ''u'', so_scope = ''user'', so_sessionId = None,
     so_facts = [\<lparr>sf_text = ''Alpha beta is gamma'', sf_confidence = 1, sf_replacementMemoryId = ''b''\<rparr>],
     so_tableName = None\<rparr>"

definition sample_world :: staleness_world where
  "sample_world = \<lparr>sw_table = sample_table, sw_locks = (\<lambda>_. None), sw_backlog = []\<rparr>"

lemma sample_pass_runs:
  "(let (r, w) = runStalenessPass sample_deps sample_opts 0 ''h'' sample_world
    in r = Pass_ok (1, 1)
      \<and> map_option (\<lambda>row. row ''active'') (sw_table w ''a'') = Some (Some (JBool False))
      \<and> map_option (\<lambda>row. row ''supersedes'') (sw_table w ''b'') = Some (Some (JStr ''a''))
      \<and> sw_locks w ''u::user'' = None)"
  by code_simp

lemma sample_retired:
  "inactive_row (sw_table (snd (runStalenessPass sample_deps sample_opts 0 ''h'' sample_world))) ''a''"
  "\<not> inactive_row (sw_table sample_world) ''a''"
proof -
  from sample_pass_runs show "inactive_row (sw_table (snd (runStalenessPass sample_deps sample_opts 0 ''h'' sample_world))) ''a''"
    by (auto simp: inactive_row_def split: prod.splits)
  have "map_option (\<lambda>row. row ''active'') (sw_table sample_world ''a'') = Some (Some (JBool True))" by code_simp
  then show "\<not> inactive_row (sw_table sample_world) ''a''" by (auto simp: inactive_row_def)
qed

definition sample_locked :: lock_system where
  "sample_locked = \<lparr>ls_now = 5, ls_locks = [''u::user'' \<mapsto> (''h'', 60005)],
     ls_leases = [''h'' \<mapsto> (''u::user'', 60005)], ls_drawn = {''h''}\<rparr>"

lemma sample_locked_reachable: "lock_reachable sample_locked"
proof -
  let ?s = "\<lparr>ls_now = 5, ls_locks = (\<lambda>_. None), ls_leases = (\<lambda>_. None), ls_drawn = {}\<rparr>"
  have "acquireLock (ls_now ?s) ''u::user'' 60 ''h'' (ls_locks ?s) = (Some ''h'', [''u::user'' \<mapsto> (''h'', 60005)])"
    by (simp add: acquireLock_def lease_ms_def)
  from lock_step.Acquire [OF _ this] have "lock_step ?s sample_locked"
    by (simp add: sample_locked_def lease_ms_def)
  with lock_reachable.Init [of 5] show ?thesis by (rule lock_reachable.Step)
qed

section \<open>Properties\<close>

text \<open>A staleness pass keeps the supersession graph of every user acyclic, whatever the searches,
  the model and the embedding answer, and whether it returns or throws.\<close>

theorem staleness_keeps_acyclic:
  assumes "casts_strings (sd_sdb d)" and "acyclic (supersede_edges (pointers (sw_table w)) user)"
  shows "acyclic (supersede_edges (pointers (sw_table (snd (runStalenessPass d opts now holder w)))) user)"
  using pass_table [of d opts now holder w] pass_acyclic_core [OF assms, of opts] assms(2) by auto

theorem staleness_keeps_acyclic_witness:
  "acyclic (supersede_edges (pointers (sw_table (snd (runStalenessPass sample_deps sample_opts 0 ''h'' sample_world)))) ''u'')"
proof -
  have sdb: "casts_strings (sd_sdb sample_deps)" by (simp add: sample_deps_def sample_casts)
  have "acyclic (supersede_edges (pointers (sw_table sample_world)) ''u'')"
    by (simp add: sample_world_def sample_acyclic)
  from staleness_keeps_acyclic [OF sdb this] show ?thesis .
qed

text \<open>C21: A record that a staleness pass retires was found by a search for the new facts, was named by
  an entry of the model's reply to the prompt about exactly these candidates, and is a record of the
  pass's user without processing lineage.\<close>

theorem staleness_retires_only_named:
  assumes "inactive_row (sw_table (snd (runStalenessPass d opts now holder w))) i"
    and "\<not> inactive_row (sw_table w) i"
  shows "unprotected_of (so_userId opts) (sw_table (snd (runStalenessPass d opts now holder w))) i
    \<and> (\<exists>candidates entries tableName. searched d opts tableName candidates
        \<and> replied_entries d opts candidates entries \<and> i \<in> named_candidates candidates entries)"
proof -
  have "sw_table (snd (runStalenessPass d opts now holder w))
      = ss_table (sr_state (outcome_of (runStalenessCoreNoLock d opts (sw_table w))))"
    using pass_table [of d opts now holder w] assms by auto
  with core_retires [of d opts "sw_table w" i] assms show ?thesis by auto
qed

theorem staleness_retires_only_named_witness:
  "unprotected_of ''u'' (sw_table (snd (runStalenessPass sample_deps sample_opts 0 ''h'' sample_world))) ''a''"
  using staleness_retires_only_named [OF sample_retired] by (simp add: sample_opts_def)

text \<open>When the model call fails, answers with an error status, sends no JSON body, or its content is
  no JSON with a list of stale entries, the pass changes no record and reports nothing superseded.\<close>

theorem staleness_failure_harmless:
  assumes "\<And>q body. sd_llm d q = Llm_body body \<Longrightarrow> parseStalenessEntries (answer_text body) = None"
  shows "sw_table (snd (runStalenessPass d opts now holder w)) = sw_table w
    \<and> snd (outcome_of (fst (runStalenessPass d opts now holder w))) = 0"
proof -
  have "\<not> replied_entries d opts candidates entries" for candidates entries
    using assms by (auto simp: replied_entries_def split: llm_reply.splits)
  then have "ss_table (sr_state (outcome_of (runStalenessCoreNoLock d opts (sw_table w)))) = sw_table w
      \<and> ss_superseded (sr_state (outcome_of (runStalenessCoreNoLock d opts (sw_table w)))) = 0"
    using core_cases [of d opts "sw_table w"] by blast
  then show ?thesis
    by (cases "runStalenessCoreNoLock d opts (sw_table w)")
      (simp_all add: runStalenessPass_def Let_def writeStalenessBacklog_def split: prod.split option.split)
qed

theorem staleness_failure_harmless_witness:
  "sw_table (snd (runStalenessPass (sample_deps\<lparr>sd_llm := (\<lambda>q. Llm_fetch_error)\<rparr>) sample_opts 0 ''h'' sample_world))
    = sw_table sample_world"
  using staleness_failure_harmless [of "sample_deps\<lparr>sd_llm := (\<lambda>q. Llm_fetch_error)\<rparr>" sample_opts 0 "''h''" sample_world]
  by simp

text \<open>C22: In every interleaving of workers that acquire, extend, lose and release leases or crash, while
  one worker's lease on a key has not ended no other worker holds a lease on it that has not ended,
  and every attempt to acquire it is refused.\<close>

theorem lease_exclusive:
  assumes "lock_reachable s" and "ls_leases s h = Some (key, e)" and "ls_now s < e"
  shows "fst (acquireLock (ls_now s) key ttl h' (ls_locks s)) = None
    \<and> {h'. \<exists>e'. ls_leases s h' = Some (key, e') \<and> ls_now s < e'} = {h}"
proof -
  have ok: "ls_leases s h' = Some (k, e') \<longrightarrow> ls_now s < e' \<longrightarrow> ls_locks s k = Some (h', e')" for h' k e'
    using reachable_lease_ok [OF assms(1)] by (simp add: lease_ok_def)
  from ok [of h key e] assms(2,3) have row: "ls_locks s key = Some (h, e)" by simp
  have "h' = h" if "ls_leases s h' = Some (key, e')" "ls_now s < e'" for h' e'
    using ok [of h' key e'] row that by simp
  then have "{h'. \<exists>e'. ls_leases s h' = Some (key, e') \<and> ls_now s < e'} = {h}"
    using assms(2,3) by blast
  moreover have "fst (acquireLock (ls_now s) key ttl h' (ls_locks s)) = None"
    using row assms(3) by (simp add: acquireLock_def)
  ultimately show ?thesis by simp
qed

theorem lease_exclusive_witness:
  "fst (acquireLock 5 ''u::user'' 60 ''other'' (ls_locks sample_locked)) = None"
  using lease_exclusive [OF sample_locked_reachable, of "''h''" "''u::user''" 60005 60 "''other''"]
  by (simp add: sample_locked_def)

text \<open>While another worker's lease on the user and scope lives, a staleness pass calls neither the
  searches nor the model: it changes no record and no lock, and leaves its facts in one pending row of
  the backlog.\<close>

theorem pass_waits_for_lease:
  assumes "lock_reachable s" and "ls_leases s h = Some (staleness_lock_key (so_userId opts) (so_scope opts), e)"
    and "ls_now s < e" and "sw_locks w = ls_locks s"
  shows "runStalenessPass d opts (ls_now s) holder w
    = (Pass_ok (0, 0), writeStalenessBacklog (ls_now s) opts w)"
proof (rule contended)
  show "sw_locks w (staleness_lock_key (so_userId opts) (so_scope opts)) = Some (h, e)"
    using reachable_lease_ok [OF assms(1)] assms(2-4) by (simp add: lease_ok_def)
qed (rule assms(3))

theorem pass_waits_for_lease_witness:
  "runStalenessPass sample_deps sample_opts 5 ''other'' (sample_world\<lparr>sw_locks := ls_locks sample_locked\<rparr>)
    = (Pass_ok (0, 0), writeStalenessBacklog 5 sample_opts (sample_world\<lparr>sw_locks := ls_locks sample_locked\<rparr>))"
  using pass_waits_for_lease [OF sample_locked_reachable, of "''h''" sample_opts 60005
      "sample_world\<lparr>sw_locks := ls_locks sample_locked\<rparr>" sample_deps "''other''"]
  by (simp add: sample_locked_def sample_opts_def staleness_lock_key_def)

end
