(* ===== verification/Recall_Intent.thy ===== *)
theory Recall_Intent
  imports Search_Hit Referent_Identity
begin

text \<open>
  What a recall is for: the intent of a query (\<open>src/src/recall/intent/intent-analyzer.ts\<close>), its
  depth and categories, and the boost of the categories it asks for. The four patterns of Chinese words match no
  text of the model's code units, and are left out of the table.
\<close>

section \<open>Intents\<close>

datatype query_intent =
    I_preference | I_decision | I_entity | I_event | I_fact | I_current_status | I_recent_work
  | I_schema | I_debugging | I_architecture | I_workflow_posture | I_session_opener
  | I_pre_compaction | I_post_compaction_validation | I_latest_state | I_exact_lookup
  | I_decision_trace | I_exploratory_topic | I_unknown_mixed

datatype recall_depth = L0 | L1 | Full

record intent_signal =
  is_categories :: "jstr list"
  is_depth :: recall_depth
  is_confidence :: real
  is_label :: query_intent

datatype intent_hint = Opener_hint | Pre_compaction_hint | Post_compaction_hint

definition STATUS_CLASS_INTENTS :: "query_intent list" where
  "STATUS_CLASS_INTENTS =
     [I_current_status, I_session_opener, I_pre_compaction, I_post_compaction_validation]"

definition isStatusClassIntent :: "query_intent \<Rightarrow> bool" where
  "isStatusClassIntent label = (label \<in> set STATUS_CLASS_INTENTS)"

definition COMPACTION_INTENTS :: "query_intent list" where
  "COMPACTION_INTENTS = [I_pre_compaction, I_post_compaction_validation]"

definition isCompactionIntent :: "query_intent \<Rightarrow> bool" where
  "isCompactionIntent label = (label \<in> set COMPACTION_INTENTS)"

definition PAYLOAD_SHAPED_INTENTS :: "query_intent list" where
  "PAYLOAD_SHAPED_INTENTS = I_session_opener # COMPACTION_INTENTS"

text \<open>\<open>.\<close> without the flag \<open>s\<close>, and words under the flag \<open>i\<close>.\<close>

definition dot_char :: "char \<Rightarrow> bool" where
  "dot_char c = (code_unit c \<noteq> 10 \<and> code_unit c \<noteq> 13)"

definition any_run :: re where
  "any_run = Star (Chr dot_char)"

definition words :: "jstr list \<Rightarrow> re" where
  "words ws = word_pat (alts (map lit_ci ws))"

definition INTENT_PATTERNS :: "(query_intent \<times> re) list" where
  "INTENT_PATTERNS =
     [(I_session_opener,
        seqs [text_start,
          alts (map lit_ci [''hi'', ''hello'', ''hey'', ''good morning'', ''good afternoon'',
                 ''good evening'', ''what's up'']
            @ [seqs [lit_ci ''let'', opt (ch (CHR 0x27)), lit_ci ''s '',
                     alts (map lit_ci [''continue'', ''resume'', ''pick up''])],
               seqs [lit_ci ''where '', alts (map lit_ci [''were'', ''did'']), lit_ci '' we leave off'']]
            @ map lit_ci [''catch me up'', ''status update'', ''resume'', ''continue'']
            @ [seqs [opt (Seq (lit_ci ''just'') (plus ws_re)), lit_ci ''starting a new session'']]),
          WordB]),
      (I_architecture,
        word_pat (alts
          (map lit_ci [''how should we'', ''what sections should'', ''what belongs in'']
           @ [Seq (lit_ci ''what regression check'') (opt (lit_ci ''s'')), lit_ci ''what navigation'',
              seqs [lit_ci ''what should '', any_run, lit_ci '' keep versus skip''],
              seqs [lit_ci ''how do we keep '', any_run, lit_ci '' while still reusing''],
              seqs [lit_ci ''how do we prove '', any_run, lit_ci '' are present but demoted''],
              lit_ci ''what exactly do we need to inspect'',
              seqs [lit_ci ''how do we evolve '', any_run, lit_ci '' instead of'']]
           @ map lit_ci [''what ranking or selection metadata should'', ''how should we expose raw json'',
              ''what navigation affordances should'', ''how do we tell reviewers'']))),
      (I_architecture,
        word_pat (alts
          (map lit_ci [''html review surface'', ''artifact contract'', ''turn-by-turn replay'']
           @ [seqs [lit_ci ''seed'', opt (lit_ci ''ed''), lit_ci '' history''],
              Seq (lit_ci ''recency bucket'') (opt (lit_ci ''s''))]
           @ map lit_ci [''raw artifacts'', ''raw artifact'', ''track navigation'', ''turn navigation'',
              ''retrieval trace id'', ''selected ids'', ''db delta'', ''interesting turns'', ''interesting turn'']))),
      (I_workflow_posture,
        word_pat (alts
          (map lit_ci [''highest-priority'', ''top priority'', ''what should the assertions prove'',
              ''do we have any blocker'']
           @ [seqs [lit_ci ''what'', Alt (lit_ci [CHR 0x27, CHR ''s'']) (lit_ci '' is''), lit_ci '' the next step''],
              seqs [lit_ci ''let'', opt (ch (CHR 0x27)), lit_ci ''s write the handoff'']]
           @ map lit_ci [''write the handoff'', ''priority outcome'', ''surface blockers'', ''surface blocker'']))),
      (I_latest_state,
        words [''latest state'', ''current state'', ''current truth'', ''latest truth'', ''most recent state'',
          ''active representative'']),
      (I_latest_state,
        word_pat (seqs [alts (map lit_ci [''what is'', ''what's'', ''show me'', ''tell me'']), plus ws_re,
          lit_ci ''the'', plus ws_re, alts (map lit_ci [''latest'', ''current'', ''active''])])),
      (I_exact_lookup,
        words [''exact lookup'', ''exact match'', ''direct lookup'', ''look up exactly'']),
      (I_decision_trace,
        word_pat (alts
          (map lit_ci [''decision trace'', ''decision history'', ''why did we decide'']
           @ [seqs [lit_ci ''why was '', any_run, lit_ci '' chosen''], lit_ci ''tradeoff history'']))),
      (I_exploratory_topic,
        words [''explore'', ''exploratory'', ''broad overview'', ''survey'', ''landscape'',
          ''tell me everything about'']),
      (I_unknown_mixed,
        words [''mixed bag'', ''not sure'', ''ambiguous'', ''unknown mixed'']),
      (I_preference,
        words [''prefer'', ''preference'', ''preferences'', ''preferred'', ''favorite'', ''favourite'', ''like to'',
          ''style'', ''habit'', ''convention'', ''setting'', ''configuration'']),
      (I_preference,
        words [''how do i'', ''what do i'', ''my preferred'', ''i usually'', ''i always'', ''i tend to'']),
      (I_decision,
        words [''decide'', ''decided'', ''decision'', ''chose'', ''chosen'', ''why did we'', ''rationale'',
          ''tradeoff'', ''trade-off'', ''approach'']),
      (I_decision,
        words [''opted for'', ''went with'', ''picked'', ''selected'', ''agreed on'']),
      (I_current_status,
        words [''what are we working on'', ''current status'', ''status update'', ''where are we'',
          ''what changed in the current status'']),
      (I_recent_work, word_pat (Seq (lit_ci ''MIM-'') (plus digit_re))),
      (I_recent_work,
        word_pat (alts (map lit_ci [''recent work'', ''tonight'', ''today'', ''what changed recently'']
          @ [Seq (lit_ci ''latest change'') (opt (lit_ci ''s''))]))),
      (I_schema,
        word_pat (alts [lit_ci ''schema'', lit_ci ''SearchHit'', Seq (lit_ci ''payload.'') (plus word_re),
          seqs [lit_ci ''SurrealDB'', any_run, lit_ci ''field''], lit_ci ''DEFINE FIELD''])),
      (I_debugging,
        words [''test failure'', ''vitest'', ''mocking'', ''500 error'', ''debug'']),
      (I_architecture,
        words [''write arbitration'', ''pipeline'', ''architecture'', ''data flow'']),
      (I_entity,
        words [''status of'', ''state of'', ''what is'', ''tell me about'', ''describe'', ''overview of'',
          ''details about'']),
      (I_entity,
        words [''component'', ''service'', ''module'', ''system'', ''project'', ''library'', ''framework'']),
      (I_event,
        words [''happened'', ''occurred'', ''when did'', ''timeline'', ''history'', ''deployed'', ''shipped'',
          ''released'', ''launched'']),
      (I_event,
        words [''yesterday'', ''last week'', ''last month'', ''recently'', ''earlier today''])]"

primrec CATEGORY_MAP :: "query_intent \<Rightarrow> jstr list" where
  "CATEGORY_MAP I_preference = [''preferences'', ''profile'']"
| "CATEGORY_MAP I_decision = [''cases'', ''patterns'']"
| "CATEGORY_MAP I_entity = [''entities'']"
| "CATEGORY_MAP I_event = [''events'', ''entities'']"
| "CATEGORY_MAP I_fact = [''cases'', ''entities'']"
| "CATEGORY_MAP I_current_status = [''events'', ''entities'']"
| "CATEGORY_MAP I_recent_work = [''events'', ''cases'']"
| "CATEGORY_MAP I_schema = [''entities'', ''cases'']"
| "CATEGORY_MAP I_debugging = [''cases'', ''patterns'']"
| "CATEGORY_MAP I_architecture = [''entities'', ''cases'', ''patterns'']"
| "CATEGORY_MAP I_workflow_posture = [''events'', ''cases'', ''patterns'']"
| "CATEGORY_MAP I_session_opener = [''events'', ''entities'']"
| "CATEGORY_MAP I_pre_compaction = [''events'', ''entities'']"
| "CATEGORY_MAP I_post_compaction_validation = [''events'', ''entities'']"
| "CATEGORY_MAP I_latest_state = [''entities'', ''events'']"
| "CATEGORY_MAP I_exact_lookup = [''entities'', ''cases'']"
| "CATEGORY_MAP I_decision_trace = [''cases'', ''patterns'']"
| "CATEGORY_MAP I_exploratory_topic = [''entities'', ''patterns'']"
| "CATEGORY_MAP I_unknown_mixed = [''entities'', ''events'']"

definition DEPTH_MAP :: "query_intent \<Rightarrow> recall_depth" where
  "DEPTH_MAP label =
     (if label \<in> {I_preference, I_post_compaction_validation} then L0
      else if label \<in> {I_current_status, I_recent_work, I_schema, I_session_opener, I_pre_compaction,
                       I_latest_state} then L1
      else Full)"

definition signal_for :: "query_intent \<Rightarrow> real \<Rightarrow> intent_signal" where
  "signal_for label confidence =
     \<lparr>is_categories = CATEGORY_MAP label, is_depth = DEPTH_MAP label, is_confidence = confidence,
      is_label = label\<rparr>"

definition analyzeIntent :: "jstr \<Rightarrow> intent_hint option \<Rightarrow> intent_signal" where
  "analyzeIntent query hint =
     (case hint of
        Some Opener_hint \<Rightarrow> signal_for I_session_opener (95 / 100)
      | Some Pre_compaction_hint \<Rightarrow> signal_for I_pre_compaction (95 / 100)
      | Some Post_compaction_hint \<Rightarrow> signal_for I_post_compaction_validation (95 / 100)
      | None \<Rightarrow>
          (case find (\<lambda>(_, pattern). re_test pattern query) INTENT_PATTERNS of
             Some (label, _) \<Rightarrow> signal_for label (8 / 10)
           | None \<Rightarrow> signal_for I_fact (3 / 10)))"

definition applyCategoryBoost ::
  "real \<Rightarrow> intent_signal \<Rightarrow> recall_hit list \<Rightarrow> recall_hit list" where
  "applyCategoryBoost boostFactor intent results =
     (if is_label intent = I_fact then results
      else sort_by_score (map (\<lambda>r. case rh_category r of
          Some c \<Rightarrow> if c \<noteq> [] \<and> c \<in> set (is_categories intent) then r\<lparr>sh_score := sh_score r * boostFactor\<rparr> else r
        | None \<Rightarrow> r) results))"

end
