(* ===== verification/Recall_Policy.thy ===== *)
theory Recall_Policy
  imports Recall_Intent
begin

text \<open>
  The policy of a recall: the lane of an intent and its retrieval policy
  (\<open>src/src/recall/policy/retrieval-policy.ts\<close>, \<open>policy-types.ts\<close>), the admissibility contracts
  (\<open>admissibility-contract.ts\<close>) and the retrieval recipes with their source budgets
  (\<open>recipe-registry.ts\<close>).
\<close>

section \<open>Admissibility contracts\<close>

datatype selector_profile =
  Status_continuity | Guidance_reference | Workflow_posture | Recent_work_profile | Mixed_default

datatype continuity_class = Durable_guidance | Transient_continuity | Neutral

datatype continuity_disposition = Preferred | Allowed | Capped | Compatibility_only | Disallowed

datatype selection_engine = Contract_enforced | Continuity_resolved

record admissibility_contract =
  ac_id :: jstr
  ac_version :: jstr
  ac_selectorProfile :: selector_profile
  ac_selectionEngine :: selection_engine
  ac_primaryGroups :: "memory_role list"
  ac_secondaryGroups :: "memory_role list"
  ac_barredGroups :: "memory_role list"
  ac_cappedGroups :: "(memory_role \<times> nat) list"
  ac_continuityClasses :: "continuity_class \<Rightarrow> continuity_disposition"
  ac_requirePrimaryRepresentative :: bool
  ac_compatibilityMode :: bool

definition contract_version :: jstr where
  "contract_version = ''2026-04-18-v1''"

fun classes ::
  "continuity_disposition \<Rightarrow> continuity_disposition \<Rightarrow> continuity_disposition
    \<Rightarrow> continuity_class \<Rightarrow> continuity_disposition" where
  "classes durable transient neutral Durable_guidance = durable"
| "classes durable transient neutral Transient_continuity = transient"
| "classes durable transient neutral Neutral = neutral"

definition guidance_contract :: admissibility_contract where
  "guidance_contract =
     \<lparr>ac_id = ''guidance_reference_admissibility'', ac_version = contract_version,
      ac_selectorProfile = Guidance_reference, ac_selectionEngine = Contract_enforced,
      ac_primaryGroups = [Planning_active, Architecture_reference],
      ac_secondaryGroups = [Recent_work, Session_handoff],
      ac_barredGroups = [Current_status, Operational_noise, Admin_process, Deploy_ops],
      ac_cappedGroups = [],
      ac_continuityClasses = classes Preferred Capped Disallowed,
      ac_requirePrimaryRepresentative = True, ac_compatibilityMode = False\<rparr>"

definition posture_contract :: admissibility_contract where
  "posture_contract =
     \<lparr>ac_id = ''workflow_posture_admissibility'', ac_version = contract_version,
      ac_selectorProfile = Workflow_posture, ac_selectionEngine = Contract_enforced,
      ac_primaryGroups = [Planning_active, Session_handoff],
      ac_secondaryGroups = [Recent_work, Architecture_reference],
      ac_barredGroups = [Operational_noise, Admin_process, Deploy_ops],
      ac_cappedGroups = [(Current_status, 1)],
      ac_continuityClasses = classes Preferred Capped Disallowed,
      ac_requirePrimaryRepresentative = True, ac_compatibilityMode = False\<rparr>"

definition recent_work_contract :: admissibility_contract where
  "recent_work_contract =
     \<lparr>ac_id = ''recent_work_admissibility'', ac_version = contract_version,
      ac_selectorProfile = Recent_work_profile, ac_selectionEngine = Contract_enforced,
      ac_primaryGroups = [Recent_work, Planning_active, Architecture_reference],
      ac_secondaryGroups = [Session_handoff, Current_status],
      ac_barredGroups = [Operational_noise, Admin_process, Deploy_ops],
      ac_cappedGroups = [(Current_status, 1)],
      ac_continuityClasses = classes Allowed Allowed Disallowed,
      ac_requirePrimaryRepresentative = True, ac_compatibilityMode = False\<rparr>"

definition status_contract :: admissibility_contract where
  "status_contract =
     \<lparr>ac_id = ''status_continuity_compatibility'', ac_version = contract_version,
      ac_selectorProfile = Status_continuity, ac_selectionEngine = Continuity_resolved,
      ac_primaryGroups = [Current_status, Session_handoff, Recent_work, Debugging_active],
      ac_secondaryGroups = [Planning_active, Architecture_reference],
      ac_barredGroups = [], ac_cappedGroups = [],
      ac_continuityClasses = classes Compatibility_only Compatibility_only Compatibility_only,
      ac_requirePrimaryRepresentative = False, ac_compatibilityMode = True\<rparr>"

definition resolveAdmissibilityContractForSelectorProfile ::
  "selector_profile \<Rightarrow> admissibility_contract option" where
  "resolveAdmissibilityContractForSelectorProfile selectorProfile =
     (case selectorProfile of
        Guidance_reference \<Rightarrow> Some guidance_contract
      | Workflow_posture \<Rightarrow> Some posture_contract
      | Recent_work_profile \<Rightarrow> Some recent_work_contract
      | Status_continuity \<Rightarrow> Some status_contract
      | Mixed_default \<Rightarrow> None)"

section \<open>Lanes and policies\<close>

datatype recall_lane =
    L_session_opener | L_compaction_projection | L_current_status | L_latest_state
  | L_guidance_reference | L_workflow_posture | L_exact_lookup | L_recent_work
  | L_decision_trace | L_exploratory_topic | L_unknown_mixed

datatype retrieval_path = Deterministic | Hybrid | Latest_state_path

record hexis_lane_policy =
  hp_enabled :: bool
  hp_reorderWindow :: nat
  hp_scoreEpsilon :: real
  hp_ambiguityThreshold :: real
  hp_hexisLambda :: real

record rrf_weights =
  rw_vector :: real
  rw_bm25 :: real
  rw_recency :: real

record retrieval_policy =
  rp_lane :: recall_lane
  rp_retrievalPath :: retrieval_path
  rp_useDeterministicContinuity :: bool
  rp_useLatestStateResolution :: bool
  rp_selectorProfile :: selector_profile
  rp_admissibilityContract :: "admissibility_contract option"
  rp_rrfWeights :: "rrf_weights option"
  rp_recencyWindowHours :: "nat option"
  rp_hexis :: hexis_lane_policy

definition hybrid_hexis :: "real \<Rightarrow> hexis_lane_policy" where
  "hybrid_hexis lambda =
     \<lparr>hp_enabled = True, hp_reorderWindow = 7, hp_scoreEpsilon = 15 / 10000,
      hp_ambiguityThreshold = 8 / 100, hp_hexisLambda = lambda\<rparr>"

definition strict_hexis :: "real \<Rightarrow> hexis_lane_policy" where
  "strict_hexis lambda =
     \<lparr>hp_enabled = True, hp_reorderWindow = 5, hp_scoreEpsilon = 15 / 10000,
      hp_ambiguityThreshold = 5 / 100, hp_hexisLambda = lambda\<rparr>"

definition no_hexis :: hexis_lane_policy where
  "no_hexis = \<lparr>hp_enabled = False, hp_reorderWindow = 0, hp_scoreEpsilon = 0,
     hp_ambiguityThreshold = 0, hp_hexisLambda = 0\<rparr>"

definition weights :: "real \<Rightarrow> real \<Rightarrow> rrf_weights" where
  "weights bm25 recency = \<lparr>rw_vector = 1, rw_bm25 = bm25, rw_recency = recency\<rparr>"

definition mapIntentToRecallLane :: "query_intent \<Rightarrow> recall_lane" where
  "mapIntentToRecallLane label =
     (case label of
        I_session_opener \<Rightarrow> L_session_opener
      | I_pre_compaction \<Rightarrow> L_compaction_projection
      | I_post_compaction_validation \<Rightarrow> L_compaction_projection
      | I_current_status \<Rightarrow> L_current_status
      | I_latest_state \<Rightarrow> L_latest_state
      | I_architecture \<Rightarrow> L_guidance_reference
      | I_workflow_posture \<Rightarrow> L_workflow_posture
      | I_recent_work \<Rightarrow> L_recent_work
      | I_exact_lookup \<Rightarrow> L_exact_lookup
      | I_decision_trace \<Rightarrow> L_decision_trace
      | I_decision \<Rightarrow> L_decision_trace
      | I_exploratory_topic \<Rightarrow> L_exploratory_topic
      | I_entity \<Rightarrow> L_exact_lookup
      | I_schema \<Rightarrow> L_exact_lookup
      | I_debugging \<Rightarrow> L_exact_lookup
      | I_preference \<Rightarrow> L_exact_lookup
      | I_event \<Rightarrow> L_exploratory_topic
      | I_unknown_mixed \<Rightarrow> L_unknown_mixed
      | I_fact \<Rightarrow> L_unknown_mixed)"

text \<open>A hybrid policy: no latest-state resolution, the contract of its profile, weights and window.\<close>

definition hybrid_policy ::
  "recall_lane \<Rightarrow> selector_profile \<Rightarrow> rrf_weights \<Rightarrow> nat \<Rightarrow> hexis_lane_policy \<Rightarrow> retrieval_policy" where
  "hybrid_policy lane profile w window hexis =
     \<lparr>rp_lane = lane, rp_retrievalPath = Hybrid, rp_useDeterministicContinuity = False,
      rp_useLatestStateResolution = False, rp_selectorProfile = profile,
      rp_admissibilityContract = resolveAdmissibilityContractForSelectorProfile profile,
      rp_rrfWeights = Some w, rp_recencyWindowHours = Some window, rp_hexis = hexis\<rparr>"

definition continuity_policy :: "recall_lane \<Rightarrow> retrieval_policy" where
  "continuity_policy lane =
     \<lparr>rp_lane = lane, rp_retrievalPath = Deterministic, rp_useDeterministicContinuity = True,
      rp_useLatestStateResolution = False, rp_selectorProfile = Status_continuity,
      rp_admissibilityContract = resolveAdmissibilityContractForSelectorProfile Status_continuity,
      rp_rrfWeights = None, rp_recencyWindowHours = None, rp_hexis = no_hexis\<rparr>"

definition resolveRetrievalPolicyForLane :: "recall_lane \<Rightarrow> retrieval_policy" where
  "resolveRetrievalPolicyForLane lane =
     (case lane of
        L_session_opener \<Rightarrow> continuity_policy lane
      | L_compaction_projection \<Rightarrow> continuity_policy lane
      | L_current_status \<Rightarrow> continuity_policy lane
      | L_latest_state \<Rightarrow>
          (continuity_policy lane)\<lparr>rp_retrievalPath := Latest_state_path,
             rp_useDeterministicContinuity := False, rp_useLatestStateResolution := True,
             rp_hexis := strict_hexis (1 / 10)\<rparr>
      | L_guidance_reference \<Rightarrow>
          hybrid_policy lane Guidance_reference (weights (145 / 100) (2 / 10)) 12 (strict_hexis (5 / 100))
      | L_workflow_posture \<Rightarrow>
          hybrid_policy lane Workflow_posture (weights (135 / 100) (35 / 100)) 18 (strict_hexis (5 / 100))
      | L_exact_lookup \<Rightarrow>
          hybrid_policy lane Mixed_default (weights (12 / 10) (2 / 10)) 12 (strict_hexis 0)
      | L_recent_work \<Rightarrow>
          hybrid_policy lane Recent_work_profile (weights (125 / 100) (45 / 100)) 24 (strict_hexis (1 / 10))
      | L_decision_trace \<Rightarrow>
          hybrid_policy lane Mixed_default (weights (12 / 10) (35 / 100)) 18 (hybrid_hexis (25 / 100))
      | L_exploratory_topic \<Rightarrow>
          hybrid_policy lane Mixed_default (weights (12 / 10) (8 / 10)) 48 (hybrid_hexis (25 / 100))
      | L_unknown_mixed \<Rightarrow>
          hybrid_policy lane Mixed_default (weights (12 / 10) (8 / 10)) 48 (hybrid_hexis (2 / 10)))"

section \<open>Recipes\<close>

datatype recipe_id =
  Status_current | Compaction_projection | Workflow_posture_recipe | History_change
| Reference_architecture | General_recall

datatype recipe_source =
  From_project_state | From_continuity_memory | From_vector | From_bm25 | From_recency | From_entity
| From_latest_state_representatives

datatype formatting_shape = Session_opener_shape | Recall_injection_shape

record retrieval_recipe =
  rr_id :: recipe_id
  rr_version :: jstr
  rr_retrievalPath :: retrieval_path
  rr_relationExpansionEnabled :: bool
  rr_stableKnowledgeEnabled :: bool
  rr_formattingShape :: formatting_shape
  rr_traceLabels :: "jstr list"

definition recipe_of ::
  "recipe_id \<Rightarrow> retrieval_path \<Rightarrow> formatting_shape \<Rightarrow> jstr list \<Rightarrow> retrieval_recipe" where
  "recipe_of i path shape labels =
     \<lparr>rr_id = i, rr_version = ''phase-a-v1'', rr_retrievalPath = path,
      rr_relationExpansionEnabled = False, rr_stableKnowledgeEnabled = True,
      rr_formattingShape = shape, rr_traceLabels = labels\<rparr>"

definition getRecipeById :: "recipe_id \<Rightarrow> retrieval_recipe" where
  "getRecipeById i =
     (case i of
        Status_current \<Rightarrow>
          recipe_of i Deterministic Session_opener_shape [''status'', ''continuity'', ''current'']
      | Compaction_projection \<Rightarrow>
          recipe_of i Deterministic Session_opener_shape [''compaction'', ''continuity'', ''projection'']
      | Workflow_posture_recipe \<Rightarrow> recipe_of i Hybrid Recall_injection_shape [''workflow'', ''posture'']
      | History_change \<Rightarrow> recipe_of i Hybrid Recall_injection_shape [''history'', ''change'']
      | Reference_architecture \<Rightarrow>
          recipe_of i Hybrid Recall_injection_shape [''reference'', ''architecture'']
      | General_recall \<Rightarrow> recipe_of i Hybrid Recall_injection_shape [''general'', ''recall''])"

definition resolveRecipeIdForIntent :: "query_intent \<Rightarrow> recipe_id" where
  "resolveRecipeIdForIntent label =
     (if label \<in> {I_session_opener, I_current_status, I_latest_state} then Status_current
      else if label \<in> {I_pre_compaction, I_post_compaction_validation} then Compaction_projection
      else if label \<in> {I_recent_work, I_decision, I_decision_trace, I_event} then History_change
      else if label = I_workflow_posture then Workflow_posture_recipe
      else if label \<in> {I_architecture, I_schema} then Reference_architecture
      else General_recall)"

definition resolveRecipeForIntent :: "query_intent \<Rightarrow> retrieval_recipe" where
  "resolveRecipeForIntent label = getRecipeById (resolveRecipeIdForIntent label)"

definition resolveBudgetsForPath :: "retrieval_path \<Rightarrow> nat \<Rightarrow> (recipe_source \<times> nat) list" where
  "resolveBudgetsForPath path topK =
     (let hybridLegBudget = max 1 (topK * 3);
          legs = [(From_vector, hybridLegBudget), (From_bm25, hybridLegBudget),
                  (From_recency, hybridLegBudget), (From_entity, min 50 hybridLegBudget)]
      in case path of
           Deterministic \<Rightarrow> [(From_project_state, 1), (From_continuity_memory, 5)]
         | Latest_state_path \<Rightarrow> legs @ [(From_latest_state_representatives, max 1 topK)]
         | Hybrid \<Rightarrow> legs)"

definition normalizeSourceCounts ::
  "(recipe_source \<times> nat) list \<Rightarrow> (recipe_source \<rightharpoonup> nat) option \<Rightarrow> (recipe_source \<times> nat) list" where
  "normalizeSourceCounts budgets sourceCounts =
     map (\<lambda>(source, _).
       (source, case sourceCounts of None \<Rightarrow> 0
                | Some counts \<Rightarrow> (case counts source of None \<Rightarrow> 0 | Some n \<Rightarrow> n))) budgets"

section \<open>The controller\<close>

record controller_resolution =
  cr_intent :: intent_signal
  cr_policy :: retrieval_policy
  cr_recipe :: retrieval_recipe

definition resolveRetrievalController :: "intent_signal \<Rightarrow> controller_resolution" where
  "resolveRetrievalController intent =
     \<lparr>cr_intent = intent,
      cr_policy = resolveRetrievalPolicyForLane (mapIntentToRecallLane (is_label intent)),
      cr_recipe = resolveRecipeForIntent (is_label intent)\<rparr>"

section \<open>Facts about the tables\<close>

lemma lane_profile_contract:
  "rp_admissibilityContract (resolveRetrievalPolicyForLane lane)
    = resolveAdmissibilityContractForSelectorProfile (rp_selectorProfile (resolveRetrievalPolicyForLane lane))"
  by (cases lane) (simp_all add: resolveRetrievalPolicyForLane_def hybrid_policy_def continuity_policy_def)

lemma contract_groups_disjoint:
  "resolveAdmissibilityContractForSelectorProfile p = Some c \<Longrightarrow>
    set (ac_barredGroups c) \<inter> (set (ac_primaryGroups c) \<union> set (ac_secondaryGroups c)
      \<union> fst ` set (ac_cappedGroups c)) = {}"
  by (cases p) (auto simp: resolveAdmissibilityContractForSelectorProfile_def guidance_contract_def
      posture_contract_def recent_work_contract_def status_contract_def)

end
