(* ===== verification/Recall_Kinds.thy ===== *)
theory Recall_Kinds
  imports Recall_Intent
begin

text \<open>
  What kind of memory a hit is and how well it answers a status question
  (\<open>src/src/recall/continuity/recall-status-policy.ts\<close>): the kind from the stored role or from the
  text, the signal scores, the candidate filter of the status profile, and its ranking.

  An instant that \<open>Date.parse\<close> refuses makes the recency of its hit \<open>NaN\<close>, and the score with it.
  The model keeps an arbitrary number in that place, a field of the environment; what is proved holds
  for every such number.
\<close>

record recall_env = js_env +
  nan_score :: real

section \<open>Patterns\<close>

definition ticket_re :: "jstr \<Rightarrow> re" where
  "ticket_re tracker = word_pat (seqs [lit_ci tracker, ch (CHR ''-''), plus digit_re])"

definition STATUS_SIGNAL_PATTERNS :: "re list" where
  "STATUS_SIGNAL_PATTERNS =
     map (\<lambda>w. words [w]) [''currently'', ''working on'', ''in progress'', ''next step'', ''blocked'',
       ''resume here'', ''handoff'', ''current status'', ''latest progress'', ''remaining work'', ''open issue'',
       ''implementing'', ''fixing'', ''testing'', ''debugging'']
     @ [ticket_re ''MIM'', ticket_re ''STY'']"

definition npx_tsx_re :: re where
  "npx_tsx_re = word_pat (seqs [lit_ci ''npx'', plus ws_re, lit_ci ''tsx''])"

text \<open>A word with an optional ending, and two words joined by one character of a class.\<close>

definition ending :: "jstr \<Rightarrow> jstr \<Rightarrow> re" where
  "ending stem more_letters = word_pat (Seq (lit_ci stem) (opt (lit_ci more_letters)))"

definition joined :: "jstr \<Rightarrow> jstr \<Rightarrow> jstr \<Rightarrow> re" where
  "joined a separators b = seqs [lit_ci a, Chr (\<lambda>c. c \<in> set separators), lit_ci b]"

definition OPERATIONAL_NOISE_PATTERNS :: "re list" where
  "OPERATIONAL_NOISE_PATTERNS =
     [words [''scout''], words [''builder brief''], words [''brief''], ending ''deploy'' ''ed'', words [''pm2''],
      words [''DigitalOcean''], ending ''admin'' ''istrative'', words [''maintenance''], words [''workflow''],
      words [''housekeeping''], words [''task initialization''], words [''environment setup''],
      words [''server restart''], words [''tsconfig.json''], npx_tsx_re, words [''scripts/''],
      ending ''script run'' ''s'', word_pat (joined ''read'' ''- '' ''path''), words [''context insufficiency''],
      word_pat (seqs [lit_ci ''project'', opt (Chr (\<lambda>c. c \<in> set ''_ -'')), lit_ci ''state update flow'']),
      words [''/clear''], words [''checkpoint hook''], words [''watermark progression''],
      words [''memory synchronization loop'']]"

definition HISTORICAL_PATTERNS :: "re list" where
  "HISTORICAL_PATTERNS =
     [words [''was deployed''], words [''successfully deployed''], words [''completed''], words [''shipped''],
      words [''launched''], words [''finished''],
      word_pat (seqs [lit_ci ''all'', plus ws_re, plus digit_re, plus ws_re, lit_ci ''test'',
        opt (lit_ci ''s''), plus ws_re, lit_ci ''passed''])]"

definition countMatches :: "jstr \<Rightarrow> re list \<Rightarrow> nat" where
  "countMatches text patterns = length (filter (\<lambda>p. re_test p text) patterns)"

definition hasTicketSignal :: "jstr \<Rightarrow> bool" where
  "hasTicketSignal text =
     re_test (word_pat (seqs [alts [lit_ci ''MIM'', lit_ci ''STY''], ch (CHR ''-''), plus digit_re])) text"

definition hasActiveSignal :: "jstr \<Rightarrow> bool" where
  "hasActiveSignal text = (countMatches text STATUS_SIGNAL_PATTERNS > 0)"

section \<open>Kinds\<close>

definition storedRecallKind :: "recall_hit \<Rightarrow> memory_role option" where
  "storedRecallKind hit =
     (case rh_memoryRole hit of None \<Rightarrow> None
      | Some r \<Rightarrow> if r = Project_state then None else Some r)"

definition kind_patterns :: "(memory_role \<times> re) list" where
  "kind_patterns =
     [(Session_handoff, alts (map (\<lambda>w. words [w]) [''session handoff'', ''resume here'', ''next time''])),
      (Debugging_active,
        alts (map (\<lambda>w. words [w]) [''debugging'', ''failing test'', ''test failure'', ''blocked''])),
      (Current_status, alts (map (\<lambda>w. words [w]) [''current status'', ''currently''])),
      (Planning_active, alts (map (\<lambda>w. words [w]) [''plan'', ''next step'', ''milestone''])),
      (Architecture_reference,
        alts (map (\<lambda>w. words [w])
          [''architecture'', ''invariant'', ''pipeline'', ''data flow'', ''postProcessRecallResults''])),
      (Research_context, alts (map (\<lambda>w. words [w]) [''scout'', ''research''])),
      (Deploy_ops,
        alts (ending ''deploy'' ''ed'' # map (\<lambda>w. words [w]) [''pm2'', ''DigitalOcean'', ''port 7700''])),
      (Admin_process,
        alts (ending ''admin'' ''istrative'' # map (\<lambda>w. words [w]) [''workflow'', ''bd prime'', ''push git changes''])),
      (Operational_noise,
        alts (map (\<lambda>w. words [w]) [''builder brief'', ''task initialization'', ''housekeeping'', ''maintenance'',
               ''tsconfig.json'']
          @ [npx_tsx_re, ending ''script run'' ''s'']))]"

text \<open>The last test of the code (a ticket or a word of ongoing work) does not change its answer.\<close>

definition classifyRecallMemoryKind :: "recall_hit \<Rightarrow> memory_role" where
  "classifyRecallMemoryKind hit =
     (case storedRecallKind hit of
        Some k \<Rightarrow> k
      | None \<Rightarrow>
          (case find (\<lambda>(_, p). re_test p (sh_text hit)) kind_patterns of
             Some (k, _) \<Rightarrow> k
           | None \<Rightarrow> Recent_work))"

definition memoryKindScore :: "memory_role \<Rightarrow> real" where
  "memoryKindScore k =
     (case k of
        Current_status \<Rightarrow> 1 | Session_handoff \<Rightarrow> 95 / 100 | Recent_work \<Rightarrow> 8 / 10
      | Debugging_active \<Rightarrow> 75 / 100 | Planning_active \<Rightarrow> 6 / 10 | Architecture_reference \<Rightarrow> 35 / 100
      | Research_context \<Rightarrow> 15 / 100 | _ \<Rightarrow> 0)"

section \<open>Scores\<close>

definition continuityRoleScore :: "recall_hit \<Rightarrow> real" where
  "continuityRoleScore hit =
     (if rh_memoryRole hit = Some Project_state then 1 else memoryKindScore (classifyRecallMemoryKind hit))"

definition validityScore :: "recall_hit \<Rightarrow> real" where
  "validityScore hit = (if rh_memoryRole hit = None then 0 else if invalidated hit then 0 else 1)"

definition hasStoredStatusRole :: "recall_hit \<Rightarrow> bool" where
  "hasStoredStatusRole hit =
     (rh_memoryRole hit \<in> Some ` set [Project_state, Current_status, Session_handoff, Recent_work,
        Debugging_active, Planning_active])"

definition scoreStatusSignals :: "recall_hit \<Rightarrow> real" where
  "scoreStatusSignals hit = min 1 (real (countMatches (sh_text hit) STATUS_SIGNAL_PATTERNS) / 3)"

definition scoreOperationalNoise :: "recall_hit \<Rightarrow> real" where
  "scoreOperationalNoise hit = min 1 (real (countMatches (sh_text hit) OPERATIONAL_NOISE_PATTERNS) / 3)"

definition scoreHistoricalStatusPenalty :: "recall_hit \<Rightarrow> real" where
  "scoreHistoricalStatusPenalty hit =
     (if hasActiveSignal (sh_text hit) then 0
      else if countMatches (sh_text hit) HISTORICAL_PATTERNS > 0 then 1 else 0)"

text \<open>A requested path of no characters is no path.\<close>

definition scoreScopeMatch :: "recall_hit \<Rightarrow> jstr option \<Rightarrow> real" where
  "scoreScopeMatch hit requestedPath =
     (if \<not> opt_truthy requestedPath then (if has_path hit then 5 / 10 else 35 / 100)
      else if rh_path hit = requestedPath then 1
      else if \<not> has_path hit then 35 / 100
      else 0)"

definition unresolvedWorkScore :: "recall_hit \<Rightarrow> real" where
  "unresolvedWorkScore hit =
     (if re_test (words [''in progress'', ''blocked'', ''working on'', ''implementing'', ''fixing'', ''testing'',
           ''debugging'', ''next step'']) (sh_text hit)
      then 1 else 0)"

text \<open>The age of an instant in days, none when it is not parsable.\<close>

definition age_days :: "recall_env \<Rightarrow> jstr \<Rightarrow> real option" where
  "age_days env stamp =
     map_option (\<lambda>ms. max 0 ((of_int (now_ms env) - of_int ms) / 86400000))
       (date_parse_str (js_env.truncate env) stamp)"

definition half_life :: "recall_env \<Rightarrow> real option \<Rightarrow> real \<Rightarrow> real" where
  "half_life env age days =
     (case age of None \<Rightarrow> nan_score env | Some a \<Rightarrow> (1 / 2) powr (a / days))"

definition recencyScore :: "recall_env \<Rightarrow> recall_hit \<Rightarrow> real" where
  "recencyScore env hit =
     (case hit_stamp hit of None \<Rightarrow> 0
      | Some s \<Rightarrow> if s = [] then 0 else half_life env (age_days env s) 7)"

definition normalizeSemanticScore :: "recall_hit \<Rightarrow> real \<Rightarrow> real" where
  "normalizeSemanticScore hit maxScore =
     (if maxScore \<le> 0 then 0 else max 0 (min 1 (sh_score hit / maxScore)))"

definition hasStrongStatusEvidence :: "recall_hit \<Rightarrow> jstr option \<Rightarrow> bool" where
  "hasStrongStatusEvidence hit requestedPath =
     (rh_memoryRole hit = Some Project_state \<or> hasStoredStatusRole hit
      \<or> scoreStatusSignals hit \<ge> 66 / 100
      \<or> (hasTicketSignal (sh_text hit) \<and> scoreScopeMatch hit requestedPath \<ge> 1))"

section \<open>The status candidates\<close>

datatype resolver_mode = Strict | Fallback

record status_filter =
  sf_selectedPool :: "recall_hit list"
  sf_droppedByPolicy :: "recall_hit list"
  sf_mode :: resolver_mode

definition strict_candidate :: "jstr option \<Rightarrow> recall_hit \<Rightarrow> bool" where
  "strict_candidate requestedPath hit =
     (let kind = classifyRecallMemoryKind hit in
      scoreScopeMatch hit requestedPath > 0
      \<and> (rh_memoryRole hit = Some Project_state \<or> hasStoredStatusRole hit \<or> scoreStatusSignals hit > 0
         \<or> hasTicketSignal (sh_text hit)
         \<or> kind \<in> {Current_status, Session_handoff, Recent_work, Debugging_active})
      \<and> (kind \<in> {Deploy_ops, Admin_process, Operational_noise, Research_context}
         \<longrightarrow> hasStrongStatusEvidence hit requestedPath))"

definition fallback_candidate :: "jstr option \<Rightarrow> recall_hit \<Rightarrow> bool" where
  "fallback_candidate requestedPath hit =
     (scoreScopeMatch hit requestedPath > 0 \<and> classifyRecallMemoryKind hit \<noteq> Operational_noise)"

definition not_selected :: "recall_hit list \<Rightarrow> recall_hit list \<Rightarrow> recall_hit list" where
  "not_selected pool hits = filter (\<lambda>h. sh_id h \<notin> sh_id ` set pool) hits"

definition filterCurrentStatusCandidates :: "recall_hit list \<Rightarrow> jstr option \<Rightarrow> status_filter" where
  "filterCurrentStatusCandidates hits requestedPath =
     (let strict = filter (strict_candidate requestedPath) hits;
          fallback = filter (fallback_candidate requestedPath) hits
      in if length strict \<ge> 2
         then \<lparr>sf_selectedPool = strict, sf_droppedByPolicy = not_selected strict hits, sf_mode = Strict\<rparr>
         else \<lparr>sf_selectedPool = fallback, sf_droppedByPolicy = not_selected fallback hits, sf_mode = Fallback\<rparr>)"

text \<open>\<open>Math.max(...scores, 1)\<close>\<close>

definition max_score :: "recall_hit list \<Rightarrow> real" where
  "max_score hits = foldr (\<lambda>h m. max (sh_score h) m) hits 1"

definition computeCurrentStatusScore ::
  "recall_env \<Rightarrow> recall_hit \<Rightarrow> recall_hit list \<Rightarrow> jstr option \<Rightarrow> real" where
  "computeCurrentStatusScore env hit candidatePool requestedPath =
     30 / 100 * normalizeSemanticScore hit (max_score candidatePool)
     + 18 / 100 * recencyScore env hit
     + 15 / 100 * scoreStatusSignals hit
     + 10 / 100 * scoreScopeMatch hit requestedPath
     + 15 / 100 * continuityRoleScore hit
     + 5 / 100 * validityScore hit
     + 7 / 100 * unresolvedWorkScore hit
     - 15 / 100 * scoreOperationalNoise hit
     - 5 / 100 * scoreHistoricalStatusPenalty hit"

definition stamp_text :: "recall_hit \<Rightarrow> jstr" where
  "stamp_text hit = (case hit_stamp hit of None \<Rightarrow> [] | Some s \<Rightarrow> s)"

definition status_order :: "recall_env \<Rightarrow> recall_hit \<Rightarrow> recall_hit \<Rightarrow> int" where
  "status_order env a b =
     (if sh_score b \<noteq> sh_score a then score_order a b
      else if stamp_text a \<noteq> stamp_text b then locale_compare env (stamp_text b) (stamp_text a)
      else locale_compare env (sh_id a) (sh_id b))"

definition rerankCurrentStatusHits ::
  "recall_env \<Rightarrow> recall_hit list \<Rightarrow> jstr option \<Rightarrow> recall_hit list" where
  "rerankCurrentStatusHits env hits requestedPath =
     js_sort (status_order env)
       (map (\<lambda>hit. hit\<lparr>sh_score := computeCurrentStatusScore env hit hits requestedPath\<rparr>) hits)"

section \<open>Facts\<close>

lemma classify_not_project_state: "classifyRecallMemoryKind hit \<noteq> Project_state"
proof (cases "storedRecallKind hit")
  case None
  show ?thesis
  proof (cases "find (\<lambda>(_, p). re_test p (sh_text hit)) kind_patterns")
    case (Some kp)
    then have "kp \<in> set kind_patterns" by (metis find_Some_iff nth_mem)
    then have "fst kp \<noteq> Project_state" by (auto simp: kind_patterns_def)
    with Some None show ?thesis by (simp add: classifyRecallMemoryKind_def split_beta)
  qed (use None in \<open>simp add: classifyRecallMemoryKind_def\<close>)
qed (auto simp: classifyRecallMemoryKind_def storedRecallKind_def split: option.splits if_splits)

lemma classify_cong:
  assumes "sh_text a = sh_text b" and "rh_memoryRole a = rh_memoryRole b"
  shows "classifyRecallMemoryKind a = classifyRecallMemoryKind b"
  unfolding classifyRecallMemoryKind_def storedRecallKind_def assms by (rule refl)

lemma classify_score_irrelevant [simp]:
  "classifyRecallMemoryKind (hit\<lparr>sh_score := s\<rparr>) = classifyRecallMemoryKind hit"
  by (rule classify_cong) simp_all

lemma classify_stored_role:
  "classifyRecallMemoryKind (hit\<lparr>rh_memoryRole := Some (classifyRecallMemoryKind hit)\<rparr>) = classifyRecallMemoryKind hit"
  using classify_not_project_state [of hit]
  by (simp add: classifyRecallMemoryKind_def [of "hit\<lparr>rh_memoryRole := _\<rparr>"] storedRecallKind_def)

lemma signal_scores_bounded:
  "0 \<le> scoreStatusSignals hit \<and> scoreStatusSignals hit \<le> 1"
  "0 \<le> scoreOperationalNoise hit \<and> scoreOperationalNoise hit \<le> 1"
  "0 \<le> scoreHistoricalStatusPenalty hit \<and> scoreHistoricalStatusPenalty hit \<le> 1"
  "0 \<le> scoreScopeMatch hit p \<and> scoreScopeMatch hit p \<le> 1"
  "0 \<le> continuityRoleScore hit \<and> continuityRoleScore hit \<le> 1"
  "0 \<le> validityScore hit \<and> validityScore hit \<le> 1"
  "0 \<le> unresolvedWorkScore hit \<and> unresolvedWorkScore hit \<le> 1"
  "0 \<le> normalizeSemanticScore hit m \<and> normalizeSemanticScore hit m \<le> 1"
  by (auto simp: scoreStatusSignals_def scoreOperationalNoise_def scoreHistoricalStatusPenalty_def
      scoreScopeMatch_def continuityRoleScore_def memoryKindScore_def validityScore_def
      unresolvedWorkScore_def normalizeSemanticScore_def split: memory_role.splits)

lemma half_life_bounds:
  assumes "0 \<le> a" and "0 < days"
  shows "0 < half_life env (Some a) days" and "half_life env (Some a) days \<le> 1"
  using assms by (auto simp: half_life_def powr_le1)

lemma recency_bounds:
  assumes "0 \<le> nan_score env" and "nan_score env \<le> 1"
  shows "0 \<le> recencyScore env hit" and "recencyScore env hit \<le> 1"
proof -
  have "0 \<le> recencyScore env hit \<and> recencyScore env hit \<le> 1"
  proof (cases "hit_stamp hit")
    case (Some s)
    show ?thesis
    proof (cases "age_days env s")
      case age: (Some a)
      then have "0 \<le> a" by (auto simp: age_days_def)
      from half_life_bounds [OF this, of 7 env] Some age show ?thesis by (auto simp: recencyScore_def)
    qed (use Some assms in \<open>auto simp: recencyScore_def half_life_def\<close>)
  qed (simp add: recencyScore_def)
  then show "0 \<le> recencyScore env hit" "recencyScore env hit \<le> 1" by auto
qed

text \<open>The score of a status candidate lies between \<open>-0.2\<close> and 1.\<close>

lemma status_score_bounds:
  assumes "0 \<le> nan_score env" and "nan_score env \<le> 1"
  shows "- 2 / 10 \<le> computeCurrentStatusScore env hit pool p"
    and "computeCurrentStatusScore env hit pool p \<le> 1"
  using signal_scores_bounded [of hit] signal_scores_bounded(4) [of hit p]
    signal_scores_bounded(8) [of hit "max_score pool"] recency_bounds [OF assms, of hit]
  unfolding computeCurrentStatusScore_def by argo+

end
