(* ===== verification/Preference_Packet.thy ===== *)
theory Preference_Packet
  imports Recall_Render
begin

text \<open>
  The preference packet of a recall (\<open>src/src/recall/policy/preference-packet.ts\<close>): which of the
  selected hits state a preference, their category, and the packing of the items into a token budget
  by category and score.
\<close>

section \<open>Items\<close>

datatype packet_category =
    Hard_constraints | Tools_environment | Coding_style | Workflow_process | Communication_style
  | Ui_product_taste | Business_preferences

datatype packet_reason = Category_reason jstr | Heuristic_reason query_intent

record packet_item =
  pi_id :: jstr
  pi_category :: packet_category
  pi_text :: jstr
  pi_score :: real
  pi_sourceKind :: source_kind
  pi_reason :: packet_reason
  pi_scope :: "jstr option"
  pi_path :: "jstr option"

definition PREFERENCE_PACKET_CATEGORY_ORDER :: "packet_category list" where
  "PREFERENCE_PACKET_CATEGORY_ORDER =
     [Hard_constraints, Tools_environment, Coding_style, Workflow_process, Communication_style,
      Ui_product_taste, Business_preferences]"

definition sourceKindForHit :: "recall_hit \<Rightarrow> source_kind" where
  "sourceKindForHit hit = (if prefix ''noema:'' (sh_id hit) then Noema else Semiote)"

definition sanitizePreferenceText :: "jstr \<Rightarrow> jstr" where
  "sanitizePreferenceText text =
     collapse_ws (js_trim (replace_first quote_prefix_re (\<lambda>_. [])
       (replace_all ansi_re [] (filter (\<lambda>c. c \<noteq> CHR 0x00) text))))"

definition preference_re :: re where
  "preference_re =
     word_pat (alts
       (map lit_ci [''prefer'', ''preference'', ''preferred'']
        @ [Seq (lit_ci ''like'') (opt (lit_ci ''s'')), Seq (lit_ci ''dislike'') (opt (lit_ci ''s''))]
        @ map lit_ci [''usually'', ''always'', ''never'', ''must'', ''do not'', ''don't'', ''avoid'', ''style'',
            ''convention'', ''setting'', ''configuration'']))"

definition isPreferenceLike :: "recall_hit \<Rightarrow> intent_signal \<Rightarrow> bool" where
  "isPreferenceLike hit intent =
     (rh_category hit \<in> {Some ''preferences'', Some ''profile''}
      \<or> (is_label intent = I_preference \<and> js_trim (sh_text hit) \<noteq> [])
      \<or> re_test preference_re (sh_text hit))"

definition category_patterns :: "(packet_category \<times> re) list" where
  "category_patterns =
     [(Hard_constraints,
        words [''secret'', ''credential'', ''api key'', ''token'', ''privacy'', ''private'', ''permission'',
          ''approval'', ''destructive'', ''production'', ''must'', ''never'', ''do not'', ''don't'', ''avoid'']),
      (Tools_environment,
        words [''vitest'', ''typescript'', ''eslint'', ''npm'', ''pnpm'', ''yarn'', ''gitnexus'', ''beads'', ''bd '',
          ''claude'', ''codex'', ''opencode'', ''surreal'', ''sqlite'', ''postgres'', ''tool'', ''cli'', ''terminal'',
          ''config'', ''setting'']),
      (Coding_style,
        words [''style'', ''format'', ''lint'', ''strict'', ''naming'', ''typescript'', ''refactor'', ''test'',
          ''coverage'', ''comment'', ''ascii'']),
      (Workflow_process,
        words [''plan'', ''bead'', ''handoff'', ''review'', ''verify'', ''test harness'', ''proof'', ''phase'',
          ''workflow'', ''process'', ''gate'', ''commit'', ''push'']),
      (Communication_style,
        words [''tone'', ''concise'', ''verbose'', ''explain'', ''wording'', ''call me'', ''address'', ''speak'',
          ''summary'']),
      (Ui_product_taste,
        words [''ui'', ''ux'', ''frontend'', ''design'', ''color'', ''palette'', ''card'', ''button'', ''layout'',
          ''dashboard'', ''product''])]"

definition classifyPreferenceCategory :: "jstr \<Rightarrow> packet_category" where
  "classifyPreferenceCategory text =
     (case find (\<lambda>(_, p). re_test p text) category_patterns of
        Some (c, _) \<Rightarrow> c
      | None \<Rightarrow> Business_preferences)"

definition buildItem :: "recall_hit \<Rightarrow> intent_signal \<Rightarrow> packet_item option" where
  "buildItem hit intent =
     (if \<not> isPreferenceLike hit intent then None
      else (let text = sanitizePreferenceText (sh_text hit)
            in if text = [] then None
               else Some \<lparr>pi_id = sh_id hit, pi_category = classifyPreferenceCategory text, pi_text = text,
                      pi_score = sh_score hit, pi_sourceKind = sourceKindForHit hit,
                      pi_reason = (case rh_category hit of
                          Some c \<Rightarrow> if c = ''preferences'' \<or> c = ''profile'' then Category_reason c
                                   else Heuristic_reason (is_label intent)
                        | None \<Rightarrow> Heuristic_reason (is_label intent)),
                      pi_scope = rh_scope hit, pi_path = rh_path hit\<rparr>))"

section \<open>Packing\<close>

primrec categoryPriority :: "packet_category \<Rightarrow> int" where
  "categoryPriority Hard_constraints = 0"
| "categoryPriority Tools_environment = 1"
| "categoryPriority Coding_style = 2"
| "categoryPriority Workflow_process = 3"
| "categoryPriority Communication_style = 4"
| "categoryPriority Ui_product_taste = 5"
| "categoryPriority Business_preferences = 6"

definition item_order :: "packet_item \<times> nat \<Rightarrow> packet_item \<times> nat \<Rightarrow> int" where
  "item_order a b =
     (let categoryDelta = categoryPriority (pi_category (fst a)) - categoryPriority (pi_category (fst b))
      in if categoryDelta \<noteq> 0 then categoryDelta
         else if pi_score (fst b) < pi_score (fst a) then - 1
         else if pi_score (fst a) < pi_score (fst b) then 1
         else int (snd a) - int (snd b))"

text \<open>The loop over the ordered items: an item that would pass the budget is left out.\<close>

fun pack :: "nat \<Rightarrow> nat \<Rightarrow> packet_item list \<Rightarrow> packet_item list \<times> jstr list" where
  "pack tokenBudget used [] = ([], [])"
| "pack tokenBudget used (item # items) =
     (let itemTokens = approximateTokens (pi_text item)
      in if used + itemTokens > tokenBudget
         then (let (kept, truncated) = pack tokenBudget used items in (kept, pi_id item # truncated))
         else (let (kept, truncated) = pack tokenBudget (used + itemTokens) items in (item # kept, truncated)))"

record preference_packet =
  pp_intentLabel :: query_intent
  pp_categories :: "(packet_category \<times> packet_item list) list"
  pp_selectedIds :: "jstr list"
  pp_excludedIds :: "jstr list"
  pp_semiote :: nat
  pp_noema :: nat
  pp_tokenBudget :: nat
  pp_approximateTokens :: nat
  pp_truncated :: bool

definition DEFAULT_TOKEN_BUDGET :: nat where
  "DEFAULT_TOKEN_BUDGET = 600"

definition packet_candidates :: "recall_hit list \<Rightarrow> intent_signal \<Rightarrow> (packet_item \<times> nat) list" where
  "packet_candidates selected intent =
     concat (map (\<lambda>(hit, i). case buildItem hit intent of None \<Rightarrow> [] | Some item \<Rightarrow> [(item, i)])
       (zip selected [0..<length selected]))"

definition item_tokens :: "packet_item list \<Rightarrow> nat" where
  "item_tokens items = sum_list (map (\<lambda>item. approximateTokens (pi_text item)) items)"

definition buildPreferencePacket ::
  "recall_hit list \<Rightarrow> intent_signal \<Rightarrow> nat option \<Rightarrow> preference_packet option" where
  "buildPreferencePacket selected intent budget =
     (let tokenBudget = (case budget of None \<Rightarrow> DEFAULT_TOKEN_BUDGET | Some b \<Rightarrow> b);
          excluded = map sh_id (filter (\<lambda>hit. buildItem hit intent = None) selected);
          ordered = map fst (js_sort item_order (packet_candidates selected intent));
          (kept, truncatedIds) = pack tokenBudget 0 ordered
      in if kept = [] then None
         else Some
           \<lparr>pp_intentLabel = is_label intent,
            pp_categories = map (\<lambda>c. (c, filter (\<lambda>item. pi_category item = c) kept)) PREFERENCE_PACKET_CATEGORY_ORDER,
            pp_selectedIds = map pi_id kept,
            pp_excludedIds = excluded @ truncatedIds,
            pp_semiote = length (filter (\<lambda>item. pi_sourceKind item = Semiote) kept),
            pp_noema = length (filter (\<lambda>item. pi_sourceKind item = Noema) kept),
            pp_tokenBudget = tokenBudget,
            pp_approximateTokens = item_tokens kept,
            pp_truncated = (truncatedIds \<noteq> [])\<rparr>)"

section \<open>Facts\<close>

lemma pack_spec:
  "pack b used items = (kept, truncated) \<Longrightarrow> used \<le> b \<Longrightarrow>
    used + item_tokens kept \<le> b \<and> mset (map pi_id items) = mset (map pi_id kept) + mset truncated
    \<and> subseq kept items"
proof (induction items arbitrary: used kept truncated)
  case (Cons item items)
  show ?case
  proof (cases "used + approximateTokens (pi_text item) > b")
    case True
    with Cons.prems(1) obtain t where t: "pack b used items = (kept, t)" "truncated = pi_id item # t"
      by (auto split: prod.splits)
    from Cons.IH [OF t(1) Cons.prems(2)] t(2) show ?thesis by (auto intro: subseq_Cons')
  next
    case False
    with Cons.prems(1) obtain k where k: "pack b (used + approximateTokens (pi_text item)) items = (k, truncated)"
      "kept = item # k" by (auto split: prod.splits)
    from Cons.IH [OF k(1)] False k(2) show ?thesis by (auto simp: item_tokens_def)
  qed
qed (simp add: item_tokens_def)

text \<open>An item is left out only when it does not fit beside those taken before it.\<close>

lemma pack_fits_all:
  "used + item_tokens items \<le> b \<Longrightarrow> pack b used items = (items, [])"
  by (induction items arbitrary: used) (auto simp: item_tokens_def)

lemma candidates_ids:
  "mset (map (\<lambda>p. pi_id (fst p)) (packet_candidates selected intent))
    = mset (map sh_id (filter (\<lambda>hit. buildItem hit intent \<noteq> None) selected))"
proof -
  have "mset (map (\<lambda>p. pi_id (fst p)) (concat (map (\<lambda>(hit, i). case buildItem hit intent of None \<Rightarrow> [] | Some item \<Rightarrow> [(item, i)])
      (zip selected ns)))) = mset (map sh_id (filter (\<lambda>hit. buildItem hit intent \<noteq> None) selected))"
    if "length ns = length selected" for ns :: "nat list"
    using that
  proof (induction selected ns rule: list_induct2')
    case (4 h hs i ns)
    have "pi_id item = sh_id h" if "buildItem h intent = Some item" for item
      using that by (auto simp: buildItem_def Let_def split: if_splits)
    with 4 show ?case by (cases "buildItem h intent") auto
  qed auto
  from this [of "[0..<length selected]"] show ?thesis by (simp add: packet_candidates_def)
qed

lemma item_not_empty: "buildItem hit intent = Some item \<Longrightarrow> pi_text item \<noteq> []"
  by (auto simp: buildItem_def Let_def split: if_splits)

section \<open>What the packet promises\<close>

text \<open>
  The packet never passes its token budget, and it accounts for every selected hit exactly once: as
  selected, or as excluded.
\<close>

lemma packet_within_budget:
  assumes "buildPreferencePacket selected intent budget = Some p"
  shows "pp_approximateTokens p \<le> pp_tokenBudget p
    \<and> mset (pp_selectedIds p) + mset (pp_excludedIds p) = mset (map sh_id selected)
    \<and> pp_semiote p + pp_noema p = length (pp_selectedIds p)"
proof -
  let ?b = "case budget of None \<Rightarrow> DEFAULT_TOKEN_BUDGET | Some b \<Rightarrow> b"
  let ?ordered = "map fst (js_sort item_order (packet_candidates selected intent))"
  obtain kept truncated where packed: "pack ?b 0 ?ordered = (kept, truncated)" by fastforce
  note p = assms [unfolded buildPreferencePacket_def Let_def packed split]
  from pack_spec [OF packed] have spec: "item_tokens kept \<le> ?b"
    "mset (map pi_id ?ordered) = mset (map pi_id kept) + mset truncated" by auto
  have "mset (map pi_id ?ordered) = mset (map sh_id (filter (\<lambda>hit. buildItem hit intent \<noteq> None) selected))"
    using candidates_ids [of selected intent] by (simp add: js_sort_mset mset_map multiset.map_comp comp_def)
  moreover have "mset (map sh_id (filter P selected)) + mset (map sh_id (filter (\<lambda>h. \<not> P h) selected))
      = mset (map sh_id selected)" for P
    by (induction selected) auto
  from this [of "\<lambda>hit. buildItem hit intent \<noteq> None"]
  have "mset (map sh_id (filter (\<lambda>hit. buildItem hit intent \<noteq> None) selected))
      + mset (map sh_id (filter (\<lambda>hit. buildItem hit intent = None) selected)) = mset (map sh_id selected)"
    by (simp only: not_not)
  ultimately have "mset (map pi_id kept) + mset truncated
      + mset (map sh_id (filter (\<lambda>hit. buildItem hit intent = None) selected)) = mset (map sh_id selected)"
    using spec(2) by (simp only:)
  moreover have "length (filter (\<lambda>item. pi_sourceKind item = Semiote) kept)
      + length (filter (\<lambda>item. pi_sourceKind item = Noema) kept) = length kept"
    by (induction kept) (auto, metis source_kind.exhaust)
  ultimately show ?thesis
    using p spec(1) by (auto simp: ac_simps split: if_splits)
qed

end
