(* ===== verification/Recall_Selection.thy ===== *)
theory Recall_Selection
  imports Exact_Qa Recall_Policy Recall_Kinds Preference_Packet
begin

text \<open>
  The selection of a recall (\<open>src/src/recall/selection/recall-selection.ts\<close>): reranking scores, the
  demotion of stale signals, the recency penalty of status questions, the collapse of
  contradictions, the shaping by contract, the path quota, the primary representative, and the
  pipeline that composes them. The patterns of a tenant's ranking profile are stateless: none has
  the flags \<open>g\<close> or \<open>y\<close>.
\<close>

section \<open>Rerank scores\<close>

definition passes_threshold :: "(jstr \<rightharpoonup> real) \<Rightarrow> real \<Rightarrow> recall_hit \<Rightarrow> bool" where
  "passes_threshold scores threshold r =
     (case scores (sh_id r) of None \<Rightarrow> False | Some s \<Rightarrow> s \<ge> threshold)"

definition reranked_score :: "(jstr \<rightharpoonup> real) \<Rightarrow> real \<Rightarrow> real option \<Rightarrow> recall_hit \<Rightarrow> real" where
  "reranked_score scores threshold preserveFloor r =
     (case preserveFloor of
        Some least \<Rightarrow>
          if \<not> passes_threshold scores threshold r
          then max (case scores (sh_id r) of None \<Rightarrow> 0 | Some s \<Rightarrow> s) least
          else (case scores (sh_id r) of None \<Rightarrow> sh_score r | Some s \<Rightarrow> s)
      | None \<Rightarrow> (case scores (sh_id r) of None \<Rightarrow> sh_score r | Some s \<Rightarrow> s))"

text \<open>The score map is empty when the reranker returned nothing.\<close>

definition applyRerankScores ::
  "recall_hit list \<Rightarrow> (jstr \<rightharpoonup> real) \<Rightarrow> bool \<Rightarrow> real \<Rightarrow> (recall_hit \<Rightarrow> bool) \<Rightarrow> real option \<Rightarrow> recall_hit list" where
  "applyRerankScores results scores emptyScores threshold preserve preserveFloor =
     (if emptyScores then results
      else sort_by_score
        (map (\<lambda>r. r\<lparr>sh_score := reranked_score scores threshold preserveFloor r\<rparr>)
          (filter (\<lambda>r. passes_threshold scores threshold r \<or> preserve r) results)))"

section \<open>Path quota\<close>

record path_selection =
  ps_selected :: "recall_hit list"
  ps_dropped :: "recall_hit list"
  ps_nullPathIds :: "jstr list"

definition selectPathScopedTopK ::
  "recall_hit list \<Rightarrow> jstr option \<Rightarrow> nat \<Rightarrow> nat \<Rightarrow> path_selection" where
  "selectPathScopedTopK hits requestedPath topK maxNullPathFallback =
     (if \<not> opt_truthy requestedPath
      then \<lparr>ps_selected = take topK hits, ps_dropped = drop topK hits, ps_nullPathIds = []\<rparr>
      else (let exactBucket = sort_by_score (filter (\<lambda>h. rh_path h = requestedPath) hits);
                nullBucket = sort_by_score (filter (\<lambda>h. rh_path h \<noteq> requestedPath \<and> \<not> has_path h) hits);
                exact = take topK exactBucket;
                adaptiveCap = (if length exactBucket \<ge> (topK + 1) div 2 then maxNullPathFallback
                               else topK - length exactBucket);
                nulls = take (min adaptiveCap (topK - length exact)) nullBucket;
                selected = exact @ nulls
            in \<lparr>ps_selected = selected, ps_dropped = not_selected selected hits,
                ps_nullPathIds = map sh_id nulls\<rparr>))"

section \<open>Stale signals and recency\<close>

record ranking_profile =
  rk_staleSignals :: "query_intent \<Rightarrow> re list option"
  rk_knownRenames :: "(re \<times> re) list"

definition EMPTY_PROFILE :: ranking_profile where
  "EMPTY_PROFILE = \<lparr>rk_staleSignals = (\<lambda>_. None), rk_knownRenames = []\<rparr>"

definition stale_match ::
  "intent_signal \<Rightarrow> re list option \<Rightarrow> jstr list \<Rightarrow> recall_hit \<Rightarrow> bool" where
  "stale_match intent signals learnedNoiseIds h =
     ((case signals of None \<Rightarrow> False | Some ps \<Rightarrow> list_ex (\<lambda>p. re_test p (sh_text h)) ps)
      \<or> (isStatusClassIntent (is_label intent) \<and> sh_id h \<in> set learnedNoiseIds))"

text \<open>The demoted hits and the identifiers demoted.\<close>

definition applyStaleSignalDemotion ::
  "recall_hit list \<Rightarrow> intent_signal \<Rightarrow> ranking_profile \<Rightarrow> jstr list \<Rightarrow> recall_hit list \<times> jstr list" where
  "applyStaleSignalDemotion hits intent profile learnedNoiseIds =
     (let signals = rk_staleSignals profile (is_label intent);
          learnedApplies = learnedNoiseIds \<noteq> [] \<and> isStatusClassIntent (is_label intent);
          stale = stale_match intent signals learnedNoiseIds
      in if signals = None \<and> \<not> learnedApplies then (hits, [])
         else (sort_by_score
                 (map (\<lambda>h. if stale h then h\<lparr>sh_score := sh_score h * (40 / 100)\<rparr> else h) hits),
               map sh_id (filter stale hits)))"

definition created_before :: "recall_env \<Rightarrow> int \<Rightarrow> recall_hit \<Rightarrow> bool" where
  "created_before env cutoff h =
     (case sh_createdAt h of
        None \<Rightarrow> 0 < cutoff
      | Some s \<Rightarrow> if s = [] then 0 < cutoff
                  else (case date_parse_str (js_env.truncate env) s of None \<Rightarrow> False | Some ms \<Rightarrow> ms < cutoff))"

definition applyRecencyPenaltyForStatus ::
  "recall_env \<Rightarrow> recall_hit list \<Rightarrow> intent_signal \<Rightarrow> int \<Rightarrow> recall_hit list" where
  "applyRecencyPenaltyForStatus env hits intent maxAgeDays =
     (if \<not> isStatusClassIntent (is_label intent) then hits
      else (let cutoff = now_ms env - maxAgeDays * 86400000
            in sort_by_score
                 (map (\<lambda>h. if created_before env cutoff h then h\<lparr>sh_score := sh_score h * (50 / 100)\<rparr> else h) hits)))"

section \<open>Contradictions and duplicates\<close>

definition key_char :: "char \<Rightarrow> bool" where
  "key_char c = (lower_char c \<or> digit_char c \<or> js_ws c)"

definition normalizeStatementKey :: "jstr \<Rightarrow> jstr" where
  "normalizeStatementKey text = js_trim (collapse_ws (filter key_char (js_lower text)))"

definition wordSet :: "jstr \<Rightarrow> jstr list" where
  "wordSet text = js_uniq (filter truthy (split_char (CHR '' '') (normalizeStatementKey text)))"

definition jaccardSimilarity :: "jstr list \<Rightarrow> jstr list \<Rightarrow> real" where
  "jaccardSimilarity a b =
     (if a = [] \<and> b = [] then 1
      else (let intersection = length (filter (\<lambda>w. w \<in> set b) a);
                union = length a + length b - intersection
            in if union = 0 then 0 else real intersection / real union))"

definition confidence_of :: "recall_hit \<Rightarrow> real" where
  "confidence_of h = (case rh_confidence h of None \<Rightarrow> 0 | Some c \<Rightarrow> c)"

text \<open>Whether the first of two hits wins.\<close>

definition first_wins :: "recall_hit \<Rightarrow> recall_hit \<Rightarrow> bool" where
  "first_wins a b =
     (if has_path a \<and> \<not> has_path b then True
      else if has_path b \<and> \<not> has_path a then False
      else if confidence_of a \<noteq> confidence_of b then confidence_of a > confidence_of b
      else if stamp_text a \<noteq> stamp_text b then js_less (stamp_text b) (stamp_text a)
      else sh_score a \<ge> sh_score b)"

definition tieBreakWinner :: "recall_hit \<Rightarrow> recall_hit \<Rightarrow> recall_hit" where
  "tieBreakWinner a b = (if first_wins a b then a else b)"

definition best_of :: "recall_hit list \<Rightarrow> recall_hit" where
  "best_of hits = foldl tieBreakWinner (hd hits) (tl hits)"

text \<open>The identifier a rename pair eliminates: the loser of the strongest hits of both sides.\<close>

definition rename_loser :: "recall_hit list \<Rightarrow> re \<times> re \<Rightarrow> jstr list" where
  "rename_loser hits renaming =
     (let matchA = filter (\<lambda>h. re_test (fst renaming) (sh_text h)) hits;
          matchB = filter (\<lambda>h. re_test (snd renaming) (sh_text h)) hits
      in if matchA = [] \<or> matchB = [] then []
         else (let bestA = best_of matchA; bestB = best_of matchB;
                   winner = tieBreakWinner bestA bestB
               in [sh_id (if sh_id winner = sh_id bestA then bestB else bestA)]))"

definition collides :: "recall_hit \<Rightarrow> recall_hit \<Rightarrow> bool" where
  "collides existing hit =
     (let old = extractFirstSentence (sh_text existing); new = extractFirstSentence (sh_text hit)
      in (normalizeStatementKey old = normalizeStatementKey new
          \<or> jaccardSimilarity (wordSet old) (wordSet new) > 7 / 10)
         \<and> \<not> areAnswerDistinctTexts old new
         \<and> isCompactComparableClaim (sh_text existing) \<and> isCompactComparableClaim (sh_text hit))"

text \<open>
  One hit against the survivors so far: the first collision keeps the winner in its place. The key
  and the words of a survivor are those of its text.
\<close>

fun absorb :: "recall_hit \<Rightarrow> recall_hit list \<Rightarrow> recall_hit list \<times> jstr list" where
  "absorb hit [] = ([hit], [])"
| "absorb hit (existing # rest) =
     (if collides existing hit
      then (if first_wins existing hit then (existing # rest, [sh_id hit]) else (hit # rest, [sh_id existing]))
      else (let (rest', lost) = absorb hit rest in (existing # rest', lost)))"

fun absorb_all :: "recall_hit list \<Rightarrow> recall_hit list \<Rightarrow> jstr list" where
  "absorb_all survivors [] = []"
| "absorb_all survivors (hit # hits) =
     (let (survivors', lost) = absorb hit survivors in lost @ absorb_all survivors' hits)"

definition collapseContradictions :: "recall_hit list \<Rightarrow> (re \<times> re) list \<Rightarrow> recall_hit list" where
  "collapseContradictions hits knownRenames =
     (let renamed = concat (map (rename_loser hits) knownRenames);
          lost = absorb_all [] (filter (\<lambda>h. sh_id h \<notin> set renamed) hits)
      in filter (\<lambda>h. sh_id h \<notin> set (renamed @ lost)) hits)"

section \<open>The admissibility audit\<close>

record admissibility_event =
  ae_id :: jstr
  ae_group :: memory_role
  ae_continuityClass :: continuity_class
  ae_fromRole :: bool
  ae_reasonCode :: jstr

datatype drop_decision = Barred_group | Unsupported_group | Over_cap nat

record representative_promotion =
  pr_insertedId :: jstr
  pr_displacedId :: "jstr option"
  pr_group :: memory_role

text \<open>The fields copied from the contract are the contract.\<close>

record admissibility_audit =
  aa_contract :: admissibility_contract
  aa_continuityResolverMode :: "resolver_mode option"
  aa_admittedIds :: "jstr list"
  aa_droppedIds :: "jstr list"
  aa_dropped :: "(admissibility_event \<times> drop_decision) list"
  aa_selected :: "admissibility_event list"
  aa_representativePromotion :: "representative_promotion option"

definition continuityClassForKind :: "memory_role \<Rightarrow> continuity_class" where
  "continuityClassForKind kind =
     (case kind of
        Architecture_reference \<Rightarrow> Durable_guidance | Planning_active \<Rightarrow> Durable_guidance
      | Session_handoff \<Rightarrow> Durable_guidance
      | Current_status \<Rightarrow> Transient_continuity | Recent_work \<Rightarrow> Transient_continuity
      | Debugging_active \<Rightarrow> Transient_continuity
      | _ \<Rightarrow> Neutral)"

definition classifyAdmissibilityEvent :: "recall_hit \<Rightarrow> admissibility_event" where
  "classifyAdmissibilityEvent hit =
     (let kind = classifyRecallMemoryKind hit; stored = rh_memoryRole hit \<noteq> None
      in \<lparr>ae_id = sh_id hit, ae_group = kind, ae_continuityClass = continuityClassForKind kind,
          ae_fromRole = stored,
          ae_reasonCode = (if stored then ''memory_role:'' else ''heuristic:'') @ role_name kind\<rparr>)"

section \<open>Shaping by contract\<close>

definition continuityDispositionScore :: "admissibility_contract \<Rightarrow> memory_role \<Rightarrow> real" where
  "continuityDispositionScore contract kind =
     (case ac_continuityClasses contract (continuityClassForKind kind) of
        Preferred \<Rightarrow> 1 | Allowed \<Rightarrow> 8 / 10 | Capped \<Rightarrow> 55 / 100 | Compatibility_only \<Rightarrow> 45 / 100
      | Disallowed \<Rightarrow> 0)"

text \<open>\<open>new Map(cappedGroups.map(...))\<close>: the last cap of a group counts.\<close>

definition cap_of :: "admissibility_contract \<Rightarrow> memory_role \<Rightarrow> nat option" where
  "cap_of contract = map_of (rev (ac_cappedGroups contract))"

definition scorePolicyDrivenHit ::
  "recall_env \<Rightarrow> recall_hit \<Rightarrow> jstr option \<Rightarrow> admissibility_contract \<Rightarrow> real \<Rightarrow> real" where
  "scorePolicyDrivenHit env hit requestedPath contract maxScore =
     (let kind = classifyRecallMemoryKind hit;
          semantic = normalizeSemanticScore hit maxScore;
          ageDays = (case hit_stamp hit of
              None \<Rightarrow> Some 999
            | Some s \<Rightarrow> if s = [] then Some 999 else age_days env s);
          recency = half_life env ageDays 14;
          scope = scoreScopeMatch hit requestedPath;
          roleScore = (if kind \<in> set (ac_primaryGroups contract) then 1
                       else if kind \<in> set (ac_secondaryGroups contract) then 72 / 100
                       else if cap_of contract kind \<noteq> None then 45 / 100
                       else 15 / 100)
      in 42 / 100 * semantic + 20 / 100 * roleScore + 13 / 100 * scope + 10 / 100 * recency
         + 15 / 100 * continuityDispositionScore contract kind)"

definition admissible :: "admissibility_contract \<Rightarrow> memory_role \<Rightarrow> bool" where
  "admissible contract kind =
     (kind \<notin> set (ac_barredGroups contract)
      \<and> (kind \<in> set (ac_primaryGroups contract) \<or> kind \<in> set (ac_secondaryGroups contract)
         \<or> cap_of contract kind \<noteq> None))"

text \<open>The loop that enforces the caps: the hits kept, and those over their cap.\<close>

fun cap_loop ::
  "admissibility_contract \<Rightarrow> (memory_role \<Rightarrow> nat) \<Rightarrow> recall_hit list
    \<Rightarrow> recall_hit list \<times> (admissibility_event \<times> drop_decision) list" where
  "cap_loop contract counts [] = ([], [])"
| "cap_loop contract counts (hit # hits) =
     (let event = classifyAdmissibilityEvent hit; g = ae_group event
      in case cap_of contract g of
           Some limit \<Rightarrow>
             if counts g \<ge> limit
             then (let (kept, over) = cap_loop contract counts hits in (kept, (event, Over_cap limit) # over))
             else (let (kept, over) = cap_loop contract (counts(g := counts g + 1)) hits in (hit # kept, over))
         | None \<Rightarrow>
             (let (kept, over) = cap_loop contract (counts(g := counts g + 1)) hits in (hit # kept, over)))"

definition barred_drop :: "admissibility_contract \<Rightarrow> recall_hit \<Rightarrow> admissibility_event \<times> drop_decision" where
  "barred_drop contract hit =
     (let event = classifyAdmissibilityEvent hit
      in (event, if ae_group event \<in> set (ac_barredGroups contract) then Barred_group else Unsupported_group))"

definition with_role :: "recall_hit \<Rightarrow> recall_hit" where
  "with_role hit = hit\<lparr>rh_memoryRole := or_else (rh_memoryRole hit) (Some (classifyRecallMemoryKind hit))\<rparr>"

definition shapePolicyDrivenHits ::
  "recall_env \<Rightarrow> recall_hit list \<Rightarrow> jstr option \<Rightarrow> admissibility_contract
    \<Rightarrow> recall_hit list \<times> admissibility_audit" where
  "shapePolicyDrivenHits env hits requestedPath contract =
     (let scopedHits = filter (\<lambda>hit. \<not> opt_truthy requestedPath \<or> rh_path hit = requestedPath \<or> \<not> has_path hit) hits;
          ok = (\<lambda>hit. admissible contract (classifyRecallMemoryKind hit));
          admissibleCandidates = filter ok scopedHits;
          refused = map (barred_drop contract) (filter (\<lambda>hit. \<not> ok hit) scopedHits);
          maxScore = max_score admissibleCandidates;
          reranked = sort_by_score (map (\<lambda>hit.
            (with_role hit)\<lparr>sh_score := scorePolicyDrivenHit env hit requestedPath contract maxScore\<rparr>) admissibleCandidates);
          (selected, over) = cap_loop contract (\<lambda>_. 0) reranked;
          dropped = refused @ over
      in (selected,
          \<lparr>aa_contract = contract, aa_continuityResolverMode = None,
           aa_admittedIds = map sh_id selected, aa_droppedIds = map (\<lambda>d. ae_id (fst d)) dropped,
           aa_dropped = dropped, aa_selected = [], aa_representativePromotion = None\<rparr>))"

section \<open>The candidate pool\<close>

datatype client_scope = No_client_scope | Prefer_client | Strict_client

definition applyPreferredClientSoftScope ::
  "recall_hit list \<Rightarrow> jstr option \<Rightarrow> client_scope \<Rightarrow> recall_hit list" where
  "applyPreferredClientSoftScope hits preferredClient mode =
     (if \<not> opt_truthy preferredClient \<or> mode = No_client_scope then hits
      else if mode = Strict_client then filter (\<lambda>hit. rh_client hit = preferredClient) hits
      else sort_by_score (map (\<lambda>hit.
             if \<not> opt_truthy (rh_client hit) then hit
             else if rh_client hit = preferredClient then hit\<lparr>sh_score := sh_score hit * (108 / 100)\<rparr>
             else hit\<lparr>sh_score := sh_score hit * (72 / 100)\<rparr>) hits))"

definition buildCandidatePoolForSelectorProfile ::
  "recall_env \<Rightarrow> recall_hit list \<Rightarrow> selector_profile \<Rightarrow> jstr option \<Rightarrow> jstr option \<Rightarrow> client_scope
    \<Rightarrow> admissibility_contract option \<Rightarrow> recall_hit list \<times> admissibility_audit option" where
  "buildCandidatePoolForSelectorProfile env hits selectorProfile requestedPath preferredClient mode contract =
     (let clientScopedHits = applyPreferredClientSoftScope hits preferredClient mode;
          resolvedContract = or_else contract (resolveAdmissibilityContractForSelectorProfile selectorProfile)
      in case selectorProfile of
           Status_continuity \<Rightarrow>
             (let filtered = filterCurrentStatusCandidates clientScopedHits requestedPath;
                  reranked = rerankCurrentStatusHits env (sf_selectedPool filtered) requestedPath
              in case resolvedContract of
                   None \<Rightarrow> (reranked, None)
                 | Some c \<Rightarrow>
                     (let dropped = map (\<lambda>hit. (classifyAdmissibilityEvent hit, Unsupported_group)) (sf_droppedByPolicy filtered)
                      in (reranked, Some
                           \<lparr>aa_contract = c, aa_continuityResolverMode = Some (sf_mode filtered),
                            aa_admittedIds = map sh_id reranked, aa_droppedIds = map (\<lambda>d. ae_id (fst d)) dropped,
                            aa_dropped = dropped, aa_selected = [], aa_representativePromotion = None\<rparr>)))
         | Mixed_default \<Rightarrow> (clientScopedHits, None)
         | _ \<Rightarrow> (case resolvedContract of
               None \<Rightarrow> (clientScopedHits, None)
             | Some c \<Rightarrow> (let (kept, audit) = shapePolicyDrivenHits env clientScopedHits requestedPath c
                         in (kept, Some audit))))"

section \<open>The primary representative\<close>

definition primaryKindsForContract ::
  "selector_profile \<Rightarrow> admissibility_contract option \<Rightarrow> memory_role list" where
  "primaryKindsForContract selectorProfile contract =
     (let fallbackContract = resolveAdmissibilityContractForSelectorProfile selectorProfile;
          exempt = (\<lambda>c. case c of None \<Rightarrow> False | Some d \<Rightarrow> \<not> ac_requirePrimaryRepresentative d)
      in if exempt contract then []
         else if exempt fallbackContract then []
         else (case or_else contract fallbackContract of None \<Rightarrow> [] | Some c \<Rightarrow> ac_primaryGroups c))"

definition enforcePrimaryRepresentativeOnSelection ::
  "recall_hit list \<Rightarrow> recall_hit list \<Rightarrow> selector_profile \<Rightarrow> admissibility_contract option \<Rightarrow> nat
    \<Rightarrow> recall_hit list \<times> representative_promotion option" where
  "enforcePrimaryRepresentativeOnSelection selected candidatePool selectorProfile contract topK =
     (let primaryKinds = primaryKindsForContract selectorProfile contract;
          isPrimary = (\<lambda>hit. classifyRecallMemoryKind hit \<in> set primaryKinds)
      in if primaryKinds = [] then (selected, None)
         else if list_ex isPrimary selected then (selected, None)
         else (case find isPrimary candidatePool of
                 None \<Rightarrow> (selected, None)
               | Some p \<Rightarrow>
                   (let withoutPrimary = filter (\<lambda>hit. sh_id hit \<noteq> sh_id p) selected
                    in (p # take (topK - 1) withoutPrimary,
                        Some \<lparr>pr_insertedId = sh_id p,
                          pr_displacedId = (if 1 \<le> topK \<and> topK - 1 < length withoutPrimary
                            then Some (sh_id (withoutPrimary ! (topK - 1))) else None),
                          pr_group = classifyRecallMemoryKind p\<rparr>))))"

section \<open>The pipeline\<close>

record selection_options =
  so_intent :: intent_signal
  so_topK :: nat
  so_requestedPath :: "jstr option"
  so_preferredClient :: "jstr option"
  so_clientScopeMode :: client_scope
  so_selectorProfile :: "selector_profile option"
  so_admissibilityContract :: "admissibility_contract option"
  so_rankingProfile :: ranking_profile
  so_learnedNoiseIds :: "jstr list"
  so_budgetTokens :: jval

record selection_result =
  sr_selected :: "recall_hit list"
  sr_renderedText :: "jstr list"
  sr_accessTrackedIds :: "jstr list"
  sr_dropped :: "recall_hit list"
  sr_admissibility :: "admissibility_audit option"
  sr_preferencePacket :: "preference_packet option"
  sr_budgetFit :: "budget_fit option"

definition selector_profile_of :: "selection_options \<Rightarrow> selector_profile" where
  "selector_profile_of opts =
     (case so_selectorProfile opts of
        Some p \<Rightarrow> p
      | None \<Rightarrow> if isStatusClassIntent (is_label (so_intent opts)) then Status_continuity else Mixed_default)"

text \<open>Steps 1 to 2.5: the candidate pool, the stale identifiers, and the audit so far.\<close>

definition candidate_pool ::
  "recall_env \<Rightarrow> recall_hit list \<Rightarrow> selection_options
    \<Rightarrow> recall_hit list \<times> jstr list \<times> admissibility_audit option" where
  "candidate_pool env hits opts =
     (let (afterDemotion, staleDemotedIds) =
            applyStaleSignalDemotion hits (so_intent opts) (so_rankingProfile opts) (so_learnedNoiseIds opts);
          afterRecency = applyRecencyPenaltyForStatus env afterDemotion (so_intent opts) 7;
          afterCollapse = collapseContradictions afterRecency (rk_knownRenames (so_rankingProfile opts));
          (pool, audit) = buildCandidatePoolForSelectorProfile env afterCollapse (selector_profile_of opts)
            (so_requestedPath opts) (so_preferredClient opts) (so_clientScopeMode opts) (so_admissibilityContract opts)
      in (pool, staleDemotedIds, audit))"

text \<open>Steps 3 and 4: the ranked selection.\<close>

definition ranked_selection ::
  "recall_hit list \<Rightarrow> selection_options \<Rightarrow> recall_hit list \<times> representative_promotion option" where
  "ranked_selection pool opts =
     enforcePrimaryRepresentativeOnSelection
       (ps_selected (selectPathScopedTopK pool (so_requestedPath opts) (so_topK opts) 1))
       pool (selector_profile_of opts) (so_admissibilityContract opts) (so_topK opts)"

definition payload_shaped :: "query_intent \<Rightarrow> bool" where
  "payload_shaped label =
     (label = I_session_opener \<or> label = I_pre_compaction \<or> label = I_post_compaction_validation)"

text \<open>Step 4.5: the fit, when a valid budget applies.\<close>

definition budget_of :: "selection_options \<Rightarrow> nat option" where
  "budget_of opts =
     (if payload_shaped (is_label (so_intent opts)) then None else resolveBudgetTokens (so_budgetTokens opts))"

definition fit_selection :: "recall_hit list \<Rightarrow> selection_options \<Rightarrow> fitted_selection option" where
  "fit_selection selected opts =
     map_option (fitSelectionToBudget selected (is_depth (so_intent opts))) (budget_of opts)"

definition accessTracked :: "selection_options \<Rightarrow> jstr list \<Rightarrow> recall_hit list \<Rightarrow> jstr list" where
  "accessTracked opts staleDemotedIds selected =
     (let nullPathIds = map sh_id (filter (\<lambda>hit. opt_truthy (so_requestedPath opts) \<and> \<not> has_path hit) selected)
      in filter truthy (map sh_id (filter (\<lambda>h. rh_sourceKind h \<noteq> Some Noema
            \<and> sh_id h \<notin> set nullPathIds \<and> sh_id h \<notin> set staleDemotedIds) selected)))"

definition postProcessRecallResults ::
  "recall_env \<Rightarrow> recall_hit list \<Rightarrow> selection_options \<Rightarrow> selection_result" where
  "postProcessRecallResults env hits opts =
     (let (pool, staleDemotedIds, audit) = candidate_pool env hits opts;
          (ranked, promotion) = ranked_selection pool opts;
          fit = fit_selection ranked opts;
          selected = (case fit of None \<Rightarrow> ranked | Some f \<Rightarrow> fs_selected f);
          renderedText = (case fit of
              None \<Rightarrow> map (render_hit (is_depth (so_intent opts))) selected
            | Some f \<Rightarrow> fs_renderedText f)
      in \<lparr>sr_selected = selected, sr_renderedText = renderedText,
          sr_accessTrackedIds = accessTracked opts staleDemotedIds selected,
          sr_dropped = not_selected selected pool,
          sr_admissibility = map_option (\<lambda>a. a\<lparr>aa_selected := map classifyAdmissibilityEvent selected,
            aa_representativePromotion := or_else promotion (aa_representativePromotion a)\<rparr>) audit,
          sr_preferencePacket = buildPreferencePacket selected (so_intent opts) None,
          sr_budgetFit = map_option fs_budgetFit fit\<rparr>)"

end
