(* ===== verification/Selection_Laws.thy ===== *)
theory Selection_Laws
  imports Recall_Selection
begin

text \<open>
  What the selection of a recall keeps: every stage draws its hits from the hits it was given, changes
  nothing but the score and the role, and the contract, the path and the budget hold for what is
  selected.
\<close>

section \<open>Drawing from a list of hits\<close>

text \<open>What no stage changes: the hit without its score and role, and its kind.\<close>

definition memory_of :: "recall_hit \<Rightarrow> recall_hit \<times> memory_role" where
  "memory_of h = (h\<lparr>sh_score := 0, rh_memoryRole := None\<rparr>, classifyRecallMemoryKind h)"

definition drawn_from :: "recall_hit list \<Rightarrow> recall_hit list \<Rightarrow> bool" where
  "drawn_from selected hits = (mset (map memory_of selected) \<subseteq># mset (map memory_of hits))"

lemma memory_of_score [simp]: "memory_of (h\<lparr>sh_score := s\<rparr>) = memory_of h"
  by (simp add: memory_of_def)

lemma memory_of_role [simp]: "memory_of (with_role h) = memory_of h"
proof -
  have "classifyRecallMemoryKind (with_role h) = classifyRecallMemoryKind h"
  proof (cases "rh_memoryRole h")
    case None
    then show ?thesis using classify_stored_role [of h] by (simp add: with_role_def or_else_def)
  next
    case (Some r)
    show ?thesis by (rule classify_cong) (simp_all add: with_role_def or_else_def Some)
  qed
  then show ?thesis by (simp add: memory_of_def with_role_def)
qed

lemma memory_of_fields:
  assumes "memory_of a = memory_of b"
  shows "sh_id a = sh_id b" and "sh_text a = sh_text b" and "rh_path a = rh_path b"
    and "classifyRecallMemoryKind a = classifyRecallMemoryKind b"
  using assms by (auto simp: memory_of_def dest: arg_cong [of _ _ sh_id] arg_cong [of _ _ sh_text]
      arg_cong [of _ _ rh_path])

lemma drawn_refl [simp]: "drawn_from hits hits"
  by (simp add: drawn_from_def)

lemma drawn_trans: "drawn_from a b \<Longrightarrow> drawn_from b c \<Longrightarrow> drawn_from a c"
  unfolding drawn_from_def by (rule subset_mset.trans)

lemma drawn_cong: "mset a = mset b \<Longrightarrow> drawn_from a b"
  by (simp add: drawn_from_def)

lemma drawn_filter [simp]: "drawn_from (filter P hits) hits"
  by (simp add: drawn_from_def image_mset_subseteq_mono)

lemma drawn_take [simp]: "drawn_from (take n hits) hits"
  unfolding drawn_from_def
  by (metis append_take_drop_id map_append mset_append mset_subset_eq_add_left)

lemma drawn_sort [simp]: "drawn_from (sort_by_score hits) hits" "drawn_from (js_sort cmp hits) hits"
  by (simp_all add: drawn_cong js_sort_mset)

lemma drawn_map: "(\<And>h. memory_of (f h) = memory_of h) \<Longrightarrow> drawn_from (map f hits) hits"
  by (simp add: drawn_from_def comp_def)

lemma drawn_set: "drawn_from a b \<Longrightarrow> memory_of ` set a \<subseteq> memory_of ` set b"
  unfolding drawn_from_def by (drule set_mset_mono) simp

lemma drawn_hit:
  assumes "drawn_from a b" and "h \<in> set a"
  obtains h' where "h' \<in> set b" "memory_of h = memory_of h'"
  using drawn_set [OF assms(1)] assms(2) by blast

lemma drawn_count:
  assumes "drawn_from a b"
  shows "length (filter (\<lambda>h. classifyRecallMemoryKind h = g) a) \<le> length (filter (\<lambda>h. classifyRecallMemoryKind h = g) b)"
proof -
  have c: "length (filter (\<lambda>h. classifyRecallMemoryKind h = g) hs)
      = size (filter_mset (\<lambda>m. snd m = g) (mset (map memory_of hs)))" for hs
    by (induction hs) (auto simp: memory_of_def)
  show ?thesis unfolding c using assms unfolding drawn_from_def
    by (intro size_mset_mono multiset_filter_mono)
qed

lemma drawn_ids:
  assumes "drawn_from a b"
  shows "mset (map sh_id a) \<subseteq># mset (map sh_id b)"
proof -
  have i: "mset (map sh_id hs) = image_mset (\<lambda>m. sh_id (fst m)) (mset (map memory_of hs))" for hs
    by (induction hs) (auto simp: memory_of_def)
  show ?thesis unfolding i using assms unfolding drawn_from_def by (rule image_mset_subseteq_mono)
qed

lemma distinct_sub:
  assumes "mset xs \<subseteq># mset ys" and "distinct ys"
  shows "distinct xs"
  unfolding distinct_count_atmost_1
proof
  fix a
  have "count (mset ys) a \<le> 1" using assms(2) by (simp add: distinct_count_atmost_1)
  with mset_subset_eq_count [OF assms(1), of a] have "count (mset xs) a \<le> 1" by simp
  then show "count (mset xs) a = (if a \<in> set xs then 1 else 0)"
    by (cases "a \<in> set xs") (auto simp: not_in_iff le_Suc_eq count_eq_zero_iff)
qed

section \<open>The stages\<close>

lemma stale_drawn: "drawn_from (fst (applyStaleSignalDemotion hits intent profile noise)) hits"
proof -
  have "drawn_from (map (\<lambda>h. if stale_match intent s noise h then h\<lparr>sh_score := sh_score h * (40 / 100)\<rparr> else h) hits) hits"
    for s by (rule drawn_map) simp
  then show ?thesis
    by (auto simp: applyStaleSignalDemotion_def Let_def intro: drawn_trans [OF drawn_sort(1)])
qed

lemma recency_drawn: "drawn_from (applyRecencyPenaltyForStatus env hits intent days) hits"
proof -
  have "drawn_from (map (\<lambda>h. if created_before env c h then h\<lparr>sh_score := sh_score h * (50 / 100)\<rparr> else h) hits) hits"
    for c by (rule drawn_map) simp
  then show ?thesis
    by (auto simp: applyRecencyPenaltyForStatus_def Let_def intro: drawn_trans [OF drawn_sort(1)])
qed

lemma collapse_drawn: "drawn_from (collapseContradictions hits renames) hits"
  by (simp add: collapseContradictions_def Let_def)

lemma client_drawn: "drawn_from (applyPreferredClientSoftScope hits client mode) hits"
proof -
  have "drawn_from (map (\<lambda>hit. if \<not> opt_truthy (rh_client hit) then hit
             else if rh_client hit = client then hit\<lparr>sh_score := sh_score hit * (108 / 100)\<rparr>
             else hit\<lparr>sh_score := sh_score hit * (72 / 100)\<rparr>) hits) hits" by (rule drawn_map) simp
  then show ?thesis
    by (auto simp: applyPreferredClientSoftScope_def intro: drawn_trans [OF drawn_sort(1)])
qed

lemma status_pool_drawn: "drawn_from (sf_selectedPool (filterCurrentStatusCandidates hits p)) hits"
  by (simp add: filterCurrentStatusCandidates_def Let_def)

lemma status_rank_drawn: "drawn_from (rerankCurrentStatusHits env hits p) hits"
  unfolding rerankCurrentStatusHits_def
  by (rule drawn_trans [OF drawn_sort(2)], rule drawn_map) simp

text \<open>The caps: what the loop keeps stays within each cap, counting what was kept before.\<close>

lemma event_group [simp]: "ae_group (classifyAdmissibilityEvent h) = classifyRecallMemoryKind h"
  by (simp add: classifyAdmissibilityEvent_def Let_def)

lemma cap_loop_kept:
  "fst (cap_loop c counts []) = []"
  "fst (cap_loop c counts (hit # hits)) =
     (let g = classifyRecallMemoryKind hit in
      if (case cap_of c g of None \<Rightarrow> False | Some limit \<Rightarrow> limit \<le> counts g)
      then fst (cap_loop c counts hits)
      else hit # fst (cap_loop c (counts(g := counts g + 1)) hits))"
  by (simp_all add: Let_def split: prod.splits option.splits)

lemma cap_loop_subseq: "subseq (fst (cap_loop c counts hits)) hits"
  by (induction hits arbitrary: counts) (auto simp: cap_loop_kept Let_def simp del: cap_loop.simps)

lemma cap_loop_caps:
  "cap_of c g = Some m \<Longrightarrow> counts g \<le> m \<Longrightarrow>
    counts g + length (filter (\<lambda>h. classifyRecallMemoryKind h = g) (fst (cap_loop c counts hits))) \<le> m"
proof (induction hits arbitrary: counts)
  case (Cons hit hits)
  let ?g = "classifyRecallMemoryKind hit"
  from Cons.IH [of "counts(?g := counts ?g + 1)"] Cons.IH [of counts] Cons.prems show ?case
    by (cases "?g = g") (auto simp: cap_loop_kept Let_def simp del: cap_loop.simps fun_upd_apply simp add: fun_upd_same fun_upd_other)
qed (simp add: cap_loop_kept)

definition shaped_candidates ::
  "recall_env \<Rightarrow> recall_hit list \<Rightarrow> jstr option \<Rightarrow> admissibility_contract \<Rightarrow> recall_hit list" where
  "shaped_candidates env hits p c =
     (let ok = filter (\<lambda>hit. admissible c (classifyRecallMemoryKind hit))
            (filter (\<lambda>hit. \<not> opt_truthy p \<or> rh_path hit = p \<or> \<not> has_path hit) hits)
      in sort_by_score (map (\<lambda>hit. (with_role hit)\<lparr>sh_score := scorePolicyDrivenHit env hit p c (max_score ok)\<rparr>) ok))"

lemma shape_is_capped:
  "fst (shapePolicyDrivenHits env hits p c) = fst (cap_loop c (\<lambda>_. 0) (shaped_candidates env hits p c))"
  by (simp add: shapePolicyDrivenHits_def shaped_candidates_def Let_def split: prod.splits)

lemma shaped_drawn:
  "drawn_from (shaped_candidates env hits p c)
     (filter (\<lambda>hit. (\<not> opt_truthy p \<or> rh_path hit = p \<or> \<not> has_path hit)
        \<and> admissible c (classifyRecallMemoryKind hit)) hits)"
  unfolding shaped_candidates_def Let_def filter_filter
  by (rule drawn_trans [OF drawn_sort(1)], rule drawn_trans, rule drawn_map) (simp_all add: conj_commute)

lemma drawn_subseq: "subseq a b \<Longrightarrow> drawn_from a b"
  unfolding drawn_from_def
proof (induction a b rule: list_emb.induct)
  case (list_emb_Cons xs ys y)
  then show ?case using subset_mset.order_trans [of _ _ "mset (map memory_of ys) + {#memory_of y#}"] by simp
qed simp_all

lemma shape_drawn:
  "drawn_from (fst (shapePolicyDrivenHits env hits p c))
     (filter (\<lambda>hit. (\<not> opt_truthy p \<or> rh_path hit = p \<or> \<not> has_path hit)
        \<and> admissible c (classifyRecallMemoryKind hit)) hits)"
  unfolding shape_is_capped
  by (rule drawn_trans [OF drawn_subseq [OF cap_loop_subseq] shaped_drawn])

lemma shape_caps:
  "cap_of c g = Some m \<Longrightarrow>
    length (filter (\<lambda>h. classifyRecallMemoryKind h = g) (fst (shapePolicyDrivenHits env hits p c))) \<le> m"
  using cap_loop_caps [of c g m "\<lambda>_. 0"] by (simp add: shape_is_capped)

lemma drawn_append:
  assumes "drawn_from a (filter P hits)" and "drawn_from b (filter Q hits)" and "\<And>h. Q h \<Longrightarrow> \<not> P h"
  shows "drawn_from (a @ b) hits"
proof -
  have "mset (map memory_of (filter P hits)) + mset (map memory_of (filter Q hits)) \<subseteq># mset (map memory_of hits)"
    using assms(3)
  proof (induction hits)
    case (Cons h hits)
    then show ?case
      using subset_mset.order_trans [of _ "mset (map memory_of hits)" "mset (map memory_of hits) + {#memory_of h#}"]
      by auto
  qed simp
  with assms(1,2) show ?thesis
    unfolding drawn_from_def
    by simp (meson subset_mset.add_mono subset_mset.order_trans)
qed

definition contract_engine :: "selector_profile \<Rightarrow> bool" where
  "contract_engine p = (p \<noteq> Status_continuity \<and> p \<noteq> Mixed_default)"

text \<open>The contract that applies to a pool.\<close>

definition contract_of :: "selection_options \<Rightarrow> admissibility_contract option" where
  "contract_of opts =
     or_else (so_admissibilityContract opts)
       (resolveAdmissibilityContractForSelectorProfile (selector_profile_of opts))"

lemma pool_cases:
  fixes opts
  defines "p \<equiv> selector_profile_of opts" and "path \<equiv> so_requestedPath opts"
  shows "\<exists>kept. drawn_from kept hits
    \<and> fst (candidate_pool env hits opts) =
        (if p = Status_continuity
         then rerankCurrentStatusHits env (sf_selectedPool (filterCurrentStatusCandidates kept path)) path
         else (case contract_of opts of
             Some c \<Rightarrow> if p = Mixed_default then kept else fst (shapePolicyDrivenHits env kept path c)
           | None \<Rightarrow> kept))"
proof -
  obtain demoted stale where d: "applyStaleSignalDemotion hits (so_intent opts) (so_rankingProfile opts) (so_learnedNoiseIds opts)
      = (demoted, stale)" by fastforce
  let ?collapsed = "collapseContradictions (applyRecencyPenaltyForStatus env demoted (so_intent opts) 7)
      (rk_knownRenames (so_rankingProfile opts))"
  let ?kept = "applyPreferredClientSoftScope ?collapsed (so_preferredClient opts) (so_clientScopeMode opts)"
  have "drawn_from demoted hits" using stale_drawn [of hits "so_intent opts"] d by (metis fst_conv)
  then have "drawn_from ?kept hits"
    by (meson drawn_trans client_drawn collapse_drawn recency_drawn)
  moreover have "fst (candidate_pool env hits opts) =
      fst (buildCandidatePoolForSelectorProfile env ?collapsed p path (so_preferredClient opts)
        (so_clientScopeMode opts) (so_admissibilityContract opts))"
    by (simp add: candidate_pool_def d p_def path_def split: prod.splits)
  ultimately show ?thesis
    by (intro exI [of _ ?kept])
      (cases p, auto simp: buildCandidatePoolForSelectorProfile_def contract_of_def p_def Let_def
        split: option.splits prod.splits)
qed

lemma pool_drawn: "drawn_from (fst (candidate_pool env hits opts)) hits"
proof -
  obtain kept where k: "drawn_from kept hits" and pool: "fst (candidate_pool env hits opts) =
      (if selector_profile_of opts = Status_continuity
       then rerankCurrentStatusHits env (sf_selectedPool (filterCurrentStatusCandidates kept (so_requestedPath opts))) (so_requestedPath opts)
       else (case contract_of opts of
           Some c \<Rightarrow> if selector_profile_of opts = Mixed_default then kept
             else fst (shapePolicyDrivenHits env kept (so_requestedPath opts) c)
         | None \<Rightarrow> kept))"
    using pool_cases [where hits = hits and env = env] by blast
  have "drawn_from (rerankCurrentStatusHits env (sf_selectedPool (filterCurrentStatusCandidates kept q)) q) kept" for q
    by (rule drawn_trans [OF status_rank_drawn status_pool_drawn])
  moreover have "drawn_from (fst (shapePolicyDrivenHits env kept q c)) kept" for q c
    by (rule drawn_trans [OF shape_drawn drawn_filter])
  ultimately show ?thesis unfolding pool using k by (auto split: option.splits intro: drawn_trans)
qed

section \<open>The ranked selection\<close>

lemma path_drawn: "drawn_from (ps_selected (selectPathScopedTopK hits p topK m)) hits"
proof (cases "opt_truthy p")
  case True
  let ?exact = "\<lambda>h. rh_path h = p" and ?null = "\<lambda>h. rh_path h \<noteq> p \<and> \<not> has_path h"
  have bucket: "drawn_from (take n (sort_by_score (filter P hits))) (filter P hits)" for n P
    by (rule drawn_trans [OF drawn_take drawn_sort(1)])
  have "\<exists>n. ps_selected (selectPathScopedTopK hits p topK m)
      = take topK (sort_by_score (filter ?exact hits)) @ take n (sort_by_score (filter ?null hits))"
    using True by (simp only: selectPathScopedTopK_def Let_def simp_thms if_False path_selection.simps) blast
  then obtain n where n: "ps_selected (selectPathScopedTopK hits p topK m)
      = take topK (sort_by_score (filter ?exact hits)) @ take n (sort_by_score (filter ?null hits))" by blast
  show ?thesis unfolding n by (rule drawn_append [OF bucket bucket]) simp
qed (simp add: selectPathScopedTopK_def)

lemma path_length: "length (ps_selected (selectPathScopedTopK hits p topK m)) \<le> topK"
  by (auto simp: selectPathScopedTopK_def Let_def)

lemma path_scoped:
  assumes "opt_truthy p" and "h \<in> set (ps_selected (selectPathScopedTopK hits p topK m))"
  shows "rh_path h = p \<or> \<not> has_path h"
  using assms by (auto simp: selectPathScopedTopK_def Let_def dest!: in_set_takeD)

lemma enforce_cases:
  assumes "enforcePrimaryRepresentativeOnSelection selected pool profile c topK = (result, promotion)"
  obtains "result = selected" "promotion = None"
    | p where "p \<in> set pool" "classifyRecallMemoryKind p \<in> set (primaryKindsForContract profile c)"
        "result = p # take (topK - 1) (filter (\<lambda>h. sh_id h \<noteq> sh_id p) selected)"
proof -
  let ?isp = "\<lambda>hit. classifyRecallMemoryKind hit \<in> set (primaryKindsForContract profile c)"
  show thesis
  proof (cases "primaryKindsForContract profile c = [] \<or> list_ex ?isp selected \<or> find ?isp pool = None")
    case True
    with assms that(1) show thesis
      by (auto simp: enforcePrimaryRepresentativeOnSelection_def Let_def split: if_splits option.splits)
  next
    case False
    then obtain p where p: "find ?isp pool = Some p" by auto
    then have "p \<in> set pool" "?isp p" by (auto simp: find_Some_iff)
    with False p assms that(2) show thesis
      by (simp add: enforcePrimaryRepresentativeOnSelection_def Let_def)
  qed
qed

lemma enforce_drawn:
  assumes "drawn_from selected pool"
  shows "drawn_from (fst (enforcePrimaryRepresentativeOnSelection selected pool profile c topK)) pool"
proof -
  obtain result promotion where r: "enforcePrimaryRepresentativeOnSelection selected pool profile c topK = (result, promotion)"
    by fastforce
  from r show ?thesis
  proof (cases rule: enforce_cases)
    case 1
    with r assms show ?thesis by simp
  next
    case (2 p)
    let ?rest = "take (topK - 1) (filter (\<lambda>h. sh_id h \<noteq> sh_id p) selected)"
    have rest: "drawn_from ?rest pool" by (meson assms drawn_trans drawn_take drawn_filter)
    have "memory_of p \<notin> memory_of ` set ?rest"
      by (auto dest!: in_set_takeD memory_of_fields(1))
    then have none: "count (mset (map memory_of ?rest)) (memory_of p) = 0"
      by (simp add: count_eq_zero_iff del: take_map)
    have "memory_of p \<in># mset (map memory_of pool)" using 2(1) by simp
    then have some: "1 \<le> count (mset (map memory_of pool)) (memory_of p)" by (simp only: count_greater_eq_one_iff)
    have "count (mset (map memory_of (p # ?rest))) m \<le> count (mset (map memory_of pool)) m" for m
    proof (cases "m = memory_of p")
      case True
      with none some show ?thesis by simp
    next
      case False
      with mset_subset_eq_count [OF rest [unfolded drawn_from_def], of m] show ?thesis by simp
    qed
    then have "drawn_from (p # ?rest) pool" unfolding drawn_from_def by (rule mset_subset_eqI)
    with r 2(3) show ?thesis by simp
  qed
qed

lemma ranked_drawn: "drawn_from (fst (ranked_selection pool opts)) pool"
  unfolding ranked_selection_def by (rule enforce_drawn [OF path_drawn])

lemma ranked_length: "length (fst (ranked_selection pool opts)) \<le> max 1 (so_topK opts)"
proof -
  let ?s = "ps_selected (selectPathScopedTopK pool (so_requestedPath opts) (so_topK opts) 1)"
  obtain result promotion where r: "enforcePrimaryRepresentativeOnSelection ?s pool (selector_profile_of opts)
      (so_admissibilityContract opts) (so_topK opts) = (result, promotion)" by fastforce
  from r show ?thesis
  proof (cases rule: enforce_cases)
    case 1
    with r path_length [of pool "so_requestedPath opts" "so_topK opts" 1] show ?thesis by (simp add: ranked_selection_def)
  next
    case (2 p)
    with r show ?thesis by (simp add: ranked_selection_def)
  qed
qed

section \<open>The pipeline\<close>

lemma find_None_filter: "find P xs = None \<longleftrightarrow> filter P xs = []"
  by (induction xs) auto

lemma fit_is_prefix:
  obtains n d where "n \<le> length selected" and "d \<in> set (BUDGET_DEPTH_LADDER depth)"
    and "fs_selected (fitSelectionToBudget selected depth b) = take n selected"
    and "fs_renderedText (fitSelectionToBudget selected depth b) = map (render_hit d) (take n selected)"
    and "bf_depth (fs_budgetFit (fitSelectionToBudget selected depth b)) = d"
    and "bf_droppedIds (fs_budgetFit (fitSelectionToBudget selected depth b)) = map sh_id (drop n selected)"
    and "bf_approximateTokens (fs_budgetFit (fitSelectionToBudget selected depth b))
      = wrappedInjectionTokens (map (render_hit d) (take n selected))"
    and "wrappedInjectionTokens (map (render_hit d) (take n selected)) \<le> b"
    and "n = length selected \<or> (d = L0
      \<and> filter (\<lambda>d. wrappedInjectionTokens (map (render_hit d) selected) \<le> b) (BUDGET_DEPTH_LADDER depth) = []
      \<and> b < wrappedInjectionTokens (map (render_hit L0) (take (Suc n) selected)))"
proof -
  let ?fits = "\<lambda>d. wrappedInjectionTokens (map (render_hit d) selected) \<le> b"
  show thesis
  proof (cases "find ?fits (BUDGET_DEPTH_LADDER depth)")
    case (Some d)
    then have "?fits d" "d \<in> set (BUDGET_DEPTH_LADDER depth)" by (auto simp: find_Some_iff)
    with Some show thesis
      by (intro that [of "length selected" d]) (simp_all add: fitSelectionToBudget_def Let_def)
  next
    case None
    have shallow: "last (BUDGET_DEPTH_LADDER depth) = L0" "L0 \<in> set (BUDGET_DEPTH_LADDER depth)"
      by (cases depth; simp add: BUDGET_DEPTH_LADDER_def)+
    obtain kept rendered ids where dt: "drop_tail b selected (map (render_hit L0) selected) [] = (kept, rendered, ids)"
      by (metis prod_cases3)
    from drop_tail_hits [OF dt] obtain n where n: "n \<le> length selected" "kept = take n selected"
      "rendered = map (render_hit L0) (take n selected)" "ids = map sh_id (drop n selected)"
      "wrappedInjectionTokens (map (render_hit L0) (take n selected)) \<le> b"
      "\<forall>k. n < k \<longrightarrow> k \<le> length selected \<longrightarrow> b < wrappedInjectionTokens (map (render_hit L0) (take k selected))" by blast
    have unfit: "filter ?fits (BUDGET_DEPTH_LADDER depth) = []" using None by (simp only: find_None_filter)
    have full: "n = length selected \<or> b < wrappedInjectionTokens (map (render_hit L0) (take (Suc n) selected))"
      using n(1) n(6) [rule_format, of "Suc n"] by (cases "n = length selected") auto
    show thesis
      using n(1,5) full shallow(2) unfit
      by (intro that [of n L0]) (auto simp: fitSelectionToBudget_def Let_def None shallow(1) dt n(2,3,4))
  qed
qed

definition ranked_of :: "recall_env \<Rightarrow> recall_hit list \<Rightarrow> selection_options \<Rightarrow> recall_hit list" where
  "ranked_of env hits opts = fst (ranked_selection (fst (candidate_pool env hits opts)) opts)"

lemma pipeline_plain:
  assumes "budget_of opts = None"
  shows "sr_selected (postProcessRecallResults env hits opts) = ranked_of env hits opts"
    and "sr_renderedText (postProcessRecallResults env hits opts)
      = map (render_hit (is_depth (so_intent opts))) (ranked_of env hits opts)"
  using assms by (simp_all add: postProcessRecallResults_def fit_selection_def ranked_of_def Let_def split: prod.splits)

lemma pipeline_fitted:
  assumes "budget_of opts = Some b"
  shows "sr_selected (postProcessRecallResults env hits opts)
      = fs_selected (fitSelectionToBudget (ranked_of env hits opts) (is_depth (so_intent opts)) b)"
    and "sr_renderedText (postProcessRecallResults env hits opts)
      = fs_renderedText (fitSelectionToBudget (ranked_of env hits opts) (is_depth (so_intent opts)) b)"
  using assms by (simp_all add: postProcessRecallResults_def fit_selection_def ranked_of_def Let_def split: prod.splits)

text \<open>Whatever the budget does, the selection is a prefix of the ranked one, rendered line by line.\<close>

lemma selected_prefix:
  obtains n d where "sr_selected (postProcessRecallResults env hits opts) = take n (ranked_of env hits opts)"
    and "sr_renderedText (postProcessRecallResults env hits opts)
      = map (render_hit d) (sr_selected (postProcessRecallResults env hits opts))"
proof (cases "budget_of opts")
  case None
  show thesis
    by (rule that [of "length (ranked_of env hits opts)" "is_depth (so_intent opts)"])
      (simp_all add: pipeline_plain [OF None])
next
  case (Some b)
  obtain n d where "fs_selected (fitSelectionToBudget (ranked_of env hits opts) (is_depth (so_intent opts)) b)
        = take n (ranked_of env hits opts)"
      "fs_renderedText (fitSelectionToBudget (ranked_of env hits opts) (is_depth (so_intent opts)) b)
        = map (render_hit d) (take n (ranked_of env hits opts))"
    by (rule fit_is_prefix [of "ranked_of env hits opts" "is_depth (so_intent opts)" b])
  then show thesis by (intro that [of n d]) (simp_all add: pipeline_fitted [OF Some])
qed

lemma selection_drawn_from_pool:
  "drawn_from (sr_selected (postProcessRecallResults env hits opts)) (fst (candidate_pool env hits opts))"
proof -
  obtain n d where "sr_selected (postProcessRecallResults env hits opts) = take n (ranked_of env hits opts)"
    by (rule selected_prefix)
  then show ?thesis using drawn_trans [OF drawn_take ranked_drawn] by (simp add: ranked_of_def)
qed

end
