(* ===== verification/Collapse_Laws.thy ===== *)
theory Collapse_Laws
  imports Recall_Selection
begin

text \<open>
  What the collapse of near-duplicates may remove: only a hit that collides with another one that
  beats it, never every hit, and never a text of several facts. With rename pairs the last two fail.
\<close>

section \<open>Survivors\<close>

definition survivors :: "recall_hit list \<Rightarrow> recall_hit list \<Rightarrow> recall_hit list" where
  "survivors kept hits = foldl (\<lambda>s h. fst (absorb h s)) kept hits"

lemma absorb_ids:
  "absorb h s = (s', lost) \<Longrightarrow> mset (map sh_id s') + mset lost = add_mset (sh_id h) (mset (map sh_id s))"
  by (induction h s arbitrary: s' lost rule: absorb.induct) (auto split: if_splits prod.splits)

lemma absorb_members: "absorb h s = (s', lost) \<Longrightarrow> set s' \<subseteq> insert h (set s) \<and> s' \<noteq> []"
  by (induction h s arbitrary: s' lost rule: absorb.induct) (auto split: if_splits prod.splits)

definition beaten :: "recall_hit set \<Rightarrow> recall_hit \<Rightarrow> bool" where
  "beaten pool h =
     (\<exists>k \<in> pool. (collides k h \<and> first_wins k h) \<or> (collides h k \<and> \<not> first_wins h k))"

lemma beaten_mono: "beaten a h \<Longrightarrow> a \<subseteq> b \<Longrightarrow> beaten b h"
  unfolding beaten_def by blast

lemma absorb_lost:
  "absorb h s = (s', lost) \<Longrightarrow> i \<in> set lost \<Longrightarrow>
    \<exists>x \<in> insert h (set s). sh_id x = i \<and> beaten (insert h (set s)) x"
proof (induction h s arbitrary: s' lost rule: absorb.induct)
  case (2 hit existing rest)
  show ?case
  proof (cases "collides existing hit")
    case True
    with 2(2,3) show ?thesis by (auto simp: beaten_def split: if_splits)
  next
    case False
    obtain r l where r: "absorb hit rest = (r, l)" by fastforce
    with False 2(2,3) have "i \<in> set l" by simp
    from 2(1) [OF False r this] obtain x where "x \<in> insert hit (set rest)" "sh_id x = i"
      "beaten (insert hit (set rest)) x" by blast
    moreover from this(3) have "beaten (insert hit (set (existing # rest))) x" by (rule beaten_mono) auto
    ultimately show ?thesis by (intro bexI [of _ x]) auto
  qed
qed simp

lemma absorb_all_ids:
  "mset (map sh_id (survivors s hits)) + mset (absorb_all s hits) = mset (map sh_id s) + mset (map sh_id hits)"
proof (induction hits arbitrary: s)
  case (Cons h hits)
  obtain s' lost where a: "absorb h s = (s', lost)" by fastforce
  let ?rest = "mset (map sh_id (survivors s' hits))" and ?gone = "mset (absorb_all s' hits)"
  have "?rest + (mset lost + ?gone) = (?rest + ?gone) + mset lost" by (simp only: ac_simps)
  also have "\<dots> = (mset (map sh_id s') + mset (map sh_id hits)) + mset lost" by (simp only: Cons [of s'])
  also have "\<dots> = (mset (map sh_id s') + mset lost) + mset (map sh_id hits)" by (simp only: ac_simps)
  also have "\<dots> = mset (map sh_id s) + mset (map sh_id (h # hits))"
    by (simp only: absorb_ids [OF a]) simp
  finally show ?case by (simp add: survivors_def a)
qed (simp add: survivors_def)

lemma survivors_members: "set (survivors s hits) \<subseteq> set s \<union> set hits"
proof (induction hits arbitrary: s)
  case (Cons h hits)
  obtain s' lost where a: "absorb h s = (s', lost)" by fastforce
  from Cons [of s'] absorb_members [OF a] show ?case by (auto simp: survivors_def a)
qed (simp add: survivors_def)

lemma survivors_some: "hits \<noteq> [] \<or> s \<noteq> [] \<Longrightarrow> survivors s hits \<noteq> []"
proof (induction hits arbitrary: s)
  case (Cons h hits)
  obtain s' lost where a: "absorb h s = (s', lost)" by fastforce
  from Cons.IH [of s'] absorb_members [OF a] show ?case by (simp add: survivors_def a)
qed (simp add: survivors_def)

lemma absorb_all_lost:
  "i \<in> set (absorb_all s hits) \<Longrightarrow>
    \<exists>x \<in> set s \<union> set hits. sh_id x = i \<and> beaten (set s \<union> set hits) x"
proof (induction hits arbitrary: s)
  case (Cons h hits)
  obtain s' lost where a: "absorb h s = (s', lost)" by fastforce
  with Cons.prems consider "i \<in> set lost" | "i \<in> set (absorb_all s' hits)" by auto
  then show ?case
  proof cases
    case 1
    from absorb_lost [OF a 1] obtain x where "x \<in> insert h (set s)" "sh_id x = i" "beaten (insert h (set s)) x"
      by blast
    moreover have sub: "insert h (set s) \<subseteq> set s \<union> set (h # hits)" by auto
    ultimately show ?thesis using beaten_mono [OF _ sub, of x] by (intro bexI [of _ x]) auto
  next
    case 2
    from Cons.IH [OF 2] obtain x where "x \<in> set s' \<union> set hits" "sh_id x = i" "beaten (set s' \<union> set hits) x"
      by blast
    moreover have sub: "set s' \<union> set hits \<subseteq> set s \<union> set (h # hits)" using absorb_members [OF a] by auto
    ultimately show ?thesis using beaten_mono [OF _ sub, of x] by (intro bexI [of _ x]) auto
  qed
qed simp

section \<open>The collapse without rename pairs\<close>

lemma collapse_plain:
  "collapseContradictions hits [] = filter (\<lambda>h. sh_id h \<notin> set (absorb_all [] hits)) hits"
  by (simp add: collapseContradictions_def)

lemma same_id_same_hit:
  "distinct (map sh_id hits) \<Longrightarrow> a \<in> set hits \<Longrightarrow> b \<in> set hits \<Longrightarrow> sh_id a = sh_id b \<Longrightarrow> a = b"
  by (auto simp: distinct_map dest: inj_onD)

lemma survivors_kept:
  assumes "distinct (map sh_id hits)"
  shows "set (survivors [] hits) \<subseteq> set (collapseContradictions hits [])"
proof
  fix h assume h: "h \<in> set (survivors [] hits)"
  have "distinct (map sh_id (survivors [] hits) @ absorb_all [] hits)"
    using assms absorb_all_ids [of "[]" hits] by (metis mset_append mset_eq_imp_distinct_iff mset.simps(1) list.simps(8) add_0)
  with h have "sh_id h \<notin> set (absorb_all [] hits)" by auto
  moreover have "h \<in> set hits" using survivors_members [of "[]" hits] h by auto
  ultimately show "h \<in> set (collapseContradictions hits [])" by (simp add: collapse_plain)
qed

lemma collapse_some:
  "distinct (map sh_id hits) \<Longrightarrow> hits \<noteq> [] \<Longrightarrow> collapseContradictions hits [] \<noteq> []"
  using survivors_kept [of hits] survivors_some [of hits "[]"] by auto

lemma collapse_lost:
  assumes "distinct (map sh_id hits)" and "h \<in> set hits" and "h \<notin> set (collapseContradictions hits [])"
  shows "beaten (set hits) h"
proof -
  from assms(2,3) have "sh_id h \<in> set (absorb_all [] hits)" by (simp add: collapse_plain)
  from absorb_all_lost [OF this] obtain x where "x \<in> set hits" "sh_id x = sh_id h" "beaten (set hits) x" by auto
  with same_id_same_hit [OF assms(1), of x h] assms(2) show ?thesis by simp
qed

lemma beaten_compact: "beaten pool h \<Longrightarrow> isCompactComparableClaim (sh_text h)"
  by (auto simp: beaten_def collides_def Let_def)


section \<open>Sample hits\<close>

definition sample_hit :: "jstr \<Rightarrow> jstr \<Rightarrow> real \<Rightarrow> recall_hit" where
  "sample_hit i text score =
     \<lparr>sh_id = i, sh_text = text, sh_score = score, sh_createdAt = None, sh_updatedAt = None,
      sh_active = JBool True, sh_continuitySubjectKey = None, sh_lineage = None, sh_other = [],
      rh_tags = [], rh_category = None, rh_memoryRole = None, rh_validAt = None, rh_invalidAt = None,
      rh_scope = None, rh_path = None, rh_client = None, rh_confidence = None, rh_l0 = None,
      rh_l1 = None, rh_lineageRootId = None, rh_sourceKind = None, rh_exactQaCandidate = False,
      rh_rankingExplanation = [], rh_hexisAudit = None, rh_hexisMark = None, rh_hexisBoost = None\<rparr>"

definition duplicate_hits :: "recall_hit list" where
  "duplicate_hits =
     [sample_hit ''a'' ''The server runs on port 7700. Additional details about config.'' (80 / 100),
      sample_hit ''b'' ''The server runs on port 7700. More recent information here.'' (85 / 100)]"

lemma duplicates_collapse: "map sh_id (collapseContradictions duplicate_hits []) = [''b'']"
  by code_simp


section \<open>Rename pairs\<close>

text \<open>A rename pair means to drop the weaker of two contradicting memories. A memory whose text
  matches both sides, such as the note that records the rename, is the strongest hit of both sides when
  it is alone: it is its own loser, and the recall loses it.
\<close>

theorem rename_note_is_lost:
  assumes "re_test old (sh_text h)" and "re_test new (sh_text h)"
  shows "collapseContradictions [h] [(old, new)] = []"
proof -
  have "rename_loser [h] (old, new) = [sh_id h]"
    using assms by (simp add: rename_loser_def Let_def best_of_def)
  then show ?thesis by (simp add: collapseContradictions_def)
qed

theorem rename_note_is_lost_witness:
  "collapseContradictions
      [sample_hit ''note'' ''writeWithArbitration was renamed to arbitrateWrite.'' 1]
      [(words [''writeWithArbitration''], words [''arbitrateWrite''])] = []"
proof (rule rename_note_is_lost)
  show "re_test (words [''writeWithArbitration''])
      (sh_text (sample_hit ''note'' ''writeWithArbitration was renamed to arbitrateWrite.'' 1))" by code_simp
  show "re_test (words [''arbitrateWrite''])
      (sh_text (sample_hit ''note'' ''writeWithArbitration was renamed to arbitrateWrite.'' 1))" by code_simp
qed

end
