(* ===== verification/Hexis.thy ===== *)
theory Hexis
  imports Recall_Policy Canonical_Context
begin

text \<open>
  The hexis, the active frame of a session, project or agent (\<open>src/src/hexis/runtime-hexis.ts\<close>), and
  the policy that lets it rerank an ambiguous recall (\<open>src/src/recall/policy/retrieval-controller.ts\<close>).
  The two environment switches are a parameter. A hit keeps of its score stages the hexis boost only;
  the other stages pass through unchanged.
\<close>

section \<open>State\<close>

record hexis_admissibility =
  hx_allowedScopes :: "jstr list option"
  hx_allowedMemoryRoles :: "memory_role list option"
  hx_minAuthority :: "real option"

record relevance_weights =
  hw_semantic :: real
  hw_recency :: real
  hw_usefulness :: real
  hw_authority :: real
  hw_stability :: real
  hw_hexisMatch :: real
  hw_contradictionRisk :: real

record hexis_state =
  hx_id :: jstr
  hx_scope :: context_kind
  hx_scopeKey :: jstr
  hx_label :: jstr
  hx_goals :: "jstr list"
  hx_roles :: "jstr list"
  hx_hypotheses :: "jstr list"
  hx_topicBias :: "(jstr \<times> real) list"
  hx_memoryRoleWeights :: "(memory_role \<times> real) list"
  hx_relevanceWeights :: relevance_weights
  hx_admissibility :: "hexis_admissibility option"
  hx_version :: real
  hx_updatedAt :: jstr

text \<open>A hint; a field of a partial weight record that is absent keeps the default.\<close>

record hexis_hint =
  hh_id :: "jstr option"
  hh_scope :: "context_kind option"
  hh_label :: "jstr option"
  hh_goals :: "jstr list"
  hh_roles :: "jstr list"
  hh_hypotheses :: "jstr list"
  hh_topicBias :: "(jstr \<times> real) list"
  hh_memoryRoleWeights :: "(memory_role \<times> real) list"
  hh_relevanceWeights :: "relevance_weights \<Rightarrow> relevance_weights"
  hh_admissibility :: "hexis_admissibility option"
  hh_version :: "real option"

record hexis_input =
  hi_context :: context_input
  hi_hint :: "hexis_hint option"
  hi_now :: "jstr option"

definition DEFAULT_RELEVANCE_WEIGHTS :: relevance_weights where
  "DEFAULT_RELEVANCE_WEIGHTS =
     \<lparr>hw_semantic = 1, hw_recency = 1, hw_usefulness = 1, hw_authority = 1, hw_stability = 1,
      hw_hexisMatch = 1, hw_contradictionRisk = 1\<rparr>"

definition clamp01 :: "real \<Rightarrow> real" where
  "clamp01 x = max 0 (min 1 x)"

definition hexis_token_re :: re where
  "hexis_token_re = plus (Chr (\<lambda>c. unicode_letter c \<or> unicode_number c \<or> c \<in> set ''_-''))"

definition tokenize :: "jstr \<Rightarrow> jstr list" where
  "tokenize s = filter (\<lambda>t. length t > 1) (map fst (match_all hexis_token_re (js_lower s)))"

definition unique_texts :: "jstr list \<Rightarrow> jstr list" where
  "unique_texts xs = js_uniq (filter truthy xs)"

definition defaultHexisLabel :: "context_kind \<Rightarrow> jstr" where
  "defaultHexisLabel kind =
     (case kind of Kind_session \<Rightarrow> ''session frame'' | Kind_project \<Rightarrow> ''project frame'' | Kind_agent \<Rightarrow> ''agent frame'')"

section \<open>Normalisation\<close>

text \<open>The context of a hexis input has no repository fields and no task.\<close>

definition hexis_context :: "hexis_input \<Rightarrow> context_input" where
  "hexis_context i = (hi_context i)\<lparr>ci_gitRemoteUrl := None, ci_gitRepoRoot := None, ci_taskId := None\<rparr>"

definition buildHexisScopeKey :: "js_env \<Rightarrow> hexis_input \<Rightarrow> context_kind \<Rightarrow> jstr" where
  "buildHexisScopeKey env i kind =
     (let c = hi_context i; identity = resolveCanonicalContextIdentity env (hexis_context i)
      in if kind \<noteq> id_kind identity
         then (case kind of
                 Kind_session \<Rightarrow> ci_userId c @ ''::session::'' @ or_text (ci_sessionId c) ''default''
               | Kind_project \<Rightarrow>
                   ci_userId c @ ''::project::'' @ or_text (first_of (ci_projectId c) (ci_path c)) ''default''
               | Kind_agent \<Rightarrow> ci_userId c @ ''::agent::'' @ or_text (ci_agentId c) (ci_userId c))
         else snd (buildHexisContextRef identity))"

definition resolveHexisScope :: "hexis_input \<Rightarrow> context_kind" where
  "resolveHexisScope i =
     (case Option.bind (hi_hint i) hh_scope of
        Some k \<Rightarrow> k
      | None \<Rightarrow>
          if opt_truthy (ci_sessionId (hi_context i)) then Kind_session
          else if opt_truthy (ci_projectId (hi_context i)) \<or> opt_truthy (ci_path (hi_context i)) then Kind_project
          else Kind_agent)"

definition buildHexisId :: "js_env \<Rightarrow> jstr \<Rightarrow> jstr \<Rightarrow> jstr" where
  "buildHexisId env scopeKey label =
     (let name = js_lower (js_trim label)
      in take 24 (sha256_hex env (scopeKey @ ''::'' @ (if name = [] then ''hexis'' else name))))"

text \<open>\<open>text?.trim() || fallback\<close>\<close>

definition trimmed_or :: "jstr option \<Rightarrow> jstr \<Rightarrow> jstr" where
  "trimmed_or s fallback = (case s of None \<Rightarrow> fallback | Some t \<Rightarrow> if js_trim t = [] then fallback else js_trim t)"

definition normalizeHexis :: "js_env \<Rightarrow> jstr \<Rightarrow> hexis_input \<Rightarrow> hexis_state" where
  "normalizeHexis env nowIso i =
     (let scope = resolveHexisScope i;
          scopeKey = buildHexisScopeKey env i scope;
          label = trimmed_or (Option.bind (hi_hint i) hh_label) (defaultHexisLabel scope);
          of_hint = (\<lambda>f. case hi_hint i of None \<Rightarrow> [] | Some h \<Rightarrow> unique_texts (f h))
      in \<lparr>hx_id = trimmed_or (Option.bind (hi_hint i) hh_id) (buildHexisId env scopeKey label),
          hx_scope = scope, hx_scopeKey = scopeKey, hx_label = label,
          hx_goals = of_hint hh_goals, hx_roles = of_hint hh_roles, hx_hypotheses = of_hint hh_hypotheses,
          hx_topicBias = (case hi_hint i of None \<Rightarrow> [] | Some h \<Rightarrow> hh_topicBias h),
          hx_memoryRoleWeights = (case hi_hint i of None \<Rightarrow> [] | Some h \<Rightarrow> hh_memoryRoleWeights h),
          hx_relevanceWeights = (case hi_hint i of None \<Rightarrow> DEFAULT_RELEVANCE_WEIGHTS
            | Some h \<Rightarrow> hh_relevanceWeights h DEFAULT_RELEVANCE_WEIGHTS),
          hx_admissibility = Option.bind (hi_hint i) hh_admissibility,
          hx_version = (case Option.bind (hi_hint i) hh_version of None \<Rightarrow> 1 | Some v \<Rightarrow> v),
          hx_updatedAt = or_text (hi_now i) nowIso\<rparr>)"

definition hasHexisSignal :: "hexis_state option \<Rightarrow> bool" where
  "hasHexisSignal hexis =
     (case hexis of None \<Rightarrow> False
      | Some h \<Rightarrow> hx_goals h \<noteq> [] \<or> hx_roles h \<noteq> [] \<or> hx_hypotheses h \<noteq> []
          \<or> hx_topicBias h \<noteq> [] \<or> hx_memoryRoleWeights h \<noteq> [])"

section \<open>Fit\<close>

definition semantic_fit :: "jstr list \<Rightarrow> jstr list \<Rightarrow> real" where
  "semantic_fit candidateTokens hexisTokens =
     (if hexisTokens = [] then 0
      else real (length (filter (\<lambda>t. t \<in> set candidateTokens) hexisTokens)) / real (length hexisTokens))"

definition topic_matches :: "recall_hit \<Rightarrow> jstr list \<Rightarrow> (jstr \<times> real) list \<Rightarrow> (jstr \<times> real) list" where
  "topic_matches hit candidateTokens bias =
     filter (\<lambda>(topic, _). js_lower topic \<in> set candidateTokens \<or> js_includes (js_lower (sh_text hit)) (js_lower topic)) bias"

definition scoreHexisFit :: "recall_hit \<Rightarrow> hexis_state option \<Rightarrow> real \<times> ranking_reason list" where
  "scoreHexisFit hit hexis =
     (case hexis of
        None \<Rightarrow> (0, [])
      | Some h \<Rightarrow>
          (let limits = hx_admissibility h;
               scopeBlocked = (case (Option.bind limits hx_allowedScopes, rh_scope hit) of
                   (Some allowed, Some s) \<Rightarrow> s \<noteq> [] \<and> s \<notin> set allowed | _ \<Rightarrow> False);
               roleBlocked = (case (Option.bind limits hx_allowedMemoryRoles, rh_memoryRole hit) of
                   (Some allowed, Some r) \<Rightarrow> r \<notin> set allowed | _ \<Rightarrow> False);
               authorityBlocked = (case Option.bind limits hx_minAuthority of
                   Some least \<Rightarrow> (case rh_confidence hit of None \<Rightarrow> 0 | Some c \<Rightarrow> c) < least | None \<Rightarrow> False)
           in if scopeBlocked then (0, [Hexis_scope_blocked])
              else if roleBlocked then (0, [Hexis_role_blocked])
              else if authorityBlocked then (0, [Hexis_authority_blocked])
              else
               (let candidateTokens = tokenize (js_join '' '' ([sh_text hit] @ rh_tags hit
                      @ [case rh_memoryRole hit of None \<Rightarrow> [] | Some r \<Rightarrow> role_name r,
                         or_text (rh_path hit) [], or_text (rh_category hit) []]));
                    hexisTokens = js_uniq (tokenize (js_join '' '' ([hx_label h] @ hx_goals h @ hx_roles h @ hx_hypotheses h)));
                    semanticFit = semantic_fit candidateTokens hexisTokens;
                    topics = topic_matches hit candidateTokens (hx_topicBias h);
                    topicFit = clamp01 (sum_list (map (\<lambda>(_, w). max 0 w) topics)
                      / real (max (length (hx_topicBias h)) 1));
                    roleFit = (case rh_memoryRole hit of None \<Rightarrow> 0
                      | Some r \<Rightarrow> clamp01 (case map_of (hx_memoryRoleWeights h) r of None \<Rightarrow> 0 | Some w \<Rightarrow> w))
                in (clamp01 (semanticFit * (6 / 10) + topicFit * (25 / 100) + roleFit * (15 / 100)),
                    (if semanticFit > 0 then [Hexis_semantic semanticFit] else [])
                    @ map (\<lambda>(topic, _). Hexis_topic (js_lower topic)) topics
                    @ (case rh_memoryRole hit of Some r \<Rightarrow> if roleFit > 0 then [Hexis_role r] else [] | None \<Rightarrow> [])))))"

record hexis_switches =
  sw_disableCalib :: bool
  sw_disableGate :: bool

definition calibHexisFit :: "hexis_switches \<Rightarrow> real \<Rightarrow> real" where
  "calibHexisFit sw fit =
     (if sw_disableCalib sw then clamp01 fit else 1 / (1 + exp (- 6 * (clamp01 fit - 1 / 2))))"

section \<open>The gate and the window\<close>

definition score_at :: "recall_hit list \<Rightarrow> nat \<Rightarrow> real" where
  "score_at hits i = sh_score (hits ! i)"

definition computeAmbiguityGate :: "hexis_switches \<Rightarrow> recall_hit list \<Rightarrow> nat \<Rightarrow> real \<Rightarrow> real" where
  "computeAmbiguityGate sw hits W epsilon =
     (if sw_disableGate sw then 1
      else if hits = [] then 0
      else if length hits < W + 1 then 1
      else (let ordered = sort_by_score hits;
                gap = max 0 (score_at ordered (W - 1) - score_at ordered W)
            in if epsilon \<le> 0 then (if gap \<le> 0 then 1 else 0)
               else if gap \<le> epsilon then 1
               else if gap \<ge> 4 * epsilon then 0
               else clamp01 ((4 * epsilon - gap) / (3 * epsilon))))"

definition resolveHexisReorderWindow :: "recall_hit list \<Rightarrow> nat \<Rightarrow> real \<Rightarrow> jstr list" where
  "resolveHexisReorderWindow hits maxRankWindow scoreEpsilon =
     (let ordered = sort_by_score hits; W = max 1 maxRankWindow
      in if ordered = [] then []
         else (let cutoffScore = score_at ordered (min (length ordered) W - 1)
               in map (\<lambda>(hit, _). sh_id hit)
                    (filter (\<lambda>(hit, i). i < W \<or> sh_score hit \<ge> cutoffScore - max 0 scoreEpsilon)
                      (zip ordered [0..<length ordered]))))"

section \<open>Reranking\<close>

text \<open>The rank of an identifier: that of its last hit.\<close>

definition pool_rank :: "recall_hit list \<Rightarrow> jstr \<Rightarrow> nat" where
  "pool_rank ordered i =
     (case map_of (rev (zip (map sh_id ordered) [1..<Suc (length ordered)])) i of None \<Rightarrow> 0 | Some n \<Rightarrow> n)"

definition with_audit :: "recall_hit \<Rightarrow> real \<Rightarrow> nat \<Rightarrow> real \<Rightarrow> real \<Rightarrow> nat \<Rightarrow> real \<Rightarrow> recall_hit" where
  "with_audit hit post rank gap gate mode lambda =
     hit\<lparr>rh_hexisAudit := Some \<lparr>ha_preHexisScore = sh_score hit, ha_postHexisScore = post, ha_poolRank = rank,
       ha_boundaryGap = gap, ha_gateValue = gate, ha_hexisMode = mode, ha_laneLambda = lambda\<rparr>\<rparr>"

text \<open>A lane without a hexis weight: the scalars are zero and the stage is removed.\<close>

definition bypass_hit :: "recall_hit list \<Rightarrow> recall_hit \<Rightarrow> recall_hit" where
  "bypass_hit ordered hit =
     (with_audit hit (sh_score hit) (pool_rank ordered (sh_id hit)) 0 0 1 0)\<lparr>rh_hexisBoost := None\<rparr>"

definition hexis_mode :: "hexis_switches \<Rightarrow> real \<Rightarrow> nat" where
  "hexis_mode sw gate =
     (if gate \<le> 0 \<and> \<not> sw_disableGate sw then 2
      else if sw_disableGate sw then 3
      else if sw_disableCalib sw then 4
      else 0)"

definition hexis_boost :: "hexis_switches \<Rightarrow> hexis_state \<Rightarrow> real \<Rightarrow> real \<Rightarrow> real \<Rightarrow> real" where
  "hexis_boost sw h gate lambda fit =
     (if hexis_mode sw gate \<in> {0, 3, 4}
      then gate * lambda * calibHexisFit sw fit * clamp01 (hw_hexisMatch (hx_relevanceWeights h)) * (25 / 100)
      else 0)"

text \<open>The hit inside the window, and the one outside it.\<close>

definition boosted_hit ::
  "hexis_switches \<Rightarrow> hexis_state \<Rightarrow> real \<Rightarrow> real \<Rightarrow> nat \<Rightarrow> real \<Rightarrow> recall_hit \<Rightarrow> recall_hit" where
  "boosted_hit sw h gate gap rank lambda hit =
     (let (fit, explanation) = scoreHexisFit hit (Some h);
          mode = hexis_mode sw gate;
          boost = hexis_boost sw h gate lambda fit;
          audited = with_audit hit (sh_score hit + boost) rank gap (if sw_disableGate sw then 1 else gate) mode lambda
      in audited\<lparr>sh_score := sh_score hit + boost,
           rh_hexisMark := Some \<lparr>hm_id = hx_id h, hm_version = hx_version h, hm_fit = fit\<rparr>,
           rh_rankingExplanation := explanation,
           rh_hexisBoost := (if mode \<in> {0, 3, 4} then Some boost else rh_hexisBoost hit)\<rparr>)"

definition outside_hit :: "real \<Rightarrow> real \<Rightarrow> nat \<Rightarrow> real \<Rightarrow> recall_hit \<Rightarrow> recall_hit" where
  "outside_hit gate gap rank lambda hit =
     with_audit hit (sh_score hit) rank gap gate (if gate \<le> 0 then 2 else 0) lambda"

definition applyHexisToHits ::
  "hexis_switches \<Rightarrow> recall_hit list \<Rightarrow> hexis_state option \<Rightarrow> nat \<Rightarrow> real \<Rightarrow> real \<Rightarrow> real \<Rightarrow> recall_hit list" where
  "applyHexisToHits sw hits hexis maxRankWindow scoreEpsilon lambda gateEpsilon =
     (let W = max 1 maxRankWindow;
          ordered = sort_by_score hits;
          rank = (\<lambda>hit. pool_rank ordered (sh_id hit));
          boundaryGap = (if length ordered \<ge> W + 1 then max 0 (score_at ordered (W - 1) - score_at ordered W) else 0)
      in if lambda = 0 then map (bypass_hit ordered) hits
         else (case hexis of
             Some h \<Rightarrow>
               if \<not> hasHexisSignal hexis
               then map (\<lambda>hit. with_audit hit (sh_score hit) (rank hit) 0 0 5 lambda) hits
               else (let gate = computeAmbiguityGate sw hits W (max 0 gateEpsilon);
                         window = resolveHexisReorderWindow hits maxRankWindow scoreEpsilon
                     in map (\<lambda>hit. if sh_id hit \<in> set window
                          then boosted_hit sw h gate boundaryGap (rank hit) lambda hit
                          else outside_hit gate boundaryGap (rank hit) lambda hit) hits)
           | None \<Rightarrow> map (\<lambda>hit. with_audit hit (sh_score hit) (rank hit) 0 0 5 lambda) hits))"

section \<open>The policy gate\<close>

datatype gate_reason =
  Lane_disabled | Insufficient_candidates | Top_gap_clear | Ambiguous_boundary | Bypass_lane_lambda

record gate_decision =
  gd_enabled :: bool
  gd_reason :: gate_reason
  gd_reorderWindow :: nat
  gd_ambiguityGap :: real
  gd_admissibleIds :: "jstr list"

definition ambiguity_gap :: "recall_hit list \<Rightarrow> real" where
  "ambiguity_gap ordered =
     (case ordered of [] \<Rightarrow> 0 | [a] \<Rightarrow> sh_score a | a # b # _ \<Rightarrow> sh_score a - sh_score b)"

definition evaluateHexisGate :: "recall_hit list \<Rightarrow> hexis_lane_policy \<Rightarrow> gate_decision" where
  "evaluateHexisGate hits policy =
     (let ordered = sort_by_score hits;
          gap = ambiguity_gap ordered;
          admissibleIds = (if hp_enabled policy
            then resolveHexisReorderWindow ordered (hp_reorderWindow policy) (hp_scoreEpsilon policy) else [])
      in if \<not> hp_enabled policy
         then \<lparr>gd_enabled = False, gd_reason = Lane_disabled, gd_reorderWindow = 0, gd_ambiguityGap = gap,
               gd_admissibleIds = admissibleIds\<rparr>
         else if length ordered < 2
         then \<lparr>gd_enabled = False, gd_reason = Insufficient_candidates, gd_reorderWindow = hp_reorderWindow policy,
               gd_ambiguityGap = gap, gd_admissibleIds = admissibleIds\<rparr>
         else if gap > hp_ambiguityThreshold policy
         then \<lparr>gd_enabled = False, gd_reason = Top_gap_clear, gd_reorderWindow = hp_reorderWindow policy,
               gd_ambiguityGap = gap, gd_admissibleIds = admissibleIds\<rparr>
         else \<lparr>gd_enabled = True, gd_reason = Ambiguous_boundary, gd_reorderWindow = hp_reorderWindow policy,
               gd_ambiguityGap = gap, gd_admissibleIds = admissibleIds\<rparr>)"

definition applyHexisByPolicy ::
  "hexis_switches \<Rightarrow> recall_hit list \<Rightarrow> hexis_state option \<Rightarrow> hexis_lane_policy \<Rightarrow> recall_hit list \<times> gate_decision" where
  "applyHexisByPolicy sw hits hexis policy =
     (if hp_hexisLambda policy = 0
      then (map (bypass_hit (sort_by_score hits)) hits,
            \<lparr>gd_enabled = False, gd_reason = Bypass_lane_lambda, gd_reorderWindow = hp_reorderWindow policy,
             gd_ambiguityGap = ambiguity_gap (sort_by_score hits), gd_admissibleIds = []\<rparr>)
      else (let gate = evaluateHexisGate hits policy
            in if hexis = None \<or> \<not> gd_enabled gate then (hits, gate)
               else (sort_by_score (applyHexisToHits sw (sort_by_score hits) hexis (hp_reorderWindow policy)
                       (hp_scoreEpsilon policy) (hp_hexisLambda policy) (1 / 1000)), gate)))"

end
