(* ===== verification/Hexis_Cache.thy ===== *)
theory Hexis_Cache
  imports Hexis
begin

text \<open>
  The cache of resolved hexis states (\<open>src/src/hexis/active-hexis-cache.ts\<close>): entries with a lifetime,
  the least recently used one evicted first, and at most one resolver running per key. A call is split
  where it awaits: the request that hits the cache, joins a running resolver or starts one, and the end of a resolver.
  The log of finished resolvers is a ghost.

  The key is the SHA-256 digest of the stable JSON text of the fields, a parameter; the resolver is a
  parameter too, it may return anything or fail. A stored state is copied as JSON, which keeps it.
\<close>

section \<open>Keys\<close>

record cache_input =
  hci_userId :: jstr
  hci_sessionId :: "jstr option"
  hci_path :: "jstr option"
  hci_projectId :: "jstr option"
  hci_agentId :: "jstr option"
  hci_hint :: "hexis_hint option"
  hci_relevanceWeightsGiven :: bool
  hci_allowHintRichCacheRead :: bool

definition normalizeScopeField :: "jstr option \<Rightarrow> jstr option" where
  "normalizeScopeField v = (case v of None \<Rightarrow> None | Some t \<Rightarrow> if js_trim t = [] then None else Some (js_trim t))"

text \<open>The fields of the key; the last one is the fingerprint of the hint.\<close>

type_synonym key_fields = "jstr \<times> jstr option \<times> jstr option \<times> jstr option \<times> jstr option \<times> jstr"

record key_digests =
  kd_hint :: "hexis_hint option \<Rightarrow> jstr"
  kd_key :: "key_fields \<Rightarrow> jstr"

definition key_fields_of :: "key_digests \<Rightarrow> cache_input \<Rightarrow> key_fields" where
  "key_fields_of d i =
     (hci_userId i, normalizeScopeField (hci_sessionId i), normalizeScopeField (hci_path i),
      normalizeScopeField (hci_projectId i), normalizeScopeField (hci_agentId i), kd_hint d (hci_hint i))"

definition buildActiveHexisCacheKey :: "key_digests \<Rightarrow> cache_input \<Rightarrow> jstr" where
  "buildActiveHexisCacheKey d i = kd_key d (key_fields_of d i)"

definition hasAdditionalHexisHintSignal :: "cache_input \<Rightarrow> bool" where
  "hasAdditionalHexisHintSignal i =
     (case hci_hint i of None \<Rightarrow> False
      | Some h \<Rightarrow> hh_scope h \<noteq> None \<or> opt_truthy (hh_label h) \<or> hh_goals h \<noteq> [] \<or> hh_roles h \<noteq> []
          \<or> hh_hypotheses h \<noteq> [] \<or> hh_topicBias h \<noteq> [] \<or> hh_memoryRoleWeights h \<noteq> []
          \<or> hci_relevanceWeightsGiven i \<or> hh_admissibility h \<noteq> None \<or> hh_version h \<noteq> None)"

section \<open>State and operations\<close>

definition CACHE_TTL_MS :: int where
  "CACHE_TTL_MS = 5000"

definition CACHE_MAX_ENTRIES :: nat where
  "CACHE_MAX_ENTRIES = 256"

record 'v cache_entry =
  ce_expiresAt :: int
  ce_value :: 'v

text \<open>The entries in the order of the map, the running resolvers, and the finished ones.\<close>

record 'v cache_state =
  hc_cache :: "(jstr \<times> 'v cache_entry) list"
  hc_inFlight :: "(jstr \<times> key_fields) list"
  hc_log :: "(key_fields \<times> 'v \<times> int) list"

definition drop_key :: "jstr \<Rightarrow> (jstr \<times> 'a) list \<Rightarrow> (jstr \<times> 'a) list" where
  "drop_key k = filter (\<lambda>(k', _). k' \<noteq> k)"

definition touchLru :: "jstr \<Rightarrow> 'v cache_entry \<Rightarrow> (jstr \<times> 'v cache_entry) list \<Rightarrow> (jstr \<times> 'v cache_entry) list" where
  "touchLru k e cache = drop_key k cache @ [(k, e)]"

definition pruneExpired :: "int \<Rightarrow> (jstr \<times> 'v cache_entry) list \<Rightarrow> (jstr \<times> 'v cache_entry) list" where
  "pruneExpired now = filter (\<lambda>(_, e). \<not> ce_expiresAt e \<le> now)"

text \<open>\<open>Map.prototype.set\<close>: an existing key keeps its place.\<close>

fun map_put :: "jstr \<Rightarrow> 'a \<Rightarrow> (jstr \<times> 'a) list \<Rightarrow> (jstr \<times> 'a) list" where
  "map_put k v [] = [(k, v)]"
| "map_put k v ((k', w) # m) = (if k' = k then (k, v) # m else (k', w) # map_put k v m)"

definition enforceMaxEntries :: "(jstr \<times> 'v cache_entry) list \<Rightarrow> (jstr \<times> 'v cache_entry) list" where
  "enforceMaxEntries cache = drop (length cache - CACHE_MAX_ENTRIES) cache"

datatype 'v request_outcome = Served 'v | Joined | Started

definition request_hexis ::
  "key_digests \<Rightarrow> int \<Rightarrow> cache_input \<Rightarrow> 'v cache_state \<Rightarrow> 'v request_outcome \<times> 'v cache_state" where
  "request_hexis d now i s =
     (let pruned = pruneExpired now (hc_cache s);
          key = buildActiveHexisCacheKey d i;
          bypassRead = (hasAdditionalHexisHintSignal i \<and> \<not> hci_allowHintRichCacheRead i);
          continue = (if map_of (hc_inFlight s) key \<noteq> None then (Joined, s\<lparr>hc_cache := pruned\<rparr>)
            else (Started, s\<lparr>hc_cache := pruned, hc_inFlight := map_put key (key_fields_of d i) (hc_inFlight s)\<rparr>))
      in if bypassRead then continue
         else (case map_of pruned key of
             Some e \<Rightarrow> if ce_expiresAt e > now
               then (Served (ce_value e), s\<lparr>hc_cache := touchLru key e pruned\<rparr>) else continue
           | None \<Rightarrow> continue))"

text \<open>The end of the resolver of a key: a failure stores nothing.\<close>

definition finish_resolver :: "int \<Rightarrow> jstr \<Rightarrow> key_fields \<Rightarrow> 'v option \<Rightarrow> 'v cache_state \<Rightarrow> 'v cache_state" where
  "finish_resolver now key kf result s =
     (case result of
        None \<Rightarrow> s\<lparr>hc_inFlight := drop_key key (hc_inFlight s)\<rparr>
      | Some v \<Rightarrow>
          s\<lparr>hc_cache := enforceMaxEntries
              (map_put key \<lparr>ce_expiresAt = now + CACHE_TTL_MS, ce_value = v\<rparr> (hc_cache s)),
            hc_inFlight := drop_key key (hc_inFlight s),
            hc_log := (kf, v, now) # hc_log s\<rparr>)"

definition empty_cache :: "'v cache_state" where
  "empty_cache = \<lparr>hc_cache = [], hc_inFlight = [], hc_log = []\<rparr>"

inductive cache_step :: "key_digests \<Rightarrow> 'v cache_state \<Rightarrow> 'v cache_state \<Rightarrow> bool" for d where
  Request: "cache_step d s (snd (request_hexis d now i s))"
| Finish: "(key, kf) \<in> set (hc_inFlight s) \<Longrightarrow> cache_step d s (finish_resolver now key kf result s)"

inductive cache_reachable :: "key_digests \<Rightarrow> 'v cache_state \<Rightarrow> bool" for d where
  Empty: "cache_reachable d empty_cache"
| Step: "cache_reachable d s \<Longrightarrow> cache_step d s s' \<Longrightarrow> cache_reachable d s'"

section \<open>The invariant\<close>

definition cache_ok :: "key_digests \<Rightarrow> 'v cache_state \<Rightarrow> bool" where
  "cache_ok d s =
     (distinct (map fst (hc_cache s)) \<and> length (hc_cache s) \<le> CACHE_MAX_ENTRIES
      \<and> distinct (map fst (hc_inFlight s))
      \<and> (\<forall>(k, f) \<in> set (hc_inFlight s). kd_key d f = k)
      \<and> (\<forall>(k, e) \<in> set (hc_cache s). \<exists>f t. (f, ce_value e, t) \<in> set (hc_log s) \<and> kd_key d f = k
           \<and> ce_expiresAt e = t + CACHE_TTL_MS))"

lemma set_map_put: "set (map_put k v m) \<subseteq> insert (k, v) (set m)"
  by (induction m) (auto split: if_splits)

lemma keys_map_put: "map fst (map_put k v m) = (if k \<in> fst ` set m then map fst m else map fst m @ [k])"
  by (induction m) force+

lemma drop_key_keys: "distinct (map fst m) \<Longrightarrow> distinct (map fst (drop_key k m))"
  by (induction m) (auto simp: drop_key_def)

lemma drop_key_set: "set (drop_key k m) \<subseteq> set m"
  by (auto simp: drop_key_def)

lemma drop_key_absent: "k \<notin> fst ` set (drop_key k m)"
  by (auto simp: drop_key_def)

lemma filter_keys: "distinct (map fst m) \<Longrightarrow> distinct (map fst (filter P m))"
  by (induction m) auto

lemma prune_ok: "cache_ok d s \<Longrightarrow> cache_ok d (s\<lparr>hc_cache := pruneExpired now (hc_cache s)\<rparr>)"
  unfolding cache_ok_def pruneExpired_def
  by (auto simp: filter_keys intro: le_trans [OF length_filter_le])

lemma touch_ok:
  assumes "cache_ok d s" and "map_of (hc_cache s) k = Some e"
  shows "cache_ok d (s\<lparr>hc_cache := touchLru k e (hc_cache s)\<rparr>)"
proof -
  from assms have k: "(k, e) \<in> set (hc_cache s)" and dist: "distinct (map fst (hc_cache s))"
    by (auto simp: cache_ok_def dest: map_of_SomeD)
  have "length (drop_key k (hc_cache s)) < length (hc_cache s)"
    unfolding drop_key_def using k by (intro length_filter_less) auto
  with assms(1) have "length (touchLru k e (hc_cache s)) \<le> CACHE_MAX_ENTRIES"
    by (simp add: touchLru_def cache_ok_def)
  moreover have "distinct (map fst (touchLru k e (hc_cache s)))"
    using drop_key_keys [OF dist, of k] drop_key_absent [of k "hc_cache s"] by (simp add: touchLru_def)
  moreover have "set (touchLru k e (hc_cache s)) \<subseteq> set (hc_cache s)"
    using drop_key_set [of k] k by (auto simp: touchLru_def)
  ultimately show ?thesis using assms(1) unfolding cache_ok_def by auto
qed

lemma start_ok:
  assumes "cache_ok d s" and "kd_key d f = k" and "map_of (hc_inFlight s) k = None"
  shows "cache_ok d (s\<lparr>hc_inFlight := map_put k f (hc_inFlight s)\<rparr>)"
proof -
  from assms(3) have "k \<notin> fst ` set (hc_inFlight s)" by (simp add: map_of_eq_None_iff)
  with assms set_map_put [of k f "hc_inFlight s"] show ?thesis
    by (auto simp: cache_ok_def keys_map_put)
qed

lemma finish_ok:
  assumes "cache_ok d s" and "(key, kf) \<in> set (hc_inFlight s)"
  shows "cache_ok d (finish_resolver now key kf result s)"
proof (cases result)
  case None
  with assms drop_key_set [of key "hc_inFlight s"] show ?thesis
    by (auto simp: finish_resolver_def cache_ok_def drop_key_keys)
next
  case (Some v)
  let ?new = "\<lparr>ce_expiresAt = now + CACHE_TTL_MS, ce_value = v\<rparr>"
  let ?put = "map_put key ?new (hc_cache s)"
  have key: "kd_key d kf = key" using assms by (auto simp: cache_ok_def)
  have "distinct (map fst ?put)" using assms(1) by (auto simp: cache_ok_def keys_map_put)
  then have "distinct (map fst (enforceMaxEntries ?put))"
    unfolding enforceMaxEntries_def drop_map [symmetric] by (rule distinct_drop)
  moreover have "length (enforceMaxEntries ?put) \<le> CACHE_MAX_ENTRIES" by (simp add: enforceMaxEntries_def)
  moreover have "set (enforceMaxEntries ?put) \<subseteq> insert (key, ?new) (set (hc_cache s))"
    using set_drop_subset [of _ ?put] set_map_put [of key ?new] by (auto simp: enforceMaxEntries_def)
  then have "\<exists>f t. (f, ce_value e, t) \<in> set ((kf, v, now) # hc_log s) \<and> kd_key d f = k \<and> ce_expiresAt e = t + CACHE_TTL_MS"
    if "(k, e) \<in> set (enforceMaxEntries ?put)" for k e
  proof -
    from that \<open>set (enforceMaxEntries ?put) \<subseteq> _\<close> consider "k = key" "e = ?new" | "(k, e) \<in> set (hc_cache s)" by auto
    then show ?thesis
    proof cases
      case 1
      with key show ?thesis by (intro exI [of _ kf] exI [of _ now]) simp
    next
      case 2
      with assms(1) obtain f t where "(f, ce_value e, t) \<in> set (hc_log s)" "kd_key d f = k" "ce_expiresAt e = t + CACHE_TTL_MS"
        unfolding cache_ok_def by blast
      then show ?thesis by (intro exI [of _ f] exI [of _ t]) simp
    qed
  qed
  moreover have "distinct (map fst (drop_key key (hc_inFlight s)))"
    and "\<forall>(k, f) \<in> set (drop_key key (hc_inFlight s)). kd_key d f = k"
    using assms(1) drop_key_set [of key "hc_inFlight s"] by (auto simp: cache_ok_def drop_key_keys)
  ultimately show ?thesis
    unfolding cache_ok_def by (simp add: finish_resolver_def Some split_beta)
qed

lemma request_ok:
  assumes "cache_ok d s"
  shows "cache_ok d (snd (request_hexis d now i s))"
proof -
  let ?s = "s\<lparr>hc_cache := pruneExpired now (hc_cache s)\<rparr>" and ?k = "buildActiveHexisCacheKey d i"
  have pruned: "cache_ok d ?s" by (rule prune_ok [OF assms])
  have "cache_ok d (?s\<lparr>hc_inFlight := map_put ?k (key_fields_of d i) (hc_inFlight s)\<rparr>)"
    if "map_of (hc_inFlight s) ?k = None"
    using start_ok [OF pruned, of "key_fields_of d i" ?k] that by (simp add: buildActiveHexisCacheKey_def)
  moreover have "cache_ok d (s\<lparr>hc_cache := touchLru ?k e (pruneExpired now (hc_cache s))\<rparr>)"
    if "map_of (pruneExpired now (hc_cache s)) ?k = Some e" for e
    using touch_ok [OF pruned, of ?k e] that by simp
  ultimately show ?thesis
    using pruned
    by (auto simp: request_hexis_def Let_def simp del: not_None_eq split_paired_All split: option.splits)
qed

lemma reachable_cache_ok: "cache_reachable d s \<Longrightarrow> cache_ok d s"
proof (induction rule: cache_reachable.induct)
  case Empty
  show ?case by (simp add: cache_ok_def empty_cache_def)
next
  case (Step s s')
  from Step(2) show ?case
    by (cases rule: cache_step.cases) (use Step.IH request_ok finish_ok in blast)+
qed

section \<open>What the cache serves\<close>

lemma served_entry:
  assumes "cache_ok d s" and "fst (request_hexis d now i s) = Served v"
  shows "\<exists>f t. (f, v, t) \<in> set (hc_log s) \<and> kd_key d f = kd_key d (key_fields_of d i) \<and> now < t + CACHE_TTL_MS"
proof -
  let ?k = "buildActiveHexisCacheKey d i"
  from assms(2) obtain e where e: "map_of (pruneExpired now (hc_cache s)) ?k = Some e" "ce_value e = v" "now < ce_expiresAt e"
    by (auto simp: request_hexis_def Let_def split: if_splits option.splits)
  have "(?k, e) \<in> set (hc_cache s)" using map_of_SomeD [OF e(1)] by (auto simp: pruneExpired_def)
  with assms(1) obtain f t where "(f, ce_value e, t) \<in> set (hc_log s)" "kd_key d f = ?k" "ce_expiresAt e = t + CACHE_TTL_MS"
    by (auto simp: cache_ok_def)
  with e show ?thesis by (intro exI [of _ f] exI [of _ t]) (simp add: buildActiveHexisCacheKey_def)
qed


text \<open>A digest without collisions: the fields written one after the other, each escaped.\<close>

definition quoted :: "jstr \<Rightarrow> jstr" where
  "quoted s = concat (map (\<lambda>c. [CHR ''.'', c]) s) @ '',''"

definition quoted_option :: "jstr option \<Rightarrow> jstr" where
  "quoted_option v = (case v of None \<Rightarrow> ''n'' | Some s \<Rightarrow> CHR ''s'' # quoted s)"

definition plain_key :: "key_fields \<Rightarrow> jstr" where
  "plain_key f = (case f of (u, s, p, j, a, h) \<Rightarrow>
     quoted u @ quoted_option s @ quoted_option p @ quoted_option j @ quoted_option a @ quoted h)"

lemma quoted_inj: "quoted a @ x = quoted b @ y \<Longrightarrow> a = b \<and> x = y"
proof (induction a arbitrary: b)
  case Nil
  then show ?case by (cases b) (auto simp: quoted_def)
next
  case (Cons c a)
  then show ?case by (cases b) (auto simp: quoted_def)
qed

lemma quoted_option_inj: "quoted_option a @ x = quoted_option b @ y \<Longrightarrow> a = b \<and> x = y"
  by (cases a; cases b) (auto simp: quoted_option_def dest: quoted_inj)

lemma plain_key_inj: "inj plain_key"
proof (rule injI)
  fix f g assume "plain_key f = plain_key g"
  then show "f = g"
    by (cases f; cases g) (auto simp: plain_key_def dest!: quoted_inj quoted_option_inj
        quoted_inj [where x = "[]" and y = "[]", simplified])
qed

definition plain_digests :: key_digests where
  "plain_digests = \<lparr>kd_hint = (\<lambda>_. ''-''), kd_key = plain_key\<rparr>"

definition ada_input :: cache_input where
  "ada_input = \<lparr>hci_userId = ''ada'', hci_sessionId = Some ''s1'', hci_path = None, hci_projectId = None,
     hci_agentId = None, hci_hint = None, hci_relevanceWeightsGiven = False, hci_allowHintRichCacheRead = False\<rparr>"

definition warm_cache :: "nat cache_state" where
  "warm_cache =
     (let s = snd (request_hexis plain_digests 0 ada_input empty_cache)
      in finish_resolver 10 (buildActiveHexisCacheKey plain_digests ada_input) (key_fields_of plain_digests ada_input) (Some 7) s)"

lemma warm_reachable: "cache_reachable plain_digests warm_cache"
proof -
  let ?s = "snd (request_hexis plain_digests 0 ada_input empty_cache)"
  have "cache_reachable plain_digests ?s" by (rule cache_reachable.Step [OF cache_reachable.Empty cache_step.Request])
  moreover have "(buildActiveHexisCacheKey plain_digests ada_input, key_fields_of plain_digests ada_input) \<in> set (hc_inFlight ?s)"
    by code_simp
  ultimately show ?thesis unfolding warm_cache_def Let_def by (rule cache_reachable.Step [OF _ cache_step.Finish])
qed


end
