(* ===== verification/Hexis_Laws.thy ===== *)
theory Hexis_Laws
  imports Hexis
begin

text \<open>
  What the hexis may do to a recall: it adds at most a quarter of its lane's weight to the score of a hit,
  it takes nothing from any hit, and it neither adds nor removes hits.
\<close>

section \<open>Bounds\<close>

lemma clamp01_bounds: "0 \<le> clamp01 x" "clamp01 x \<le> 1"
  by (simp_all add: clamp01_def)

lemma calib_bounds: "0 \<le> calibHexisFit sw fit" "calibHexisFit sw fit \<le> 1"
proof -
  have "0 < 1 + exp (- 6 * (clamp01 fit - 1 / 2))" by (simp add: add_pos_pos)
  then show "0 \<le> calibHexisFit sw fit" "calibHexisFit sw fit \<le> 1"
    by (simp_all add: calibHexisFit_def clamp01_bounds)
qed

lemma gate_bounds: "0 \<le> computeAmbiguityGate sw hits W e" "computeAmbiguityGate sw hits W e \<le> 1"
  by (simp_all add: computeAmbiguityGate_def Let_def clamp01_bounds)

lemma boost_bounds:
  assumes "0 \<le> gate" and "gate \<le> 1" and "0 \<le> lambda"
  shows "0 \<le> hexis_boost sw h gate lambda fit" and "hexis_boost sw h gate lambda fit \<le> lambda / 4"
proof -
  let ?c = "calibHexisFit sw fit" and ?m = "clamp01 (hw_hexisMatch (hx_relevanceWeights h))"
  have "0 \<le> gate * lambda" and "gate * lambda \<le> lambda"
    using assms by (auto intro: mult_left_le_one_le)
  moreover have "0 \<le> ?c * ?m" and "?c * ?m \<le> 1"
    using calib_bounds [of sw fit] clamp01_bounds by (auto intro: mult_le_one)
  ultimately have "0 \<le> (gate * lambda) * (?c * ?m)" and "(gate * lambda) * (?c * ?m) \<le> lambda"
    using assms(3) by (auto intro: mult_right_le_one_le order_trans)
  then show "0 \<le> hexis_boost sw h gate lambda fit" and "hexis_boost sw h gate lambda fit \<le> lambda / 4"
    using assms(3) by (auto simp: hexis_boost_def mult.assoc)
qed

section \<open>One hit\<close>

text \<open>The hit without what the hexis writes.\<close>

definition bare :: "recall_hit \<Rightarrow> recall_hit" where
  "bare h = h\<lparr>sh_score := 0, rh_hexisAudit := None, rh_hexisMark := None, rh_hexisBoost := None,
     rh_rankingExplanation := []\<rparr>"

definition lifted :: "real \<Rightarrow> (recall_hit \<Rightarrow> recall_hit) \<Rightarrow> bool" where
  "lifted most f = (\<forall>h. bare (f h) = bare h \<and> sh_score h \<le> sh_score (f h) \<and> sh_score (f h) \<le> sh_score h + most)"

lemma lifted_id: "0 \<le> most \<Longrightarrow> lifted most (\<lambda>h. h)"
  by (simp add: lifted_def)

lemma with_audit_simps [simp]:
  "bare (with_audit h post rank gap gate mode lambda) = bare h"
  "sh_score (with_audit h post rank gap gate mode lambda) = sh_score h"
  by (simp_all add: with_audit_def bare_def)

lemma bypass_lifted: "0 \<le> most \<Longrightarrow> lifted most (bypass_hit ordered)"
  by (simp add: lifted_def bypass_hit_def with_audit_def bare_def)

lemma boosted_lift:
  "bare (boosted_hit sw h gate gap rank lambda hit) = bare hit"
  "sh_score (boosted_hit sw h gate gap rank lambda hit)
    = sh_score hit + hexis_boost sw h gate lambda (fst (scoreHexisFit hit (Some h)))"
  by (simp_all add: boosted_hit_def bare_def with_audit_def Let_def split: prod.splits)

lemma apply_lifted:
  assumes "0 \<le> lambda"
  shows "\<exists>f. applyHexisToHits sw hits hexis W e lambda ge = map f hits \<and> lifted (lambda / 4) f"
proof -
  have plain: "lifted (lambda / 4) (\<lambda>hit. with_audit hit (sh_score hit) (rank hit) 0 0 5 lambda)" for rank
    using assms by (simp add: lifted_def)
  show ?thesis
  proof (cases "lambda = 0 \<or> hexis = None \<or> \<not> hasHexisSignal hexis")
    case True
    show ?thesis
      using True plain bypass_lifted [of "lambda / 4" "sort_by_score hits"] assms
      by (auto simp: applyHexisToHits_def Let_def split: option.splits)
  next
    case False
    then obtain h where h: "hexis = Some h" by auto
    let ?g = "computeAmbiguityGate sw hits (max 1 W) (max 0 ge)"
    have "lifted (lambda / 4) (\<lambda>hit. if sh_id hit \<in> A
        then boosted_hit sw h ?g gap (rank hit) lambda hit else outside_hit ?g gap (rank hit) lambda hit)" for A gap rank
      using boost_bounds [OF gate_bounds assms] assms
      by (simp add: lifted_def boosted_lift outside_hit_def)
    note lift = this
    let ?gap = "if max 1 W + 1 \<le> length (sort_by_score hits)
      then max 0 (score_at (sort_by_score hits) (max 1 W - 1) - score_at (sort_by_score hits) (max 1 W)) else 0"
    let ?rank = "\<lambda>hit. pool_rank (sort_by_score hits) (sh_id hit)"
    have "applyHexisToHits sw hits hexis W e lambda ge = map (\<lambda>hit. if sh_id hit \<in> set (resolveHexisReorderWindow hits W e)
        then boosted_hit sw h ?g ?gap (?rank hit) lambda hit else outside_hit ?g ?gap (?rank hit) lambda hit) hits"
      using False h by (simp only: applyHexisToHits_def Let_def) simp
    with lift [of "set (resolveHexisReorderWindow hits W e)" ?gap ?rank] show ?thesis by (intro exI conjI)
  qed
qed

section \<open>A lane\<close>

lemma policy_lifted:
  assumes "0 \<le> hp_hexisLambda policy"
  shows "\<exists>f. mset (fst (applyHexisByPolicy sw hits hexis policy)) = mset (map f hits)
    \<and> lifted (hp_hexisLambda policy / 4) f"
proof (cases "hp_hexisLambda policy = 0")
  case True
  then show ?thesis using bypass_lifted [of 0 "sort_by_score hits"]
    by (intro exI [of _ "bypass_hit (sort_by_score hits)"]) (simp add: applyHexisByPolicy_def)
next
  case False
  show ?thesis
  proof (cases "hexis = None \<or> \<not> gd_enabled (evaluateHexisGate hits policy)")
    case True
    with False have "fst (applyHexisByPolicy sw hits hexis policy) = map (\<lambda>h. h) hits"
      by (auto simp: applyHexisByPolicy_def Let_def)
    then show ?thesis using lifted_id [of "hp_hexisLambda policy / 4"] assms by (intro exI [of _ "\<lambda>h. h"]) simp
  next
    case gated: False
    obtain f where f: "applyHexisToHits sw (sort_by_score hits) hexis (hp_reorderWindow policy)
        (hp_scoreEpsilon policy) (hp_hexisLambda policy) (1 / 1000) = map f (sort_by_score hits)"
      "lifted (hp_hexisLambda policy / 4) f"
      using apply_lifted [OF assms] by blast
    with False gated have "mset (fst (applyHexisByPolicy sw hits hexis policy)) = mset (map f hits)"
      by (auto simp: applyHexisByPolicy_def Let_def)
    with f(2) show ?thesis by blast
  qed
qed

lemma lane_weights: "0 \<le> hp_hexisLambda (rp_hexis (resolveRetrievalPolicyForLane lane))"
  "hp_hexisLambda (rp_hexis (resolveRetrievalPolicyForLane lane)) \<le> 1 / 4"
  by (cases lane; simp add: resolveRetrievalPolicyForLane_def hybrid_policy_def continuity_policy_def
      hybrid_hexis_def strict_hexis_def no_hexis_def)+

text \<open>In no lane does a hexis change what a recall contains: the hits after the reranking are those before
  it, each with a score between its own and a sixteenth more, so the hexis cannot lift a hit over one that leads it by
  more than that.
\<close>

theorem hexis_only_nudges:
  "\<exists>f. mset (fst (applyHexisByPolicy sw hits hexis (rp_hexis (resolveRetrievalPolicyForLane lane)))) = mset (map f hits)
    \<and> (\<forall>h. bare (f h) = bare h \<and> sh_score h \<le> sh_score (f h) \<and> sh_score (f h) \<le> sh_score h + 1 / 16)"
proof -
  obtain f where f: "mset (fst (applyHexisByPolicy sw hits hexis (rp_hexis (resolveRetrievalPolicyForLane lane)))) = mset (map f hits)"
    "lifted (hp_hexisLambda (rp_hexis (resolveRetrievalPolicyForLane lane)) / 4) f"
    using policy_lifted [OF lane_weights(1)] by blast
  have "bare (f h) = bare h \<and> sh_score h \<le> sh_score (f h) \<and> sh_score (f h) \<le> sh_score h + 1 / 16" for h
  proof -
    from f(2) have "bare (f h) = bare h" "sh_score h \<le> sh_score (f h)"
      "sh_score (f h) \<le> sh_score h + hp_hexisLambda (rp_hexis (resolveRetrievalPolicyForLane lane)) / 4"
      by (simp_all add: lifted_def)
    with lane_weights(2) [of lane] show ?thesis by auto
  qed
  with f(1) show ?thesis by blast
qed

end
