(* ===== verification/Latest_State.thy ===== *)
theory Latest_State
  imports Recall_Kinds Hexis_Laws "HOL-Library.AList"
begin

text \<open>
  The latest-state lane (\<open>src/src/recall/latest-state/\<close>): candidates are grouped by identity, the store
  is asked once for the active representatives of the groups, one hit represents each identity, and
  the hexis may rerank the representatives. The read of the store, the admissibility filter and the
  final view are parameters.
\<close>

section \<open>Groups\<close>

record candidate_group =
  cg_identityKey :: jstr
  cg_continuitySubjectKey :: "jstr option"
  cg_lineageRootId :: "jstr option"
  cg_bestScore :: real
  cg_hits :: "recall_hit list"

definition getLatestStateIdentityKey :: "recall_hit \<Rightarrow> jstr" where
  "getLatestStateIdentityKey hit =
     (case sh_continuitySubjectKey hit of
        Some k \<Rightarrow> k
      | None \<Rightarrow> (case rh_lineageRootId hit of Some r \<Rightarrow> r | None \<Rightarrow> sh_id hit))"

definition new_group :: "recall_hit \<Rightarrow> candidate_group" where
  "new_group hit =
     \<lparr>cg_identityKey = getLatestStateIdentityKey hit, cg_continuitySubjectKey = sh_continuitySubjectKey hit,
      cg_lineageRootId = rh_lineageRootId hit, cg_bestScore = sh_score hit, cg_hits = [hit]\<rparr>"

definition join_group :: "candidate_group \<Rightarrow> recall_hit \<Rightarrow> candidate_group" where
  "join_group g hit =
     g\<lparr>cg_hits := cg_hits g @ [hit],
       cg_bestScore := max (cg_bestScore g) (sh_score hit),
       cg_continuitySubjectKey := (if \<not> opt_truthy (cg_continuitySubjectKey g) \<and> opt_truthy (sh_continuitySubjectKey hit)
         then sh_continuitySubjectKey hit else cg_continuitySubjectKey g),
       cg_lineageRootId := (if \<not> opt_truthy (cg_lineageRootId g) \<and> opt_truthy (rh_lineageRootId hit)
         then rh_lineageRootId hit else cg_lineageRootId g)\<rparr>"

definition add_candidate :: "(jstr \<times> candidate_group) list \<Rightarrow> recall_hit \<Rightarrow> (jstr \<times> candidate_group) list" where
  "add_candidate groups hit =
     (let k = getLatestStateIdentityKey hit
      in AList.update k (case map_of groups k of None \<Rightarrow> new_group hit | Some g \<Rightarrow> join_group g hit) groups)"

definition group_order :: "js_env \<Rightarrow> candidate_group \<Rightarrow> candidate_group \<Rightarrow> int" where
  "group_order env a b =
     (if cg_bestScore b < cg_bestScore a then - 1
      else if cg_bestScore a < cg_bestScore b then 1
      else locale_compare env (cg_identityKey a) (cg_identityKey b))"

definition collapseLatestStateCandidates :: "js_env \<Rightarrow> recall_hit list \<Rightarrow> candidate_group list" where
  "collapseLatestStateCandidates env hits =
     js_sort (group_order env) (map snd (foldl add_candidate [] hits))"

section \<open>Representatives\<close>

definition isActiveLineageBacked :: "recall_hit \<Rightarrow> bool" where
  "isActiveLineageBacked hit =
     (sh_active hit \<noteq> JBool False \<and> (opt_truthy (sh_continuitySubjectKey hit) \<or> opt_truthy (rh_lineageRootId hit)))"

definition parseDate :: "js_env \<Rightarrow> jstr option \<Rightarrow> int" where
  "parseDate env v =
     (case v of None \<Rightarrow> 0
      | Some s \<Rightarrow> if s = [] then 0 else (case date_parse_str env s of None \<Rightarrow> 0 | Some ms \<Rightarrow> ms))"

text \<open>\<open>a || b || c\<close> on numbers.\<close>

definition valid_instant :: "js_env \<Rightarrow> recall_hit \<Rightarrow> int" where
  "valid_instant env h =
     (if parseDate env (rh_validAt h) \<noteq> 0 then parseDate env (rh_validAt h)
      else if parseDate env (sh_updatedAt h) \<noteq> 0 then parseDate env (sh_updatedAt h)
      else parseDate env (sh_createdAt h))"

definition compareLatestStateRepresentatives :: "js_env \<Rightarrow> recall_hit \<Rightarrow> recall_hit \<Rightarrow> int" where
  "compareLatestStateRepresentatives env a b =
     (if isActiveLineageBacked a \<noteq> isActiveLineageBacked b
      then (if isActiveLineageBacked a then - 1 else 1)
      else if sh_score a \<noteq> sh_score b then score_order a b
      else if valid_instant env a \<noteq> valid_instant env b then valid_instant env b - valid_instant env a
      else locale_compare env (sh_id a) (sh_id b))"

definition mergeRepresentativeScore :: "real \<Rightarrow> recall_hit \<Rightarrow> recall_hit" where
  "mergeRepresentativeScore bestScore hit =
     hit\<lparr>sh_score := max (sh_score hit) bestScore,
         rh_rankingExplanation := take 8 (rh_rankingExplanation hit
           @ [if isActiveLineageBacked hit then Active_lineage_representative else Seed_candidate])\<rparr>"

record resolution =
  re_representatives :: "recall_hit list"
  re_hydratedIds :: "jstr list"
  re_droppedSeedIds :: "jstr list"

definition hydrated_of :: "recall_hit list \<Rightarrow> candidate_group \<Rightarrow> recall_hit list" where
  "hydrated_of hydratedHits g = filter (\<lambda>h. getLatestStateIdentityKey h = cg_identityKey g) hydratedHits"

definition candidates_of :: "recall_hit list \<Rightarrow> candidate_group \<Rightarrow> recall_hit list" where
  "candidates_of hydratedHits g =
     map (mergeRepresentativeScore (cg_bestScore g)) (cg_hits g @ hydrated_of hydratedHits g)"

text \<open>The representative of a group, when it has a candidate.\<close>

definition representative :: "js_env \<Rightarrow> recall_hit list \<Rightarrow> candidate_group \<Rightarrow> recall_hit list" where
  "representative env hydratedHits g =
     take 1 (js_sort (compareLatestStateRepresentatives env) (candidates_of hydratedHits g))"

definition resolveLatestStateRepresentatives ::
  "js_env \<Rightarrow> candidate_group list \<Rightarrow> recall_hit list \<Rightarrow> resolution" where
  "resolveLatestStateRepresentatives env groups hydratedHits =
     \<lparr>re_representatives = js_sort (compareLatestStateRepresentatives env)
        (concat (map (representative env hydratedHits) groups)),
      re_hydratedIds = js_uniq (concat (map (\<lambda>g. map sh_id (hydrated_of hydratedHits g)) groups)),
      re_droppedSeedIds = js_uniq (concat (map (\<lambda>g. concat (map (\<lambda>r.
        filter (\<lambda>i. i \<noteq> sh_id r) (map sh_id (cg_hits g))) (representative env hydratedHits g))) groups))\<rparr>"

section \<open>The lane\<close>

record lane_result =
  lr_baselinePool :: "recall_hit list"
  lr_preHexisRepresentativePool :: "recall_hit list"
  lr_representativePool :: "recall_hit list"
  lr_collapsedIdentityKeys :: "jstr list"
  lr_hydratedIds :: "jstr list"
  lr_droppedSeedIds :: "jstr list"
  lr_hexisGate :: gate_decision

definition truthy_values :: "jstr option list \<Rightarrow> jstr list" where
  "truthy_values vs = concat (map (\<lambda>v. case v of None \<Rightarrow> [] | Some s \<Rightarrow> if s = [] then [] else [s]) vs)"

definition runLatestStateLane ::
  "js_env \<Rightarrow> hexis_switches \<Rightarrow> (jstr list \<Rightarrow> jstr list \<Rightarrow> recall_hit list) \<Rightarrow> (recall_hit list \<Rightarrow> recall_hit list)
    \<Rightarrow> recall_hit list \<Rightarrow> hexis_state option \<Rightarrow> hexis_lane_policy \<Rightarrow> lane_result" where
  "runLatestStateLane env sw hydrate buildAdmissiblePool hits activeHexis policy =
     (let baselinePool = buildAdmissiblePool hits;
          groups = collapseLatestStateCandidates env baselinePool;
          hydratedHits = hydrate (truthy_values (map cg_continuitySubjectKey groups))
                                 (truthy_values (map cg_lineageRootId groups));
          r = resolveLatestStateRepresentatives env groups hydratedHits;
          (pool, gate) = applyHexisByPolicy sw (re_representatives r) activeHexis policy
      in \<lparr>lr_baselinePool = baselinePool, lr_preHexisRepresentativePool = re_representatives r,
          lr_representativePool = pool, lr_collapsedIdentityKeys = map cg_identityKey groups,
          lr_hydratedIds = re_hydratedIds r, lr_droppedSeedIds = re_droppedSeedIds r, lr_hexisGate = gate\<rparr>)"

section \<open>Facts about the groups\<close>

definition group_ok :: "jstr \<times> candidate_group \<Rightarrow> bool" where
  "group_ok kg = (cg_identityKey (snd kg) = fst kg \<and> cg_hits (snd kg) \<noteq> []
     \<and> (\<forall>h \<in> set (cg_hits (snd kg)). getLatestStateIdentityKey h = fst kg))"

lemma joined_group_ok: "group_ok (k, g) \<Longrightarrow> getLatestStateIdentityKey hit = k \<Longrightarrow> group_ok (k, join_group g hit)"
  by (auto simp: group_ok_def join_group_def)

lemma new_ok: "group_ok (getLatestStateIdentityKey hit, new_group hit)"
  by (simp add: group_ok_def new_group_def)

lemma update_ok:
  "\<forall>kg \<in> set m. group_ok kg \<Longrightarrow> group_ok (k, g) \<Longrightarrow> \<forall>kg \<in> set (AList.update k g m). group_ok kg"
  by (induction m) auto

lemma update_fst: "fst ` set (AList.update k v m) = insert k (fst ` set m)"
  by (induction m) auto

lemma groups_from:
  assumes "\<forall>kg \<in> set m. group_ok kg" and "distinct (map fst m)"
  shows "(\<forall>kg \<in> set (foldl add_candidate m hits). group_ok kg)
    \<and> distinct (map fst (foldl add_candidate m hits))
    \<and> fst ` set (foldl add_candidate m hits) = fst ` set m \<union> getLatestStateIdentityKey ` set hits"
  using assms
proof (induction hits arbitrary: m)
  case (Cons hit hits)
  let ?k = "getLatestStateIdentityKey hit"
  have ok: "\<forall>kg \<in> set (add_candidate m hit). group_ok kg"
  proof (cases "map_of m ?k")
    case None
    show ?thesis unfolding add_candidate_def Let_def None option.case
      by (rule update_ok [OF Cons.prems(1) new_ok])
  next
    case (Some g)
    then have g: "group_ok (?k, g)" using Cons.prems(1) map_of_SomeD by fastforce
    show ?thesis unfolding add_candidate_def Let_def Some option.case
      by (rule update_ok [OF Cons.prems(1) joined_group_ok [OF g refl]])
  qed
  have keys: "fst ` set (add_candidate m hit) = insert ?k (fst ` set m)"
    by (simp add: add_candidate_def Let_def update_fst)
  have "distinct (map fst (add_candidate m hit))"
    using Cons.prems(2) by (simp add: add_candidate_def Let_def distinct_update)
  from Cons.IH [OF ok this] keys show ?case by auto
qed simp

lemma groups_ok:
  "\<forall>g \<in> set (collapseLatestStateCandidates env hits). group_ok (cg_identityKey g, g)"
  "distinct (map cg_identityKey (collapseLatestStateCandidates env hits))"
  "cg_identityKey ` set (collapseLatestStateCandidates env hits) = getLatestStateIdentityKey ` set hits"
proof -
  let ?m = "foldl add_candidate [] hits"
  have m: "\<forall>kg \<in> set ?m. group_ok kg" "distinct (map fst ?m)" "fst ` set ?m = getLatestStateIdentityKey ` set hits"
    using groups_from [of "[]" hits] by auto
  have key: "map cg_identityKey (map snd ?m) = map fst ?m" using m(1) by (auto simp: group_ok_def)
  have same: "mset (map cg_identityKey (collapseLatestStateCandidates env hits)) = mset (map fst ?m)"
    unfolding collapseLatestStateCandidates_def key [symmetric] mset_map js_sort_mset by (rule refl)
  show "\<forall>g \<in> set (collapseLatestStateCandidates env hits). group_ok (cg_identityKey g, g)"
    using m(1) by (auto simp: collapseLatestStateCandidates_def group_ok_def)
  show "distinct (map cg_identityKey (collapseLatestStateCandidates env hits))"
    using same m(2) mset_eq_imp_distinct_iff by blast
  show "cg_identityKey ` set (collapseLatestStateCandidates env hits) = getLatestStateIdentityKey ` set hits"
    using same m(3) by (metis set_map set_mset_mset)
qed

section \<open>Facts about the representatives\<close>

lemma merged_key [simp]:
  "getLatestStateIdentityKey (mergeRepresentativeScore s h) = getLatestStateIdentityKey h"
  "isActiveLineageBacked (mergeRepresentativeScore s h) = isActiveLineageBacked h"
proof -
  let ?m = "mergeRepresentativeScore s h"
  have same: "sh_continuitySubjectKey ?m = sh_continuitySubjectKey h" "rh_lineageRootId ?m = rh_lineageRootId h"
    "sh_id ?m = sh_id h" "sh_active ?m = sh_active h"
    by (simp_all add: mergeRepresentativeScore_def)
  show "getLatestStateIdentityKey ?m = getLatestStateIdentityKey h"
    unfolding getLatestStateIdentityKey_def same by (rule refl)
  show "isActiveLineageBacked ?m = isActiveLineageBacked h"
    unfolding isActiveLineageBacked_def same by (rule refl)
qed

lemma candidates_nonempty: "cg_hits g \<noteq> [] \<Longrightarrow> candidates_of hyd g \<noteq> []"
  by (simp add: candidates_of_def)

lemma representative_single:
  assumes "group_ok (cg_identityKey g, g)"
  obtains r where "representative env hyd g = [r]" "r \<in> set (candidates_of hyd g)"
    "getLatestStateIdentityKey r = cg_identityKey g"
proof -
  let ?s = "js_sort (compareLatestStateRepresentatives env) (candidates_of hyd g)"
  have "?s \<noteq> []" using candidates_nonempty [of g hyd] assms by (metis group_ok_def length_0_conv length_js_sort snd_conv)
  then obtain r rest where s: "?s = r # rest" by (cases ?s) auto
  then have "r \<in> set ?s" by simp
  then have r: "r \<in> set (candidates_of hyd g)" by simp
  then have "getLatestStateIdentityKey r = cg_identityKey g"
    using assms by (auto simp: candidates_of_def hydrated_of_def group_ok_def)
  with s r show thesis by (intro that [of r]) (simp_all add: representative_def)
qed

text \<open>The first of the sorted candidates is backed when any is.\<close>

lemma insort_backed:
  "ys \<noteq> [] \<Longrightarrow> isActiveLineageBacked (hd (insort_cmp (compareLatestStateRepresentatives env) x ys))
    = (isActiveLineageBacked x \<or> isActiveLineageBacked (hd ys))"
  by (cases ys) (auto simp: compareLatestStateRepresentatives_def)

lemma sorted_backed:
  "xs \<noteq> [] \<Longrightarrow> isActiveLineageBacked (hd (js_sort (compareLatestStateRepresentatives env) xs))
    = list_ex isActiveLineageBacked xs"
proof (induction xs)
  case (Cons x xs)
  show ?case
  proof (cases "xs = []")
    case False
    then have "js_sort (compareLatestStateRepresentatives env) xs \<noteq> []"
      by (metis length_0_conv length_js_sort)
    from insort_backed [OF this, of env x] Cons.IH [OF False] show ?thesis by (simp add: js_sort_def)
  qed (simp add: js_sort_def)
qed simp

lemma representative_backed:
  assumes "representative env hyd g = [r]" and "h \<in> set (cg_hits g @ hydrated_of hyd g)" and "isActiveLineageBacked h"
  shows "isActiveLineageBacked r"
proof -
  have ne: "candidates_of hyd g \<noteq> []" using assms(2) by (auto simp: candidates_of_def)
  then have "js_sort (compareLatestStateRepresentatives env) (candidates_of hyd g) \<noteq> []"
    by (metis length_0_conv length_js_sort)
  with assms(1) have "r = hd (js_sort (compareLatestStateRepresentatives env) (candidates_of hyd g))"
    by (simp add: representative_def take_Suc)
  moreover have "list_ex isActiveLineageBacked (candidates_of hyd g)"
    unfolding candidates_of_def list_ex_iff set_map
    using assms(2,3) by (intro bexI [of _ "mergeRepresentativeScore (cg_bestScore g) h"]) auto
  ultimately show ?thesis using sorted_backed [OF ne] by simp
qed

lemma representatives_keys:
  assumes "\<forall>g \<in> set groups. group_ok (cg_identityKey g, g)"
  shows "map getLatestStateIdentityKey (concat (map (representative env hyd) groups)) = map cg_identityKey groups"
  using assms
proof (induction groups)
  case (Cons g groups)
  obtain r where "representative env hyd g = [r]" "getLatestStateIdentityKey r = cg_identityKey g"
    using Cons.prems by (auto intro: representative_single [of g env hyd])
  with Cons show ?case by simp
qed simp

text \<open>Every candidate is in the group of its identity.\<close>

lemma add_keeps:
  assumes "map_of m k = Some g"
  obtains g' where "map_of (add_candidate m hit) k = Some g'" "set (cg_hits g) \<subseteq> set (cg_hits g')"
proof (cases "getLatestStateIdentityKey hit = k")
  case True
  with assms show thesis
    by (intro that [of "join_group g hit"]) (auto simp: add_candidate_def Let_def update_conv join_group_def)
next
  case False
  with assms show thesis by (intro that [of g]) (auto simp: add_candidate_def Let_def update_conv)
qed

lemma fold_keeps:
  assumes "map_of m k = Some g"
  shows "\<exists>g'. map_of (foldl add_candidate m hits) k = Some g' \<and> set (cg_hits g) \<subseteq> set (cg_hits g')"
  using assms
proof (induction hits arbitrary: m g)
  case (Cons hit hits)
  obtain g1 where "map_of (add_candidate m hit) k = Some g1" "set (cg_hits g) \<subseteq> set (cg_hits g1)"
    by (rule add_keeps [OF Cons.prems])
  with Cons.IH [OF this(1)] show ?case by auto
qed auto

lemma fold_collects:
  "h \<in> set hits \<Longrightarrow>
    \<exists>g. map_of (foldl add_candidate m hits) (getLatestStateIdentityKey h) = Some g \<and> h \<in> set (cg_hits g)"
proof (induction hits arbitrary: m)
  case (Cons hit hits)
  show ?case
  proof (cases "h = hit")
    case True
    let ?g = "case map_of m (getLatestStateIdentityKey h) of None \<Rightarrow> new_group h | Some g \<Rightarrow> join_group g h"
    have "map_of (add_candidate m hit) (getLatestStateIdentityKey h) = Some ?g"
      unfolding add_candidate_def Let_def True by (simp add: update_conv)
    moreover have "h \<in> set (cg_hits ?g)" by (auto simp: new_group_def join_group_def split: option.splits)
    ultimately show ?thesis using fold_keeps [of "add_candidate m hit" _ ?g hits] by auto
  next
    case False
    with Cons show ?thesis by simp
  qed
qed simp

lemma grouped:
  assumes "h \<in> set hits"
  obtains g where "g \<in> set (collapseLatestStateCandidates env hits)" "h \<in> set (cg_hits g)"
    "cg_identityKey g = getLatestStateIdentityKey h"
proof -
  from fold_collects [OF assms, of "[]"] obtain g where
    g: "map_of (foldl add_candidate [] hits) (getLatestStateIdentityKey h) = Some g" "h \<in> set (cg_hits g)" by blast
  from map_of_SomeD [OF g(1)] have "g \<in> set (collapseLatestStateCandidates env hits)"
    by (force simp: collapseLatestStateCandidates_def)
  moreover from this groups_ok(1) g(2) have "getLatestStateIdentityKey h = cg_identityKey g"
    by (auto simp: group_ok_def)
  ultimately show thesis using g(2) by (intro that [of g]) simp_all
qed

section \<open>What the lane promises\<close>

text \<open>The latest-state lane shows one current memory per subject: among the representatives each identity
  of the candidates occurs exactly once, and a representative without an active lineage stands for an
  identity that has no active, lineage-backed memory among the candidates and the hydrated hits.
\<close>

theorem latest_state_is_one_per_identity:
  fixes env hits hydrated
  defines "reps \<equiv> re_representatives
    (resolveLatestStateRepresentatives env (collapseLatestStateCandidates env hits) hydrated)"
  shows "distinct (map getLatestStateIdentityKey reps)
    \<and> getLatestStateIdentityKey ` set reps = getLatestStateIdentityKey ` set hits
    \<and> filter (\<lambda>r. \<not> isActiveLineageBacked r
        \<and> list_ex (\<lambda>h. getLatestStateIdentityKey h = getLatestStateIdentityKey r \<and> isActiveLineageBacked h) (hits @ hydrated)) reps = []"
proof -
  let ?groups = "collapseLatestStateCandidates env hits"
  let ?all = "concat (map (representative env hydrated) ?groups)"
  note ok = groups_ok [where env = env and hits = hits]
  have same: "mset reps = mset ?all" by (simp add: reps_def resolveLatestStateRepresentatives_def js_sort_mset)
  have keys: "map getLatestStateIdentityKey ?all = map cg_identityKey ?groups" by (rule representatives_keys [OF ok(1)])
  have "mset (map getLatestStateIdentityKey reps) = mset (map cg_identityKey ?groups)"
    unfolding keys [symmetric] mset_map same by (rule refl)
  then have "distinct (map getLatestStateIdentityKey reps)" and
    "getLatestStateIdentityKey ` set reps = cg_identityKey ` set ?groups"
    using ok(2) mset_eq_imp_distinct_iff by (blast, metis set_map set_mset_mset)
  moreover have "isActiveLineageBacked r"
    if r: "r \<in> set reps" and h: "h \<in> set (hits @ hydrated)" "getLatestStateIdentityKey h = getLatestStateIdentityKey r"
      "isActiveLineageBacked h" for r h
  proof -
    from r same have "r \<in> set ?all" by (metis set_mset_mset)
    then obtain g where g: "g \<in> set ?groups" "r \<in> set (representative env hydrated g)" by auto
    obtain r' where "representative env hydrated g = [r']" "getLatestStateIdentityKey r' = cg_identityKey g"
      by (rule representative_single [of g env hydrated]) (use ok(1) g(1) in auto)
    with g(2) have rep: "representative env hydrated g = [r]" "getLatestStateIdentityKey r = cg_identityKey g" by auto
    have "h \<in> set (cg_hits g @ hydrated_of hydrated g)"
    proof (cases "h \<in> set hits")
      case True
      obtain g' where g': "g' \<in> set ?groups" "h \<in> set (cg_hits g')" "cg_identityKey g' = getLatestStateIdentityKey h"
        by (rule grouped [OF True])
      with g(1) rep(2) h(2) ok(2) have "g' = g" by (auto simp: distinct_map dest: inj_onD)
      with g'(2) show ?thesis by simp
    next
      case False
      with h rep(2) show ?thesis by (simp add: hydrated_of_def)
    qed
    from representative_backed [OF rep(1) this h(3)] show ?thesis .
  qed
  ultimately show ?thesis using ok(3) by (auto simp: filter_empty_conv list_ex_iff)
qed

text \<open>The hexis keeps the identities of the lane.\<close>

lemma bare_key:
  assumes "bare a = bare b"
  shows "getLatestStateIdentityKey a = getLatestStateIdentityKey b"
proof -
  have "sh_continuitySubjectKey (bare h) = sh_continuitySubjectKey h" "rh_lineageRootId (bare h) = rh_lineageRootId h"
    "sh_id (bare h) = sh_id h" for h by (simp_all add: bare_def)
  then have "sh_continuitySubjectKey a = sh_continuitySubjectKey b" "rh_lineageRootId a = rh_lineageRootId b" "sh_id a = sh_id b"
    using assms by metis+
  then show ?thesis unfolding getLatestStateIdentityKey_def by (simp only:)
qed

lemma lane_identities:
  fixes env sw hydrate adm hits hexis lane
  defines "r \<equiv> runLatestStateLane env sw hydrate adm hits hexis (rp_hexis (resolveRetrievalPolicyForLane lane))"
  shows "mset (map getLatestStateIdentityKey (lr_representativePool r))
    = mset (map getLatestStateIdentityKey (lr_preHexisRepresentativePool r))"
proof -
  let ?policy = "rp_hexis (resolveRetrievalPolicyForLane lane)"
  let ?reps = "lr_preHexisRepresentativePool r"
  have pool: "lr_representativePool r = fst (applyHexisByPolicy sw ?reps hexis ?policy)"
    by (simp add: r_def runLatestStateLane_def Let_def split: prod.splits)
  obtain f where f: "mset (fst (applyHexisByPolicy sw ?reps hexis ?policy)) = mset (map f ?reps)"
    "lifted (hp_hexisLambda ?policy / 4) f"
    using policy_lifted [OF lane_weights(1)] by blast
  have "getLatestStateIdentityKey (f h) = getLatestStateIdentityKey h" for h
    by (rule bare_key) (use f(2) in \<open>simp add: lifted_def\<close>)
  then have "map getLatestStateIdentityKey (map f ?reps) = map getLatestStateIdentityKey ?reps" by simp
  with f(1) show ?thesis unfolding pool by (metis mset_map)
qed

end
