(* ===== verification/Minni_Time.thy ===== *)
theory Minni_Time
  imports Js_Value
begin

text \<open>
  Timestamps of the producer (\<open>src/src/domain/memory/minni-summary-contract.ts\<close>, lines 241 to 312):
  parsed without a date object, to a count of seconds and a decimal fraction of any length, and
  compared exactly. The calendar functions are those of \<open>Js_Value\<close>, which computes the same formula.
\<close>

section \<open>Parsing and comparing\<close>

record minni_timestamp =
  mt_epochSeconds :: int
  mt_fraction :: jstr

definition bounded_string :: "jstr \<Rightarrow> nat \<Rightarrow> bool" where
  "bounded_string s maxBytes = (utf8_length s \<le> maxBytes)"

definition trimmed_string :: "jstr \<Rightarrow> nat \<Rightarrow> bool" where
  "trimmed_string s maxBytes = (bounded_string s maxBytes \<and> s \<noteq> [] \<and> js_trim s = s)"

definition MAX_REFERENCE_UTF8_BYTES :: nat where
  "MAX_REFERENCE_UTF8_BYTES = 256"

definition is_digit :: "char \<Rightarrow> bool" where
  "is_digit c = (digit_value c \<noteq> None)"

text \<open>The groups of the pattern: the six numbers, the digits of the fraction, and the zone.\<close>

record timestamp_groups =
  tg_numbers :: "int list"
  tg_digits :: jstr
  tg_zone :: jstr

definition zone_matches :: "jstr \<Rightarrow> bool" where
  "zone_matches z =
     (z = ''Z'' \<or>
      (length z = 6 \<and> (z ! 0 = CHR ''+'' \<or> z ! 0 = CHR ''-'') \<and> z ! 3 = CHR '':''
       \<and> list_all is_digit [z ! 1, z ! 2, z ! 4, z ! 5]))"

text \<open>\<open>(?:\.(\d+))?\<close>: the digits, and the text after them.\<close>

definition fraction_match :: "jstr \<Rightarrow> (jstr \<times> jstr) option" where
  "fraction_match s =
     (case s of
        [] \<Rightarrow> Some ([], [])
      | c # r \<Rightarrow> if c = CHR ''.''
          then (if takeWhile is_digit r = [] then None else Some (takeWhile is_digit r, dropWhile is_digit r))
          else Some ([], s))"

definition number_at :: "jstr \<Rightarrow> nat \<Rightarrow> nat \<Rightarrow> int" where
  "number_at s i n = (case digits_value 0 (take n (drop i s)) of Some v \<Rightarrow> v | None \<Rightarrow> 0)"

definition match_timestamp :: "jstr \<Rightarrow> timestamp_groups option" where
  "match_timestamp s =
     (if 19 \<le> length s
         \<and> list_all (\<lambda>i. is_digit (s ! i)) [0, 1, 2, 3, 5, 6, 8, 9, 11, 12, 14, 15, 17, 18]
         \<and> s ! 4 = CHR ''-'' \<and> s ! 7 = CHR ''-'' \<and> s ! 10 = CHR ''T'' \<and> s ! 13 = CHR '':'' \<and> s ! 16 = CHR '':''
      then (case fraction_match (drop 19 s) of
          None \<Rightarrow> None
        | Some (digits, zone) \<Rightarrow>
            if zone_matches zone
            then Some \<lparr>tg_numbers = [number_at s 0 4, number_at s 5 2, number_at s 8 2,
                         number_at s 11 2, number_at s 14 2, number_at s 17 2],
                       tg_digits = digits, tg_zone = zone\<rparr>
            else None)
      else None)"

text \<open>\<open>.replace(/0+$/, "")\<close>\<close>

definition strip_zeros :: "jstr \<Rightarrow> jstr" where
  "strip_zeros s = rev (dropWhile (\<lambda>c. c = CHR ''0'') (rev s))"

definition zone_offset :: "jstr \<Rightarrow> int option" where
  "zone_offset zone =
     (if zone = ''Z'' then Some 0
      else (let h = number_at zone 1 2; m = number_at zone 4 2
            in if h > 23 \<or> m > 59 then None
               else Some ((if zone ! 0 = CHR ''-'' then - 1 else 1) * (h * 60 + m) * 60)))"

definition parseMinniTimestamp :: "jstr \<Rightarrow> minni_timestamp option" where
  "parseMinniTimestamp value =
     (if \<not> trimmed_string value MAX_REFERENCE_UTF8_BYTES then None
      else (case match_timestamp value of
          None \<Rightarrow> None
        | Some g \<Rightarrow>
           (case tg_numbers g of
              [year, month, day, hour, minute, second] \<Rightarrow>
                (if month < 1 \<or> month > 12 \<or> day < 1 \<or> day > days_in_month year month
                    \<or> hour > 23 \<or> minute > 59 \<or> second > 59 then None
                 else (case zone_offset (tg_zone g) of
                     None \<Rightarrow> None
                   | Some offset \<Rightarrow>
                       Some \<lparr>mt_epochSeconds = days_from_civil year month day * 86400
                               + (hour * 3600 + minute * 60 + second - offset),
                             mt_fraction = strip_zeros (tg_digits g)\<rparr>))
            | _ \<Rightarrow> None)))"

text \<open>\<open>BigInt(fraction.padEnd(scale, "0") || "0")\<close>\<close>

definition padded :: "nat \<Rightarrow> jstr \<Rightarrow> int" where
  "padded scale s = the (digits_value 0 (s @ replicate (scale - length s) (CHR ''0'')))"

definition compareMinniTimestamps :: "jstr \<Rightarrow> jstr \<Rightarrow> int option" where
  "compareMinniTimestamps left right =
     (case (parseMinniTimestamp left, parseMinniTimestamp right) of
        (Some l, Some r) \<Rightarrow>
          (if mt_epochSeconds l \<noteq> mt_epochSeconds r
           then Some (if mt_epochSeconds l < mt_epochSeconds r then - 1 else 1)
           else (let scale = max (length (mt_fraction l)) (length (mt_fraction r));
                     a = padded scale (mt_fraction l);
                     b = padded scale (mt_fraction r)
                 in if a = b then Some 0 else Some (if a < b then - 1 else 1)))
      | _ \<Rightarrow> None)"

section \<open>The instant a timestamp names\<close>

text \<open>The value of a string of decimal digits, and of the digits after the point.\<close>

definition digits_number :: "jstr \<Rightarrow> int" where
  "digits_number s = the (digits_value 0 s)"

definition instant :: "minni_timestamp \<Rightarrow> real" where
  "instant t = of_int (mt_epochSeconds t)
     + of_int (digits_number (mt_fraction t)) / 10 ^ length (mt_fraction t)"

lemma digits_value_Some: "list_all is_digit s \<Longrightarrow> \<exists>v. digits_value acc s = Some v"
  by (induction s arbitrary: acc) (auto simp: is_digit_def)

lemma digits_value_shift:
  "list_all is_digit s \<Longrightarrow> digits_value acc s = Some (acc * 10 ^ length s + digits_number s)"
proof (induction s arbitrary: acc)
  case (Cons c s)
  then obtain d where d: "digit_value c = Some d" by (auto simp: is_digit_def)
  have *: "digits_value a s = Some (a * 10 ^ length s + digits_number s)" for a
    using Cons by simp
  have "digits_number (c # s) = d * 10 ^ length s + digits_number s"
    by (simp add: digits_number_def d * [of d, unfolded digits_number_def])
  with d * [of "10 * acc + d"] show ?case by (simp add: algebra_simps)
qed (simp add: digits_number_def)

lemma digits_number_bounds:
  assumes "list_all is_digit s"
  shows "0 \<le> digits_number s" and "digits_number s < 10 ^ length s"
proof -
  have "0 \<le> digits_number s \<and> digits_number s < 10 ^ length s"
    using assms
  proof (induction s)
    case (Cons c s)
    then obtain d where d: "digit_value c = Some d" and r: "0 \<le> d" "d \<le> 9"
      by (auto simp: is_digit_def digit_value_def Let_def split: if_splits)
    have eq: "digits_number (c # s) = d * 10 ^ length s + digits_number s"
      using digits_value_shift [of s d] Cons.prems by (simp add: digits_number_def d)
    have "d * 10 ^ length s \<le> 9 * 10 ^ length s" using r by simp
    moreover have "0 \<le> d * 10 ^ length s" using r by simp
    moreover have "0 \<le> digits_number s" "digits_number s < 10 ^ length s" using Cons by auto
    ultimately have "0 \<le> digits_number (c # s)" "digits_number (c # s) < 10 * 10 ^ length s" using eq by linarith+
    then show ?case by simp
  qed (simp add: digits_number_def)
  then show "0 \<le> digits_number s" and "digits_number s < 10 ^ length s" by auto
qed

lemma digits_number_zeros: "digits_number (replicate n (CHR ''0'')) = 0"
proof (induction n)
  case (Suc n)
  have "list_all is_digit (replicate n (CHR ''0''))"
    by (simp add: list_all_iff is_digit_def digit_value_def code_unit_def)
  then have "digits_value 0 (replicate n (CHR ''0'')) = Some 0"
    using Suc digits_value_shift [of "replicate n (CHR ''0'')" 0] by simp
  then show ?case by (simp add: digits_number_def digit_value_def code_unit_def)
qed (simp add: digits_number_def)

lemma digits_value_append:
  "digits_value a (s @ z) = Option.bind (digits_value a s) (\<lambda>v. digits_value v z)"
  by (induction s arbitrary: a) (auto split: option.splits)

lemma padded_number:
  assumes "list_all is_digit s" and "length s \<le> scale"
  shows "padded scale s = digits_number s * 10 ^ (scale - length s)"
proof -
  let ?z = "replicate (scale - length s) (CHR ''0'')"
  have z: "list_all is_digit ?z" by (simp add: list_all_iff is_digit_def digit_value_def code_unit_def)
  have "digits_value 0 (s @ ?z) = Some (digits_number (s @ ?z))"
    using digits_value_shift [of "s @ ?z" 0] assms z by simp
  moreover have "digits_value a (s @ ?z) = Option.bind (digits_value a s) (\<lambda>v. digits_value v ?z)" for a
    by (rule digits_value_append)
  then have "digits_value 0 (s @ ?z) = digits_value (digits_number s) ?z"
    using digits_value_shift [of s 0] assms by simp
  ultimately show ?thesis
    using digits_value_shift [OF z, of "digits_number s"] by (simp add: padded_def digits_number_zeros)
qed

text \<open>What a parsed timestamp looks like.\<close>

definition timestamp_ok :: "minni_timestamp \<Rightarrow> bool" where
  "timestamp_ok t = list_all is_digit (mt_fraction t)"

lemma strip_zeros_digits: "list_all is_digit s \<Longrightarrow> list_all is_digit (strip_zeros s)"
  by (auto simp: strip_zeros_def list_all_iff dest!: set_dropWhileD)

lemma fraction_match_digits: "fraction_match s = Some (ds, z) \<Longrightarrow> list_all is_digit ds"
  by (auto simp: fraction_match_def list_all_iff split: list.splits if_splits dest: set_takeWhileD)

lemma parsed_ok: "parseMinniTimestamp s = Some t \<Longrightarrow> timestamp_ok t"
  by (auto simp: parseMinniTimestamp_def match_timestamp_def timestamp_ok_def strip_zeros_digits
      dest!: fraction_match_digits split: if_splits option.splits list.splits)

lemma fraction_bounds:
  assumes "timestamp_ok t"
  shows "0 \<le> of_int (digits_number (mt_fraction t)) / (10 ^ length (mt_fraction t) :: real)"
    and "of_int (digits_number (mt_fraction t)) / (10 ^ length (mt_fraction t) :: real) < 1"
proof -
  have "0 \<le> digits_number (mt_fraction t)" and "digits_number (mt_fraction t) < 10 ^ length (mt_fraction t)"
    using assms digits_number_bounds by (auto simp: timestamp_ok_def)
  moreover from this(2) have "of_int (digits_number (mt_fraction t)) < (10 ^ length (mt_fraction t) :: real)"
    by (metis of_int_less_iff of_int_numeral of_int_power)
  ultimately show "0 \<le> of_int (digits_number (mt_fraction t)) / (10 ^ length (mt_fraction t) :: real)"
    and "of_int (digits_number (mt_fraction t)) / (10 ^ length (mt_fraction t) :: real) < 1"
    by simp_all
qed

lemma padded_fraction:
  assumes "timestamp_ok t" and "length (mt_fraction t) \<le> scale"
  shows "of_int (padded scale (mt_fraction t))
    = (of_int (digits_number (mt_fraction t)) / 10 ^ length (mt_fraction t) * 10 ^ scale :: real)"
proof -
  have "(10::real) ^ scale = 10 ^ length (mt_fraction t) * 10 ^ (scale - length (mt_fraction t))"
    using assms(2) by (simp flip: power_add)
  then show ?thesis using assms padded_number [of "mt_fraction t" scale] by (simp add: timestamp_ok_def)
qed

lemma seconds_decide:
  assumes "timestamp_ok l" and "timestamp_ok r" and "mt_epochSeconds l < mt_epochSeconds r"
  shows "instant l < instant r"
proof -
  have "of_int (mt_epochSeconds l) + 1 \<le> (of_int (mt_epochSeconds r) :: real)"
    using assms(3) by (metis add1_zle_eq of_int_1 of_int_add of_int_le_iff)
  with fraction_bounds [OF assms(1)] fraction_bounds [OF assms(2)] show ?thesis
    unfolding instant_def by linarith
qed

text \<open>The comparison is that of the instants.\<close>

lemma compare_instants:
  assumes "parseMinniTimestamp a = Some l" and "parseMinniTimestamp b = Some r"
  shows "compareMinniTimestamps a b
    = Some (if instant l < instant r then - 1 else if instant l = instant r then 0 else 1)"
proof -
  have ok: "timestamp_ok l" "timestamp_ok r" using assms by (auto intro: parsed_ok)
  show ?thesis
  proof (cases "mt_epochSeconds l = mt_epochSeconds r")
    case False
    with ok seconds_decide [of l r] seconds_decide [of r l] show ?thesis
      by (cases "mt_epochSeconds l < mt_epochSeconds r")
        (auto simp: compareMinniTimestamps_def assms)
  next
    case True
    define n where "n = max (length (mt_fraction l)) (length (mt_fraction r))"
    let ?f = "\<lambda>t. of_int (digits_number (mt_fraction t)) / (10 ^ length (mt_fraction t) :: real)"
    have p: "of_int (padded n (mt_fraction l)) = ?f l * 10 ^ n" "of_int (padded n (mt_fraction r)) = ?f r * 10 ^ n"
      using ok padded_fraction [of l n] padded_fraction [of r n] by (simp_all add: n_def)
    have lt: "padded n (mt_fraction l) < padded n (mt_fraction r) \<longleftrightarrow> ?f l < ?f r"
      unfolding of_int_less_iff [symmetric, where 'a = real] p by (rule mult_less_cancel_right_pos) simp
    have eq: "padded n (mt_fraction l) = padded n (mt_fraction r) \<longleftrightarrow> ?f l = ?f r"
      unfolding of_int_eq_iff [symmetric, where 'a = real] p by (subst mult_cancel_right) simp
    show ?thesis
      using True lt eq by (simp add: compareMinniTimestamps_def assms instant_def Let_def flip: n_def)
  qed
qed

lemma compare_defined:
  "compareMinniTimestamps a b \<noteq> None \<longleftrightarrow> parseMinniTimestamp a \<noteq> None \<and> parseMinniTimestamp b \<noteq> None"
  by (auto simp: compareMinniTimestamps_def Let_def split: option.splits)

section \<open>The calendar\<close>

text \<open>The day after a date of the proleptic Gregorian calendar.\<close>

definition valid_date :: "int \<times> int \<times> int \<Rightarrow> bool" where
  "valid_date = (\<lambda>(y, m, d). 1 \<le> m \<and> m \<le> 12 \<and> 1 \<le> d \<and> d \<le> days_in_month y m)"

definition next_date :: "int \<times> int \<times> int \<Rightarrow> int \<times> int \<times> int" where
  "next_date = (\<lambda>(y, m, d).
     if d < days_in_month y m then (y, m, d + 1) else if m < 12 then (y, m + 1, 1) else (y + 1, 1, 1))"

definition day_number :: "int \<times> int \<times> int \<Rightarrow> int" where
  "day_number = (\<lambda>(y, m, d). days_from_civil y m d)"

text \<open>The days before the first of March of year \<open>a\<close>, and those from there to a date.\<close>

definition march_days :: "int \<Rightarrow> int" where
  "march_days a = 365 * a + a div 4 - a div 100 + a div 400"

definition month_days :: "int \<Rightarrow> int" where
  "month_days m = (153 * (m + (if m > 2 then - 3 else 9)) + 2) div 5"

lemma civil_eq:
  "days_from_civil y m d = march_days (y - (if m \<le> 2 then 1 else 0)) + month_days m + d - 719469"
proof -
  define a where "a = y - (if m \<le> 2 then 1 else 0)"
  define q where "q = a div 400"
  define r where "r = a - q * 400"
  have a: "a = r + q * 400" by (simp add: r_def)
  have "(r + q * 400) div 4 = q * 100 + r div 4" and "(r + q * 400) div 100 = q * 4 + r div 100"
    using div_mult_self1 [of 4 r "q * 100"] div_mult_self1 [of 100 r "q * 4"] by simp_all
  then have "a div 4 = q * 100 + r div 4" and "a div 100 = q * 4 + r div 100"
    by (simp_all add: a)
  then have "march_days a = 365 * r + r div 4 - r div 100 + q * 146097"
    unfolding march_days_def q_def [symmetric] using a by simp
  then show ?thesis
    unfolding days_from_civil_def month_days_def Let_def
    by (simp flip: a_def q_def r_def)
qed

lemma march_days_next:
  "march_days (y + 1) = march_days y + 337 + days_in_month (y + 1) 2"
proof -
  have step: "(y + 1) div k = y div k + (if k dvd y + 1 then 1 else 0)" if "1 < k" for k :: int
  proof -
    have "(y + 1) div k = y div k + (y mod k + 1) div k"
      using div_add1_eq [of y 1 k] that by simp
    moreover have "(y mod k + 1) div k = (if y mod k + 1 = k then 1 else 0)"
    proof (cases "y mod k + 1 = k")
      case False
      then have "0 \<le> y mod k + 1" "y mod k + 1 < k"
        using that pos_mod_bound [of k y] pos_mod_sign [of k y] by linarith+
      with False show ?thesis by simp
    qed (use that in simp)
    moreover have "k dvd y + 1 \<longleftrightarrow> y mod k + 1 = k"
    proof -
      have "k dvd y + 1 \<longleftrightarrow> k dvd y mod k + 1"
        by (metis dvd_eq_mod_eq_0 mod_add_left_eq)
      also have "\<dots> \<longleftrightarrow> y mod k + 1 = k"
      proof
        assume "k dvd y mod k + 1"
        moreover have "0 < y mod k + 1" "y mod k < k"
          using that pos_mod_bound [of k y] pos_mod_sign [of k y] by linarith+
        ultimately show "y mod k + 1 = k" using zdvd_imp_le [of k "y mod k + 1"] by linarith
      qed (metis dvd_refl)
      finally show ?thesis .
    qed
    ultimately show ?thesis by simp
  qed
  have "100 dvd y + 1 \<Longrightarrow> 4 dvd y + 1" and "400 dvd y + 1 \<Longrightarrow> 100 dvd y + 1"
    by (rule dvd_trans [of _ 100], simp, assumption | rule dvd_trans [of _ 400], simp, assumption)+
  moreover have "days_in_month (y + 1) 2
      = (if 4 dvd y + 1 \<and> (\<not> 100 dvd y + 1 \<or> 400 dvd y + 1) then 29 else 28)"
    by (simp add: days_in_month_def dvd_eq_mod_eq_0)
  moreover have "march_days (y + 1) = march_days y + 365 + (if 4 dvd y + 1 then 1 else 0)
      - (if 100 dvd y + 1 then 1 else 0) + (if 400 dvd y + 1 then 1 else 0)"
    unfolding march_days_def using step [of 4] step [of 100] step [of 400] by simp
  ultimately show ?thesis
    by (cases "4 dvd y + 1"; cases "100 dvd y + 1"; cases "400 dvd y + 1") simp_all
qed

lemma month_days_next:
  assumes "1 \<le> m" and "m \<le> 12" and "m \<noteq> 2"
  shows "month_days (if m < 12 then m + 1 else 1) = month_days m + days_in_month y m"
proof -
  have "m = 1 \<or> m = 3 \<or> m = 4 \<or> m = 5 \<or> m = 6 \<or> m = 7 \<or> m = 8 \<or> m = 9 \<or> m = 10 \<or> m = 11 \<or> m = 12"
    using assms by presburger
  then show ?thesis by (elim disjE) (simp_all add: month_days_def days_in_month_def)
qed

lemma next_day:
  assumes "valid_date x"
  shows "day_number (next_date x) = day_number x + 1"
proof -
  obtain y m d where x: "x = (y, m, d)" by (cases x)
  with assms have m: "1 \<le> m" "m \<le> 12" and d: "d \<le> days_in_month y m"
    by (auto simp: valid_date_def)
  show ?thesis
  proof (cases "d < days_in_month y m")
    case True
    then show ?thesis by (simp add: x next_date_def day_number_def civil_eq)
  next
    case False
    with d have d: "d = days_in_month y m" by simp
    show ?thesis
    proof (cases "m = 2")
      case True
      with march_days_next [of "y - 1"] show ?thesis
        by (simp add: x d next_date_def day_number_def civil_eq month_days_def)
    next
      case False
      with m month_days_next [of m y] show ?thesis
        by (auto simp: x d next_date_def day_number_def civil_eq not_less)
    qed
  qed
qed

end
