(* ===== verification/Minni_Events.thy ===== *)
theory Minni_Events
  imports Minni_Time Js_Json Processing_Lineage
begin

text \<open>
  The decoder of the producer's \<open>get_events\<close> response (\<open>src/src/domain/memory/minni-summary-contract.ts\<close>,
  lines 319 to 659): an event with its optional strings, and an optional screen observation that
  is kept only when its JSON copy has the supported shape. \<open>JSON.stringify\<close> is a parameter (None for
  a throw), \<open>JSON.parse\<close> is that of \<open>Js_Json\<close>. A frozen object is its value.
\<close>

section \<open>Shapes\<close>

definition exactKeys :: "jval \<Rightarrow> jstr list \<Rightarrow> jstr list \<Rightarrow> bool" where
  "exactKeys v required optional =
     (list_all (\<lambda>k. case k of KStr s \<Rightarrow> s \<in> set required \<union> set optional | KSym _ \<Rightarrow> False) (jkeys v)
      \<and> list_all (jhas v) required)"

definition is_string_such :: "(jstr \<Rightarrow> bool) \<Rightarrow> jval \<Rightarrow> bool" where
  "is_string_such P v = (case v of JStr s \<Rightarrow> P s | _ \<Rightarrow> False)"

definition nonEmptyReference :: "jval \<Rightarrow> bool" where
  "nonEmptyReference = is_string_such (\<lambda>s. trimmed_string s MAX_REFERENCE_UTF8_BYTES)"

definition nonEmptyTransientString :: "jval \<Rightarrow> bool" where
  "nonEmptyTransientString = is_string_such (\<lambda>s. s \<noteq> [])"

definition nonBlankString :: "jval \<Rightarrow> bool" where
  "nonBlankString = is_string_such (\<lambda>s. js_trim s \<noteq> [])"

definition isTimestamp :: "jval \<Rightarrow> bool" where
  "isTimestamp = is_string_such (\<lambda>s. parseMinniTimestamp s \<noteq> None)"

definition intervalIsOrdered :: "jstr \<Rightarrow> jstr \<Rightarrow> bool" where
  "intervalIsOrdered start end_ts = (case compareMinniTimestamps start end_ts of Some c \<Rightarrow> c \<le> 0 | None \<Rightarrow> False)"

definition positiveInteger :: "jval \<Rightarrow> bool" where
  "positiveInteger v = (safe_count v \<and> num_of v > 0)"

definition text_of :: "jval \<Rightarrow> jstr" where
  "text_of v = (case v of JStr s \<Rightarrow> s | _ \<Rightarrow> [])"

definition items_of :: "jval \<Rightarrow> jval list" where
  "items_of v = (case v of JArr vs \<Rightarrow> vs | _ \<Rightarrow> [])"

definition is_array :: "jval \<Rightarrow> bool" where
  "is_array v = (case v of JArr _ \<Rightarrow> True | _ \<Rightarrow> False)"

definition is_bool :: "jval \<Rightarrow> bool" where
  "is_bool v = (case v of JBool _ \<Rightarrow> True | _ \<Rightarrow> False)"

definition isEnum :: "jval \<Rightarrow> jstr list \<Rightarrow> bool" where
  "isEnum v names = is_string_such (\<lambda>s. s \<in> set names) v"

section \<open>Screen observations\<close>

definition OCR_OBSERVATION_COVERAGE :: "jstr list" where
  "OCR_OBSERVATION_COVERAGE = [''complete'', ''partial-cardinality-cap'', ''partial-invalid-value'']"

datatype collector_coverage =
  Coverage_complete | Partial_cardinality_cap | Partial_json_byte_cap | Partial_invalid_value

fun coverage_name :: "collector_coverage \<Rightarrow> jstr" where
  "coverage_name Coverage_complete = ''complete''"
| "coverage_name Partial_cardinality_cap = ''partial-cardinality-cap''"
| "coverage_name Partial_json_byte_cap = ''partial-json-byte-cap''"
| "coverage_name Partial_invalid_value = ''partial-invalid-value''"

definition OCR_COLLECTOR_COVERAGE :: "collector_coverage list" where
  "OCR_COLLECTOR_COVERAGE =
     [Coverage_complete, Partial_cardinality_cap, Partial_json_byte_cap, Partial_invalid_value]"

definition OCR_CAPTURE_SCOPES :: "jstr list" where
  "OCR_CAPTURE_SCOPES = [''full-window'', ''checked-web-area-regions'']"

definition OCR_BOUNDARIES :: "jstr list" where
  "OCR_BOUNDARIES = [''full-window'', ''checked-region-inset'']"

definition MINNI_GET_EVENTS_MAX_ITEMS :: nat where "MINNI_GET_EVENTS_MAX_ITEMS = 500"
definition MINNI_OCR_MAX_REGIONS :: nat where "MINNI_OCR_MAX_REGIONS = 32"
definition MINNI_OCR_MAX_TEXT_OBSERVATIONS :: nat where "MINNI_OCR_MAX_TEXT_OBSERVATIONS = 256"
definition MINNI_OCR_MAX_RECOGNITION_LANGUAGES :: nat where "MINNI_OCR_MAX_RECOGNITION_LANGUAGES = 16"
definition MINNI_OCR_MAX_LANGUAGE_UTF8_BYTES :: nat where "MINNI_OCR_MAX_LANGUAGE_UTF8_BYTES = 64"
definition MINNI_OCR_MAX_JSON_UTF8_BYTES :: nat where "MINNI_OCR_MAX_JSON_UTF8_BYTES = 65536"

definition validRect :: "jval \<Rightarrow> bool \<Rightarrow> bool" where
  "validRect v allowZero =
     (isPlainRecord v \<and> exactKeys v [''x'', ''y'', ''width'', ''height''] []
      \<and> list_all (\<lambda>k. finite_number (jget v k)) [''x'', ''y'', ''width'', ''height'']
      \<and> (if allowZero then num_of (jget v ''width'') \<ge> 0 \<and> num_of (jget v ''height'') \<ge> 0
         else num_of (jget v ''width'') > 0 \<and> num_of (jget v ''height'') > 0))"

definition validPixelSize :: "jval \<Rightarrow> bool" where
  "validPixelSize v =
     (isPlainRecord v \<and> exactKeys v [''width'', ''height''] []
      \<and> positiveInteger (jget v ''width'') \<and> positiveInteger (jget v ''height''))"

definition validCaptureInterval :: "jval \<Rightarrow> bool" where
  "validCaptureInterval v =
     (isPlainRecord v \<and> exactKeys v [''startedMs'', ''completedMs''] []
      \<and> safe_count (jget v ''startedMs'') \<and> safe_count (jget v ''completedMs'')
      \<and> num_of (jget v ''startedMs'') \<le> num_of (jget v ''completedMs''))"

definition validRequest :: "jval \<Rightarrow> bool" where
  "validRequest r =
     (isPlainRecord r
      \<and> exactKeys r [''engine'', ''revision'', ''recognitionLevel'', ''usesLanguageCorrection'',
           ''automaticallyDetectsLanguage'', ''recognitionLanguages''] []
      \<and> jget r ''engine'' = JStr ''apple-vision-text'' \<and> positiveInteger (jget r ''revision'')
      \<and> isEnum (jget r ''recognitionLevel'') [''accurate'', ''fast'']
      \<and> is_bool (jget r ''usesLanguageCorrection'') \<and> is_bool (jget r ''automaticallyDetectsLanguage'')
      \<and> is_array (jget r ''recognitionLanguages'')
      \<and> length (items_of (jget r ''recognitionLanguages'')) \<le> MINNI_OCR_MAX_RECOGNITION_LANGUAGES
      \<and> list_all (\<lambda>l. nonEmptyReference l \<and> utf8_length (text_of l) \<le> MINNI_OCR_MAX_LANGUAGE_UTF8_BYTES)
          (items_of (jget r ''recognitionLanguages'')))"

text \<open>One recognised text: inside the unit square, with a score between 0 and 1.\<close>

definition validTextObservation :: "jval \<Rightarrow> bool" where
  "validTextObservation o1 =
     (let b = jget o1 ''boundingBox''
      in isPlainRecord o1
      \<and> exactKeys o1 [''ordinal'', ''boundingBox'', ''coordinateSpace'', ''recognitionConfidence'',
           ''confidenceMeaning''] []
      \<and> safe_count (jget o1 ''ordinal'')
      \<and> validRect b True \<and> num_of (jget b ''x'') \<ge> 0 \<and> num_of (jget b ''y'') \<ge> 0
      \<and> num_of (jget b ''x'') + num_of (jget b ''width'') \<le> 1
      \<and> num_of (jget b ''y'') + num_of (jget b ''height'') \<le> 1
      \<and> jget o1 ''coordinateSpace'' = JStr ''vision-normalized-lower-left-in-region''
      \<and> finite_number (jget o1 ''recognitionConfidence'')
      \<and> 0 \<le> num_of (jget o1 ''recognitionConfidence'') \<and> num_of (jget o1 ''recognitionConfidence'') \<le> 1
      \<and> jget o1 ''confidenceMeaning'' = JStr ''vision-candidate-score'')"

text \<open>The ordinals of a region increase.\<close>

fun text_observations_ok :: "real option \<Rightarrow> jval list \<Rightarrow> bool" where
  "text_observations_ok previous [] = True"
| "text_observations_ok previous (o1 # os) =
     (validTextObservation o1
      \<and> (case previous of None \<Rightarrow> True | Some p \<Rightarrow> p < num_of (jget o1 ''ordinal''))
      \<and> text_observations_ok (Some (num_of (jget o1 ''ordinal''))) os)"

definition region_placed :: "jval \<Rightarrow> jval \<Rightarrow> bool" where
  "region_placed v r =
     (let image = jget v ''captureImagePixelSize''; size = jget r ''pixelSize'';
          rect = jget r ''sourceRectInCapturePixels''
      in if jget v ''captureScope'' = JStr ''full-window''
         then length (items_of (jget v ''regions'')) = 1 \<and> jget r ''boundary'' = JStr ''full-window''
           \<and> \<not> jhas r ''sourceRectInCapturePixels''
           \<and> num_of (jget size ''width'') = num_of (jget image ''width'')
           \<and> num_of (jget size ''height'') = num_of (jget image ''height'')
         else jget r ''boundary'' = JStr ''checked-region-inset'' \<and> rect \<noteq> JUndef
           \<and> \<bar>num_of (jget rect ''width'') - num_of (jget size ''width'')\<bar> \<le> 1 / 1000000
           \<and> \<bar>num_of (jget rect ''height'') - num_of (jget size ''height'')\<bar> \<le> 1 / 1000000
           \<and> num_of (jget rect ''x'') \<ge> 0 \<and> num_of (jget rect ''y'') \<ge> 0
           \<and> num_of (jget rect ''x'') + num_of (jget rect ''width'') \<le> num_of (jget image ''width'')
           \<and> num_of (jget rect ''y'') + num_of (jget rect ''height'') \<le> num_of (jget image ''height''))"

definition region_complete :: "jval \<Rightarrow> bool" where
  "region_complete r = (num_of (jget r ''omittedObservationCount'') = 0)"

definition region_ok :: "jval \<Rightarrow> nat \<Rightarrow> jval \<Rightarrow> bool" where
  "region_ok v i r =
     (isPlainRecord r
      \<and> exactKeys r [''ordinal'', ''pixelSize'', ''boundary'', ''textObservations'', ''candidateCoverage'',
           ''geometryCoverage'', ''omittedObservationCount''] [''sourceRectInCapturePixels'']
      \<and> jget r ''ordinal'' = JNum (Fin (real i)) \<and> validPixelSize (jget r ''pixelSize'')
      \<and> isEnum (jget r ''boundary'') OCR_BOUNDARIES \<and> is_array (jget r ''textObservations'')
      \<and> isEnum (jget r ''candidateCoverage'') OCR_OBSERVATION_COVERAGE
      \<and> isEnum (jget r ''geometryCoverage'') OCR_OBSERVATION_COVERAGE
      \<and> safe_count (jget r ''omittedObservationCount'')
      \<and> (jhas r ''sourceRectInCapturePixels'' \<longrightarrow> validRect (jget r ''sourceRectInCapturePixels'') False)
      \<and> region_placed v r
      \<and> text_observations_ok None (items_of (jget r ''textObservations''))
      \<and> length (items_of (jget r ''textObservations'')) \<le> MINNI_OCR_MAX_TEXT_OBSERVATIONS
      \<and> (if region_complete r
         then jget r ''candidateCoverage'' = JStr ''complete'' \<and> jget r ''geometryCoverage'' = JStr ''complete''
         else jget r ''candidateCoverage'' \<noteq> JStr ''complete'' \<and> jget r ''geometryCoverage'' \<noteq> JStr ''complete''))"

text \<open>The counts of what was left out, and the coverage the collector claims.\<close>

definition omissions_ok :: "jval \<Rightarrow> bool" where
  "omissions_ok v =
     (let regions = items_of (jget v ''regions'');
          local = sum_list (map (\<lambda>r. num_of (jget r ''omittedObservationCount'')) regions);
          omitted = num_of (jget v ''omittedObservationCount'')
      in if num_of (jget v ''omittedRegionCount'') = 0 then omitted = local else local \<le> omitted)"

definition nothing_omitted :: "jval \<Rightarrow> bool" where
  "nothing_omitted v =
     (num_of (jget v ''omittedRegionCount'') = 0 \<and> num_of (jget v ''omittedObservationCount'') = 0
      \<and> num_of (jget v ''omittedRecognitionLanguageCount'') = 0
      \<and> list_all region_complete (items_of (jget v ''regions'')))"

definition observation_keys :: "jstr list" where
  "observation_keys =
     [''schemaVersion'', ''channel'', ''captureInterval'', ''request'', ''captureImagePixelSize'',
      ''captureScope'', ''regions'', ''omittedRegionCount'', ''omittedObservationCount'',
      ''omittedRecognitionLanguageCount'', ''sourceClipStatus'', ''sourceTextCompleteness'',
      ''collectorCoverage'', ''identityScope'', ''timeMeaning'', ''storedTextScope'',
      ''textToObservationMapping'']"

definition validObservationProjection :: "jval \<Rightarrow> bool" where
  "validObservationProjection v =
     (isPlainRecord v \<and> exactKeys v observation_keys []
      \<and> jget v ''schemaVersion'' = JNum (Fin 1) \<and> jget v ''channel'' = JStr ''screen-ocr''
      \<and> validCaptureInterval (jget v ''captureInterval'') \<and> validPixelSize (jget v ''captureImagePixelSize'')
      \<and> isEnum (jget v ''captureScope'') OCR_CAPTURE_SCOPES
      \<and> list_all (\<lambda>k. safe_count (jget v k))
          [''omittedRegionCount'', ''omittedObservationCount'', ''omittedRecognitionLanguageCount'']
      \<and> jget v ''sourceClipStatus'' = JStr ''unknown'' \<and> jget v ''sourceTextCompleteness'' = JStr ''unknown''
      \<and> jget v ''identityScope'' = JStr ''none''
      \<and> jget v ''timeMeaning'' = JStr ''local-capture-interval-not-message-sent-time''
      \<and> jget v ''storedTextScope'' = JStr ''full-recognized-keyframe-or-novel-lines-delta''
      \<and> jget v ''textToObservationMapping'' = JStr ''none''
      \<and> validRequest (jget v ''request'')
      \<and> is_array (jget v ''regions'') \<and> items_of (jget v ''regions'') \<noteq> []
      \<and> length (items_of (jget v ''regions'')) \<le> MINNI_OCR_MAX_REGIONS
      \<and> list_all (\<lambda>(i, r). region_ok v i r) (enumerate 0 (items_of (jget v ''regions'')))
      \<and> sum_list (map (\<lambda>r. length (items_of (jget r ''textObservations''))) (items_of (jget v ''regions'')))
          \<le> MINNI_OCR_MAX_TEXT_OBSERVATIONS
      \<and> omissions_ok v
      \<and> isEnum (jget v ''collectorCoverage'') (map coverage_name OCR_COLLECTOR_COVERAGE)
      \<and> (jget v ''collectorCoverage'' = JStr ''complete'' \<longleftrightarrow> nothing_omitted v))"

definition decodeSupportedOCRObservation :: "(jval \<Rightarrow> jstr option) \<Rightarrow> jval \<Rightarrow> jval option" where
  "decodeSupportedOCRObservation stringify v =
     (if \<not> isPlainRecord v then None
      else (case stringify v of
          None \<Rightarrow> None
        | Some encoded \<Rightarrow>
            if utf8_length encoded > MINNI_OCR_MAX_JSON_UTF8_BYTES then None
            else (case json_parse encoded of
                None \<Rightarrow> None
              | Some parsed \<Rightarrow> if validObservationProjection parsed then Some parsed else None)))"

section \<open>Events\<close>

record minni_event =
  ev_id :: jstr
  ev_ts :: jstr
  ev_source :: jstr
  ev_flags :: "jstr list"
  ev_end :: "jstr option"
  ev_app :: "jstr option"
  ev_bundleId :: "jstr option"
  ev_window :: "jstr option"
  ev_url :: "jstr option"
  ev_name :: "jstr option"
  ev_kind :: "jstr option"
  ev_anchorId :: "jstr option"
  ev_conversationId :: "jstr option"
  ev_text :: jstr
  ev_observation :: "jval option"

definition EVENT_KEYS :: "jstr list" where
  "EVENT_KEYS = [''id'', ''type'', ''ts'', ''source'', ''flags'', ''text'']"

definition EVENT_TEXT_KEYS :: "jstr list" where
  "EVENT_TEXT_KEYS =
     [''end'', ''app'', ''bundleId'', ''window'', ''url'', ''name'', ''kind'', ''anchorId'', ''conversationId'']"

definition EVENT_OPTIONAL_KEYS :: "jstr list" where
  "EVENT_OPTIONAL_KEYS = EVENT_TEXT_KEYS @ [''observation'']"

definition optional_text :: "jval \<Rightarrow> jstr \<Rightarrow> jstr option" where
  "optional_text v k = (if jhas v k then str_of (jget v k) else None)"

definition event_shape :: "jval \<Rightarrow> bool" where
  "event_shape v =
     (isPlainRecord v \<and> exactKeys v EVENT_KEYS EVENT_OPTIONAL_KEYS
      \<and> nonBlankString (jget v ''id'') \<and> jget v ''type'' = JStr ''event'' \<and> isTimestamp (jget v ''ts'')
      \<and> nonEmptyTransientString (jget v ''source'')
      \<and> is_array (jget v ''flags'') \<and> list_all is_str (items_of (jget v ''flags''))
      \<and> is_str (jget v ''text'')
      \<and> (jhas v ''end'' \<longrightarrow> isTimestamp (jget v ''end'')
           \<and> intervalIsOrdered (text_of (jget v ''ts'')) (text_of (jget v ''end'')))
      \<and> list_all (\<lambda>k. jhas v k \<longrightarrow> is_str (jget v k)) EVENT_TEXT_KEYS)"

definition decodeEvent :: "(jval \<Rightarrow> jstr option) \<Rightarrow> jval \<Rightarrow> minni_event option" where
  "decodeEvent stringify v =
     (if \<not> event_shape v then None
      else Some \<lparr>ev_id = text_of (jget v ''id''), ev_ts = text_of (jget v ''ts''),
        ev_source = text_of (jget v ''source''), ev_flags = map text_of (items_of (jget v ''flags'')),
        ev_end = optional_text v ''end'', ev_app = optional_text v ''app'',
        ev_bundleId = optional_text v ''bundleId'', ev_window = optional_text v ''window'',
        ev_url = optional_text v ''url'', ev_name = optional_text v ''name'',
        ev_kind = optional_text v ''kind'', ev_anchorId = optional_text v ''anchorId'',
        ev_conversationId = optional_text v ''conversationId'', ev_text = text_of (jget v ''text''),
        ev_observation =
          (if jget v ''source'' = JStr ''minni'' \<and> jget v ''kind'' = JStr ''ocr'' \<and> jhas v ''observation''
           then decodeSupportedOCRObservation stringify (jget v ''observation'') else None)\<rparr>)"

section \<open>The response\<close>

datatype codec_refusal =
  Invalid_producer_response | Duplicate_returned_event_id | Invalid_contract | Unsupported_contract_version

datatype 'a codec_result = Accepted 'a | No_authorized_evidence | Codec_refused codec_refusal

record accepted_evidence =
  ae_items :: "minni_event list"
  ae_returned_count :: nat
  ae_local_only_withheld_count :: nat

definition count_of :: "jval \<Rightarrow> nat" where
  "count_of v = nat \<lfloor>num_of v\<rfloor>"

fun decode_items ::
  "(jval \<Rightarrow> jstr option) \<Rightarrow> jstr set \<Rightarrow> jval list \<Rightarrow> codec_refusal + minni_event list" where
  "decode_items stringify ids [] = Inr []"
| "decode_items stringify ids (raw # raws) =
     (case decodeEvent stringify raw of
        None \<Rightarrow> Inl Invalid_producer_response
      | Some ev \<Rightarrow>
          if ev_id ev \<in> ids then Inl Duplicate_returned_event_id
          else (case decode_items stringify (insert (ev_id ev) ids) raws of
              Inl why \<Rightarrow> Inl why
            | Inr evs \<Rightarrow> Inr (ev # evs)))"

definition decodeMinniGetEventsResponse ::
  "(jval \<Rightarrow> jstr option) \<Rightarrow> jval \<Rightarrow> accepted_evidence codec_result" where
  "decodeMinniGetEventsResponse stringify v =
     (if \<not> (isPlainRecord v \<and> exactKeys v [''items'', ''localOnlyWithheld''] []
             \<and> is_array (jget v ''items'')
             \<and> length (items_of (jget v ''items'')) \<le> MINNI_GET_EVENTS_MAX_ITEMS
             \<and> safe_count (jget v ''localOnlyWithheld''))
      then Codec_refused Invalid_producer_response
      else if items_of (jget v ''items'') = [] then No_authorized_evidence
      else (case decode_items stringify {} (items_of (jget v ''items'')) of
          Inl why \<Rightarrow> Codec_refused why
        | Inr evs \<Rightarrow> Accepted \<lparr>ae_items = evs, ae_returned_count = length evs,
            ae_local_only_withheld_count = count_of (jget v ''localOnlyWithheld'')\<rparr>))"

section \<open>What is accepted\<close>

definition event_ok :: "minni_event \<Rightarrow> bool" where
  "event_ok ev =
     (parseMinniTimestamp (ev_ts ev) \<noteq> None \<and> js_trim (ev_id ev) \<noteq> []
      \<and> (case ev_end ev of None \<Rightarrow> True | Some e \<Rightarrow> intervalIsOrdered (ev_ts ev) e)
      \<and> (case ev_observation ev of None \<Rightarrow> True
         | Some ob \<Rightarrow> validObservationProjection ob \<and> ev_source ev = ''minni'' \<and> ev_kind ev = Some ''ocr''))"

definition evidence_ok :: "accepted_evidence \<Rightarrow> bool" where
  "evidence_ok a =
     (ae_items a \<noteq> [] \<and> length (ae_items a) \<le> MINNI_GET_EVENTS_MAX_ITEMS
      \<and> ae_returned_count a = length (ae_items a) \<and> distinct (map ev_id (ae_items a))
      \<and> ae_local_only_withheld_count a \<le> 9007199254740991
      \<and> list_all event_ok (ae_items a))"

lemma is_string_such_text: "is_string_such P v \<Longrightarrow> v = JStr (text_of v) \<and> P (text_of v)"
  by (cases v) (auto simp: is_string_such_def text_of_def)

lemma optional_text_Some: "optional_text v k = Some s \<Longrightarrow> jhas v k \<and> jget v k = JStr s"
  by (auto simp: optional_text_def split: if_splits)

lemma observation_supported:
  "decodeSupportedOCRObservation stringify v = Some ob \<Longrightarrow> validObservationProjection ob"
  by (auto simp: decodeSupportedOCRObservation_def split: if_splits option.splits)

lemma count_of_bound: "safe_count v \<Longrightarrow> count_of v \<le> 9007199254740991"
  using safe_countD [of v] by (auto simp: count_of_def)

lemma decoded_event_ok:
  assumes "decodeEvent stringify v = Some ev"
  shows "event_ok ev"
proof -
  from assms have shape: "event_shape v" by (simp add: decodeEvent_def split: if_splits)
  have ts: "parseMinniTimestamp (ev_ts ev) \<noteq> None" and i: "js_trim (ev_id ev) \<noteq> []"
    using shape assms
    by (auto simp: decodeEvent_def event_shape_def isTimestamp_def nonBlankString_def dest!: is_string_such_text)
  have e: "intervalIsOrdered (ev_ts ev) t" if "ev_end ev = Some t" for t
    using that shape assms
    by (auto simp: decodeEvent_def event_shape_def text_of_def dest!: optional_text_Some)
  have o: "validObservationProjection ob \<and> ev_source ev = ''minni'' \<and> ev_kind ev = Some ''ocr''"
    if "ev_observation ev = Some ob" for ob
  proof -
    from that assms have src: "jget v ''source'' = JStr ''minni''" and kind: "jget v ''kind'' = JStr ''ocr''"
        and dec: "decodeSupportedOCRObservation stringify (jget v ''observation'') = Some ob"
        and fields: "ev_source ev = text_of (jget v ''source'')" "ev_kind ev = optional_text v ''kind''"
      by (auto simp: decodeEvent_def split: if_splits)
    from kind have "jhas v ''kind''" by (simp add: jget_not_undef_has)
    with src kind fields observation_supported [OF dec] show ?thesis
      by (simp add: text_of_def optional_text_def)
  qed
  show ?thesis using ts i e o by (auto simp: event_ok_def split: option.splits)
qed

lemma decode_items_ok:
  assumes "decode_items stringify ids raws = Inr evs"
  shows "length evs = length raws \<and> distinct (map ev_id evs) \<and> set (map ev_id evs) \<inter> ids = {}
    \<and> list_all event_ok evs"
  using assms
  by (induction stringify ids raws arbitrary: evs rule: decode_items.induct)
    (auto split: option.splits sum.splits if_splits dest: decoded_event_ok, fastforce+)

lemma accepted_evidence_ok:
  "decodeMinniGetEventsResponse stringify v = Accepted a \<Longrightarrow> evidence_ok a"
  by (auto simp: decodeMinniGetEventsResponse_def evidence_ok_def count_of_bound
      dest!: decode_items_ok split: if_splits sum.splits)

end
