(* ===== verification/Minni_Contract.thy ===== *)
theory Minni_Contract
  imports Minni_Events
begin

text \<open>
  The summary contract (\<open>src/src/domain/memory/minni-summary-contract.ts\<close>): its values, the classifier of
  untrusted serialised contracts, and the serialiser. A value of the record types is the object
  with the fields in the order the code writes them (\<open>contract_value\<close>).
\<close>

section \<open>Enumerations\<close>

datatype claim_state =
    Claim_requested | Claim_planned | Claim_in_progress | Claim_displayed_success | Claim_displayed_failure
  | Claim_attributed_success | Claim_attributed_failure | Claim_uncertain

fun claim_state_name :: "claim_state \<Rightarrow> jstr" where
  "claim_state_name Claim_requested = ''requested''"
| "claim_state_name Claim_planned = ''planned''"
| "claim_state_name Claim_in_progress = ''in_progress''"
| "claim_state_name Claim_displayed_success = ''displayed_success''"
| "claim_state_name Claim_displayed_failure = ''displayed_failure''"
| "claim_state_name Claim_attributed_success = ''attributed_success_claim''"
| "claim_state_name Claim_attributed_failure = ''attributed_failure_claim''"
| "claim_state_name Claim_uncertain = ''uncertain''"

definition SUMMARY_CLAIM_STATES :: "claim_state list" where
  "SUMMARY_CLAIM_STATES =
     [Claim_requested, Claim_planned, Claim_in_progress, Claim_displayed_success, Claim_displayed_failure,
      Claim_attributed_success, Claim_attributed_failure, Claim_uncertain]"

datatype uncertainty =
    Ocr_source | Source_clip_unknown | Source_completeness_unknown | Partial_delta | Anchor_unavailable
  | Contradictory_evidence | Scope_linkage_unknown

fun uncertainty_name :: "uncertainty \<Rightarrow> jstr" where
  "uncertainty_name Ocr_source = ''ocr_source''"
| "uncertainty_name Source_clip_unknown = ''source_clip_unknown''"
| "uncertainty_name Source_completeness_unknown = ''source_completeness_unknown''"
| "uncertainty_name Partial_delta = ''partial_delta''"
| "uncertainty_name Anchor_unavailable = ''anchor_unavailable''"
| "uncertainty_name Contradictory_evidence = ''contradictory_evidence''"
| "uncertainty_name Scope_linkage_unknown = ''scope_linkage_unknown''"

definition SUMMARY_UNCERTAINTIES :: "uncertainty list" where
  "SUMMARY_UNCERTAINTIES =
     [Ocr_source, Source_clip_unknown, Source_completeness_unknown, Partial_delta, Anchor_unavailable,
      Contradictory_evidence, Scope_linkage_unknown]"

definition REQUIRED_OCR_UNCERTAINTIES :: "uncertainty list" where
  "REQUIRED_OCR_UNCERTAINTIES = [Ocr_source, Source_clip_unknown, Source_completeness_unknown]"

interpretation uncertainties: canonical_enum SUMMARY_UNCERTAINTIES
  by unfold_locales (simp add: SUMMARY_UNCERTAINTIES_def)

lemma set_SUMMARY_UNCERTAINTIES [simp]: "set SUMMARY_UNCERTAINTIES = UNIV"
  by (auto simp: SUMMARY_UNCERTAINTIES_def) (metis uncertainty.exhaust)

datatype anchor_context = Anchor_not_applicable | Authorized_context | Unavailable_context

fun anchor_context_name :: "anchor_context \<Rightarrow> jstr" where
  "anchor_context_name Anchor_not_applicable = ''not_applicable''"
| "anchor_context_name Authorized_context = ''authorized_context''"
| "anchor_context_name Unavailable_context = ''unavailable_context''"

definition SUMMARY_ANCHOR_CONTEXTS :: "anchor_context list" where
  "SUMMARY_ANCHOR_CONTEXTS = [Anchor_not_applicable, Authorized_context, Unavailable_context]"

datatype conclusion = Bounded | Abstained

fun conclusion_name :: "conclusion \<Rightarrow> jstr" where
  "conclusion_name Bounded = ''bounded''"
| "conclusion_name Abstained = ''abstained''"

definition SUMMARY_CONCLUSIONS :: "conclusion list" where
  "SUMMARY_CONCLUSIONS = [Bounded, Abstained]"

text \<open>A string that names a member of a published list.\<close>

definition enum_of :: "('a \<Rightarrow> jstr) \<Rightarrow> 'a list \<Rightarrow> jval \<Rightarrow> 'a option" where
  "enum_of name xs v = Option.bind (str_of v) (named name xs)"

lemma enum_of_state [simp]: "enum_of claim_state_name SUMMARY_CLAIM_STATES (JStr (claim_state_name x)) = Some x"
  by (cases x) (simp_all add: enum_of_def str_of_def named_def SUMMARY_CLAIM_STATES_def)

lemma enum_of_uncertainty [simp]: "enum_of uncertainty_name SUMMARY_UNCERTAINTIES (JStr (uncertainty_name x)) = Some x"
  by (cases x) (simp_all add: enum_of_def str_of_def named_def SUMMARY_UNCERTAINTIES_def)

lemma enum_of_anchor [simp]: "enum_of anchor_context_name SUMMARY_ANCHOR_CONTEXTS (JStr (anchor_context_name x)) = Some x"
  by (cases x) (simp_all add: enum_of_def str_of_def named_def SUMMARY_ANCHOR_CONTEXTS_def)

lemma enum_of_conclusion [simp]: "enum_of conclusion_name SUMMARY_CONCLUSIONS (JStr (conclusion_name x)) = Some x"
  by (cases x) (simp_all add: enum_of_def str_of_def named_def SUMMARY_CONCLUSIONS_def)

lemma enum_of_coverage [simp]: "enum_of coverage_name OCR_COLLECTOR_COVERAGE (JStr (coverage_name x)) = Some x"
  by (cases x) (simp_all add: enum_of_def str_of_def named_def OCR_COLLECTOR_COVERAGE_def)

section \<open>Values\<close>

record summary_interval =
  si_start :: jstr
  si_end :: jstr

record screenshot_interval =
  ssi_started_ms :: nat
  ssi_completed_ms :: nat

record summary_collector =
  sk_coverage :: collector_coverage
  sk_omitted_regions :: nat
  sk_omitted_observations :: nat
  sk_omitted_languages :: nat

record evidence_reference =
  er_event_id :: jstr
  er_modality :: jstr
  er_interval :: summary_interval
  er_screenshot :: "screenshot_interval option"
  er_uncertainties :: "uncertainty list"
  er_anchor_context :: anchor_context
  er_anchor_id :: "jstr option"
  er_collector :: "summary_collector option"

record summary_claim =
  cl_id :: jstr
  cl_statement :: jstr
  cl_state :: claim_state
  cl_modality :: jstr
  cl_scope :: jstr
  cl_support :: "jstr list"
  cl_interval :: summary_interval
  cl_uncertainties :: "uncertainty list"
  cl_conflicts :: "jstr list"

record summary_contract =
  mc_summary :: jstr
  mc_interval :: summary_interval
  mc_returned_count :: nat
  mc_local_only_withheld_count :: nat
  mc_lineage :: lineage
  mc_evidence :: "evidence_reference list"
  mc_claims :: "summary_claim list"
  mc_conclusion :: conclusion

definition MINNI_SUMMARY_CONTRACT_VERSION :: jstr where
  "MINNI_SUMMARY_CONTRACT_VERSION = ''runir.minni.summary/v1''"

section \<open>The classifier\<close>

definition validSummaryInterval :: "jval \<Rightarrow> bool" where
  "validSummaryInterval v =
     (isPlainRecord v \<and> exactKeys v [''start'', ''end'', ''meaning''] []
      \<and> isTimestamp (jget v ''start'') \<and> isTimestamp (jget v ''end'')
      \<and> intervalIsOrdered (text_of (jget v ''start'')) (text_of (jget v ''end''))
      \<and> jget v ''meaning'' = JStr ''event_capture_or_index_interval'')"

definition interval_of :: "jval \<Rightarrow> summary_interval" where
  "interval_of v = \<lparr>si_start = text_of (jget v ''start''), si_end = text_of (jget v ''end'')\<rparr>"

text \<open>The smallest interval around several, by the exact comparison; a later equal bound is not taken.\<close>

fun interval_hull :: "summary_interval \<Rightarrow> summary_interval list \<Rightarrow> summary_interval option" where
  "interval_hull i [] = Some i"
| "interval_hull i (j # js) =
     (case (compareMinniTimestamps (si_start j) (si_start i), compareMinniTimestamps (si_end j) (si_end i)) of
        (Some s, Some e) \<Rightarrow>
          interval_hull \<lparr>si_start = (if s < 0 then si_start j else si_start i),
                si_end = (if e > 0 then si_end j else si_end i)\<rparr> js
      | _ \<Rightarrow> None)"

definition hull_of :: "summary_interval list \<Rightarrow> summary_interval option" where
  "hull_of is = (case is of [] \<Rightarrow> None | i # js \<Rightarrow> interval_hull i js)"

definition derivedEvidenceInterval :: "evidence_reference list \<Rightarrow> summary_interval option" where
  "derivedEvidenceInterval evidence = hull_of (map er_interval evidence)"

definition canonicalUncertainties :: "jval \<Rightarrow> uncertainty list option" where
  "canonicalUncertainties v =
     (case v of
        JArr items \<Rightarrow>
          (let parsed = List.map_filter (enum_of uncertainty_name SUMMARY_UNCERTAINTIES) items
           in if length parsed \<noteq> length items then None
              else Some (filter (\<lambda>u. u \<in> set parsed) SUMMARY_UNCERTAINTIES))
      | _ \<Rightarrow> None)"

definition hasRequiredOCRUncertainties :: "uncertainty list \<Rightarrow> bool" where
  "hasRequiredOCRUncertainties us = list_all (\<lambda>u. u \<in> set us) REQUIRED_OCR_UNCERTAINTIES"

definition uniqueStrings :: "jval list \<Rightarrow> jstr list option" where
  "uniqueStrings vs =
     (if \<not> list_all nonEmptyReference vs then None
      else if length (js_uniq (map text_of vs)) = length vs then Some (js_uniq (map text_of vs)) else None)"

definition validOCRScreenshotInterval :: "jval \<Rightarrow> bool" where
  "validOCRScreenshotInterval v =
     (isPlainRecord v \<and> exactKeys v [''started_ms'', ''completed_ms'', ''meaning''] []
      \<and> safe_count (jget v ''started_ms'') \<and> safe_count (jget v ''completed_ms'')
      \<and> num_of (jget v ''started_ms'') \<le> num_of (jget v ''completed_ms'')
      \<and> jget v ''meaning'' = JStr ''ocr_screenshot_capture_interval'')"

definition validCollector :: "jval \<Rightarrow> bool" where
  "validCollector v =
     (isPlainRecord v
      \<and> exactKeys v [''collector_coverage'', ''omitted_region_count'', ''omitted_observation_count'',
           ''omitted_recognition_language_count''] []
      \<and> enum_of coverage_name OCR_COLLECTOR_COVERAGE (jget v ''collector_coverage'') \<noteq> None
      \<and> safe_count (jget v ''omitted_region_count'') \<and> safe_count (jget v ''omitted_observation_count'')
      \<and> safe_count (jget v ''omitted_recognition_language_count''))"

definition screenshot_of :: "jval \<Rightarrow> screenshot_interval" where
  "screenshot_of v = \<lparr>ssi_started_ms = count_of (jget v ''started_ms''),
     ssi_completed_ms = count_of (jget v ''completed_ms'')\<rparr>"

definition collector_of :: "jval \<Rightarrow> summary_collector" where
  "collector_of v =
     \<lparr>sk_coverage = the (enum_of coverage_name OCR_COLLECTOR_COVERAGE (jget v ''collector_coverage'')),
      sk_omitted_regions = count_of (jget v ''omitted_region_count''),
      sk_omitted_observations = count_of (jget v ''omitted_observation_count''),
      sk_omitted_languages = count_of (jget v ''omitted_recognition_language_count'')\<rparr>"

text \<open>A property that is read only when the object has it.\<close>

definition own :: "jval \<Rightarrow> jstr \<Rightarrow> (jval \<Rightarrow> 'a) \<Rightarrow> 'a option" where
  "own v k f = (if jhas v k then Some (f (jget v k)) else None)"

definition evidence_shape :: "jval \<Rightarrow> bool" where
  "evidence_shape v =
     (isPlainRecord v
      \<and> exactKeys v [''event_id'', ''modality'', ''event_capture_or_index_interval'', ''uncertainties'',
           ''anchor_context''] [''ocr_screenshot_capture_interval'', ''anchor_id'', ''ocr_collector'']
      \<and> nonEmptyReference (jget v ''event_id'') \<and> nonEmptyReference (jget v ''modality'')
      \<and> validSummaryInterval (jget v ''event_capture_or_index_interval''))"

text \<open>The optional parts: a screen observation needs its uncertainties, an anchor its context.\<close>

definition evidence_extras :: "jval \<Rightarrow> anchor_context \<Rightarrow> uncertainty list \<Rightarrow> bool" where
  "evidence_extras v anchor us =
     (\<not> ((jget v ''modality'' = JStr ''screen_ocr'' \<or> jhas v ''ocr_screenshot_capture_interval''
            \<or> jhas v ''ocr_collector'') \<and> \<not> hasRequiredOCRUncertainties us)
      \<and> \<not> (jhas v ''ocr_screenshot_capture_interval''
           \<and> \<not> validOCRScreenshotInterval (jget v ''ocr_screenshot_capture_interval''))
      \<and> \<not> (jhas v ''ocr_collector'' \<and> \<not> validCollector (jget v ''ocr_collector''))
      \<and> \<not> (if anchor = Authorized_context
             then \<not> jhas v ''anchor_id'' \<or> \<not> nonEmptyReference (jget v ''anchor_id'')
             else jhas v ''anchor_id''))"

definition validateEvidenceReference :: "jval \<Rightarrow> evidence_reference option" where
  "validateEvidenceReference v =
     (if \<not> evidence_shape v then None
      else (case (enum_of anchor_context_name SUMMARY_ANCHOR_CONTEXTS (jget v ''anchor_context''),
                  canonicalUncertainties (jget v ''uncertainties'')) of
          (Some anchor, Some us) \<Rightarrow>
            if \<not> evidence_extras v anchor us then None
            else Some \<lparr>er_event_id = text_of (jget v ''event_id''), er_modality = text_of (jget v ''modality''),
                er_interval = interval_of (jget v ''event_capture_or_index_interval''),
                er_screenshot = own v ''ocr_screenshot_capture_interval'' screenshot_of,
                er_uncertainties = us, er_anchor_context = anchor,
                er_anchor_id = own v ''anchor_id'' text_of,
                er_collector = own v ''ocr_collector'' collector_of\<rparr>
        | _ \<Rightarrow> None))"

definition claim_shape :: "jval \<Rightarrow> bool" where
  "claim_shape v =
     (isPlainRecord v
      \<and> exactKeys v [''id'', ''statement'', ''state'', ''modality'', ''scope'', ''support_event_ids'',
           ''event_capture_or_index_interval'', ''uncertainties'', ''conflicts''] []
      \<and> nonEmptyReference (jget v ''id'') \<and> nonBlankString (jget v ''statement'')
      \<and> nonEmptyReference (jget v ''modality'') \<and> nonEmptyReference (jget v ''scope'')
      \<and> validSummaryInterval (jget v ''event_capture_or_index_interval'')
      \<and> is_array (jget v ''support_event_ids'') \<and> items_of (jget v ''support_event_ids'') \<noteq> []
      \<and> is_array (jget v ''conflicts''))"

definition validateClaim :: "jval \<Rightarrow> summary_claim option" where
  "validateClaim v =
     (if \<not> claim_shape v then None
      else (case (enum_of claim_state_name SUMMARY_CLAIM_STATES (jget v ''state''),
                  uniqueStrings (items_of (jget v ''support_event_ids'')),
                  uniqueStrings (items_of (jget v ''conflicts'')),
                  canonicalUncertainties (jget v ''uncertainties'')) of
          (Some state, Some support, Some conflicts, Some us) \<Rightarrow>
            if text_of (jget v ''id'') \<in> set conflicts then None
            else if jget v ''modality'' = JStr ''screen_ocr'' \<and> \<not> hasRequiredOCRUncertainties us then None
            else Some \<lparr>cl_id = text_of (jget v ''id''), cl_statement = text_of (jget v ''statement''),
                cl_state = state, cl_modality = text_of (jget v ''modality''),
                cl_scope = text_of (jget v ''scope''), cl_support = support,
                cl_interval = interval_of (jget v ''event_capture_or_index_interval''),
                cl_uncertainties = us, cl_conflicts = conflicts\<rparr>
        | _ \<Rightarrow> None))"

definition validateLineage :: "jval \<Rightarrow> lineage option" where
  "validateLineage v = (case classifyProcessingLineage v of Minni_verified l \<Rightarrow> Some l | _ \<Rightarrow> None)"

fun validate_evidence :: "jstr set \<Rightarrow> jval list \<Rightarrow> evidence_reference list option" where
  "validate_evidence ids [] = Some []"
| "validate_evidence ids (raw # raws) =
     (case validateEvidenceReference raw of
        None \<Rightarrow> None
      | Some r \<Rightarrow> if er_event_id r \<in> ids then None
          else map_option ((#) r) (validate_evidence (insert (er_event_id r) ids) raws))"

text \<open>The evidence a claim names, in its order.\<close>

definition support_of :: "evidence_reference list \<Rightarrow> jstr list \<Rightarrow> evidence_reference list" where
  "support_of evidence ids = List.map_filter (\<lambda>i. find (\<lambda>r. er_event_id r = i) evidence) ids"

definition claim_supported :: "evidence_reference list \<Rightarrow> summary_claim \<Rightarrow> bool" where
  "claim_supported evidence c =
     (set (cl_support c) \<subseteq> set (map er_event_id evidence)
      \<and> derivedEvidenceInterval (support_of evidence (cl_support c)) = Some (cl_interval c))"

fun validate_claims :: "evidence_reference list \<Rightarrow> jstr set \<Rightarrow> jval list \<Rightarrow> summary_claim list option" where
  "validate_claims evidence ids [] = Some []"
| "validate_claims evidence ids (raw # raws) =
     (case validateClaim raw of
        None \<Rightarrow> None
      | Some c \<Rightarrow> if cl_id c \<in> ids \<or> \<not> claim_supported evidence c then None
          else map_option ((#) c) (validate_claims evidence (insert (cl_id c) ids) raws))"

definition anchors_known :: "evidence_reference list \<Rightarrow> bool" where
  "anchors_known evidence =
     list_all (\<lambda>r. er_anchor_context r \<noteq> Authorized_context
       \<or> (case er_anchor_id r of None \<Rightarrow> False
          | Some a \<Rightarrow> a \<noteq> er_event_id r \<and> a \<in> set (map er_event_id evidence))) evidence"

definition conflicts_symmetric :: "summary_claim list \<Rightarrow> bool" where
  "conflicts_symmetric claims =
     list_all (\<lambda>c. list_all (\<lambda>i. case find (\<lambda>d. cl_id d = i) claims of
         None \<Rightarrow> False | Some d \<Rightarrow> cl_id c \<in> set (cl_conflicts d)) (cl_conflicts c)) claims"

definition conflict_evidence_ids :: "summary_claim list \<Rightarrow> jstr list" where
  "conflict_evidence_ids claims = concat (map cl_support (filter (\<lambda>c. cl_conflicts c \<noteq> []) claims))"

definition conflicts_marked :: "evidence_reference list \<Rightarrow> summary_claim list \<Rightarrow> bool" where
  "conflicts_marked evidence claims =
     (list_all (\<lambda>c. cl_conflicts c = [] \<or> Contradictory_evidence \<in> set (cl_uncertainties c)) claims
      \<and> list_all (\<lambda>r. er_event_id r \<notin> set (conflict_evidence_ids claims)
          \<or> Contradictory_evidence \<in> set (er_uncertainties r)) evidence)"

definition contract_keys :: "jstr list" where
  "contract_keys = [''version'', ''summary'', ''event_capture_or_index_interval'', ''evidence_counts'',
     ''processing_lineage'', ''evidence'', ''claims'', ''conclusion'']"

definition contract_shape :: "jval \<Rightarrow> bool" where
  "contract_shape v =
     (let counts = jget v ''evidence_counts''
      in exactKeys v contract_keys [] \<and> nonBlankString (jget v ''summary'')
          \<and> validSummaryInterval (jget v ''event_capture_or_index_interval'')
          \<and> enum_of conclusion_name SUMMARY_CONCLUSIONS (jget v ''conclusion'') \<noteq> None
          \<and> isPlainRecord counts \<and> exactKeys counts [''returned_count'', ''local_only_withheld_count''] []
          \<and> safe_count (jget counts ''returned_count'') \<and> safe_count (jget counts ''local_only_withheld_count'')
          \<and> is_array (jget v ''evidence'') \<and> is_array (jget v ''claims''))"

definition contract_sizes :: "jval \<Rightarrow> bool" where
  "contract_sizes v =
     (length (items_of (jget v ''evidence'')) \<le> MINNI_GET_EVENTS_MAX_ITEMS \<and> items_of (jget v ''claims'') \<noteq> []
      \<and> count_of (jget (jget v ''evidence_counts'') ''returned_count'') = length (items_of (jget v ''evidence'')))"

text \<open>The parts of a contract of the right shape, before the rules between claims.\<close>

definition contract_parts ::
  "jval \<Rightarrow> (lineage \<times> evidence_reference list \<times> summary_claim list) option" where
  "contract_parts v =
     (case validateLineage (jget v ''processing_lineage'') of
        None \<Rightarrow> None
      | Some lineage \<Rightarrow>
     (case validate_evidence {} (items_of (jget v ''evidence'')) of
        None \<Rightarrow> None
      | Some evidence \<Rightarrow>
          if derivedEvidenceInterval evidence \<noteq> Some (interval_of (jget v ''event_capture_or_index_interval''))
          then None
          else if \<not> anchors_known evidence then None
          else (case validate_claims evidence {} (items_of (jget v ''claims'')) of
              None \<Rightarrow> None
            | Some claims \<Rightarrow> Some (lineage, evidence, claims))))"

definition validateContract :: "jval \<Rightarrow> summary_contract codec_result" where
  "validateContract v =
     (if \<not> isPlainRecord v then Codec_refused Invalid_contract
      else if jget v ''version'' \<noteq> JStr MINNI_SUMMARY_CONTRACT_VERSION
      then Codec_refused Unsupported_contract_version
      else if \<not> contract_shape v then Codec_refused Invalid_contract
      else if items_of (jget v ''evidence'') = [] then No_authorized_evidence
      else if \<not> contract_sizes v then Codec_refused Invalid_contract
      else (case contract_parts v of
          None \<Rightarrow> Codec_refused Invalid_contract
        | Some (lineage, evidence, claims) \<Rightarrow>
            if \<not> conflicts_symmetric claims \<or> \<not> conflicts_marked evidence claims
            then Codec_refused Invalid_contract
            else Accepted \<lparr>mc_summary = text_of (jget v ''summary''),
              mc_interval = interval_of (jget v ''event_capture_or_index_interval''),
              mc_returned_count = count_of (jget (jget v ''evidence_counts'') ''returned_count''),
              mc_local_only_withheld_count = count_of (jget (jget v ''evidence_counts'') ''local_only_withheld_count''),
              mc_lineage = lineage, mc_evidence = evidence, mc_claims = claims,
              mc_conclusion = the (enum_of conclusion_name SUMMARY_CONCLUSIONS (jget v ''conclusion''))\<rparr>))"

definition classifyMinniSummaryContract :: "jval \<Rightarrow> summary_contract codec_result" where
  "classifyMinniSummaryContract v = (if nullish v then No_authorized_evidence else validateContract v)"

text \<open>The left side is the result whose reason the \<open>TypeError\<close> carries.\<close>

definition serializeMinniSummaryContract ::
  "jval \<Rightarrow> summary_contract codec_result + summary_contract" where
  "serializeMinniSummaryContract v =
     (case classifyMinniSummaryContract v of Accepted c \<Rightarrow> Inr c | refused \<Rightarrow> Inl refused)"

section \<open>The values as objects\<close>

definition interval_value :: "summary_interval \<Rightarrow> jval" where
  "interval_value i = obj [(''start'', JStr (si_start i)), (''end'', JStr (si_end i)),
     (''meaning'', JStr ''event_capture_or_index_interval'')]"

definition count_value :: "nat \<Rightarrow> jval" where
  "count_value n = JNum (Fin (real n))"

definition screenshot_value :: "screenshot_interval \<Rightarrow> jval" where
  "screenshot_value s = obj [(''started_ms'', count_value (ssi_started_ms s)),
     (''completed_ms'', count_value (ssi_completed_ms s)),
     (''meaning'', JStr ''ocr_screenshot_capture_interval'')]"

definition collector_value :: "summary_collector \<Rightarrow> jval" where
  "collector_value k = obj [(''collector_coverage'', JStr (coverage_name (sk_coverage k))),
     (''omitted_region_count'', count_value (sk_omitted_regions k)),
     (''omitted_observation_count'', count_value (sk_omitted_observations k)),
     (''omitted_recognition_language_count'', count_value (sk_omitted_languages k))]"

definition optional_field :: "jstr \<Rightarrow> ('a \<Rightarrow> jval) \<Rightarrow> 'a option \<Rightarrow> (jstr \<times> jval) list" where
  "optional_field k f x = (case x of None \<Rightarrow> [] | Some y \<Rightarrow> [(k, f y)])"

definition uncertainties_value :: "uncertainty list \<Rightarrow> jval" where
  "uncertainties_value us = JArr (map (\<lambda>u. JStr (uncertainty_name u)) us)"

definition evidence_value :: "evidence_reference \<Rightarrow> jval" where
  "evidence_value r = obj
     ([(''event_id'', JStr (er_event_id r)), (''modality'', JStr (er_modality r)),
       (''event_capture_or_index_interval'', interval_value (er_interval r))]
      @ optional_field ''ocr_screenshot_capture_interval'' screenshot_value (er_screenshot r)
      @ [(''uncertainties'', uncertainties_value (er_uncertainties r)),
         (''anchor_context'', JStr (anchor_context_name (er_anchor_context r)))]
      @ optional_field ''anchor_id'' JStr (er_anchor_id r)
      @ optional_field ''ocr_collector'' collector_value (er_collector r))"

definition claim_value :: "summary_claim \<Rightarrow> jval" where
  "claim_value c = obj
     [(''id'', JStr (cl_id c)), (''statement'', JStr (cl_statement c)),
      (''state'', JStr (claim_state_name (cl_state c))), (''modality'', JStr (cl_modality c)),
      (''scope'', JStr (cl_scope c)), (''support_event_ids'', JArr (map JStr (cl_support c))),
      (''event_capture_or_index_interval'', interval_value (cl_interval c)),
      (''uncertainties'', uncertainties_value (cl_uncertainties c)),
      (''conflicts'', JArr (map JStr (cl_conflicts c)))]"

definition contract_value :: "summary_contract \<Rightarrow> jval" where
  "contract_value c = obj
     [(''version'', JStr MINNI_SUMMARY_CONTRACT_VERSION), (''summary'', JStr (mc_summary c)),
      (''event_capture_or_index_interval'', interval_value (mc_interval c)),
      (''evidence_counts'', obj [(''returned_count'', count_value (mc_returned_count c)),
         (''local_only_withheld_count'', count_value (mc_local_only_withheld_count c))]),
      (''processing_lineage'', lineage_value (mc_lineage c)),
      (''evidence'', JArr (map evidence_value (mc_evidence c))),
      (''claims'', JArr (map claim_value (mc_claims c))),
      (''conclusion'', JStr (conclusion_name (mc_conclusion c)))]"

end
