(* ===== verification/Minni_Builder.thy ===== *)
theory Minni_Builder
  imports Minni_Contract
begin

text \<open>
  The builder of summary contracts (\<open>src/src/domain/memory/minni-summary-builder.ts\<close>): the evidence is
  decoded again before anything else is read, then lineages and claims are checked, the contract is
  assembled from the events, and the serialiser has the last word. A set of uncertainties is a
  list, whose order never shows since it is put in the published order. The builder may throw only
  where the join of lineages does (left side of the result).
\<close>

section \<open>Reading the evidence\<close>

fun codec_refusal_name :: "codec_refusal \<Rightarrow> jstr" where
  "codec_refusal_name Invalid_producer_response = ''invalid_producer_response''"
| "codec_refusal_name Duplicate_returned_event_id = ''duplicate_returned_event_id''"
| "codec_refusal_name Invalid_contract = ''invalid_contract''"
| "codec_refusal_name Unsupported_contract_version = ''unsupported_contract_version''"

definition codec_refusals :: "codec_refusal list" where
  "codec_refusals =
     [Invalid_producer_response, Duplicate_returned_event_id, Invalid_contract, Unsupported_contract_version]"

definition isNoAuthorizedEvidence :: "jval \<Rightarrow> bool" where
  "isNoAuthorizedEvidence v =
     (isPlainRecord v \<and> jget v ''ok'' = JBool False \<and> jget v ''reason'' = JStr ''no_authorized_evidence''
      \<and> jget v ''contentFree'' = JBool True \<and> exactKeys v [''ok'', ''reason'', ''contentFree''] [])"

definition codec_refusal_of :: "jval \<Rightarrow> codec_refusal option" where
  "codec_refusal_of v =
     (if isPlainRecord v \<and> jget v ''ok'' = JBool False \<and> jget v ''contentFree'' = JBool True
         \<and> exactKeys v [''ok'', ''reason'', ''contentFree''] []
      then enum_of codec_refusal_name codec_refusals (jget v ''reason'') else None)"

definition decodeAcceptedEvidence ::
  "(jval \<Rightarrow> jstr option) \<Rightarrow> jval \<Rightarrow> accepted_evidence codec_result option" where
  "decodeAcceptedEvidence stringify v =
     (if \<not> (isPlainRecord v \<and> exactKeys v [''items'', ''returned_count'', ''local_only_withheld_count''] []
            \<and> is_array (jget v ''items'') \<and> safe_count (jget v ''returned_count'')
            \<and> safe_count (jget v ''local_only_withheld_count'')
            \<and> count_of (jget v ''returned_count'') = length (items_of (jget v ''items'')))
      then None
      else Some (decodeMinniGetEventsResponse stringify
             (obj [(''items'', jget v ''items''),
                   (''localOnlyWithheld'', jget v ''local_only_withheld_count'')])))"

definition unwrapEvidence ::
  "(jval \<Rightarrow> jstr option) \<Rightarrow> jval \<Rightarrow> accepted_evidence codec_result option" where
  "unwrapEvidence stringify v =
     (if isNoAuthorizedEvidence v then Some No_authorized_evidence
      else (case codec_refusal_of v of
          Some why \<Rightarrow> Some (Codec_refused why)
        | None \<Rightarrow>
            if isPlainRecord v \<and> jhas v ''ok''
            then (if jget v ''ok'' \<noteq> JBool True \<or> \<not> jhas v ''value'' then None
                  else decodeAcceptedEvidence stringify (jget v ''value''))
            else decodeAcceptedEvidence stringify v))"

definition readEvidenceBeforeTransientInput ::
  "(jval \<Rightarrow> jstr option) \<Rightarrow> jval \<Rightarrow> accepted_evidence codec_result option" where
  "readEvidenceBeforeTransientInput stringify v =
     (if \<not> isPlainRecord v \<or> \<not> jhas v ''evidence'' then None else unwrapEvidence stringify (jget v ''evidence''))"

section \<open>Claims\<close>

record claim_input =
  ic_id :: jstr
  ic_statement :: jstr
  ic_state :: claim_state
  ic_modality :: jstr
  ic_scope :: jstr
  ic_support :: "jstr list"
  ic_conflicts :: "jstr list"
  ic_scope_linkage_unknown :: bool

definition claim_input_shape :: "jval \<Rightarrow> bool" where
  "claim_input_shape v =
     (isPlainRecord v
      \<and> exactKeys v [''id'', ''statement'', ''state'', ''modality'', ''scope'', ''support_event_ids'']
           [''conflicts'', ''scope_linkage_unknown'']
      \<and> nonEmptyReference (jget v ''id'') \<and> nonBlankString (jget v ''statement'')
      \<and> nonEmptyReference (jget v ''modality'') \<and> nonEmptyReference (jget v ''scope'')
      \<and> is_array (jget v ''support_event_ids'') \<and> items_of (jget v ''support_event_ids'') \<noteq> []
      \<and> list_all nonEmptyReference (items_of (jget v ''support_event_ids''))
      \<and> distinct (map text_of (items_of (jget v ''support_event_ids''))))"

definition conflicts_field :: "jval \<Rightarrow> jval" where
  "conflicts_field v = (if jhas v ''conflicts'' then jget v ''conflicts'' else JArr [])"

definition claim_conflicts_shape :: "jval \<Rightarrow> bool" where
  "claim_conflicts_shape v =
     (is_array (conflicts_field v) \<and> list_all nonEmptyReference (items_of (conflicts_field v))
      \<and> distinct (map text_of (items_of (conflicts_field v)))
      \<and> text_of (jget v ''id'') \<notin> set (map text_of (items_of (conflicts_field v))))"

definition linkage_field :: "jval \<Rightarrow> bool option" where
  "linkage_field v =
     (if jhas v ''scope_linkage_unknown''
      then (case jget v ''scope_linkage_unknown'' of JBool b \<Rightarrow> Some b | _ \<Rightarrow> None) else Some False)"

definition claim_input_of :: "jval \<Rightarrow> claim_input option" where
  "claim_input_of v =
     (if \<not> claim_input_shape v then None
      else (case (enum_of claim_state_name SUMMARY_CLAIM_STATES (jget v ''state''), linkage_field v) of
          (Some state, Some linkage) \<Rightarrow>
            if \<not> claim_conflicts_shape v then None
            else Some \<lparr>ic_id = text_of (jget v ''id''), ic_statement = text_of (jget v ''statement''),
                ic_state = state, ic_modality = text_of (jget v ''modality''), ic_scope = text_of (jget v ''scope''),
                ic_support = map text_of (items_of (jget v ''support_event_ids'')),
                ic_conflicts = map text_of (items_of (conflicts_field v)),
                ic_scope_linkage_unknown = linkage\<rparr>
        | _ \<Rightarrow> None))"

fun read_claim_inputs :: "jstr set \<Rightarrow> jval list \<Rightarrow> claim_input list option" where
  "read_claim_inputs ids [] = Some []"
| "read_claim_inputs ids (raw # raws) =
     (case claim_input_of raw of
        None \<Rightarrow> None
      | Some c \<Rightarrow> if ic_id c \<in> ids then None
          else map_option ((#) c) (read_claim_inputs (insert (ic_id c) ids) raws))"

definition validateClaimInputs :: "jval \<Rightarrow> claim_input list option" where
  "validateClaimInputs v =
     (if \<not> is_array v \<or> items_of v = [] \<or> length (items_of v) > 500 then None
      else (case read_claim_inputs {} (items_of v) of
          None \<Rightarrow> None
        | Some claims \<Rightarrow>
            if list_all (\<lambda>c. set (ic_conflicts c) \<subseteq> set (map ic_id claims)) claims then Some claims else None))"

section \<open>Lineages\<close>

text \<open>The lineages by event, in the order given.\<close>

fun read_lineages :: "jstr list \<Rightarrow> jval list \<Rightarrow> (jstr \<times> classified) list \<Rightarrow> (jstr \<times> classified) list option" where
  "read_lineages eventIds [] m = Some m"
| "read_lineages eventIds (raw # raws) m =
     (if \<not> (isPlainRecord raw \<and> exactKeys raw [''event_id'', ''processing_lineage''] []
            \<and> nonEmptyReference (jget raw ''event_id'') \<and> text_of (jget raw ''event_id'') \<in> set eventIds
            \<and> text_of (jget raw ''event_id'') \<notin> fst ` set m
            \<and> jget raw ''processing_lineage'' \<noteq> JUndef)
      then None
      else read_lineages eventIds raws
             (m @ [(text_of (jget raw ''event_id''), classifyProcessingLineage (jget raw ''processing_lineage''))]))"

fun join_rest :: "classified \<Rightarrow> classified list \<Rightarrow> lineage_error + classified option" where
  "join_rest joined [] = Inr (Some joined)"
| "join_rest joined (c # cs) =
     (case conservativeJoin joined c of
        Inl err \<Rightarrow> Inl err
      | Inr (Joined l) \<Rightarrow> join_rest (Minni_verified l) cs
      | Inr (Join_refused why) \<Rightarrow> Inr None)"

definition join_events :: "classified list \<Rightarrow> lineage_error + lineage option" where
  "join_events cs =
     (case cs of
        [] \<Rightarrow> Inr None
      | c # rest \<Rightarrow>
         (case join_rest c rest of
            Inl err \<Rightarrow> Inl err
          | Inr (Some (Minni_verified l)) \<Rightarrow> Inr (Some l)
          | Inr _ \<Rightarrow> Inr None))"

definition validateLineageInputs :: "jval \<Rightarrow> jstr list \<Rightarrow> lineage_error + lineage option" where
  "validateLineageInputs v eventIds =
     (if \<not> is_array v \<or> length (items_of v) \<noteq> length eventIds then Inr None
      else (case read_lineages eventIds (items_of v) [] of
          None \<Rightarrow> Inr None
        | Some byEventId \<Rightarrow>
            if length byEventId \<noteq> length eventIds then Inr None
            else if list_all (\<lambda>i. map_of byEventId i \<noteq> None) eventIds
            then join_events (map (\<lambda>i. the (map_of byEventId i)) eventIds)
            else Inr None))"

section \<open>Evidence references\<close>

definition eventInterval :: "minni_event \<Rightarrow> summary_interval" where
  "eventInterval ev =
     \<lparr>si_start = ev_ts ev, si_end = (case ev_end ev of Some e \<Rightarrow> e | None \<Rightarrow> ev_ts ev)\<rparr>"

definition derivedInterval :: "minni_event list \<Rightarrow> summary_interval option" where
  "derivedInterval events = hull_of (map eventInterval events)"

definition isOCR :: "minni_event \<Rightarrow> bool" where
  "isOCR ev = (ev_source ev = ''minni'' \<and> ev_kind ev = Some ''ocr'')"

definition isDelta :: "minni_event \<Rightarrow> bool" where
  "isDelta ev = (''delta'' \<in> set (ev_flags ev))"

definition eventUncertainties :: "minni_event \<Rightarrow> uncertainty list" where
  "eventUncertainties ev =
     (if isOCR ev then [Ocr_source, Source_clip_unknown, Source_completeness_unknown] else [])
     @ (if isDelta ev then [Partial_delta] else [])"

definition anchorForEvent :: "minni_event \<Rightarrow> jstr list \<Rightarrow> anchor_context \<times> jstr option \<times> uncertainty list" where
  "anchorForEvent ev eventIds =
     (if ev_anchorId ev = None \<and> \<not> isDelta ev then (Anchor_not_applicable, None, [])
      else (case ev_anchorId ev of
          Some a \<Rightarrow> if a \<noteq> ev_id ev \<and> a \<in> set eventIds then (Authorized_context, Some a, [])
                    else (Unavailable_context, None, [Anchor_unavailable])
        | None \<Rightarrow> (Unavailable_context, None, [Anchor_unavailable])))"

definition canonical_list :: "uncertainty list \<Rightarrow> uncertainty list" where
  "canonical_list us = filter (\<lambda>u. u \<in> set us) SUMMARY_UNCERTAINTIES"

definition uncertainties_of :: "minni_event \<Rightarrow> jstr list \<Rightarrow> uncertainty list" where
  "uncertainties_of ev eventIds = eventUncertainties ev @ snd (snd (anchorForEvent ev eventIds))"

definition screenshot_part :: "jval \<Rightarrow> screenshot_interval" where
  "screenshot_part ob = \<lparr>ssi_started_ms = count_of (jget (jget ob ''captureInterval'') ''startedMs''),
     ssi_completed_ms = count_of (jget (jget ob ''captureInterval'') ''completedMs'')\<rparr>"

definition collector_part :: "jval \<Rightarrow> summary_collector" where
  "collector_part ob =
     \<lparr>sk_coverage = the (enum_of coverage_name OCR_COLLECTOR_COVERAGE (jget ob ''collectorCoverage'')),
      sk_omitted_regions = count_of (jget ob ''omittedRegionCount''),
      sk_omitted_observations = count_of (jget ob ''omittedObservationCount''),
      sk_omitted_languages = count_of (jget ob ''omittedRecognitionLanguageCount'')\<rparr>"

definition buildEvidenceReference :: "minni_event \<Rightarrow> jstr list \<Rightarrow> evidence_reference" where
  "buildEvidenceReference ev eventIds =
     (let observation = (if isOCR ev then ev_observation ev else None);
          anchor = anchorForEvent ev eventIds
      in \<lparr>er_event_id = ev_id ev, er_modality = (if isOCR ev then ''screen_ocr'' else ''event''),
          er_interval = eventInterval ev, er_screenshot = map_option screenshot_part observation,
          er_uncertainties = canonical_list (uncertainties_of ev eventIds),
          er_anchor_context = fst anchor, er_anchor_id = fst (snd anchor),
          er_collector = map_option collector_part observation\<rparr>)"

section \<open>Conflicts and claims\<close>

fun mark_conflicts :: "jstr list \<Rightarrow> jstr \<Rightarrow> jstr list \<Rightarrow> (jstr \<Rightarrow> jstr list option)
    \<Rightarrow> (jstr \<Rightarrow> jstr list option) option" where
  "mark_conflicts ids me [] sets = Some sets"
| "mark_conflicts ids me (i # is) sets =
     (if i \<notin> set ids then None
      else (case sets me of
          None \<Rightarrow> None
        | Some mine \<Rightarrow>
           (let sets1 = sets(me \<mapsto> i # mine)
            in case sets1 i of
                 None \<Rightarrow> None
               | Some others \<Rightarrow> mark_conflicts ids me is (sets1(i \<mapsto> me # others)))))"

fun mark_all :: "jstr list \<Rightarrow> claim_input list \<Rightarrow> (jstr \<Rightarrow> jstr list option)
    \<Rightarrow> (jstr \<Rightarrow> jstr list option) option" where
  "mark_all ids [] sets = Some sets"
| "mark_all ids (c # cs) sets =
     (if sets (ic_id c) = None then None
      else (case mark_conflicts ids (ic_id c) (ic_conflicts c) sets of
          None \<Rightarrow> None
        | Some sets' \<Rightarrow> mark_all ids cs sets'))"

definition conflictSets :: "claim_input list \<Rightarrow> (jstr \<Rightarrow> jstr list option) option" where
  "conflictSets claims =
     mark_all (map ic_id claims) claims (\<lambda>i. if i \<in> set (map ic_id claims) then Some [] else None)"

definition claimConflictsInCanonicalOrder :: "jstr \<Rightarrow> jstr list \<Rightarrow> claim_input list \<Rightarrow> jstr list" where
  "claimConflictsInCanonicalOrder claimId conflicts claims =
     map ic_id (filter (\<lambda>c. ic_id c \<noteq> claimId \<and> ic_id c \<in> set conflicts) claims)"

text \<open>The events a claim names, if all are known.\<close>

fun support_events :: "minni_event list \<Rightarrow> jstr list \<Rightarrow> minni_event list option" where
  "support_events events [] = Some []"
| "support_events events (i # is) =
     (case find (\<lambda>ev. ev_id ev = i) events of
        None \<Rightarrow> None
      | Some ev \<Rightarrow> map_option ((#) ev) (support_events events is))"

definition buildClaim ::
  "minni_event list \<Rightarrow> claim_input list \<Rightarrow> claim_input \<Rightarrow> jstr list \<Rightarrow> summary_claim option" where
  "buildClaim events claims input conflictIds =
     (case support_events events (ic_support input) of
        None \<Rightarrow> None
      | Some evs \<Rightarrow>
         (let us = concat (map (\<lambda>ev. uncertainties_of ev (map ev_id events)) evs)
              @ (if ic_scope_linkage_unknown input then [Scope_linkage_unknown] else [])
              @ (if conflictIds \<noteq> [] then [Contradictory_evidence] else [])
          in case derivedInterval evs of
               None \<Rightarrow> None
             | Some interval \<Rightarrow>
                 Some \<lparr>cl_id = ic_id input, cl_statement = ic_statement input, cl_state = ic_state input,
                   cl_modality = ic_modality input, cl_scope = ic_scope input, cl_support = ic_support input,
                   cl_interval = interval, cl_uncertainties = canonical_list us,
                   cl_conflicts = claimConflictsInCanonicalOrder (ic_id input) conflictIds claims\<rparr>))"

section \<open>The builder\<close>

record builder_input =
  bi_summary :: jstr
  bi_lineages :: jval
  bi_claims :: jval
  bi_conclusion :: "conclusion option"

definition normalizeBuilderInput :: "jval \<Rightarrow> builder_input option" where
  "normalizeBuilderInput v =
     (if \<not> (isPlainRecord v \<and> exactKeys v [''summary'', ''evidence'', ''lineages'', ''claims''] [''conclusion'']
            \<and> nonBlankString (jget v ''summary'') \<and> is_array (jget v ''lineages'') \<and> is_array (jget v ''claims'')
            \<and> \<not> (jhas v ''conclusion''
                 \<and> enum_of conclusion_name SUMMARY_CONCLUSIONS (jget v ''conclusion'') = None))
      then None
      else Some \<lparr>bi_summary = text_of (jget v ''summary''), bi_lineages = jget v ''lineages'',
        bi_claims = jget v ''claims'',
        bi_conclusion = (if jhas v ''conclusion''
          then enum_of conclusion_name SUMMARY_CONCLUSIONS (jget v ''conclusion'') else None)\<rparr>)"

fun build_claims :: "minni_event list \<Rightarrow> claim_input list \<Rightarrow> (jstr \<Rightarrow> jstr list option) \<Rightarrow> claim_input list
    \<Rightarrow> summary_claim list option" where
  "build_claims events claims sets [] = Some []"
| "build_claims events claims sets (c # cs) =
     (case (case sets (ic_id c) of None \<Rightarrow> None | Some ids \<Rightarrow> buildClaim events claims c ids) of
        None \<Rightarrow> None
      | Some built \<Rightarrow> map_option ((#) built) (build_claims events claims sets cs))"

text \<open>The evidence as it is serialised: what supports a conflicting claim is marked.\<close>

definition serialized_evidence :: "minni_event list \<Rightarrow> summary_claim list \<Rightarrow> evidence_reference list" where
  "serialized_evidence events claims =
     (let eventIds = map ev_id events
      in map (\<lambda>ev. let r = buildEvidenceReference ev eventIds
           in if ev_id ev \<in> set (conflict_evidence_ids claims)
              then r\<lparr>er_uncertainties := canonical_list (uncertainties_of ev eventIds @ [Contradictory_evidence])\<rparr>
              else r) events)"

definition assembled ::
  "accepted_evidence \<Rightarrow> builder_input \<Rightarrow> summary_interval \<Rightarrow> lineage \<Rightarrow> summary_claim list \<Rightarrow> summary_contract" where
  "assembled evidence input interval lineage claims =
     \<lparr>mc_summary = bi_summary input, mc_interval = interval,
      mc_returned_count = ae_returned_count evidence,
      mc_local_only_withheld_count = ae_local_only_withheld_count evidence,
      mc_lineage = lineage, mc_evidence = serialized_evidence (ae_items evidence) claims, mc_claims = claims,
      mc_conclusion = (case bi_conclusion input of Some c \<Rightarrow> c
        | None \<Rightarrow> if list_ex (\<lambda>c. cl_conflicts c \<noteq> []) claims then Abstained else Bounded)\<rparr>"

definition build_from ::
  "accepted_evidence \<Rightarrow> builder_input \<Rightarrow> lineage_error + summary_contract codec_result" where
  "build_from evidence input =
     (let events = ae_items evidence; refuse = Inr (Codec_refused Invalid_contract)
      in case derivedInterval events of
           None \<Rightarrow> refuse
         | Some interval \<Rightarrow>
        (case validateLineageInputs (bi_lineages input) (map ev_id events) of
           Inl err \<Rightarrow> Inl err
         | Inr None \<Rightarrow> refuse
         | Inr (Some lineage) \<Rightarrow>
        (case validateClaimInputs (bi_claims input) of
           None \<Rightarrow> refuse
         | Some claimInputs \<Rightarrow>
        (case conflictSets claimInputs of
           None \<Rightarrow> refuse
         | Some sets \<Rightarrow>
             if length (js_uniq (map ev_id events)) \<noteq> length events then refuse
             else (case build_claims events claimInputs sets claimInputs of
                 None \<Rightarrow> refuse
               | Some claims \<Rightarrow>
                  (case serializeMinniSummaryContract
                          (contract_value (assembled evidence input interval lineage claims)) of
                     Inl _ \<Rightarrow> refuse
                   | Inr contract \<Rightarrow> Inr (Accepted contract)))))))"

definition buildMinniSummaryContract ::
  "(jval \<Rightarrow> jstr option) \<Rightarrow> jval \<Rightarrow> lineage_error + summary_contract codec_result" where
  "buildMinniSummaryContract stringify v =
     (case readEvidenceBeforeTransientInput stringify v of
        None \<Rightarrow> Inr (Codec_refused Invalid_contract)
      | Some No_authorized_evidence \<Rightarrow> Inr No_authorized_evidence
      | Some (Codec_refused why) \<Rightarrow> Inr (Codec_refused why)
      | Some (Accepted evidence) \<Rightarrow>
         (case normalizeBuilderInput v of
            None \<Rightarrow> Inr (Codec_refused Invalid_contract)
          | Some input \<Rightarrow> build_from evidence input))"

end
