(* ===== verification/Minni_Contract_Laws.thy ===== *)
theory Minni_Contract_Laws
  imports Minni_Contract
begin

text \<open>
  What the classifier of summary contracts accepts: exactly the objects of well-formed contracts
  (\<open>contract_ok\<close>), which it returns unchanged.
\<close>

section \<open>Well-formed contracts\<close>

abbreviation reference_text :: "jstr \<Rightarrow> bool" where
  "reference_text s \<equiv> trimmed_string s MAX_REFERENCE_UTF8_BYTES"

definition interval_ok :: "summary_interval \<Rightarrow> bool" where
  "interval_ok i = intervalIsOrdered (si_start i) (si_end i)"

definition count_ok :: "nat \<Rightarrow> bool" where
  "count_ok n = (n \<le> 9007199254740991)"

definition screenshot_ok :: "screenshot_interval \<Rightarrow> bool" where
  "screenshot_ok s = (ssi_started_ms s \<le> ssi_completed_ms s \<and> count_ok (ssi_completed_ms s))"

definition collector_ok :: "summary_collector \<Rightarrow> bool" where
  "collector_ok k = (count_ok (sk_omitted_regions k) \<and> count_ok (sk_omitted_observations k)
     \<and> count_ok (sk_omitted_languages k))"

definition canonical :: "uncertainty list \<Rightarrow> bool" where
  "canonical us = (filter (\<lambda>u. u \<in> set us) SUMMARY_UNCERTAINTIES = us)"

definition reference_ok :: "evidence_reference \<Rightarrow> bool" where
  "reference_ok r =
     (reference_text (er_event_id r) \<and> reference_text (er_modality r) \<and> interval_ok (er_interval r)
      \<and> canonical (er_uncertainties r)
      \<and> (er_modality r = ''screen_ocr'' \<or> er_screenshot r \<noteq> None \<or> er_collector r \<noteq> None
           \<longrightarrow> hasRequiredOCRUncertainties (er_uncertainties r))
      \<and> pred_option screenshot_ok (er_screenshot r) \<and> pred_option collector_ok (er_collector r)
      \<and> (er_anchor_id r \<noteq> None \<longleftrightarrow> er_anchor_context r = Authorized_context)
      \<and> pred_option (\<lambda>a. reference_text a) (er_anchor_id r))"

definition claim_ok :: "summary_claim \<Rightarrow> bool" where
  "claim_ok c =
     (reference_text (cl_id c) \<and> js_trim (cl_statement c) \<noteq> [] \<and> reference_text (cl_modality c)
      \<and> reference_text (cl_scope c) \<and> interval_ok (cl_interval c) \<and> canonical (cl_uncertainties c)
      \<and> cl_support c \<noteq> [] \<and> distinct (cl_support c) \<and> list_all (\<lambda>i. reference_text i) (cl_support c)
      \<and> distinct (cl_conflicts c) \<and> list_all (\<lambda>i. reference_text i) (cl_conflicts c)
      \<and> cl_id c \<notin> set (cl_conflicts c)
      \<and> (cl_modality c = ''screen_ocr'' \<longrightarrow> hasRequiredOCRUncertainties (cl_uncertainties c)))"

definition contract_ok :: "summary_contract \<Rightarrow> bool" where
  "contract_ok c =
     (js_trim (mc_summary c) \<noteq> [] \<and> interval_ok (mc_interval c) \<and> count_ok (mc_local_only_withheld_count c)
      \<and> mc_evidence c \<noteq> [] \<and> length (mc_evidence c) \<le> MINNI_GET_EVENTS_MAX_ITEMS
      \<and> mc_returned_count c = length (mc_evidence c) \<and> lineage_ok (mc_lineage c)
      \<and> list_all reference_ok (mc_evidence c) \<and> distinct (map er_event_id (mc_evidence c))
      \<and> derivedEvidenceInterval (mc_evidence c) = Some (mc_interval c) \<and> anchors_known (mc_evidence c)
      \<and> mc_claims c \<noteq> [] \<and> list_all claim_ok (mc_claims c) \<and> distinct (map cl_id (mc_claims c))
      \<and> list_all (claim_supported (mc_evidence c)) (mc_claims c)
      \<and> conflicts_symmetric (mc_claims c) \<and> conflicts_marked (mc_evidence c) (mc_claims c))"

section \<open>Reading back what was written\<close>

lemma plain_obj [simp]: "isPlainRecord (obj fs)"
  by (simp add: isPlainRecord_def obj_def)

lemma exactKeys_obj [simp]:
  "exactKeys (obj fs) required optional
    \<longleftrightarrow> list_all (\<lambda>f. fst f \<in> set required \<union> set optional) fs \<and> list_all (\<lambda>k. k \<in> fst ` set fs) required"
  by (auto simp: exactKeys_def list_all_iff)

lemma string_simps [simp]:
  "nonEmptyReference (JStr s) = reference_text s" "nonBlankString (JStr s) = (js_trim s \<noteq> [])"
  "isTimestamp (JStr s) = (parseMinniTimestamp s \<noteq> None)" "text_of (JStr s) = s"
  "is_array (JArr vs)" "items_of (JArr vs) = vs"
  by (simp_all add: nonEmptyReference_def nonBlankString_def isTimestamp_def is_string_such_def text_of_def
      is_array_def items_of_def)

lemma count_simps [simp]:
  "count_of (count_value n) = n" "num_of (count_value n) = real n" "safe_count (count_value n) = count_ok n"
  by (simp_all add: count_of_def count_value_def num_of_def safe_count_def count_ok_def)

lemma ordered_parses:
  "intervalIsOrdered a b \<Longrightarrow> (\<exists>x. parseMinniTimestamp a = Some x) \<and> (\<exists>y. parseMinniTimestamp b = Some y)"
  using compare_defined [of a b] by (auto simp: intervalIsOrdered_def split: option.splits)

lemma interval_back [simp]: "interval_of (interval_value i) = i"
  by (simp add: interval_of_def interval_value_def)

lemma interval_valid [simp]: "validSummaryInterval (interval_value i) = interval_ok i"
  using ordered_parses [of "si_start i" "si_end i"]
  by (auto simp: validSummaryInterval_def interval_value_def interval_ok_def)

lemma screenshot_back [simp]: "screenshot_of (screenshot_value s) = s"
  by (simp add: screenshot_of_def screenshot_value_def)

lemma screenshot_valid [simp]: "validOCRScreenshotInterval (screenshot_value s) = screenshot_ok s"
  by (auto simp: validOCRScreenshotInterval_def screenshot_value_def screenshot_ok_def count_ok_def)

lemma collector_back [simp]: "collector_of (collector_value k) = k"
  by (simp add: collector_of_def collector_value_def)

lemma collector_valid [simp]: "validCollector (collector_value k) = collector_ok k"
  by (simp add: validCollector_def collector_value_def collector_ok_def)

lemma map_filter_names: "List.map_filter (enum_of uncertainty_name SUMMARY_UNCERTAINTIES)
    (map (\<lambda>u. JStr (uncertainty_name u)) us) = us"
  by (induction us) (simp_all add: List.map_filter_simps)

lemma uncertainties_back [simp]:
  "canonicalUncertainties (uncertainties_value us) = Some (filter (\<lambda>u. u \<in> set us) SUMMARY_UNCERTAINTIES)"
  by (simp add: canonicalUncertainties_def uncertainties_value_def map_filter_names)

lemma canonical_filter: "canonical (filter P SUMMARY_UNCERTAINTIES)"
  by (simp add: canonical_def uncertainties.canon_idem)

lemma text_of_JStr [simp]: "map text_of (map JStr ss) = ss"
  by (simp add: comp_def)

lemma unique_back:
  "uniqueStrings (map JStr ss) = (if list_all (\<lambda>i. reference_text i) ss \<and> distinct ss then Some ss else None)"
  using length_js_uniq_eq [of ss] js_uniq_distinct [of ss]
  by (auto simp: uniqueStrings_def list_all_iff simp del: map_map)

lemma evidence_fields:
  "isPlainRecord (evidence_value r)"
  "exactKeys (evidence_value r) [''event_id'', ''modality'', ''event_capture_or_index_interval'', ''uncertainties'',
     ''anchor_context''] [''ocr_screenshot_capture_interval'', ''anchor_id'', ''ocr_collector'']"
  "jget (evidence_value r) ''event_id'' = JStr (er_event_id r)"
  "jget (evidence_value r) ''modality'' = JStr (er_modality r)"
  "jget (evidence_value r) ''event_capture_or_index_interval'' = interval_value (er_interval r)"
  "jget (evidence_value r) ''uncertainties'' = uncertainties_value (er_uncertainties r)"
  "jget (evidence_value r) ''anchor_context'' = JStr (anchor_context_name (er_anchor_context r))"
  "jhas (evidence_value r) ''ocr_screenshot_capture_interval'' = (er_screenshot r \<noteq> None)"
  "jhas (evidence_value r) ''anchor_id'' = (er_anchor_id r \<noteq> None)"
  "jhas (evidence_value r) ''ocr_collector'' = (er_collector r \<noteq> None)"
  "er_screenshot r = Some s \<Longrightarrow> jget (evidence_value r) ''ocr_screenshot_capture_interval'' = screenshot_value s"
  "er_anchor_id r = Some a \<Longrightarrow> jget (evidence_value r) ''anchor_id'' = JStr a"
  "er_collector r = Some k \<Longrightarrow> jget (evidence_value r) ''ocr_collector'' = collector_value k"
  unfolding evidence_value_def
  by (cases "er_screenshot r"; cases "er_anchor_id r"; cases "er_collector r"; simp add: optional_field_def)+

lemma own_evidence:
  "own (evidence_value r) ''ocr_screenshot_capture_interval'' screenshot_of = er_screenshot r"
  "own (evidence_value r) ''anchor_id'' text_of = er_anchor_id r"
  "own (evidence_value r) ''ocr_collector'' collector_of = er_collector r"
  by (auto simp: own_def evidence_fields)

lemma evidence_back:
  assumes "reference_ok r"
  shows "validateEvidenceReference (evidence_value r) = Some r"
proof -
  have shot: "er_screenshot r = Some s \<Longrightarrow> screenshot_ok s"
    and coll: "er_collector r = Some k \<Longrightarrow> collector_ok k"
    and anch: "er_anchor_id r = Some a \<Longrightarrow> reference_text a" for s k a
    using assms by (auto simp: reference_ok_def)
  have "er_screenshot r = None \<or> validOCRScreenshotInterval (jget (evidence_value r) ''ocr_screenshot_capture_interval'')"
    using shot by (cases "er_screenshot r") (auto simp: evidence_fields)
  moreover have "er_collector r = None \<or> validCollector (jget (evidence_value r) ''ocr_collector'')"
    using coll by (cases "er_collector r") (auto simp: evidence_fields)
  moreover have "er_anchor_id r = None \<or> nonEmptyReference (jget (evidence_value r) ''anchor_id'')"
    using anch by (cases "er_anchor_id r") (auto simp: evidence_fields)
  ultimately show ?thesis
    using assms
    by (auto simp: validateEvidenceReference_def evidence_shape_def evidence_extras_def evidence_fields(1-10) own_evidence reference_ok_def canonical_def)
qed

lemma claim_back:
  assumes "claim_ok c"
  shows "validateClaim (claim_value c) = Some c"
  using assms by (simp add: validateClaim_def claim_shape_def claim_value_def claim_ok_def unique_back canonical_def)

lemma evidence_list_back:
  assumes "list_all reference_ok rs" and "distinct (map er_event_id rs)" and "set (map er_event_id rs) \<inter> ids = {}"
  shows "validate_evidence ids (map evidence_value rs) = Some rs"
  using assms by (induction rs arbitrary: ids) (auto simp: evidence_back)

lemma claims_back:
  assumes "list_all claim_ok cs" and "distinct (map cl_id cs)" and "set (map cl_id cs) \<inter> ids = {}"
    and "list_all (claim_supported evidence) cs"
  shows "validate_claims evidence ids (map claim_value cs) = Some cs"
  using assms by (induction cs arbitrary: ids) (auto simp: claim_back)

lemma contract_back:
  assumes "contract_ok c"
  shows "classifyMinniSummaryContract (contract_value c) = Accepted c"
proof -
  have lengths: "count_ok (mc_returned_count c)"
    using assms by (simp add: contract_ok_def count_ok_def MINNI_GET_EVENTS_MAX_ITEMS_def)
  have "validateLineage (lineage_value (mc_lineage c)) = Some (mc_lineage c)"
    using assms by (simp add: contract_ok_def validateLineage_def classify_lineage_value)
  then have "validateContract (contract_value c) = Accepted c"
    using assms lengths
    by (simp add: validateContract_def contract_shape_def contract_sizes_def contract_parts_def contract_value_def
        contract_keys_def contract_ok_def evidence_list_back
        claims_back Let_def)
  then show ?thesis by (simp add: classifyMinniSummaryContract_def contract_value_def nullish_def obj_def)
qed

section \<open>Whatever is accepted is well-formed\<close>

lemma string_such: "is_string_such P v \<longleftrightarrow> (\<exists>s. v = JStr s \<and> P s)"
  by (cases v) (auto simp: is_string_such_def)

lemma reference_iff: "nonEmptyReference v \<longleftrightarrow> (\<exists>s. v = JStr s \<and> reference_text s)"
  by (simp add: nonEmptyReference_def string_such)

lemma reference_text_of: "nonEmptyReference v \<Longrightarrow> reference_text (text_of v)"
  by (auto simp: reference_iff)

lemma blank_text_of: "nonBlankString v \<Longrightarrow> js_trim (text_of v) \<noteq> []"
  by (auto simp: nonBlankString_def string_such)

lemma interval_of_ok: "validSummaryInterval v \<Longrightarrow> interval_ok (interval_of v)"
  by (simp add: validSummaryInterval_def interval_ok_def interval_of_def)

lemma count_of_ok: "safe_count v \<Longrightarrow> count_ok (count_of v)"
  by (simp add: count_ok_def count_of_bound)

lemma count_of_mono: "num_of v \<le> num_of w \<Longrightarrow> count_of v \<le> count_of w"
  by (simp add: count_of_def nat_mono floor_mono)

lemma screenshot_of_ok: "validOCRScreenshotInterval v \<Longrightarrow> screenshot_ok (screenshot_of v)"
  by (simp add: validOCRScreenshotInterval_def screenshot_ok_def screenshot_of_def count_of_ok count_of_mono)

lemma collector_of_ok: "validCollector v \<Longrightarrow> collector_ok (collector_of v)"
  by (simp add: validCollector_def collector_ok_def collector_of_def count_of_ok)

lemma uncertainties_canonical: "canonicalUncertainties v = Some us \<Longrightarrow> canonical us"
  by (auto simp: canonicalUncertainties_def Let_def canonical_filter split: jval.splits if_splits)

lemma unique_strings_ok:
  assumes "uniqueStrings vs = Some ss"
  shows "distinct ss" and "list_all (\<lambda>i. reference_text i) ss" and "ss = [] \<longleftrightarrow> vs = []"
  using assms by (auto simp: uniqueStrings_def list_all_iff reference_text_of split: if_splits)

lemma evidence_accepted:
  assumes "validateEvidenceReference v = Some r"
  shows "reference_ok r"
proof -
  from assms have shape: "evidence_shape v"
    and us: "canonicalUncertainties (jget v ''uncertainties'') = Some (er_uncertainties r)"
    and extras: "evidence_extras v (er_anchor_context r) (er_uncertainties r)"
    and fields: "er_event_id r = text_of (jget v ''event_id'')" "er_modality r = text_of (jget v ''modality'')"
        "er_interval r = interval_of (jget v ''event_capture_or_index_interval'')"
        "er_screenshot r = own v ''ocr_screenshot_capture_interval'' screenshot_of"
        "er_anchor_id r = own v ''anchor_id'' text_of" "er_collector r = own v ''ocr_collector'' collector_of"
    by (auto simp: validateEvidenceReference_def split: if_splits option.splits)
  from shape have shape: "nonEmptyReference (jget v ''event_id'')" "nonEmptyReference (jget v ''modality'')"
      "validSummaryInterval (jget v ''event_capture_or_index_interval'')"
    by (simp_all add: evidence_shape_def)
  from extras have ocr: "jget v ''modality'' = JStr ''screen_ocr'' \<or> jhas v ''ocr_screenshot_capture_interval''
        \<or> jhas v ''ocr_collector'' \<Longrightarrow> hasRequiredOCRUncertainties (er_uncertainties r)"
    and shot: "jhas v ''ocr_screenshot_capture_interval''
        \<Longrightarrow> validOCRScreenshotInterval (jget v ''ocr_screenshot_capture_interval'')"
    and coll: "jhas v ''ocr_collector'' \<Longrightarrow> validCollector (jget v ''ocr_collector'')"
    and anch: "er_anchor_context r = Authorized_context \<Longrightarrow> jhas v ''anchor_id'' \<and> nonEmptyReference (jget v ''anchor_id'')"
        "er_anchor_context r \<noteq> Authorized_context \<Longrightarrow> \<not> jhas v ''anchor_id''"
    by (simp_all add: evidence_extras_def)
  from shape(2) have "jget v ''modality'' = JStr (er_modality r)" by (auto simp: fields(2) reference_iff)
  with ocr have "er_modality r = ''screen_ocr'' \<or> er_screenshot r \<noteq> None \<or> er_collector r \<noteq> None
      \<Longrightarrow> hasRequiredOCRUncertainties (er_uncertainties r)"
    by (auto simp: fields(4, 6) own_def split: if_splits)
  moreover have "pred_option screenshot_ok (er_screenshot r)" "pred_option collector_ok (er_collector r)"
    using shot coll by (simp_all add: fields own_def screenshot_of_ok collector_of_ok)
  moreover have "er_anchor_id r \<noteq> None \<longleftrightarrow> er_anchor_context r = Authorized_context"
      "pred_option (\<lambda>a. reference_text a) (er_anchor_id r)"
    using anch by (cases "er_anchor_context r = Authorized_context"; auto simp: fields(5) own_def reference_text_of)+
  ultimately show ?thesis
    using shape us by (simp add: reference_ok_def fields(1-3) reference_text_of interval_of_ok uncertainties_canonical)
qed

lemma claim_accepted:
  assumes "validateClaim v = Some c"
  shows "claim_ok c"
proof -
  from assms have "claim_shape v"
    and lists: "uniqueStrings (items_of (jget v ''support_event_ids'')) = Some (cl_support c)"
      "uniqueStrings (items_of (jget v ''conflicts'')) = Some (cl_conflicts c)"
      "canonicalUncertainties (jget v ''uncertainties'') = Some (cl_uncertainties c)"
    and self: "cl_id c \<notin> set (cl_conflicts c)"
    and ocr: "jget v ''modality'' = JStr ''screen_ocr'' \<Longrightarrow> hasRequiredOCRUncertainties (cl_uncertainties c)"
    and fields: "cl_id c = text_of (jget v ''id'')" "cl_statement c = text_of (jget v ''statement'')"
      "cl_modality c = text_of (jget v ''modality'')" "cl_scope c = text_of (jget v ''scope'')"
      "cl_interval c = interval_of (jget v ''event_capture_or_index_interval'')"
    by (auto simp: validateClaim_def split: if_splits option.splits)
  from \<open>claim_shape v\<close> have shape: "nonEmptyReference (jget v ''id'')" "nonBlankString (jget v ''statement'')"
      "nonEmptyReference (jget v ''modality'')" "nonEmptyReference (jget v ''scope'')"
      "validSummaryInterval (jget v ''event_capture_or_index_interval'')"
      "items_of (jget v ''support_event_ids'') \<noteq> []"
    by (simp_all add: claim_shape_def)
  from shape(3) ocr have "cl_modality c = ''screen_ocr'' \<Longrightarrow> hasRequiredOCRUncertainties (cl_uncertainties c)"
    by (auto simp: fields(3) reference_iff)
  with self shape lists unique_strings_ok [OF lists(1)] unique_strings_ok [OF lists(2)] show ?thesis
    by (simp add: claim_ok_def fields reference_text_of blank_text_of interval_of_ok uncertainties_canonical)
qed

lemma evidence_list_accepted:
  assumes "validate_evidence ids vs = Some rs"
  shows "length rs = length vs \<and> list_all reference_ok rs \<and> distinct (map er_event_id rs)
    \<and> set (map er_event_id rs) \<inter> ids = {}"
  using assms
  by (induction ids vs arbitrary: rs rule: validate_evidence.induct)
    (auto split: option.splits if_splits dest: evidence_accepted, fastforce+)

lemma claims_accepted:
  assumes "validate_claims evidence ids vs = Some cs"
  shows "length cs = length vs \<and> list_all claim_ok cs \<and> distinct (map cl_id cs) \<and> set (map cl_id cs) \<inter> ids = {}
    \<and> list_all (claim_supported evidence) cs"
  using assms
  by (induction evidence ids vs arbitrary: cs rule: validate_claims.induct)
    (auto split: option.splits if_splits dest: claim_accepted, fastforce+)

lemma contract_accepted:
  assumes "classifyMinniSummaryContract v = Accepted c"
  shows "contract_ok c"
proof -
  let ?raw = "items_of (jget v ''evidence'')"
  from assms have accepted: "validateContract v = Accepted c"
    by (simp add: classifyMinniSummaryContract_def split: if_splits)
  then have shape: "contract_shape v" "?raw \<noteq> []" "contract_sizes v"
    and parts: "contract_parts v = Some (mc_lineage c, mc_evidence c, mc_claims c)"
    and rules: "conflicts_symmetric (mc_claims c)" "conflicts_marked (mc_evidence c) (mc_claims c)"
    and fields: "mc_summary c = text_of (jget v ''summary'')"
      "mc_interval c = interval_of (jget v ''event_capture_or_index_interval'')"
      "mc_returned_count c = count_of (jget (jget v ''evidence_counts'') ''returned_count'')"
      "mc_local_only_withheld_count c = count_of (jget (jget v ''evidence_counts'') ''local_only_withheld_count'')"
    by (auto simp: validateContract_def split: if_splits option.splits)
  from shape(1) have texts: "nonBlankString (jget v ''summary'')"
      "validSummaryInterval (jget v ''event_capture_or_index_interval'')"
      "safe_count (jget (jget v ''evidence_counts'') ''local_only_withheld_count'')"
    by (simp_all add: contract_shape_def Let_def)
  from parts have parts: "validateLineage (jget v ''processing_lineage'') = Some (mc_lineage c)"
      "validate_evidence {} ?raw = Some (mc_evidence c)"
      "validate_claims (mc_evidence c) {} (items_of (jget v ''claims'')) = Some (mc_claims c)"
    and derived: "derivedEvidenceInterval (mc_evidence c) = Some (mc_interval c)" "anchors_known (mc_evidence c)"
    by (auto simp: contract_parts_def fields(2) split: if_splits option.splits)
  from parts(1) have "lineage_ok (mc_lineage c)"
    by (auto simp: validateLineage_def intro: classify_ok split: classified.splits)
  with shape(2,3) texts rules derived evidence_list_accepted [OF parts(2)] claims_accepted [OF parts(3)]
  show ?thesis
    by (auto simp: contract_ok_def contract_sizes_def fields blank_text_of interval_of_ok count_of_ok)
qed

end
