(* ===== verification/Minni_Builder_Parts.thy ===== *)
theory Minni_Builder_Parts
  imports Minni_Builder Minni_Contract_Laws
begin

text \<open>
  The parts of the builder: intervals as instants, references built from accepted events, the join
  of the lineages, the checked claims, and the symmetric closure of their conflicts.
\<close>

section \<open>Intervals as instants\<close>

definition instant_of :: "jstr \<Rightarrow> real" where
  "instant_of s = instant (the (parseMinniTimestamp s))"

definition is_stamp :: "jstr \<Rightarrow> bool" where
  "is_stamp s = (parseMinniTimestamp s \<noteq> None)"

lemma compare_stamps:
  assumes "is_stamp a" and "is_stamp b"
  shows "compareMinniTimestamps a b
    = Some (if instant_of a < instant_of b then - 1 else if instant_of a = instant_of b then 0 else 1)"
  using assms compare_instants by (auto simp: is_stamp_def instant_of_def)

lemma ordered_iff: "intervalIsOrdered a b \<longleftrightarrow> is_stamp a \<and> is_stamp b \<and> instant_of a \<le> instant_of b"
proof (cases "is_stamp a \<and> is_stamp b")
  case True
  then show ?thesis using compare_stamps [of a b] by (auto simp: intervalIsOrdered_def)
next
  case False
  then show ?thesis using ordered_parses [of a b] by (auto simp: is_stamp_def)
qed

text \<open>What the hull of ordered intervals is: ordered, around them all, with bounds of theirs.\<close>

definition tightest :: "summary_interval set \<Rightarrow> summary_interval \<Rightarrow> bool" where
  "tightest S h =
     (interval_ok h
      \<and> (\<forall>j \<in> S. instant_of (si_start h) \<le> instant_of (si_start j) \<and> instant_of (si_end j) \<le> instant_of (si_end h))
      \<and> si_start h \<in> si_start ` S \<and> si_end h \<in> si_end ` S)"

lemma tightest_insert:
  assumes "tightest (insert h' S) h"
    and "instant_of (si_start h') \<le> instant_of (si_start i)" "instant_of (si_start h') \<le> instant_of (si_start j)"
    and "instant_of (si_end i) \<le> instant_of (si_end h')" "instant_of (si_end j) \<le> instant_of (si_end h')"
    and "si_start h' \<in> {si_start i, si_start j}" "si_end h' \<in> {si_end i, si_end j}"
  shows "tightest (insert i (insert j S)) h"
  using assms unfolding tightest_def by (auto intro: order_trans)

lemma interval_hull_tightest:
  assumes "interval_ok i" and "list_all interval_ok js"
  shows "\<exists>h. interval_hull i js = Some h \<and> tightest (set (i # js)) h"
  using assms
proof (induction js arbitrary: i)
  case (Cons j js)
  from Cons.prems have st: "is_stamp (si_start i)" "is_stamp (si_end i)" "is_stamp (si_start j)" "is_stamp (si_end j)"
    and le: "instant_of (si_start i) \<le> instant_of (si_end i)" "instant_of (si_start j) \<le> instant_of (si_end j)"
    by (auto simp: interval_ok_def ordered_iff)
  define h' where "h' = \<lparr>si_start = (if instant_of (si_start j) < instant_of (si_start i) then si_start j else si_start i),
      si_end = (if instant_of (si_end i) < instant_of (si_end j) then si_end j else si_end i)\<rparr>"
  have "interval_hull i (j # js) = interval_hull h' js"
    using st by (simp add: compare_stamps h'_def)
  moreover have "interval_ok h'"
    using st le by (auto simp: interval_ok_def ordered_iff h'_def)
  with Cons.IH [of h'] Cons.prems obtain h where h: "interval_hull h' js = Some h" "tightest (insert h' (set js)) h"
    by auto
  moreover from this(2) have "tightest (insert i (insert j (set js))) h"
    by (rule tightest_insert) (auto simp: h'_def)
  ultimately show ?case by simp
qed (simp add: tightest_def)

lemma hull_tightest:
  assumes "is \<noteq> []" and "list_all interval_ok is"
  shows "\<exists>h. hull_of is = Some h \<and> tightest (set is) h"
  using assms interval_hull_tightest by (cases "is") (auto simp: hull_of_def)

section \<open>References built from events\<close>

lemma event_interval_ok: "event_ok ev \<Longrightarrow> interval_ok (eventInterval ev)"
  by (auto simp: event_ok_def interval_ok_def eventInterval_def ordered_iff is_stamp_def split: option.splits)

lemma canonical_canonical_list: "canonical (canonical_list us)"
  by (simp add: canonical_list_def canonical_filter)

lemma set_canonical_list [simp]: "set (canonical_list us) = set us"
  by (auto simp: canonical_list_def)

lemma ocr_required: "hasRequiredOCRUncertainties us \<longleftrightarrow> set REQUIRED_OCR_UNCERTAINTIES \<subseteq> set us"
  by (auto simp: hasRequiredOCRUncertainties_def list_all_iff)

lemma ocr_uncertainties: "isOCR ev \<Longrightarrow> set REQUIRED_OCR_UNCERTAINTIES \<subseteq> set (uncertainties_of ev ids)"
  by (auto simp: uncertainties_of_def eventUncertainties_def REQUIRED_OCR_UNCERTAINTIES_def)

lemma ocr_only: "Ocr_source \<in> set (uncertainties_of ev ids) \<Longrightarrow> isOCR ev"
  by (auto simp: uncertainties_of_def eventUncertainties_def anchorForEvent_def split: if_splits option.splits)

lemma anchor_facts:
  assumes "anchorForEvent ev ids = (ctx, a, us)"
  shows "(a \<noteq> None) = (ctx = Authorized_context)" and "a = Some x \<Longrightarrow> x \<noteq> ev_id ev \<and> x \<in> set ids"
  using assms by (cases "ev_anchorId ev"; auto simp: anchorForEvent_def split: if_splits)+

lemma screenshot_part_ok: "validObservationProjection ob \<Longrightarrow> screenshot_ok (screenshot_part ob)"
  by (simp add: validObservationProjection_def validCaptureInterval_def screenshot_ok_def screenshot_part_def
      count_of_ok count_of_mono)

lemma collector_part_ok: "validObservationProjection ob \<Longrightarrow> collector_ok (collector_part ob)"
  by (simp add: validObservationProjection_def collector_ok_def collector_part_def count_of_ok)

lemma modality_texts: "reference_text ''screen_ocr''" "reference_text ''event''"
  by code_simp+

lemma built_reference_ok:
  assumes "event_ok ev" and "list_all (\<lambda>i. reference_text i) ids" and "ev_id ev \<in> set ids"
    and "set (uncertainties_of ev ids) \<subseteq> set us"
  shows "reference_ok ((buildEvidenceReference ev ids)\<lparr>er_uncertainties := canonical_list us\<rparr>)"
proof -
  obtain ctx a vs where anch: "anchorForEvent ev ids = (ctx, a, vs)" by (cases "anchorForEvent ev ids")
  let ?ob = "if isOCR ev then ev_observation ev else None"
  have "pred_option screenshot_ok (map_option screenshot_part ?ob)"
      "pred_option collector_ok (map_option collector_part ?ob)"
    using assms(1) screenshot_part_ok collector_part_ok
    by (auto simp: event_ok_def split: option.splits)
  moreover have "isOCR ev \<Longrightarrow> hasRequiredOCRUncertainties (canonical_list us)"
    using ocr_uncertainties [of ev ids] assms(4) by (simp add: ocr_required)
  moreover have "pred_option (\<lambda>x. reference_text x) a"
    using anchor_facts(2) [OF anch] assms(2) by (cases a) (auto simp: list_all_iff)
  ultimately show ?thesis
    using assms anchor_facts(1) [OF anch] modality_texts
    by (auto simp: reference_ok_def buildEvidenceReference_def Let_def anch event_interval_ok
        canonical_canonical_list list_all_iff)
qed

section \<open>Lineages\<close>

definition covers :: "lineage \<Rightarrow> classified \<Rightarrow> bool" where
  "covers l c = (\<exists>k. c = Minni_verified k \<and> same_scope k l
     \<and> set (ld_restrictions (pl_delivery k)) \<subseteq> set (ld_restrictions (pl_delivery l)))"

definition classified_ok :: "classified \<Rightarrow> bool" where
  "classified_ok c = (case c of Minni_verified l \<Rightarrow> lineage_ok l | _ \<Rightarrow> True)"

lemma classifier_ok: "classified_ok (classifyProcessingLineage v)"
  by (auto simp: classified_ok_def intro: classify_ok split: classified.splits)

lemma covers_joined:
  assumes "covers m (Minni_verified (joined_lineage l r))" and "same_scope l r"
  shows "covers m (Minni_verified l)" and "covers m (Minni_verified r)"
  using assms by (auto simp: covers_def joined_lineage_def joined_restrictions_set same_scope_def)

lemma join_step:
  assumes "classified_ok a" and "classified_ok b"
  shows "(\<exists>l r. a = Minni_verified l \<and> b = Minni_verified r \<and> same_scope l r
      \<and> conservativeJoin a b = Inr (Joined (joined_lineage l r)) \<and> lineage_ok (joined_lineage l r))
    \<or> (\<exists>why. conservativeJoin a b = Inr (Join_refused why))"
proof (cases "\<exists>l r. a = Minni_verified l \<and> b = Minni_verified r")
  case True
  then obtain l r where lr: "a = Minni_verified l" "b = Minni_verified r" by auto
  with assms have "lineage_ok l" "lineage_ok r" by (auto simp: classified_ok_def)
  with lr show ?thesis by (cases "same_scope l r") (auto simp: join_verified joined_ok)
next
  case False
  then show ?thesis by (cases a; cases b) (auto simp: conservativeJoin_def)
qed

lemma join_rest_total:
  assumes "classified_ok a" and "list_all classified_ok cs"
  shows "\<exists>j. join_rest a cs = Inr j \<and> (case j of None \<Rightarrow> True | Some c \<Rightarrow> classified_ok c
    \<and> (\<forall>m. c = Minni_verified m \<longrightarrow> (\<forall>x \<in> set (a # cs). covers m x)))"
  using assms
proof (induction cs arbitrary: a)
  case Nil
  then show ?case by (auto simp: covers_def same_scope_def)
next
  case (Cons c cs)
  from Cons.prems have "classified_ok c" by simp
  from join_step [OF Cons.prems(1) this] consider
      (refused) why where "conservativeJoin a c = Inr (Join_refused why)"
    | (joined) l r where "a = Minni_verified l" "c = Minni_verified r" "same_scope l r"
        "conservativeJoin a c = Inr (Joined (joined_lineage l r))" "lineage_ok (joined_lineage l r)"
    by auto
  then show ?case
  proof cases
    case joined
    have "classified_ok (Minni_verified (joined_lineage l r))" using joined(5) by (simp add: classified_ok_def)
    from Cons.IH [OF this] Cons.prems(2) obtain j where
        j: "join_rest (Minni_verified (joined_lineage l r)) cs = Inr j"
        "case j of None \<Rightarrow> True | Some c \<Rightarrow> classified_ok c
          \<and> (\<forall>m. c = Minni_verified m \<longrightarrow> (\<forall>x \<in> set (Minni_verified (joined_lineage l r) # cs). covers m x))"
      by auto
    then show ?thesis
      using joined(1-4) covers_joined [OF _ joined(3)] by (auto split: option.splits)
  qed simp
qed

lemma join_events_total:
  assumes "list_all classified_ok cs"
  shows "\<exists>j. join_events cs = Inr j \<and> (\<forall>l. j = Some l \<longrightarrow> lineage_ok l \<and> (\<forall>x \<in> set cs. covers l x))"
proof (cases cs)
  case (Cons c rest)
  from join_rest_total [of c rest] assms Cons obtain j where
      j: "join_rest c rest = Inr j"
      "case j of None \<Rightarrow> True | Some c' \<Rightarrow> classified_ok c'
        \<and> (\<forall>m. c' = Minni_verified m \<longrightarrow> (\<forall>x \<in> set (c # rest). covers m x))"
    by auto
  then show ?thesis
    by (auto simp: join_events_def Cons classified_ok_def split: option.splits classified.splits)
qed (simp add: join_events_def)

lemma read_lineages_spec:
  assumes "read_lineages ids raws m = Some m'"
  shows "set (map fst m') \<subseteq> set (map fst m) \<union> {i \<in> set ids. reference_text i}
    \<and> set (map snd m') = set (map snd m) \<union> (\<lambda>raw. classifyProcessingLineage (jget raw ''processing_lineage'')) ` set raws
    \<and> (distinct (map fst m) \<longrightarrow> distinct (map fst m'))"
  using assms
proof (induction ids raws m arbitrary: m' rule: read_lineages.induct)
  case (2 ids raw raws m)
  let ?i = "text_of (jget raw ''event_id'')"
  from "2.prems" have ok: "nonEmptyReference (jget raw ''event_id'')" "?i \<in> set ids" "?i \<notin> fst ` set m"
    and rest: "read_lineages ids raws (m @ [(?i, classifyProcessingLineage (jget raw ''processing_lineage''))]) = Some m'"
    by (auto split: if_splits)
  from "2.IH" [OF _ rest] "2.prems" ok reference_text_of [OF ok(1)] show ?case
    by (auto split: if_splits)
qed simp

lemma lineage_inputs:
  obtains j where "validateLineageInputs v ids = Inr j"
    and "j = Some l \<Longrightarrow> lineage_ok l \<and> list_all (\<lambda>i. reference_text i) ids
      \<and> (\<forall>raw \<in> set (items_of v). covers l (classifyProcessingLineage (jget raw ''processing_lineage'')))"
proof (cases "\<exists>m. is_array v \<and> length (items_of v) = length ids \<and> read_lineages ids (items_of v) [] = Some m
    \<and> length m = length ids \<and> list_all (\<lambda>i. map_of m i \<noteq> None) ids")
  case False
  then have "validateLineageInputs v ids = Inr None"
    by (auto simp: validateLineageInputs_def split: option.splits)
  then show ?thesis using that by simp
next
  case True
  then obtain m where v: "is_array v" "length (items_of v) = length ids"
      and m: "read_lineages ids (items_of v) [] = Some m" "length m = length ids"
      "list_all (\<lambda>i. map_of m i \<noteq> None) ids" by auto
  note spec = read_lineages_spec [OF m(1)]
  let ?cs = "map (\<lambda>i. the (map_of m i)) ids"
  have eq: "validateLineageInputs v ids = join_events ?cs" using v m by (simp add: validateLineageInputs_def)
  have cs: "set ?cs = set (map snd m)"
  proof -
    have "set ids = fst ` set m"
      using spec m(3) by (auto simp: list_all_iff map_of_eq_None_iff)
    then have "set ?cs = (\<lambda>i. the (map_of m i)) ` fst ` set m" by simp
    also have "\<dots> = snd ` set m"
    proof -
      have "distinct (map fst m)" using spec by simp
      then have "the (map_of m (fst p)) = snd p" if "p \<in> set m" for p
        using that by (cases p) simp
      then show ?thesis by (simp add: image_image)
    qed
    finally show ?thesis by simp
  qed
  have "list_all classified_ok ?cs"
    unfolding list_all_iff cs using spec classifier_ok by auto
  from join_events_total [OF this] obtain j where j: "join_events ?cs = Inr j"
      "\<forall>l. j = Some l \<longrightarrow> lineage_ok l \<and> (\<forall>x \<in> set ?cs. covers l x)" by auto
  have "\<forall>i \<in> set ids. reference_text i"
    using spec m(3) by (fastforce simp: list_all_iff map_of_eq_None_iff)
  moreover have "covers l (classifyProcessingLineage (jget raw ''processing_lineage''))"
    if "j = Some l" and "raw \<in> set (items_of v)" for raw
  proof -
    from that(2) spec have "classifyProcessingLineage (jget raw ''processing_lineage'') \<in> set (map snd m)" by auto
    moreover have "\<forall>x \<in> set (map snd m). covers l x" using j(2) that(1) unfolding cs by simp
    ultimately show ?thesis by blast
  qed
  ultimately show ?thesis using j eq by (intro that [of j]) (auto simp: list_all_iff)
qed

section \<open>Claims and their conflicts\<close>

definition claim_input_ok :: "claim_input \<Rightarrow> bool" where
  "claim_input_ok c =
     (reference_text (ic_id c) \<and> js_trim (ic_statement c) \<noteq> [] \<and> reference_text (ic_modality c)
      \<and> reference_text (ic_scope c) \<and> ic_support c \<noteq> [] \<and> distinct (ic_support c)
      \<and> list_all (\<lambda>i. reference_text i) (ic_support c) \<and> ic_id c \<notin> set (ic_conflicts c))"

definition claim_inputs_ok :: "claim_input list \<Rightarrow> bool" where
  "claim_inputs_ok cs =
     (cs \<noteq> [] \<and> list_all claim_input_ok cs \<and> distinct (map ic_id cs)
      \<and> (\<forall>c \<in> set cs. set (ic_conflicts c) \<subseteq> set (map ic_id cs)))"

lemma claim_input_of_ok:
  assumes "claim_input_of v = Some c"
  shows "claim_input_ok c"
proof -
  from assms have shape: "claim_input_shape v" "claim_conflicts_shape v"
    and fields: "ic_id c = text_of (jget v ''id'')" "ic_statement c = text_of (jget v ''statement'')"
      "ic_modality c = text_of (jget v ''modality'')" "ic_scope c = text_of (jget v ''scope'')"
      "ic_support c = map text_of (items_of (jget v ''support_event_ids''))"
      "ic_conflicts c = map text_of (items_of (conflicts_field v))"
    by (auto simp: claim_input_of_def split: if_splits option.splits)
  then show ?thesis
    by (auto simp: claim_input_ok_def fields claim_input_shape_def claim_conflicts_shape_def list_all_iff
        reference_text_of blank_text_of)
qed

lemma read_claim_inputs_ok:
  assumes "read_claim_inputs ids vs = Some cs"
  shows "length cs = length vs \<and> list_all claim_input_ok cs \<and> distinct (map ic_id cs)
    \<and> set (map ic_id cs) \<inter> ids = {}"
  using assms
  by (induction ids vs arbitrary: cs rule: read_claim_inputs.induct)
    (auto split: option.splits if_splits dest: claim_input_of_ok, fastforce+)

lemma validated_claims_ok: "validateClaimInputs v = Some cs \<Longrightarrow> claim_inputs_ok cs"
  by (auto simp: validateClaimInputs_def claim_inputs_ok_def list_all_iff dest!: read_claim_inputs_ok
      split: if_splits option.splits)

text \<open>The conflict sets while they are marked: defined on the claims, and symmetric.\<close>

definition conflict_map :: "jstr list \<Rightarrow> (jstr \<Rightarrow> jstr list option) \<Rightarrow> bool" where
  "conflict_map ids m =
     (dom m = set ids \<and> (\<forall>i x. m i = Some x \<longrightarrow> set x \<subseteq> set ids)
      \<and> (\<forall>i j x y. m i = Some x \<longrightarrow> m j = Some y \<longrightarrow> j \<in> set x \<longrightarrow> i \<in> set y))"

definition holds_conflicts :: "(jstr \<Rightarrow> jstr list option) \<Rightarrow> jstr \<Rightarrow> jstr list \<Rightarrow> bool" where
  "holds_conflicts m i js = (\<exists>x. m i = Some x \<and> set js \<subseteq> set x)"

lemma mark_conflicts_spec:
  assumes "conflict_map ids m" and "me \<in> set ids" and "set js \<subseteq> set ids" and "me \<notin> set js"
  shows "\<exists>m'. mark_conflicts ids me js m = Some m' \<and> conflict_map ids m' \<and> holds_conflicts m' me js
    \<and> (\<forall>i ks. holds_conflicts m i ks \<longrightarrow> holds_conflicts m' i ks)"
  using assms
proof (induction js arbitrary: m)
  case Nil
  then show ?case by (auto simp: conflict_map_def holds_conflicts_def dom_def)
next
  case (Cons j js)
  from Cons.prems have "me \<in> dom m" and "j \<in> dom m" by (simp_all add: conflict_map_def)
  then obtain mine others where s: "m me = Some mine" "m j = Some others" by auto
  define n where "n = m(me \<mapsto> j # mine, j \<mapsto> me # others)"
  have step: "mark_conflicts ids me (j # js) m = mark_conflicts ids me js n"
    using Cons.prems s by (auto simp: Let_def n_def)
  have n: "conflict_map ids n"
    using Cons.prems s unfolding conflict_map_def n_def by (auto split: if_splits)
  have prems: "me \<in> set ids" "set js \<subseteq> set ids" "me \<notin> set js" using Cons.prems by auto
  from Cons.IH [OF n prems] obtain m' where m': "mark_conflicts ids me js n = Some m'"
      "conflict_map ids m'" "holds_conflicts m' me js"
      "\<forall>i ks. holds_conflicts n i ks \<longrightarrow> holds_conflicts m' i ks" by blast
  have mono: "holds_conflicts n i ks" if "holds_conflicts m i ks" for i ks
    using that s by (auto simp: holds_conflicts_def n_def)
  have "holds_conflicts n me [j]" using Cons.prems s by (auto simp: holds_conflicts_def n_def)
  with m'(4) have "holds_conflicts m' me [j]" by blast
  with m'(3) have "holds_conflicts m' me (j # js)" by (auto simp: holds_conflicts_def)
  with m'(1,2,4) mono step show ?case by (metis (no_types, lifting))
qed

lemma mark_all_spec:
  assumes "conflict_map ids m" and "\<forall>c \<in> set cs. ic_id c \<in> set ids \<and> set (ic_conflicts c) \<subseteq> set ids
      \<and> ic_id c \<notin> set (ic_conflicts c)"
  shows "\<exists>m'. mark_all ids cs m = Some m' \<and> conflict_map ids m'
    \<and> (\<forall>c \<in> set cs. holds_conflicts m' (ic_id c) (ic_conflicts c))
    \<and> (\<forall>i ks. holds_conflicts m i ks \<longrightarrow> holds_conflicts m' i ks)"
  using assms
proof (induction cs arbitrary: m)
  case (Cons c cs)
  then obtain m1 where m1: "mark_conflicts ids (ic_id c) (ic_conflicts c) m = Some m1" "conflict_map ids m1"
      "holds_conflicts m1 (ic_id c) (ic_conflicts c)"
      "\<forall>i ks. holds_conflicts m i ks \<longrightarrow> holds_conflicts m1 i ks"
    using mark_conflicts_spec [of ids m "ic_id c" "ic_conflicts c"] by auto
  from Cons.IH [OF m1(2)] Cons.prems(2) obtain m2 where "mark_all ids cs m1 = Some m2" "conflict_map ids m2"
      "\<forall>c \<in> set cs. holds_conflicts m2 (ic_id c) (ic_conflicts c)"
      "\<forall>i ks. holds_conflicts m1 i ks \<longrightarrow> holds_conflicts m2 i ks" by auto
  moreover have "m (ic_id c) \<noteq> None" using Cons.prems by (auto simp: conflict_map_def dom_def)
  ultimately show ?case using m1 by auto
qed simp

lemma conflict_sets_spec:
  assumes "claim_inputs_ok cs"
  shows "\<exists>m. conflictSets cs = Some m \<and> conflict_map (map ic_id cs) m
    \<and> (\<forall>c \<in> set cs. holds_conflicts m (ic_id c) (ic_conflicts c))"
proof -
  have "conflict_map (map ic_id cs) (\<lambda>i. if i \<in> set (map ic_id cs) then Some [] else None)"
    by (auto simp: conflict_map_def dom_def split: if_splits)
  from mark_all_spec [OF this, of cs] show ?thesis
    using assms by (auto simp: conflictSets_def claim_inputs_ok_def claim_input_ok_def list_all_iff)
qed

end
