(* ===== verification/Minni_Builder_Laws.thy ===== *)
theory Minni_Builder_Laws
  imports Minni_Builder_Parts
begin

text \<open>
  The builder never fails on checked input but for one reason, and what it builds is grounded in the
  events it was given. Also the exactness of timestamps and the round trip of contracts.
\<close>

section \<open>The evidence of a contract\<close>

definition serialized :: "jstr list \<Rightarrow> jstr list \<Rightarrow> minni_event \<Rightarrow> evidence_reference" where
  "serialized eventIds marked ev =
     (let r = buildEvidenceReference ev eventIds
      in if ev_id ev \<in> set marked
         then r\<lparr>er_uncertainties := canonical_list (uncertainties_of ev eventIds @ [Contradictory_evidence])\<rparr>
         else r)"

lemma serialized_evidence_eq:
  "serialized_evidence events claims = map (serialized (map ev_id events) (conflict_evidence_ids claims)) events"
  by (simp add: serialized_evidence_def serialized_def Let_def)

lemma serialized_fields [simp]:
  "er_event_id (serialized ids K ev) = ev_id ev" "er_interval (serialized ids K ev) = eventInterval ev"
  "er_anchor_context (serialized ids K ev) = fst (anchorForEvent ev ids)"
  "er_anchor_id (serialized ids K ev) = fst (snd (anchorForEvent ev ids))"
  by (simp_all add: serialized_def buildEvidenceReference_def Let_def)

lemma serialized_uncertainties:
  "set (er_uncertainties (serialized ids K ev))
    = set (uncertainties_of ev ids) \<union> (if ev_id ev \<in> set K then {Contradictory_evidence} else {})"
  by (auto simp: serialized_def buildEvidenceReference_def Let_def)

lemma serialized_ok:
  assumes "event_ok ev" and "list_all (\<lambda>i. reference_text i) ids" and "ev_id ev \<in> set ids"
  shows "reference_ok (serialized ids K ev)"
proof -
  have same: "(buildEvidenceReference ev ids)\<lparr>er_uncertainties := canonical_list (uncertainties_of ev ids)\<rparr>
      = buildEvidenceReference ev ids"
    by (simp add: buildEvidenceReference_def Let_def)
  have "reference_ok ((buildEvidenceReference ev ids)\<lparr>er_uncertainties := canonical_list (uncertainties_of ev ids)\<rparr>)"
    by (rule built_reference_ok [OF assms]) simp
  moreover have "reference_ok ((buildEvidenceReference ev ids)
      \<lparr>er_uncertainties := canonical_list (uncertainties_of ev ids @ [Contradictory_evidence])\<rparr>)"
    by (rule built_reference_ok [OF assms]) auto
  ultimately show ?thesis by (simp add: serialized_def Let_def same)
qed

lemma serialized_anchors:
  "anchors_known (map (serialized (map ev_id events) K) events)"
proof -
  have "\<exists>a. fst (snd (anchorForEvent ev ids)) = Some a \<and> a \<noteq> ev_id ev \<and> a \<in> set ids"
    if "fst (anchorForEvent ev ids) = Authorized_context" for ev ids
    using that by (auto simp: anchorForEvent_def split: if_splits option.splits)
  note anchor = this
  have ids: "map er_event_id (map (serialized (map ev_id events) K) events) = map ev_id events"
    by simp
  show ?thesis
    unfolding anchors_known_def ids by (auto simp: list_all_iff dest!: anchor)
qed

section \<open>The claims of a contract\<close>

definition grounded :: "minni_event list \<Rightarrow> claim_input \<Rightarrow> bool" where
  "grounded events c =
     (set (ic_support c) \<subseteq> set (map ev_id events)
      \<and> (ic_modality c = ''screen_ocr''
          \<longrightarrow> list_ex (\<lambda>ev. isOCR ev \<and> ev_id ev \<in> set (ic_support c)) events))"

lemma find_id: "i \<in> set (map f xs) \<Longrightarrow> \<exists>x. find (\<lambda>x. f x = i) xs = Some x \<and> x \<in> set xs \<and> f x = i"
  by (induction xs) auto

lemma find_id_None: "find (\<lambda>x. f x = i) xs = None \<longleftrightarrow> i \<notin> set (map f xs)"
  by (induction xs) auto

lemma support_events_known:
  assumes "set is \<subseteq> set (map ev_id events)"
  shows "\<exists>evs. support_events events is = Some evs \<and> map ev_id evs = is \<and> set evs \<subseteq> set events
    \<and> support_of (map (serialized ids K) events) is = map (serialized ids K) evs"
  using assms
proof (induction "is")
  case (Cons i js)
  then obtain ev evs where ev: "find (\<lambda>ev. ev_id ev = i) events = Some ev" "ev \<in> set events" "ev_id ev = i"
    and evs: "support_events events js = Some evs" "map ev_id evs = js" "set evs \<subseteq> set events"
      "support_of (map (serialized ids K) events) js = map (serialized ids K) evs"
    using find_id [of i ev_id events] by auto
  have "find (\<lambda>r. er_event_id r = i) (map (serialized ids K) events) = Some (serialized ids K ev)"
    using ev(1) by (induction events) (auto split: if_splits)
  with ev evs show ?case by (simp add: support_of_def List.map_filter_simps)
qed (simp add: support_of_def List.map_filter_simps)

lemma support_events_unknown:
  "\<not> set is \<subseteq> set (map ev_id events) \<Longrightarrow> support_events events is = None"
proof (induction "is")
  case (Cons i js)
  then show ?case
    using find_id_None [of ev_id i events]
    by (cases "find (\<lambda>ev. ev_id ev = i) events") auto
qed simp

text \<open>A built claim, given its conflict set.\<close>

definition built_claim_ok :: "minni_event list \<Rightarrow> claim_input list \<Rightarrow> claim_input \<Rightarrow> jstr list \<Rightarrow> summary_claim \<Rightarrow> bool" where
  "built_claim_ok events claims input conflicts c =
     (cl_id c = ic_id input \<and> cl_support c = ic_support input \<and> cl_modality c = ic_modality input
      \<and> cl_conflicts c = claimConflictsInCanonicalOrder (ic_id input) conflicts claims
      \<and> (conflicts \<noteq> [] \<longrightarrow> Contradictory_evidence \<in> set (cl_uncertainties c))
      \<and> (Ocr_source \<in> set (cl_uncertainties c)
          \<longleftrightarrow> list_ex (\<lambda>ev. isOCR ev \<and> ev_id ev \<in> set (ic_support input)) events)
      \<and> (\<forall>K. claim_supported (map (serialized (map ev_id events) K) events) c)
      \<and> (grounded events input \<longrightarrow> claim_ok c))"

lemma conflicts_in_order:
  assumes "distinct (map ic_id claims)" and "list_all claim_input_ok claims"
  shows "distinct (claimConflictsInCanonicalOrder me conflicts claims)"
    and "list_all (\<lambda>i. reference_text i) (claimConflictsInCanonicalOrder me conflicts claims)"
    and "set (claimConflictsInCanonicalOrder me conflicts claims) = (set conflicts \<inter> set (map ic_id claims)) - {me}"
  using assms by (auto simp: claimConflictsInCanonicalOrder_def distinct_map list_all_iff claim_input_ok_def
      intro: inj_on_subset)

lemma buildClaim_known:
  assumes "list_all event_ok events" and "distinct (map ev_id events)" and "claim_inputs_ok claims"
    and "input \<in> set claims" and "set (ic_support input) \<subseteq> set (map ev_id events)"
  shows "\<exists>c. buildClaim events claims input conflicts = Some c \<and> built_claim_ok events claims input conflicts c"
proof -
  let ?ids = "map ev_id events"
  obtain evs where evs: "support_events events (ic_support input) = Some evs" "map ev_id evs = ic_support input"
      "set evs \<subseteq> set events"
    using support_events_known [OF assms(5), of "[]" "[]"] by auto
  have in_ok: "claim_input_ok input" using assms(3,4) by (auto simp: claim_inputs_ok_def list_all_iff)
  then have "evs \<noteq> []" using evs(2) by (auto simp: claim_input_ok_def)
  moreover have evs_ok: "list_all interval_ok (map eventInterval evs)"
    using evs(3) assms(1) by (auto simp: list_all_iff intro: event_interval_ok)
  ultimately obtain h where h: "derivedInterval evs = Some h" "tightest (set (map eventInterval evs)) h"
    using hull_tightest [of "map eventInterval evs"] by (auto simp: derivedInterval_def)
  define us where "us = concat (map (\<lambda>ev. uncertainties_of ev ?ids) evs)
      @ (if ic_scope_linkage_unknown input then [Scope_linkage_unknown] else [])
      @ (if conflicts \<noteq> [] then [Contradictory_evidence] else [])"
  define c where "c = \<lparr>cl_id = ic_id input, cl_statement = ic_statement input, cl_state = ic_state input,
      cl_modality = ic_modality input, cl_scope = ic_scope input, cl_support = ic_support input,
      cl_interval = h, cl_uncertainties = canonical_list us,
      cl_conflicts = claimConflictsInCanonicalOrder (ic_id input) conflicts claims\<rparr>"
  have built: "buildClaim events claims input conflicts = Some c"
    by (simp add: buildClaim_def evs(1) h(1) Let_def c_def us_def)
  have evs_eq: "set evs = {ev \<in> set events. ev_id ev \<in> set (ic_support input)}"
  proof -
    have "inj_on ev_id (set events)" using assms(2) by (simp add: distinct_map)
    moreover have "set (ic_support input) = ev_id ` set evs" using evs(2) by (metis set_map)
    ultimately show ?thesis using evs(3) by (auto dest: inj_onD)
  qed
  have ocr: "Ocr_source \<in> set us \<longleftrightarrow> (\<exists>ev \<in> set evs. isOCR ev)"
    using ocr_only ocr_uncertainties by (fastforce simp: us_def REQUIRED_OCR_UNCERTAINTIES_def)
  have all_ocr: "hasRequiredOCRUncertainties (canonical_list us)" if "\<exists>ev \<in> set evs. isOCR ev"
    using that ocr_uncertainties [of _ ?ids] by (fastforce simp: ocr_required us_def)
  have supported: "claim_supported (map (serialized ?ids K) events) c" for K
    using support_events_known [OF assms(5), of ?ids K] assms(5) evs(1) h(1)
    by (auto simp: claim_supported_def c_def derivedEvidenceInterval_def derivedInterval_def comp_def image_image)
  note order = conflicts_in_order [of claims]
  have "claim_ok c" if "grounded events input"
    using that in_ok assms(3) h(2) all_ocr order evs_eq
    by (auto simp: claim_ok_def c_def claim_input_ok_def grounded_def claim_inputs_ok_def tightest_def
        canonical_canonical_list list_ex_iff)
  then show ?thesis
    using built supported ocr evs_eq by (auto simp: built_claim_ok_def c_def list_ex_iff us_def)
qed

lemma build_claims_known:
  assumes "list_all event_ok events" and "distinct (map ev_id events)" and "claim_inputs_ok claims"
    and "set cs \<subseteq> set claims" and "\<forall>c \<in> set cs. set (ic_support c) \<subseteq> set (map ev_id events)"
    and "\<forall>c \<in> set claims. sets (ic_id c) \<noteq> None"
  shows "\<exists>bs. build_claims events claims sets cs = Some bs
    \<and> list_all2 (\<lambda>c b. \<exists>k. sets (ic_id c) = Some k \<and> built_claim_ok events claims c k b) cs bs"
  using assms(4,5)
proof (induction cs)
  case (Cons c cs)
  then obtain k where k: "sets (ic_id c) = Some k" using assms(6) by auto
  from buildClaim_known [OF assms(1-3), of c k] Cons.prems obtain b where
    "buildClaim events claims c k = Some b" "built_claim_ok events claims c k b" by auto
  with Cons k show ?case by auto
qed simp

lemma build_claims_unknown:
  assumes "c \<in> set cs" and "\<not> set (ic_support c) \<subseteq> set (map ev_id events)"
  shows "build_claims events claims sets cs = None"
  using assms
proof (induction cs)
  case (Cons d cs)
  show ?case
  proof (cases "d = c")
    case True
    then have "buildClaim events claims d k = None" for k
      using support_events_unknown [OF assms(2)] by (simp add: buildClaim_def)
    then show ?thesis by (auto split: option.splits)
  next
    case False
    with Cons show ?thesis by (auto split: option.splits)
  qed
qed simp

text \<open>The claims of one build, with the conflict sets they were built from.\<close>

definition built_claims :: "minni_event list \<Rightarrow> claim_input list \<Rightarrow> (jstr \<Rightarrow> jstr list option) \<Rightarrow> summary_claim list \<Rightarrow> bool" where
  "built_claims events cs sets bs =
     list_all2 (\<lambda>c b. \<exists>k. sets (ic_id c) = Some k \<and> built_claim_ok events cs c k b) cs bs"

lemma list_all2_in1: "list_all2 P xs ys \<Longrightarrow> x \<in> set xs \<Longrightarrow> \<exists>y \<in> set ys. P x y"
  by (induction rule: list_all2_induct) auto

lemma list_all2_in2: "list_all2 P xs ys \<Longrightarrow> y \<in> set ys \<Longrightarrow> \<exists>x \<in> set xs. P x y"
  by (induction rule: list_all2_induct) auto

lemma built_from:
  assumes "built_claims events cs sets bs" and "b \<in> set bs"
  obtains c k where "c \<in> set cs" and "sets (ic_id c) = Some k" and "built_claim_ok events cs c k b"
  using list_all2_in2 [OF assms(1) [unfolded built_claims_def] assms(2)] by blast

lemma built_of:
  assumes "built_claims events cs sets bs" and "c \<in> set cs"
  obtains b k where "b \<in> set bs" and "sets (ic_id c) = Some k" and "built_claim_ok events cs c k b"
  using list_all2_in1 [OF assms(1) [unfolded built_claims_def] assms(2)] by blast

lemma built_ids: "built_claims events cs sets bs \<Longrightarrow> map cl_id bs = map ic_id cs"
  unfolding built_claims_def by (induction rule: list_all2_induct) (auto simp: built_claim_ok_def)

lemma built_symmetric:
  assumes "built_claims events cs sets bs" and "conflict_map (map ic_id cs) sets" and "claim_inputs_ok cs"
  shows "conflicts_symmetric bs"
  unfolding conflicts_symmetric_def list_all_iff
proof (intro ballI)
  fix b i assume b: "b \<in> set bs" and i: "i \<in> set (cl_conflicts b)"
  obtain c k where c: "c \<in> set cs" "sets (ic_id c) = Some k" "built_claim_ok events cs c k b"
    using assms(1) b by (rule built_from)
  have order: "set (cl_conflicts b) = (set k \<inter> set (map ic_id cs)) - {ic_id c}"
    using c(3) assms(3) conflicts_in_order(3) [of cs] by (simp add: built_claim_ok_def claim_inputs_ok_def)
  from i order have "i \<in> set (map cl_id bs)" using built_ids [OF assms(1)] by auto
  then obtain d where d: "find (\<lambda>d. cl_id d = i) bs = Some d" "d \<in> set bs" "cl_id d = i"
    using find_id [of i cl_id bs] by blast
  obtain e m where e: "e \<in> set cs" "sets (ic_id e) = Some m" "built_claim_ok events cs e m d"
    using assms(1) d(2) by (rule built_from)
  have ie: "ic_id e = i" using e(3) d(3) by (simp add: built_claim_ok_def)
  have "ic_id c \<in> set m"
    using assms(2) c(2) e(2) i order ie unfolding conflict_map_def by blast
  then have "ic_id c \<in> set (cl_conflicts d)"
    using e(3) c(1) i order ie assms(3) conflicts_in_order(3) [of cs]
    by (auto simp: built_claim_ok_def claim_inputs_ok_def)
  then show "case find (\<lambda>d. cl_id d = i) bs of None \<Rightarrow> False | Some d \<Rightarrow> cl_id b \<in> set (cl_conflicts d)"
    using d(1) c(3) by (simp add: built_claim_ok_def)
qed

lemma built_marked:
  assumes "built_claims events cs sets bs"
  shows "conflicts_marked (serialized_evidence events bs) bs"
proof -
  have "cl_conflicts b = [] \<or> Contradictory_evidence \<in> set (cl_uncertainties b)" if "b \<in> set bs" for b
    using assms that by (rule built_from) (auto simp: built_claim_ok_def claimConflictsInCanonicalOrder_def)
  then show ?thesis
    by (auto simp: conflicts_marked_def list_all_iff serialized_evidence_eq serialized_uncertainties)
qed

lemma assembled_ok:
  assumes "evidence_ok a" and "js_trim (bi_summary input) \<noteq> []" and "derivedInterval (ae_items a) = Some h"
    and "lineage_ok l" and "list_all (\<lambda>i. reference_text i) (map ev_id (ae_items a))"
    and "claim_inputs_ok cs" and "conflict_map (map ic_id cs) sets" and "built_claims (ae_items a) cs sets bs"
    and "list_all (grounded (ae_items a)) cs"
  shows "contract_ok (assembled a input h l bs)"
proof -
  let ?evs = "ae_items a" and ?rs = "serialized_evidence (ae_items a) bs"
  have evs: "?evs \<noteq> []" "list_all event_ok ?evs" "distinct (map ev_id ?evs)"
    using assms(1) by (auto simp: evidence_ok_def)
  have refs: "list_all reference_ok ?rs"
    using evs(2) assms(5) by (auto simp: list_all_iff serialized_evidence_eq intro!: serialized_ok)
  have ids: "map er_event_id ?rs = map ev_id ?evs" by (simp add: serialized_evidence_eq)
  have intervals: "derivedEvidenceInterval ?rs = Some h"
    using assms(3) by (simp add: serialized_evidence_eq derivedEvidenceInterval_def derivedInterval_def comp_def)
  have "list_all interval_ok (map eventInterval ?evs)"
    using evs(2) by (auto simp: list_all_iff intro: event_interval_ok)
  from hull_tightest [OF _ this] evs(1) assms(3) have h: "interval_ok h"
    by (auto simp: derivedInterval_def tightest_def)
  have each: "claim_ok b \<and> claim_supported ?rs b" if "b \<in> set bs" for b
    using assms(8) that
    by (rule built_from) (use assms(9) in \<open>auto simp: built_claim_ok_def serialized_evidence_eq list_all_iff\<close>)
  have "bs \<noteq> []" using built_ids [OF assms(8)] assms(6) by (auto simp: claim_inputs_ok_def)
  moreover have "distinct (map cl_id bs)" using built_ids [OF assms(8)] assms(6) by (simp add: claim_inputs_ok_def)
  ultimately show ?thesis
    using assms(1,2,4) evs refs ids intervals h each built_symmetric [OF assms(8,7,6)] built_marked [OF assms(8)]
      serialized_anchors [of ?evs "conflict_evidence_ids bs"]
    by (auto simp: contract_ok_def assembled_def evidence_ok_def count_ok_def list_all_iff serialized_evidence_eq comp_def)
qed

lemma validate_claims_None:
  "v \<in> set vs \<Longrightarrow> validateClaim v = None \<Longrightarrow> validate_claims evidence ids vs = None"
  by (induction vs arbitrary: ids) (auto split: option.splits)

text \<open>A claim about a screen that no screen event supports is refused by the serialiser.\<close>

lemma ungrounded_refused:
  assumes "b \<in> set (mc_claims c)" and "cl_modality b = ''screen_ocr''" and "Ocr_source \<notin> set (cl_uncertainties b)"
  shows "serializeMinniSummaryContract (contract_value c) \<noteq> Inr c'"
proof -
  have "\<not> hasRequiredOCRUncertainties (filter (\<lambda>u. u \<in> set (cl_uncertainties b)) SUMMARY_UNCERTAINTIES)"
    using assms(3) by (simp add: ocr_required REQUIRED_OCR_UNCERTAINTIES_def)
  then have "validateClaim (claim_value b) = None"
    using assms(2) by (auto simp: validateClaim_def claim_value_def split: option.splits)
  then have "validate_claims evidence ids (map claim_value (mc_claims c)) = None" for evidence ids
    using assms(1) by (intro validate_claims_None) auto
  then show ?thesis
    by (auto simp: serializeMinniSummaryContract_def classifyMinniSummaryContract_def validateContract_def
        contract_parts_def contract_value_def split: option.splits if_splits)
qed

section \<open>The builder\<close>

definition read_parts ::
  "(jval \<Rightarrow> jstr option) \<Rightarrow> jval \<Rightarrow> accepted_evidence \<Rightarrow> builder_input \<Rightarrow> lineage \<Rightarrow> claim_input list \<Rightarrow> bool" where
  "read_parts stringify v a input l cs =
     (readEvidenceBeforeTransientInput stringify v = Some (Accepted a) \<and> normalizeBuilderInput v = Some input
      \<and> validateLineageInputs (bi_lineages input) (map ev_id (ae_items a)) = Inr (Some l)
      \<and> validateClaimInputs (bi_claims input) = Some cs)"

lemma read_evidence_ok:
  "readEvidenceBeforeTransientInput stringify v = Some (Accepted a) \<Longrightarrow> evidence_ok a"
  by (auto simp: readEvidenceBeforeTransientInput_def unwrapEvidence_def decodeAcceptedEvidence_def
      intro: accepted_evidence_ok split: if_splits option.splits)

lemma read_summary: "normalizeBuilderInput v = Some input \<Longrightarrow> js_trim (bi_summary input) \<noteq> []"
  by (auto simp: normalizeBuilderInput_def blank_text_of split: if_splits)

text \<open>What the builder does once everything has been read.\<close>

lemma build_read:
  assumes "read_parts stringify v a input l cs"
  shows "if list_all (grounded (ae_items a)) cs
    then \<exists>h sets bs. buildMinniSummaryContract stringify v = Inr (Accepted (assembled a input h l bs))
      \<and> contract_ok (assembled a input h l bs) \<and> built_claims (ae_items a) cs sets bs
    else buildMinniSummaryContract stringify v = Inr (Codec_refused Invalid_contract)"
proof -
  let ?evs = "ae_items a" and ?ids = "map ev_id (ae_items a)"
  have a: "evidence_ok a"
    using assms read_evidence_ok [of stringify v a] by (simp add: read_parts_def)
  have cs: "claim_inputs_ok cs"
    using assms validated_claims_ok [of "bi_claims input" cs] by (simp add: read_parts_def)
  have summary: "js_trim (bi_summary input) \<noteq> []"
    using assms read_summary [of v input] by (simp add: read_parts_def)
  have lin: "lineage_ok l" "list_all (\<lambda>i. reference_text i) ?ids"
    using lineage_inputs [of "bi_lineages input" ?ids l] assms by (auto simp: read_parts_def)
  from a have evs: "?evs \<noteq> []" "list_all event_ok ?evs" "distinct ?ids" by (auto simp: evidence_ok_def)
  have "list_all interval_ok (map eventInterval ?evs)"
    using evs(2) by (auto simp: list_all_iff intro: event_interval_ok)
  then obtain h where h: "derivedInterval ?evs = Some h"
    using hull_tightest [of "map eventInterval ?evs"] evs(1) by (auto simp: derivedInterval_def)
  obtain sets where sets: "conflictSets cs = Some sets" "conflict_map (map ic_id cs) sets"
    using conflict_sets_spec [OF cs] by auto
  have dom: "\<forall>c \<in> set cs. sets (ic_id c) \<noteq> None" using sets(2) by (auto simp: conflict_map_def dom_def)
  have size: "length (js_uniq ?ids) = length ?evs" using evs(3) by (simp add: js_uniq_distinct)
  define result :: "lineage_error + summary_contract codec_result" where "result = (case build_claims ?evs cs sets cs of
      None \<Rightarrow> Inr (Codec_refused Invalid_contract)
    | Some claims \<Rightarrow> (case serializeMinniSummaryContract (contract_value (assembled a input h l claims)) of
        Inl _ \<Rightarrow> Inr (Codec_refused Invalid_contract) | Inr contract \<Rightarrow> Inr (Accepted contract)))"
  have build: "buildMinniSummaryContract stringify v = result"
    using assms h sets(1) size
    by (simp add: read_parts_def buildMinniSummaryContract_def build_from_def Let_def result_def)
  show ?thesis
  proof (cases "\<forall>c \<in> set cs. set (ic_support c) \<subseteq> set ?ids")
    case False
    then obtain c where "c \<in> set cs" "\<not> set (ic_support c) \<subseteq> set ?ids" by auto
    then show ?thesis
      using build_claims_unknown [of c cs ?evs] build by (auto simp: result_def list_all_iff grounded_def)
  next
    case True
    then obtain bs where bs: "build_claims ?evs cs sets cs = Some bs" "built_claims ?evs cs sets bs"
      using build_claims_known [OF evs(2,3) cs _ _ dom, of cs] by (auto simp: built_claims_def)
    show ?thesis
    proof (cases "list_all (grounded ?evs) cs")
      case grounded: True
      have ok: "contract_ok (assembled a input h l bs)"
        by (rule assembled_ok [OF a summary h lin cs sets(2) bs(2) grounded])
      then have "result = Inr (Accepted (assembled a input h l bs))"
        by (simp add: result_def bs(1) serializeMinniSummaryContract_def contract_back)
      with build ok bs(2) grounded show ?thesis by auto
    next
      case ungrounded: False
      then obtain c where c: "c \<in> set cs" "ic_modality c = ''screen_ocr''"
          "\<not> list_ex (\<lambda>ev. isOCR ev \<and> ev_id ev \<in> set (ic_support c)) ?evs"
        using True by (auto simp: list_all_iff grounded_def)
      obtain b k where "b \<in> set bs" "built_claim_ok ?evs cs c k b"
        using bs(2) c(1) by (rule built_of)
      then have "serializeMinniSummaryContract (contract_value (assembled a input h l bs)) \<noteq> Inr c'" for c'
        using c by (intro ungrounded_refused [of b]) (auto simp: built_claim_ok_def assembled_def)
      then have "result = Inr (Codec_refused Invalid_contract)"
        by (simp add: result_def bs(1) split: sum.splits)
      with build ungrounded show ?thesis by simp
    qed
  qed
qed


text \<open>Refused or not, the builder never throws.\<close>

lemma build_never_throws: "buildMinniSummaryContract stringify v \<noteq> Inl err"
proof -
  have "build_from a input \<noteq> Inl err" for a input
  proof -
    obtain j where "validateLineageInputs (bi_lineages input) (map ev_id (ae_items a)) = Inr j"
      by (rule lineage_inputs)
    then show ?thesis
      by (auto simp: build_from_def Let_def split: option.splits sum.splits)
  qed
  then show ?thesis
    by (auto simp: buildMinniSummaryContract_def split: option.splits codec_result.splits)
qed

text \<open>What was accepted had been read.\<close>

lemma accepted_was_read:
  assumes "buildMinniSummaryContract stringify v = Inr (Accepted c)"
  obtains a input l cs where "read_parts stringify v a input l cs"
proof -
  from assms obtain a input where r: "readEvidenceBeforeTransientInput stringify v = Some (Accepted a)"
      "normalizeBuilderInput v = Some input" "build_from a input = Inr (Accepted c)"
    by (auto simp: buildMinniSummaryContract_def split: option.splits codec_result.splits)
  from r(3) obtain l cs where
      "validateLineageInputs (bi_lineages input) (map ev_id (ae_items a)) = Inr (Some l)"
      "validateClaimInputs (bi_claims input) = Some cs"
    by (auto simp: build_from_def Let_def split: option.splits sum.splits)
  with r that show ?thesis by (simp add: read_parts_def)
qed

text \<open>The events a claim cites, and the tightest interval over them.\<close>

lemma claim_grounded:
  assumes "claim_supported (map (serialized (map ev_id events) K) events) b" and "list_all event_ok events"
    and "distinct (map ev_id events)" and "cl_support b \<noteq> []"
  shows "set (cl_support b) \<subseteq> set (map ev_id events)
    \<and> tightest (eventInterval ` {ev \<in> set events. ev_id ev \<in> set (cl_support b)}) (cl_interval b)"
proof -
  let ?ids = "map ev_id events"
  from assms(1) have sub: "set (cl_support b) \<subseteq> set ?ids"
    and derived: "derivedEvidenceInterval (support_of (map (serialized ?ids K) events) (cl_support b)) = Some (cl_interval b)"
    by (auto simp: claim_supported_def)
  obtain evs where evs: "map ev_id evs = cl_support b" "set evs \<subseteq> set events"
      "support_of (map (serialized ?ids K) events) (cl_support b) = map (serialized ?ids K) evs"
    using support_events_known [OF sub, of ?ids K] by auto
  have eq: "set evs = {ev \<in> set events. ev_id ev \<in> set (cl_support b)}"
  proof -
    have "inj_on ev_id (set events)" using assms(3) by (simp add: distinct_map)
    moreover have "set (cl_support b) = ev_id ` set evs" using evs(1) by (metis set_map)
    ultimately show ?thesis using evs(2) by (auto dest: inj_onD)
  qed
  have "list_all interval_ok (map eventInterval evs)"
    using evs(2) assms(2) by (auto simp: list_all_iff intro: event_interval_ok)
  moreover have "evs \<noteq> []" using evs(1) assms(4) by auto
  ultimately obtain h where "hull_of (map eventInterval evs) = Some h" "tightest (set (map eventInterval evs)) h"
    using hull_tightest [of "map eventInterval evs"] by auto
  with derived evs(3) have "tightest (eventInterval ` set evs) (cl_interval b)"
    by (simp add: derivedEvidenceInterval_def comp_def)
  then show ?thesis using sub eq by simp
qed

section \<open>A concrete input\<close>

text \<open>Two events, the second anchored to the first, and two claims that contradict each other.\<close>

definition demo_summary_input :: jval where
  "demo_summary_input =
     obj [(''summary'', JStr ''two notes''),
          (''evidence'', obj [(''items'', JArr [
              obj [(''id'', JStr ''e1''), (''type'', JStr ''event''), (''ts'', JStr ''2024-03-01T10:00:00Z''),
                   (''source'', JStr ''minni''), (''flags'', JArr []), (''text'', JStr ''tea'')],
              obj [(''id'', JStr ''e2''), (''type'', JStr ''event''), (''ts'', JStr ''2024-03-01T10:30:00Z''),
                   (''source'', JStr ''minni''), (''flags'', JArr [JStr ''delta'']), (''text'', JStr ''no tea''),
                   (''anchorId'', JStr ''e1''), (''kind'', JStr ''ocr'')]]),
            (''returned_count'', JNum (Fin 2)), (''local_only_withheld_count'', JNum (Fin 0))]),
          (''lineages'', JArr [
              obj [(''event_id'', JStr ''e1''), (''processing_lineage'', demo_lineage)],
              obj [(''event_id'', JStr ''e2''), (''processing_lineage'', demo_lineage)]]),
          (''claims'', JArr [
              obj [(''id'', JStr ''c1''), (''statement'', JStr ''there is tea''), (''state'', JStr ''planned''),
                   (''modality'', JStr ''event''), (''scope'', JStr ''kitchen''),
                   (''support_event_ids'', JArr [JStr ''e1'']), (''conflicts'', JArr [JStr ''c2''])],
              obj [(''id'', JStr ''c2''), (''statement'', JStr ''there is no tea''), (''state'', JStr ''planned''),
                   (''modality'', JStr ''screen_ocr''), (''scope'', JStr ''kitchen''),
                   (''support_event_ids'', JArr [JStr ''e2'', JStr ''e1''])]])]"

definition demo_event :: "jstr \<Rightarrow> jstr \<Rightarrow> jstr \<Rightarrow> jstr list \<Rightarrow> jstr option \<Rightarrow> jstr option \<Rightarrow> minni_event" where
  "demo_event i t x flags kind a =
     \<lparr>ev_id = i, ev_ts = t, ev_source = ''minni'', ev_flags = flags, ev_end = None, ev_app = None,
      ev_bundleId = None, ev_window = None, ev_url = None, ev_name = None, ev_kind = kind,
      ev_anchorId = a, ev_conversationId = None, ev_text = x, ev_observation = None\<rparr>"

definition demo_evidence :: accepted_evidence where
  "demo_evidence =
     \<lparr>ae_items = [demo_event ''e1'' ''2024-03-01T10:00:00Z'' ''tea'' [] None None,
        demo_event ''e2'' ''2024-03-01T10:30:00Z'' ''no tea'' [''delta''] (Some ''ocr'') (Some ''e1'')],
      ae_returned_count = 2, ae_local_only_withheld_count = 0\<rparr>"

definition demo_builder_input :: builder_input where
  "demo_builder_input =
     \<lparr>bi_summary = ''two notes'', bi_lineages = jget demo_summary_input ''lineages'', bi_claims = jget demo_summary_input ''claims'',
      bi_conclusion = None\<rparr>"

definition demo_claims :: "claim_input list" where
  "demo_claims =
     [\<lparr>ic_id = ''c1'', ic_statement = ''there is tea'', ic_state = Claim_planned, ic_modality = ''event'',
       ic_scope = ''kitchen'', ic_support = [''e1''], ic_conflicts = [''c2''], ic_scope_linkage_unknown = False\<rparr>,
      \<lparr>ic_id = ''c2'', ic_statement = ''there is no tea'', ic_state = Claim_planned, ic_modality = ''screen_ocr'',
       ic_scope = ''kitchen'', ic_support = [''e2'', ''e1''], ic_conflicts = [], ic_scope_linkage_unknown = False\<rparr>]"

lemma demo_read_evidence:
  "readEvidenceBeforeTransientInput (\<lambda>_. None) demo_summary_input = Some (Accepted demo_evidence)"
  by code_simp

lemma demo_lineages: "validateLineageInputs (jget demo_summary_input ''lineages'') [''e1'', ''e2''] = Inr (Some demo_verified)"
  by code_simp

lemma demo_claims: "validateClaimInputs (jget demo_summary_input ''claims'') = Some demo_claims"
  by code_simp

lemma demo_normal: "normalizeBuilderInput demo_summary_input = Some demo_builder_input"
  by code_simp

lemma demo_parts:
  "read_parts (\<lambda>_. None) demo_summary_input demo_evidence demo_builder_input demo_verified demo_claims"
proof -
  have "map ev_id (ae_items demo_evidence) = [''e1'', ''e2'']" by code_simp
  then show ?thesis
    using demo_read_evidence demo_lineages demo_claims demo_normal
    by (simp add: read_parts_def demo_builder_input_def)
qed

lemma demo_grounded: "list_all (grounded (ae_items demo_evidence)) demo_claims"
  by code_simp

section \<open>Properties\<close>




text \<open>C36: Once evidence, input, lineages and claims have been read, the builder accepts if and only if every
  claim is grounded, that is its supporting events are among those returned and a claim about the screen
  has a screen event among them; there is no other way to fail, and the contract it then returns is
  well-formed.\<close>

theorem summary_builder_complete:
  assumes "read_parts stringify v a input l cs"
  shows "if list_all (grounded (ae_items a)) cs
    then (\<exists>c. buildMinniSummaryContract stringify v = Inr (Accepted c) \<and> contract_ok c)
    else buildMinniSummaryContract stringify v = Inr (Codec_refused Invalid_contract)"
  using build_read [OF assms] by (auto split: if_splits)

theorem summary_builder_complete_witness:
  "\<exists>c. buildMinniSummaryContract (\<lambda>_. None) demo_summary_input = Inr (Accepted c) \<and> contract_ok c"
  using summary_builder_complete [OF demo_parts] by (simp add: demo_grounded)

text \<open>C35: The builder never throws, and a contract it builds is grounded in the evidence it was given: its
  evidence is that of the returned events, one reference each, in order; every claim cites only those
  events and its interval is the tightest around theirs; contradictions are symmetric; and its
  lineage covers, with the same scope and at least the same restrictions, every lineage supplied.\<close>

theorem summary_is_grounded:
  assumes "buildMinniSummaryContract stringify v = Inr (Accepted c)"
    and "readEvidenceBeforeTransientInput stringify v = Some (Accepted a)"
  shows "buildMinniSummaryContract stringify v' \<noteq> Inl err
    \<and> map er_event_id (mc_evidence c) = map ev_id (ae_items a)
    \<and> map er_interval (mc_evidence c) = map eventInterval (ae_items a)
    \<and> tightest (eventInterval ` set (ae_items a)) (mc_interval c)
    \<and> (\<forall>b \<in> set (mc_claims c). set (cl_support b) \<subseteq> set (map ev_id (ae_items a))
        \<and> tightest (eventInterval ` {ev \<in> set (ae_items a). ev_id ev \<in> set (cl_support b)}) (cl_interval b))
    \<and> conflicts_symmetric (mc_claims c)
    \<and> (\<forall>raw \<in> set (items_of (jget v ''lineages'')).
        covers (mc_lineage c) (classifyProcessingLineage (jget raw ''processing_lineage'')))"
proof -
  obtain a' input l cs where parts': "read_parts stringify v a' input l cs"
    using assms(1) by (rule accepted_was_read)
  with assms(2) have parts: "read_parts stringify v a input l cs" by (simp add: read_parts_def)
  with build_read [OF parts] assms(1) obtain h sets bs where c: "c = assembled a input h l bs" "contract_ok c"
    by (auto split: if_splits)
  have ev: "evidence_ok a" using assms(2) by (rule read_evidence_ok)
  then have ok: "list_all event_ok (ae_items a)" "distinct (map ev_id (ae_items a))" "ae_items a \<noteq> []"
    by (simp_all add: evidence_ok_def)
  have evidence: "mc_evidence c = map (serialized (map ev_id (ae_items a)) (conflict_evidence_ids bs)) (ae_items a)"
    by (simp add: c(1) assembled_def serialized_evidence_eq)
  have "list_all interval_ok (map eventInterval (ae_items a))"
    using ok(1) by (auto simp: list_all_iff intro: event_interval_ok)
  then obtain h' where h': "hull_of (map eventInterval (ae_items a)) = Some h'"
      "tightest (eventInterval ` set (ae_items a)) h'"
    using hull_tightest [of "map eventInterval (ae_items a)"] ok(3) by auto
  from c(2) have "derivedEvidenceInterval (mc_evidence c) = Some (mc_interval c)" by (simp add: contract_ok_def)
  with h' have whole: "tightest (eventInterval ` set (ae_items a)) (mc_interval c)"
    by (simp add: evidence derivedEvidenceInterval_def comp_def)
  have claims: "\<forall>b \<in> set (mc_claims c). set (cl_support b) \<subseteq> set (map ev_id (ae_items a))
      \<and> tightest (eventInterval ` {ev \<in> set (ae_items a). ev_id ev \<in> set (cl_support b)}) (cl_interval b)"
  proof
    fix b assume "b \<in> set (mc_claims c)"
    with c(2) have "claim_supported (mc_evidence c) b" "cl_support b \<noteq> []"
      by (auto simp: contract_ok_def list_all_iff claim_ok_def)
    then show "set (cl_support b) \<subseteq> set (map ev_id (ae_items a))
        \<and> tightest (eventInterval ` {ev \<in> set (ae_items a). ev_id ev \<in> set (cl_support b)}) (cl_interval b)"
      unfolding evidence by (rule claim_grounded [OF _ ok(1,2)])
  qed
  have "bi_lineages input = jget v ''lineages''"
    using parts by (auto simp: read_parts_def normalizeBuilderInput_def split: if_splits)
  then have lineages: "\<forall>raw \<in> set (items_of (jget v ''lineages'')).
      covers l (classifyProcessingLineage (jget raw ''processing_lineage''))"
    using parts lineage_inputs [of "bi_lineages input" "map ev_id (ae_items a)" l] by (auto simp: read_parts_def)
  have ids: "map er_event_id (mc_evidence c) = map ev_id (ae_items a)"
    "map er_interval (mc_evidence c) = map eventInterval (ae_items a)"
    by (simp_all add: evidence)
  have sym: "conflicts_symmetric (mc_claims c)" using c(2) by (simp add: contract_ok_def)
  have lin: "mc_lineage c = l" by (simp add: c(1) assembled_def)
  show ?thesis unfolding lin using build_never_throws ids whole claims sym lineages by blast
qed

theorem summary_is_grounded_witness:
  "\<exists>c. buildMinniSummaryContract (\<lambda>_. None) demo_summary_input = Inr (Accepted c)
    \<and> map er_event_id (mc_evidence c) = [''e1'', ''e2''] \<and> conflicts_symmetric (mc_claims c)
    \<and> tightest (eventInterval ` set (ae_items demo_evidence)) (mc_interval c)"
proof -
  obtain c where c: "buildMinniSummaryContract (\<lambda>_. None) demo_summary_input = Inr (Accepted c)"
    using build_read [OF demo_parts] by (auto simp: demo_grounded)
  note grounded = summary_is_grounded [OF c demo_read_evidence]
  have "map ev_id (ae_items demo_evidence) = [''e1'', ''e2'']" by code_simp
  with grounded c show ?thesis by (intro exI [of _ c] conjI) auto
qed

end
