(* ===== verification/Union_Find.thy ===== *)
theory Union_Find
  imports Runir_Prelude "HOL-Library.AList"
begin

text \<open>
  The disjoint-set forest of the clusterer (class \<open>UnionFind\<close> in
  \<open>src/src/lifecycle/compaction/memory-clusterer.ts\<close>): a map from a node to its parent, with path compression
  in every lookup and neither ranks nor sizes. The map keeps its keys in the order of insertion, so
  it is an association list whose update keeps the place of a key. The recursion of a lookup
  follows the parents, so it is a partial function whose value None is a lookup that never returns.
\<close>

type_synonym forest = "(jstr \<times> jstr) list"

section \<open>Operations\<close>

definition parent :: "forest \<Rightarrow> jstr \<Rightarrow> jstr option" where
  "parent f x = map_of f x"

definition with_node :: "jstr \<Rightarrow> forest \<Rightarrow> forest" where
  "with_node x f = (if parent f x = None then AList.update x x f else f)"

partial_function (option) uf_find :: "jstr \<Rightarrow> forest \<Rightarrow> (jstr \<times> forest) option" where
  "uf_find x f =
     (let f1 = with_node x f; p = the (parent f1 x)
      in if p = x then Some (x, f1)
         else Option.bind (uf_find p f1) (\<lambda>(r, f2). Some (r, AList.update x r f2)))"


declare uf_find.simps [code]

definition uf_union :: "jstr \<Rightarrow> jstr \<Rightarrow> forest \<Rightarrow> forest option" where
  "uf_union x y f =
     Option.bind (uf_find x f) (\<lambda>(rx, f1).
     Option.bind (uf_find y f1) (\<lambda>(ry, f2).
       Some (if rx \<noteq> ry then AList.update rx ry f2 else f2)))"

text \<open>The keys are visited in order; a lookup on the way only moves parents.\<close>

fun groups_from :: "jstr list \<Rightarrow> forest \<Rightarrow> (jstr \<times> jstr list) list \<Rightarrow> (jstr \<times> jstr list) list option" where
  "groups_from [] f groups = Some groups"
| "groups_from (i # ids) f groups =
     Option.bind (uf_find i f) (\<lambda>(top, f1).
       groups_from ids f1
         (AList.update top ((case map_of groups top of Some g \<Rightarrow> g | None \<Rightarrow> []) @ [i]) groups))"

definition getGroups :: "forest \<Rightarrow> (jstr \<times> jstr list) list option" where
  "getGroups f = groups_from (map fst f) f []"

text \<open>Several unions in turn, and the singletons of several nodes.\<close>

fun uf_nodes :: "jstr list \<Rightarrow> forest \<Rightarrow> forest option" where
  "uf_nodes [] f = Some f"
| "uf_nodes (x # xs) f = Option.bind (uf_find x f) (\<lambda>(_, f1). uf_nodes xs f1)"

fun uf_unions :: "(jstr \<times> jstr) list \<Rightarrow> forest \<Rightarrow> forest option" where
  "uf_unions [] f = Some f"
| "uf_unions (e # es) f = Option.bind (uf_union (fst e) (snd e) f) (uf_unions es)"

section \<open>Roots\<close>

inductive uf_root :: "forest \<Rightarrow> jstr \<Rightarrow> jstr \<Rightarrow> bool" for f where
  here: "parent f x = Some x \<Longrightarrow> uf_root f x x"
| up: "parent f x = Some p \<Longrightarrow> p \<noteq> x \<Longrightarrow> uf_root f p r \<Longrightarrow> uf_root f x r"

definition forest_ok :: "forest \<Rightarrow> bool" where
  "forest_ok f = (distinct (map fst f) \<and> (\<forall>x. parent f x \<noteq> None \<longrightarrow> (\<exists>r. uf_root f x r)))"

lemma key_iff: "x \<in> set (map fst f) \<longleftrightarrow> parent f x \<noteq> None"
  by (simp add: parent_def map_of_eq_None_iff)

lemma parent_update [simp]: "parent (AList.update x r f) y = (if y = x then Some r else parent f y)"
  by (simp add: parent_def update_conv')

lemma parent_append: "parent (f @ [(x, r)]) y = (case parent f y of None \<Rightarrow> if y = x then Some r else None | Some p \<Rightarrow> Some p)"
  by (auto simp: parent_def map_add_def split: option.split)

lemma root_is_root: "uf_root f x r \<Longrightarrow> parent f r = Some r"
  by (induction rule: uf_root.induct) auto

lemma root_of_root: "parent f x = Some x \<Longrightarrow> uf_root f x r \<Longrightarrow> r = x"
  by (erule uf_root.cases) auto

lemma root_unique: "uf_root f x r \<Longrightarrow> uf_root f x s \<Longrightarrow> r = s"
proof (induction arbitrary: s rule: uf_root.induct)
  case (up x p r)
  from up.prems up.hyps(1,2) have "uf_root f p s" by (cases rule: uf_root.cases) auto
  then show ?case by (rule up.IH)
qed (use root_of_root in blast)

lemma root_key: "uf_root f x r \<Longrightarrow> x \<in> set (map fst f)"
  unfolding key_iff by (erule uf_root.cases) auto

lemma forest_keys_update: "x \<in> set (map fst f) \<Longrightarrow> map fst (AList.update x r f) = map fst f"
  by (induction f) auto

lemma forest_ok_root: "forest_ok f \<Longrightarrow> x \<in> set (map fst f) \<Longrightarrow> \<exists>r. uf_root f x r"
  unfolding key_iff by (simp add: forest_ok_def)

text \<open>A parent moved to its own root changes no root.\<close>

lemma root_compress:
  assumes "uf_root f x r" and "x \<noteq> r"
  shows "uf_root (AList.update x r f) y s \<longleftrightarrow> uf_root f y s"
proof -
  let ?g = "AList.update x r f"
  have rr: "parent f r = Some r" using assms(1) by (rule root_is_root)
  have notroot: "parent f x \<noteq> Some x" using root_of_root [of f x r] assms by auto
  show ?thesis
  proof
    assume "uf_root f y s"
    then show "uf_root ?g y s"
    proof (induction rule: uf_root.induct)
      case (here y)
      have "y \<noteq> x" using here notroot by blast
      with here show ?case by (intro uf_root.here) simp
    next
      case (up y p s)
      show ?case
      proof (cases "y = x")
        case True
        have "s = r" using root_unique [OF assms(1)] uf_root.up [OF up.hyps] True by blast
        moreover have "uf_root ?g r r" using rr assms(2) by (intro uf_root.here) simp
        ultimately show ?thesis using True assms(2) by (auto intro: uf_root.up [of _ x r])
      next
        case False
        with up.hyps(1,2) up.IH show ?thesis by (auto intro: uf_root.up [of _ y p])
      qed
    qed
  next
    assume "uf_root ?g y s"
    then show "uf_root f y s"
    proof (induction rule: uf_root.induct)
      case (here y)
      with assms(2) have "parent f y = Some y" by (simp split: if_splits)
      then show ?case by (rule uf_root.here)
    next
      case (up y p s)
      show ?case
      proof (cases "y = x")
        case True
        then have "p = r" using up.hyps(1) by simp
        then have "s = r" using up.IH rr root_of_root by blast
        with True assms(1) show ?thesis by simp
      next
        case False
        with up.hyps(1) have "parent f y = Some p" by simp
        then show ?thesis using up.hyps(2) up.IH by (rule uf_root.up)
      qed
    qed
  qed
qed

text \<open>A root hung below another root.\<close>

lemma root_link:
  assumes "parent f rx = Some rx" and "parent f ry = Some ry" and "rx \<noteq> ry"
  shows "uf_root (AList.update rx ry f) y s \<longleftrightarrow> (\<exists>t. uf_root f y t \<and> s = (if t = rx then ry else t))"
proof -
  let ?g = "AList.update rx ry f"
  have ry: "uf_root ?g ry ry" using assms(2,3) by (intro uf_root.here) simp
  have rx: "uf_root ?g rx ry" using ry assms(3) by (auto intro: uf_root.up [of _ rx ry])
  have forward: "uf_root ?g y (if t = rx then ry else t)" if "uf_root f y t" for y t
    using that
  proof (induction rule: uf_root.induct)
    case (here y)
    show ?case
    proof (cases "y = rx")
      case False
      with here have "uf_root ?g y y" by (intro uf_root.here) simp
      with False show ?thesis by simp
    qed (simp add: rx)
  next
    case (up y p t)
    then have "y \<noteq> rx" using assms(1) by auto
    with up.hyps(1) have "parent ?g y = Some p" by simp
    then show ?case using up.hyps(2) up.IH by (rule uf_root.up)
  qed
  have backward: "\<exists>t. uf_root f y t \<and> s = (if t = rx then ry else t)" if "uf_root ?g y s" for y s
    using that
  proof (induction rule: uf_root.induct)
    case (here y)
    then have y: "y \<noteq> rx" using assms(3) by auto
    with here have "uf_root f y y" by (intro uf_root.here) simp
    with y show ?case by auto
  next
    case (up y p s)
    show ?case
    proof (cases "y = rx")
      case True
      with up.hyps(1) have "p = ry" by simp
      with up.IH assms(2,3) have "s = ry" using root_of_root [of f ry] by auto
      with True show ?thesis using uf_root.here [of f rx] assms(1) by auto
    next
      case False
      with up.hyps(1) have "parent f y = Some p" by simp
      with up.IH up.hyps(2) show ?thesis by (blast intro: uf_root.up)
    qed
  qed
  show ?thesis using forward backward by blast
qed

section \<open>Lookup and union\<close>

definition same_roots :: "forest \<Rightarrow> forest \<Rightarrow> bool" where
  "same_roots f g = (map fst g = map fst f \<and> (\<forall>y s. uf_root g y s \<longleftrightarrow> uf_root f y s))"

lemma same_roots_ok: "same_roots f g \<Longrightarrow> forest_ok f \<Longrightarrow> forest_ok g"
proof -
  assume same: "same_roots f g" and ok: "forest_ok f"
  have "parent g x \<noteq> None \<longleftrightarrow> parent f x \<noteq> None" for x
    using key_iff [of x f] key_iff [of x g] same unfolding same_roots_def by metis
  with same ok show ?thesis by (simp add: same_roots_def forest_ok_def)
qed

lemma find_known:
  assumes "uf_root f x r"
  shows "\<exists>g. uf_find x f = Some (r, g) \<and> same_roots f g"
  using assms
proof (induction rule: uf_root.induct)
  case (here x)
  then show ?case by (subst uf_find.simps) (simp add: with_node_def same_roots_def)
next
  case (up x p r)
  from up.IH obtain g where g: "uf_find p f = Some (r, g)" "same_roots f g" by blast
  have xr: "uf_root f x r" using up.hyps by (rule uf_root.up)
  then have neq: "x \<noteq> r" using root_is_root [OF xr] up.hyps(1,2) by auto
  have gxr: "uf_root g x r" using g(2) xr by (simp add: same_roots_def)
  have "same_roots g (AList.update x r g)"
    using root_compress [OF gxr neq] forest_keys_update [OF root_key [OF gxr]] by (simp add: same_roots_def)
  with g(2) have "same_roots f (AList.update x r g)" by (simp add: same_roots_def)
  moreover have "uf_find x f = Some (r, AList.update x r g)"
    using up.hyps(1,2) g(1) by (subst uf_find.simps) (simp add: with_node_def)
  ultimately show ?case by blast
qed

lemma keys_new: "x \<notin> set (map fst f) \<Longrightarrow> AList.update x r f = f @ [(x, r)]"
  by (induction f) auto

lemma root_add_node:
  assumes "x \<notin> set (map fst f)" and "forest_ok f"
  shows "uf_root (f @ [(x, x)]) y s \<longleftrightarrow> uf_root f y s \<or> (y = x \<and> s = x)"
proof -
  have new: "parent f x = None" using assms(1) unfolding key_iff by simp
  have "uf_root (f @ [(x, x)]) y s" if "uf_root f y s"
    using that by (induction rule: uf_root.induct) (auto simp: parent_append intro: uf_root.intros)
  moreover have "uf_root (f @ [(x, x)]) x x"
    using new by (intro uf_root.here) (simp add: parent_append)
  moreover have "uf_root f y s \<or> (y = x \<and> s = x)" if "uf_root (f @ [(x, x)]) y s"
    using that
  proof (induction rule: uf_root.induct)
    case (here y)
    then have "parent f y = Some y \<or> y = x" by (auto simp: parent_append split: option.splits if_splits)
    then show ?case using uf_root.here by blast
  next
    case (up y p s)
    then have y: "parent f y = Some p" by (auto simp: parent_append split: option.splits if_splits)
    have "p \<noteq> x"
    proof
      assume "p = x"
      obtain r where "uf_root f y r" using assms(2) y by (auto simp: forest_ok_def)
      then have "uf_root f x r" using y up.hyps(2) \<open>p = x\<close> by (cases rule: uf_root.cases) auto
      then show False using root_key assms(1) by blast
    qed
    with up.IH have "uf_root f p s" by simp
    with y up.hyps(2) show ?case by (blast intro: uf_root.up)
  qed
  ultimately show ?thesis by blast
qed

lemma find_new:
  assumes "x \<notin> set (map fst f)"
  shows "uf_find x f = Some (x, f @ [(x, x)])"
proof -
  have new: "parent f x = None" using assms unfolding key_iff by simp
  then show ?thesis
    using keys_new [OF assms, of x] by (subst uf_find.simps) (simp add: with_node_def Let_def parent_append)
qed

lemma forest_add_node:
  assumes "forest_ok f" and "x \<notin> set (map fst f)"
  shows "forest_ok (f @ [(x, x)])"
  using assms root_add_node [OF assms(2,1)]
  by (auto simp: forest_ok_def parent_append split: if_splits option.splits)

text \<open>Two nodes are joined when they have the same root.\<close>

definition uf_joined :: "forest \<Rightarrow> (jstr \<times> jstr) set" where
  "uf_joined f = {(x, y). \<exists>r. uf_root f x r \<and> uf_root f y r}"

lemma uf_joined_trans: "trans (uf_joined f)"
  unfolding trans_def uf_joined_def using root_unique by blast

lemma union_known:
  assumes "forest_ok f" and "x \<in> set (map fst f)" and "y \<in> set (map fst f)"
  shows "\<exists>g. uf_union x y f = Some g \<and> forest_ok g \<and> map fst g = map fst f
    \<and> uf_joined g = (uf_joined f \<union> {(x, y), (y, x)})\<^sup>+"
proof -
  obtain rx ry where r: "uf_root f x rx" "uf_root f y ry"
    using forest_ok_root [OF assms(1,2)] forest_ok_root [OF assms(1,3)] by blast
  obtain f1 where f1: "uf_find x f = Some (rx, f1)" "same_roots f f1" using find_known [OF r(1)] by blast
  with r(2) obtain f2 where f2: "uf_find y f1 = Some (ry, f2)" "same_roots f1 f2"
    using find_known [of f1 y ry] by (auto simp: same_roots_def)
  with f1 have same: "same_roots f f2" by (simp add: same_roots_def)
  then have ok2: "forest_ok f2" using assms(1) by (rule same_roots_ok)
  define g where "g = (if rx \<noteq> ry then AList.update rx ry f2 else f2)"
  have run: "uf_union x y f = Some g" by (simp add: uf_union_def f1(1) f2(1) g_def)
  have r2: "uf_root f2 x rx" "uf_root f2 y ry" using same r by (auto simp: same_roots_def)
  have roots: "uf_root g z s \<longleftrightarrow> (\<exists>t. uf_root f z t \<and> s = (if t = rx then ry else t))" for z s
  proof (cases "rx = ry")
    case True
    then show ?thesis using same by (auto simp: g_def same_roots_def)
  next
    case False
    then show ?thesis
      using root_link [OF root_is_root [OF r2(1)] root_is_root [OF r2(2)] False] same
      by (simp add: g_def same_roots_def)
  qed
  have keys: "map fst g = map fst f"
    using same forest_keys_update [of rx f2 ry] root_is_root [OF r2(1)] key_iff [of rx f2]
    by (simp add: g_def same_roots_def)
  have "parent g z \<noteq> None \<longleftrightarrow> parent f z \<noteq> None" for z using key_iff [of z g] key_iff [of z f] keys by metis
  then have ok: "forest_ok g" using assms(1) by (auto simp: forest_ok_def keys roots)
  have "uf_joined g = (uf_joined f \<union> {(x, y), (y, x)})\<^sup>+"
  proof
    let ?R = "uf_joined f \<union> {(x, y), (y, x)}"
    show "uf_joined g \<subseteq> ?R\<^sup>+"
    proof (rule subrelI)
      fix a b assume "(a, b) \<in> uf_joined g"
      then obtain t u where ab: "uf_root f a t" "uf_root f b u"
          "(if t = rx then ry else t) = (if u = rx then ry else u)"
        by (auto simp: uf_joined_def roots)
      have step: "uf_root f a t \<Longrightarrow> t = rx \<Longrightarrow> (a, x) \<in> ?R" "uf_root f a t \<Longrightarrow> t = ry \<Longrightarrow> (a, y) \<in> ?R"
        "uf_root f a t \<Longrightarrow> t = rx \<Longrightarrow> (x, a) \<in> ?R" "uf_root f a t \<Longrightarrow> t = ry \<Longrightarrow> (y, a) \<in> ?R" for a t
        using r by (auto simp: uf_joined_def)
      consider "t = u" | "t = rx" "u = ry" | "t = ry" "u = rx" using ab(3) by (auto split: if_splits)
      then show "(a, b) \<in> ?R\<^sup>+"
      proof cases
        case 1
        then show ?thesis using ab by (auto simp: uf_joined_def)
      next
        case 2
        then have "(a, x) \<in> ?R" "(y, b) \<in> ?R" using ab step(1) [of a t] step(4) [of b u] by blast+
        moreover have "(x, y) \<in> ?R" by simp
        ultimately show ?thesis by (meson r_into_trancl trancl_into_trancl)
      next
        case 3
        then have "(a, y) \<in> ?R" "(x, b) \<in> ?R" using ab step(2) [of a t] step(3) [of b u] by blast+
        moreover have "(y, x) \<in> ?R" by simp
        ultimately show ?thesis by (meson r_into_trancl trancl_into_trancl)
      qed
    qed
    have moved: "uf_root g a (if t = rx then ry else t)" if "uf_root f a t" for a t using that roots by blast
    have "uf_joined f \<subseteq> uf_joined g" unfolding uf_joined_def using moved by blast
    moreover have "(x, y) \<in> uf_joined g" "(y, x) \<in> uf_joined g"
      using moved [OF r(1)] moved [OF r(2)] by (auto simp: uf_joined_def split: if_splits)
    ultimately have "?R \<subseteq> uf_joined g" by simp
    moreover have "trans (uf_joined g)" by (rule uf_joined_trans)
    ultimately show "?R\<^sup>+ \<subseteq> uf_joined g" by (metis trancl_id trancl_mono_subset)
  qed
  with run ok keys show ?thesis by blast
qed


text \<open>The forest of some nodes and edges.\<close>

lemma uf_joined_add_node:
  assumes "forest_ok f" and "x \<notin> set (map fst f)"
  shows "uf_joined (f @ [(x, x)]) = uf_joined f \<union> {(x, x)}"
proof -
  have "\<not> uf_root f a x" for a
  proof
    assume "uf_root f a x"
    then have "parent f x \<noteq> None" using root_is_root by simp
    then show False using assms(2) unfolding key_iff by simp
  qed
  moreover have "\<not> uf_root f x r" for r using root_key [of f x r] assms(2) by blast
  ultimately show ?thesis using root_add_node [OF assms(2,1)] by (auto simp: uf_joined_def)
qed

lemma nodes_known:
  assumes "forest_ok f" and "distinct xs" and "set xs \<inter> set (map fst f) = {}"
  shows "\<exists>g. uf_nodes xs f = Some g \<and> forest_ok g \<and> map fst g = map fst f @ xs
    \<and> uf_joined g = uf_joined f \<union> Id_on (set xs)"
  using assms
proof (induction xs arbitrary: f)
  case (Cons x xs)
  then have new: "x \<notin> set (map fst f)" by auto
  have ok: "forest_ok (f @ [(x, x)])" using Cons.prems(1) new by (rule forest_add_node)
  have "set xs \<inter> set (map fst (f @ [(x, x)])) = {}" using Cons.prems by auto
  from Cons.IH [OF ok _ this] Cons.prems(2) obtain g where g: "uf_nodes xs (f @ [(x, x)]) = Some g" "forest_ok g"
      "map fst g = map fst (f @ [(x, x)]) @ xs" "uf_joined g = uf_joined (f @ [(x, x)]) \<union> Id_on (set xs)"
    by auto
  with find_new [OF new] uf_joined_add_node [OF Cons.prems(1) new] show ?case by auto
qed simp

lemma trancl_absorb: "(A\<^sup>+ \<union> B)\<^sup>+ = (A \<union> B)\<^sup>+"
proof
  have "A\<^sup>+ \<union> B \<subseteq> (A \<union> B)\<^sup>+" by (auto intro: trancl_mono)
  then have "(A\<^sup>+ \<union> B)\<^sup>+ \<subseteq> ((A \<union> B)\<^sup>+)\<^sup>+" by (rule trancl_mono_subset)
  then show "(A\<^sup>+ \<union> B)\<^sup>+ \<subseteq> (A \<union> B)\<^sup>+" by simp
  show "(A \<union> B)\<^sup>+ \<subseteq> (A\<^sup>+ \<union> B)\<^sup>+" by (rule trancl_mono_subset) auto
qed

lemma unions_known:
  assumes "forest_ok f" and "set es \<subseteq> set (map fst f) \<times> set (map fst f)"
  shows "\<exists>g. uf_unions es f = Some g \<and> forest_ok g \<and> map fst g = map fst f
    \<and> uf_joined g = (uf_joined f \<union> set es \<union> (set es)\<inverse>)\<^sup>+"
  using assms
proof (induction es arbitrary: f)
  case Nil
  then show ?case using uf_joined_trans [of f] by (simp add: trancl_id)
next
  case (Cons e es)
  obtain x y where e: "e = (x, y)" by (cases e)
  with Cons.prems obtain g where g: "uf_union x y f = Some g" "forest_ok g" "map fst g = map fst f"
      "uf_joined g = (uf_joined f \<union> {(x, y), (y, x)})\<^sup>+"
    using union_known [of f x y] by auto
  from Cons.prems g(3) have "set es \<subseteq> set (map fst g) \<times> set (map fst g)" by simp
  from Cons.IH [OF g(2) this] obtain h where h: "uf_unions es g = Some h" "forest_ok h" "map fst h = map fst g"
      "uf_joined h = (uf_joined g \<union> set es \<union> (set es)\<inverse>)\<^sup>+" by blast
  have "uf_joined h = (uf_joined f \<union> set (e # es) \<union> (set (e # es))\<inverse>)\<^sup>+"
    unfolding h(4) g(4) Un_assoc trancl_absorb by (rule arg_cong [of _ _ trancl]) (auto simp: e)
  with g h show ?case by (auto simp: e)
qed

section \<open>Groups\<close>

text \<open>The groups are the classes of joined nodes, each listed once in the order of the keys.\<close>

definition groups_ok :: "forest \<Rightarrow> jstr list \<Rightarrow> (jstr \<times> jstr list) list \<Rightarrow> bool" where
  "groups_ok f ids groups =
     (distinct (map fst groups)
      \<and> (\<forall>g \<in> set groups. snd g \<noteq> [] \<and> snd g = filter (\<lambda>i. uf_root f i (fst g)) ids)
      \<and> (\<forall>i \<in> set ids. \<exists>g \<in> set groups. uf_root f i (fst g)))"

lemma update_entries: "distinct (map fst gs) \<Longrightarrow>
    set (AList.update k v gs) = insert (k, v) {g \<in> set gs. fst g \<noteq> k}"
  by (induction gs) (auto simp: image_iff)

lemma groups_ok_step:
  assumes "groups_ok f ids groups" and "uf_root f i r"
  shows "groups_ok f (ids @ [i])
    (AList.update r ((case map_of groups r of Some g \<Rightarrow> g | None \<Rightarrow> []) @ [i]) groups)"
proof -
  let ?old = "case map_of groups r of Some g \<Rightarrow> g | None \<Rightarrow> []"
  from assms(1) have d: "distinct (map fst groups)"
    and each: "\<And>g. g \<in> set groups \<Longrightarrow> snd g \<noteq> [] \<and> snd g = filter (\<lambda>i. uf_root f i (fst g)) ids"
    and cover: "\<And>j. j \<in> set ids \<Longrightarrow> \<exists>g \<in> set groups. uf_root f j (fst g)"
    by (auto simp: groups_ok_def)
  have old: "?old = filter (\<lambda>i. uf_root f i r) ids"
  proof (cases "map_of groups r")
    case None
    then have "r \<notin> fst ` set groups" by (simp add: map_of_eq_None_iff)
    then have "\<not> uf_root f j r" if "j \<in> set ids" for j
      using cover [OF that] root_unique by blast
    then show ?thesis using None by (simp add: filter_empty_conv)
  next
    case (Some g)
    then show ?thesis using each [of "(r, g)"] by (auto dest: map_of_SomeD)
  qed
  have other: "\<not> uf_root f i k" if "k \<noteq> r" for k using root_unique assms(2) that by blast
  let ?new = "insert (r, ?old @ [i]) {g \<in> set groups. fst g \<noteq> r}"
  have "\<forall>g \<in> ?new. snd g \<noteq> [] \<and> snd g = filter (\<lambda>i. uf_root f i (fst g)) (ids @ [i])"
    using each other assms(2) by (auto simp: old)
  moreover have "\<exists>g \<in> ?new. uf_root f j (fst g)" if j: "j \<in> set (ids @ [i])" for j
  proof (cases "j = i")
    case False
    with j have "j \<in> set ids" by simp
    then obtain g where g: "g \<in> set groups" "uf_root f j (fst g)" using cover by blast
    show ?thesis
    proof (cases "fst g = r")
      case True
      with g(2) show ?thesis by simp
    next
      case False
      with g show ?thesis by (intro bexI [of _ g]) simp_all
    qed
  qed (use assms(2) in auto)
  ultimately show ?thesis
    unfolding groups_ok_def update_entries [OF d] using d by (auto simp: distinct_update)
qed

lemma groups_known:
  assumes "groups_ok f seen groups" and "\<forall>i \<in> set ids. uf_root f i (rt i)" and "same_roots f g"
  shows "\<exists>groups'. groups_from ids g groups = Some groups' \<and> groups_ok f (seen @ ids) groups'"
  using assms
proof (induction ids arbitrary: seen groups g)
  case (Cons i ids)
  have i: "uf_root f i (rt i)" "uf_root g i (rt i)" using Cons.prems by (simp_all add: same_roots_def)
  obtain h where h: "uf_find i g = Some (rt i, h)" "same_roots g h" using find_known [OF i(2)] by blast
  have fh: "same_roots f h" using Cons.prems(3) h(2) by (simp add: same_roots_def)
  from Cons.IH [OF groups_ok_step [OF Cons.prems(1) i(1)] _ fh] Cons.prems(2) show ?case by (simp add: h(1))
qed simp

lemma get_groups_known:
  assumes "forest_ok f"
  shows "\<exists>groups. getGroups f = Some groups \<and> groups_ok f (map fst f) groups"
proof -
  have "uf_root f i (SOME r. uf_root f i r)" if "i \<in> set (map fst f)" for i
    using forest_ok_root [OF assms that] by (rule someI_ex)
  then have "\<forall>i \<in> set (map fst f). uf_root f i (SOME r. uf_root f i r)" by blast
  from groups_known [of f "[]" "[]", OF _ this] show ?thesis
    by (simp add: getGroups_def groups_ok_def same_roots_def)
qed

end
