(* ===== verification/Memory_Clusters.thy ===== *)
theory Memory_Clusters
  imports Union_Find Cosine Js_Text
begin

text \<open>
  The clusterer of memories (\<open>src/src/lifecycle/compaction/memory-clusterer.ts\<close>): memories that share
  enough entities, or failing that are close enough, are clustered, and the clusters are merged
  into those stored by earlier runs. Maps and sets keep the order of insertion. The answers of the
  reading queries are parameters; the table of clusters is the state that the two writing
  statements change, with the identifier and the instant of a new row as parameters. The running
  time in the result is left out.
\<close>

section \<open>Values\<close>

datatype cluster_method = Entity_cooccurrence | Cosine_fallback | Singleton

record memory_cluster =
  kc_fingerprintId :: jstr
  kc_label :: jstr
  kc_memoryIds :: "jstr list"
  kc_entityIds :: "jstr list"
  kc_size :: nat
  kc_method :: cluster_method

record stored_cluster =
  sk_id :: jstr
  sk_cluster :: memory_cluster
  sk_synthesisId :: "jstr option"
  sk_createdAt :: jstr
  sk_updatedAt :: jstr

record cluster_result =
  cx_totalClusters :: nat
  cx_entityClusters :: nat
  cx_cosineClusters :: nat
  cx_singletons :: nat
  cx_upserted :: nat
  cx_inserted :: nat

type_synonym entity_map = "(jstr \<times> jstr list) list"
type_synonym edge_map = "(jstr \<times> (jstr \<times> real) list) list"

definition set_add :: "'a \<Rightarrow> 'a list \<Rightarrow> 'a list" where
  "set_add x xs = (if x \<in> set xs then xs else xs @ [x])"

definition get_or :: "'b \<Rightarrow> ('a \<times> 'b) list \<Rightarrow> 'a \<Rightarrow> 'b" where
  "get_or d m k = (case map_of m k of Some v \<Rightarrow> v | None \<Rightarrow> d)"

text \<open>The default order of strings, by code units.\<close>

fun code_order :: "jstr \<Rightarrow> jstr \<Rightarrow> int" where
  "code_order [] [] = 0"
| "code_order [] (d # ds) = - 1"
| "code_order (c # cs) [] = 1"
| "code_order (c # cs) (d # ds) =
     (if code_unit c < code_unit d then - 1 else if code_unit d < code_unit c then 1 else code_order cs ds)"

definition sort_ids :: "jstr list \<Rightarrow> jstr list" where
  "sort_ids ids = js_sort code_order ids"

section \<open>Similarity and fingerprint\<close>

definition shared_entities :: "jstr list \<Rightarrow> jstr list \<Rightarrow> nat" where
  "shared_entities a b = length (filter (\<lambda>e. e \<in> set b) a)"

definition jaccard :: "jstr list \<Rightarrow> jstr list \<Rightarrow> real" where
  "jaccard a b =
     (if a = [] \<and> b = [] then 0
      else (let intersection = shared_entities a b; union = length a + length b - intersection
            in if union = 0 then 0 else real intersection / real union))"

definition computeClusterFingerprint :: "js_env \<Rightarrow> jstr list \<Rightarrow> jstr" where
  "computeClusterFingerprint env ids = take 16 (sha256_hex env (js_join '','' (sort_ids ids)))"

section \<open>The entities of the memories\<close>

definition row_id :: "text_env \<Rightarrow> jval \<Rightarrow> jstr" where
  "row_id te v = (if is_object v then js_string te (coalesce (jget v ''id'') v) else js_string te (coalesce v (JStr [])))"

fun entity_rows :: "text_env \<Rightarrow> jval list \<Rightarrow> entity_map \<Rightarrow> entity_map" where
  "entity_rows te [] m = m"
| "entity_rows te (row # rows) m =
     (let memId = row_id te (jget row ''memoryId''); entId = row_id te (jget row ''entityId'')
      in entity_rows te rows
           (if memId = [] \<or> entId = [] then m else AList.update memId (set_add entId (get_or [] m memId)) m))"

definition buildEntityMap :: "text_env \<Rightarrow> jval list \<Rightarrow> entity_map" where
  "buildEntityMap te rows = entity_rows te rows []"

section \<open>The graph of shared entities\<close>

definition invert_memory :: "jstr \<times> jstr list \<Rightarrow> entity_map \<Rightarrow> entity_map" where
  "invert_memory entry acc =
     foldl (\<lambda>acc entId. AList.update entId (set_add (fst entry) (get_or [] acc entId)) acc) acc (snd entry)"

definition inverted_index :: "entity_map \<Rightarrow> entity_map" where
  "inverted_index m = foldl (\<lambda>acc entry. invert_memory entry acc) [] m"

fun pairs_of :: "'a list \<Rightarrow> ('a \<times> 'a) list" where
  "pairs_of [] = []"
| "pairs_of (x # xs) = map (Pair x) xs @ pairs_of xs"

definition ensure_edges :: "jstr \<Rightarrow> edge_map \<Rightarrow> edge_map" where
  "ensure_edges k edges = (if map_of edges k = None then AList.update k [] edges else edges)"

definition add_edge :: "entity_map \<Rightarrow> edge_map \<Rightarrow> jstr \<times> jstr \<Rightarrow> edge_map" where
  "add_edge m edges pair =
     (let m1 = fst pair; m2 = snd pair; edges2 = ensure_edges m2 (ensure_edges m1 edges)
      in if map_of (get_or [] edges2 m1) m2 \<noteq> None then edges2
         else (let sim = jaccard (get_or [] m m1) (get_or [] m m2);
                   edges3 = AList.update m1 (AList.update m2 sim (get_or [] edges2 m1)) edges2
               in AList.update m2 (AList.update m1 sim (get_or [] edges3 m2)) edges3))"

definition buildCooccurrenceGraph :: "entity_map \<Rightarrow> edge_map" where
  "buildCooccurrenceGraph m =
     foldl (add_edge m) [] (concat (map (\<lambda>entry. pairs_of (snd entry)) (inverted_index m)))"

section \<open>Clusters\<close>

definition linked_pairs :: "entity_map \<Rightarrow> real \<Rightarrow> int \<Rightarrow> (jstr \<times> jstr) list" where
  "linked_pairs m threshold minShared =
     concat (map (\<lambda>(m1, neighbors).
         map (\<lambda>(m2, sim). (m1, m2))
           (filter (\<lambda>(m2, sim). int (shared_entities (get_or [] m m1) (get_or [] m m2)) \<ge> minShared
              \<and> sim > threshold) neighbors))
       (buildCooccurrenceGraph m))"

definition member_entities :: "entity_map \<Rightarrow> jstr list \<Rightarrow> jstr list" where
  "member_entities m members = js_uniq (concat (map (get_or [] m) members))"

definition entity_cluster :: "js_env \<Rightarrow> entity_map \<Rightarrow> jstr list \<Rightarrow> memory_cluster" where
  "entity_cluster env m members =
     \<lparr>kc_fingerprintId = computeClusterFingerprint env members,
      kc_label = js_join '', '' (take 3 (member_entities m members)),
      kc_memoryIds = sort_ids members, kc_entityIds = member_entities m members,
      kc_size = length members, kc_method = Entity_cooccurrence\<rparr>"

definition large_groups :: "(jstr \<times> jstr list) list \<Rightarrow> jstr list list" where
  "large_groups groups = filter (\<lambda>g. \<not> length g < 2) (map snd groups)"

definition findClusters :: "js_env \<Rightarrow> entity_map \<Rightarrow> real \<Rightarrow> int \<Rightarrow> memory_cluster list option" where
  "findClusters env m threshold minShared =
     Option.bind (uf_nodes (map fst m) []) (\<lambda>f0.
     Option.bind (uf_unions (linked_pairs m threshold minShared) f0) (\<lambda>f1.
     map_option (\<lambda>groups. map (entity_cluster env m) (large_groups groups)) (getGroups f1)))"

section \<open>The fallback\<close>

record emb_row =
  eb_id :: jstr
  eb_embedding :: "real list"

definition emb_row_of :: "text_env \<Rightarrow> jval \<times> real list option \<Rightarrow> emb_row" where
  "emb_row_of te row = \<lparr>eb_id = row_id te (fst row), eb_embedding = (case snd row of Some v \<Rightarrow> v | None \<Rightarrow> [])\<rparr>"

definition close_pairs :: "entity_map \<Rightarrow> real \<Rightarrow> emb_row list \<Rightarrow> (jstr \<times> jstr) list" where
  "close_pairs m threshold rows =
     map (\<lambda>(a, b). (eb_id a, eb_id b))
       (filter (\<lambda>(a, b). \<not> cosineSimilarity (eb_embedding a) (eb_embedding b) < threshold
          \<and> list_ex (\<lambda>e. e \<in> set (get_or [] m (eb_id b))) (get_or [] m (eb_id a))) (pairs_of rows))"

definition cosine_cluster :: "js_env \<Rightarrow> entity_map \<Rightarrow> jstr list \<Rightarrow> memory_cluster" where
  "cosine_cluster env m members =
     \<lparr>kc_fingerprintId = computeClusterFingerprint env members, kc_label = js_join '', '' (take 3 members),
      kc_memoryIds = sort_ids members, kc_entityIds = member_entities m members,
      kc_size = length members, kc_method = Cosine_fallback\<rparr>"

definition cosineFallbackClusters ::
  "js_env \<Rightarrow> text_env \<Rightarrow> (jstr list \<Rightarrow> (jval \<times> real list option) list) \<Rightarrow> jstr list \<Rightarrow> entity_map \<Rightarrow> real
    \<Rightarrow> memory_cluster list option" where
  "cosineFallbackClusters env te embeddings orphanIds m threshold =
     (if orphanIds = [] then Some []
      else (let rows = filter (\<lambda>r. length (eb_embedding r) > 0) (map (emb_row_of te) (embeddings orphanIds))
            in Option.bind (uf_nodes (map eb_id rows) []) (\<lambda>f0.
               Option.bind (uf_unions (close_pairs m threshold rows) f0) (\<lambda>f1.
               map_option (\<lambda>groups. map (cosine_cluster env m) (large_groups groups)) (getGroups f1)))))"

section \<open>The stored clusters\<close>

definition overlap_of :: "jstr list \<Rightarrow> memory_cluster \<Rightarrow> nat" where
  "overlap_of candidates c = length (filter (\<lambda>i. i \<in> set (kc_memoryIds c)) (js_uniq candidates))"

definition better_match :: "jstr list \<Rightarrow> stored_cluster option \<times> nat \<Rightarrow> stored_cluster \<Rightarrow> stored_cluster option \<times> nat" where
  "better_match candidates best s =
     (let overlap = overlap_of candidates (sk_cluster s);
          ratio = real overlap / real (length (js_uniq candidates))
      in if ratio \<ge> 1 / 2 \<and> overlap > snd best then (Some s, overlap) else best)"

definition reconcileWithExisting :: "stored_cluster list \<Rightarrow> jstr list \<Rightarrow> stored_cluster option" where
  "reconcileWithExisting table candidates =
     fst (foldl (better_match candidates) (None, 0)
       (filter (\<lambda>s. list_ex (\<lambda>i. i \<in> set (kc_memoryIds (sk_cluster s))) candidates) table))"

definition merge_cluster :: "memory_cluster \<Rightarrow> memory_cluster \<Rightarrow> memory_cluster" where
  "merge_cluster existing c =
     (let mergedMemIds = sort_ids (js_uniq (kc_memoryIds existing @ kc_memoryIds c))
      in existing\<lparr>kc_memoryIds := mergedMemIds,
           kc_entityIds := js_uniq (kc_entityIds existing @ kc_entityIds c), kc_size := length mergedMemIds,
           kc_label := (if truthy (kc_label c) then kc_label c else kc_label existing),
           kc_method := kc_method c\<rparr>)"

datatype upsert_action = Inserted | Upserted

record cluster_db =
  cd_new_id :: "stored_cluster list \<Rightarrow> jstr"
  cd_now :: "stored_cluster list \<Rightarrow> jstr"

definition upsertCluster :: "cluster_db \<Rightarrow> memory_cluster \<Rightarrow> stored_cluster list \<Rightarrow> stored_cluster list \<times> upsert_action" where
  "upsertCluster db c table =
     (case reconcileWithExisting table (kc_memoryIds c) of
        Some existing \<Rightarrow>
          (map (\<lambda>s. if sk_id s = sk_id existing then s\<lparr>sk_cluster := merge_cluster (sk_cluster existing) c\<rparr> else s) table,
           Upserted)
      | None \<Rightarrow>
          (table @ [\<lparr>sk_id = cd_new_id db table, sk_cluster = c, sk_synthesisId = None,
             sk_createdAt = cd_now db table, sk_updatedAt = cd_now db table\<rparr>],
           Inserted))"

fun persistClusters :: "cluster_db \<Rightarrow> memory_cluster list \<Rightarrow> stored_cluster list \<Rightarrow> stored_cluster list \<times> nat \<times> nat" where
  "persistClusters db [] table = (table, 0, 0)"
| "persistClusters db (c # cs) table =
     (case upsertCluster db c table of
        (table1, action) \<Rightarrow>
          (case persistClusters db cs table1 of
             (table2, upserted, inserted) \<Rightarrow>
               if action = Inserted then (table2, upserted, Suc inserted) else (table2, Suc upserted, inserted)))"

section \<open>One run\<close>

definition collectOrphanMemories :: "text_env \<Rightarrow> jval list \<Rightarrow> jstr list \<Rightarrow> jstr list" where
  "collectOrphanMemories te rows clusteredIds =
     filter (\<lambda>i. i \<notin> set clusteredIds) (map (\<lambda>row. row_id te (jget row ''id'')) rows)"

definition singleton_cluster :: "js_env \<Rightarrow> entity_map \<Rightarrow> jstr \<Rightarrow> memory_cluster" where
  "singleton_cluster env m i =
     \<lparr>kc_fingerprintId = computeClusterFingerprint env [i], kc_label = take 12 i, kc_memoryIds = [i],
      kc_entityIds = get_or [] m i, kc_size = 1, kc_method = Singleton\<rparr>"

record cluster_settings =
  cs_jaccardThreshold :: real
  cs_cosineThreshold :: real
  cs_minSharedEntities :: int

record cluster_reads =
  rd_edges :: "jval list"
  rd_memories :: "jval list"
  rd_embeddings :: "jstr list \<Rightarrow> (jval \<times> real list option) list"

definition members_of :: "memory_cluster list \<Rightarrow> jstr list" where
  "members_of cs = concat (map kc_memoryIds cs)"

text \<open>The three kinds of clusters of a run.\<close>

definition run_clusters ::
  "js_env \<Rightarrow> text_env \<Rightarrow> cluster_settings \<Rightarrow> cluster_reads
    \<Rightarrow> (memory_cluster list \<times> memory_cluster list \<times> memory_cluster list) option" where
  "run_clusters env te st reads =
     (let m = buildEntityMap te (rd_edges reads)
      in Option.bind (findClusters env m (cs_jaccardThreshold st) (cs_minSharedEntities st)) (\<lambda>entityClusters.
         (let orphanIds = collectOrphanMemories te (rd_memories reads) (members_of entityClusters)
          in map_option (\<lambda>cosineClusters.
               (entityClusters, cosineClusters,
                map (singleton_cluster env m) (filter (\<lambda>i. i \<notin> set (members_of cosineClusters)) orphanIds)))
             (cosineFallbackClusters env te (rd_embeddings reads) orphanIds m (cs_cosineThreshold st)))))"

definition runClustering ::
  "js_env \<Rightarrow> text_env \<Rightarrow> cluster_db \<Rightarrow> cluster_settings \<Rightarrow> cluster_reads \<Rightarrow> stored_cluster list
    \<Rightarrow> (cluster_result \<times> stored_cluster list) option" where
  "runClustering env te db st reads table =
     map_option (\<lambda>(es, cs, ss).
         (case persistClusters db (es @ cs @ ss) table of
            (table', upserted, inserted) \<Rightarrow>
              (\<lparr>cx_totalClusters = length (es @ cs @ ss), cx_entityClusters = length es,
                cx_cosineClusters = length cs, cx_singletons = length ss,
                cx_upserted = upserted, cx_inserted = inserted\<rparr>, table')))
       (run_clusters env te st reads)"

end
