(* ===== verification/Memory_Clusters_Laws.thy ===== *)
theory Memory_Clusters_Laws
  imports Memory_Clusters
begin

text \<open>
  What the clusterer computes: the graph has exactly the pairs of memories that share an entity, the
  clusters are the connected components of the pairs that pass both thresholds, a run puts every
  active memory into one cluster, and the stored clusters only grow.
\<close>

section \<open>Maps of sets\<close>

lemma distinct_set_add [simp]: "distinct xs \<Longrightarrow> distinct (set_add x xs)"
  by (simp add: set_add_def)

lemma set_set_add [simp]: "set (set_add x xs) = insert x (set xs)"
  by (auto simp: set_add_def)

lemma get_or_update [simp]: "get_or d (AList.update k v m) x = (if x = k then v else get_or d m x)"
  by (simp add: get_or_def update_conv')

lemma get_or_in: "(k, v) \<in> set m \<Longrightarrow> distinct (map fst m) \<Longrightarrow> get_or d m k = v"
  by (simp add: get_or_def)

lemma get_or_default: "k \<notin> fst ` set m \<Longrightarrow> get_or d m k = d"
  by (simp add: get_or_def map_of_eq_None_iff [THEN iffD2] split: option.split)

lemma get_or_entry: "get_or d m k \<noteq> d \<Longrightarrow> (k, get_or d m k) \<in> set m"
  by (auto simp: get_or_def dest: map_of_SomeD split: option.splits)

definition sets_ok :: "('a \<times> 'b list) list \<Rightarrow> bool" where
  "sets_ok m = (distinct (map fst m) \<and> (\<forall>e \<in> set m. distinct (snd e)))"

lemma sets_ok_get: "sets_ok m \<Longrightarrow> distinct (get_or [] m k)"
  by (auto simp: sets_ok_def get_or_def dest: map_of_SomeD split: option.splits)

lemma update_entries_subset: "set (AList.update k v gs) \<subseteq> insert (k, v) (set gs)"
  by (induction gs) auto

lemma sets_ok_update: "sets_ok m \<Longrightarrow> distinct v \<Longrightarrow> sets_ok (AList.update k v m)"
  using update_entries_subset [of k v m] by (fastforce simp: sets_ok_def distinct_update)

lemma entity_rows_ok: "sets_ok m \<Longrightarrow> sets_ok (entity_rows te rows m)"
  by (induction rows arbitrary: m) (simp_all add: Let_def sets_ok_get sets_ok_update)

lemma entity_map_ok: "sets_ok (buildEntityMap te rows)"
proof -
  have "sets_ok []" by (simp add: sets_ok_def)
  then show ?thesis unfolding buildEntityMap_def by (rule entity_rows_ok)
qed

section \<open>The graph\<close>

lemma invert_memory_get:
  "get_or [] (invert_memory (k, es) acc) e = (if e \<in> set es then set_add k (get_or [] acc e) else get_or [] acc e)"
  unfolding invert_memory_def by (induction es arbitrary: acc) (auto simp: set_add_def)

lemma invert_memory_ok: "sets_ok acc \<Longrightarrow> sets_ok (invert_memory entry acc)"
proof -
  have "sets_ok acc \<Longrightarrow> sets_ok (foldl (\<lambda>acc entId. AList.update entId (set_add k (get_or [] acc entId)) acc) acc es)"
    for k es and acc :: entity_map
    by (induction es arbitrary: acc) (simp_all add: sets_ok_get sets_ok_update)
  then show "sets_ok acc \<Longrightarrow> sets_ok (invert_memory entry acc)" by (simp add: invert_memory_def)
qed

lemma inverted_from:
  assumes "sets_ok acc" and "distinct (map fst m)" and "\<forall>e. set (get_or [] acc e) \<inter> fst ` set m = {}"
  shows "sets_ok (foldl (\<lambda>acc entry. invert_memory entry acc) acc m)
    \<and> get_or [] (foldl (\<lambda>acc entry. invert_memory entry acc) acc m) e
      = get_or [] acc e @ map fst (filter (\<lambda>entry. e \<in> set (snd entry)) m)"
  using assms
proof (induction m arbitrary: acc)
  case (Cons entry m)
  obtain k es where entry: "entry = (k, es)" by (cases entry)
  have "\<forall>e. set (get_or [] (invert_memory entry acc) e) \<inter> fst ` set m = {}"
    using Cons.prems(2,3) by (auto simp: entry invert_memory_get image_iff split: if_splits)
  moreover have "k \<notin> set (get_or [] acc e)" using Cons.prems(3) by (auto simp: entry)
  ultimately show ?case
    using Cons.IH [of "invert_memory entry acc"] invert_memory_ok [OF Cons.prems(1)] Cons.prems(2)
    by (simp add: entry invert_memory_get set_add_def)
qed simp

lemma inverted_index_get:
  assumes "distinct (map fst m)"
  shows "sets_ok (inverted_index m)"
    and "get_or [] (inverted_index m) e = map fst (filter (\<lambda>entry. e \<in> set (snd entry)) m)"
  using inverted_from [of "[]" m e] assms by (simp_all add: inverted_index_def sets_ok_def get_or_def)

lemma pairs_of_set:
  "distinct xs \<Longrightarrow> (a, b) \<in> set (pairs_of xs) \<or> (b, a) \<in> set (pairs_of xs)
    \<longleftrightarrow> a \<noteq> b \<and> a \<in> set xs \<and> b \<in> set xs"
  by (induction xs) auto

definition graph_pairs :: "entity_map \<Rightarrow> (jstr \<times> jstr) list" where
  "graph_pairs m = concat (map (\<lambda>entry. pairs_of (snd entry)) (inverted_index m))"

lemma graph_pairs_iff:
  assumes "sets_ok m"
  shows "(a, b) \<in> set (graph_pairs m) \<or> (b, a) \<in> set (graph_pairs m)
    \<longleftrightarrow> a \<noteq> b \<and> set (get_or [] m a) \<inter> set (get_or [] m b) \<noteq> {}"
proof -
  have d: "distinct (map fst m)" using assms by (simp add: sets_ok_def)
  note ok = inverted_index_get(1) [OF d] and get = inverted_index_get(2) [OF d]
  have members: "x \<in> set (get_or [] (inverted_index m) e) \<longleftrightarrow> e \<in> set (get_or [] m x)" for x e
  proof
    assume "x \<in> set (get_or [] (inverted_index m) e)"
    then obtain es where "(x, es) \<in> set m" "e \<in> set es" by (auto simp: get)
    then show "e \<in> set (get_or [] m x)" using get_or_in [of x es m "[]"] d by simp
  next
    assume e: "e \<in> set (get_or [] m x)"
    then have "get_or [] m x \<noteq> []" by auto
    then have "(x, get_or [] m x) \<in> set m" by (rule get_or_entry)
    with e show "x \<in> set (get_or [] (inverted_index m) e)"
      unfolding get by (auto intro!: image_eqI [of _ fst "(x, get_or [] m x)"])
  qed
  have entries: "entry \<in> set (inverted_index m) \<Longrightarrow> snd entry = get_or [] (inverted_index m) (fst entry)" for entry
    using get_or_in [of "fst entry" "snd entry" "inverted_index m" "[]"] ok by (simp add: sets_ok_def)
  have "(a, b) \<in> set (graph_pairs m) \<or> (b, a) \<in> set (graph_pairs m)
      \<longleftrightarrow> (\<exists>entry \<in> set (inverted_index m). (a, b) \<in> set (pairs_of (snd entry)) \<or> (b, a) \<in> set (pairs_of (snd entry)))"
    by (auto simp: graph_pairs_def)
  also have "\<dots> \<longleftrightarrow> (\<exists>entry \<in> set (inverted_index m). a \<noteq> b \<and> a \<in> set (snd entry) \<and> b \<in> set (snd entry))"
    using ok by (intro bex_cong refl pairs_of_set) (simp add: sets_ok_def)
  also have "\<dots> \<longleftrightarrow> (\<exists>e. a \<noteq> b \<and> a \<in> set (get_or [] (inverted_index m) e) \<and> b \<in> set (get_or [] (inverted_index m) e))"
  proof
    assume "\<exists>entry \<in> set (inverted_index m). a \<noteq> b \<and> a \<in> set (snd entry) \<and> b \<in> set (snd entry)"
    then obtain entry where "entry \<in> set (inverted_index m)" "a \<noteq> b" "a \<in> set (snd entry)" "b \<in> set (snd entry)" by blast
    with entries [of entry]
    show "\<exists>e. a \<noteq> b \<and> a \<in> set (get_or [] (inverted_index m) e) \<and> b \<in> set (get_or [] (inverted_index m) e)"
      by (intro exI [of _ "fst entry"]) simp
  next
    assume "\<exists>e. a \<noteq> b \<and> a \<in> set (get_or [] (inverted_index m) e) \<and> b \<in> set (get_or [] (inverted_index m) e)"
    then obtain e where e: "a \<noteq> b" "a \<in> set (get_or [] (inverted_index m) e)" "b \<in> set (get_or [] (inverted_index m) e)" by blast
    then have "get_or [] (inverted_index m) e \<noteq> []" by auto
    then have "(e, get_or [] (inverted_index m) e) \<in> set (inverted_index m)" by (rule get_or_entry)
    with e show "\<exists>entry \<in> set (inverted_index m). a \<noteq> b \<and> a \<in> set (snd entry) \<and> b \<in> set (snd entry)"
      by (intro bexI [of _ "(e, get_or [] (inverted_index m) e)"]) simp_all
  qed
  finally show ?thesis unfolding members by blast
qed

lemma shared_sym: "distinct a \<Longrightarrow> distinct b \<Longrightarrow> shared_entities a b = shared_entities b a"
proof -
  have "distinct xs \<Longrightarrow> shared_entities xs ys = card (set xs \<inter> set ys)" for xs ys
    unfolding shared_entities_def by (subst distinct_card [symmetric]) (auto simp: Int_def)
  then show "distinct a \<Longrightarrow> distinct b \<Longrightarrow> ?thesis" by (simp add: Int_commute)
qed

lemma jaccard_sym: "distinct a \<Longrightarrow> distinct b \<Longrightarrow> jaccard a b = jaccard b a"
  unfolding jaccard_def Let_def by (simp add: shared_sym [of a b] add.commute conj_commute)

definition edge_sim :: "edge_map \<Rightarrow> jstr \<Rightarrow> jstr \<Rightarrow> real option" where
  "edge_sim edges a b = map_of (get_or [] edges a) b"

definition edges_ok :: "edge_map \<Rightarrow> bool" where
  "edges_ok edges = (distinct (map fst edges) \<and> (\<forall>e \<in> set edges. distinct (map fst (snd e)))
     \<and> (\<forall>a b. edge_sim edges a b \<noteq> None \<longrightarrow> edge_sim edges b a \<noteq> None))"

lemma get_or_ensure [simp]: "get_or [] (ensure_edges k edges) x = get_or [] edges x"
  by (auto simp: ensure_edges_def get_or_def update_conv')

lemma edge_sim_add:
  "edge_sim (add_edge m edges (a, b)) x y =
     (if edge_sim edges a b \<noteq> None then edge_sim edges x y
      else if x = b \<and> y = a \<or> x = a \<and> y = b then Some (jaccard (get_or [] m a) (get_or [] m b))
      else edge_sim edges x y)"
  by (auto simp: add_edge_def Let_def edge_sim_def update_conv')

lemma ensure_shape:
  "distinct (map fst edges) \<and> (\<forall>e \<in> set edges. distinct (map fst (snd e))) \<Longrightarrow>
    distinct (map fst (ensure_edges k edges)) \<and> (\<forall>e \<in> set (ensure_edges k edges). distinct (map fst (snd e)))"
  using update_entries_subset [of k "[]" edges] by (auto simp: ensure_edges_def distinct_update)

lemma inner_distinct:
  "\<forall>e \<in> set edges. distinct (map fst (snd e)) \<Longrightarrow> distinct (map fst (get_or [] edges a))"
  by (cases "map_of edges a") (auto simp: get_or_def dest!: map_of_SomeD)

lemma update_shape:
  "distinct (map fst edges) \<and> (\<forall>e \<in> set edges. distinct (map fst (snd e))) \<Longrightarrow> distinct (map fst v) \<Longrightarrow>
    distinct (map fst (AList.update k v edges)) \<and> (\<forall>e \<in> set (AList.update k v edges). distinct (map fst (snd e)))"
  using update_entries_subset [of k v edges] by (auto simp: distinct_update)

lemma add_edge_ok:
  assumes "edges_ok edges"
  shows "edges_ok (add_edge m edges (a, b))"
proof -
  let ?e = "add_edge m edges (a, b)"
  have "distinct (map fst edges) \<and> (\<forall>e \<in> set edges. distinct (map fst (snd e)))"
    using assms by (simp add: edges_ok_def)
  then have shape2: "distinct (map fst (ensure_edges b (ensure_edges a edges)))
      \<and> (\<forall>e \<in> set (ensure_edges b (ensure_edges a edges)). distinct (map fst (snd e)))"
    by (intro ensure_shape)
  have "distinct (map fst ?e) \<and> (\<forall>e \<in> set ?e. distinct (map fst (snd e)))"
    unfolding add_edge_def Let_def fst_conv snd_conv
    using shape2 by (auto intro!: update_shape distinct_update inner_distinct simp del: get_or_ensure split: if_splits)
  moreover have "edge_sim ?e y x \<noteq> None" if "edge_sim ?e x y \<noteq> None" for x y
    using that assms by (auto simp: edge_sim_add edges_ok_def split: if_splits)
  ultimately show ?thesis by (simp add: edges_ok_def)
qed

lemma graph_from:
  assumes "edges_ok edges" and "sets_ok m"
    and "\<forall>a b s. edge_sim edges a b = Some s \<longrightarrow> s = jaccard (get_or [] m a) (get_or [] m b)"
  shows "edges_ok (foldl (add_edge m) edges ps)
    \<and> (\<forall>a b. edge_sim (foldl (add_edge m) edges ps) a b
      = (if edge_sim edges a b \<noteq> None \<or> (a, b) \<in> set ps \<or> (b, a) \<in> set ps
         then Some (jaccard (get_or [] m a) (get_or [] m b)) else None))"
  using assms
proof (induction ps arbitrary: edges)
  case Nil
  then show ?case by auto
next
  case (Cons p ps)
  obtain u v where p: "p = (u, v)" by (cases p)
  have js: "jaccard (get_or [] m v) (get_or [] m u) = jaccard (get_or [] m u) (get_or [] m v)"
    using sets_ok_get [OF Cons.prems(2)] by (intro jaccard_sym)
  have sym: "edge_sim edges v u \<noteq> None \<longleftrightarrow> edge_sim edges u v \<noteq> None"
    using Cons.prems(1) by (auto simp: edges_ok_def)
  have sims: "\<forall>a b s. edge_sim (add_edge m edges p) a b = Some s \<longrightarrow> s = jaccard (get_or [] m a) (get_or [] m b)"
    using Cons.prems(3) js by (auto simp: p edge_sim_add split: if_splits)
  have known: "edge_sim (add_edge m edges p) a b \<noteq> None \<longleftrightarrow> edge_sim edges a b \<noteq> None \<or> (a, b) = p \<or> (b, a) = p" for a b
    using sym by (auto simp: p edge_sim_add)
  have ok: "edges_ok (add_edge m edges p)" unfolding p by (rule add_edge_ok [OF Cons.prems(1)])
  from Cons.IH [OF ok Cons.prems(2) sims] show ?case unfolding foldl_Cons known by (auto simp: p)
qed

lemma graph_sim:
  assumes "sets_ok m"
  shows "edges_ok (buildCooccurrenceGraph m)"
    and "edge_sim (buildCooccurrenceGraph m) a b
      = (if a \<noteq> b \<and> set (get_or [] m a) \<inter> set (get_or [] m b) \<noteq> {}
         then Some (jaccard (get_or [] m a) (get_or [] m b)) else None)"
proof -
  have "edges_ok []" by (simp add: edges_ok_def edge_sim_def get_or_def)
  from graph_from [OF this assms, of "graph_pairs m"]
  have g: "edges_ok (buildCooccurrenceGraph m)"
      "edge_sim (buildCooccurrenceGraph m) a b = (if (a, b) \<in> set (graph_pairs m) \<or> (b, a) \<in> set (graph_pairs m)
         then Some (jaccard (get_or [] m a) (get_or [] m b)) else None)"
    by (simp_all add: buildCooccurrenceGraph_def graph_pairs_def edge_sim_def get_or_def)
  then show "edges_ok (buildCooccurrenceGraph m)" by blast
  show "edge_sim (buildCooccurrenceGraph m) a b
      = (if a \<noteq> b \<and> set (get_or [] m a) \<inter> set (get_or [] m b) \<noteq> {}
         then Some (jaccard (get_or [] m a) (get_or [] m b)) else None)"
    unfolding g(2) graph_pairs_iff [OF assms] ..
qed

section \<open>Links and components\<close>

text \<open>Two memories are linked when they share an entity and pass both thresholds.\<close>

definition linkage :: "entity_map \<Rightarrow> real \<Rightarrow> int \<Rightarrow> (jstr \<times> jstr) set" where
  "linkage m t k = {(a, b). a \<noteq> b \<and> shared_entities (get_or [] m a) (get_or [] m b) > 0
     \<and> int (shared_entities (get_or [] m a) (get_or [] m b)) \<ge> k \<and> jaccard (get_or [] m a) (get_or [] m b) > t}"

lemma shared_pos: "shared_entities a b > 0 \<longleftrightarrow> set a \<inter> set b \<noteq> {}"
  by (auto simp: shared_entities_def filter_empty_conv)

lemma edge_list:
  assumes "edges_ok edges"
  shows "(\<exists>ns. (a, ns) \<in> set edges \<and> (b, s) \<in> set ns) \<longleftrightarrow> edge_sim edges a b = Some s"
proof
  assume "\<exists>ns. (a, ns) \<in> set edges \<and> (b, s) \<in> set ns"
  then show "edge_sim edges a b = Some s"
    using assms get_or_in [of a _ edges "[]"] by (force simp: edges_ok_def edge_sim_def)
next
  assume e: "edge_sim edges a b = Some s"
  then have "get_or [] edges a \<noteq> []" by (auto simp: edge_sim_def)
  then have "(a, get_or [] edges a) \<in> set edges" by (rule get_or_entry)
  moreover have "(b, s) \<in> set (get_or [] edges a)" using e by (auto simp: edge_sim_def dest: map_of_SomeD)
  ultimately show "\<exists>ns. (a, ns) \<in> set edges \<and> (b, s) \<in> set ns" by blast
qed

lemma linked_pairs_set:
  assumes "sets_ok m"
  shows "set (linked_pairs m t k) = linkage m t k"
proof -
  have "(a, b) \<in> set (linked_pairs m t k) \<longleftrightarrow> (a, b) \<in> linkage m t k" for a b
  proof -
    have "(a, b) \<in> set (linked_pairs m t k) \<longleftrightarrow> (\<exists>s. (\<exists>ns. (a, ns) \<in> set (buildCooccurrenceGraph m) \<and> (b, s) \<in> set ns)
        \<and> int (shared_entities (get_or [] m a) (get_or [] m b)) \<ge> k \<and> s > t)"
      unfolding linked_pairs_def by force
    then show ?thesis
      unfolding edge_list [OF graph_sim(1) [OF assms]] graph_sim(2) [OF assms]
      by (auto simp: linkage_def shared_pos)
  qed
  then show ?thesis by auto
qed

lemma linkage_sym: "sets_ok m \<Longrightarrow> (linkage m t k)\<inverse> = linkage m t k"
  using shared_sym jaccard_sym sets_ok_get by (fastforce simp: linkage_def)

lemma linkage_keys: "linkage m t k \<subseteq> set (map fst m) \<times> set (map fst m)"
proof -
  have "x \<in> set (map fst m)" if "get_or [] m x \<noteq> []" for x using get_or_entry [OF that] by force
  moreover have "get_or [] m a \<noteq> [] \<and> get_or [] m b \<noteq> []" if "(a, b) \<in> linkage m t k" for a b
    using that by (auto simp: linkage_def shared_pos)
  ultimately show ?thesis by (intro subrelI SigmaI) blast+
qed

definition together :: "memory_cluster list \<Rightarrow> (jstr \<times> jstr) set" where
  "together cs = {(a, b). a \<noteq> b \<and> (\<exists>c \<in> set cs. a \<in> set (kc_memoryIds c) \<and> b \<in> set (kc_memoryIds c))}"

lemma set_sort_ids [simp]: "set (sort_ids ids) = set ids"
  by (simp add: sort_ids_def)

lemma length_sort_ids [simp]: "length (sort_ids ids) = length ids"
  by (simp add: sort_ids_def)

lemma distinct_sort_ids [simp]: "distinct (sort_ids ids) = distinct ids"
  by (metis card_distinct distinct_card length_sort_ids set_sort_ids)

text \<open>The forest of the nodes and the links, and its groups.\<close>

lemma components:
  assumes "distinct ids" and "set es \<subseteq> set ids \<times> set ids"
  shows "\<exists>f0 f1 groups. uf_nodes ids [] = Some f0 \<and> uf_unions es f0 = Some f1 \<and> getGroups f1 = Some groups
    \<and> distinct (concat (large_groups groups))
    \<and> (\<forall>g \<in> set (large_groups groups). set g \<subseteq> set ids \<and> 2 \<le> length g)
    \<and> {(a, b). a \<noteq> b \<and> (\<exists>g \<in> set (large_groups groups). a \<in> set g \<and> b \<in> set g)}
      = {(a, b). a \<noteq> b \<and> (a, b) \<in> (set es \<union> (set es)\<inverse>)\<^sup>+}"
proof -
  have empty: "forest_ok []" "uf_joined [] = {}"
    by (auto simp: forest_ok_def parent_def uf_joined_def dest: root_key)
  from nodes_known [OF empty(1) assms(1)] obtain f0 where f0: "uf_nodes ids [] = Some f0" "forest_ok f0"
      "map fst f0 = ids" "uf_joined f0 = Id_on (set ids)"
    by (auto simp: empty)
  from unions_known [OF f0(2), of es] assms(2) obtain f1 where f1: "uf_unions es f0 = Some f1" "forest_ok f1"
      "map fst f1 = ids" "uf_joined f1 = (Id_on (set ids) \<union> set es \<union> (set es)\<inverse>)\<^sup>+"
    by (auto simp: f0)
  from get_groups_known [OF f1(2)] obtain groups where groups: "getGroups f1 = Some groups" "groups_ok f1 ids groups"
    by (auto simp: f1(3))
  from groups(2) have each: "\<And>g. g \<in> set groups \<Longrightarrow> snd g = filter (\<lambda>i. uf_root f1 i (fst g)) ids"
    and cover: "\<And>i. i \<in> set ids \<Longrightarrow> \<exists>g \<in> set groups. uf_root f1 i (fst g)"
    and keys: "distinct (map fst groups)"
    by (auto simp: groups_ok_def)
  have "distinct (concat (map snd gs))" if "distinct (map fst gs)" "set gs \<subseteq> set groups" for gs
    using that
  proof (induction gs)
    case (Cons g gs)
    have "set (snd g) \<inter> set (snd h) = {}" if h: "h \<in> set gs" for h
    proof (rule ccontr)
      assume "set (snd g) \<inter> set (snd h) \<noteq> {}"
      then obtain i where "i \<in> set (snd g)" "i \<in> set (snd h)" by blast
      then have "uf_root f1 i (fst g)" "uf_root f1 i (fst h)"
        using each [of g] each [of h] h Cons.prems(2) by auto
      then have "fst g = fst h" by (rule root_unique)
      then show False using Cons.prems(1) h by (auto simp: image_iff)
    qed
    moreover have "distinct (snd g)" using each [of g] Cons.prems(2) assms(1) by simp
    ultimately show ?case using Cons by auto
  qed simp
  then have d: "distinct (concat (map snd groups))" using keys by blast
  have large: "set (large_groups groups) \<subseteq> set (map snd groups)" by (auto simp: large_groups_def)
  have dl: "distinct (concat (large_groups groups))"
    using d unfolding large_groups_def by (induction groups) auto
  have same: "(\<exists>g \<in> set (large_groups groups). a \<in> set g \<and> b \<in> set g) \<longleftrightarrow> (a, b) \<in> uf_joined f1" if ab: "a \<noteq> b" for a b
  proof
    assume "\<exists>g \<in> set (large_groups groups). a \<in> set g \<and> b \<in> set g"
    then obtain h where "h \<in> set groups" "a \<in> set (snd h)" "b \<in> set (snd h)" by (auto simp: large_groups_def)
    then show "(a, b) \<in> uf_joined f1" using each [of h] by (auto simp: uf_joined_def)
  next
    assume "(a, b) \<in> uf_joined f1"
    then obtain r where r: "uf_root f1 a r" "uf_root f1 b r" by (auto simp: uf_joined_def)
    have "a \<in> set ids" "b \<in> set ids" using r root_key f1(3) by metis+
    then obtain h where h: "h \<in> set groups" "uf_root f1 a (fst h)" using cover by blast
    with r have "fst h = r" using root_unique by metis
    then have in_h: "a \<in> set (snd h)" "b \<in> set (snd h)"
      using each [OF h(1)] r \<open>a \<in> set ids\<close> \<open>b \<in> set ids\<close> by auto
    then have "card {a, b} \<le> card (set (snd h))" by (intro card_mono) auto
    then have "2 \<le> length (snd h)" using ab card_length [of "snd h"] by simp
    with h(1) in_h show "\<exists>g \<in> set (large_groups groups). a \<in> set g \<and> b \<in> set g"
      by (auto simp: large_groups_def not_less)
  qed
  have drop_refl: "(a, b) \<in> (Id_on S \<union> R)\<^sup>+ \<Longrightarrow> a = b \<or> (a, b) \<in> R\<^sup>+" for a b S and R :: "(jstr \<times> jstr) set"
    by (induction rule: trancl_induct) (auto intro: trancl_into_trancl)
  have "(a, b) \<in> uf_joined f1 \<longleftrightarrow> (a, b) \<in> (set es \<union> (set es)\<inverse>)\<^sup>+" if "a \<noteq> b" for a b
  proof
    assume "(a, b) \<in> uf_joined f1"
    then show "(a, b) \<in> (set es \<union> (set es)\<inverse>)\<^sup>+"
      using drop_refl [of a b "set ids" "set es \<union> (set es)\<inverse>"] that by (simp add: f1(4) Un_assoc)
  next
    assume "(a, b) \<in> (set es \<union> (set es)\<inverse>)\<^sup>+"
    then show "(a, b) \<in> uf_joined f1" unfolding f1(4) by (rule trancl_mono) auto
  qed
  moreover have "set (snd h) \<subseteq> set ids" if "h \<in> set groups" for h
    using each [OF that] by (metis filter_is_subset)
  then have "\<forall>g \<in> set (large_groups groups). set g \<subseteq> set ids \<and> 2 \<le> length g"
    by (fastforce simp: large_groups_def not_less)
  ultimately show ?thesis using f0(1) f1(1) groups(1) dl same by blast
qed


section \<open>The clusters of a run\<close>

lemma distinct_members:
  assumes "distinct (concat gs)" and "\<forall>g \<in> set gs. g \<noteq> []"
  shows "distinct (concat (map sort_ids gs))"
  using assms by (induction gs) auto

lemma find_clusters_known:
  assumes "sets_ok m"
  shows "\<exists>cs. findClusters env m t k = Some cs \<and> distinct (members_of cs)
    \<and> set (members_of cs) \<subseteq> set (map fst m)
    \<and> (\<forall>c \<in> set cs. kc_size c = length (kc_memoryIds c) \<and> 2 \<le> kc_size c)
    \<and> together cs = {(a, b). a \<noteq> b \<and> (a, b) \<in> (linkage m t k)\<^sup>+}"
proof -
  have keys: "distinct (map fst m)" using assms by (simp add: sets_ok_def)
  have sub: "set (linked_pairs m t k) \<subseteq> set (map fst m) \<times> set (map fst m)"
    unfolding linked_pairs_set [OF assms] by (rule linkage_keys)
  obtain f0 f1 groups where run: "uf_nodes (map fst m) [] = Some f0"
      "uf_unions (linked_pairs m t k) f0 = Some f1" "getGroups f1 = Some groups"
    and d: "distinct (concat (large_groups groups))"
    and each: "\<forall>g \<in> set (large_groups groups). set g \<subseteq> set (map fst m) \<and> 2 \<le> length g"
    and same: "{(a, b). a \<noteq> b \<and> (\<exists>g \<in> set (large_groups groups). a \<in> set g \<and> b \<in> set g)}
      = {(a, b). a \<noteq> b \<and> (a, b) \<in> (set (linked_pairs m t k) \<union> (set (linked_pairs m t k))\<inverse>)\<^sup>+}"
    using components [OF keys sub] by blast
  let ?cs = "map (entity_cluster env m) (large_groups groups)"
  have "findClusters env m t k = Some ?cs" by (simp add: findClusters_def run)
  moreover have "members_of ?cs = concat (map sort_ids (large_groups groups))"
    by (simp add: members_of_def entity_cluster_def comp_def)
  moreover from this have "set (members_of ?cs) \<subseteq> set (map fst m)" using each by auto
  moreover have "together ?cs = {(a, b). a \<noteq> b \<and> (\<exists>g \<in> set (large_groups groups). a \<in> set g \<and> b \<in> set g)}"
    by (simp add: together_def entity_cluster_def)
  moreover have "\<forall>g \<in> set (large_groups groups). g \<noteq> []" using each by auto
  ultimately show ?thesis
    using distinct_members [OF d] each unfolding same linked_pairs_set [OF assms] linkage_sym [OF assms]
    by (auto simp: entity_cluster_def)
qed

lemma pairs_of_in: "(a, b) \<in> set (pairs_of xs) \<Longrightarrow> a \<in> set xs \<and> b \<in> set xs"
  by (induction xs) auto

lemma fallback_known:
  assumes "distinct (map (\<lambda>row. row_id te (fst row)) (embeddings orphanIds))"
  shows "\<exists>cs. cosineFallbackClusters env te embeddings orphanIds m t = Some cs \<and> distinct (members_of cs)
    \<and> set (members_of cs) \<subseteq> (\<lambda>row. row_id te (fst row)) ` set (embeddings orphanIds)
    \<and> (\<forall>c \<in> set cs. kc_size c = length (kc_memoryIds c) \<and> 2 \<le> kc_size c)"
proof (cases "orphanIds = []")
  case True
  then show ?thesis by (simp add: cosineFallbackClusters_def members_of_def)
next
  case False
  define rows where "rows = filter (\<lambda>r. length (eb_embedding r) > 0) (map (emb_row_of te) (embeddings orphanIds))"
  have ids: "set (map eb_id rows) \<subseteq> (\<lambda>row. row_id te (fst row)) ` set (embeddings orphanIds)"
    by (auto simp: rows_def emb_row_of_def intro: rev_image_eqI)
  have "map eb_id (map (emb_row_of te) (embeddings orphanIds)) = map (\<lambda>row. row_id te (fst row)) (embeddings orphanIds)"
    by (simp add: emb_row_of_def)
  with assms have "distinct (map eb_id (map (emb_row_of te) (embeddings orphanIds)))" by (simp only:)
  then have keys: "distinct (map eb_id rows)" unfolding rows_def by (rule distinct_map_filter)
  have sub: "set (close_pairs m t rows) \<subseteq> set (map eb_id rows) \<times> set (map eb_id rows)"
    by (auto simp: close_pairs_def dest!: pairs_of_in)
  obtain f0 f1 groups where run: "uf_nodes (map eb_id rows) [] = Some f0"
      "uf_unions (close_pairs m t rows) f0 = Some f1" "getGroups f1 = Some groups"
    and d: "distinct (concat (large_groups groups))"
    and each: "\<forall>g \<in> set (large_groups groups). set g \<subseteq> set (map eb_id rows) \<and> 2 \<le> length g"
    using components [OF keys sub] by blast
  let ?cs = "map (cosine_cluster env m) (large_groups groups)"
  have "cosineFallbackClusters env te embeddings orphanIds m t = Some ?cs"
    unfolding cosineFallbackClusters_def Let_def rows_def [symmetric] by (simp add: False run)
  moreover have "members_of ?cs = concat (map sort_ids (large_groups groups))"
    by (simp add: members_of_def cosine_cluster_def comp_def)
  moreover from this have "set (members_of ?cs) \<subseteq> (\<lambda>row. row_id te (fst row)) ` set (embeddings orphanIds)"
    using each ids by fastforce
  moreover have "\<forall>g \<in> set (large_groups groups). g \<noteq> []" using each by auto
  ultimately show ?thesis
    using distinct_members [OF d] each by (auto simp: cosine_cluster_def)
qed

definition active_ids :: "text_env \<Rightarrow> cluster_reads \<Rightarrow> jstr list" where
  "active_ids te reads = map (\<lambda>row. row_id te (jget row ''id'')) (rd_memories reads)"

text \<open>The second query returns records among those asked for, each once.\<close>

definition embeddings_answer :: "text_env \<Rightarrow> cluster_reads \<Rightarrow> bool" where
  "embeddings_answer te reads =
     (\<forall>ids. distinct (map (\<lambda>row. row_id te (fst row)) (rd_embeddings reads ids))
        \<and> set (map (\<lambda>row. row_id te (fst row)) (rd_embeddings reads ids)) \<subseteq> set ids)"

lemma run_known:
  assumes "distinct (active_ids te reads)" and "embeddings_answer te reads"
  shows "\<exists>es cs ss. run_clusters env te st reads = Some (es, cs, ss)
    \<and> findClusters env (buildEntityMap te (rd_edges reads)) (cs_jaccardThreshold st) (cs_minSharedEntities st) = Some es
    \<and> distinct (members_of (es @ cs @ ss))
    \<and> set (members_of (es @ cs @ ss)) = set (members_of es) \<union> set (active_ids te reads)
    \<and> (\<forall>c \<in> set (es @ cs @ ss). kc_size c = length (kc_memoryIds c) \<and> 1 \<le> kc_size c)"
proof -
  define m where "m = buildEntityMap te (rd_edges reads)"
  obtain es where es: "findClusters env m (cs_jaccardThreshold st) (cs_minSharedEntities st) = Some es"
      "distinct (members_of es)" "\<forall>c \<in> set es. kc_size c = length (kc_memoryIds c) \<and> 2 \<le> kc_size c"
    using find_clusters_known [OF entity_map_ok [of te "rd_edges reads", folded m_def]] by metis
  define orphans where "orphans = collectOrphanMemories te (rd_memories reads) (members_of es)"
  have orphans: "distinct orphans" "set orphans = set (active_ids te reads) - set (members_of es)"
    using assms(1) by (auto simp: orphans_def collectOrphanMemories_def active_ids_def)
  obtain cs where cs: "cosineFallbackClusters env te (rd_embeddings reads) orphans m (cs_cosineThreshold st) = Some cs"
      "distinct (members_of cs)" "set (members_of cs) \<subseteq> set orphans"
      "\<forall>c \<in> set cs. kc_size c = length (kc_memoryIds c) \<and> 2 \<le> kc_size c"
    using fallback_known [of te "rd_embeddings reads" orphans env m "cs_cosineThreshold st"] assms(2)
    unfolding embeddings_answer_def by (metis (no_types, lifting) image_set subset_trans)
  define ss where "ss = map (singleton_cluster env m) (filter (\<lambda>i. i \<notin> set (members_of cs)) orphans)"
  have run: "run_clusters env te st reads = Some (es, cs, ss)"
    by (simp add: run_clusters_def Let_def m_def [symmetric] es(1) orphans_def [symmetric] cs(1) ss_def)
  have ss: "members_of ss = filter (\<lambda>i. i \<notin> set (members_of cs)) orphans"
    by (simp add: ss_def members_of_def singleton_cluster_def comp_def)
  have app: "members_of (es @ cs @ ss) = members_of es @ members_of cs @ members_of ss" by (simp add: members_of_def)
  have "distinct (members_of (es @ cs @ ss))"
    using es(2) cs(2,3) orphans by (auto simp: app ss)
  moreover have "set (members_of (es @ cs @ ss)) = set (members_of es) \<union> set (active_ids te reads)"
    using cs(3) orphans by (auto simp: app ss)
  moreover have "\<forall>c \<in> set (es @ cs @ ss). kc_size c = length (kc_memoryIds c) \<and> 1 \<le> kc_size c"
    using es(3) cs(4) by (auto simp: ss_def singleton_cluster_def)
  ultimately show ?thesis using run es(1) [unfolded m_def] by blast
qed

end
