(* ===== verification/Cluster_Store_Laws.thy ===== *)
theory Cluster_Store_Laws
  imports Memory_Clusters_Laws
begin

text \<open>
  The stored clusters over a run: no row is lost or renamed, memberships only grow, and what a run
  clustered stays together. The properties of the clusterer.
\<close>

section \<open>The table\<close>

definition cluster_ok :: "memory_cluster \<Rightarrow> bool" where
  "cluster_ok c = (distinct (kc_memoryIds c) \<and> kc_size c = length (kc_memoryIds c) \<and> kc_memoryIds c \<noteq> [])"

definition table_ok :: "stored_cluster list \<Rightarrow> bool" where
  "table_ok t = (distinct (map sk_id t) \<and> (\<forall>s \<in> set t. cluster_ok (sk_cluster s)))"

text \<open>A row after some writes: its identity stays and its members remain.\<close>

definition grown :: "stored_cluster \<Rightarrow> stored_cluster \<Rightarrow> bool" where
  "grown s s' =
     (sk_id s' = sk_id s \<and> sk_synthesisId s' = sk_synthesisId s \<and> sk_createdAt s' = sk_createdAt s \<and> sk_updatedAt s' = sk_updatedAt s
      \<and> kc_fingerprintId (sk_cluster s') = kc_fingerprintId (sk_cluster s)
      \<and> set (kc_memoryIds (sk_cluster s)) \<subseteq> set (kc_memoryIds (sk_cluster s')))"

definition table_grown :: "stored_cluster list \<Rightarrow> stored_cluster list \<Rightarrow> bool" where
  "table_grown t t' = list_all2 grown t (take (length t) t')"

definition holds_together :: "stored_cluster list \<Rightarrow> jstr list \<Rightarrow> bool" where
  "holds_together t ids = (\<exists>s \<in> set t. set ids \<subseteq> set (kc_memoryIds (sk_cluster s)))"

lemma grown_refl [simp]: "grown s s"
  by (simp add: grown_def)

lemma grown_trans: "grown a b \<Longrightarrow> grown b c \<Longrightarrow> grown a c"
  by (auto simp: grown_def)

lemma table_grown_refl [simp]: "table_grown t t"
  by (simp add: table_grown_def list_all2_same)

lemma table_grown_length: "table_grown t t' \<Longrightarrow> length t \<le> length t'"
  unfolding table_grown_def by (drule list_all2_lengthD) simp

lemma table_grown_trans:
  assumes "table_grown a b" and "table_grown b c"
  shows "table_grown a c"
proof -
  have "list_all2 grown (take (length a) b) (take (length a) (take (length b) c))"
    using assms(2) unfolding table_grown_def by (rule list_all2_takeI)
  then have "list_all2 grown (take (length a) b) (take (length a) c)"
    using table_grown_length [OF assms(1)] by (simp add: min_absorb1)
  then show ?thesis
    using assms(1) list_all2_trans [of grown grown grown] grown_trans unfolding table_grown_def by metis
qed

lemma grown_together:
  assumes "table_grown t t'" and "holds_together t ids"
  shows "holds_together t' ids"
proof -
  obtain s where s: "s \<in> set t" "set ids \<subseteq> set (kc_memoryIds (sk_cluster s))"
    using assms(2) by (auto simp: holds_together_def)
  from assms(1) s(1) obtain s' where "s' \<in> set (take (length t) t')" "grown s s'"
    unfolding table_grown_def by (metis in_set_conv_nth list_all2_conv_all_nth)
  then show ?thesis using s(2) by (auto simp: holds_together_def grown_def dest: in_set_takeD)
qed

section \<open>One cluster\<close>

lemma best_match_from:
  assumes "foldl (better_match cand) best ss = (Some s, n)"
  shows "best = (Some s, n) \<or> s \<in> set ss \<and> n = overlap_of cand (sk_cluster s)
    \<and> real n / real (length (js_uniq cand)) \<ge> 1 / 2"
  using assms
proof (induction ss arbitrary: best)
  case (Cons r ss)
  have "better_match cand best r = best \<or> better_match cand best r = (Some r, overlap_of cand (sk_cluster r))
      \<and> real (overlap_of cand (sk_cluster r)) / real (length (js_uniq cand)) \<ge> 1 / 2"
    by (simp add: better_match_def Let_def)
  moreover from Cons.IH [of "better_match cand best r"] Cons.prems
  have "better_match cand best r = (Some s, n) \<or> s \<in> set ss \<and> n = overlap_of cand (sk_cluster s)
    \<and> real n / real (length (js_uniq cand)) \<ge> 1 / 2" by simp
  ultimately show ?case by auto
qed simp

lemma reconciled:
  assumes "reconcileWithExisting t cand = Some s"
  shows "s \<in> set t" and "length (js_uniq cand) \<le> 2 * overlap_of cand (sk_cluster s)"
proof -
  let ?ss = "filter (\<lambda>s. list_ex (\<lambda>i. i \<in> set (kc_memoryIds (sk_cluster s))) cand) t"
  obtain n where n: "foldl (better_match cand) (None, 0) ?ss = (Some s, n)"
    using assms unfolding reconcileWithExisting_def by (metis prod.collapse)
  from best_match_from [OF this]
  have s: "s \<in> set ?ss" "1 / 2 \<le> real (overlap_of cand (sk_cluster s)) / real (length (js_uniq cand))" by auto
  then show "s \<in> set t" by simp
  have "length (js_uniq cand) \<noteq> 0" using s(1) by (auto simp: js_uniq_def)
  then have "real (length (js_uniq cand)) \<le> 2 * real (overlap_of cand (sk_cluster s))"
    using s(2) by (simp add: field_simps)
  then show "length (js_uniq cand) \<le> 2 * overlap_of cand (sk_cluster s)" by linarith
qed

lemma merge_cluster_facts [simp]:
  "set (kc_memoryIds (merge_cluster e c)) = set (kc_memoryIds e) \<union> set (kc_memoryIds c)"
  "kc_fingerprintId (merge_cluster e c) = kc_fingerprintId e"
  "distinct (kc_memoryIds (merge_cluster e c))"
  "kc_size (merge_cluster e c) = length (kc_memoryIds (merge_cluster e c))"
  by (simp_all add: merge_cluster_def Let_def)

lemma upsert_known:
  assumes "table_ok t" and "cluster_ok c" and "cd_new_id db t \<notin> set (map sk_id t)"
  shows "case upsertCluster db c t of (t', action) \<Rightarrow> table_ok t' \<and> table_grown t t'
    \<and> holds_together t' (kc_memoryIds c)
    \<and> length t' = (if action = Inserted then Suc (length t) else length t)"
proof (cases "reconcileWithExisting t (kc_memoryIds c)")
  case None
  let ?row = "\<lparr>sk_id = cd_new_id db t, sk_cluster = c, sk_synthesisId = None,
      sk_createdAt = cd_now db t, sk_updatedAt = cd_now db t\<rparr>"
  have "table_ok (t @ [?row])" using assms by (auto simp: table_ok_def)
  moreover have "holds_together (t @ [?row]) (kc_memoryIds c)" by (simp add: holds_together_def)
  ultimately show ?thesis by (simp add: upsertCluster_def None table_grown_def list_all2_same)
next
  case (Some e)
  let ?f = "\<lambda>s. if sk_id s = sk_id e then s\<lparr>sk_cluster := merge_cluster (sk_cluster e) c\<rparr> else s"
  have e: "e \<in> set t" using Some by (rule reconciled)
  have same: "s = e" if "s \<in> set t" "sk_id s = sk_id e" for s
    using that e assms(1) by (auto simp: table_ok_def distinct_map dest: inj_onD)
  have ids: "map sk_id (map ?f t) = map sk_id t" by simp
  have "merged \<noteq> []" if "set merged = set (kc_memoryIds (sk_cluster e)) \<union> set (kc_memoryIds c)" for merged
    using that assms(2) by (auto simp: cluster_ok_def)
  then have "cluster_ok (merge_cluster (sk_cluster e) c)" by (simp add: cluster_ok_def)
  then have "table_ok (map ?f t)" using assms(1) unfolding table_ok_def ids by auto
  moreover have "list_all2 grown t (map ?f t)"
    using same by (auto simp: list_all2_conv_all_nth grown_def dest!: nth_mem)
  moreover have "holds_together (map ?f t) (kc_memoryIds c)"
    unfolding holds_together_def by (rule bexI [of _ "?f e"]) (use e in auto)
  ultimately show ?thesis by (simp add: upsertCluster_def Some table_grown_def)
qed

section \<open>All clusters of a run\<close>

definition fresh_ids :: "cluster_db \<Rightarrow> bool" where
  "fresh_ids db = (\<forall>t. cd_new_id db t \<notin> set (map sk_id t))"

lemma persist_known:
  assumes "table_ok t" and "\<forall>c \<in> set cs. cluster_ok c" and "fresh_ids db"
  shows "case persistClusters db cs t of (t', upserted, inserted) \<Rightarrow> table_ok t' \<and> table_grown t t'
    \<and> (\<forall>c \<in> set cs. holds_together t' (kc_memoryIds c))
    \<and> upserted + inserted = length cs \<and> length t' = length t + inserted"
  using assms(1,2)
proof (induction cs arbitrary: t)
  case (Cons c cs)
  obtain t1 action where t1: "upsertCluster db c t = (t1, action)" by (cases "upsertCluster db c t")
  have new: "cd_new_id db t \<notin> set (map sk_id t)" using assms(3) by (simp add: fresh_ids_def)
  have c: "cluster_ok c" using Cons.prems(2) by simp
  have step: "table_ok t1" "table_grown t t1" "holds_together t1 (kc_memoryIds c)"
      "length t1 = (if action = Inserted then Suc (length t) else length t)"
    using upsert_known [OF Cons.prems(1) c new] by (simp_all add: t1)
  obtain t2 u n where t2: "persistClusters db cs t1 = (t2, u, n)" by (cases "persistClusters db cs t1")
  have rest: "table_ok t2" "table_grown t1 t2" "\<forall>c \<in> set cs. holds_together t2 (kc_memoryIds c)"
      "u + n = length cs" "length t2 = length t1 + n"
    using Cons.IH [OF step(1)] Cons.prems(2) by (simp_all add: t2)
  have "table_grown t t2" using step(2) rest(2) by (rule table_grown_trans)
  moreover have "holds_together t2 (kc_memoryIds c)" using rest(2) step(3) by (rule grown_together)
  ultimately show ?case using rest step(4) by (simp add: t1 t2)
qed simp

lemma distinct_each: "distinct (members_of cs) \<Longrightarrow> c \<in> set cs \<Longrightarrow> distinct (kc_memoryIds c)"
  by (induction cs) (auto simp: members_of_def)

section \<open>Properties\<close>


text \<open>C32: One run clusters and stores everything: it returns, its clusters are disjoint, every active
  memory is in one of them, and afterwards some stored cluster holds together the members of each.
  Earlier rows keep their place, identifier, fingerprint, synthesis and members, sizes stay
  those of the member lists, and the counts of the result add up.\<close>

theorem clustering_keeps_memories:
  assumes "distinct (active_ids te reads)" and "embeddings_answer te reads" and "fresh_ids db" and "table_ok table"
  shows "\<exists>es cs ss r table'. run_clusters env te st reads = Some (es, cs, ss)
    \<and> runClustering env te db st reads table = Some (r, table')
    \<and> distinct (members_of (es @ cs @ ss)) \<and> set (active_ids te reads) \<subseteq> set (members_of (es @ cs @ ss))
    \<and> (\<forall>c \<in> set (es @ cs @ ss). holds_together table' (kc_memoryIds c))
    \<and> table_ok table' \<and> table_grown table table'
    \<and> cx_upserted r + cx_inserted r = cx_totalClusters r
    \<and> length table' = length table + cx_inserted r"
proof -
  obtain es cs ss where run: "run_clusters env te st reads = Some (es, cs, ss)"
      "distinct (members_of (es @ cs @ ss))"
      "set (members_of (es @ cs @ ss)) = set (members_of es) \<union> set (active_ids te reads)"
      "\<forall>c \<in> set (es @ cs @ ss). kc_size c = length (kc_memoryIds c) \<and> 1 \<le> kc_size c"
    using run_known [OF assms(1,2)] by blast
  have "\<forall>c \<in> set (es @ cs @ ss). cluster_ok c"
    using run(4) distinct_each [OF run(2)] by (auto simp: cluster_ok_def simp del: set_append)
  from persist_known [OF assms(4) this assms(3)] obtain table' u n where p:
      "persistClusters db (es @ cs @ ss) table = (table', u, n)" "table_ok table'" "table_grown table table'"
      "\<forall>c \<in> set (es @ cs @ ss). holds_together table' (kc_memoryIds c)"
      "u + n = length (es @ cs @ ss)" "length table' = length table + n"
    by (cases "persistClusters db (es @ cs @ ss) table") auto
  define r where "r = \<lparr>cx_totalClusters = length (es @ cs @ ss), cx_entityClusters = length es,
    cx_cosineClusters = length cs, cx_singletons = length ss, cx_upserted = u, cx_inserted = n\<rparr>"
  have ran: "runClustering env te db st reads table = Some (r, table')"
    by (simp add: runClustering_def run(1) p(1) r_def)
  have sums: "cx_upserted r + cx_inserted r = cx_totalClusters r" "length table' = length table + cx_inserted r"
    using p(5,6) by (simp_all add: r_def)
  have active: "set (active_ids te reads) \<subseteq> set (members_of (es @ cs @ ss))" unfolding run(3) by simp
  show ?thesis
    by (rule exI [of _ es], rule exI [of _ cs], rule exI [of _ ss], rule exI [of _ r], rule exI [of _ table'],
      intro conjI) (rule run(1,2) ran active p(2-4) sums)+
qed

section \<open>A concrete run\<close>

definition demo_text :: text_env where
  "demo_text = \<lparr>te_number = (\<lambda>_. ''0''), te_date = (\<lambda>_. []), te_other = (\<lambda>_. ''?''), te_collate = (\<lambda>_ _. 0)\<rparr>"

definition demo_platform :: js_env where
  "demo_platform = \<lparr>now_ms = 0, parse_other = (\<lambda>_. None), locale_compare = (\<lambda>_ _. 0), sha256_hex = (\<lambda>s. s)\<rparr>"

definition demo_cluster_db :: cluster_db where
  "demo_cluster_db = \<lparr>cd_new_id = (\<lambda>t. concat (map sk_id t) @ ''k''), cd_now = (\<lambda>_. ''2024-03-01'')\<rparr>"

definition demo_settings :: cluster_settings where
  "demo_settings = \<lparr>cs_jaccardThreshold = 3 / 10, cs_cosineThreshold = 82 / 100, cs_minSharedEntities = 1\<rparr>"

definition mention :: "jstr \<Rightarrow> jstr \<Rightarrow> jval" where
  "mention i e = obj [(''memoryId'', JStr i), (''entityId'', JStr e)]"

definition demo_reads :: cluster_reads where
  "demo_reads = \<lparr>rd_edges = [mention ''a'' ''x'', mention ''b'' ''x'', mention ''b'' ''y'', mention ''c'' ''y''],
     rd_memories = map (\<lambda>i. obj [(''id'', JStr i)]) [''a'', ''b'', ''c'', ''d''], rd_embeddings = (\<lambda>_. [])\<rparr>"

lemma demo_fresh: "fresh_ids demo_cluster_db"
proof -
  have "length i < length (concat (map sk_id t) @ ''k'')" if "i \<in> set (map sk_id t)" for i t
    using that by (induction t) auto
  then have "concat (map sk_id t) @ ''k'' \<notin> set (map sk_id t)" for t by (metis less_irrefl)
  then show ?thesis unfolding fresh_ids_def demo_cluster_db_def cluster_db.simps by blast
qed

theorem clustering_keeps_memories_witness:
  "\<exists>r table'. runClustering demo_platform demo_text demo_cluster_db demo_settings demo_reads [] = Some (r, table')
    \<and> table_ok table' \<and> cx_upserted r + cx_inserted r = cx_totalClusters r"
proof -
  have "active_ids demo_text demo_reads = [''a'', ''b'', ''c'', ''d'']" by code_simp
  then have ids: "distinct (active_ids demo_text demo_reads)" by simp
  have answer: "embeddings_answer demo_text demo_reads" by (simp add: embeddings_answer_def demo_reads_def)
  have "table_ok []" by (simp add: table_ok_def)
  from clustering_keeps_memories [OF ids answer demo_fresh this, of demo_platform demo_settings]
  show ?thesis by blast
qed

lemma demo_clusters:
  "map_option (map kc_memoryIds) (findClusters demo_platform (buildEntityMap demo_text (rd_edges demo_reads)) (3 / 10) 1)
   = Some [[''a'', ''b'', ''c'']]"
  by code_simp

text \<open>
  A memory without links today is persisted as a singleton, and when a stored cluster holds it that
  cluster becomes a singleton by name: its method and label are overwritten, its members stay.
\<close>

lemma singleton_overwrites_cluster:
  "(case upsertCluster demo_cluster_db (singleton_cluster demo_platform [] ''a'')
      [\<lparr>sk_id = ''k'', sk_cluster = entity_cluster demo_platform [] [''a'', ''b'', ''c''], sk_synthesisId = None,
        sk_createdAt = [], sk_updatedAt = []\<rparr>] of
      (t, action) \<Rightarrow> map (\<lambda>s. (kc_memoryIds (sk_cluster s), kc_size (sk_cluster s), kc_label (sk_cluster s), kc_method (sk_cluster s))) t)
   = [([''a'', ''b'', ''c''], 3, ''a'', Singleton)]"
  by code_simp

end
