(* ===== verification/Memory_Compaction.thy ===== *)
theory Memory_Compaction
  imports Cosine Js_Value Record_Id "HOL-Library.AList"
begin

text \<open>
  The compactor of memories (\<open>src/src/lifecycle/compaction/memory-compactor.ts\<close>): old memories that are
  close to a confident one are merged into a new memory and then retired. A run is a list of
  statements that change the database; the rows it reads, the embedder, the identifiers of new
  memories and the failures of statements are parameters. Numbers are reals, one instant stands
  for the clock of a run, and log messages are left out.
\<close>

record compactable_entry =
  ce_id :: jstr
  ce_text :: jstr
  ce_embedding :: "real list"
  ce_confidence :: real
  ce_category :: jstr
  ce_tags :: "jstr list"
  ce_lineageRootId :: "jstr option"

record compaction_config =
  cg_enabled :: bool
  cg_minAgeDays :: real
  cg_similarityThreshold :: real
  cg_minClusterSize :: nat
  cg_maxMemoriesToScan :: nat
  cg_dryRun :: bool
  cg_cooldownHours :: real

section \<open>Clusters\<close>

definition confidence_order :: "compactable_entry \<Rightarrow> compactable_entry \<Rightarrow> int" where
  "confidence_order a b =
     (if ce_confidence b - ce_confidence a < 0 then - 1 else if ce_confidence b - ce_confidence a > 0 then 1 else 0)"

definition similar :: "real \<Rightarrow> compactable_entry \<Rightarrow> compactable_entry \<Rightarrow> bool" where
  "similar threshold seed candidate = (cosineSimilarity (ce_embedding seed) (ce_embedding candidate) \<ge> threshold)"

text \<open>The inner loop: the cluster of a seed and the identifiers that are taken.\<close>

fun expand_cluster :: "real \<Rightarrow> compactable_entry \<Rightarrow> compactable_entry list \<Rightarrow> compactable_entry list \<Rightarrow> jstr set
    \<Rightarrow> compactable_entry list \<times> jstr set" where
  "expand_cluster threshold seed [] cluster assigned = (cluster, assigned)"
| "expand_cluster threshold seed (c # cs) cluster assigned =
     (if ce_id c \<in> assigned then expand_cluster threshold seed cs cluster assigned
      else if similar threshold seed c
      then expand_cluster threshold seed cs (cluster @ [c]) (insert (ce_id c) assigned)
      else expand_cluster threshold seed cs cluster assigned)"

text \<open>The outer loop; a cluster that is too small is given up again.\<close>

fun seed_loop :: "real \<Rightarrow> nat \<Rightarrow> compactable_entry list \<Rightarrow> compactable_entry list \<Rightarrow> jstr set
    \<Rightarrow> compactable_entry list list \<Rightarrow> compactable_entry list list" where
  "seed_loop threshold minSize ordered [] assigned clusters = clusters"
| "seed_loop threshold minSize ordered (seed # seeds) assigned clusters =
     (if ce_id seed \<in> assigned then seed_loop threshold minSize ordered seeds assigned clusters
      else (case expand_cluster threshold seed ordered [seed] (insert (ce_id seed) assigned) of
          (cluster, assigned1) \<Rightarrow>
            if length cluster \<ge> minSize
            then seed_loop threshold minSize ordered seeds assigned1 (clusters @ [cluster])
            else seed_loop threshold minSize ordered seeds (assigned1 - set (map ce_id cluster)) clusters))"

definition buildClusters :: "compactable_entry list \<Rightarrow> real \<Rightarrow> nat \<Rightarrow> compactable_entry list list" where
  "buildClusters entries threshold minClusterSize =
     (let ordered = js_sort confidence_order entries in seed_loop threshold minClusterSize ordered ordered {} [])"

section \<open>The merged memory\<close>

record merged_entry =
  me_text :: jstr
  me_confidence :: real
  me_category :: jstr
  me_tags :: "jstr list"
  me_sourceIds :: "jstr list"

definition text_lines :: "jstr \<Rightarrow> jstr list" where
  "text_lines s = split_char (CHR 0x0A) s"

fun add_lines :: "jstr list \<Rightarrow> jstr set \<Rightarrow> jstr list \<Rightarrow> jstr set \<times> jstr list" where
  "add_lines [] seen acc = (seen, acc)"
| "add_lines (line # rest) seen acc =
     (let t = js_trim line
      in if truthy t \<and> js_lower t \<notin> seen then add_lines rest (insert (js_lower t) seen) (acc @ [t])
         else add_lines rest seen acc)"

definition merged_lines :: "compactable_entry list \<Rightarrow> jstr list" where
  "merged_lines members = snd (add_lines (concat (map (\<lambda>m. text_lines (ce_text m)) members)) {} [])"

definition category_counts :: "compactable_entry list \<Rightarrow> (jstr \<times> nat) list" where
  "category_counts members =
     foldl (\<lambda>counts m. AList.update (ce_category m)
         ((case map_of counts (ce_category m) of Some n \<Rightarrow> n | None \<Rightarrow> 0) + 1) counts) [] members"

definition plurality :: "compactable_entry list \<Rightarrow> jstr" where
  "plurality members =
     fst (foldl (\<lambda>best entry. if snd entry > snd best then entry else best)
       (ce_category (hd members), 0) (category_counts members))"

definition buildMergedEntry :: "compactable_entry list \<Rightarrow> merged_entry" where
  "buildMergedEntry members =
     \<lparr>me_text = js_join [CHR 0x0A] (merged_lines members),
      me_confidence = Max (set (map ce_confidence members)), me_category = plurality members,
      me_tags = js_uniq (concat (map ce_tags members)), me_sourceIds = map ce_id members\<rparr>"

section \<open>A run\<close>

record compaction_row =
  cr_id :: raw_id
  cr_embedding :: "real list option"
  cr_data :: "jstr option"
  cr_confidence :: "real option"
  cr_category :: "jstr option"
  cr_tags :: "jstr list option"
  cr_lineageRootId :: "jstr option"

definition or_default :: "'a \<Rightarrow> 'a option \<Rightarrow> 'a" where
  "or_default d v = (case v of Some x \<Rightarrow> x | None \<Rightarrow> d)"

definition fetched_entry :: "compaction_row \<Rightarrow> compactable_entry" where
  "fetched_entry r =
     \<lparr>ce_id = extractId (cr_id r), ce_text = or_default [] (cr_data r), ce_embedding = or_default [] (cr_embedding r),
      ce_confidence = or_default (1 / 2) (cr_confidence r), ce_category = or_default ''cases'' (cr_category r),
      ce_tags = or_default [] (cr_tags r), ce_lineageRootId = cr_lineageRootId r\<rparr>"

record merged_memory =
  mm_id :: jstr
  mm_embedding :: "real list"
  mm_entry :: merged_entry
  mm_textNorm :: jstr
  mm_supersedesId :: jstr
  mm_lineageRootId :: jstr

datatype compaction_write =
    Create_merged merged_memory
  | Inactivate jstr jstr
  | Update_cooldown

record compaction_env =
  cv_platform :: js_env
  cv_cooldown_rows :: "jval list option"
  cv_rows :: "real \<Rightarrow> nat \<Rightarrow> compaction_row list option"
  cv_embed :: "jstr \<Rightarrow> real list option"
  cv_merged_id :: "compaction_write list \<Rightarrow> jstr"
  cv_succeeds :: "compaction_write list \<Rightarrow> compaction_write \<Rightarrow> bool"

record compaction_stats =
  ct_scanned :: nat
  ct_clustersFound :: nat
  ct_memoriesMerged :: nat
  ct_memoriesCreated :: nat
  ct_dryRun :: bool

text \<open>None is a statement or a call that throws; the writes made so far stay.\<close>

definition write_one :: "compaction_env \<Rightarrow> compaction_write \<Rightarrow> compaction_write list \<Rightarrow> bool \<times> compaction_write list" where
  "write_one env w ws = (if cv_succeeds env ws w then (True, ws @ [w]) else (False, ws))"

definition cooldown_active :: "compaction_env \<Rightarrow> compaction_config \<Rightarrow> jval list \<Rightarrow> bool" where
  "cooldown_active env config rows =
     (case rows of
        [] \<Rightarrow> False
      | row # _ \<Rightarrow>
          (let lastRunAt = jget row ''lastRunAt''
           in if nullish lastRunAt \<or> lastRunAt \<in> {JStr [], JBool False, JNum (Fin 0)} then False
              else (case date_parse (cv_platform env) lastRunAt of
                  None \<Rightarrow> False
                | Some t \<Rightarrow> real_of_int (now_ms (cv_platform env) - t) < cg_cooldownHours config * 3600 * 1000)))"

fun inactivate_all :: "compaction_env \<Rightarrow> jstr \<Rightarrow> jstr list \<Rightarrow> compaction_write list \<Rightarrow> bool \<times> compaction_write list" where
  "inactivate_all env mergedId [] ws = (True, ws)"
| "inactivate_all env mergedId (i # ids) ws =
     (case write_one env (Inactivate i mergedId) ws of
        (False, ws1) \<Rightarrow> (False, ws1)
      | (True, ws1) \<Rightarrow> inactivate_all env mergedId ids ws1)"

definition new_memory ::
  "compaction_env \<Rightarrow> compactable_entry list \<Rightarrow> real list \<Rightarrow> compaction_write list \<Rightarrow> merged_memory" where
  "new_memory env cluster embedding ws =
     (let first = hd cluster
      in \<lparr>mm_id = cv_merged_id env ws, mm_embedding = embedding, mm_entry = buildMergedEntry cluster,
           mm_textNorm = js_trim (js_lower (me_text (buildMergedEntry cluster))),
           mm_supersedesId = ce_id first, mm_lineageRootId = or_default (ce_id first) (ce_lineageRootId first)\<rparr>)"

definition merge_cluster_run ::
  "compaction_env \<Rightarrow> compactable_entry list \<Rightarrow> compaction_write list \<Rightarrow> bool \<times> compaction_write list" where
  "merge_cluster_run env cluster ws =
     (case cv_embed env (me_text (buildMergedEntry cluster)) of
        None \<Rightarrow> (False, ws)
      | Some embedding \<Rightarrow>
         (let memory = new_memory env cluster embedding ws
          in case write_one env (Create_merged memory) ws of
               (False, ws1) \<Rightarrow> (False, ws1)
             | (True, ws1) \<Rightarrow> inactivate_all env (mm_id memory) (me_sourceIds (mm_entry memory)) ws1))"

fun cluster_loop :: "compaction_env \<Rightarrow> compaction_config \<Rightarrow> compactable_entry list list \<Rightarrow> compaction_stats
    \<Rightarrow> compaction_write list \<Rightarrow> compaction_stats option \<times> compaction_write list" where
  "cluster_loop env config [] stats ws = (Some stats, ws)"
| "cluster_loop env config (cluster # clusters) stats ws =
     (let stats1 = stats\<lparr>ct_memoriesMerged := ct_memoriesMerged stats + length cluster,
                         ct_memoriesCreated := ct_memoriesCreated stats + 1\<rparr>
      in if cg_dryRun config then cluster_loop env config clusters stats1 ws
         else (case merge_cluster_run env cluster ws of
             (False, ws1) \<Rightarrow> (None, ws1)
           | (True, ws1) \<Rightarrow> cluster_loop env config clusters stats1 ws1))"

text \<open>None is the result \<open>null\<close>, of a run that was not due or that failed.\<close>

definition compaction_cutoff :: "compaction_env \<Rightarrow> compaction_config \<Rightarrow> real" where
  "compaction_cutoff env config =
     real_of_int (now_ms (cv_platform env)) - cg_minAgeDays config * 24 * 3600 * 1000"

definition runCompaction ::
  "compaction_env \<Rightarrow> compaction_config \<Rightarrow> compaction_stats option \<times> compaction_write list" where
  "runCompaction env config =
     (if \<not> cg_enabled config then (None, [])
      else (case cv_cooldown_rows env of
          None \<Rightarrow> (None, [])
        | Some rows \<Rightarrow>
            if cooldown_active env config rows then (None, [])
            else (case cv_rows env (compaction_cutoff env config) (cg_maxMemoriesToScan config) of
                None \<Rightarrow> (None, [])
              | Some fetched \<Rightarrow>
                 (let entries = map fetched_entry fetched
                  in if length entries < cg_minClusterSize config
                     then (Some \<lparr>ct_scanned = length entries, ct_clustersFound = 0, ct_memoriesMerged = 0,
                             ct_memoriesCreated = 0, ct_dryRun = cg_dryRun config\<rparr>, [])
                     else (let clusters = buildClusters entries (cg_similarityThreshold config) (cg_minClusterSize config);
                               stats = \<lparr>ct_scanned = length entries, ct_clustersFound = length clusters,
                                 ct_memoriesMerged = 0, ct_memoriesCreated = 0, ct_dryRun = cg_dryRun config\<rparr>
                           in case cluster_loop env config clusters stats [] of
                                (None, ws) \<Rightarrow> (None, ws)
                              | (Some stats1, ws) \<Rightarrow>
                                 (case write_one env Update_cooldown ws of
                                    (True, ws1) \<Rightarrow> (Some stats1, ws1)
                                  | (False, ws1) \<Rightarrow> (None, ws1)))))))"

end
