(* ===== verification/Memory_Compaction_Laws.thy ===== *)
theory Memory_Compaction_Laws
  imports Memory_Compaction
begin

text \<open>
  What the compactor promises: its clusters are disjoint, large enough, close to their seed and
  exhaustive; and whatever it retires it has first written into a merged memory, line by line.
\<close>

section \<open>The greedy clusters\<close>

text \<open>What the inner loop adds, when identifiers are distinct.\<close>

definition newcomers :: "real \<Rightarrow> compactable_entry \<Rightarrow> compactable_entry list \<Rightarrow> jstr set \<Rightarrow> compactable_entry list" where
  "newcomers t seed cs assigned = filter (\<lambda>c. ce_id c \<notin> assigned \<and> similar t seed c) cs"

lemma expand_cluster_eq:
  assumes "distinct (map ce_id cs)"
  shows "expand_cluster t seed cs cluster assigned
    = (cluster @ newcomers t seed cs assigned, assigned \<union> ce_id ` set (newcomers t seed cs assigned))"
  using assms
proof (induction cs arbitrary: cluster assigned)
  case (Cons c cs)
  have "newcomers t seed cs (insert (ce_id c) assigned) = newcomers t seed cs assigned"
    using Cons.prems by (auto simp: newcomers_def image_iff intro!: filter_cong)
  then show ?case using Cons by (auto simp: newcomers_def)
qed (simp add: newcomers_def)

definition cluster_of :: "real \<Rightarrow> compactable_entry list \<Rightarrow> jstr set \<Rightarrow> compactable_entry \<Rightarrow> compactable_entry list" where
  "cluster_of t entries assigned seed = seed # newcomers t seed entries (insert (ce_id seed) assigned)"

lemma seed_step:
  assumes "distinct (map ce_id entries)"
  shows "seed_loop t n entries (seed # seeds) assigned clusters =
    (if ce_id seed \<in> assigned then seed_loop t n entries seeds assigned clusters
     else if n \<le> length (cluster_of t entries assigned seed)
     then seed_loop t n entries seeds (assigned \<union> ce_id ` set (cluster_of t entries assigned seed))
       (clusters @ [cluster_of t entries assigned seed])
     else seed_loop t n entries seeds assigned clusters)"
proof -
  let ?new = "newcomers t seed entries (insert (ce_id seed) assigned)"
  have new: "ce_id ` set ?new \<inter> assigned = {}" by (auto simp: newcomers_def)
  have "insert (ce_id seed) assigned \<union> ce_id ` set ?new - set (map ce_id (cluster_of t entries assigned seed)) = assigned"
    if "ce_id seed \<notin> assigned"
    using that new by (auto simp: cluster_of_def)
  then show ?thesis by (auto simp: expand_cluster_eq [OF assms] cluster_of_def)
qed

text \<open>A cluster that is found, and an entry that no cluster took.\<close>

definition compact_cluster :: "real \<Rightarrow> nat \<Rightarrow> compactable_entry list \<Rightarrow> compactable_entry list \<Rightarrow> bool" where
  "compact_cluster t n entries c =
     (c \<noteq> [] \<and> n \<le> length c \<and> set c \<subseteq> set entries \<and> (\<forall>m \<in> set (tl c). similar t (hd c) m))"

definition left_over :: "real \<Rightarrow> nat \<Rightarrow> compactable_entry list \<Rightarrow> jstr set \<Rightarrow> compactable_entry \<Rightarrow> bool" where
  "left_over t n entries taken e =
     (Suc (length (newcomers t e entries (insert (ce_id e) taken))) < n)"

lemma newcomers_mono: "A \<subseteq> B \<Longrightarrow> length (newcomers t e entries B) \<le> length (newcomers t e entries A)"
  unfolding newcomers_def by (induction entries) auto

lemma left_over_mono: "left_over t n entries A e \<Longrightarrow> A \<subseteq> B \<Longrightarrow> left_over t n entries B e"
  using newcomers_mono [OF insert_mono, of A B t e entries "ce_id e"] by (simp add: left_over_def)

definition cluster_ids :: "compactable_entry list list \<Rightarrow> jstr list" where
  "cluster_ids cs = map ce_id (concat cs)"

lemma cluster_ids_append [simp]: "cluster_ids (cs @ [c]) = cluster_ids cs @ map ce_id c"
  by (simp add: cluster_ids_def)

lemma seed_loop_spec:
  assumes "distinct (map ce_id entries)" and "set seeds \<subseteq> set entries"
    and "assigned = set (cluster_ids clusters)" and "distinct (cluster_ids clusters)"
    and "\<forall>c \<in> set clusters. compact_cluster t n entries c"
  shows "let result = seed_loop t n entries seeds assigned clusters in
    distinct (cluster_ids result) \<and> (\<forall>c \<in> set result. compact_cluster t n entries c)
    \<and> assigned \<subseteq> set (cluster_ids result)
    \<and> (\<forall>e \<in> set seeds. ce_id e \<in> set (cluster_ids result) \<or> left_over t n entries (set (cluster_ids result)) e)"
  using assms(2-)
proof (induction seeds arbitrary: assigned clusters)
  case Nil
  then show ?case by (simp add: Let_def)
next
  case (Cons seed seeds)
  let ?c = "cluster_of t entries assigned seed"
  show ?case
  proof (cases "ce_id seed \<in> assigned")
    case True
    then have eq: "seed_loop t n entries (seed # seeds) assigned clusters = seed_loop t n entries seeds assigned clusters"
      unfolding seed_step [OF assms(1)] by simp
    have sub: "set seeds \<subseteq> set entries" using Cons.prems(1) by simp
    from Cons.IH [OF sub Cons.prems(2-4)] True show ?thesis unfolding eq Let_def by auto
  next
    case new: False
    have dist: "distinct (map ce_id ?c)"
      using assms(1) by (auto simp: cluster_of_def newcomers_def distinct_map_filter)
    have apart: "set (map ce_id ?c) \<inter> assigned = {}" using new by (auto simp: cluster_of_def newcomers_def)
    show ?thesis
    proof (cases "n \<le> length ?c")
      case True
      have good: "compact_cluster t n entries ?c"
        using True Cons.prems(1) by (auto simp: compact_cluster_def cluster_of_def newcomers_def)
      have next_assigned: "assigned \<union> ce_id ` set ?c = set (cluster_ids (clusters @ [?c]))"
        using Cons.prems(2) by simp
      have next_distinct: "distinct (cluster_ids (clusters @ [?c]))"
        using Cons.prems(2,3) dist apart by auto
      have sub: "set seeds \<subseteq> set entries" using Cons.prems(1) by simp
      have next_good: "\<forall>c \<in> set (clusters @ [?c]). compact_cluster t n entries c"
        using Cons.prems(4) good by simp
      note IH = Cons.IH [OF sub next_assigned next_distinct next_good]
      have "ce_id seed \<in> assigned \<union> ce_id ` set ?c" by (simp add: cluster_of_def)
      moreover have eq: "seed_loop t n entries (seed # seeds) assigned clusters
          = seed_loop t n entries seeds (assigned \<union> ce_id ` set ?c) (clusters @ [?c])"
        using True new unfolding seed_step [OF assms(1)] by simp
      ultimately show ?thesis using IH unfolding eq Let_def by auto
    next
      case False
      have sub: "set seeds \<subseteq> set entries" using Cons.prems(1) by simp
      note IH = Cons.IH [OF sub Cons.prems(2-4)]
      have "left_over t n entries assigned seed" using False by (simp add: left_over_def cluster_of_def)
      then have "assigned \<subseteq> B \<Longrightarrow> left_over t n entries B seed" for B by (rule left_over_mono)
      moreover have eq: "seed_loop t n entries (seed # seeds) assigned clusters = seed_loop t n entries seeds assigned clusters"
        using False new unfolding seed_step [OF assms(1)] by simp
      ultimately show ?thesis using IH unfolding eq Let_def by auto
    qed
  qed
qed

lemma js_sort_ids: "distinct (map ce_id entries) \<Longrightarrow> distinct (map ce_id (js_sort confidence_order entries))"
  by (metis card_distinct distinct_card length_js_sort length_map list.set_map set_js_sort)

section \<open>The merged text\<close>

lemma add_lines_spec:
  assumes "add_lines ls seen acc = (seen', acc')" and "seen = js_lower ` set acc" and "distinct (map js_lower acc)"
  shows "distinct (map js_lower acc')
    \<and> js_lower ` set acc' = js_lower ` set acc \<union> {js_lower (js_trim l) | l. l \<in> set ls \<and> js_trim l \<noteq> []}
    \<and> set acc' \<subseteq> set acc \<union> {js_trim l | l. l \<in> set ls \<and> js_trim l \<noteq> []}"
  using assms
proof (induction ls arbitrary: seen acc)
  case (Cons l ls)
  show ?case
  proof (cases "js_trim l \<noteq> [] \<and> js_lower (js_trim l) \<notin> seen")
    case True
    with Cons.prems(1) have run: "add_lines ls (insert (js_lower (js_trim l)) seen) (acc @ [js_trim l]) = (seen', acc')"
      by (simp add: Let_def)
    have d: "distinct (map js_lower (acc @ [js_trim l]))" using True Cons.prems(2,3) by auto
    from Cons.IH [OF run _ d] Cons.prems(2) True show ?thesis by auto
  next
    case False
    with Cons.prems(1) have run: "add_lines ls seen acc = (seen', acc')" by (auto simp: Let_def)
    from Cons.IH [OF run Cons.prems(2,3)] False Cons.prems(2) show ?thesis by auto
  qed
qed simp

definition source_lines :: "compactable_entry list \<Rightarrow> jstr set" where
  "source_lines members = {js_trim l | l. \<exists>m \<in> set members. l \<in> set (text_lines (ce_text m)) \<and> js_trim l \<noteq> []}"

lemma merged_lines_spec:
  "distinct (map js_lower (merged_lines members))"
  "js_lower ` set (merged_lines members) = js_lower ` source_lines members"
  "set (merged_lines members) \<subseteq> source_lines members"
proof -
  let ?ls = "concat (map (\<lambda>m. text_lines (ce_text m)) members)"
  obtain seen acc where run: "add_lines ?ls {} [] = (seen, acc)" by (cases "add_lines ?ls {} []")
  have acc: "merged_lines members = acc" by (simp add: merged_lines_def run)
  have src: "source_lines members = {js_trim l | l. l \<in> set ?ls \<and> js_trim l \<noteq> []}"
    by (auto simp: source_lines_def)
  note spec = add_lines_spec [OF run]
  show "distinct (map js_lower (merged_lines members))" using spec by (simp add: acc)
  have "js_lower ` {js_trim l | l. l \<in> set ?ls \<and> js_trim l \<noteq> []} = {js_lower (js_trim l) | l. l \<in> set ?ls \<and> js_trim l \<noteq> []}"
    by blast
  then show "js_lower ` set (merged_lines members) = js_lower ` source_lines members"
    unfolding acc src using spec by simp
  show "set (merged_lines members) \<subseteq> source_lines members" unfolding acc src using spec by simp
qed

lemma split_char_free: "p \<in> set (split_char d s) \<Longrightarrow> d \<notin> set p"
  by (induction s arbitrary: p) (auto split: if_splits list.splits)

lemma split_plain: "d \<notin> set p \<Longrightarrow> split_char d p = [p]"
  by (induction p) auto

lemma split_sep: "d \<notin> set p \<Longrightarrow> split_char d (p @ d # s) = p # split_char d s"
  by (induction p) auto

lemma split_join: "ps \<noteq> [] \<Longrightarrow> \<forall>p \<in> set ps. d \<notin> set p \<Longrightarrow> split_char d (js_join [d] ps) = ps"
  by (induction "[d]" ps rule: js_join.induct) (auto simp: split_plain split_sep)

lemma merged_text_lines:
  assumes "merged_lines members \<noteq> []"
  shows "text_lines (me_text (buildMergedEntry members)) = merged_lines members"
proof -
  have "CHR 0x0A \<notin> set p" if "p \<in> source_lines members" for p
    using that set_js_trim split_char_free by (fastforce simp: source_lines_def text_lines_def)
  then have "\<forall>p \<in> set (merged_lines members). CHR 0x0A \<notin> set p" using merged_lines_spec(3) by blast
  with assms show ?thesis by (simp add: text_lines_def buildMergedEntry_def split_join)
qed


section \<open>The writes of a run\<close>

definition source_written :: "compactable_entry list \<Rightarrow> compaction_write list \<Rightarrow> jstr \<Rightarrow> jstr \<Rightarrow> bool" where
  "source_written entries ws i k =
     (\<exists>mm e. Create_merged mm \<in> set ws \<and> mm_id mm = k \<and> e \<in> set entries \<and> ce_id e = i
       \<and> js_lower ` source_lines [e] \<subseteq> js_lower ` set (text_lines (me_text (mm_entry mm))))"

text \<open>Whatever is retired was written before into the memory it names.\<close>

definition write_justified :: "compactable_entry list \<Rightarrow> compaction_write list \<Rightarrow> compaction_write \<Rightarrow> bool" where
  "write_justified entries ws w = (case w of Inactivate i k \<Rightarrow> source_written entries ws i k | _ \<Rightarrow> True)"

definition content_kept :: "compactable_entry list \<Rightarrow> compaction_write list \<Rightarrow> bool" where
  "content_kept entries ws =
     (\<forall>j < length ws. write_justified entries (take j ws) (ws ! j))"

definition retired :: "compaction_write list \<Rightarrow> jstr list" where
  "retired ws = concat (map (\<lambda>w. case w of Inactivate i k \<Rightarrow> [i] | _ \<Rightarrow> []) ws)"

lemma content_kept_snoc:
  "content_kept entries (ws @ [w]) \<longleftrightarrow> content_kept entries ws \<and> write_justified entries ws w"
  unfolding content_kept_def by (auto simp: nth_append less_Suc_eq)

lemma write_justified_simps [simp]:
  "write_justified entries ws (Inactivate i k) = source_written entries ws i k"
  "write_justified entries ws (Create_merged mm)" "write_justified entries ws Update_cooldown"
  by (simp_all add: write_justified_def)

lemma retired_snoc [simp]:
  "retired [] = []" "retired (ws @ [Inactivate i k]) = retired ws @ [i]"
  "retired (ws @ [Create_merged mm]) = retired ws" "retired (ws @ [Update_cooldown]) = retired ws"
  by (simp_all add: retired_def)

lemma source_written_more: "source_written entries ws i k \<Longrightarrow> source_written entries (ws @ [w]) i k"
  by (auto simp: source_written_def)

lemma member_lines:
  assumes "e \<in> set members"
  shows "js_lower ` source_lines [e] \<subseteq> js_lower ` set (text_lines (me_text (buildMergedEntry members)))"
proof (cases "merged_lines members = []")
  case True
  then have "source_lines members = {}" using merged_lines_spec(2) [of members] by simp
  then have "source_lines [e] = {}" using assms by (auto simp: source_lines_def)
  then show ?thesis by simp
next
  case False
  have "source_lines [e] \<subseteq> source_lines members" using assms by (auto simp: source_lines_def)
  then show ?thesis unfolding merged_text_lines [OF False] merged_lines_spec(2) by (rule image_mono)
qed

lemma inactivate_all_spec:
  assumes "inactivate_all env k ids ws = (ok, ws')" and "content_kept entries ws"
    and "\<forall>i \<in> set ids. source_written entries ws i k"
  shows "content_kept entries ws' \<and> (\<exists>j. retired ws' = retired ws @ take j ids)
    \<and> (ok \<longrightarrow> retired ws' = retired ws @ ids)"
  using assms
proof (induction ids arbitrary: ws)
  case (Cons i ids)
  show ?case
  proof (cases "cv_succeeds env ws (Inactivate i k)")
    case True
    with Cons.prems(1) have run: "inactivate_all env k ids (ws @ [Inactivate i k]) = (ok, ws')"
      by (simp add: write_one_def)
    have kept: "content_kept entries (ws @ [Inactivate i k])" using Cons.prems by (simp add: content_kept_snoc)
    have rest: "\<forall>j \<in> set ids. source_written entries (ws @ [Inactivate i k]) j k"
      using Cons.prems(3) source_written_more by simp
    from Cons.IH [OF run kept rest] obtain j where "content_kept entries ws'"
        "retired ws' = retired (ws @ [Inactivate i k]) @ take j ids"
        "ok \<longrightarrow> retired ws' = retired (ws @ [Inactivate i k]) @ ids" by blast
    then show ?thesis by (intro conjI exI [of _ "Suc j"]) simp_all
  next
    case False
    with Cons.prems show ?thesis by (auto simp: write_one_def intro: exI [of _ 0])
  qed
qed auto

lemma merge_cluster_run_spec:
  assumes "merge_cluster_run env cluster ws = (ok, ws')" and "content_kept entries ws" and "set cluster \<subseteq> set entries"
  shows "content_kept entries ws' \<and> (\<exists>j. retired ws' = retired ws @ take j (map ce_id cluster))
    \<and> (ok \<longrightarrow> retired ws' = retired ws @ map ce_id cluster)"
proof (cases "cv_embed env (me_text (buildMergedEntry cluster))")
  case None
  with assms(1,2) show ?thesis by (auto simp: merge_cluster_run_def Let_def intro: exI [of _ 0])
next
  case (Some embedding)
  define mm where "mm = new_memory env cluster embedding ws"
  have mm: "mm_entry mm = buildMergedEntry cluster" by (simp add: mm_def new_memory_def Let_def)
  show ?thesis
  proof (cases "cv_succeeds env ws (Create_merged mm)")
    case False
    with assms(1,2) show ?thesis
      by (auto simp: merge_cluster_run_def Let_def Some mm_def [symmetric] write_one_def intro: exI [of _ 0])
  next
    case True
    have run: "inactivate_all env (mm_id mm) (map ce_id cluster) (ws @ [Create_merged mm]) = (ok, ws')"
      using assms(1) True
      by (simp add: merge_cluster_run_def Let_def Some mm_def [symmetric] write_one_def mm) (simp add: buildMergedEntry_def)
    have kept: "content_kept entries (ws @ [Create_merged mm])" using assms(2) by (simp add: content_kept_snoc)
    have "source_written entries (ws @ [Create_merged mm]) i (mm_id mm)" if i: "i \<in> set (map ce_id cluster)" for i
    proof -
      obtain e where e: "e \<in> set cluster" "ce_id e = i" using i by auto
      from mm e assms(3) member_lines [OF e(1)] show ?thesis
        unfolding source_written_def by (intro exI [of _ mm] exI [of _ e]) auto
    qed
    with inactivate_all_spec [OF run kept] show ?thesis by simp
  qed
qed

lemma cluster_loop_spec:
  assumes "cluster_loop env config clusters stats ws = (r, ws')" and "content_kept entries ws"
    and "\<forall>c \<in> set clusters. set c \<subseteq> set entries"
  shows "content_kept entries ws' \<and> (\<exists>j. retired ws' = retired ws @ take j (cluster_ids clusters))
    \<and> (cg_dryRun config \<longrightarrow> ws' = ws)
    \<and> (\<forall>st. r = Some st \<longrightarrow> ct_memoriesMerged st = ct_memoriesMerged stats + length (cluster_ids clusters)
        \<and> (\<not> cg_dryRun config \<longrightarrow> retired ws' = retired ws @ cluster_ids clusters))"
  using assms
proof (induction clusters arbitrary: stats ws)
  case Nil
  then show ?case by (auto simp: cluster_ids_def)
next
  case (Cons c clusters)
  let ?stats = "stats\<lparr>ct_memoriesMerged := ct_memoriesMerged stats + length c,
    ct_memoriesCreated := ct_memoriesCreated stats + 1\<rparr>"
  have ids: "cluster_ids (c # clusters) = map ce_id c @ cluster_ids clusters" by (simp add: cluster_ids_def)
  have sub: "set c \<subseteq> set entries" "\<forall>c \<in> set clusters. set c \<subseteq> set entries" using Cons.prems(3) by auto
  show ?case
  proof (cases "cg_dryRun config")
    case True
    with Cons.prems(1) have run: "cluster_loop env config clusters ?stats ws = (r, ws')" by (simp add: Let_def)
    from Cons.IH [OF run Cons.prems(2) sub(2)] True show ?thesis by (auto simp: ids intro: exI [of _ 0])
  next
    case False
    obtain ok ws1 where step: "merge_cluster_run env c ws = (ok, ws1)" by (cases "merge_cluster_run env c ws")
    note one = merge_cluster_run_spec [OF step Cons.prems(2) sub(1)]
    then obtain j where j: "content_kept entries ws1" "retired ws1 = retired ws @ take j (map ce_id c)" by blast
    show ?thesis
    proof (cases ok)
      case False
      with \<open>\<not> cg_dryRun config\<close> Cons.prems(1) step have "r = None" "ws' = ws1" by (auto simp: Let_def)
      moreover have "take j (map ce_id c) = take (min j (length c)) (cluster_ids (c # clusters))"
        by (simp add: ids min_def)
      ultimately show ?thesis using j \<open>\<not> cg_dryRun config\<close> by auto
    next
      case True
      with \<open>\<not> cg_dryRun config\<close> Cons.prems(1) step
      have run: "cluster_loop env config clusters ?stats ws1 = (r, ws')" by (simp add: Let_def)
      from one True have all: "retired ws1 = retired ws @ map ce_id c" by simp
      from Cons.IH [OF run j(1) sub(2)] obtain i where i: "content_kept entries ws'"
          "retired ws' = retired ws1 @ take i (cluster_ids clusters)"
        and full: "\<forall>st. r = Some st \<longrightarrow> ct_memoriesMerged st = ct_memoriesMerged ?stats + length (cluster_ids clusters)
          \<and> (\<not> cg_dryRun config \<longrightarrow> retired ws' = retired ws1 @ cluster_ids clusters)" by blast
      have "retired ws' = retired ws @ take (length c + i) (cluster_ids (c # clusters))"
        using i(2) all by (simp add: ids)
      moreover have "\<forall>st. r = Some st \<longrightarrow> ct_memoriesMerged st = ct_memoriesMerged stats + length (cluster_ids (c # clusters))
          \<and> (\<not> cg_dryRun config \<longrightarrow> retired ws' = retired ws @ cluster_ids (c # clusters))"
        using full all by (simp add: ids)
      ultimately show ?thesis using i(1) \<open>\<not> cg_dryRun config\<close> by blast
    qed
  qed
qed


section \<open>Properties\<close>

text \<open>The entries a run works on: those the database returned, if it comes that far.\<close>

definition run_entries :: "compaction_env \<Rightarrow> compaction_config \<Rightarrow> compactable_entry list" where
  "run_entries env config =
     (case cv_rows env (compaction_cutoff env config) (cg_maxMemoriesToScan config) of
        None \<Rightarrow> [] | Some rows \<Rightarrow> map fetched_entry rows)"

abbreviation run_found :: "compaction_env \<Rightarrow> compaction_config \<Rightarrow> compactable_entry list list" where
  "run_found env config \<equiv>
     buildClusters (run_entries env config) (cg_similarityThreshold config) (cg_minClusterSize config)"

lemma clusters_spec:
  assumes "distinct (map ce_id entries)"
  shows "distinct (cluster_ids (buildClusters entries t n))
    \<and> (\<forall>c \<in> set (buildClusters entries t n). compact_cluster t n entries c)
    \<and> (\<forall>e \<in> set entries. ce_id e \<in> set (cluster_ids (buildClusters entries t n))
        \<or> left_over t n (js_sort confidence_order entries) (set (cluster_ids (buildClusters entries t n))) e)"
proof -
  let ?ordered = "js_sort confidence_order entries"
  have "distinct (map ce_id ?ordered)" using assms by (rule js_sort_ids)
  from seed_loop_spec [OF this, of ?ordered "{}" "[]" t n] show ?thesis
    by (simp add: buildClusters_def Let_def cluster_ids_def compact_cluster_def)
qed

lemma left_over_card:
  assumes "distinct (map ce_id entries)"
  shows "left_over t n (js_sort confidence_order entries) taken e
    \<longleftrightarrow> Suc (card {c \<in> set entries. ce_id c \<noteq> ce_id e \<and> ce_id c \<notin> taken \<and> similar t e c}) < n"
proof -
  have "distinct (js_sort confidence_order entries)" using js_sort_ids [OF assms] by (simp add: distinct_map)
  then have "length (newcomers t e (js_sort confidence_order entries) (insert (ce_id e) taken))
      = card (set (newcomers t e (js_sort confidence_order entries) (insert (ce_id e) taken)))"
    unfolding newcomers_def by (intro distinct_card [symmetric] distinct_filter)
  also have "set (newcomers t e (js_sort confidence_order entries) (insert (ce_id e) taken))
      = {c \<in> set entries. ce_id c \<noteq> ce_id e \<and> ce_id c \<notin> taken \<and> similar t e c}"
    by (auto simp: newcomers_def)
  finally show ?thesis by (simp add: left_over_def)
qed

text \<open>C34: The greedy clusters are sound and exhaustive: no memory is in two of them, each has at least the
  required size and every member is within the threshold of its first one; and around a memory
  that no cluster took too few others are left to form one.\<close>

theorem compaction_clusters_exhaustive:
  assumes "distinct (map ce_id entries)" and "clusters = buildClusters entries t n"
  shows "distinct (map ce_id (concat clusters))
    \<and> (\<forall>c \<in> set clusters. c \<noteq> [] \<and> n \<le> length c \<and> set c \<subseteq> set entries \<and> (\<forall>m \<in> set (tl c). similar t (hd c) m))
    \<and> (\<forall>e \<in> set entries. ce_id e \<in> set (map ce_id (concat clusters))
        \<or> Suc (card {c \<in> set entries. ce_id c \<noteq> ce_id e \<and> ce_id c \<notin> set (map ce_id (concat clusters))
            \<and> similar t e c}) < n)"
  using clusters_spec [OF assms(1), of t n] unfolding assms(2) cluster_ids_def compact_cluster_def left_over_card [OF assms(1)]
  by blast

text \<open>How a run ends: before the clusters, or in their loop, or in the statement after it.\<close>

lemma run_cases:
  assumes "runCompaction env config = (r, ws)"
  obtains "ws = []" and "r = None"
  | st where "ws = []" and "r = Some st" and "ct_memoriesMerged st = 0" and "ct_clustersFound st = 0"
  | stats r0 ws0 where "cluster_loop env config (run_found env config) stats [] = (r0, ws0)"
      and "ct_memoriesMerged stats = 0" and "ws = ws0 \<and> r = None \<or> ws = ws0 @ [Update_cooldown] \<and> r = r0"
proof (cases "cg_enabled config \<and> (\<exists>rows. cv_cooldown_rows env = Some rows \<and> \<not> cooldown_active env config rows)
    \<and> (\<exists>fetched. cv_rows env (compaction_cutoff env config) (cg_maxMemoriesToScan config) = Some fetched)")
  case False
  with assms have "ws = []" "r = None" by (auto simp: runCompaction_def split: if_splits option.splits)
  then show ?thesis by (rule that(1))
next
  case True
  then obtain rows fetched where go: "cg_enabled config" "cv_cooldown_rows env = Some rows"
      "\<not> cooldown_active env config rows"
      "cv_rows env (compaction_cutoff env config) (cg_maxMemoriesToScan config) = Some fetched" by auto
  have es: "run_entries env config = map fetched_entry fetched" by (simp add: run_entries_def go(4))
  show ?thesis
  proof (cases "length fetched < cg_minClusterSize config")
    case True
    with assms go have "ws = []" "\<exists>st. r = Some st \<and> ct_memoriesMerged st = 0 \<and> ct_clustersFound st = 0"
      by (auto simp: runCompaction_def Let_def)
    then show ?thesis using that(2) by blast
  next
    case False
    define stats where "stats = \<lparr>ct_scanned = length fetched, ct_clustersFound = length (run_found env config),
      ct_memoriesMerged = 0, ct_memoriesCreated = 0, ct_dryRun = cg_dryRun config\<rparr>"
    obtain r0 ws0 where loop: "cluster_loop env config (run_found env config) stats [] = (r0, ws0)"
      by (cases "cluster_loop env config (run_found env config) stats []")
    have "(r, ws) = (case r0 of None \<Rightarrow> (None, ws0)
      | Some st \<Rightarrow> (case write_one env Update_cooldown ws0 of (True, ws1) \<Rightarrow> (Some st, ws1) | (False, ws1) \<Rightarrow> (None, ws1)))"
      using False assms go loop unfolding stats_def es by (simp add: runCompaction_def Let_def)
    then have "ws = ws0 \<and> r = None \<or> ws = ws0 @ [Update_cooldown] \<and> r = r0"
      by (auto simp: write_one_def split: option.splits if_splits)
    moreover have "ct_memoriesMerged stats = 0" by (simp add: stats_def)
    ultimately show ?thesis using that(3) [OF loop] by blast
  qed
qed

text \<open>C33: A compaction run loses no content, however it ends: every memory it retires was first written,
  line by line up to case, into the merged memory it is retired for, and a failure at any statement
  leaves only such writes behind; no memory is retired twice; a dry run retires nothing; and a run
  that reports statistics without dry run has retired exactly the members of its clusters.\<close>

theorem compaction_keeps_content:
  assumes "runCompaction env config = (r, ws)" and "distinct (map ce_id (run_entries env config))"
  shows "content_kept (run_entries env config) ws \<and> distinct (retired ws)
    \<and> set (retired ws) \<subseteq> set (map ce_id (concat (run_found env config)))
    \<and> (if cg_dryRun config then set ws \<subseteq> {Update_cooldown}
       else case r of Some st \<Rightarrow> ct_memoriesMerged st = length (retired ws)
              \<and> (ct_clustersFound st = 0 \<or> retired ws = map ce_id (concat (run_found env config)))
            | None \<Rightarrow> True)"
proof -
  let ?es = "run_entries env config" and ?cs = "run_found env config"
  have none: "content_kept ?es []" by (simp add: content_kept_def)
  have sound: "distinct (cluster_ids ?cs)" "\<forall>c \<in> set ?cs. set c \<subseteq> set ?es"
    using clusters_spec [OF assms(2)] by (auto simp: compact_cluster_def)
  from assms(1) show ?thesis
  proof (cases rule: run_cases)
    case 1
    then show ?thesis using none by simp
  next
    case (2 st)
    then show ?thesis using none by simp
  next
    case (3 stats r0 ws0)
    note spec = cluster_loop_spec [OF 3(1) none sound(2)]
    then obtain j where j: "retired ws0 = take j (cluster_ids ?cs)" by auto
    have same: "retired ws = retired ws0" "content_kept ?es ws = content_kept ?es ws0"
      using 3(3) by (auto simp: content_kept_snoc)
    have "distinct (retired ws)" using sound(1) by (simp add: same j)
    moreover have "set (retired ws) \<subseteq> set (map ce_id (concat ?cs))"
      unfolding same j by (metis cluster_ids_def set_take_subset)
    moreover have "if cg_dryRun config then set ws \<subseteq> {Update_cooldown}
      else case r of Some st \<Rightarrow> ct_memoriesMerged st = length (retired ws)
          \<and> (ct_clustersFound st = 0 \<or> retired ws = map ce_id (concat ?cs)) | None \<Rightarrow> True"
      using spec 3(2,3) by (auto simp: same cluster_ids_def split: option.splits)
    ultimately show ?thesis using spec same(2) by blast
  qed
qed

section \<open>A concrete run\<close>

definition demo_row :: "jstr \<Rightarrow> jstr \<Rightarrow> real \<Rightarrow> compaction_row" where
  "demo_row i t c = \<lparr>cr_id = Id_string (''memories:'' @ i), cr_embedding = Some [1, 0], cr_data = Some t,
     cr_confidence = Some c, cr_category = None, cr_tags = None, cr_lineageRootId = None\<rparr>"

definition demo_compaction :: compaction_env where
  "demo_compaction =
     \<lparr>cv_platform = \<lparr>now_ms = 0, parse_other = (\<lambda>_. None), locale_compare = (\<lambda>_ _. 0), sha256_hex = (\<lambda>s. s)\<rparr>,
      cv_cooldown_rows = Some [], cv_rows = (\<lambda>_ _. Some [demo_row ''a'' ''Tea'' (1 / 2), demo_row ''b'' ''tea'' 1]),
      cv_embed = (\<lambda>_. Some [1, 0]), cv_merged_id = (\<lambda>_. ''m''), cv_succeeds = (\<lambda>_ _. True)\<rparr>"

definition demo_config :: "bool \<Rightarrow> compaction_config" where
  "demo_config dry = \<lparr>cg_enabled = True, cg_minAgeDays = 7, cg_similarityThreshold = 88 / 100, cg_minClusterSize = 2,
     cg_maxMemoriesToScan = 200, cg_dryRun = dry, cg_cooldownHours = 24\<rparr>"

lemma demo_similar: "similar (88 / 100) a b" if "ce_embedding a = [1, 0]" "ce_embedding b = [1, 0]"
  using that by (simp add: similar_def cosineSimilarity_def)

lemma demo_entries:
  "run_entries demo_compaction (demo_config dry) = map fetched_entry [demo_row ''a'' ''Tea'' (1 / 2), demo_row ''b'' ''tea'' 1]"
  by (simp add: run_entries_def demo_compaction_def)

theorem compaction_clusters_exhaustive_witness:
  "distinct (map ce_id (concat (buildClusters (run_entries demo_compaction (demo_config False)) (88 / 100) 2)))"
proof -
  have "map ce_id (run_entries demo_compaction (demo_config False)) = [''a'', ''b'']"
    unfolding demo_entries by code_simp
  then have "distinct (map ce_id (run_entries demo_compaction (demo_config False)))" by simp
  from compaction_clusters_exhaustive [OF this refl, of "88 / 100" 2] show ?thesis by blast
qed

theorem compaction_keeps_content_witness:
  "\<exists>r ws. runCompaction demo_compaction (demo_config False) = (r, ws) \<and> distinct (retired ws)"
proof -
  obtain r ws where run: "runCompaction demo_compaction (demo_config False) = (r, ws)"
    by (cases "runCompaction demo_compaction (demo_config False)")
  have "map ce_id (run_entries demo_compaction (demo_config False)) = [''a'', ''b'']"
    unfolding demo_entries by code_simp
  then have "distinct (map ce_id (run_entries demo_compaction (demo_config False)))" by simp
  from compaction_keeps_content [OF run this] run show ?thesis by blast
qed


text \<open>A dry run starts the cooldown like a real one, so the real run after it is not due.\<close>

lemma dry_loop: "cg_dryRun config \<Longrightarrow> \<exists>st. cluster_loop env config clusters stats ws = (Some st, ws)"
  by (induction clusters arbitrary: stats) (auto simp: Let_def)

lemma demo_selectors:
  "cv_cooldown_rows demo_compaction = Some []" "cv_succeeds demo_compaction ws w"
  "cv_rows demo_compaction t n = Some [demo_row ''a'' ''Tea'' (1 / 2), demo_row ''b'' ''tea'' 1]"
  "cg_enabled (demo_config dry)" "cg_minClusterSize (demo_config dry) = 2" "cg_dryRun (demo_config dry) = dry"
  by (simp_all add: demo_compaction_def demo_config_def)

lemma dry_run_starts_cooldown: "snd (runCompaction demo_compaction (demo_config True)) = [Update_cooldown]"
proof -
  let ?es = "map fetched_entry [demo_row ''a'' ''Tea'' (1 / 2), demo_row ''b'' ''tea'' 1]"
  let ?cs = "buildClusters ?es (cg_similarityThreshold (demo_config True)) 2"
  obtain st where "cluster_loop demo_compaction (demo_config True) ?cs
      \<lparr>ct_scanned = Suc (Suc 0), ct_clustersFound = length ?cs, ct_memoriesMerged = 0, ct_memoriesCreated = 0, ct_dryRun = True\<rparr> []
      = (Some st, [])"
    using dry_loop [of "demo_config True"] demo_selectors(6) by blast
  then show ?thesis
    by (simp add: runCompaction_def Let_def write_one_def cooldown_active_def demo_selectors)
qed

end
