(* ===== verification/Spec2Isabelle.thy ===== *)
theory Spec2Isabelle
  imports Write_Decision_Laws Write_Judge_Laws Overlay_Contract Canonical_Context Write_Interleaving
    Consumer_Delivery Supersede_Reconcile Overlay_Merge_Laws Staleness_Lock
    Selection_Contract Hexis_Cache Latest_State Minni_Builder_Laws Cluster_Store_Laws Memory_Compaction_Laws
begin

text \<open>
  Verification development of the memory service (TypeScript, the service is under
  \<open>src/src/\<close>). This root theory imports every other one; each of them opens with a
  description of its own.

  \<^bold>\<open>The program.\<close> The service keeps memories of users in a record store and answers recalls from
  it. A request is given an identity (\<open>identity/canonical-context.ts\<close>). A write goes through the
  write arbitrator (\<open>storage/writes/\<close>): from similar stored facts it decides whether to create, skip,
  merge, supersede or ask a judge model, and it issues at most one mutation of the record store
  (\<open>storage/surreal/memory-crud-store.ts\<close>). A stored write is remembered in two caches, the recent
  writes and the overlay (\<open>storage/overlay/\<close>), so that the next recall sees it; the recall checks
  what the overlay shows against the store (\<open>recall/query/overlay-merge.ts\<close>), then ranks, filters,
  collapses and renders its hits (\<open>recall/\<close>, \<open>hexis/\<close>). Content from an admitted producer carries a
  processing lineage. It is minted by the producer authority (\<open>app/processing-policy/\<close>), joined
  conservatively by the protected writers, and delivered only under a grant of the consumer authority
  (\<open>app/consumer-policy/\<close>). Summaries of a producer's events are built and validated in
  \<open>domain/memory/minni-summary-*.ts\<close>. Batch passes retire stale facts, cluster memories and compact
  them (\<open>lifecycle/\<close>).

  \<^bold>\<open>Foundations.\<close>
  \<^item> \<open>Runir_Prelude\<close>: JavaScript strings, sets, sorting; the locales of canonical enumerations
    (\<open>canonical_enum\<close>) and of scans for a best element (\<open>best_scan\<close>); the shared collections.
  \<^item> \<open>Js_Regex\<close>: ECMAScript regular expressions as a syntax tree with a backtracking matcher.
    \<open>Js_Value\<close>, \<open>Js_Json\<close>, \<open>Js_Text\<close>: values of unknown shape with \<open>Date\<close> and platform functions,
    \<open>JSON.parse\<close>, \<open>String(v)\<close>.
  \<^item> \<open>Cosine\<close> (\<open>shared/cosine.ts\<close>), \<open>Record_Id\<close> (\<open>extractId\<close> of \<open>surreal-client.ts\<close>),
    \<open>Canonical_Context\<close> (\<open>canonical-context.ts\<close>: identity, project and partition keys, record ids).

  \<^bold>\<open>Write arbitration.\<close>
  \<^item> \<open>Supersede_Guards\<close>, \<open>Referent_Identity\<close>, \<open>Exact_Qa\<close>, \<open>Write_Signals\<close>: the textual evidence
    (\<open>supersede-guards.ts\<close>, \<open>text-normalize.ts\<close>, \<open>referent-identity.ts\<close>, \<open>referent-keys.ts\<close>,
    \<open>exact-qa.ts\<close>, \<open>write-signals.ts\<close>).
  \<^item> \<open>Write_Decision\<close>: \<open>resolveDecision\<close> of \<open>write-arbitrator.ts\<close>, band by band. \<open>Supersession_Judge\<close>:
    prompt and verdict of the judge (\<open>supersession-judge.ts\<close>, \<open>app/supersession-judge.ts\<close>).
    \<open>Write_Judge\<close>: \<open>resolveJudgeDecision\<close>. \<open>Atomic_Shadow\<close>: the counterfactual evaluation
    (\<open>atomic-shadow.ts\<close>, \<open>atomic-shadow-store.ts\<close>). \<open>Write_Config\<close>: flags and settings.
  \<^item> \<open>Recent_Writes\<close> (\<open>recent-writes.ts\<close>, \<open>overlay-lifecycle.ts\<close>), \<open>Write_Application\<close>: \<open>arbitrateWrite\<close>
    whole, with its world of caches, trace events and mutations.
  \<^item> Laws. \<open>Write_Decision_Laws\<close>: nothing retires or absorbs a fact with conflicting anchors, a text
    supersede has a proven referent. \<open>Write_Judge_Laws\<close>: a retirement is proven or judged for exactly
    that pair. \<open>Write_Effects\<close>: one mutation per write, no effect of a failed write, the writer reads
    its write, the shadow lanes only observe. \<open>Write_Interleaving\<close>: concurrent writes as a step
    relation, of which every run of \<open>arbitrateWrite\<close> is a path; no phantom entries.

  \<^bold>\<open>Overlay.\<close> \<open>Overlay_Store\<close> (\<open>overlay-store.ts\<close>, \<open>overlay-supersession.ts\<close>); \<open>Overlay_Laws\<close>: caps as
  an invariant of the reachable registries; \<open>Overlay_Contract\<close>: the registry refines a map of live
  entries, its interface as a locale; \<open>Overlay_Merge\<close>, \<open>Overlay_Merge_Laws\<close>: the overlay leg of a
  recall shows only what the store confirms, and a fresh write is found.

  \<^bold>\<open>Record store.\<close> \<open>Memory_Record\<close>: rows and the composer of new rows. \<open>Dag_Guard\<close>:
  \<open>lifecycle/semion/dag-guard.ts\<close>. \<open>Supersede_Store\<close>, \<open>Supersede_Laws\<close>: the generic supersede, its
  acyclic graph, and the write skew that two prepared plans leave open. \<open>Protected_Store\<close>,
  \<open>Protected_Laws\<close>, \<open>Protection_Invariant\<close>: all single-row writers, and that protection is never lost
  while they interleave with each other and with the producer's registrations. \<open>Supersede_Reconcile\<close>:
  the readback after an ambiguous failure.

  \<^bold>\<open>Authorities.\<close> \<open>Processing_Lineage\<close> (\<open>domain/memory/processing-lineage.ts\<close>: classifier and join),
  \<open>Capability_Store\<close> (objects as capabilities, the registry as the locale \<open>registry_ops\<close>, which both
  authorities interpret), \<open>Consumer_Authority\<close>, \<open>Consumer_Worlds\<close>, \<open>Consumer_Delivery\<close>,
  \<open>Producer_Authority\<close>, \<open>Producer_Worlds\<close>: reachable worlds in which other code may forge objects and
  mutate what is not frozen; grants are current, a removal is final, minting is authorised.

  \<^bold>\<open>Recall.\<close> \<open>Search_Hit\<close>, \<open>Recall_Intent\<close>, \<open>Recall_Kinds\<close>, \<open>Recall_Policy\<close>, \<open>Recall_Render\<close>,
  \<open>Preference_Packet\<close>, \<open>Recall_Selection\<close>: intent, kinds, policies, rendering and the selection
  pipeline (\<open>recall-selection.ts\<close> and \<open>recall/policy/\<close>). \<open>Collapse_Laws\<close>, \<open>Selection_Laws\<close>,
  \<open>Selection_Contract\<close>: a selection draws from the hits retrieved, obeys path, contract and budget, and
  loses duplicates only. \<open>Hexis\<close>, \<open>Hexis_Laws\<close>, \<open>Hexis_Cache\<close> (\<open>runtime-hexis.ts\<close>,
  \<open>active-hexis-cache.ts\<close>): bounded nudges, isolation of the cache. \<open>Latest_State\<close>
  (\<open>recall/latest-state/\<close>): one representative per identity.

  \<^bold>\<open>Summaries.\<close> \<open>Minni_Time\<close>, \<open>Minni_Events\<close>, \<open>Minni_Contract\<close> (\<open>minni-summary-contract.ts\<close>),
  \<open>Minni_Builder\<close> (\<open>minni-summary-builder.ts\<close>); \<open>Minni_Contract_Laws\<close>, \<open>Minni_Builder_Parts\<close>,
  \<open>Minni_Builder_Laws\<close>: exact timestamps, the round trip of contracts, and that a built summary is
  grounded in the events and the builder accepts exactly the grounded claims.

  \<^bold>\<open>Maintenance.\<close> \<open>Staleness_Pass\<close>, \<open>Staleness_Laws\<close>, \<open>Staleness_Lock\<close> (\<open>staleness-pass.ts\<close>,
  \<open>lock.ts\<close>): a pass retires only what was found and named, one lease holder at a time. \<open>Union_Find\<close>,
  \<open>Memory_Clusters\<close>, \<open>Memory_Clusters_Laws\<close>, \<open>Cluster_Store_Laws\<close> (\<open>memory-clusterer.ts\<close>): clusters are
  the connected components, and stored clusters only grow. \<open>Memory_Compaction\<close>,
  \<open>Memory_Compaction_Laws\<close> (\<open>memory-compactor.ts\<close>): a memory is retired only after its lines are
  stored.

  \<^bold>\<open>Conventions.\<close> A string is a list of characters for the code units U+0000 to U+00FF; patterns of
  Chinese text and other code units beyond that match nothing and are left out, and the em dash of a
  rendered block is the control character 151. A number is a real number (where the code can meet
  \<open>NaN\<close> the model has a case or a parameter for it); rounding is not modelled. A JavaScript map or
  set is the list of its entries in insertion order wherever the order can be seen, and objects with
  identity are addresses of a heap where an aliasing or a weak map matters. Exceptions are the left
  side of a sum or None. An operation reads the clock once. Reasons that the code prints as strings
  with numbers in them are constructors of a datatype. External services are parameters that may
  answer anything their theory does not exclude by a named assumption: the database's queries and
  casts, the searches, embeddings, random identifiers, digests, the judge and the other models,
  \<open>JSON.stringify\<close>, collation and the texts of numbers and dates.

  \<^bold>\<open>Bounds.\<close> Recursions that follow the code's data are structural or have a measure. The star of the
  regular expressions has the rest of the subject as fuel, enough since every round must consume a
  character (\<open>star_ends_enough\<close>). The cycle guard stops at fifty records, so after 49 queries, which is proved. The
  lookup in the disjoint-set forest is a partial function, proved total on every forest the
  clusterer builds. The caps of the code (twenty recent writes, the overlay's tenant and registry
  caps, 256 cached hexis states for five seconds, the token budgets, 500 producer events) are
  the code's constants or parameters and are invariants or bounds of the model.

  \<^bold>\<open>Not modelled.\<close> HTTP routes and wiring, the texts of database queries, clients of language
  models, capture and enrichment of conversations, the fusion of the retrieval lanes, the decay and
  export passes, workspace tools and the command line: input and output, or rules that live in an
  external system. Of the lock module the snapshot backlog writer is left out.

  \<^bold>\<open>What the properties show.\<close> The theorems that stand for the program carry a claim number in the text
  above them; each with a hypothesis has a witness next to it. The theories also compute runs in which
  the code does not do what it seems to mean: two supersedes that close a cycle, a rename whose note is
  lost, a memory text that ends the untrusted block, metadata that the readback cannot explain, a
  singleton that relabels a cluster, a dry run that starts the cooldown.
\<close>

end
